(* ===== verification/Prelude.thy ===== *)
theory Prelude
  imports Main "HOL-Library.Sublist" "HOL-Library.Monad_Syntax" "HOL-Library.Multiset"
begin

text \<open>
  Shared vocabulary of the development: the chain of checks of a guard as an option, the facts on lists and on
  the option monad that several components use, and the collections the language keeps in insertion order
  (\<open>Set\<close>, \<open>Map\<close>).
\<close>

section \<open>Lists and options\<close>

text \<open>A guard of a chain of checks: continue on truth, stop on falsehood.\<close>

definition chk :: "bool \<Rightarrow> unit option" where
  "chk b = (if b then Some () else None)"

lemma chk_Some [simp]: "chk b = Some u \<longleftrightarrow> b"
  by (simp add: chk_def)

lemma chk_None [simp]: "chk b = None \<longleftrightarrow> \<not> b"
  by (simp add: chk_def)

lemma chk_True [simp]: "chk True = Some ()"
  by (simp add: chk_def)

lemma chk_False [simp]: "chk False = None"
  by (simp add: chk_def)

lemma bind_chk [simp]: "Option.bind (chk b) f = (if b then f () else None)"
  by (simp add: chk_def)

lemma bind_SomeE:
  assumes "Option.bind m f = Some y"
  obtains x where "m = Some x" and "f x = Some y"
  using assms by (cases m) auto

text \<open>\<open>xs.every(f)\<close> for a type guard \<open>f\<close>, with the narrowed elements.\<close>

fun parse_all :: "('a \<Rightarrow> 'b option) \<Rightarrow> 'a list \<Rightarrow> 'b list option" where
  "parse_all f [] = Some []"
| "parse_all f (x # xs) =
     (case f x of None \<Rightarrow> None
      | Some y \<Rightarrow> (case parse_all f xs of None \<Rightarrow> None | Some ys \<Rightarrow> Some (y # ys)))"

lemma parse_all_Some_iff:
  "parse_all f xs = Some ys \<longleftrightarrow> list_all2 (\<lambda>x y. f x = Some y) xs ys"
proof (induction xs arbitrary: ys)
  case Nil
  then show ?case by auto
next
  case (Cons x xs)
  show ?case
    by (cases ys) (auto simp: Cons.IH [symmetric] split: option.splits)
qed

lemma parse_all_length: "parse_all f xs = Some ys \<Longrightarrow> length ys = length xs"
  by (auto simp: parse_all_Some_iff dest: list_all2_lengthD)

lemma parse_all_image:
  "parse_all f xs = Some ys \<Longrightarrow> y \<in> set ys \<Longrightarrow> \<exists>x\<in>set xs. f x = Some y"
  by (induction xs arbitrary: ys) (auto split: option.splits)

lemma parse_all_inv:
  assumes "parse_all f xs = Some ys" and "\<And>x y. f x = Some y \<Longrightarrow> P y"
  shows "\<forall>y\<in>set ys. P y"
  using assms parse_all_image by metis

lemma parse_all_map [simp]:
  "(\<And>x. x \<in> set xs \<Longrightarrow> f (g x) = Some x) \<Longrightarrow> parse_all f (map g xs) = Some xs"
  by (induction xs) auto

text \<open>Equal length, no repetition and inclusion make two key lists hold the same keys.\<close>

lemma distinct_subset_same_length:
  assumes "distinct ks" and "set ks \<subseteq> set rs" and "length ks = length rs"
  shows "set ks = set rs" and "distinct rs"
proof -
  have "card (set ks) = length ks" using assms(1) by (rule distinct_card)
  also have "\<dots> \<ge> card (set rs)" using assms(3) card_length [of rs] by simp
  finally have le: "card (set rs) \<le> card (set ks)" .
  then show eq: "set ks = set rs"
    using assms(2) by (metis List.finite_set card_seteq)
  show "distinct rs"
    using assms(1,3) eq by (metis card_distinct distinct_card)
qed

lemma distinct_same_set_length:
  "distinct ks \<Longrightarrow> distinct rs \<Longrightarrow> set ks = set rs \<Longrightarrow> length ks = length rs"
  by (metis distinct_card)

text \<open>\<open>new Set(xs).size === xs.length\<close>.\<close>

definition hasUniqueValues :: "'a list \<Rightarrow> bool" where
  "hasUniqueValues xs \<longleftrightarrow> length (remdups xs) = length xs"

lemma hasUniqueValues_distinct [simp]: "hasUniqueValues xs \<longleftrightarrow> distinct xs"
  by (simp add: hasUniqueValues_def length_remdups_eq)

text \<open>The elements of \<open>new Set(xs)\<close> in insertion order, and \<open>new Map(entries)\<close>: the last entry of a key wins.\<close>

definition js_set :: "'a list \<Rightarrow> 'a list" where
  "js_set xs = rev (remdups (rev xs))"

definition js_map :: "('k \<times> 'v) list \<Rightarrow> 'k \<rightharpoonup> 'v" where
  "js_map es = map_of (rev es)"

lemma set_js_set [simp]: "set (js_set xs) = set xs"
  by (simp add: js_set_def)

lemma distinct_js_set [simp]: "distinct (js_set xs)"
  by (simp add: js_set_def)

lemma length_js_set: "length (js_set xs) = card (set xs)"
  by (metis distinct_card distinct_js_set set_js_set)

lemma js_map_Some: "js_map es k = Some v \<Longrightarrow> (k, v) \<in> set es"
  by (auto simp: js_map_def dest: map_of_SomeD)

lemma js_map_None: "js_map es k = None \<longleftrightarrow> k \<notin> fst ` set es"
  by (simp add: js_map_def map_of_eq_None_iff)

lemma js_map_distinct:
  "distinct (map fst es) \<Longrightarrow> js_map es k = Some v \<longleftrightarrow> (k, v) \<in> set es"
  by (simp add: js_map_def rev_map [symmetric])

text \<open>\<open>find\<close> of the language.\<close>

lemma find_Some_set: "List.find P xs = Some x \<Longrightarrow> x \<in> set xs \<and> P x"
  by (induction xs) (auto split: if_splits)

lemma find_None_set: "List.find P xs = None \<longleftrightarrow> (\<forall>x\<in>set xs. \<not> P x)"
  by (induction xs) auto

text \<open>The first element, in a stably sorted list, that satisfies a test has the least key of all that do.\<close>

lemma find_sorted_least:
  "sorted (map f xs) \<Longrightarrow> List.find P xs = Some x \<Longrightarrow> y \<in> set xs \<Longrightarrow> P y \<Longrightarrow> f x \<le> f y"
  by (induction xs) (auto split: if_splits)

lemma find_sort_key:
  assumes "List.find P (sort_key f xs) = Some x"
  shows "x \<in> set xs" and "P x" and "\<And>y. y \<in> set xs \<Longrightarrow> P y \<Longrightarrow> f x \<le> f y"
  using find_Some_set [OF assms] find_sorted_least [of f "sort_key f xs", OF _ assms] by auto

lemma find_unique:
  assumes "x \<in> set xs" and "P x" and "\<And>y. y \<in> set xs \<Longrightarrow> P y \<Longrightarrow> y = x"
  shows "List.find P xs = Some x"
proof (cases "List.find P xs")
  case None
  with assms(1,2) show ?thesis by (auto simp: find_None_set)
next
  case (Some y)
  with assms(3) [of y] find_Some_set [OF Some] show ?thesis by simp
qed

text \<open>Sorting by a key commutes with an update that leaves the keys alone; removing one element from a filter.\<close>

lemma insort_key_map: "(\<And>x. f (g x) = f x) \<Longrightarrow> map g (insort_key f x xs) = insort_key f (g x) (map g xs)"
  by (induction xs) auto

lemma sort_key_map: "(\<And>x. f (g x) = f x) \<Longrightarrow> sort_key f (map g xs) = map g (sort_key f xs)"
  by (induction xs) (auto simp: insort_key_map)

lemma length_filter_except:
  "distinct xs \<Longrightarrow> x \<in> set xs \<Longrightarrow> P x \<Longrightarrow> Suc (length (filter (\<lambda>y. P y \<and> y \<noteq> x) xs)) = length (filter P xs)"
proof (induction xs)
  case (Cons z zs)
  show ?case
  proof (cases "z = x")
    case True
    with Cons.prems have "filter (\<lambda>y. P y \<and> y \<noteq> x) zs = filter P zs" by (intro filter_cong) auto
    with True Cons.prems show ?thesis by simp
  next
    case False
    with Cons show ?thesis by auto
  qed
qed simp

section \<open>Sorting by a comparison\<close>

text \<open>Stable insertion by a comparison that returns a number.\<close>

fun insert_by :: "('a \<Rightarrow> 'a \<Rightarrow> int) \<Rightarrow> 'a \<Rightarrow> 'a list \<Rightarrow> 'a list" where
  "insert_by f x [] = [x]"
| "insert_by f x (y # ys) = (if f x y \<le> 0 then x # y # ys else y # insert_by f x ys)"

definition sort_by :: "('a \<Rightarrow> 'a \<Rightarrow> int) \<Rightarrow> 'a list \<Rightarrow> 'a list" where
  "sort_by f xs = foldr (insert_by f) xs []"

lemma mset_insert_by [simp]: "mset (insert_by f x xs) = add_mset x (mset xs)"
  by (induction xs) auto

lemma mset_sort_by [simp]: "mset (sort_by f xs) = mset xs"
  by (induction xs) (simp_all add: sort_by_def)

lemma set_sort_by [simp]: "set (sort_by f xs) = set xs"
  using mset_sort_by by (metis set_mset_mset)

lemma length_sort_by [simp]: "length (sort_by f xs) = length xs"
  using mset_sort_by by (metis size_mset)

text \<open>A comparison that orders the elements of a set strictly; sorting distinct elements by it yields ascending neighbours.\<close>

definition strict_cmp :: "('a \<Rightarrow> 'a \<Rightarrow> int) \<Rightarrow> 'a set \<Rightarrow> bool" where
  "strict_cmp f A \<longleftrightarrow>
     (\<forall>x\<in>A. \<forall>y\<in>A. x \<noteq> y \<longrightarrow> f x y \<noteq> 0) \<and> (\<forall>x\<in>A. \<forall>y\<in>A. f x y < 0 \<longleftrightarrow> 0 < f y x)
     \<and> (\<forall>x\<in>A. \<forall>y\<in>A. \<forall>z\<in>A. f x y < 0 \<longrightarrow> f y z < 0 \<longrightarrow> f x z < 0)"

lemma strict_cmpI:
  assumes "\<And>x y. x \<in> A \<Longrightarrow> y \<in> A \<Longrightarrow> x \<noteq> y \<Longrightarrow> f x y \<noteq> 0"
    and "\<And>x y. x \<in> A \<Longrightarrow> y \<in> A \<Longrightarrow> f x y < 0 \<longleftrightarrow> 0 < f y x"
    and "\<And>x y z. x \<in> A \<Longrightarrow> y \<in> A \<Longrightarrow> z \<in> A \<Longrightarrow> f x y < 0 \<Longrightarrow> f y z < 0 \<Longrightarrow> f x z < 0"
  shows "strict_cmp f A"
  unfolding strict_cmp_def by (intro conjI ballI impI) (rule assms; assumption)+

lemma strict_cmp_ne:
  assumes "strict_cmp f A" and "x \<in> A" and "y \<in> A" and "x \<noteq> y"
  shows "f x y \<noteq> 0"
proof -
  from assms(1) have "\<forall>x\<in>A. \<forall>y\<in>A. x \<noteq> y \<longrightarrow> f x y \<noteq> 0" unfolding strict_cmp_def by (elim conjE)
  with assms(2-4) show ?thesis by blast
qed

lemma strict_cmp_anti:
  assumes "strict_cmp f A" and "x \<in> A" and "y \<in> A"
  shows "f x y < 0 \<longleftrightarrow> 0 < f y x"
proof -
  from assms(1) have "\<forall>x\<in>A. \<forall>y\<in>A. f x y < 0 \<longleftrightarrow> 0 < f y x" unfolding strict_cmp_def by (elim conjE)
  with assms(2,3) show ?thesis by blast
qed

lemma strict_cmp_trans:
  assumes "strict_cmp f A" and "x \<in> A" and "y \<in> A" and "z \<in> A" and "f x y < 0" and "f y z < 0"
  shows "f x z < 0"
proof -
  from assms(1) have "\<forall>x\<in>A. \<forall>y\<in>A. \<forall>z\<in>A. f x y < 0 \<longrightarrow> f y z < 0 \<longrightarrow> f x z < 0" unfolding strict_cmp_def by (elim conjE)
  with assms(2-6) show ?thesis by blast
qed

lemma strict_cmp_subset:
  assumes "strict_cmp f A" and "B \<subseteq> A"
  shows "strict_cmp f B"
proof (rule strict_cmpI)
  show "f x y < 0 \<longleftrightarrow> 0 < f y x" if "x \<in> B" "y \<in> B" for x y using that assms(2) by (intro strict_cmp_anti [OF assms(1)]) blast+
  show "f x z < 0" if "x \<in> B" "y \<in> B" "z \<in> B" "f x y < 0" "f y z < 0" for x y z
    using that(1-3) assms(2) by (intro strict_cmp_trans [OF assms(1) _ _ _ that(4,5)]) blast+
qed (use strict_cmp_ne [OF assms(1)] assms(2) in blast)

lemma strict_cmp_cong:
  assumes "strict_cmp f A" and "\<And>x y. x \<in> A \<Longrightarrow> y \<in> A \<Longrightarrow> g x y = f x y"
  shows "strict_cmp g A"
proof (rule strict_cmpI)
  show "g x y < 0 \<longleftrightarrow> 0 < g y x" if "x \<in> A" "y \<in> A" for x y
    unfolding assms(2) [OF that] assms(2) [OF that(2,1)] by (rule strict_cmp_anti [OF assms(1) that])
  show "g x z < 0" if "x \<in> A" "y \<in> A" "z \<in> A" "g x y < 0" "g y z < 0" for x y z
    using that(4,5) unfolding assms(2) [OF that(1,2)] assms(2) [OF that(2,3)] assms(2) [OF that(1,3)]
    by (rule strict_cmp_trans [OF assms(1) that(1-3)])
  show "g x y \<noteq> 0" if "x \<in> A" "y \<in> A" "x \<noteq> y" for x y
    unfolding assms(2) [OF that(1,2)] by (rule strict_cmp_ne [OF assms(1) that])
qed

lemma set_insert_by [simp]: "set (insert_by f x xs) = insert x (set xs)"
  by (induction xs) auto

lemma insert_by_strict:
  assumes "strict_cmp f (insert x (set ys))" and "x \<notin> set ys" and "sorted_wrt (\<lambda>a b. f a b < 0) ys"
  shows "sorted_wrt (\<lambda>a b. f a b < 0) (insert_by f x ys)"
  using assms
proof (induction ys)
  case (Cons y ys)
  have ne: "f x y \<noteq> 0" using Cons.prems(2) by (intro strict_cmp_ne [OF Cons.prems(1)]) auto
  have anti: "f y x < 0 \<longleftrightarrow> 0 < f x y" by (intro strict_cmp_anti [OF Cons.prems(1)]) auto
  have trans: "f x z < 0" if "z \<in> set ys" "f x y < 0" "f y z < 0" for z
    using that(1) by (intro strict_cmp_trans [OF Cons.prems(1) _ _ _ that(2,3)]) auto
  show ?case
  proof (cases "f x y \<le> 0")
    case True
    with ne have "f x y < 0" by simp
    with trans Cons.prems(3) True show ?thesis by auto
  next
    case False
    with anti have "f y x < 0" by simp
    moreover have "sorted_wrt (\<lambda>a b. f a b < 0) (insert_by f x ys)"
      using Cons strict_cmp_subset [OF Cons.prems(1), of "insert x (set ys)"] by auto
    ultimately show ?thesis using Cons.prems(3) False by auto
  qed
qed simp

lemma sort_by_strict: "strict_cmp f (set xs) \<Longrightarrow> distinct xs \<Longrightarrow> sorted_wrt (\<lambda>a b. f a b < 0) (sort_by f xs)"
proof (induction xs)
  case (Cons x xs)
  have "sorted_wrt (\<lambda>a b. f a b < 0) (sort_by f xs)"
    using Cons strict_cmp_subset [OF Cons.prems(1), of "set xs"] by auto
  moreover have "sort_by f (x # xs) = insert_by f x (sort_by f xs)" by (simp add: sort_by_def)
  ultimately show ?case using Cons.prems insert_by_strict [of f x "sort_by f xs"] by simp
qed (simp add: sort_by_def)

text \<open>Comparing by an injective key.\<close>

lemma strict_cmp_key:
  assumes "strict_cmp f (g ` A)" and "inj_on g A"
  shows "strict_cmp (\<lambda>x y. f (g x) (g y)) A"
proof (rule strict_cmpI)
  show "f (g x) (g y) < 0 \<longleftrightarrow> 0 < f (g y) (g x)" if "x \<in> A" "y \<in> A" for x y
    using that by (intro strict_cmp_anti [OF assms(1)]) blast+
  show "f (g x) (g z) < 0" if "x \<in> A" "y \<in> A" "z \<in> A" "f (g x) (g y) < 0" "f (g y) (g z) < 0" for x y z
    using that(1-3) by (intro strict_cmp_trans [OF assms(1) _ _ _ that(4,5)]) blast+
  show "f (g x) (g y) \<noteq> 0" if "x \<in> A" "y \<in> A" "x \<noteq> y" for x y
    using that inj_onD [OF assms(2)] by (intro strict_cmp_ne [OF assms(1)]) blast+
qed

end
