(* ===== verification/JsText.thy ===== *)
theory JsText
  imports Prelude
begin

text \<open>
  Strings. A string of the language is a sequence of 16-bit code units; the model's
  \<open>string\<close> is a list of \<open>char\<close>, one \<open>char\<close> for each code unit below 256. The
  methods below are those the modelled sources call, on that range: white space is the
  language's (tab, line feed, vertical tab, form feed, carriage return, space, no-break space),
  lower case folds the Latin-1 letters, upper case sends sharp s to two letters and leaves the
  two characters whose capital lies outside the range (micro sign, y with diaeresis) unchanged.
\<close>

section \<open>Characters\<close>

definition code_of :: "char \<Rightarrow> nat" where
  "code_of c = of_char c"

definition is_ws :: "char \<Rightarrow> bool" where
  "is_ws c \<longleftrightarrow> (let n = code_of c in (9 \<le> n \<and> n \<le> 13) \<or> n = 32 \<or> n = 160)"

definition in_range :: "char \<Rightarrow> char \<Rightarrow> char \<Rightarrow> bool" where
  "in_range lo hi c \<longleftrightarrow> code_of lo \<le> code_of c \<and> code_of c \<le> code_of hi"

definition is_digit :: "char \<Rightarrow> bool" where
  "is_digit c \<longleftrightarrow> in_range CHR ''0'' CHR ''9'' c"

definition is_lower :: "char \<Rightarrow> bool" where
  "is_lower c \<longleftrightarrow> in_range CHR ''a'' CHR ''z'' c"

definition is_upper :: "char \<Rightarrow> bool" where
  "is_upper c \<longleftrightarrow> in_range CHR ''A'' CHR ''Z'' c"

definition is_lower_alnum :: "char \<Rightarrow> bool" where
  "is_lower_alnum c \<longleftrightarrow> is_lower c \<or> is_digit c"

definition is_alnum :: "char \<Rightarrow> bool" where
  "is_alnum c \<longleftrightarrow> is_lower c \<or> is_upper c \<or> is_digit c"

definition is_hex :: "char \<Rightarrow> bool" where
  "is_hex c \<longleftrightarrow> in_range CHR ''a'' CHR ''f'' c \<or> is_digit c"

definition lower_char :: "char \<Rightarrow> char" where
  "lower_char c =
     (let n = code_of c in
      if (65 \<le> n \<and> n \<le> 90) \<or> (192 \<le> n \<and> n \<le> 222 \<and> n \<noteq> 215) then char_of (n + 32) else c)"

definition upper_char :: "char \<Rightarrow> string" where
  "upper_char c =
     (let n = code_of c in
      if (97 \<le> n \<and> n \<le> 122) \<or> (224 \<le> n \<and> n \<le> 254 \<and> n \<noteq> 247) then [char_of (n - 32)]
      else if n = 223 then ''SS'' else [c])"

section \<open>Methods of strings\<close>

definition toLowerCase :: "string \<Rightarrow> string" where
  "toLowerCase s = map lower_char s"

definition toUpperCase :: "string \<Rightarrow> string" where
  "toUpperCase s = concat (map upper_char s)"

definition trimStart :: "string \<Rightarrow> string" where
  "trimStart s = dropWhile is_ws s"

definition trimEnd :: "string \<Rightarrow> string" where
  "trimEnd s = rev (dropWhile is_ws (rev s))"

definition trim :: "string \<Rightarrow> string" where
  "trim s = trimEnd (trimStart s)"

definition blank :: "string \<Rightarrow> bool" where
  "blank s \<longleftrightarrow> trim s = []"

definition startsWith :: "string \<Rightarrow> string \<Rightarrow> bool" where
  "startsWith s t \<longleftrightarrow> take (length t) s = t"

definition endsWith :: "string \<Rightarrow> string \<Rightarrow> bool" where
  "endsWith s t \<longleftrightarrow> startsWith (rev s) (rev t)"

fun str_includes :: "string \<Rightarrow> string \<Rightarrow> bool" where
  "str_includes [] t \<longleftrightarrow> t = []"
| "str_includes (c # s) t \<longleftrightarrow> startsWith (c # s) t \<or> str_includes s t"

text \<open>\<open>s.split(sep)\<close> for a separator of one character.\<close>

fun split_on :: "char \<Rightarrow> string \<Rightarrow> string list" where
  "split_on sep [] = [[]]"
| "split_on sep (c # s) =
     (if c = sep then [] # split_on sep s
      else (case split_on sep s of [] \<Rightarrow> [[c]] | w # ws \<Rightarrow> (c # w) # ws))"

fun join_with :: "string \<Rightarrow> string list \<Rightarrow> string" where
  "join_with sep [] = []"
| "join_with sep [w] = w"
| "join_with sep (w # v # ws) = w @ sep @ join_with sep (v # ws)"

definition remove_char :: "char \<Rightarrow> string \<Rightarrow> string" where
  "remove_char d s = filter (\<lambda>c. c \<noteq> d) s"

text \<open>The code-unit order of \<open><\<close> on strings.\<close>

fun str_less :: "string \<Rightarrow> string \<Rightarrow> bool" where
  "str_less _ [] = False"
| "str_less [] (_ # _) = True"
| "str_less (c # s) (d # t) =
     (code_of c < code_of d \<or> (code_of c = code_of d \<and> str_less s t))"

definition str_cmp :: "string \<Rightarrow> string \<Rightarrow> int" where
  "str_cmp a b = (if str_less a b then - 1 else if str_less b a then 1 else 0)"

text \<open>Well-formed UTF-16 over the code units themselves: every surrogate is one of a pair.\<close>

fun well_formed_units :: "nat list \<Rightarrow> bool" where
  "well_formed_units [] = True"
| "well_formed_units (u # us) =
     (if 0xd800 \<le> u \<and> u \<le> 0xdbff then
        (case us of [] \<Rightarrow> False
         | v # vs \<Rightarrow> 0xdc00 \<le> v \<and> v \<le> 0xdfff \<and> well_formed_units vs)
      else if 0xdc00 \<le> u \<and> u \<le> 0xdfff then False
      else well_formed_units us)"

definition isWellFormedUtf16 :: "string \<Rightarrow> bool" where
  "isWellFormedUtf16 s \<longleftrightarrow> well_formed_units (map code_of s)"

section \<open>Decimal text\<close>

fun nat_digits :: "nat \<Rightarrow> string" where
  "nat_digits n = (if n < 10 then [char_of (48 + n)] else nat_digits (n div 10) @ [char_of (48 + n mod 10)])"

declare nat_digits.simps [simp del]

definition int_text :: "int \<Rightarrow> string" where
  "int_text n = (if n < 0 then ''-'' @ nat_digits (nat (- n)) else nat_digits (nat n))"

section \<open>Facts\<close>

lemma code_of_less [simp]: "code_of c < 256"
  by (simp add: code_of_def)

lemma code_of_inject [simp]: "code_of c = code_of d \<longleftrightarrow> c = d"
  by (simp add: code_of_def)

lemma isWellFormedUtf16_latin1 [simp]: "isWellFormedUtf16 s"
proof -
  have "\<forall>u\<in>set us. u < 256 \<Longrightarrow> well_formed_units us" for us
    by (induction us rule: well_formed_units.induct) auto
  then show ?thesis by (auto simp: isWellFormedUtf16_def)
qed

lemma includes_iff: "str_includes s t \<longleftrightarrow> (\<exists>u v. s = u @ t @ v)"
proof (induction s)
  case Nil
  then show ?case by auto
next
  case (Cons c s)
  have "startsWith (c # s) t \<longleftrightarrow> (\<exists>v. c # s = t @ v)"
    by (metis append_eq_conv_conj append_take_drop_id startsWith_def)
  with Cons show ?case
    by (auto simp: Cons_eq_append_conv)
qed

lemma startsWith_iff: "startsWith s t \<longleftrightarrow> (\<exists>v. s = t @ v)"
  by (metis append_eq_conv_conj append_take_drop_id startsWith_def)

lemma split_on_nonempty [simp]: "split_on sep s \<noteq> []"
  by (induction s) (auto split: list.splits)

lemma split_on_no_sep: "w \<in> set (split_on sep s) \<Longrightarrow> sep \<notin> set w"
  by (induction s arbitrary: w) (auto split: if_splits list.splits)

lemma join_split: "join_with [sep] (split_on sep s) = s"
proof (induction s)
  case Nil
  then show ?case by simp
next
  case (Cons c s)
  obtain w ws where ws: "split_on sep s = w # ws"
    by (meson neq_Nil_conv split_on_nonempty)
  with Cons show ?case by (cases ws) auto
qed

lemma split_on_append_sep:
  "sep \<notin> set w \<Longrightarrow> split_on sep (w @ sep # s) = w # split_on sep s"
  by (induction w) auto

lemma split_on_plain: "sep \<notin> set w \<Longrightarrow> split_on sep w = [w]"
  by (induction w) auto

lemma split_join:
  "ws \<noteq> [] \<Longrightarrow> (\<forall>w\<in>set ws. sep \<notin> set w) \<Longrightarrow> split_on sep (join_with [sep] ws) = ws"
  by (induction ws rule: induct_list012) (auto simp: split_on_plain split_on_append_sep)

lemma str_less_irrefl [simp]: "\<not> str_less s s"
  by (induction s) auto

lemma str_less_Nil_right [simp]: "\<not> str_less s []"
  by (cases s) auto

lemma str_less_Nil_left [simp]: "str_less [] s \<longleftrightarrow> s \<noteq> []"
  by (cases s) auto

lemma str_less_trans: "str_less a b \<Longrightarrow> str_less b c \<Longrightarrow> str_less a c"
proof (induction a b arbitrary: c rule: str_less.induct)
  case (3 x s y t)
  then show ?case by (cases c) auto
qed auto

lemma str_less_linear: "str_less a b \<or> a = b \<or> str_less b a"
  by (induction a b rule: str_less.induct) auto

lemma str_cmp_simps [simp]:
  "str_cmp a b < 0 \<longleftrightarrow> str_less a b" "str_cmp a b = 0 \<longleftrightarrow> a = b" "0 < str_cmp a b \<longleftrightarrow> str_less b a"
  using str_less_linear [of a b] str_less_trans [of a b a] by (auto simp: str_cmp_def)

lemma str_less_asym: "str_less a b \<Longrightarrow> \<not> str_less b a"
  using str_less_trans [of a b a] by auto

lemma strict_str_cmp: "strict_cmp str_cmp A"
  by (rule strict_cmpI) (auto dest: str_less_trans)

lemma trim_trim [simp]: "trim (trim s) = trim s"
proof -
  have drop: "dropWhile is_ws (dropWhile is_ws u) = dropWhile is_ws u" for u by (induction u) auto
  have keep: "dropWhile is_ws (rev (dropWhile is_ws (rev (dropWhile is_ws u)))) = rev (dropWhile is_ws (rev (dropWhile is_ws u)))" for u
  proof -
    let ?v = "dropWhile is_ws u"
    let ?w = "rev (dropWhile is_ws (rev ?v))"
    have pre: "?v = ?w @ rev (takeWhile is_ws (rev ?v))"
      by (metis rev_append rev_rev_ident takeWhile_dropWhile_id)
    show ?thesis
    proof (cases ?w)
      case Nil
      show ?thesis by (simp only: Nil dropWhile.simps)
    next
      case (Cons c w)
      with pre have "?v = c # (w @ rev (takeWhile is_ws (rev ?v)))" by simp
      then have "\<not> is_ws c" by (metis dropWhile_eq_Cons_conv)
      with Cons show ?thesis by simp
    qed
  qed
  show ?thesis unfolding trim_def trimEnd_def trimStart_def by (simp only: keep rev_rev_ident drop)
qed

lemma trim_map:
  assumes "\<And>c. is_ws (f c) = is_ws c"
  shows "trim (map f s) = map f (trim s)"
proof -
  have d: "dropWhile is_ws (map f u) = map f (dropWhile is_ws u)" for u
    using assms by (induction u) auto
  show ?thesis unfolding trim_def trimEnd_def trimStart_def by (simp add: d rev_map)
qed

lemmas char_eval = is_digit_def is_lower_def is_upper_def is_lower_alnum_def is_alnum_def is_hex_def in_range_def
  code_of_def is_ws_def lower_char_def

end
