(* ===== verification/JsValue.thy ===== *)
theory JsValue
  imports JsText
begin

text \<open>
  Values of the language as the type guards see them: the plain data a decoded request or a
  database row holds. An object is the list of its own enumerable properties in insertion order
  (a property may be present with the value \<open>undefined\<close>); functions, symbols and big
  integers do not occur in such data. A type guard \<open>(value: unknown) => value is T\<close> is a
  function into \<open>T option\<close> that returns the narrowed value exactly when the guard is true.
\<close>

section \<open>Values\<close>

text \<open>
  A number is a double: an integer, a finite non-integer (mantissa and binary exponent), or one
  of the three values that are not finite. Integer doubles are exact below \<open>2 ^ 53\<close>;
  beyond that not every \<open>int\<close> is a double, and the one sum the guards form is rounded by
  \<open>js_succ\<close> as the hardware does.
\<close>

datatype jnum = JInt int | JFrac int nat | JNaN | JPosInf | JNegInf

datatype jsv =
    JUndef
  | JNull
  | JBool bool
  | JNum jnum
  | JStr string
  | JArr "jsv list"
  | JObj "(string \<times> jsv) list"

definition js_succ :: "int \<Rightarrow> int" where
  "js_succ n =
     (if n < 2 ^ 53 then n + 1
      else if n < 2 ^ 54 then (if even (n div 2) then n else n + 2)
      else n)"

section \<open>Access\<close>

fun isRecord :: "jsv \<Rightarrow> bool" where
  "isRecord (JObj kvs) = True"
| "isRecord _ = False"

text \<open>\<open>value.key\<close> on an object; absent is \<open>undefined\<close>.\<close>

fun jget :: "jsv \<Rightarrow> string \<Rightarrow> jsv" where
  "jget (JObj kvs) k = (case map_of kvs k of None \<Rightarrow> JUndef | Some v \<Rightarrow> v)"
| "jget _ k = JUndef"

fun jkeys :: "jsv \<Rightarrow> string list" where
  "jkeys (JObj kvs) = map fst kvs"
| "jkeys _ = []"

definition hasOnlyKeys :: "jsv \<Rightarrow> string list \<Rightarrow> bool" where
  "hasOnlyKeys v allowed \<longleftrightarrow> list_all (\<lambda>k. k \<in> set allowed) (jkeys v)"

definition exactKeys :: "jsv \<Rightarrow> string list \<Rightarrow> bool" where
  "exactKeys v ks \<longleftrightarrow> length (jkeys v) = length ks \<and> list_all (\<lambda>k. k \<in> set ks) (jkeys v)"

text \<open>
  Strict equality of primitives. Two objects are equal only when they are one reference; the
  guards compare with a primitive on one side at least, where the answer is false.
\<close>

fun jnum_eq :: "jnum \<Rightarrow> jnum \<Rightarrow> bool" where
  "jnum_eq JNaN _ = False"
| "jnum_eq a b = (a = b)"

fun js_eq :: "jsv \<Rightarrow> jsv \<Rightarrow> bool" where
  "js_eq JUndef JUndef = True"
| "js_eq JNull JNull = True"
| "js_eq (JBool a) (JBool b) = (a = b)"
| "js_eq (JNum a) (JNum b) = jnum_eq a b"
| "js_eq (JStr a) (JStr b) = (a = b)"
| "js_eq _ _ = False"

text \<open>Truthiness.\<close>

fun truthy :: "jsv \<Rightarrow> bool" where
  "truthy JUndef = False"
| "truthy JNull = False"
| "truthy (JBool b) = b"
| "truthy (JNum JNaN) = False"
| "truthy (JNum (JInt n)) = (n \<noteq> 0)"
| "truthy (JNum _) = True"
| "truthy (JStr s) = (s \<noteq> [])"
| "truthy (JArr _) = True"
| "truthy (JObj _) = True"

section \<open>Narrowing\<close>

fun as_string :: "jsv \<Rightarrow> string option" where
  "as_string (JStr s) = Some s"
| "as_string _ = None"

fun as_bool :: "jsv \<Rightarrow> bool option" where
  "as_bool (JBool b) = Some b"
| "as_bool _ = None"

text \<open>\<open>Number.isInteger\<close>.\<close>

fun as_int :: "jsv \<Rightarrow> int option" where
  "as_int (JNum (JInt n)) = Some n"
| "as_int _ = None"

fun as_array :: "jsv \<Rightarrow> jsv list option" where
  "as_array (JArr xs) = Some xs"
| "as_array _ = None"

definition as_nat_int :: "jsv \<Rightarrow> int option" where
  "as_nat_int v = do { n \<leftarrow> as_int v; chk (0 \<le> n); Some n }"

definition string_where :: "(string \<Rightarrow> bool) \<Rightarrow> jsv \<Rightarrow> string option" where
  "string_where P v = do { s \<leftarrow> as_string v; chk (P s); Some s }"

definition array_of :: "(jsv \<Rightarrow> 'a option) \<Rightarrow> jsv \<Rightarrow> 'a list option" where
  "array_of f v = do { xs \<leftarrow> as_array v; parse_all f xs }"

text \<open>A string of a closed set, given with the constructor each stands for.\<close>

definition enum_of :: "(string \<times> 'a) list \<Rightarrow> jsv \<Rightarrow> 'a option" where
  "enum_of names v = do { s \<leftarrow> as_string v; map_of names s }"

definition enum_put :: "(string \<times> 'a) list \<Rightarrow> 'a \<Rightarrow> jsv" where
  "enum_put names x =
     (case List.find (\<lambda>p. snd p = x) names of None \<Rightarrow> JUndef | Some p \<Rightarrow> JStr (fst p))"

text \<open>An optional property: \<open>value.k === undefined || guard(value.k)\<close>.\<close>

definition opt_field :: "(jsv \<Rightarrow> 'a option) \<Rightarrow> jsv \<Rightarrow> 'a option option" where
  "opt_field f v = (if v = JUndef then Some None else map_option Some (f v))"

text \<open>The property written by an encoder: absent when the field is undefined.\<close>

definition opt_prop :: "string \<Rightarrow> ('a \<Rightarrow> jsv) \<Rightarrow> 'a option \<Rightarrow> (string \<times> jsv) list" where
  "opt_prop k f x = (case x of None \<Rightarrow> [] | Some a \<Rightarrow> [(k, f a)])"

section \<open>Facts\<close>

lemma as_string_Some [simp]: "as_string v = Some s \<longleftrightarrow> v = JStr s"
  by (cases v) auto

lemma as_bool_Some [simp]: "as_bool v = Some b \<longleftrightarrow> v = JBool b"
  by (cases v) auto

lemma as_int_Some [simp]: "as_int v = Some n \<longleftrightarrow> v = JNum (JInt n)"
  by (cases v rule: as_int.cases) auto

lemma as_array_Some [simp]: "as_array v = Some xs \<longleftrightarrow> v = JArr xs"
  by (cases v) auto

lemma isRecord_iff: "isRecord v \<longleftrightarrow> (\<exists>kvs. v = JObj kvs)"
  by (cases v) auto

lemma as_nat_int_Some [simp]: "as_nat_int v = Some n \<longleftrightarrow> v = JNum (JInt n) \<and> 0 \<le> n"
  by (auto simp: as_nat_int_def Option.bind_eq_Some_conv)

lemma string_where_Some [simp]: "string_where P v = Some s \<longleftrightarrow> v = JStr s \<and> P s"
  by (auto simp: string_where_def Option.bind_eq_Some_conv)

lemma array_of_Some: "array_of f v = Some ys \<longleftrightarrow> (\<exists>xs. v = JArr xs \<and> parse_all f xs = Some ys)"
  by (auto simp: array_of_def Option.bind_eq_Some_conv)

lemma enum_of_Some: "enum_of names v = Some x \<longleftrightarrow> (\<exists>s. v = JStr s \<and> map_of names s = Some x)"
  by (auto simp: enum_of_def Option.bind_eq_Some_conv)

lemma array_of_inv:
  assumes "array_of f v = Some ys" and "\<And>x y. f x = Some y \<Longrightarrow> P y"
  shows "\<forall>y\<in>set ys. P y"
  using assms parse_all_inv [of f _ ys P] by (auto simp: array_of_Some)

lemma array_of_map [simp]:
  "(\<And>x. x \<in> set xs \<Longrightarrow> f (g x) = Some x) \<Longrightarrow> array_of f (JArr (map g xs)) = Some xs"
  by (auto simp: array_of_Some)

lemma opt_field_Some:
  "opt_field f v = Some x \<longleftrightarrow>
     (v = JUndef \<and> x = None) \<or> (v \<noteq> JUndef \<and> (\<exists>y. f v = Some y \<and> x = Some y))"
  by (auto simp: opt_field_def)

lemma js_eq_refl_primitive [simp]:
  "js_eq (JStr s) v \<longleftrightarrow> v = JStr s" "js_eq v (JStr s) \<longleftrightarrow> v = JStr s"
  "js_eq (JNum (JInt n)) v \<longleftrightarrow> v = JNum (JInt n)" "js_eq v (JNum (JInt n)) \<longleftrightarrow> v = JNum (JInt n)"
  "js_eq (JBool b) v \<longleftrightarrow> v = JBool b" "js_eq v (JBool b) \<longleftrightarrow> v = JBool b"
       apply (cases v; auto)
      apply (cases v; auto)
     apply (cases v; auto)
    apply (cases v rule: as_int.cases; auto)
   apply (cases v; auto)
  apply (cases v; auto)
  done

lemma js_succ_exact [simp]: "n < 2 ^ 53 \<Longrightarrow> js_succ n = n + 1"
  by (simp add: js_succ_def)

lemma js_succ_ge: "n \<le> js_succ n"
  by (simp add: js_succ_def)

lemma js_succ_le: "js_succ n \<le> n + 2"
  by (simp add: js_succ_def)

end
