(* ===== verification/ReviewGateFacts.thy ===== *)
theory ReviewGateFacts
  imports ReviewGate
begin

text \<open>
  What the review gate promises. The keys that index responses and receipts are injective on
  identifiers without the separator, so the gate's counting of keys is the set condition
  \<open>settled\<close>; lineage and predecessor checks are the closure conditions
  \<open>lineage_closed\<close> and persistence; together they give \<open>gate_approves\<close>, the
  specification of approval. The last part relates the guards to the well-formed inputs.
\<close>

section \<open>Keys\<close>

lemma key2_inject:
  "NUL \<notin> set a \<Longrightarrow> NUL \<notin> set a' \<Longrightarrow> key2 a b = key2 a' b' \<longleftrightarrow> a = a' \<and> b = b'"
proof (induction a arbitrary: a')
  case Nil
  then show ?case by (cases a') (auto simp: key2_def)
next
  case (Cons x a)
  then show ?case by (cases a') (auto simp: key2_def)
qed

lemma replace_first_nul_key2:
  "NUL \<notin> set a \<Longrightarrow> replace_first_nul (NUL # k @ [NUL]) (key2 a b) = key2 a (key2 k b)"
  by (induction a) (auto simp: key2_def)

lemma NUL_not_kind [simp]: "NUL \<notin> set (subject_kind_name k)"
  by (cases k) (auto simp: NUL_def)

lemma subject_kind_name_inject [simp]: "subject_kind_name k = subject_kind_name k' \<longleftrightarrow> k = k'"
  by (cases k; cases k') auto

section \<open>Evidence as sets\<close>

definition required_items :: "review_finding list \<Rightarrow> (string \<times> string) set" where
  "required_items fs = (\<Union>f\<in>set fs. Pair (fd_findingId f) ` set (fd_requiredRemediationItemIds f))"

definition required_tests :: "review_finding list \<Rightarrow> (string \<times> string) set" where
  "required_tests fs = (\<Union>f\<in>set fs. Pair (fd_findingId f) ` set (fd_requiredTestIds f))"

definition response_subject :: "remediation_response \<Rightarrow> string \<times> string" where
  "response_subject r = (rp_findingId r, rp_remediationItemId r)"

definition receipt_subject :: "verification_receipt \<Rightarrow> string \<times> subject_kind \<times> string" where
  "receipt_subject q = (rc_findingId q, rc_subjectKind q, rc_subjectId q)"

definition required_subjects :: "review_finding list \<Rightarrow> (string \<times> subject_kind \<times> string) set" where
  "required_subjects fs =
     (\<lambda>(f, i). (f, SK_remediation_item, i)) ` required_items fs
     \<union> (\<lambda>(f, t). (f, SK_test, t)) ` required_tests fs"

text \<open>
  Remediation is settled: every required item has exactly one response and there is no other
  response, each applied in this cycle on this basis; every required item and test has exactly
  one receipt and there is no other receipt, an item's receipt being a verification of the very
  response to that item and a test's a pass bound to a response to its finding.
\<close>

definition settled :: "review_finding list \<Rightarrow> string \<Rightarrow> remediation_evidence \<Rightarrow> bool" where
  "settled fs h rem \<longleftrightarrow>
     distinct (map response_subject (re_responses rem))
     \<and> response_subject ` set (re_responses rem) = required_items fs
     \<and> (\<forall>r\<in>set (re_responses rem). rp_outcome r = APPLIED \<and> rp_basisManifestHash r = h
          \<and> rp_cycleId r = cy_cycleId (re_cycle rem))
     \<and> distinct (map receipt_subject (re_receipts rem))
     \<and> receipt_subject ` set (re_receipts rem) = required_subjects fs
     \<and> (\<forall>q\<in>set (re_receipts rem). rc_basisManifestHash q = h \<and> rc_cycleId q = cy_cycleId (re_cycle rem)
          \<and> (case rc_subjectKind q of
               SK_remediation_item \<Rightarrow> rc_outcome q = VERIFIED
                 \<and> (\<exists>r\<in>set (re_responses rem). response_subject r = (rc_findingId q, rc_subjectId q)
                      \<and> rp_responseHash r = rc_responseHash q)
             | SK_test \<Rightarrow> rc_outcome q = PASSED
                 \<and> (\<exists>r\<in>set (re_responses rem). rp_findingId r = rc_findingId q
                      \<and> rp_responseHash r = rc_responseHash q)))"

definition wf_findings :: "review_finding list \<Rightarrow> bool" where
  "wf_findings fs \<longleftrightarrow> distinct (map fd_findingId fs)
     \<and> (\<forall>f\<in>set fs. distinct (fd_requiredRemediationItemIds f) \<and> distinct (fd_requiredTestIds f))"

definition nul_free_findings :: "review_finding list \<Rightarrow> bool" where
  "nul_free_findings fs \<longleftrightarrow> (\<forall>f\<in>set fs. NUL \<notin> set (fd_findingId f))"

definition nul_free_remediation :: "remediation_evidence \<Rightarrow> bool" where
  "nul_free_remediation rem \<longleftrightarrow>
     (\<forall>r\<in>set (re_responses rem). NUL \<notin> set (rp_findingId r))
     \<and> (\<forall>q\<in>set (re_receipts rem). NUL \<notin> set (rc_findingId q))"

definition key_of_pair :: "string \<times> string \<Rightarrow> string" where
  "key_of_pair p = key2 (fst p) (snd p)"

definition key_of_triple :: "string \<times> subject_kind \<times> string \<Rightarrow> string" where
  "key_of_triple p = key2 (fst p) (key2 (subject_kind_name (fst (snd p))) (snd (snd p)))"

lemma inj_on_key_of_pair: "(\<forall>p\<in>A. NUL \<notin> set (fst p)) \<Longrightarrow> inj_on key_of_pair A"
  by (rule inj_onI) (auto simp: key_of_pair_def key2_inject prod_eq_iff)

lemma inj_on_key_of_triple: "(\<forall>p\<in>A. NUL \<notin> set (fst p)) \<Longrightarrow> inj_on key_of_triple A"
  by (rule inj_onI) (auto simp: key_of_triple_def key2_inject prod_eq_iff)

lemma required_keys_as_pairs:
  "required_item_keys fs = map key_of_pair
     (concat (map (\<lambda>f. map (Pair (fd_findingId f)) (fd_requiredRemediationItemIds f)) fs))"
  "required_test_keys fs = map key_of_pair
     (concat (map (\<lambda>f. map (Pair (fd_findingId f)) (fd_requiredTestIds f)) fs))"
  by (simp_all add: required_item_keys_def required_test_keys_def map_concat comp_def key_of_pair_def)

lemma set_required_keys:
  "set (required_item_keys fs) = key_of_pair ` required_items fs"
  "set (required_test_keys fs) = key_of_pair ` required_tests fs"
  by (auto simp: required_keys_as_pairs required_items_def required_tests_def)

lemma distinct_required_pairs:
  assumes "distinct (map fd_findingId fs)" and "\<forall>f\<in>set fs. distinct (g f)"
  shows "distinct (concat (map (\<lambda>f. map (Pair (fd_findingId f)) (g f)) fs))"
  using assms by (induction fs) (auto simp: distinct_map inj_on_def)

lemma distinct_required_keys:
  assumes "wf_findings fs" and "nul_free_findings fs"
  shows "distinct (required_item_keys fs)" and "distinct (required_test_keys fs)"
proof -
  note d = distinct_required_pairs [of fs fd_requiredRemediationItemIds]
    distinct_required_pairs [of fs fd_requiredTestIds]
  have "NUL \<notin> set (fst p)" if "p \<in> set (concat (map (\<lambda>f. map (Pair (fd_findingId f)) (g f)) fs))" for p g
    using that assms(2) by (auto simp: nul_free_findings_def)
  then show "distinct (required_item_keys fs)" "distinct (required_test_keys fs)"
    using d assms(1)
    using assms(2)
    by (auto simp: required_keys_as_pairs distinct_map wf_findings_def nul_free_findings_def
          intro!: inj_on_key_of_pair)
qed

text \<open>The counting argument: a duplicate-free key list of the right length inside the required keys is exactly the required set.\<close>

lemma keys_exactly_required:
  assumes inj: "inj_on k (S \<union> set xs)" and ks: "set ks = k ` S" and d: "distinct ks"
  shows "distinct (map k xs) \<and> length (map k xs) = length ks \<and> set (map k xs) \<subseteq> set ks
         \<longleftrightarrow> distinct xs \<and> set xs = S"
proof
  assume a: "distinct (map k xs) \<and> length (map k xs) = length ks \<and> set (map k xs) \<subseteq> set ks"
  then have "set (map k xs) = set ks" by (metis distinct_subset_same_length(1))
  then have "k ` set xs = k ` S" using ks by simp
  then have "set xs = S" using inj by (simp add: inj_on_image_eq_iff)
  with a show "distinct xs \<and> set xs = S" by (simp add: distinct_map)
next
  assume b: "distinct xs \<and> set xs = S"
  then have dm: "distinct (map k xs)" using inj by (simp add: distinct_map)
  moreover have "set (map k xs) = set ks" using b ks by simp
  ultimately show "distinct (map k xs) \<and> length (map k xs) = length ks \<and> set (map k xs) \<subseteq> set ks"
    using d by (metis distinct_same_set_length order_refl)
qed

lemma response_key_pair: "response_key = key_of_pair \<circ> response_subject"
  by (auto simp: response_key_def key_of_pair_def response_subject_def)

lemma receipt_key_triple: "receipt_key = key_of_triple \<circ> receipt_subject"
  by (auto simp: receipt_key_def key_of_triple_def receipt_subject_def)

lemma nul_free_required:
  assumes "nul_free_findings fs"
  shows "p \<in> required_items fs \<Longrightarrow> NUL \<notin> set (fst p)"
    and "p \<in> required_tests fs \<Longrightarrow> NUL \<notin> set (fst p)"
    and "t \<in> required_subjects fs \<Longrightarrow> NUL \<notin> set (fst t)"
  using assms by (auto simp: required_items_def required_tests_def required_subjects_def nul_free_findings_def)

lemma responses_exactly_required:
  assumes "wf_findings fs" and "nul_free_findings fs"
    and "\<forall>r\<in>set rs. NUL \<notin> set (rp_findingId r)"
  shows "distinct (map response_key rs) \<and> length rs = length (required_item_keys fs)
           \<and> response_key ` set rs \<subseteq> set (required_item_keys fs)
         \<longleftrightarrow> distinct (map response_subject rs) \<and> response_subject ` set rs = required_items fs"
proof -
  have "inj_on key_of_pair (required_items fs \<union> set (map response_subject rs))"
    using assms(3) nul_free_required(1) [OF assms(2)]
    by (intro inj_on_key_of_pair) (auto simp: response_subject_def)
  from keys_exactly_required [OF this set_required_keys(1) distinct_required_keys(1) [OF assms(1,2)]]
  show ?thesis by (simp add: response_key_pair image_comp)
qed

lemma required_receipt_keys_triples:
  assumes "nul_free_findings fs"
  shows "required_receipt_keys fs =
     map key_of_triple
       (map (\<lambda>(f, i). (f, SK_remediation_item, i))
          (concat (map (\<lambda>f. map (Pair (fd_findingId f)) (fd_requiredRemediationItemIds f)) fs))
        @ map (\<lambda>(f, i). (f, SK_test, i))
          (concat (map (\<lambda>f. map (Pair (fd_findingId f)) (fd_requiredTestIds f)) fs)))"
  using assms
  by (auto simp: required_receipt_keys_def required_keys_as_pairs replace_first_nul_key2
        key_of_pair_def key_of_triple_def nul_free_findings_def
        simp del: append_Cons append_Nil)

lemma receipts_exactly_required:
  assumes wf: "wf_findings fs" and nf: "nul_free_findings fs"
    and nq: "\<forall>q\<in>set qs. NUL \<notin> set (rc_findingId q)"
  shows "distinct (map receipt_key qs) \<and> length qs = length (required_receipt_keys fs)
           \<and> receipt_key ` set qs \<subseteq> set (required_receipt_keys fs)
         \<longleftrightarrow> distinct (map receipt_subject qs) \<and> receipt_subject ` set qs = required_subjects fs"
proof -
  let ?items = "concat (map (\<lambda>f. map (Pair (fd_findingId f)) (fd_requiredRemediationItemIds f)) fs)"
  let ?tests = "concat (map (\<lambda>f. map (Pair (fd_findingId f)) (fd_requiredTestIds f)) fs)"
  let ?ts = "map (\<lambda>(f, i). (f, SK_remediation_item, i)) ?items @ map (\<lambda>(f, i). (f, SK_test, i)) ?tests"
  have set_ts: "set ?ts = required_subjects fs"
    by (auto simp: required_subjects_def required_items_def required_tests_def)
  have "distinct ?items" "distinct ?tests"
    using wf by (auto simp: wf_findings_def intro!: distinct_required_pairs)
  then have d: "distinct ?ts"
    by (auto simp: distinct_map inj_on_def)
  have inj: "inj_on key_of_triple (required_subjects fs \<union> set (map receipt_subject qs))"
    using nq nul_free_required(3) [OF nf]
    by (intro inj_on_key_of_triple) (auto simp: receipt_subject_def)
  have ks: "set (required_receipt_keys fs) = key_of_triple ` required_subjects fs"
    by (simp only: required_receipt_keys_triples [OF nf] set_map set_ts)
  have dk: "distinct (required_receipt_keys fs)"
    using d inj_on_subset [OF inj, of "set ?ts"]
    by (simp only: required_receipt_keys_triples [OF nf] distinct_map set_ts) auto
  from keys_exactly_required [OF inj ks dk]
  show ?thesis by (simp add: receipt_key_triple image_comp)
qed

text \<open>The hash looked up by the key of an item is the hash of the response to that item.\<close>

lemma response_hash_lookup:
  assumes d: "distinct (map response_key rs)" and n: "\<forall>r\<in>set rs. NUL \<notin> set (rp_findingId r)"
    and f: "NUL \<notin> set f"
  shows "js_map (map (\<lambda>r. (response_key r, rp_responseHash r)) rs) (key2 f i) = Some h
         \<longleftrightarrow> (\<exists>r\<in>set rs. response_subject r = (f, i) \<and> rp_responseHash r = h)"
proof -
  have "distinct (map fst (map (\<lambda>r. (response_key r, rp_responseHash r)) rs))"
    using d by (simp add: comp_def)
  from js_map_distinct [OF this, of "key2 f i" h] show ?thesis
    using n f by (auto simp: response_key_def response_subject_def key2_inject)
qed

lemma remediationIsComplete_iff:
  assumes wf: "wf_findings fs" and nf: "nul_free_findings fs" and nr: "nul_free_remediation rem"
  shows "remediationIsComplete fs h rem \<longleftrightarrow> settled fs h rem"
proof -
  have n1: "\<forall>r\<in>set (re_responses rem). NUL \<notin> set (rp_findingId r)"
    and n2: "\<forall>q\<in>set (re_receipts rem). NUL \<notin> set (rc_findingId q)"
    using nr by (auto simp: nul_free_remediation_def)
  note R = responses_exactly_required [OF wf nf n1]
  note Q = receipts_exactly_required [OF wf nf n2]
  have receipt: "rc_subjectKind q = SK_remediation_item \<and> rc_outcome q = VERIFIED
          \<and> js_map (map (\<lambda>r. (response_key r, rp_responseHash r)) (re_responses rem))
               (key2 (rc_findingId q) (rc_subjectId q)) = Some (rc_responseHash q)
        \<or> rc_subjectKind q = SK_test \<and> rc_outcome q = PASSED
          \<and> list_ex (\<lambda>r. rp_findingId r = rc_findingId q \<and> rp_responseHash r = rc_responseHash q)
               (re_responses rem)
      \<longleftrightarrow> (case rc_subjectKind q of
            SK_remediation_item \<Rightarrow> rc_outcome q = VERIFIED
              \<and> (\<exists>r\<in>set (re_responses rem). response_subject r = (rc_findingId q, rc_subjectId q)
                   \<and> rp_responseHash r = rc_responseHash q)
          | SK_test \<Rightarrow> rc_outcome q = PASSED
              \<and> (\<exists>r\<in>set (re_responses rem). rp_findingId r = rc_findingId q
                   \<and> rp_responseHash r = rc_responseHash q))"
    if "distinct (map response_key (re_responses rem))" and "q \<in> set (re_receipts rem)" for q
    using that n2 response_hash_lookup [OF that(1) n1]
    by (cases "rc_subjectKind q") (auto simp: list_ex_iff)
  have "remediationIsComplete fs h rem \<longleftrightarrow>
      (distinct (map response_key (re_responses rem))
        \<and> length (re_responses rem) = length (required_item_keys fs)
        \<and> response_key ` set (re_responses rem) \<subseteq> set (required_item_keys fs))
      \<and> (\<forall>r\<in>set (re_responses rem). rp_outcome r = APPLIED \<and> rp_basisManifestHash r = h
          \<and> rp_cycleId r = cy_cycleId (re_cycle rem))
      \<and> (distinct (map receipt_key (re_receipts rem))
        \<and> length (re_receipts rem) = length (required_receipt_keys fs)
        \<and> receipt_key ` set (re_receipts rem) \<subseteq> set (required_receipt_keys fs))
      \<and> (\<forall>q\<in>set (re_receipts rem). rc_basisManifestHash q = h \<and> rc_cycleId q = cy_cycleId (re_cycle rem)
          \<and> (case rc_subjectKind q of
               SK_remediation_item \<Rightarrow> rc_outcome q = VERIFIED
                 \<and> (\<exists>r\<in>set (re_responses rem). response_subject r = (rc_findingId q, rc_subjectId q)
                      \<and> rp_responseHash r = rc_responseHash q)
             | SK_test \<Rightarrow> rc_outcome q = PASSED
                 \<and> (\<exists>r\<in>set (re_responses rem). rp_findingId r = rc_findingId q
                      \<and> rp_responseHash r = rc_responseHash q)))"
    unfolding remediationIsComplete_def Let_def
    using receipt by (auto simp: list_ex_iff list_all_iff image_subset_iff)
  then show ?thesis by (simp only: R Q settled_def conj_assoc)
qed

section \<open>Lineage\<close>

lemma sameScope_eq [simp]: "sameScope a b \<longleftrightarrow> a = b"
  by (cases a; cases b) (auto simp: sameScope_def)

definition ok_scope :: "review_scope \<Rightarrow> bool" where
  "ok_scope s \<longleftrightarrow> sc_projectId s \<noteq> [] \<and> sc_featureId s \<noteq> [] \<and> 0 \<le> sc_phaseNumber s \<and> sc_reviewGateId s \<noteq> []"

definition ok_finding :: "review_finding \<Rightarrow> bool" where
  "ok_finding f \<longleftrightarrow> fd_findingId f \<noteq> []
     \<and> (\<forall>x\<in>set (fd_requiredRemediationItemIds f). x \<noteq> []) \<and> distinct (fd_requiredRemediationItemIds f)
     \<and> (\<forall>x\<in>set (fd_requiredTestIds f). x \<noteq> []) \<and> distinct (fd_requiredTestIds f)"

definition ok_manifest :: "manifest_evidence \<Rightarrow> bool" where
  "ok_manifest m \<longleftrightarrow> is_hash_text (mf_contentHash m) \<and> ok_scope (mf_scope m)
     \<and> (\<forall>f\<in>set (mf_findings m). ok_finding f) \<and> distinct (map fd_findingId (mf_findings m))"

definition ok_lookup :: "predecessor_lookup \<Rightarrow> bool" where
  "ok_lookup l \<longleftrightarrow> is_hash_text (lk_contentHash l) \<and> ok_scope (lk_scope l)"

definition ok_response :: "remediation_response \<Rightarrow> bool" where
  "ok_response r \<longleftrightarrow> is_hash_text (rp_responseHash r) \<and> is_hash_text (rp_basisManifestHash r)
     \<and> rp_cycleId r \<noteq> [] \<and> rp_findingId r \<noteq> [] \<and> rp_remediationItemId r \<noteq> []"

definition ok_receipt :: "verification_receipt \<Rightarrow> bool" where
  "ok_receipt q \<longleftrightarrow> is_hash_text (rc_receiptHash q) \<and> is_hash_text (rc_responseHash q)
     \<and> is_hash_text (rc_basisManifestHash q) \<and> rc_cycleId q \<noteq> [] \<and> rc_findingId q \<noteq> [] \<and> rc_subjectId q \<noteq> []"

definition ok_remediation :: "remediation_evidence \<Rightarrow> bool" where
  "ok_remediation r \<longleftrightarrow> cy_cycleId (re_cycle r) \<noteq> [] \<and> ok_scope (cy_scope (re_cycle r))
     \<and> is_hash_text (cy_basisManifestHash (re_cycle r))
     \<and> length (re_responses r) \<le> 128 \<and> (\<forall>x\<in>set (re_responses r). ok_response x)
     \<and> length (re_receipts r) \<le> 128 \<and> (\<forall>x\<in>set (re_receipts r). ok_receipt x)"

text \<open>The well-formed inputs: what \<open>validateInput\<close> establishes, and all it asks for.\<close>

definition wf_gate_input :: "gate_input \<Rightarrow> bool" where
  "wf_gate_input i \<longleftrightarrow>
     ok_scope (gi_expectedScope i) \<and> ok_manifest (gi_manifest i)
     \<and> is_hash_text (ln_artifactHash (gi_lineage i))
     \<and> (\<forall>h\<in>set (ln_predecessorHashes (gi_lineage i)). is_hash_text h)
     \<and> distinct (ln_predecessorHashes (gi_lineage i))
     \<and> (\<forall>l\<in>set (gi_predecessorLookups i). ok_lookup l)
     \<and> distinct (map lk_contentHash (gi_predecessorLookups i))
     \<and> length (gi_predecessorManifests i) \<le> 64
     \<and> (\<forall>m\<in>set (gi_predecessorManifests i). ok_manifest m)
     \<and> distinct (map mf_contentHash (gi_predecessorManifests i))
     \<and> ok_remediation (gi_remediation i)"

lemma ok_manifest_findings: "ok_manifest m \<Longrightarrow> wf_findings (mf_findings m)"
  by (auto simp: ok_manifest_def ok_finding_def wf_findings_def)

text \<open>The lineage is closed: it names this manifest, and the store found each predecessor, and nothing else, as a review manifest of this scope.\<close>

definition lineage_closed :: "gate_input \<Rightarrow> bool" where
  "lineage_closed i \<longleftrightarrow>
     ln_artifactHash (gi_lineage i) = mf_contentHash (gi_manifest i)
     \<and> lk_contentHash ` set (gi_predecessorLookups i) = set (ln_predecessorHashes (gi_lineage i))
     \<and> (\<forall>l\<in>set (gi_predecessorLookups i). lk_lookup l = LK_found
          \<and> lk_artifactKind l = LK_review_manifest \<and> lk_scope l = gi_expectedScope i)"

lemma check_lookups_None:
  "check_lookups sc act hs = None \<longleftrightarrow>
     (\<forall>h\<in>set hs. \<exists>l. act h = Some l \<and> lk_lookup l = LK_found
        \<and> lk_artifactKind l = LK_review_manifest \<and> lk_scope l = sc)"
  by (induction hs) (auto split: option.splits)

lemma lookup_by_hash:
  assumes "distinct (map f xs)"
  shows "js_map (map (\<lambda>x. (f x, x)) xs) k = Some y \<longleftrightarrow> y \<in> set xs \<and> f y = k"
  using js_map_distinct [of "map (\<lambda>x. (f x, x)) xs" k y] assms by (auto simp: comp_def)

lemma lookup_by_hash_None:
  "js_map (map (\<lambda>x. (f x, x)) xs) k = None \<longleftrightarrow> k \<notin> f ` set xs"
  by (force simp: js_map_None)

lemma same_size_cover:
  assumes "distinct ks" and "distinct hs" and "length hs = length ks"
  shows "set hs \<subseteq> set ks \<longleftrightarrow> set hs = set ks"
  using assms by (metis distinct_subset_same_length(1) order_refl)

lemma keyed_cover:
  assumes inj: "inj_on f A" and img: "f ` A = S"
  shows "(\<forall>h\<in>S. \<exists>x. x \<in> A \<and> f x = h \<and> P x) \<longleftrightarrow> (\<forall>x\<in>A. P x)"
proof
  assume l: "\<forall>h\<in>S. \<exists>x. x \<in> A \<and> f x = h \<and> P x"
  show "\<forall>x\<in>A. P x"
  proof
    fix x assume x: "x \<in> A"
    with img have "f x \<in> S" by blast
    with l obtain y where "y \<in> A" "f y = f x" "P y" by blast
    with inj x show "P x" by (auto dest: inj_onD)
  qed
next
  assume "\<forall>x\<in>A. P x"
  with img show "\<forall>h\<in>S. \<exists>x. x \<in> A \<and> f x = h \<and> P x" by blast
qed

text \<open>Records keyed by distinct hashes, against a distinct list of hashes of the same length.\<close>

lemma keyed_records_cover:
  assumes d: "distinct (map f xs)" and dh: "distinct hs"
  shows "length xs = length hs \<and> (\<forall>h\<in>set hs. \<exists>x. x \<in> set xs \<and> f x = h \<and> P x)
     \<longleftrightarrow> f ` set xs = set hs \<and> (\<forall>x\<in>set xs. P x)"
proof -
  have inj: "inj_on f (set xs)" using d by (simp add: distinct_map)
  have cover: "f ` set xs = set hs" if "length xs = length hs" "set hs \<subseteq> f ` set xs"
    using same_size_cover [OF d dh] that by auto
  show ?thesis
  proof
    assume l: "length xs = length hs \<and> (\<forall>h\<in>set hs. \<exists>x. x \<in> set xs \<and> f x = h \<and> P x)"
    then have "set hs \<subseteq> f ` set xs" by force
    with l cover have img: "f ` set xs = set hs" by blast
    with l keyed_cover [OF inj img] show "f ` set xs = set hs \<and> (\<forall>x\<in>set xs. P x)" by blast
  next
    assume r: "f ` set xs = set hs \<and> (\<forall>x\<in>set xs. P x)"
    then have "length xs = length hs"
      using distinct_same_set_length [OF d dh] by simp
    with r keyed_cover [OF inj, of "set hs" P]
    show "length xs = length hs \<and> (\<forall>h\<in>set hs. \<exists>x. x \<in> set xs \<and> f x = h \<and> P x)" by blast
  qed
qed

lemma lineageIsResolved_None:
  assumes "wf_gate_input i"
  shows "lineageIsResolved i = None \<longleftrightarrow> lineage_closed i"
proof -
  let ?hs = "ln_predecessorHashes (gi_lineage i)"
  let ?ls = "gi_predecessorLookups i"
  have d: "distinct ?hs" and dl: "distinct (map lk_contentHash ?ls)"
    using assms by (auto simp: wf_gate_input_def)
  have len: "length (js_set ?hs) = length ?hs" "length (js_set (map lk_contentHash ?ls)) = length ?ls"
    using distinct_card [OF d] distinct_card [OF dl] by (simp_all add: length_js_set)
  have "lineageIsResolved i = None \<longleftrightarrow>
      ln_artifactHash (gi_lineage i) = mf_contentHash (gi_manifest i)
      \<and> length ?hs = length ?ls
      \<and> (\<forall>h\<in>set ?hs. \<exists>l. l \<in> set ?ls \<and> lk_contentHash l = h \<and> lk_lookup l = LK_found
            \<and> lk_artifactKind l = LK_review_manifest \<and> lk_scope l = gi_expectedScope i)"
    unfolding lineageIsResolved_def Let_def
    by (simp add: len list_ex_iff lookup_by_hash_None check_lookups_None lookup_by_hash [OF dl] image_iff)
       metis
  then show ?thesis
    by (simp only: eq_commute [of "length ?hs" "length ?ls"] keyed_records_cover [OF dl d] lineage_closed_def)
qed

section \<open>Approval\<close>

definition needs_changes :: "gate_input \<Rightarrow> manifest_evidence set" where
  "needs_changes i = {m \<in> set (gi_predecessorManifests i). mf_result m = M_NEEDS_CHANGES}"

text \<open>
  Approval, as the policy's header promises it: store and enforcement are up, every piece of
  evidence belongs to the current scope, the manifest is approved, its lineage is closed and
  persisted; and either no predecessor asked for changes and there is no remediation at all, or
  exactly one did and its remediation cycle is verified and settled.
\<close>

definition gate_approves :: "gate_input \<Rightarrow> bool" where
  "gate_approves i \<longleftrightarrow>
     en_storeAvailable (gi_enforcement i) \<and> en_enabled (gi_enforcement i)
     \<and> mf_scope (gi_manifest i) = gi_expectedScope i
     \<and> cy_scope (re_cycle (gi_remediation i)) = gi_expectedScope i
     \<and> mf_result (gi_manifest i) = M_APPROVED
     \<and> lineage_closed i
     \<and> mf_contentHash ` set (gi_predecessorManifests i) = set (ln_predecessorHashes (gi_lineage i))
     \<and> (\<forall>m\<in>set (gi_predecessorManifests i). mf_scope m = gi_expectedScope i)
     \<and> (needs_changes i = {}
          \<and> cy_basisManifestHash (re_cycle (gi_remediation i)) = mf_contentHash (gi_manifest i)
          \<and> cy_cycleState (re_cycle (gi_remediation i)) = NO_REMEDIATION_REQUIRED
          \<and> re_responses (gi_remediation i) = [] \<and> re_receipts (gi_remediation i) = []
        \<or> (\<exists>m. needs_changes i = {m}
          \<and> cy_basisManifestHash (re_cycle (gi_remediation i)) = mf_contentHash m
          \<and> cy_cycleState (re_cycle (gi_remediation i)) = REMEDIATION_VERIFIED
          \<and> settled (requiredFindings (mf_findings m)) (mf_contentHash m) (gi_remediation i)))"

definition nul_free_input :: "gate_input \<Rightarrow> bool" where
  "nul_free_input i \<longleftrightarrow> (\<forall>m\<in>set (gi_predecessorManifests i). nul_free_findings (mf_findings m))
     \<and> nul_free_remediation (gi_remediation i)"

definition approved :: "gate_outcome \<Rightarrow> bool" where
  "approved g \<longleftrightarrow> g = gate_decision G_APPROVED approved_terminal_review"

lemma gate_decision_simps [simp]:
  "gate_decision s r = gate_decision s' r' \<longleftrightarrow> s = s' \<and> r = r'"
  "gate_decision s r \<noteq> gate_refusal c"
  "gate_refusal c \<noteq> gate_decision s r"
  by (auto simp: gate_decision_def gate_refusal_def)

lemma approved_simps [simp]:
  "approved (gate_decision s r) \<longleftrightarrow> s = G_APPROVED \<and> r = approved_terminal_review"
  "\<not> approved (gate_refusal c)"
  by (auto simp: approved_def)

lemma wf_requiredFindings: "wf_findings fs \<Longrightarrow> wf_findings (requiredFindings fs)"
  by (auto simp: wf_findings_def requiredFindings_def distinct_map_filter)

lemma nul_free_requiredFindings: "nul_free_findings fs \<Longrightarrow> nul_free_findings (requiredFindings fs)"
  by (auto simp: nul_free_findings_def requiredFindings_def)

lemma predecessors_persisted:
  assumes "wf_gate_input i"
  shows "\<not> predecessors_missing i
       \<longleftrightarrow> mf_contentHash ` set (gi_predecessorManifests i) = set (ln_predecessorHashes (gi_lineage i))
           \<and> (\<forall>m\<in>set (gi_predecessorManifests i). mf_scope m = gi_expectedScope i)"
proof -
  let ?ms = "gi_predecessorManifests i"
  let ?hs = "ln_predecessorHashes (gi_lineage i)"
  let ?P = "\<lambda>h. case js_map (map (\<lambda>m. (mf_contentHash m, m)) ?ms) h of None \<Rightarrow> True
              | Some m \<Rightarrow> \<not> sameScope (mf_scope m) (gi_expectedScope i)"
  have d: "distinct ?hs" and dm: "distinct (map mf_contentHash ?ms)"
    using assms by (auto simp: wf_gate_input_def)
  have len: "length (js_set (map mf_contentHash ?ms)) = length ?ms"
    using distinct_card [OF dm] by (simp add: length_js_set)
  have P: "?P h \<longleftrightarrow> \<not> (\<exists>m. m \<in> set ?ms \<and> mf_contentHash m = h \<and> mf_scope m = gi_expectedScope i)" for h
    using lookup_by_hash [OF dm, of h] lookup_by_hash_None [of mf_contentHash ?ms h]
    by (cases "js_map (map (\<lambda>m. (mf_contentHash m, m)) ?ms) h") (force, metis option.inject option.simps(5) sameScope_eq)
  have "\<not> predecessors_missing i \<longleftrightarrow> length ?ms = length ?hs
      \<and> (\<forall>h\<in>set ?hs. \<exists>m. m \<in> set ?ms \<and> mf_contentHash m = h \<and> mf_scope m = gi_expectedScope i)"
    unfolding predecessors_missing_def Let_def by (simp only: len list_ex_iff P) blast
  then show ?thesis
    using keyed_records_cover [OF dm d] by auto
qed

lemma terminal_decision_approved:
  assumes wf: "wf_gate_input i" and nf: "nul_free_input i"
  shows "approved (terminal_decision i) \<longleftrightarrow>
     (needs_changes i = {} \<and> cy_basisManifestHash (re_cycle (gi_remediation i)) = mf_contentHash (gi_manifest i)
       \<and> cy_cycleState (re_cycle (gi_remediation i)) = NO_REMEDIATION_REQUIRED
       \<and> re_responses (gi_remediation i) = [] \<and> re_receipts (gi_remediation i) = [])
     \<or> (\<exists>m. needs_changes i = {m} \<and> cy_basisManifestHash (re_cycle (gi_remediation i)) = mf_contentHash m
       \<and> cy_cycleState (re_cycle (gi_remediation i)) = REMEDIATION_VERIFIED
       \<and> settled (requiredFindings (mf_findings m)) (mf_contentHash m) (gi_remediation i))"
proof -
  let ?ms = "gi_predecessorManifests i"
  let ?ns = "filter (\<lambda>m. mf_result m = M_NEEDS_CHANGES) ?ms"
  have needs: "needs_changes i = set ?ns"
    by (auto simp: needs_changes_def)
  have dist: "distinct ?ns"
    using wf by (auto simp: wf_gate_input_def distinct_map)
  consider (none) "?ns = []" | (one) m where "?ns = [m]" | (more) m m' rest where "?ns = m # m' # rest"
    by (cases ?ns rule: remdups_adj.cases) auto
  then show ?thesis
  proof cases
    case none
    then show ?thesis by (simp add: terminal_decision_def needs Let_def)
  next
    case one
    then have "m \<in> set ?ns" by simp
    then have "m \<in> set ?ms" by simp
    then have "remediationIsComplete (requiredFindings (mf_findings m)) (mf_contentHash m) (gi_remediation i)
        \<longleftrightarrow> settled (requiredFindings (mf_findings m)) (mf_contentHash m) (gi_remediation i)"
      using wf nf
      by (intro remediationIsComplete_iff wf_requiredFindings nul_free_requiredFindings)
         (auto simp: wf_gate_input_def nul_free_input_def intro: ok_manifest_findings)
    with one show ?thesis by (auto simp: terminal_decision_def needs Let_def)
  next
    case more
    with dist have "m \<noteq> m'" by simp
    with more show ?thesis by (auto simp: terminal_decision_def needs Let_def)
  qed
qed

lemma evaluate_gate_approved:
  assumes wf: "wf_gate_input i" and nf: "nul_free_input i"
  shows "approved (evaluate_gate i) \<longleftrightarrow> gate_approves i"
proof -
  have "approved (evaluate_gate i) \<longleftrightarrow>
      mf_scope (gi_manifest i) = gi_expectedScope i
      \<and> cy_scope (re_cycle (gi_remediation i)) = gi_expectedScope i
      \<and> lineageIsResolved i = None \<and> en_storeAvailable (gi_enforcement i)
      \<and> mf_result (gi_manifest i) = M_APPROVED \<and> en_enabled (gi_enforcement i)
      \<and> \<not> predecessors_missing i \<and> approved (terminal_decision i)"
    unfolding evaluate_gate_def
    by (cases "mf_result (gi_manifest i)") (auto split: option.splits)
  then show ?thesis
    unfolding gate_approves_def lineageIsResolved_None [OF wf] predecessors_persisted [OF wf]
      terminal_decision_approved [OF wf nf]
    by argo
qed

section \<open>The boundary\<close>

lemma isNonEmptyString_Some [simp]: "isNonEmptyString v = Some s \<longleftrightarrow> v = JStr s \<and> s \<noteq> []"
  by (simp add: isNonEmptyString_def)

lemma isHash_Some [simp]: "isHash v = Some s \<longleftrightarrow> v = JStr s \<and> is_hash_text s"
  by (simp add: isHash_def)

definition put_strings :: "string list \<Rightarrow> jsv" where
  "put_strings xs = JArr (map JStr xs)"

definition put_scope :: "review_scope \<Rightarrow> jsv" where
  "put_scope s = JObj [(''projectId'', JStr (sc_projectId s)), (''featureId'', JStr (sc_featureId s)),
     (''phaseNumber'', JNum (JInt (sc_phaseNumber s))), (''reviewGateId'', JStr (sc_reviewGateId s))]"

definition put_finding :: "review_finding \<Rightarrow> jsv" where
  "put_finding f = JObj [(''findingId'', JStr (fd_findingId f)),
     (''disposition'', enum_put dispositions (fd_disposition f)),
     (''requiredRemediationItemIds'', put_strings (fd_requiredRemediationItemIds f)),
     (''requiredTestIds'', put_strings (fd_requiredTestIds f))]"

definition put_manifest :: "manifest_evidence \<Rightarrow> jsv" where
  "put_manifest m = JObj [(''artifactKind'', JStr ''review_manifest''),
     (''contentHash'', JStr (mf_contentHash m)), (''scope'', put_scope (mf_scope m)),
     (''result'', enum_put manifest_results (mf_result m)),
     (''findings'', JArr (map put_finding (mf_findings m)))]"

definition put_lineage :: "artifact_lineage \<Rightarrow> jsv" where
  "put_lineage l = JObj [(''artifactHash'', JStr (ln_artifactHash l)),
     (''predecessorHashes'', put_strings (ln_predecessorHashes l))]"

definition put_lookup :: "predecessor_lookup \<Rightarrow> jsv" where
  "put_lookup l = JObj [(''contentHash'', JStr (lk_contentHash l)),
     (''lookup'', enum_put lookup_states (lk_lookup l)),
     (''artifactKind'', enum_put lookup_kinds (lk_artifactKind l)), (''scope'', put_scope (lk_scope l))]"

definition put_cycle :: "remediation_cycle \<Rightarrow> jsv" where
  "put_cycle c = JObj [(''cycleId'', JStr (cy_cycleId c)), (''scope'', put_scope (cy_scope c)),
     (''basisManifestHash'', JStr (cy_basisManifestHash c)),
     (''cycleState'', enum_put cycle_states (cy_cycleState c))]"

definition put_response :: "remediation_response \<Rightarrow> jsv" where
  "put_response r = JObj [(''responseHash'', JStr (rp_responseHash r)),
     (''basisManifestHash'', JStr (rp_basisManifestHash r)), (''cycleId'', JStr (rp_cycleId r)),
     (''findingId'', JStr (rp_findingId r)), (''remediationItemId'', JStr (rp_remediationItemId r)),
     (''outcome'', enum_put response_outcomes (rp_outcome r))]"

definition put_receipt :: "verification_receipt \<Rightarrow> jsv" where
  "put_receipt q = JObj [(''receiptHash'', JStr (rc_receiptHash q)),
     (''responseHash'', JStr (rc_responseHash q)), (''basisManifestHash'', JStr (rc_basisManifestHash q)),
     (''cycleId'', JStr (rc_cycleId q)), (''findingId'', JStr (rc_findingId q)),
     (''subjectKind'', enum_put subject_kinds (rc_subjectKind q)), (''subjectId'', JStr (rc_subjectId q)),
     (''outcome'', enum_put receipt_outcomes (rc_outcome q))]"

definition put_remediation :: "remediation_evidence \<Rightarrow> jsv" where
  "put_remediation r = JObj [(''cycle'', put_cycle (re_cycle r)),
     (''responses'', JArr (map put_response (re_responses r))),
     (''receipts'', JArr (map put_receipt (re_receipts r)))]"

lemma disposition_roundtrip [simp]: "enum_of dispositions (enum_put dispositions d) = Some d"
  by (cases d; simp add: enum_of_def enum_put_def dispositions_def)

lemma manifest_result_roundtrip [simp]: "enum_of manifest_results (enum_put manifest_results d) = Some d"
  by (cases d; simp add: enum_of_def enum_put_def manifest_results_def)

lemma lookup_state_roundtrip [simp]: "enum_of lookup_states (enum_put lookup_states d) = Some d"
  by (cases d; simp add: enum_of_def enum_put_def lookup_states_def)

lemma lookup_kind_roundtrip [simp]: "enum_of lookup_kinds (enum_put lookup_kinds d) = Some d"
  by (cases d; simp add: enum_of_def enum_put_def lookup_kinds_def)

lemma cycle_state_roundtrip [simp]: "enum_of cycle_states (enum_put cycle_states d) = Some d"
  by (cases d; simp add: enum_of_def enum_put_def cycle_states_def)

lemma response_outcome_roundtrip [simp]: "enum_of response_outcomes (enum_put response_outcomes d) = Some d"
  by (cases d; simp add: enum_of_def enum_put_def response_outcomes_def)

lemma subject_kind_roundtrip [simp]: "enum_of subject_kinds (enum_put subject_kinds d) = Some d"
  by (cases d; simp add: enum_of_def enum_put_def subject_kinds_def)

lemma receipt_outcome_roundtrip [simp]: "enum_of receipt_outcomes (enum_put receipt_outcomes d) = Some d"
  by (cases d; simp add: enum_of_def enum_put_def receipt_outcomes_def)

lemma isScope_put [simp]: "ok_scope s \<Longrightarrow> isScope (put_scope s) = Some s"
  by (simp add: isScope_def put_scope_def ok_scope_def hasOnlyKeys_def isNonEmptyString_def
        string_where_def as_nat_int_def)

lemma isScope_ok: "isScope v = Some s \<Longrightarrow> ok_scope s"
  by (auto simp: isScope_def ok_scope_def Option.bind_eq_Some_conv split: if_splits)

lemma isStringArray_put [simp]: "\<forall>x\<in>set xs. x \<noteq> [] \<Longrightarrow> isStringArray (put_strings xs) = Some xs"
  by (auto simp: isStringArray_def put_strings_def intro!: array_of_map)

lemma isStringArray_ok: "isStringArray v = Some xs \<Longrightarrow> [] \<notin> set xs"
  unfolding isStringArray_def by (drule array_of_inv [where P = "\<lambda>s. s \<noteq> []"]) auto

lemma validateFinding_put [simp]: "ok_finding f \<Longrightarrow> validateFinding (put_finding f) = Some f"
  by (auto simp: validateFinding_def put_finding_def ok_finding_def hasOnlyKeys_def isNonEmptyString_def
        string_where_def)

lemma validateFinding_ok: "validateFinding v = Some f \<Longrightarrow> ok_finding f"
  by (auto simp: validateFinding_def ok_finding_def Option.bind_eq_Some_conv split: if_splits
        dest!: isStringArray_ok)

lemma validateManifest_put [simp]: "ok_manifest m \<Longrightarrow> validateManifest (put_manifest m) = Some m"
  by (simp add: validateManifest_def put_manifest_def ok_manifest_def hasOnlyKeys_def isHash_def
        string_where_def)

lemma validateManifest_ok: "validateManifest v = Some m \<Longrightarrow> ok_manifest m"
  by (auto simp: validateManifest_def ok_manifest_def Option.bind_eq_Some_conv split: if_splits
        dest: isScope_ok dest!: array_of_inv [OF _ validateFinding_ok])

lemma validateLineage_put [simp]:
  "is_hash_text (ln_artifactHash l) \<Longrightarrow> \<forall>h\<in>set (ln_predecessorHashes l). is_hash_text h
     \<Longrightarrow> distinct (ln_predecessorHashes l) \<Longrightarrow> validateLineage (put_lineage l) = Some l"
  by (simp add: validateLineage_def put_lineage_def hasOnlyKeys_def isHash_def string_where_def put_strings_def)

lemma validateLineage_ok:
  "validateLineage v = Some l \<Longrightarrow> is_hash_text (ln_artifactHash l)
     \<and> (\<forall>h\<in>set (ln_predecessorHashes l). is_hash_text h) \<and> distinct (ln_predecessorHashes l)"
  by (auto simp: validateLineage_def Option.bind_eq_Some_conv split: if_splits
        dest!: array_of_inv [where P = is_hash_text])

lemma validatePredecessorLookup_put [simp]: "ok_lookup l \<Longrightarrow> validatePredecessorLookup (put_lookup l) = Some l"
  by (simp add: validatePredecessorLookup_def put_lookup_def ok_lookup_def hasOnlyKeys_def isHash_def
        string_where_def)

lemma validatePredecessorLookup_ok: "validatePredecessorLookup v = Some l \<Longrightarrow> ok_lookup l"
  by (auto simp: validatePredecessorLookup_def ok_lookup_def Option.bind_eq_Some_conv split: if_splits
        dest: isScope_ok)

lemma validateResponse_put [simp]: "ok_response r \<Longrightarrow> validateResponse (put_response r) = Some r"
  by (simp add: validateResponse_def put_response_def ok_response_def hasOnlyKeys_def isHash_def
        isNonEmptyString_def string_where_def)

lemma validateResponse_ok: "validateResponse v = Some r \<Longrightarrow> ok_response r"
  by (auto simp: validateResponse_def ok_response_def Option.bind_eq_Some_conv split: if_splits)

lemma validateReceipt_put [simp]: "ok_receipt r \<Longrightarrow> validateReceipt (put_receipt r) = Some r"
  by (simp add: validateReceipt_def put_receipt_def ok_receipt_def hasOnlyKeys_def isHash_def
        isNonEmptyString_def string_where_def)

lemma validateReceipt_ok: "validateReceipt v = Some r \<Longrightarrow> ok_receipt r"
  by (auto simp: validateReceipt_def ok_receipt_def Option.bind_eq_Some_conv split: if_splits)

definition ok_cycle :: "remediation_cycle \<Rightarrow> bool" where
  "ok_cycle c \<longleftrightarrow> cy_cycleId c \<noteq> [] \<and> ok_scope (cy_scope c) \<and> is_hash_text (cy_basisManifestHash c)"

lemma ok_remediation_cycle: "ok_remediation r \<longleftrightarrow> ok_cycle (re_cycle r)
     \<and> length (re_responses r) \<le> 128 \<and> (\<forall>x\<in>set (re_responses r). ok_response x)
     \<and> length (re_receipts r) \<le> 128 \<and> (\<forall>x\<in>set (re_receipts r). ok_receipt x)"
  by (auto simp: ok_remediation_def ok_cycle_def)

lemma validateCycle_put [simp]: "ok_cycle c \<Longrightarrow> validateCycle (put_cycle c) = Some c"
  by (simp add: validateCycle_def put_cycle_def ok_cycle_def hasOnlyKeys_def isHash_def
        isNonEmptyString_def string_where_def)

lemma validateCycle_ok: "validateCycle v = Some c \<Longrightarrow> ok_cycle c"
  by (auto simp: validateCycle_def ok_cycle_def Option.bind_eq_Some_conv split: if_splits dest: isScope_ok)

lemma validateRemediation_put [simp]: "ok_remediation r \<Longrightarrow> validateRemediation (put_remediation r) = Some r"
  by (simp add: validateRemediation_def put_remediation_def ok_remediation_cycle hasOnlyKeys_def)

lemma validateRemediation_ok: "validateRemediation v = Some r \<Longrightarrow> ok_remediation r"
  by (auto simp: validateRemediation_def ok_remediation_cycle Option.bind_eq_Some_conv split: if_splits
        dest: validateCycle_ok parse_all_inv [OF _ validateResponse_ok]
          parse_all_inv [OF _ validateReceipt_ok] parse_all_length)

definition put_enforcement :: "enforcement \<Rightarrow> jsv" where
  "put_enforcement e = JObj [(''enabled'', JBool (en_enabled e)), (''storeAvailable'', JBool (en_storeAvailable e))]"

lemma validateEnforcement_put [simp]: "validateEnforcement (put_enforcement e) = Some e"
  by (simp add: validateEnforcement_def put_enforcement_def hasOnlyKeys_def)

definition put_input :: "gate_input \<Rightarrow> jsv" where
  "put_input i = JObj [(''expectedScope'', put_scope (gi_expectedScope i)),
     (''manifest'', put_manifest (gi_manifest i)), (''lineage'', put_lineage (gi_lineage i)),
     (''predecessorLookups'', JArr (map put_lookup (gi_predecessorLookups i))),
     (''predecessorManifests'', JArr (map put_manifest (gi_predecessorManifests i))),
     (''remediation'', put_remediation (gi_remediation i)),
     (''enforcement'', put_enforcement (gi_enforcement i))]"

lemma validateInput_put [simp]: "wf_gate_input i \<Longrightarrow> validateInput (put_input i) = Some i"
  by (simp add: validateInput_def put_input_def wf_gate_input_def hasOnlyKeys_def)

lemma validateInput_wf: "validateInput v = Some i \<Longrightarrow> wf_gate_input i"
  by (auto simp: validateInput_def wf_gate_input_def Option.bind_eq_Some_conv split: if_splits
        dest: isScope_ok validateManifest_ok validateLineage_ok validateRemediation_ok
          array_of_inv [OF _ validatePredecessorLookup_ok] parse_all_inv [OF _ validateManifest_ok]
          parse_all_length)

section \<open>The order of the evidence is irrelevant\<close>

text \<open>Two inputs that differ only in the order of their lists.\<close>

definition same_evidence :: "gate_input \<Rightarrow> gate_input \<Rightarrow> bool" where
  "same_evidence i j \<longleftrightarrow>
     gi_expectedScope i = gi_expectedScope j \<and> gi_manifest i = gi_manifest j
     \<and> gi_enforcement i = gi_enforcement j
     \<and> ln_artifactHash (gi_lineage i) = ln_artifactHash (gi_lineage j)
     \<and> set (ln_predecessorHashes (gi_lineage i)) = set (ln_predecessorHashes (gi_lineage j))
     \<and> set (gi_predecessorLookups i) = set (gi_predecessorLookups j)
     \<and> set (gi_predecessorManifests i) = set (gi_predecessorManifests j)
     \<and> re_cycle (gi_remediation i) = re_cycle (gi_remediation j)
     \<and> set (re_responses (gi_remediation i)) = set (re_responses (gi_remediation j))
     \<and> set (re_receipts (gi_remediation i)) = set (re_receipts (gi_remediation j))
     \<and> (distinct (map response_subject (re_responses (gi_remediation i)))
         \<longleftrightarrow> distinct (map response_subject (re_responses (gi_remediation j))))
     \<and> (distinct (map receipt_subject (re_receipts (gi_remediation i)))
         \<longleftrightarrow> distinct (map receipt_subject (re_receipts (gi_remediation j))))"

text \<open>Which refusal the lineage draws, as a condition on sets.\<close>

definition lineage_names :: "gate_input \<Rightarrow> bool" where
  "lineage_names i \<longleftrightarrow> ln_artifactHash (gi_lineage i) = mf_contentHash (gi_manifest i)
     \<and> lk_contentHash ` set (gi_predecessorLookups i) = set (ln_predecessorHashes (gi_lineage i))"

lemma check_lookups_code:
  "\<forall>h\<in>set hs. act h \<noteq> None \<Longrightarrow>
     check_lookups sc act hs = None \<or> check_lookups sc act hs = Some gr_predecessor_unavailable"
  by (induction hs) (auto split: if_split option.split)

lemma lineageIsResolved_code:
  assumes "wf_gate_input i"
  shows "lineageIsResolved i =
     (if \<not> lineage_names i then Some gr_invalid_artifact_lineage
      else if lineage_closed i then None else Some gr_predecessor_unavailable)"
proof -
  let ?hs = "ln_predecessorHashes (gi_lineage i)"
  let ?ls = "gi_predecessorLookups i"
  let ?act = "js_map (map (\<lambda>l. (lk_contentHash l, l)) ?ls)"
  have d: "distinct ?hs" and dl: "distinct (map lk_contentHash ?ls)"
    using assms by (auto simp: wf_gate_input_def)
  have len: "length (js_set ?hs) = length ?hs" "length (js_set (map lk_contentHash ?ls)) = length ?ls"
    using distinct_card [OF d] distinct_card [OF dl] by (simp_all add: length_js_set)
  have names: "lineage_names i \<longleftrightarrow> ln_artifactHash (gi_lineage i) = mf_contentHash (gi_manifest i)
      \<and> length ?ls = length ?hs \<and> (\<forall>h\<in>set ?hs. ?act h \<noteq> None)"
    using keyed_records_cover [OF dl d, of "\<lambda>_. True"]
    by (auto simp: lineage_names_def lookup_by_hash_None image_iff)
  show ?thesis
  proof (cases "lineage_names i")
    case False
    then show ?thesis
      unfolding lineageIsResolved_def Let_def names by (auto simp: len list_ex_iff)
  next
    case True
    with names have "\<not> list_ex (\<lambda>h. ?act h = None) (js_set ?hs)"
      and "ln_artifactHash (gi_lineage i) = mf_contentHash (gi_manifest i)" and "length ?ls = length ?hs"
      by (auto simp: list_ex_iff)
    then have "lineageIsResolved i = check_lookups (gi_expectedScope i) ?act (js_set ?hs)"
      unfolding lineageIsResolved_def Let_def by (simp only: len) simp
    with True names check_lookups_code [of "js_set ?hs" ?act "gi_expectedScope i"]
      lineageIsResolved_None [OF assms]
    show ?thesis by auto
  qed
qed

lemma terminal_decision_range:
  "terminal_decision i = gate_decision G_APPROVED approved_terminal_review
   \<or> terminal_decision i = gate_decision G_PENDING terminal_remediation_required"
  by (simp add: terminal_decision_def Let_def split: list.split)

lemma terminal_decision_cong:
  "approved (terminal_decision i) = approved (terminal_decision j) \<Longrightarrow> terminal_decision i = terminal_decision j"
  using terminal_decision_range [of i] terminal_decision_range [of j] by (auto simp: approved_def)

lemma settled_cong:
  assumes "re_cycle a = re_cycle b"
    and "set (re_responses a) = set (re_responses b)" and "set (re_receipts a) = set (re_receipts b)"
    and "distinct (map response_subject (re_responses a)) = distinct (map response_subject (re_responses b))"
    and "distinct (map receipt_subject (re_receipts a)) = distinct (map receipt_subject (re_receipts b))"
  shows "settled fs h a = settled fs h b"
  unfolding settled_def assms by (rule refl)

lemma terminal_decision_same_evidence:
  assumes "wf_gate_input i" and "wf_gate_input j" and "nul_free_input i" and "nul_free_input j"
    and s: "same_evidence i j"
  shows "terminal_decision i = terminal_decision j"
proof (rule terminal_decision_cong)
  have "re_responses (gi_remediation i) = [] \<longleftrightarrow> re_responses (gi_remediation j) = []"
    "re_receipts (gi_remediation i) = [] \<longleftrightarrow> re_receipts (gi_remediation j) = []"
    using s by (auto simp: same_evidence_def simp flip: set_empty)
  moreover have "settled fs h (gi_remediation i) = settled fs h (gi_remediation j)" for fs h
    using s by (intro settled_cong) (auto simp: same_evidence_def)
  moreover have "needs_changes i = needs_changes j" "re_cycle (gi_remediation i) = re_cycle (gi_remediation j)"
    "gi_manifest i = gi_manifest j"
    using s by (auto simp: same_evidence_def needs_changes_def)
  ultimately show "approved (terminal_decision i) = approved (terminal_decision j)"
    using assms by (simp add: terminal_decision_approved)
qed

lemma evaluate_gate_same_evidence:
  assumes wf: "wf_gate_input i" "wf_gate_input j" and nf: "nul_free_input i" "nul_free_input j"
    and s: "same_evidence i j"
  shows "evaluate_gate i = evaluate_gate j"
proof -
  have "lineage_names i = lineage_names j" "lineage_closed i = lineage_closed j"
    using s by (simp_all add: same_evidence_def lineage_names_def lineage_closed_def)
  then have "lineageIsResolved i = lineageIsResolved j"
    using wf by (simp add: lineageIsResolved_code)
  moreover have "predecessors_missing i = predecessors_missing j"
    using predecessors_persisted [OF wf(1)] predecessors_persisted [OF wf(2)] s
    by (auto simp: same_evidence_def)
  moreover have "gi_expectedScope i = gi_expectedScope j" "gi_manifest i = gi_manifest j"
    "gi_enforcement i = gi_enforcement j" "re_cycle (gi_remediation i) = re_cycle (gi_remediation j)"
    using s by (simp_all add: same_evidence_def)
  moreover note terminal_decision_same_evidence [OF wf nf s]
  ultimately show ?thesis
    unfolding evaluate_gate_def by presburger
qed

section \<open>Which findings can be remediated\<close>

definition applied_response :: "string \<Rightarrow> string \<Rightarrow> string \<times> string \<Rightarrow> remediation_response" where
  "applied_response h c p = \<lparr>rp_responseHash = h, rp_basisManifestHash = h, rp_cycleId = c,
     rp_findingId = fst p, rp_remediationItemId = snd p, rp_outcome = APPLIED\<rparr>"

definition passing_receipt :: "string \<Rightarrow> string \<Rightarrow> subject_kind \<Rightarrow> string \<times> string \<Rightarrow> verification_receipt" where
  "passing_receipt h c k p = \<lparr>rc_receiptHash = h, rc_responseHash = h, rc_basisManifestHash = h,
     rc_cycleId = c, rc_findingId = fst p, rc_subjectKind = k, rc_subjectId = snd p,
     rc_outcome = (case k of SK_remediation_item \<Rightarrow> VERIFIED | SK_test \<Rightarrow> PASSED)\<rparr>"

definition item_pairs :: "review_finding list \<Rightarrow> (string \<times> string) list" where
  "item_pairs fs = concat (map (\<lambda>f. map (Pair (fd_findingId f)) (fd_requiredRemediationItemIds f)) fs)"

definition test_pairs :: "review_finding list \<Rightarrow> (string \<times> string) list" where
  "test_pairs fs = concat (map (\<lambda>f. map (Pair (fd_findingId f)) (fd_requiredTestIds f)) fs)"

definition full_evidence :: "review_finding list \<Rightarrow> string \<Rightarrow> remediation_cycle \<Rightarrow> remediation_evidence" where
  "full_evidence fs h cyc = \<lparr>re_cycle = cyc,
     re_responses = map (applied_response h (cy_cycleId cyc)) (item_pairs fs),
     re_receipts = map (passing_receipt h (cy_cycleId cyc) SK_remediation_item) (item_pairs fs)
       @ map (passing_receipt h (cy_cycleId cyc) SK_test) (test_pairs fs)\<rparr>"

lemma set_pairs [simp]: "set (item_pairs fs) = required_items fs" "set (test_pairs fs) = required_tests fs"
  by (auto simp: item_pairs_def test_pairs_def required_items_def required_tests_def)

lemma distinct_pairs: "wf_findings fs \<Longrightarrow> distinct (item_pairs fs) \<and> distinct (test_pairs fs)"
  unfolding item_pairs_def test_pairs_def wf_findings_def by (blast intro: distinct_required_pairs)

lemma evidence_subjects:
  "response_subject \<circ> applied_response h c = id"
  "receipt_subject \<circ> passing_receipt h c k = (\<lambda>(f, i). (f, k, i))"
  by (auto simp: response_subject_def applied_response_def receipt_subject_def passing_receipt_def)

lemma evidence_fields [simp]:
  "response_subject (applied_response h c p) = p"
  "rp_outcome (applied_response h c p) = APPLIED" "rp_basisManifestHash (applied_response h c p) = h"
  "rp_cycleId (applied_response h c p) = c" "rp_responseHash (applied_response h c p) = h"
  "rp_findingId (applied_response h c p) = fst p"
  "rc_basisManifestHash (passing_receipt h c k p) = h" "rc_cycleId (passing_receipt h c k p) = c"
  "rc_subjectKind (passing_receipt h c k p) = k" "rc_findingId (passing_receipt h c k p) = fst p"
  "rc_subjectId (passing_receipt h c k p) = snd p" "rc_responseHash (passing_receipt h c k p) = h"
  "rc_outcome (passing_receipt h c k p) = (case k of SK_remediation_item \<Rightarrow> VERIFIED | SK_test \<Rightarrow> PASSED)"
  by (simp_all add: response_subject_def applied_response_def passing_receipt_def)

lemma test_finding_has_item:
  assumes "\<forall>f\<in>set fs. fd_requiredTestIds f \<noteq> [] \<longrightarrow> fd_requiredRemediationItemIds f \<noteq> []"
    and "(g, t) \<in> required_tests fs"
  shows "\<exists>i. (g, i) \<in> required_items fs"
proof -
  from assms(2) obtain f where f: "f \<in> set fs" "fd_findingId f = g" "t \<in> set (fd_requiredTestIds f)"
    by (auto simp: required_tests_def)
  then have "fd_requiredTestIds f \<noteq> []" by auto
  with f assms(1) obtain i where "i \<in> set (fd_requiredRemediationItemIds f)"
    by (metis list.set_intros(1) neq_Nil_conv)
  with f show ?thesis by (force simp: required_items_def)
qed

lemma full_receipts_bound:
  assumes cov: "\<forall>f\<in>set fs. fd_requiredTestIds f \<noteq> [] \<longrightarrow> fd_requiredRemediationItemIds f \<noteq> []"
  shows "\<forall>q\<in>set (re_receipts (full_evidence fs h cyc)).
     rc_basisManifestHash q = h \<and> rc_cycleId q = cy_cycleId (re_cycle (full_evidence fs h cyc))
     \<and> (case rc_subjectKind q of
          SK_remediation_item \<Rightarrow> rc_outcome q = VERIFIED
            \<and> (\<exists>r\<in>set (re_responses (full_evidence fs h cyc)).
                 response_subject r = (rc_findingId q, rc_subjectId q) \<and> rp_responseHash r = rc_responseHash q)
        | SK_test \<Rightarrow> rc_outcome q = PASSED
            \<and> (\<exists>r\<in>set (re_responses (full_evidence fs h cyc)).
                 rp_findingId r = rc_findingId q \<and> rp_responseHash r = rc_responseHash q))"
proof -
  have "\<exists>p\<in>required_items fs. fst p = fst q" if "q \<in> required_tests fs" for q
    using test_finding_has_item [OF cov, of "fst q" "snd q"] that by (metis fst_conv prod.collapse)
  then show ?thesis
    by (auto simp: full_evidence_def ball_Un)
qed

lemma full_evidence_settles:
  assumes wf: "wf_findings fs"
    and cov: "\<forall>f\<in>set fs. fd_requiredTestIds f \<noteq> [] \<longrightarrow> fd_requiredRemediationItemIds f \<noteq> []"
  shows "settled fs h (full_evidence fs h cyc)"
proof -
  let ?e = "full_evidence fs h cyc"
  have rs: "map response_subject (re_responses ?e) = item_pairs fs"
    and qs: "map receipt_subject (re_receipts ?e)
      = map (\<lambda>(f, i). (f, SK_remediation_item, i)) (item_pairs fs) @ map (\<lambda>(f, i). (f, SK_test, i)) (test_pairs fs)"
    by (simp_all add: full_evidence_def evidence_subjects)
  have "distinct (map receipt_subject (re_receipts ?e))"
    unfolding qs using distinct_pairs [OF wf] by (auto simp: distinct_map inj_on_def)
  moreover have "receipt_subject ` set (re_receipts ?e) = required_subjects fs"
    unfolding set_map [symmetric] qs by (simp only: set_append set_map set_pairs required_subjects_def)
  moreover have "response_subject ` set (re_responses ?e) = required_items fs"
    unfolding set_map [symmetric] rs by simp
  moreover have "distinct (map response_subject (re_responses ?e))"
    unfolding rs using distinct_pairs [OF wf] ..
  moreover have "\<forall>r\<in>set (re_responses ?e). rp_outcome r = APPLIED \<and> rp_basisManifestHash r = h
      \<and> rp_cycleId r = cy_cycleId (re_cycle ?e)"
    by (simp add: full_evidence_def)
  ultimately show ?thesis
    unfolding settled_def using full_receipts_bound [OF cov] by blast
qed

text \<open>A required finding with a test but no item: its test receipt has no response to bind to.\<close>

lemma settled_needs_items:
  assumes wf: "wf_findings fs" and s: "settled fs h rem" and f: "f \<in> set fs" and t: "fd_requiredTestIds f \<noteq> []"
  shows "fd_requiredRemediationItemIds f \<noteq> []"
proof -
  obtain x where x: "x \<in> set (fd_requiredTestIds f)" using t by (cases "fd_requiredTestIds f") auto
  have "(fd_findingId f, SK_test, x) \<in> required_subjects fs"
    using f x by (force simp: required_subjects_def required_tests_def)
  moreover have "receipt_subject ` set (re_receipts rem) = required_subjects fs"
    using s by (simp add: settled_def)
  ultimately obtain q where q: "q \<in> set (re_receipts rem)" "receipt_subject q = (fd_findingId f, SK_test, x)"
    by (metis imageE)
  with s obtain r where r: "r \<in> set (re_responses rem)" "rp_findingId r = fd_findingId f"
    by (auto simp: settled_def receipt_subject_def split: subject_kind.splits)
  with s have "response_subject r \<in> required_items fs" by (auto simp: settled_def)
  then obtain g where g: "g \<in> set fs" "fd_findingId g = fd_findingId f"
      "rp_remediationItemId r \<in> set (fd_requiredRemediationItemIds g)"
    using r(2) by (auto simp: required_items_def response_subject_def)
  with f wf have "g = f" by (auto simp: wf_findings_def distinct_map dest: inj_onD)
  with g show ?thesis by auto
qed

section \<open>Concrete evidence\<close>

definition sample_hash :: "char \<Rightarrow> string" where
  "sample_hash c = replicate 64 c"

definition sample_scope :: review_scope where
  "sample_scope = \<lparr>sc_projectId = ''p'', sc_featureId = ''FEAT-1'', sc_phaseNumber = 1, sc_reviewGateId = ''g''\<rparr>"

definition sample_findings :: "review_finding list" where
  "sample_findings =
     [\<lparr>fd_findingId = ''F1'', fd_disposition = IN_SCOPE_BLOCKER, fd_requiredRemediationItemIds = [''I1'', ''I2''],
       fd_requiredTestIds = [''T1'']\<rparr>,
      \<lparr>fd_findingId = ''F2'', fd_disposition = OBSERVATION, fd_requiredRemediationItemIds = [''I1''],
       fd_requiredTestIds = []\<rparr>]"

definition sample_cycle :: remediation_cycle where
  "sample_cycle = \<lparr>cy_cycleId = ''c'', cy_scope = sample_scope, cy_basisManifestHash = sample_hash CHR ''b'',
     cy_cycleState = REMEDIATION_VERIFIED\<rparr>"

definition sample_input :: gate_input where
  "sample_input = \<lparr>gi_expectedScope = sample_scope,
     gi_manifest = \<lparr>mf_contentHash = sample_hash CHR ''a'', mf_scope = sample_scope, mf_result = M_APPROVED,
       mf_findings = []\<rparr>,
     gi_lineage = \<lparr>ln_artifactHash = sample_hash CHR ''a'', ln_predecessorHashes = [sample_hash CHR ''b'']\<rparr>,
     gi_predecessorLookups = [\<lparr>lk_contentHash = sample_hash CHR ''b'', lk_lookup = LK_found,
       lk_artifactKind = LK_review_manifest, lk_scope = sample_scope\<rparr>],
     gi_predecessorManifests = [\<lparr>mf_contentHash = sample_hash CHR ''b'', mf_scope = sample_scope,
       mf_result = M_NEEDS_CHANGES, mf_findings = sample_findings\<rparr>],
     gi_remediation = full_evidence (requiredFindings sample_findings) (sample_hash CHR ''b'') sample_cycle,
     gi_enforcement = \<lparr>en_enabled = True, en_storeAvailable = True\<rparr>\<rparr>"

lemma sample_hash_text: "is_hex c \<Longrightarrow> is_hash_text (sample_hash c)"
  by (simp add: is_hash_text_def sample_hash_def list_all_iff)

lemma sample_hash_inject [simp]: "sample_hash c = sample_hash d \<longleftrightarrow> c = d"
  by (simp add: sample_hash_def replicate_eq_replicate)

lemma sample_hash_ok [simp]: "is_hash_text (sample_hash CHR ''a'')" "is_hash_text (sample_hash CHR ''b'')"
  by (rule sample_hash_text; code_simp)+

lemma sample_findings_ok [simp]:
  "wf_findings sample_findings" "nul_free_findings sample_findings" "\<forall>f\<in>set sample_findings. ok_finding f"
  by (simp_all add: sample_findings_def wf_findings_def nul_free_findings_def ok_finding_def NUL_def)

lemma sample_required:
  "requiredFindings sample_findings = [hd sample_findings]"
  by (simp add: sample_findings_def requiredFindings_def)

lemma sample_input_wf [simp]: "wf_gate_input sample_input"
  by (simp add: wf_gate_input_def sample_input_def ok_manifest_def ok_lookup_def ok_remediation_def full_evidence_def
        sample_required, simp add: sample_findings_def sample_scope_def sample_cycle_def ok_scope_def ok_finding_def
        item_pairs_def test_pairs_def ok_response_def ok_receipt_def applied_response_def passing_receipt_def
        required_items_def required_tests_def ball_Un)

lemma sample_input_nul_free [simp]: "nul_free_input sample_input"
  by (simp add: nul_free_input_def sample_input_def nul_free_remediation_def full_evidence_def sample_required,
      simp add: sample_findings_def item_pairs_def test_pairs_def required_items_def required_tests_def NUL_def)

lemma sample_input_approves: "gate_approves sample_input"
proof -
  have "settled (requiredFindings sample_findings) (sample_hash CHR ''b'')
      (full_evidence (requiredFindings sample_findings) (sample_hash CHR ''b'') sample_cycle)"
    by (rule full_evidence_settles [OF wf_requiredFindings])
       (simp_all add: sample_required, simp add: sample_findings_def)
  moreover have "needs_changes sample_input = {hd (gi_predecessorManifests sample_input)}"
    by (auto simp: needs_changes_def sample_input_def)
  ultimately show ?thesis
    unfolding gate_approves_def
    by (simp add: sample_input_def lineage_closed_def, simp add: sample_cycle_def full_evidence_def)
qed

lemma evaluate_gate_shape:
  "(\<exists>s r. evaluate_gate i = gate_decision s r \<and> (s = G_APPROVED \<longleftrightarrow> r = approved_terminal_review))
   \<or> (\<exists>c. evaluate_gate i = gate_refusal c)"
  using terminal_decision_range [of i] by (auto simp: evaluate_gate_def split: option.splits)

lemma gate_outcome_shape:
  "(\<exists>s r. evaluateAuthoritativePhaseGate v = gate_decision s r \<and> (s = G_APPROVED \<longleftrightarrow> r = approved_terminal_review))
   \<or> (\<exists>c. evaluateAuthoritativePhaseGate v = gate_refusal c)"
  using evaluate_gate_shape by (auto simp: evaluateAuthoritativePhaseGate_def split: option.split)

section \<open>Properties\<close>

text \<open>C1. On every input the guards accept, with identifiers free of the key separator, the gate
  approves exactly when the specification of approval holds.\<close>

theorem gate_approval:
  assumes "validateInput v = Some i" and "nul_free_input i"
  shows "approved (evaluateAuthoritativePhaseGate v) \<longleftrightarrow> gate_approves i"
  using evaluate_gate_approved [OF validateInput_wf [OF assms(1)] assms(2)] assms(1)
  by (simp add: evaluateAuthoritativePhaseGate_def)

theorem gate_approval_witness:
  "validateInput (put_input sample_input) = Some sample_input
   \<and> approved (evaluateAuthoritativePhaseGate (put_input sample_input))"
  using gate_approval [of "put_input sample_input" sample_input] sample_input_approves by simp

text \<open>C24. The guard accepts exactly the well-formed inputs: everything it returns is well-formed and
  every well-formed input is returned unchanged from its encoding.\<close>

theorem gate_guard_exact:
  "(validateInput (put_input i) = Some i \<longleftrightarrow> wf_gate_input i) \<and> ((\<exists>v. validateInput v = Some i) \<longleftrightarrow> wf_gate_input i)"
  using validateInput_put validateInput_wf by blast

text \<open>C23. The order in which evidence is listed never changes the outcome, refusals included.\<close>

theorem gate_order_irrelevant:
  assumes "validateInput v = Some i" and "validateInput w = Some j"
    and "nul_free_input i" and "nul_free_input j" and "same_evidence i j"
  shows "evaluateAuthoritativePhaseGate v = evaluateAuthoritativePhaseGate w"
  using evaluate_gate_same_evidence [of i j] assms validateInput_wf
  by (simp add: evaluateAuthoritativePhaseGate_def)

definition sample_reordered :: gate_input where
  "sample_reordered = sample_input\<lparr>gi_remediation :=
     (gi_remediation sample_input)\<lparr>re_receipts := rev (re_receipts (gi_remediation sample_input)),
       re_responses := rev (re_responses (gi_remediation sample_input))\<rparr>\<rparr>"

lemma sample_reordered_ok [simp]:
  "wf_gate_input sample_reordered" "nul_free_input sample_reordered" "same_evidence sample_input sample_reordered"
  using sample_input_wf sample_input_nul_free
  by (simp_all add: sample_reordered_def wf_gate_input_def nul_free_input_def ok_remediation_def
        nul_free_remediation_def same_evidence_def flip: rev_map)

theorem gate_order_irrelevant_witness:
  "evaluateAuthoritativePhaseGate (put_input sample_input) = evaluateAuthoritativePhaseGate (put_input sample_reordered)
   \<and> sample_input \<noteq> sample_reordered"
  using gate_order_irrelevant [of "put_input sample_input" sample_input "put_input sample_reordered" sample_reordered]
  by (simp, simp add: sample_reordered_def sample_input_def full_evidence_def sample_required,
      simp add: sample_findings_def item_pairs_def test_pairs_def applied_response_def)



text \<open>A transition is offered only with an approval; every other decision forbids it, outcome and
  gate state agree, and a refusal carries nothing but its code and fixed text.\<close>

lemma gate_transition_only_on_approval:
  "case evaluateAuthoritativePhaseGate v of
     GDecision ot st r tr \<Rightarrow> ot = st \<and> (tr = requires_authoritative_exit_check \<longleftrightarrow> st = G_APPROVED)
       \<and> (st = G_APPROVED \<longleftrightarrow> approved (evaluateAuthoritativePhaseGate v))
   | GRefusal c m \<Rightarrow> m = gate_refusal_message c"
  using gate_outcome_shape [of v] by (auto simp: gate_decision_def gate_refusal_def approved_def)

text \<open>A manifest that asks for changes is rejected, and a blocked one blocks, whenever the scopes agree,
  the lineage is closed and the store is up, also with enforcement switched off; and only then.\<close>

lemma gate_rejects_and_blocks:
  assumes "validateInput v = Some i"
  shows "(evaluateAuthoritativePhaseGate v = gate_decision G_REJECTED review_needs_changes
      \<longleftrightarrow> mf_scope (gi_manifest i) = gi_expectedScope i \<and> cy_scope (re_cycle (gi_remediation i)) = gi_expectedScope i
          \<and> lineage_closed i \<and> en_storeAvailable (gi_enforcement i) \<and> mf_result (gi_manifest i) = M_NEEDS_CHANGES)
    \<and> (evaluateAuthoritativePhaseGate v = gate_decision G_BLOCKED review_blocked
      \<longleftrightarrow> mf_scope (gi_manifest i) = gi_expectedScope i \<and> cy_scope (re_cycle (gi_remediation i)) = gi_expectedScope i
          \<and> lineage_closed i \<and> en_storeAvailable (gi_enforcement i) \<and> mf_result (gi_manifest i) = M_BLOCKED)"
  unfolding evaluateAuthoritativePhaseGate_def lineageIsResolved_None [OF validateInput_wf [OF assms], symmetric]
  using assms terminal_decision_range [of i]
  by (auto simp: evaluate_gate_def split: option.splits)

definition sample_rejected :: gate_input where
  "sample_rejected = sample_input\<lparr>gi_manifest := (gi_manifest sample_input)\<lparr>mf_result := M_NEEDS_CHANGES\<rparr>,
     gi_enforcement := \<lparr>en_enabled = False, en_storeAvailable = True\<rparr>\<rparr>"

lemma sample_rejected_wf [simp]: "wf_gate_input sample_rejected"
  using sample_input_wf by (simp add: sample_rejected_def wf_gate_input_def ok_manifest_def)

theorem gate_rejects_and_blocks_witness:
  "evaluateAuthoritativePhaseGate (put_input sample_rejected) = gate_decision G_REJECTED review_needs_changes"
  using gate_rejects_and_blocks [OF validateInput_put [OF sample_rejected_wf]] sample_input_approves
  by (auto simp: sample_rejected_def gate_approves_def lineage_closed_def)

end
