(* ===== verification/JsRegex.thy ===== *)
theory JsRegex
  imports JsText
begin

text \<open>
  Regular expressions. The sources use a regular expression only through \<open>test\<close>, which
  asks whether some stretch of the subject matches; without back references, look-around
  and captures that is membership in a regular language, and greediness plays no part. An
  expression is a term of \<open>rx\<close>; \<open>rx_match\<close> is its meaning, \<open>rx_full\<close> the
  executable test of a whole subject (the pattern between \<open>^\<close> and \<open>$\<close>) and
  \<open>rx_test\<close> the test of the unanchored pattern. The theorems \<open>rx_full_iff\<close> and
  \<open>rx_test_iff\<close> tie the two tests to the meaning.
\<close>

section \<open>Expressions and their meaning\<close>

datatype rx =
    RZero
  | REps
  | RCls "char \<Rightarrow> bool"
  | RAlt rx rx
  | RSeq rx rx
  | RStar rx

inductive rx_match :: "rx \<Rightarrow> string \<Rightarrow> bool" where
  m_eps: "rx_match REps []"
| m_cls: "P c \<Longrightarrow> rx_match (RCls P) [c]"
| m_alt1: "rx_match r s \<Longrightarrow> rx_match (RAlt r q) s"
| m_alt2: "rx_match q s \<Longrightarrow> rx_match (RAlt r q) s"
| m_seq: "rx_match r s \<Longrightarrow> rx_match q t \<Longrightarrow> rx_match (RSeq r q) (s @ t)"
| m_star_stop: "rx_match (RStar r) []"
| m_star_more: "rx_match r (c # s) \<Longrightarrow> rx_match (RStar r) t \<Longrightarrow> rx_match (RStar r) (c # s @ t)"

inductive_simps rx_match_zero [simp]: "rx_match RZero s"
inductive_simps rx_match_eps [simp]: "rx_match REps s"
inductive_simps rx_match_cls [simp]: "rx_match (RCls P) s"
inductive_simps rx_match_alt [simp]: "rx_match (RAlt r q) s"
inductive_simps rx_match_seq: "rx_match (RSeq r q) s"
inductive_simps rx_match_star_Nil [simp]: "rx_match (RStar r) []"
inductive_simps rx_match_star_Cons: "rx_match (RStar r) (c # s)"

section \<open>Derived forms\<close>

definition rx_any :: rx where
  "rx_any = RCls (\<lambda>_. True)"

fun rx_lit :: "string \<Rightarrow> rx" where
  "rx_lit [] = REps"
| "rx_lit [c] = RCls (\<lambda>d. d = c)"
| "rx_lit (c # s) = RSeq (RCls (\<lambda>d. d = c)) (rx_lit s)"

text \<open>A literal under the flag \<open>i\<close>, given in lower case.\<close>

fun rx_lit_i :: "string \<Rightarrow> rx" where
  "rx_lit_i [] = REps"
| "rx_lit_i [c] = RCls (\<lambda>d. lower_char d = c)"
| "rx_lit_i (c # s) = RSeq (RCls (\<lambda>d. lower_char d = c)) (rx_lit_i s)"

definition rx_opt :: "rx \<Rightarrow> rx" where
  "rx_opt r = RAlt REps r"

definition rx_plus :: "rx \<Rightarrow> rx" where
  "rx_plus r = RSeq r (RStar r)"

fun rx_times :: "nat \<Rightarrow> rx \<Rightarrow> rx" where
  "rx_times 0 r = REps"
| "rx_times (Suc n) r = RSeq r (rx_times n r)"

definition rx_at_least :: "nat \<Rightarrow> rx \<Rightarrow> rx" where
  "rx_at_least n r = RSeq (rx_times n r) (RStar r)"

fun rx_alts :: "rx list \<Rightarrow> rx" where
  "rx_alts [] = RZero"
| "rx_alts [r] = r"
| "rx_alts (r # rs) = RAlt r (rx_alts rs)"

fun rx_seqs :: "rx list \<Rightarrow> rx" where
  "rx_seqs [] = REps"
| "rx_seqs [r] = r"
| "rx_seqs (r # rs) = RSeq r (rx_seqs rs)"

section \<open>The executable test\<close>

fun nullable :: "rx \<Rightarrow> bool" where
  "nullable RZero = False"
| "nullable REps = True"
| "nullable (RCls P) = False"
| "nullable (RAlt r q) = (nullable r \<or> nullable q)"
| "nullable (RSeq r q) = (nullable r \<and> nullable q)"
| "nullable (RStar r) = True"

fun mk_alt :: "rx \<Rightarrow> rx \<Rightarrow> rx" where
  "mk_alt RZero q = q"
| "mk_alt r RZero = r"
| "mk_alt r q = RAlt r q"

fun mk_seq :: "rx \<Rightarrow> rx \<Rightarrow> rx" where
  "mk_seq RZero q = RZero"
| "mk_seq REps q = q"
| "mk_seq r q = RSeq r q"

fun residual :: "char \<Rightarrow> rx \<Rightarrow> rx" where
  "residual c RZero = RZero"
| "residual c REps = RZero"
| "residual c (RCls P) = (if P c then REps else RZero)"
| "residual c (RAlt r q) = mk_alt (residual c r) (residual c q)"
| "residual c (RSeq r q) =
     (if nullable r then mk_alt (mk_seq (residual c r) q) (residual c q)
      else mk_seq (residual c r) q)"
| "residual c (RStar r) = mk_seq (residual c r) (RStar r)"

fun rx_full :: "rx \<Rightarrow> string \<Rightarrow> bool" where
  "rx_full r [] = nullable r"
| "rx_full r (c # s) = rx_full (residual c r) s"

text \<open>The search stops at the first position from which the pattern has matched.\<close>

fun rx_prefix :: "rx \<Rightarrow> string \<Rightarrow> bool" where
  "rx_prefix r [] = nullable r"
| "rx_prefix r (c # s) = (nullable r \<or> rx_prefix (residual c r) s)"

fun rx_test :: "rx \<Rightarrow> string \<Rightarrow> bool" where
  "rx_test r [] = nullable r"
| "rx_test r (c # s) = (rx_prefix r (c # s) \<or> rx_test r s)"

section \<open>Correctness of the tests\<close>

lemma nullable_iff: "nullable r \<longleftrightarrow> rx_match r []"
  by (induction r) (auto simp: rx_match_seq)

lemma mk_alt_iff [simp]: "rx_match (mk_alt r q) s \<longleftrightarrow> rx_match r s \<or> rx_match q s"
  by (induction r q rule: mk_alt.induct) auto

lemma mk_seq_iff [simp]: "rx_match (mk_seq r q) s \<longleftrightarrow> rx_match (RSeq r q) s"
  by (induction r q rule: mk_seq.induct) (auto simp: rx_match_seq)

lemma residual_iff: "rx_match (residual c r) s \<longleftrightarrow> rx_match r (c # s)"
proof (induction r arbitrary: s)
  case (RSeq r q)
  have "rx_match (RSeq r q) (c # s) \<longleftrightarrow>
      (nullable r \<and> rx_match q (c # s)) \<or>
      (\<exists>u v. s = u @ v \<and> rx_match r (c # u) \<and> rx_match q v)"
    by (auto simp: rx_match_seq nullable_iff Cons_eq_append_conv)
  moreover have "rx_match (residual c (RSeq r q)) s \<longleftrightarrow>
      (nullable r \<and> rx_match q (c # s)) \<or>
      (\<exists>u v. s = u @ v \<and> rx_match r (c # u) \<and> rx_match q v)"
    using RSeq by (auto simp: rx_match_seq)
  ultimately show ?case by simp
next
  case (RStar r)
  then show ?case by (auto simp: rx_match_seq rx_match_star_Cons)
qed auto

theorem rx_full_iff: "rx_full r s \<longleftrightarrow> rx_match r s"
  by (induction s arbitrary: r) (auto simp: nullable_iff residual_iff)

lemma rx_prefix_iff: "rx_prefix r s \<longleftrightarrow> (\<exists>u v. s = u @ v \<and> rx_match r u)"
proof (induction s arbitrary: r)
  case Nil
  then show ?case by (auto simp: nullable_iff)
next
  case (Cons c s)
  then show ?case
    by (auto simp: nullable_iff residual_iff Cons_eq_append_conv)
qed

theorem rx_test_iff: "rx_test r s \<longleftrightarrow> (\<exists>u v w. s = u @ v @ w \<and> rx_match r v)"
proof (induction s)
  case Nil
  then show ?case by (auto simp: nullable_iff)
next
  case (Cons c s)
  have "rx_prefix r (c # s) \<longleftrightarrow> (\<exists>v w. c # s = v @ w \<and> rx_match r v)"
    by (rule rx_prefix_iff)
  with Cons show ?case
    by (simp only: rx_test.simps) (metis append_Cons append_Nil neq_Nil_conv list.inject)
qed

lemma rx_match_seq_cls:
  "rx_match (RSeq (RCls P) r) s \<longleftrightarrow> (\<exists>c t. s = c # t \<and> P c \<and> rx_match r t)"
proof
  assume "rx_match (RSeq (RCls P) r) s"
  then show "\<exists>c t. s = c # t \<and> P c \<and> rx_match r t"
    by (cases rule: rx_match.cases) auto
next
  assume "\<exists>c t. s = c # t \<and> P c \<and> rx_match r t"
  then obtain c t where "s = [c] @ t" "P c" "rx_match r t" by auto
  then show "rx_match (RSeq (RCls P) r) s" by (simp only:) (intro m_seq m_cls)
qed

lemma rx_match_times_cls: "rx_match (rx_times n (RCls P)) s \<longleftrightarrow> length s = n \<and> list_all P s"
proof (induction n arbitrary: s)
  case 0
  then show ?case by (cases s) simp_all
next
  case (Suc n)
  show ?case by (cases s) (auto simp: rx_match_seq_cls Suc.IH)
qed

lemma rx_match_plus_cls [simp]: "rx_match (RStar (RCls P)) s \<longleftrightarrow> list_all P s"
proof (induction s)
  case (Cons c s)
  then show ?case by (auto simp: rx_match_star_Cons)
qed simp

lemma rx_match_plus [simp]: "rx_match (rx_plus (RCls P)) s \<longleftrightarrow> s \<noteq> [] \<and> list_all P s"
proof (cases s)
  case Nil
  then show ?thesis by (simp add: rx_plus_def rx_match_seq)
next
  case (Cons c t)
  have "P c \<Longrightarrow> list_all P t \<Longrightarrow> rx_match (RSeq (RCls P) (RStar (RCls P))) ([c] @ t)"
    by (rule m_seq) simp_all
  with Cons show ?thesis by (auto simp: rx_plus_def rx_match_seq)
qed

lemmas rx_eval = Let_def rx_plus_def rx_opt_def rx_at_least_def numeral_nat

end
