(* ===== verification/ReviewContract.thy ===== *)
theory ReviewContract
  imports JsValue JsRegex
begin

text \<open>
  The identifiers, paths and references of the review contract, and the canonical text whose
  hash identifies an artifact: the validators of \<open>review-contract-types.ts\<close>. Two things
  are arguments: \<open>num\<close>, the platform's text of a finite number, and \<open>sha\<close>, the
  hexadecimal SHA-256 of the platform's crypto module.
\<close>

section \<open>Identifiers\<close>

definition KEBAB_CASE_RE :: rx where
  "KEBAB_CASE_RE = rx_seqs [RCls is_lower, RStar (RCls is_lower_alnum),
     RStar (RSeq (RCls (\<lambda>c. c = CHR ''-'')) (rx_plus (RCls is_lower_alnum)))]"

definition SEMVER_RE :: rx where
  "SEMVER_RE = (let d = rx_plus (RCls is_digit); dot = RCls (\<lambda>c. c = CHR ''.'')
     in rx_seqs [d, dot, d, dot, d])"

definition SHA256_HEX_RE :: rx where
  "SHA256_HEX_RE = rx_times 64 (RCls is_hex)"

definition RULE_REF_RE :: rx where
  "RULE_REF_RE = RSeq (rx_lit ''rule:'') KEBAB_CASE_RE"

definition AC_REF_RE :: rx where
  "AC_REF_RE = rx_seqs [rx_lit ''ac:'', KEBAB_CASE_RE, RCls (\<lambda>c. c = CHR '':''),
     rx_plus (RCls (\<lambda>c. is_alnum c \<or> c = CHR ''_'' \<or> c = CHR ''-''))]"

definition isValidKebabCaseIdentifier :: "string \<Rightarrow> bool" where
  "isValidKebabCaseIdentifier s \<longleftrightarrow> 0 < length s \<and> length s \<le> 128 \<and> rx_full KEBAB_CASE_RE s"

definition isValidSemVer :: "string \<Rightarrow> bool" where
  "isValidSemVer s \<longleftrightarrow> 0 < length s \<and> length s \<le> 32 \<and> rx_full SEMVER_RE s"

definition isValidSha256Hex :: "string \<Rightarrow> bool" where
  "isValidSha256Hex s \<longleftrightarrow> length s = 64 \<and> rx_full SHA256_HEX_RE s"

definition isValidRuleReference :: "string \<Rightarrow> bool" where
  "isValidRuleReference s \<longleftrightarrow> 0 < length s \<and> length s \<le> 132 \<and> rx_full RULE_REF_RE s"

definition isValidAcceptanceCriterionReference :: "string \<Rightarrow> bool" where
  "isValidAcceptanceCriterionReference s \<longleftrightarrow> 0 < length s \<and> length s \<le> 256 \<and> rx_full AC_REF_RE s"

section \<open>Paths\<close>

definition DRIVE_RE :: rx where
  "DRIVE_RE = rx_seqs [RCls (\<lambda>c. is_lower c \<or> is_upper c), RCls (\<lambda>c. c = CHR '':''),
     RCls (\<lambda>c. c = CHR ''/'' \<or> c = CHR 0x5C)]"

definition SCHEME_RE :: rx where
  "SCHEME_RE = rx_seqs [RCls (\<lambda>c. is_lower c \<or> is_upper c),
     RStar (RCls (\<lambda>c. is_alnum c \<or> c = CHR ''+'' \<or> c = CHR ''.'' \<or> c = CHR ''-'')),
     RCls (\<lambda>c. c = CHR '':'')]"

definition isValidProjectRelativePath :: "string \<Rightarrow> bool" where
  "isValidProjectRelativePath s \<longleftrightarrow>
     0 < length s \<and> length s \<le> 512
     \<and> \<not> (str_includes s [CHR 0x00] \<or> str_includes s [CHR 0x5C])
     \<and> \<not> (startsWith s ''/'' \<or> rx_prefix DRIVE_RE s)
     \<and> \<not> rx_prefix SCHEME_RE s
     \<and> \<not> str_includes s ''//''
     \<and> \<not> endsWith s ''/''
     \<and> \<not> list_ex (\<lambda>w. w = ''.'' \<or> w = ''..'') (split_on CHR ''/'' s)"

definition isFeatureBoundPath :: "string \<Rightarrow> string \<Rightarrow> bool" where
  "isFeatureBoundPath p f \<longleftrightarrow>
     0 < length p \<and> length p \<le> 1024
     \<and> isValidProjectRelativePath p \<and> isValidProjectRelativePath f
     \<and> (p = f \<or> startsWith p (f @ ''/''))"

datatype path_rejection = invalid_project_path | invalid_feature_path

definition validateReviewContractPath :: "string \<Rightarrow> string option \<Rightarrow> path_rejection option" where
  "validateReviewContractPath p f =
     (if \<not> isValidProjectRelativePath p then Some invalid_project_path
      else case f of
        None \<Rightarrow> None
      | Some fp \<Rightarrow> if \<not> isFeatureBoundPath p fp then Some invalid_feature_path else None)"

section \<open>References and lineage\<close>

datatype artifact_kind =
    review_manifest | remediation_response_kind | verification_receipt_kind | replan_plan | debt_observation

definition ARTIFACT_KINDS :: "(string \<times> artifact_kind) list" where
  "ARTIFACT_KINDS =
     [(''review_manifest'', review_manifest), (''remediation_response'', remediation_response_kind),
      (''verification_receipt'', verification_receipt_kind), (''replan_plan'', replan_plan),
      (''debt_observation'', debt_observation)]"

record artifact_reference =
  ar_artifactKind :: artifact_kind
  ar_artifactId :: string
  ar_contentHash :: string
  ar_relativePath :: string

record lineage =
  li_predecessors :: "artifact_reference list option"
  li_supersedes :: "artifact_reference option"

definition ALLOWED_PREDECESSOR_KINDS :: "artifact_kind \<Rightarrow> artifact_kind list" where
  "ALLOWED_PREDECESSOR_KINDS k = [k]"

text \<open>
  \<open>typeof ref === "object"\<close> also holds of an array, which has none of the four properties,
  so the truthiness test refuses it; a record is the only case left.
\<close>

definition isValidArtifactReference :: "jsv \<Rightarrow> artifact_reference option" where
  "isValidArtifactReference v = do {
     chk (isRecord v);
     chk (truthy (jget v ''artifactKind'') \<and> truthy (jget v ''artifactId'')
          \<and> truthy (jget v ''contentHash'') \<and> truthy (jget v ''relativePath''));
     k \<leftarrow> enum_of ARTIFACT_KINDS (jget v ''artifactKind'');
     i \<leftarrow> string_where isValidKebabCaseIdentifier (jget v ''artifactId'');
     h \<leftarrow> string_where isValidSha256Hex (jget v ''contentHash'');
     p \<leftarrow> string_where isValidProjectRelativePath (jget v ''relativePath'');
     chk (hasOnlyKeys v [''artifactKind'', ''artifactId'', ''contentHash'', ''relativePath'']);
     Some \<lparr>ar_artifactKind = k, ar_artifactId = i, ar_contentHash = h, ar_relativePath = p\<rparr> }"

text \<open>The loop over the predecessors, with the identifiers seen so far.\<close>

fun check_predecessors ::
  "string \<Rightarrow> artifact_kind list \<Rightarrow> string list \<Rightarrow> jsv list \<Rightarrow> artifact_reference list option" where
  "check_predecessors self kinds seen [] = Some []"
| "check_predecessors self kinds seen (v # vs) = do {
     r \<leftarrow> isValidArtifactReference v;
     chk (ar_artifactId r \<noteq> self);
     chk (ar_artifactKind r \<in> set kinds);
     chk (ar_artifactId r \<notin> set seen);
     rs \<leftarrow> check_predecessors self kinds (ar_artifactId r # seen) vs;
     Some (r # rs) }"

text \<open>
  An array is an object too: its keys are its indices, so the key test refuses every array but the
  empty one, which has neither property and passes.
\<close>

definition isValidArtifactLineage :: "jsv \<Rightarrow> string \<Rightarrow> artifact_kind \<Rightarrow> lineage option" where
  "isValidArtifactLineage v self kind = do {
     chk (v = JArr [] \<or> (isRecord v \<and> hasOnlyKeys v [''predecessors'', ''supersedes'']));
     ps \<leftarrow> opt_field (\<lambda>p. do {
              xs \<leftarrow> as_array p;
              chk (0 < length xs \<and> length xs \<le> 64);
              check_predecessors self (ALLOWED_PREDECESSOR_KINDS kind) [] xs }) (jget v ''predecessors'');
     sp \<leftarrow> opt_field (\<lambda>s. do {
              r \<leftarrow> isValidArtifactReference s;
              chk (ar_artifactId r \<noteq> self);
              chk (ar_artifactKind r = kind);
              Some r }) (jget v ''supersedes'');
     Some \<lparr>li_predecessors = ps, li_supersedes = sp\<rparr> }"

section \<open>Safe text\<close>

definition rx_ws :: rx where
  "rx_ws = RStar (RCls is_ws)"

definition secret_assignment :: rx where
  "secret_assignment = rx_seqs
     [rx_alts [rx_seqs [rx_lit_i ''api'', rx_opt (RCls (\<lambda>c. c = CHR ''_'' \<or> c = CHR ''-'')), rx_lit_i ''key''],
        rx_lit_i ''authorization'', rx_lit_i ''bearer'', rx_lit_i ''password'', rx_lit_i ''secret'', rx_lit_i ''token''],
      rx_ws, RCls (\<lambda>c. c = CHR '':'' \<or> c = CHR ''=''), rx_ws, rx_plus (RCls (\<lambda>c. \<not> is_ws c))]"

definition private_key_header :: rx where
  "private_key_header = rx_seqs
     [rx_lit ''-----BEGIN '',
      rx_opt (RSeq (rx_plus (RCls (\<lambda>c. is_upper c \<or> c = CHR '' ''))) (rx_lit '' '')),
      rx_lit ''PRIVATE KEY-----'']"

definition sk_token :: rx where
  "sk_token = RSeq (rx_lit ''sk-'') (rx_at_least 12 (RCls (\<lambda>c. is_alnum c \<or> c = CHR ''_'' \<or> c = CHR ''-'')))"

definition secretPatterns :: "rx list" where
  "secretPatterns = [secret_assignment, private_key_header, sk_token]"

definition isReviewContractSafeString :: "string \<Rightarrow> bool" where
  "isReviewContractSafeString s \<longleftrightarrow>
     0 < length s \<and> length s \<le> 4096 \<and> \<not> list_ex (\<lambda>p. rx_test p s) secretPatterns"

section \<open>Canonical text and identity\<close>

definition hex_digit :: "nat \<Rightarrow> char" where
  "hex_digit n = (if n < 10 then char_of (48 + n) else char_of (87 + n))"

text \<open>\<open>JSON.stringify\<close> of a string.\<close>

definition json_char :: "char \<Rightarrow> string" where
  "json_char c =
     (let n = code_of c in
      if c = CHR 0x22 then [CHR 0x5C, CHR 0x22]
      else if c = CHR 0x5C then [CHR 0x5C, CHR 0x5C]
      else if n = 8 then [CHR 0x5C, CHR ''b'']
      else if n = 9 then [CHR 0x5C, CHR ''t'']
      else if n = 10 then [CHR 0x5C, CHR ''n'']
      else if n = 12 then [CHR 0x5C, CHR ''f'']
      else if n = 13 then [CHR 0x5C, CHR ''r'']
      else if n < 32 then [CHR 0x5C, CHR ''u'', CHR ''0'', CHR ''0'', hex_digit (n div 16), hex_digit (n mod 16)]
      else [c])"

definition json_string :: "string \<Rightarrow> string" where
  "json_string s = CHR 0x22 # concat (map json_char s) @ [CHR 0x22]"

fun finite_num :: "jnum \<Rightarrow> bool" where
  "finite_num (JInt n) = True"
| "finite_num (JFrac m e) = True"
| "finite_num _ = False"

text \<open>\<open>Object.keys(value).sort()\<close>, with the value of each key.\<close>

fun insert_key :: "(string \<times> 'a) \<Rightarrow> (string \<times> 'a) list \<Rightarrow> (string \<times> 'a) list" where
  "insert_key p [] = [p]"
| "insert_key p (q # qs) = (if str_less (fst q) (fst p) then q # insert_key p qs else p # q # qs)"

fun sort_keys :: "(string \<times> 'a) list \<Rightarrow> (string \<times> 'a) list" where
  "sort_keys [] = []"
| "sort_keys (p # ps) = insert_key p (sort_keys ps)"

text \<open>\<open>None\<close> is the exception on a value that is not JSON.\<close>

fun canonicalize :: "(jnum \<Rightarrow> string) \<Rightarrow> jsv \<Rightarrow> string option"
and canonical_items :: "(jnum \<Rightarrow> string) \<Rightarrow> jsv list \<Rightarrow> string list option"
and canonical_entries :: "(jnum \<Rightarrow> string) \<Rightarrow> (string \<times> jsv) list \<Rightarrow> (string \<times> string) list option" where
  "canonicalize num JUndef = None"
| "canonicalize num JNull = Some ''null''"
| "canonicalize num (JBool b) = Some (if b then ''true'' else ''false'')"
| "canonicalize num (JNum n) = (if finite_num n then Some (num n) else None)"
| "canonicalize num (JStr s) = Some (json_string s)"
| "canonicalize num (JArr xs) =
     (case canonical_items num xs of None \<Rightarrow> None
      | Some ts \<Rightarrow> Some (''['' @ join_with '','' ts @ '']''))"
| "canonicalize num (JObj kvs) =
     (case canonical_entries num kvs of None \<Rightarrow> None
      | Some es \<Rightarrow> Some (''{'' @ join_with '','' (map (\<lambda>(k, t). json_string k @ '':'' @ t) (sort_keys es)) @ ''}''))"
| "canonical_items num [] = Some []"
| "canonical_items num (v # vs) =
     (case canonicalize num v of None \<Rightarrow> None
      | Some t \<Rightarrow> (case canonical_items num vs of None \<Rightarrow> None | Some ts \<Rightarrow> Some (t # ts)))"
| "canonical_entries num [] = Some []"
| "canonical_entries num ((k, v) # kvs) =
     (case canonicalize num v of None \<Rightarrow> None
      | Some t \<Rightarrow> (case canonical_entries num kvs of None \<Rightarrow> None | Some es \<Rightarrow> Some ((k, t) # es)))"

definition computeReviewArtifactHash :: "(jnum \<Rightarrow> string) \<Rightarrow> (string \<Rightarrow> string) \<Rightarrow> jsv \<Rightarrow> string option" where
  "computeReviewArtifactHash num sha v = map_option sha (canonicalize num v)"

section \<open>The shape of identifiers\<close>

definition kebab_word :: "string \<Rightarrow> bool" where
  "kebab_word w \<longleftrightarrow> w \<noteq> [] \<and> list_all is_lower_alnum w"

lemma dash_not_alnum [simp]: "\<not> is_lower_alnum CHR ''-''"
  by code_simp

lemma kebab_tail_iff:
  "rx_match (RStar (RSeq (RCls (\<lambda>c. c = CHR ''-'')) (rx_plus (RCls is_lower_alnum)))) s
   \<longleftrightarrow> s = [] \<or> (\<exists>ws. ws \<noteq> [] \<and> s = CHR ''-'' # join_with ''-'' ws \<and> list_all kebab_word ws)"
  (is "rx_match ?R s \<longleftrightarrow> ?Q s")
proof
  assume "rx_match ?R s"
  then show "?Q s"
  proof (induction ?R s rule: rx_match.induct)
    case m_star_stop
    then show ?case by simp
  next
    case (m_star_more c s t)
    then have s: "c = CHR ''-''" "kebab_word s"
      by (auto simp: rx_match_seq kebab_word_def)
    show ?case
    proof (cases "t = []")
      case True
      with s show ?thesis by (auto intro!: exI [of _ "[s]"])
    next
      case False
      with m_star_more obtain ws where "ws \<noteq> []" "t = CHR ''-'' # join_with ''-'' ws" "list_all kebab_word ws"
        by auto
      with s show ?thesis by (cases ws) (auto intro!: exI [of _ "s # ws"])
    qed
  qed
next
  assume "?Q s"
  then show "rx_match ?R s"
  proof
    assume "\<exists>ws. ws \<noteq> [] \<and> s = CHR ''-'' # join_with ''-'' ws \<and> list_all kebab_word ws"
    then obtain ws where "ws \<noteq> []" "s = CHR ''-'' # join_with ''-'' ws" "list_all kebab_word ws" by blast
    then show ?thesis
    proof (induction ws arbitrary: s rule: list_nonempty_induct)
      case (single w)
      then have "rx_match (RSeq (RCls (\<lambda>c. c = CHR ''-'')) (rx_plus (RCls is_lower_alnum))) (CHR ''-'' # w)"
        by (auto simp: rx_match_seq kebab_word_def)
      from m_star_more [OF this m_star_stop] single show ?case by simp
    next
      case (cons w ws)
      then have "rx_match (RSeq (RCls (\<lambda>c. c = CHR ''-'')) (rx_plus (RCls is_lower_alnum))) (CHR ''-'' # w)"
        by (auto simp: rx_match_seq kebab_word_def)
      from m_star_more [OF this] cons show ?case by (cases ws) auto
    qed
  qed simp
qed

text \<open>A kebab-case identifier is exactly a list of non-empty lower-case alphanumeric words joined by hyphens that
  begins with a letter.\<close>

lemma kebab_shape:
  "rx_full KEBAB_CASE_RE s \<longleftrightarrow>
     list_all kebab_word (split_on CHR ''-'' s) \<and> (\<exists>c t. s = c # t \<and> is_lower c)"
  (is "_ \<longleftrightarrow> ?R")
proof
  assume "rx_full KEBAB_CASE_RE s"
  then obtain c u v where s: "s = c # u @ v" "is_lower c" "list_all is_lower_alnum u"
    and v: "v = [] \<or> (\<exists>ws. ws \<noteq> [] \<and> v = CHR ''-'' # join_with ''-'' ws \<and> list_all kebab_word ws)"
    by (auto simp: rx_full_iff KEBAB_CASE_RE_def rx_match_seq simp flip: kebab_tail_iff)
  have w: "kebab_word (c # u)" using s by (simp add: kebab_word_def is_lower_alnum_def)
  have nd: "CHR ''-'' \<notin> set w'" if "kebab_word w'" for w'
    using that dash_not_alnum by (metis kebab_word_def list_all_iff)
  from v show ?R
  proof
    assume "v = []"
    with s w nd [OF w] show ?R by (auto simp: split_on_plain)
  next
    assume "\<exists>ws. ws \<noteq> [] \<and> v = CHR ''-'' # join_with ''-'' ws \<and> list_all kebab_word ws"
    then obtain ws where ws: "ws \<noteq> []" "v = CHR ''-'' # join_with ''-'' ws" "list_all kebab_word ws" by blast
    then have "split_on CHR ''-'' (join_with ''-'' ws) = ws"
      using nd by (intro split_join) (auto simp: list_all_iff)
    moreover have "split_on CHR ''-'' s = (c # u) # split_on CHR ''-'' (join_with ''-'' ws)"
      using s(1) ws(2) nd [OF w] split_on_append_sep [of "CHR ''-''" "c # u"] by simp
    ultimately show ?R using w ws(3) s by (auto simp: list_all_iff)
  qed
next
  assume r: ?R
  then obtain c t where c: "s = c # t" "is_lower c" by blast
  obtain w ws where sp: "split_on CHR ''-'' s = w # ws" by (meson neq_Nil_conv split_on_nonempty)
  have j: "s = join_with ''-'' (w # ws)" using join_split [of "CHR ''-''" s] sp by simp
  from r sp have k: "kebab_word w" "list_all kebab_word ws" by (auto simp: list_all_iff)
  then obtain u where u: "w = c # u" using j c by (cases w; cases ws) (auto simp: kebab_word_def)
  have tail: "s = c # u @ (if ws = [] then [] else CHR ''-'' # join_with ''-'' ws)"
    using j u by (cases ws) auto
  have "rx_match (RStar (RSeq (RCls (\<lambda>c. c = CHR ''-'')) (rx_plus (RCls is_lower_alnum))))
      (if ws = [] then [] else CHR ''-'' # join_with ''-'' ws)"
    using k(2) by (auto simp: kebab_tail_iff)
  then show "rx_full KEBAB_CASE_RE s"
    using c k(1) u unfolding rx_full_iff KEBAB_CASE_RE_def tail
    by (simp add: rx_match_seq kebab_word_def) (metis append_Cons append_Nil)
qed

section \<open>Paths stay inside\<close>

definition slash :: char where
  "slash = CHR ''/''"

lemma str_includes_char: "str_includes s [c] \<longleftrightarrow> c \<in> set s"
  by (auto simp: includes_iff in_set_conv_decomp)

text \<open>Resolution of the segments of a path against a directory, as the file system does it.\<close>

fun resolve :: "string list \<Rightarrow> string list \<Rightarrow> string list" where
  "resolve dir [] = dir"
| "resolve dir (w # ws) =
     (if w = [] \<or> w = ''.'' then resolve dir ws
      else if w = ''..'' then resolve (butlast dir) ws
      else resolve (dir @ [w]) ws)"

lemma resolve_plain:
  "(\<forall>w\<in>set ws. w \<noteq> [] \<and> w \<noteq> ''.'' \<and> w \<noteq> ''..'') \<Longrightarrow> resolve dir ws = dir @ ws"
  by (induction ws arbitrary: dir) auto

lemma split_empty_segment:
  assumes "[] \<in> set (split_on sep s)"
  shows "s = [] \<or> startsWith s [sep] \<or> endsWith s [sep] \<or> str_includes s [sep, sep]"
proof -
  from assms obtain us vs where "split_on sep s = us @ [] # vs" by (auto simp: in_set_conv_decomp)
  then have s: "s = join_with [sep] (us @ [] # vs)" using join_split by metis
  have mid: "join_with [sep] (us @ ws) = join_with [sep] us @ [sep] @ join_with [sep] ws"
    if "us \<noteq> []" "ws \<noteq> []" for us ws
    using that by (induction us rule: induct_list012) (auto simp: neq_Nil_conv)
  consider "us = []" "vs = []" | "us = []" "vs \<noteq> []" | "us \<noteq> []" "vs = []" | "us \<noteq> []" "vs \<noteq> []" by blast
  then show ?thesis
  proof cases
    case 2
    with s show ?thesis by (cases vs) (auto simp: startsWith_def)
  next
    case 3
    with s mid [of us "[[]]"] show ?thesis by (auto simp: endsWith_def startsWith_def)
  next
    case 4
    with s mid [of us "[] # vs"] have "s = join_with [sep] us @ [sep, sep] @ join_with [sep] vs"
      by (cases vs) auto
    then show ?thesis by (auto simp: includes_iff)
  qed (use s in auto)
qed

lemma project_path_segments:
  assumes "isValidProjectRelativePath p"
  shows "\<forall>w\<in>set (split_on slash p). w \<noteq> [] \<and> w \<noteq> ''.'' \<and> w \<noteq> ''..''"
  using assms split_empty_segment [of slash p]
  by (auto simp: isValidProjectRelativePath_def list_ex_iff slash_def)

text \<open>C25. Resolving an accepted project-relative path against any directory never leaves that directory: it appends
  the path's segments to it.\<close>

theorem project_path_contained:
  assumes "isValidProjectRelativePath p"
  shows "resolve dir (split_on slash p) = dir @ split_on slash p"
  using project_path_segments [OF assms] by (rule resolve_plain)

theorem project_path_contained_witness:
  "resolve [''home'', ''repo''] (split_on slash ''src/a.ts'') = [''home'', ''repo'', ''src'', ''a.ts'']"
proof -
  have "isValidProjectRelativePath ''src/a.ts''"
    by (simp add: isValidProjectRelativePath_def DRIVE_RE_def SCHEME_RE_def startsWith_def endsWith_def rx_eval char_eval
        lower_char_def code_of_def)
  from project_path_contained [OF this, of "[''home'', ''repo'']"] show ?thesis by (simp add: slash_def)
qed

lemma split_on_prefix:
  "startsWith p (f @ [sep]) \<Longrightarrow> prefix (split_on sep f) (split_on sep p)"
proof (induction f arbitrary: p)
  case Nil
  then show ?case by (auto simp: startsWith_iff)
next
  case (Cons c f)
  then obtain q where p: "p = c # q" "startsWith q (f @ [sep])" by (auto simp: startsWith_iff)
  with Cons.IH have "prefix (split_on sep f) (split_on sep q)" by blast
  then show ?case using p(1)
    by (cases "split_on sep f"; cases "split_on sep q") auto
qed

lemma segment_prefix_iff: "prefix (split_on slash f) (split_on slash p) \<longleftrightarrow> p = f \<or> startsWith p (f @ ''/'')"
proof
  assume "prefix (split_on slash f) (split_on slash p)"
  then obtain ws where ws: "split_on slash p = split_on slash f @ ws" by (auto simp: prefix_def)
  have mid: "join_with [slash] (us @ ws) = join_with [slash] us @ [slash] @ join_with [slash] ws"
    if "us \<noteq> []" "ws \<noteq> []" for us ws
    using that by (induction us rule: induct_list012) (auto simp: neq_Nil_conv)
  have "p = join_with [slash] (split_on slash f @ ws)" using join_split [of slash p] ws by simp
  then show "p = f \<or> startsWith p (f @ ''/'')"
    using mid [of "split_on slash f" ws] join_split [of slash f]
    by (cases "ws = []") (auto simp: startsWith_iff slash_def)
next
  assume "p = f \<or> startsWith p (f @ ''/'')"
  then show "prefix (split_on slash f) (split_on slash p)" using split_on_prefix [of p f slash] by (auto simp: slash_def)
qed

text \<open>A path is bound to a feature directory exactly when both are accepted paths and the segments of the feature
  directory are the first segments of the path.\<close>

lemma feature_bound_iff:
  "isFeatureBoundPath p f \<longleftrightarrow> isValidProjectRelativePath p \<and> isValidProjectRelativePath f
     \<and> prefix (split_on slash f) (split_on slash p)"
proof -
  have "isValidProjectRelativePath p \<Longrightarrow> 0 < length p \<and> length p \<le> 1024"
    by (simp add: isValidProjectRelativePath_def)
  then show ?thesis by (auto simp: isFeatureBoundPath_def segment_prefix_iff)
qed

lemma sha256_text: "rx_full SHA256_HEX_RE s \<longleftrightarrow> length s = 64 \<and> list_all is_hex s"
  by (simp only: SHA256_HEX_RE_def rx_full_iff rx_match_times_cls)

text \<open>Text without colon, equals sign and hyphen matches no secret pattern.\<close>

lemma secret_assignment_sign: "rx_match secret_assignment v \<Longrightarrow> CHR '':'' \<in> set v \<or> CHR ''='' \<in> set v"
  by (auto simp: secret_assignment_def rx_match_seq)

lemma private_key_hyphen: "rx_match private_key_header v \<Longrightarrow> CHR ''-'' \<in> set v"
  by (auto simp: private_key_header_def rx_match_seq)

lemma sk_token_hyphen: "rx_match sk_token v \<Longrightarrow> CHR ''-'' \<in> set v"
  by (auto simp: sk_token_def rx_match_seq)

lemma plain_text_safe:
  assumes "s \<noteq> []" and "length s \<le> 4096"
    and "CHR '':'' \<notin> set s" and "CHR ''='' \<notin> set s" and "CHR ''-'' \<notin> set s"
  shows "isReviewContractSafeString s"
proof -
  have "\<not> rx_test secret_assignment s" "\<not> rx_test private_key_header s" "\<not> rx_test sk_token s"
    using assms by (auto simp: rx_test_iff dest: secret_assignment_sign private_key_hyphen sk_token_hyphen)
  with assms(1,2) show ?thesis by (simp add: isReviewContractSafeString_def secretPatterns_def)
qed

end
