(* ===== verification/ReplanGovernance.thy ===== *)
theory ReplanGovernance
  imports ReviewContract
begin

text \<open>
  Recurrence, approval and bounded dispatch of a replan, \<open>replan-governance-policy.ts\<close>: the
  guards over the stored aggregate and the plan, and the three exported decisions. A refusal is
  \<open>Inl\<close> with its code. The records of an aggregate all repeat its scope and identifier, which
  the guards compare with the aggregate's; the narrowed records keep the remaining properties.
\<close>

section \<open>Data\<close>

datatype replan_state =
    NORMAL_REMEDIATION
  | REMEDIATION_REPLAN_REQUIRED
  | REPLAN_PENDING_APPROVAL
  | REPLAN_APPROVED
  | REPLAN_REJECTED
  | BOUNDED_REMEDIATION_DISPATCHED
  | REVIEW_PENDING

datatype observation_kind = POST_FIX_MANIFESTATION | SCOPE_EXPANSION_ACCEPTED | FINDING_EXHAUSTIVENESS

datatype replan_refusal_code =
    INVALID_INPUT
  | SCOPE_MISMATCH
  | INVALID_STATE
  | DUPLICATE_EVENT
  | UNAUTHORIZED
  | SELF_APPROVAL
  | STALE_VERSION
  | PLAN_NOT_CURRENT
  | DISPATCH_CONSUMED

datatype governance_role = FEATURE_OWNER | ARCHITECTURE_STEWARD

record replan_scope =
  rs_projectId :: string
  rs_featureId :: string
  rs_phaseNumber :: int
  rs_reviewGateId :: string
  rs_defectClass :: string

record replan_observation =
  ob_observationEventId :: string
  ob_observationKind :: observation_kind
  ob_triggerManifestHash :: string
  ob_basisManifestHash :: string
  ob_findingObservationId :: "string option"
  ob_remediationCycleId :: "string option"
  ob_decisionId :: "string option"
  ob_createdAt :: string

record replan_request =
  rq_requestId :: string
  rq_triggerEventId :: string
  rq_planHash :: string
  rq_planVersion :: int
  rq_proposalAuthorActor :: string
  rq_producerInvocationId :: string
  rq_requestedAt :: string

datatype scope_outcome = ACCEPT_SCOPE | REJECT_SCOPE

record scope_decision =
  sd_decisionId :: string
  sd_findingObservationId :: string
  sd_outcome :: scope_outcome
  sd_actorId :: string
  sd_reason :: string
  sd_expectedVersion :: int
  sd_resultingVersion :: int
  sd_decidedAt :: string

datatype replan_outcome = APPROVE | REJECT

record replan_decision =
  dc_decisionId :: string
  dc_requestId :: string
  dc_planHash :: string
  dc_planVersion :: int
  dc_outcome :: replan_outcome
  dc_actorId :: string
  dc_authorizedRole :: governance_role
  dc_reason :: string
  dc_expectedVersion :: int
  dc_resultingVersion :: int
  dc_decidedAt :: string

record replan_transition =
  tr_transitionId :: string
  tr_fromState :: replan_state
  tr_toState :: replan_state
  tr_reasonCode :: string
  tr_triggerRecordId :: string
  tr_triggerHash :: "string option"
  tr_expectedVersion :: int
  tr_resultingVersion :: int
  tr_transitionedAt :: string

datatype dispatch_outcome = STARTED | START_FAILED

record dispatch_attempt =
  da_attemptEventId :: string
  da_dispatchId :: string
  da_requestId :: string
  da_planHash :: string
  da_planVersion :: int
  da_approvalDecisionId :: string
  da_approvalEventVersion :: int
  da_outcome :: dispatch_outcome
  da_reasonCode :: "string option"
  da_workflowRunId :: string
  da_attemptedAt :: string

record review_assessment =
  as_assessmentId :: string
  as_dispatchId :: string
  as_reviewManifestHash :: string
  as_reviewRunId :: string
  as_planHash :: string
  as_planVersion :: int
  as_outcome :: string
  as_assessedSurfaceIds :: "string list"
  as_assessedRemediationItemIds :: "string list"
  as_assessedTestIds :: "string list"
  as_createdAt :: string

record replan_aggregate =
  ag_scope :: replan_scope
  ag_aggregateId :: string
  ag_eventVersion :: int
  ag_state :: replan_state
  ag_observations :: "replan_observation list"
  ag_requests :: "replan_request list"
  ag_scopeExpansionDecisions :: "scope_decision list"
  ag_decisions :: "replan_decision list"
  ag_transitions :: "replan_transition list"
  ag_dispatchAttempts :: "dispatch_attempt list"
  ag_reviewAssessments :: "review_assessment list"

record replan_candidate =
  ca_aggregateId :: string
  ca_scope :: replan_scope
  ca_observationEventId :: string
  ca_observationKind :: observation_kind
  ca_triggerManifestHash :: string
  ca_basisManifestHash :: string
  ca_findingObservationId :: "string option"
  ca_remediationCycleId :: "string option"
  ca_decisionId :: "string option"

datatype governance_action = APPEND_OBSERVATION | APPEND_THRESHOLD

datatype governance_reason =
    first_post_fix_manifestation | first_scope_expansion | recurrence_threshold | finding_exhaustiveness

record governance_decision =
  gv_action :: governance_action
  gv_state :: replan_state
  gv_reasonCode :: governance_reason
  gv_expectedVersion :: int
  gv_candidate :: replan_candidate

record loopback_authority =
  la_actorId :: string
  la_roles :: "governance_role list"

datatype approval_action = APPROVE_REPLAN | REJECT_REPLAN

record approval_request =
  aq_requestId :: string
  aq_action :: approval_action
  aq_expectedVersion :: int
  aq_reason :: string

record authorized_decision =
  az_requestId :: string
  az_planHash :: string
  az_planVersion :: int
  az_outcome :: replan_outcome
  az_actorId :: string
  az_authorizedRole :: governance_role
  az_reason :: string
  az_expectedVersion :: int
  az_resultingVersion :: int
  az_decidedAt :: string

record surface_entry =
  se_surfaceId :: string
  se_relativePath :: string
  se_symbol :: "string option"
  se_endpoint :: "string option"
  se_rationale :: "string option"

record plan_surface =
  su_inspected :: "surface_entry list"
  su_affected :: "surface_entry list"
  su_confirmedUnaffected :: "surface_entry list"

record exclusion_entry =
  ex_relativePath :: string
  ex_rationale :: string

text \<open>A remediation item (instruction) or a test of the matrix (requirement).\<close>

record plan_item =
  pi_id :: string
  pi_text :: string
  pi_targetSurfaceIds :: "string list"

record artifact_scope =
  as_projectId :: string
  as_featureId :: string
  as_phaseNumber :: int
  as_reviewGateId :: string

datatype replan_reason = rr_finding_exhaustiveness | rr_recurrence_signal

record replan_plan =
  pl_artifactId :: string
  pl_scope :: artifact_scope
  pl_lineage :: "lineage option"
  pl_manifestReference :: artifact_reference
  pl_findingIds :: "string list"
  pl_defectClass :: string
  pl_replanReason :: replan_reason
  pl_rootCause :: string
  pl_surface :: plan_surface
  pl_explicitExclusions :: "exclusion_entry list"
  pl_remediationItems :: "plan_item list"
  pl_testMatrix :: "plan_item list"
  pl_verificationPlan :: string
  pl_closureCriteria :: string

record plan_artifact =
  pa_artifactId :: string
  pa_contentHash :: string
  pa_relativePath :: string

record replan_dispatch =
  di_scope :: replan_scope
  di_requestId :: string
  di_planArtifactId :: string
  di_planHash :: string
  di_planRelativePath :: string
  di_planVersion :: int
  di_approvalDecisionId :: string
  di_authorizedRole :: governance_role
  di_approvalEventVersion :: int
  di_rootCause :: string
  di_surface :: plan_surface
  di_explicitExclusions :: "exclusion_entry list"
  di_remediationItems :: "plan_item list"
  di_testMatrix :: "plan_item list"
  di_verificationPlan :: string
  di_closureCriteria :: string

section \<open>Names\<close>

definition STATES :: "(string \<times> replan_state) list" where
  "STATES =
     [(''NORMAL_REMEDIATION'', NORMAL_REMEDIATION),
      (''REMEDIATION_REPLAN_REQUIRED'', REMEDIATION_REPLAN_REQUIRED),
      (''REPLAN_PENDING_APPROVAL'', REPLAN_PENDING_APPROVAL),
      (''REPLAN_APPROVED'', REPLAN_APPROVED),
      (''REPLAN_REJECTED'', REPLAN_REJECTED),
      (''BOUNDED_REMEDIATION_DISPATCHED'', BOUNDED_REMEDIATION_DISPATCHED),
      (''REVIEW_PENDING'', REVIEW_PENDING)]"

definition OBSERVATION_KINDS :: "(string \<times> observation_kind) list" where
  "OBSERVATION_KINDS =
     [(''POST_FIX_MANIFESTATION'', POST_FIX_MANIFESTATION),
      (''SCOPE_EXPANSION_ACCEPTED'', SCOPE_EXPANSION_ACCEPTED),
      (''FINDING_EXHAUSTIVENESS'', FINDING_EXHAUSTIVENESS)]"

section \<open>Primitive guards\<close>

text \<open>A control character: the class \<open>[\u0000-\u001f\u007f-\u009f]\<close>.\<close>

definition is_control :: "char \<Rightarrow> bool" where
  "is_control c \<longleftrightarrow> (let n = code_of c in n \<le> 0x1f \<or> (0x7f \<le> n \<and> n \<le> 0x9f))"

definition safe_text_string :: "string \<Rightarrow> bool" where
  "safe_text_string s \<longleftrightarrow> isWellFormedUtf16 s \<and> isReviewContractSafeString s \<and> \<not> list_ex is_control s"

definition safeText :: "jsv \<Rightarrow> string option" where
  "safeText v = string_where safe_text_string v"

definition safeProjectRelativePath :: "jsv \<Rightarrow> string option" where
  "safeProjectRelativePath v = string_where (\<lambda>s. isWellFormedUtf16 s \<and> isValidProjectRelativePath s) v"

definition hasSafeArtifactReference :: "jsv \<Rightarrow> artifact_reference option" where
  "hasSafeArtifactReference v = do {
     chk (isRecord v);
     _ \<leftarrow> safeProjectRelativePath (jget v ''relativePath'');
     isValidArtifactReference v }"

definition hasSafeArtifactLineage :: "jsv \<Rightarrow> string \<Rightarrow> lineage option option" where
  "hasSafeArtifactLineage v self =
     (if v = JUndef then Some None
      else do {
        chk (isRecord v);
        _ \<leftarrow> opt_field (array_of hasSafeArtifactReference) (jget v ''predecessors'');
        _ \<leftarrow> opt_field hasSafeArtifactReference (jget v ''supersedes'');
        l \<leftarrow> isValidArtifactLineage v self artifact_kind.replan_plan;
        Some (Some l) })"

definition isIdentifier :: "jsv \<Rightarrow> string option" where
  "isIdentifier v = string_where (\<lambda>s. length s \<le> 128 \<and> rx_full KEBAB_CASE_RE s) v"

definition safeIdentity :: "jsv \<Rightarrow> string option" where
  "safeIdentity v = string_where (\<lambda>s. length s \<le> 256 \<and> safe_text_string s) v"

definition hash :: "jsv \<Rightarrow> string option" where
  "hash v = string_where (rx_full SHA256_HEX_RE) v"

text \<open>
  The timestamp pattern, and the calendar check: the parsed instant has the written date and time
  exactly when the month, the day of that month, hour, minute and second are in range (the parser
  rolls a day past the end of its month, and the hour 24, over to the next day, and rejects the
  rest).
\<close>

definition TIMESTAMP_RE :: rx where
  "TIMESTAMP_RE = (let d = RCls is_digit; dd = rx_times 2 d; lit = (\<lambda>x. RCls (\<lambda>c. c = x))
     in rx_seqs [rx_lit ''20'', dd, lit CHR ''-'', dd, lit CHR ''-'', dd, lit CHR ''T'', dd, lit CHR '':'',
          dd, lit CHR '':'', dd, rx_opt (RSeq (lit CHR ''.'') (rx_plus d)),
          RAlt (lit CHR ''Z'') (rx_lit ''+00:00'')])"

definition digit_value :: "char \<Rightarrow> nat" where
  "digit_value c = code_of c - 48"

definition decimal :: "string \<Rightarrow> nat" where
  "decimal s = foldl (\<lambda>n c. 10 * n + digit_value c) 0 s"

definition field_at :: "string \<Rightarrow> nat \<Rightarrow> nat \<Rightarrow> nat" where
  "field_at s i n = decimal (take n (drop i s))"

definition leap_year :: "nat \<Rightarrow> bool" where
  "leap_year y \<longleftrightarrow> (y mod 4 = 0 \<and> y mod 100 \<noteq> 0) \<or> y mod 400 = 0"

definition days_in_month :: "nat \<Rightarrow> nat \<Rightarrow> nat" where
  "days_in_month y m =
     (if m = 2 then (if leap_year y then 29 else 28) else if m \<in> {4, 6, 9, 11} then 30 else 31)"

definition calendar_ok :: "nat \<Rightarrow> nat \<Rightarrow> nat \<Rightarrow> nat \<Rightarrow> nat \<Rightarrow> nat \<Rightarrow> bool" where
  "calendar_ok y mo d h mi sec \<longleftrightarrow>
     1 \<le> mo \<and> mo \<le> 12 \<and> 1 \<le> d \<and> d \<le> days_in_month y mo \<and> h < 24 \<and> mi < 60 \<and> sec < 60"

definition timestamp_text :: "string \<Rightarrow> bool" where
  "timestamp_text s \<longleftrightarrow> rx_full TIMESTAMP_RE s
     \<and> calendar_ok (field_at s 0 4) (field_at s 5 2) (field_at s 8 2) (field_at s 11 2) (field_at s 14 2)
         (field_at s 17 2)"

definition timestamp :: "jsv \<Rightarrow> string option" where
  "timestamp v = string_where timestamp_text v"

section \<open>Guards over the aggregate\<close>

definition isReplanScope :: "jsv \<Rightarrow> replan_scope option" where
  "isReplanScope v = do {
     chk (isRecord v \<and>
       hasOnlyKeys v [''projectId'', ''featureId'', ''phaseNumber'', ''reviewGateId'', ''defectClass'']);
     p \<leftarrow> safeIdentity (jget v ''projectId'');
     f \<leftarrow> safeIdentity (jget v ''featureId'');
     n \<leftarrow> as_nat_int (jget v ''phaseNumber'');
     g \<leftarrow> safeIdentity (jget v ''reviewGateId'');
     d \<leftarrow> isIdentifier (jget v ''defectClass'');
     Some \<lparr>rs_projectId = p, rs_featureId = f, rs_phaseNumber = n, rs_reviewGateId = g,
           rs_defectClass = d\<rparr> }"

definition isArtifactScope :: "jsv \<Rightarrow> artifact_scope option" where
  "isArtifactScope v = do {
     chk (isRecord v \<and> hasOnlyKeys v [''projectId'', ''featureId'', ''phaseNumber'', ''reviewGateId'']);
     p \<leftarrow> safeIdentity (jget v ''projectId'');
     f \<leftarrow> safeIdentity (jget v ''featureId'');
     n \<leftarrow> as_nat_int (jget v ''phaseNumber'');
     g \<leftarrow> safeIdentity (jget v ''reviewGateId'');
     Some \<lparr>as_projectId = p, as_featureId = f, as_phaseNumber = n, as_reviewGateId = g\<rparr> }"

definition sameReplanScope :: "replan_scope \<Rightarrow> replan_scope \<Rightarrow> bool" where
  "sameReplanScope l r \<longleftrightarrow>
     rs_projectId l = rs_projectId r \<and> rs_featureId l = rs_featureId r
     \<and> rs_phaseNumber l = rs_phaseNumber r \<and> rs_reviewGateId l = rs_reviewGateId r
     \<and> rs_defectClass l = rs_defectClass r"

definition scope_keys :: "string list" where
  "scope_keys = [''projectId'', ''featureId'', ''phaseNumber'', ''reviewGateId'', ''defectClass'', ''aggregateId'']"

definition isScopedAggregateRecord :: "jsv \<Rightarrow> string list \<Rightarrow> replan_scope \<Rightarrow> string \<Rightarrow> bool" where
  "isScopedAggregateRecord v keys sc ident \<longleftrightarrow>
     isRecord v \<and> hasOnlyKeys v (scope_keys @ keys)
     \<and> jget v ''projectId'' = JStr (rs_projectId sc) \<and> jget v ''featureId'' = JStr (rs_featureId sc)
     \<and> jget v ''phaseNumber'' = JNum (JInt (rs_phaseNumber sc))
     \<and> jget v ''reviewGateId'' = JStr (rs_reviewGateId sc)
     \<and> jget v ''defectClass'' = JStr (rs_defectClass sc) \<and> jget v ''aggregateId'' = JStr ident"

text \<open>Which of the three optional identifiers an observation of a kind carries.\<close>

fun kind_fields_ok :: "observation_kind \<Rightarrow> string option \<Rightarrow> string option \<Rightarrow> string option \<Rightarrow> bool" where
  "kind_fields_ok POST_FIX_MANIFESTATION fnd cyc dec = (cyc \<noteq> None \<and> fnd = None \<and> dec = None)"
| "kind_fields_ok SCOPE_EXPANSION_ACCEPTED fnd cyc dec = (fnd \<noteq> None \<and> dec \<noteq> None \<and> cyc = None)"
| "kind_fields_ok FINDING_EXHAUSTIVENESS fnd cyc dec = (fnd \<noteq> None \<and> dec = None \<and> cyc = None)"

definition isObservationRecord :: "replan_scope \<Rightarrow> string \<Rightarrow> jsv \<Rightarrow> replan_observation option" where
  "isObservationRecord sc ident v = do {
     chk (isScopedAggregateRecord v [''observationEventId'', ''observationKind'', ''triggerManifestHash'',
       ''basisManifestHash'', ''findingObservationId'', ''remediationCycleId'', ''decisionId'', ''createdAt''] sc ident);
     e \<leftarrow> isIdentifier (jget v ''observationEventId'');
     k \<leftarrow> enum_of OBSERVATION_KINDS (jget v ''observationKind'');
     t \<leftarrow> hash (jget v ''triggerManifestHash'');
     b \<leftarrow> hash (jget v ''basisManifestHash'');
     c \<leftarrow> timestamp (jget v ''createdAt'');
     fi \<leftarrow> opt_field isIdentifier (jget v ''findingObservationId'');
     cy \<leftarrow> opt_field isIdentifier (jget v ''remediationCycleId'');
     de \<leftarrow> opt_field isIdentifier (jget v ''decisionId'');
     chk (kind_fields_ok k fi cy de);
     Some \<lparr>ob_observationEventId = e, ob_observationKind = k, ob_triggerManifestHash = t,
           ob_basisManifestHash = b, ob_findingObservationId = fi, ob_remediationCycleId = cy,
           ob_decisionId = de, ob_createdAt = c\<rparr> }"

definition positive_int :: "jsv \<Rightarrow> int option" where
  "positive_int v = do { n \<leftarrow> as_int v; chk (1 \<le> n); Some n }"

definition policy_v1 :: "jsv \<Rightarrow> bool" where
  "policy_v1 v \<longleftrightarrow> jget v ''policyId'' = JStr ''replan-governance-v1'' \<and> jget v ''policyVersion'' = JNum (JInt 1)"

definition isRequestRecord :: "replan_scope \<Rightarrow> string \<Rightarrow> jsv \<Rightarrow> replan_request option" where
  "isRequestRecord sc ident v = do {
     chk (isScopedAggregateRecord v [''requestId'', ''triggerEventId'', ''planHash'', ''planVersion'',
       ''proposalAuthorActor'', ''producerInvocationId'', ''policyId'', ''policyVersion'', ''eligibleRoles'',
       ''requestedAt''] sc ident);
     i \<leftarrow> isIdentifier (jget v ''requestId'');
     t \<leftarrow> isIdentifier (jget v ''triggerEventId'');
     h \<leftarrow> hash (jget v ''planHash'');
     n \<leftarrow> positive_int (jget v ''planVersion'');
     a \<leftarrow> safeIdentity (jget v ''proposalAuthorActor'');
     p \<leftarrow> safeIdentity (jget v ''producerInvocationId'');
     chk (policy_v1 v);
     chk (jget v ''eligibleRoles'' = JArr [JStr ''ARCHITECTURE_STEWARD'']);
     r \<leftarrow> timestamp (jget v ''requestedAt'');
     Some \<lparr>rq_requestId = i, rq_triggerEventId = t, rq_planHash = h, rq_planVersion = n,
           rq_proposalAuthorActor = a, rq_producerInvocationId = p, rq_requestedAt = r\<rparr> }"

text \<open>\<open>expectedVersion\<close> is a natural number and \<open>resultingVersion === expectedVersion + 1\<close>.\<close>

definition version_pair :: "jsv \<Rightarrow> (int \<times> int) option" where
  "version_pair v = do {
     e \<leftarrow> as_nat_int (jget v ''expectedVersion'');
     chk (jget v ''resultingVersion'' = JNum (JInt (js_succ e)));
     Some (e, js_succ e) }"

definition isScopeDecisionRecord :: "replan_scope \<Rightarrow> string \<Rightarrow> jsv \<Rightarrow> scope_decision option" where
  "isScopeDecisionRecord sc ident v = do {
     chk (isScopedAggregateRecord v [''decisionId'', ''findingObservationId'', ''outcome'', ''actorId'',
       ''authorizedRole'', ''policyId'', ''policyVersion'', ''reason'', ''expectedVersion'', ''resultingVersion'',
       ''decidedAt''] sc ident);
     i \<leftarrow> isIdentifier (jget v ''decisionId'');
     f \<leftarrow> isIdentifier (jget v ''findingObservationId'');
     ot \<leftarrow> enum_of [(''ACCEPT'', ACCEPT_SCOPE), (''REJECT'', REJECT_SCOPE)] (jget v ''outcome'');
     a \<leftarrow> safeIdentity (jget v ''actorId'');
     chk (jget v ''authorizedRole'' = JStr ''FEATURE_OWNER'' \<and> policy_v1 v);
     r \<leftarrow> safeText (jget v ''reason'');
     (e, n) \<leftarrow> version_pair v;
     t \<leftarrow> timestamp (jget v ''decidedAt'');
     Some \<lparr>sd_decisionId = i, sd_findingObservationId = f, sd_outcome = ot, sd_actorId = a, sd_reason = r,
           sd_expectedVersion = e, sd_resultingVersion = n, sd_decidedAt = t\<rparr> }"

definition isDecisionRecord :: "replan_scope \<Rightarrow> string \<Rightarrow> jsv \<Rightarrow> replan_decision option" where
  "isDecisionRecord sc ident v = do {
     chk (isScopedAggregateRecord v [''decisionId'', ''requestId'', ''planHash'', ''planVersion'', ''outcome'',
       ''actorId'', ''authorizedRole'', ''policyId'', ''policyVersion'', ''reason'', ''expectedVersion'',
       ''resultingVersion'', ''decidedAt''] sc ident);
     i \<leftarrow> isIdentifier (jget v ''decisionId'');
     q \<leftarrow> isIdentifier (jget v ''requestId'');
     h \<leftarrow> hash (jget v ''planHash'');
     pv \<leftarrow> positive_int (jget v ''planVersion'');
     ot \<leftarrow> enum_of [(''APPROVE'', APPROVE), (''REJECT'', REJECT)] (jget v ''outcome'');
     a \<leftarrow> safeIdentity (jget v ''actorId'');
     chk (jget v ''authorizedRole'' = JStr ''ARCHITECTURE_STEWARD'' \<and> policy_v1 v);
     r \<leftarrow> safeText (jget v ''reason'');
     (e, n) \<leftarrow> version_pair v;
     t \<leftarrow> timestamp (jget v ''decidedAt'');
     Some \<lparr>dc_decisionId = i, dc_requestId = q, dc_planHash = h, dc_planVersion = pv, dc_outcome = ot,
           dc_actorId = a, dc_authorizedRole = ARCHITECTURE_STEWARD, dc_reason = r, dc_expectedVersion = e,
           dc_resultingVersion = n, dc_decidedAt = t\<rparr> }"

definition isTransitionRecord :: "replan_scope \<Rightarrow> string \<Rightarrow> jsv \<Rightarrow> replan_transition option" where
  "isTransitionRecord sc ident v = do {
     chk (isScopedAggregateRecord v [''transitionId'', ''fromState'', ''toState'', ''reasonCode'',
       ''triggerRecordId'', ''triggerHash'', ''expectedVersion'', ''resultingVersion'', ''transitionedAt''] sc ident);
     i \<leftarrow> isIdentifier (jget v ''transitionId'');
     f \<leftarrow> enum_of STATES (jget v ''fromState'');
     g \<leftarrow> enum_of STATES (jget v ''toState'');
     r \<leftarrow> safeText (jget v ''reasonCode'');
     t \<leftarrow> isIdentifier (jget v ''triggerRecordId'');
     h \<leftarrow> opt_field hash (jget v ''triggerHash'');
     (e, n) \<leftarrow> version_pair v;
     a \<leftarrow> timestamp (jget v ''transitionedAt'');
     Some \<lparr>tr_transitionId = i, tr_fromState = f, tr_toState = g, tr_reasonCode = r, tr_triggerRecordId = t,
           tr_triggerHash = h, tr_expectedVersion = e, tr_resultingVersion = n, tr_transitionedAt = a\<rparr> }"

definition isDispatchRecord :: "replan_scope \<Rightarrow> string \<Rightarrow> jsv \<Rightarrow> dispatch_attempt option" where
  "isDispatchRecord sc ident v = do {
     chk (isScopedAggregateRecord v [''attemptEventId'', ''dispatchId'', ''requestId'', ''planHash'', ''planVersion'',
       ''approvalDecisionId'', ''approvalEventVersion'', ''outcome'', ''reasonCode'', ''workflowRunId'',
       ''attemptedAt''] sc ident);
     i \<leftarrow> isIdentifier (jget v ''attemptEventId'');
     d \<leftarrow> isIdentifier (jget v ''dispatchId'');
     q \<leftarrow> isIdentifier (jget v ''requestId'');
     h \<leftarrow> hash (jget v ''planHash'');
     pv \<leftarrow> positive_int (jget v ''planVersion'');
     ai \<leftarrow> isIdentifier (jget v ''approvalDecisionId'');
     av \<leftarrow> as_nat_int (jget v ''approvalEventVersion'');
     ot \<leftarrow> enum_of [(''STARTED'', STARTED), (''START_FAILED'', START_FAILED)] (jget v ''outcome'');
     r \<leftarrow> opt_field safeText (jget v ''reasonCode'');
     w \<leftarrow> isIdentifier (jget v ''workflowRunId'');
     t \<leftarrow> timestamp (jget v ''attemptedAt'');
     Some \<lparr>da_attemptEventId = i, da_dispatchId = d, da_requestId = q, da_planHash = h, da_planVersion = pv,
           da_approvalDecisionId = ai, da_approvalEventVersion = av, da_outcome = ot, da_reasonCode = r,
           da_workflowRunId = w, da_attemptedAt = t\<rparr> }"

definition id_list :: "nat \<Rightarrow> jsv \<Rightarrow> string list option" where
  "id_list maximum v = do {
     xs \<leftarrow> as_array v;
     chk (0 < length xs \<and> length xs \<le> maximum);
     is \<leftarrow> parse_all isIdentifier xs;
     chk (hasUniqueValues is);
     Some is }"

definition isAssessmentRecord :: "replan_scope \<Rightarrow> string \<Rightarrow> jsv \<Rightarrow> review_assessment option" where
  "isAssessmentRecord sc ident v = do {
     chk (isScopedAggregateRecord v [''assessmentId'', ''dispatchId'', ''reviewManifestHash'', ''reviewRunId'',
       ''planHash'', ''planVersion'', ''outcome'', ''assessedSurfaceIds'', ''assessedRemediationItemIds'',
       ''assessedTestIds'', ''createdAt''] sc ident);
     i \<leftarrow> isIdentifier (jget v ''assessmentId'');
     d \<leftarrow> isIdentifier (jget v ''dispatchId'');
     m \<leftarrow> hash (jget v ''reviewManifestHash'');
     r \<leftarrow> isIdentifier (jget v ''reviewRunId'');
     h \<leftarrow> hash (jget v ''planHash'');
     pv \<leftarrow> positive_int (jget v ''planVersion'');
     ot \<leftarrow> safeText (jget v ''outcome'');
     ss \<leftarrow> id_list 128 (jget v ''assessedSurfaceIds'');
     is \<leftarrow> id_list 64 (jget v ''assessedRemediationItemIds'');
     ts \<leftarrow> id_list 64 (jget v ''assessedTestIds'');
     c \<leftarrow> timestamp (jget v ''createdAt'');
     Some \<lparr>as_assessmentId = i, as_dispatchId = d, as_reviewManifestHash = m, as_reviewRunId = r,
           as_planHash = h, as_planVersion = pv, as_outcome = ot, as_assessedSurfaceIds = ss,
           as_assessedRemediationItemIds = is, as_assessedTestIds = ts, as_createdAt = c\<rparr> }"

fun allowedTransitions :: "replan_state \<Rightarrow> replan_state list" where
  "allowedTransitions NORMAL_REMEDIATION = [NORMAL_REMEDIATION, REMEDIATION_REPLAN_REQUIRED]"
| "allowedTransitions REMEDIATION_REPLAN_REQUIRED = [REPLAN_PENDING_APPROVAL]"
| "allowedTransitions REPLAN_PENDING_APPROVAL = [REPLAN_APPROVED, REPLAN_REJECTED]"
| "allowedTransitions REPLAN_APPROVED = [BOUNDED_REMEDIATION_DISPATCHED]"
| "allowedTransitions REPLAN_REJECTED = [REPLAN_PENDING_APPROVAL]"
| "allowedTransitions BOUNDED_REMEDIATION_DISPATCHED = [REVIEW_PENDING]"
| "allowedTransitions REVIEW_PENDING = [REVIEW_PENDING, NORMAL_REMEDIATION, REMEDIATION_REPLAN_REQUIRED]"

text \<open>The test of one transition at its index, given the state before it.\<close>

definition transition_at :: "nat \<Rightarrow> replan_state \<Rightarrow> replan_transition \<Rightarrow> bool" where
  "transition_at i before t \<longleftrightarrow>
     tr_expectedVersion t = int i \<and> tr_resultingVersion t = int i + 1
     \<and> tr_fromState t = before \<and> tr_toState t \<in> set (allowedTransitions (tr_fromState t))"

definition transitions_coherent :: "int \<Rightarrow> replan_state \<Rightarrow> replan_transition list \<Rightarrow> bool" where
  "transitions_coherent version state ts =
     (if ts = [] then version = 0 \<and> state = NORMAL_REMEDIATION
      else list_all (\<lambda>i. transition_at i (if i = 0 then NORMAL_REMEDIATION else tr_toState (ts ! (i - 1))) (ts ! i))
             [0..<length ts]
           \<and> version = tr_resultingVersion (last ts) \<and> state = tr_toState (last ts))"

definition validateAggregate :: "jsv \<Rightarrow> replan_aggregate option" where
  "validateAggregate v = do {
     chk (isRecord v \<and> hasOnlyKeys v [''scope'', ''aggregateId'', ''eventVersion'', ''state'', ''observations'',
       ''requests'', ''scopeExpansionDecisions'', ''decisions'', ''transitions'', ''dispatchAttempts'',
       ''reviewAssessments'']);
     sc \<leftarrow> isReplanScope (jget v ''scope'');
     ident \<leftarrow> isIdentifier (jget v ''aggregateId'');
     n \<leftarrow> as_nat_int (jget v ''eventVersion'');
     st \<leftarrow> enum_of STATES (jget v ''state'');
     obs \<leftarrow> as_array (jget v ''observations'');
     rqs \<leftarrow> as_array (jget v ''requests'');
     sds \<leftarrow> as_array (jget v ''scopeExpansionDecisions'');
     dcs \<leftarrow> as_array (jget v ''decisions'');
     trs \<leftarrow> as_array (jget v ''transitions'');
     das \<leftarrow> as_array (jget v ''dispatchAttempts'');
     ras \<leftarrow> as_array (jget v ''reviewAssessments'');
     chk (length (obs @ rqs @ sds @ dcs @ trs @ das @ ras) \<le> 512);
     obs' \<leftarrow> parse_all (isObservationRecord sc ident) obs;
     rqs' \<leftarrow> parse_all (isRequestRecord sc ident) rqs;
     sds' \<leftarrow> parse_all (isScopeDecisionRecord sc ident) sds;
     dcs' \<leftarrow> parse_all (isDecisionRecord sc ident) dcs;
     trs' \<leftarrow> parse_all (isTransitionRecord sc ident) trs;
     das' \<leftarrow> parse_all (isDispatchRecord sc ident) das;
     ras' \<leftarrow> parse_all (isAssessmentRecord sc ident) ras;
     chk (transitions_coherent n st trs');
     Some \<lparr>ag_scope = sc, ag_aggregateId = ident, ag_eventVersion = n, ag_state = st, ag_observations = obs',
           ag_requests = rqs', ag_scopeExpansionDecisions = sds', ag_decisions = dcs', ag_transitions = trs',
           ag_dispatchAttempts = das', ag_reviewAssessments = ras'\<rparr> }"

definition validateCandidate :: "jsv \<Rightarrow> replan_candidate option" where
  "validateCandidate v = do {
     chk (isRecord v \<and> hasOnlyKeys v [''aggregateId'', ''scope'', ''observationEventId'', ''observationKind'',
       ''triggerManifestHash'', ''basisManifestHash'', ''findingObservationId'', ''remediationCycleId'',
       ''decisionId'']);
     a \<leftarrow> isIdentifier (jget v ''aggregateId'');
     sc \<leftarrow> isReplanScope (jget v ''scope'');
     e \<leftarrow> isIdentifier (jget v ''observationEventId'');
     k \<leftarrow> enum_of OBSERVATION_KINDS (jget v ''observationKind'');
     t \<leftarrow> hash (jget v ''triggerManifestHash'');
     b \<leftarrow> hash (jget v ''basisManifestHash'');
     fi \<leftarrow> opt_field isIdentifier (jget v ''findingObservationId'');
     cy \<leftarrow> opt_field isIdentifier (jget v ''remediationCycleId'');
     de \<leftarrow> opt_field isIdentifier (jget v ''decisionId'');
     chk (kind_fields_ok k fi cy de);
     Some \<lparr>ca_aggregateId = a, ca_scope = sc, ca_observationEventId = e, ca_observationKind = k,
           ca_triggerManifestHash = t, ca_basisManifestHash = b, ca_findingObservationId = fi,
           ca_remediationCycleId = cy, ca_decisionId = de\<rparr> }"

section \<open>Recurrence\<close>

definition is_duplicate :: "replan_candidate \<Rightarrow> replan_observation \<Rightarrow> bool" where
  "is_duplicate c ob \<longleftrightarrow>
     ob_observationEventId ob = ca_observationEventId c
     \<or> (case ca_observationKind c of
          POST_FIX_MANIFESTATION \<Rightarrow> ob_observationKind ob = ca_observationKind c
            \<and> ob_triggerManifestHash ob = ca_triggerManifestHash c
        | SCOPE_EXPANSION_ACCEPTED \<Rightarrow> ob_observationKind ob = ca_observationKind c
            \<and> ob_findingObservationId ob = ca_findingObservationId c
            \<and> ob_decisionId ob = ca_decisionId c
        | FINDING_EXHAUSTIVENESS \<Rightarrow> ob_observationKind ob = ca_observationKind c
            \<and> ob_findingObservationId ob = ca_findingObservationId c)"

definition kind_count :: "observation_kind \<Rightarrow> replan_aggregate \<Rightarrow> replan_candidate \<Rightarrow> nat" where
  "kind_count k a c =
     length (filter (\<lambda>ob. ob_observationKind ob = k) (ag_observations a))
     + (if ca_observationKind c = k then 1 else 0)"

definition expansion_decided :: "replan_aggregate \<Rightarrow> replan_candidate \<Rightarrow> bool" where
  "expansion_decided a c =
     (case List.find (\<lambda>d. Some (sd_decisionId d) = ca_decisionId c) (ag_scopeExpansionDecisions a) of
        None \<Rightarrow> False
      | Some d \<Rightarrow> sd_outcome d = ACCEPT_SCOPE \<and> Some (sd_findingObservationId d) = ca_findingObservationId c)"

definition evaluate_governance :: "replan_aggregate \<Rightarrow> replan_candidate \<Rightarrow> replan_refusal_code + governance_decision" where
  "evaluate_governance a c =
     (if ag_aggregateId a \<noteq> ca_aggregateId c \<or> \<not> sameReplanScope (ag_scope a) (ca_scope c) then Inl SCOPE_MISMATCH
      else if ag_state a \<noteq> NORMAL_REMEDIATION \<and> ag_state a \<noteq> REVIEW_PENDING then Inl INVALID_STATE
      else if list_ex (is_duplicate c) (ag_observations a) then Inl DUPLICATE_EVENT
      else if ca_observationKind c = SCOPE_EXPANSION_ACCEPTED \<and> \<not> expansion_decided a c then Inl INVALID_INPUT
      else
        let threshold = ca_observationKind c = FINDING_EXHAUSTIVENESS
              \<or> 2 \<le> kind_count POST_FIX_MANIFESTATION a c \<or> 2 \<le> kind_count SCOPE_EXPANSION_ACCEPTED a c
        in Inr \<lparr>gv_action = (if threshold then APPEND_THRESHOLD else APPEND_OBSERVATION),
             gv_state = (if threshold then REMEDIATION_REPLAN_REQUIRED else NORMAL_REMEDIATION),
             gv_reasonCode = (if ca_observationKind c = FINDING_EXHAUSTIVENESS then finding_exhaustiveness
               else if threshold then recurrence_threshold
               else if ca_observationKind c = POST_FIX_MANIFESTATION then first_post_fix_manifestation
               else first_scope_expansion),
             gv_expectedVersion = ag_eventVersion a,
             gv_candidate = c\<rparr>)"

definition governance_input :: "jsv \<Rightarrow> (replan_aggregate \<times> replan_candidate) option" where
  "governance_input v = do {
     chk (isRecord v \<and> hasOnlyKeys v [''aggregate'', ''candidate'']);
     a \<leftarrow> validateAggregate (jget v ''aggregate'');
     c \<leftarrow> validateCandidate (jget v ''candidate'');
     Some (a, c) }"

definition evaluateReplanGovernance :: "jsv \<Rightarrow> replan_refusal_code + governance_decision" where
  "evaluateReplanGovernance v =
     (case governance_input v of None \<Rightarrow> Inl INVALID_INPUT | Some (a, c) \<Rightarrow> evaluate_governance a c)"

section \<open>Approval\<close>

definition validateAuthority :: "jsv \<Rightarrow> loopback_authority option" where
  "validateAuthority v = do {
     chk (isRecord v \<and> hasOnlyKeys v [''actorId'', ''roles'']);
     a \<leftarrow> safeIdentity (jget v ''actorId'');
     rs \<leftarrow> as_array (jget v ''roles'');
     chk (0 < length rs);
     roles \<leftarrow> parse_all (enum_of [(''FEATURE_OWNER'', FEATURE_OWNER), (''ARCHITECTURE_STEWARD'', ARCHITECTURE_STEWARD)]) rs;
     chk (hasUniqueValues roles);
     Some \<lparr>la_actorId = a, la_roles = roles\<rparr> }"

definition validateApprovalRequest :: "jsv \<Rightarrow> approval_request option" where
  "validateApprovalRequest v = do {
     chk (isRecord v \<and> hasOnlyKeys v [''subject'', ''requestId'', ''action'', ''expectedVersion'', ''reason'']
       \<and> jget v ''subject'' = JStr ''REPLAN'');
     i \<leftarrow> isIdentifier (jget v ''requestId'');
     a \<leftarrow> enum_of [(''APPROVE_REPLAN'', APPROVE_REPLAN), (''REJECT_REPLAN'', REJECT_REPLAN)] (jget v ''action'');
     n \<leftarrow> as_nat_int (jget v ''expectedVersion'');
     r \<leftarrow> safeText (jget v ''reason'');
     Some \<lparr>aq_requestId = i, aq_action = a, aq_expectedVersion = n, aq_reason = r\<rparr> }"

text \<open>
  \<open>find\<close> of the requests by identifier, kept with its position: the code then asks whether that
  very object is the last one.
\<close>

definition find_request :: "string \<Rightarrow> replan_request list \<Rightarrow> (nat \<times> replan_request) option" where
  "find_request i rqs = List.find (\<lambda>p. rq_requestId (snd p) = i) (zip [0..<length rqs] rqs)"

definition authorize ::
  "replan_aggregate \<Rightarrow> approval_request \<Rightarrow> loopback_authority \<Rightarrow> string \<Rightarrow> replan_refusal_code + authorized_decision" where
  "authorize a q auth t =
     (if ag_state a \<noteq> REPLAN_PENDING_APPROVAL then Inl INVALID_STATE
      else if aq_expectedVersion q \<noteq> ag_eventVersion a then Inl STALE_VERSION
      else if ARCHITECTURE_STEWARD \<notin> set (la_roles auth) then Inl UNAUTHORIZED
      else case find_request (aq_requestId q) (ag_requests a) of
        None \<Rightarrow> Inl PLAN_NOT_CURRENT
      | Some (i, p) \<Rightarrow>
        if i \<noteq> length (ag_requests a) - 1 \<or> rq_planVersion p < 1 \<or> \<not> rx_full SHA256_HEX_RE (rq_planHash p)
        then Inl PLAN_NOT_CURRENT
        else if rq_proposalAuthorActor p = la_actorId auth then Inl SELF_APPROVAL
        else if list_ex (\<lambda>d. dc_requestId d = rq_requestId p \<and> dc_planHash d = rq_planHash p
                  \<and> dc_planVersion d = rq_planVersion p) (ag_decisions a) then Inl PLAN_NOT_CURRENT
        else Inr \<lparr>az_requestId = rq_requestId p, az_planHash = rq_planHash p, az_planVersion = rq_planVersion p,
               az_outcome = (if aq_action q = APPROVE_REPLAN then APPROVE else REJECT),
               az_actorId = la_actorId auth, az_authorizedRole = ARCHITECTURE_STEWARD,
               az_reason = aq_reason q, az_expectedVersion = aq_expectedVersion q,
               az_resultingVersion = js_succ (aq_expectedVersion q), az_decidedAt = t\<rparr>)"

definition authorization_input ::
  "jsv \<Rightarrow> (replan_aggregate \<times> approval_request \<times> loopback_authority \<times> string) option" where
  "authorization_input v = do {
     chk (isRecord v \<and> hasOnlyKeys v [''aggregate'', ''request'', ''authority'', ''decidedAt'']);
     a \<leftarrow> validateAggregate (jget v ''aggregate'');
     q \<leftarrow> validateApprovalRequest (jget v ''request'');
     u \<leftarrow> validateAuthority (jget v ''authority'');
     t \<leftarrow> timestamp (jget v ''decidedAt'');
     Some (a, q, u, t) }"

definition authorizeLoopbackGovernanceDecision :: "jsv \<Rightarrow> replan_refusal_code + authorized_decision" where
  "authorizeLoopbackGovernanceDecision v =
     (case authorization_input v of None \<Rightarrow> Inl INVALID_INPUT | Some (a, q, u, t) \<Rightarrow> authorize a q u t)"

section \<open>The plan\<close>

definition validateSurfaceEntry :: "jsv \<Rightarrow> surface_entry option" where
  "validateSurfaceEntry v = do {
     chk (isRecord v \<and> hasOnlyKeys v [''surfaceId'', ''relativePath'', ''symbol'', ''endpoint'', ''rationale'']);
     i \<leftarrow> isIdentifier (jget v ''surfaceId'');
     p \<leftarrow> safeProjectRelativePath (jget v ''relativePath'');
     s \<leftarrow> opt_field safeText (jget v ''symbol'');
     e \<leftarrow> opt_field safeText (jget v ''endpoint'');
     r \<leftarrow> opt_field safeText (jget v ''rationale'');
     Some \<lparr>se_surfaceId = i, se_relativePath = p, se_symbol = s, se_endpoint = e, se_rationale = r\<rparr> }"

definition surface_list :: "jsv list \<Rightarrow> surface_entry list option" where
  "surface_list xs = do { chk (length xs \<le> 128); parse_all validateSurfaceEntry xs }"

definition exclusion :: "jsv \<Rightarrow> exclusion_entry option" where
  "exclusion v = do {
     chk (isRecord v \<and> hasOnlyKeys v [''relativePath'', ''rationale'']);
     p \<leftarrow> safeProjectRelativePath (jget v ''relativePath'');
     r \<leftarrow> safeText (jget v ''rationale'');
     Some \<lparr>ex_relativePath = p, ex_rationale = r\<rparr> }"

definition itemShape :: "string list \<Rightarrow> string \<Rightarrow> string \<Rightarrow> jsv \<Rightarrow> plan_item option" where
  "itemShape affected idKey textKey v = do {
     chk (isRecord v \<and> hasOnlyKeys v [idKey, textKey, ''targetSurfaceIds'']);
     i \<leftarrow> isIdentifier (jget v idKey);
     t \<leftarrow> safeText (jget v textKey);
     xs \<leftarrow> id_list 128 (jget v ''targetSurfaceIds'');
     chk (list_all (\<lambda>x. x \<in> set affected) xs);
     Some \<lparr>pi_id = i, pi_text = t, pi_targetSurfaceIds = xs\<rparr> }"

definition validatePlanSurface :: "jsv \<Rightarrow> plan_surface option" where
  "validatePlanSurface v = do {
     chk (isRecord v \<and> hasOnlyKeys v [''inspected'', ''affected'', ''confirmedUnaffected'']);
     ins \<leftarrow> as_array (jget v ''inspected'');
     aff \<leftarrow> as_array (jget v ''affected'');
     una \<leftarrow> as_array (jget v ''confirmedUnaffected'');
     chk (0 < length aff);
     ins' \<leftarrow> surface_list ins;
     aff' \<leftarrow> surface_list aff;
     una' \<leftarrow> surface_list una;
     chk (list_all (\<lambda>es. hasUniqueValues (map se_surfaceId es)) [ins', aff', una']);
     chk (\<not> list_ex (\<lambda>e. se_surfaceId e \<in> set (map se_surfaceId aff')) una');
     Some \<lparr>su_inspected = ins', su_affected = aff', su_confirmedUnaffected = una'\<rparr> }"

definition validatePlan :: "jsv \<Rightarrow> replan_plan option" where
  "validatePlan v = do {
     chk (isRecord v \<and> hasOnlyKeys v [''schemaVersion'', ''artifactKind'', ''artifactId'', ''scope'', ''lineage'',
       ''manifestReference'', ''findingIds'', ''defectClass'', ''replanReason'', ''rootCause'', ''surface'',
       ''explicitExclusions'', ''remediationItems'', ''testMatrix'', ''verificationPlan'', ''closureCriteria'']
       \<and> jget v ''schemaVersion'' = JNum (JInt 1) \<and> jget v ''artifactKind'' = JStr ''replan_plan'');
     i \<leftarrow> isIdentifier (jget v ''artifactId'');
     sc \<leftarrow> isArtifactScope (jget v ''scope'');
     li \<leftarrow> hasSafeArtifactLineage (jget v ''lineage'') i;
     mr \<leftarrow> hasSafeArtifactReference (jget v ''manifestReference'');
     chk (ar_artifactKind mr = review_manifest);
     fs \<leftarrow> id_list 64 (jget v ''findingIds'');
     dc \<leftarrow> safeText (jget v ''defectClass'');
     rr \<leftarrow> enum_of [(''finding_exhaustiveness'', rr_finding_exhaustiveness),
             (''recurrence_signal'', rr_recurrence_signal)] (jget v ''replanReason'');
     rc \<leftarrow> safeText (jget v ''rootCause'');
     exs \<leftarrow> as_array (jget v ''explicitExclusions'');
     ris \<leftarrow> as_array (jget v ''remediationItems'');
     tms \<leftarrow> as_array (jget v ''testMatrix'');
     vp \<leftarrow> safeText (jget v ''verificationPlan'');
     cc \<leftarrow> safeText (jget v ''closureCriteria'');
     su \<leftarrow> validatePlanSurface (jget v ''surface'');
     exs' \<leftarrow> parse_all exclusion exs;
     chk (hasUniqueValues (map ex_relativePath exs'));
     chk (0 < length ris \<and> length ris \<le> 64 \<and> 0 < length tms \<and> length tms \<le> 64);
     let affected = map se_surfaceId (su_affected su);
     ris' \<leftarrow> parse_all (itemShape affected ''remediationItemId'' ''instruction'') ris;
     tms' \<leftarrow> parse_all (itemShape affected ''testId'' ''requirement'') tms;
     chk (hasUniqueValues (map pi_id ris') \<and> hasUniqueValues (map pi_id tms'));
     Some \<lparr>pl_artifactId = i, pl_scope = sc, pl_lineage = li, pl_manifestReference = mr, pl_findingIds = fs,
           pl_defectClass = dc, pl_replanReason = rr, pl_rootCause = rc, pl_surface = su,
           pl_explicitExclusions = exs', pl_remediationItems = ris', pl_testMatrix = tms',
           pl_verificationPlan = vp, pl_closureCriteria = cc\<rparr> }"

section \<open>Dispatch\<close>

definition validateArtifact :: "jsv \<Rightarrow> plan_artifact option" where
  "validateArtifact v = do {
     chk (isRecord v \<and> hasOnlyKeys v [''artifactId'', ''contentHash'', ''relativePath'']);
     i \<leftarrow> isIdentifier (jget v ''artifactId'');
     h \<leftarrow> hash (jget v ''contentHash'');
     p \<leftarrow> safeProjectRelativePath (jget v ''relativePath'');
     Some \<lparr>pa_artifactId = i, pa_contentHash = h, pa_relativePath = p\<rparr> }"

definition dispatch_input :: "jsv \<Rightarrow> (replan_aggregate \<times> plan_artifact \<times> replan_plan) option" where
  "dispatch_input v = do {
     chk (isRecord v \<and> hasOnlyKeys v [''aggregate'', ''artifact'', ''plan'']);
     a \<leftarrow> validateAggregate (jget v ''aggregate'');
     f \<leftarrow> validateArtifact (jget v ''artifact'');
     p \<leftarrow> validatePlan (jget v ''plan'');
     Some (a, f, p) }"

definition plan_in_scope :: "replan_aggregate \<Rightarrow> replan_plan \<Rightarrow> bool" where
  "plan_in_scope a p \<longleftrightarrow>
     rs_projectId (ag_scope a) = as_projectId (pl_scope p) \<and> rs_featureId (ag_scope a) = as_featureId (pl_scope p)
     \<and> rs_phaseNumber (ag_scope a) = as_phaseNumber (pl_scope p)
     \<and> rs_reviewGateId (ag_scope a) = as_reviewGateId (pl_scope p)
     \<and> rs_defectClass (ag_scope a) = pl_defectClass p"

definition dispatch_context ::
  "replan_aggregate \<Rightarrow> plan_artifact \<Rightarrow> replan_plan \<Rightarrow> replan_request \<Rightarrow> replan_decision \<Rightarrow> replan_dispatch" where
  "dispatch_context a f p q d =
     \<lparr>di_scope = ag_scope a, di_requestId = rq_requestId q, di_planArtifactId = pa_artifactId f,
      di_planHash = pa_contentHash f, di_planRelativePath = pa_relativePath f,
      di_planVersion = rq_planVersion q, di_approvalDecisionId = dc_decisionId d,
      di_authorizedRole = dc_authorizedRole d, di_approvalEventVersion = dc_resultingVersion d,
      di_rootCause = pl_rootCause p, di_surface = pl_surface p,
      di_explicitExclusions = pl_explicitExclusions p, di_remediationItems = pl_remediationItems p,
      di_testMatrix = pl_testMatrix p, di_verificationPlan = pl_verificationPlan p,
      di_closureCriteria = pl_closureCriteria p\<rparr>"

text \<open>The checks after the plan's hash was found to be the artifact's.\<close>

definition dispatch_checked :: "replan_aggregate \<Rightarrow> plan_artifact \<Rightarrow> replan_plan \<Rightarrow> replan_refusal_code + replan_dispatch" where
  "dispatch_checked a f p =
     (if ag_state a \<noteq> REPLAN_APPROVED then Inl INVALID_STATE
      else if ag_requests a = [] \<or> ag_decisions a = [] \<or> ag_transitions a = [] then Inl PLAN_NOT_CURRENT
      else
        let q = last (ag_requests a); d = last (ag_decisions a); t = last (ag_transitions a)
        in if dc_outcome d \<noteq> APPROVE \<or> dc_authorizedRole d \<noteq> ARCHITECTURE_STEWARD
              \<or> rq_requestId q \<noteq> dc_requestId d \<or> rq_planHash q \<noteq> pa_contentHash f
              \<or> dc_planHash d \<noteq> pa_contentHash f \<or> rq_planVersion q \<noteq> dc_planVersion d
              \<or> dc_resultingVersion d \<noteq> ag_eventVersion a \<or> tr_triggerRecordId t \<noteq> dc_decisionId d
              \<or> pl_artifactId p \<noteq> pa_artifactId f
           then Inl PLAN_NOT_CURRENT
           else if list_ex (\<lambda>at. da_outcome at = STARTED \<and> da_requestId at = rq_requestId q
                     \<and> da_planHash at = pa_contentHash f \<and> da_planVersion at = rq_planVersion q)
                   (ag_dispatchAttempts a)
           then Inl DISPATCH_CONSUMED
           else Inr (dispatch_context a f p q d))"

text \<open>\<open>None\<close> is the exception of the canonical text on a plan that is not JSON.\<close>

definition buildApprovedBoundedReplanDispatch ::
  "(jnum \<Rightarrow> string) \<Rightarrow> (string \<Rightarrow> string) \<Rightarrow> jsv \<Rightarrow> (replan_refusal_code + replan_dispatch) option" where
  "buildApprovedBoundedReplanDispatch num sha v =
     (case dispatch_input v of
        None \<Rightarrow> Some (Inl INVALID_INPUT)
      | Some (a, f, p) \<Rightarrow>
          if \<not> plan_in_scope a p then Some (Inl SCOPE_MISMATCH)
          else case computeReviewArtifactHash num sha (jget v ''plan'') of
            None \<Rightarrow> None
          | Some h \<Rightarrow>
              if h \<noteq> pa_contentHash f then Some (Inl PLAN_NOT_CURRENT)
              else Some (dispatch_checked a f p))"

end
