(* ===== verification/ReplanStore.thy ===== *)
theory ReplanStore
  imports ReplanGovernance
begin

text \<open>
  The durable side of replan governance in the database package: the policy of one operation
  (\<open>replan-operation-policy.ts\<close>), the append-only repository (\<open>replan-event-repository.ts\<close>) over the tables of
  \<open>migrations/v3.ts\<close> and the projection of an aggregate (\<open>replan-query-repository.ts\<close>). A table is the list of its rows
  in the order of insertion, a row is the key of its aggregate (scope and identifier) with the record of the policy. The rows
  that other repositories own (artifacts, findings, cycles, runs) are a context the operation reads. A transaction that fails
  leaves the tables as they were; the row an insert has just written is the row the read-back finds.
\<close>

section \<open>Safe content\<close>

text \<open>The patterns of \<open>content-safety.ts\<close>.\<close>

definition rx_quote :: rx where
  "rx_quote = rx_opt (RCls (\<lambda>c. c = CHR 0x22 \<or> c = CHR 0x27))"

definition rx_joiner :: rx where
  "rx_joiner = rx_opt (RCls (\<lambda>c. c = CHR ''_'' \<or> c = CHR ''-''))"

definition rx_blanks :: rx where
  "rx_blanks = RStar (RCls is_ws)"

definition assigned_secret :: rx where
  "assigned_secret = rx_seqs
     [rx_quote,
      rx_alts [rx_seqs [rx_lit_i ''api'', rx_joiner, rx_lit_i ''key''], rx_lit_i ''apikey'',
        rx_seqs [rx_lit_i ''secret'', rx_joiner, rx_lit_i ''key''], rx_lit_i ''secretkey'',
        rx_seqs [rx_lit_i ''access'', rx_joiner, rx_lit_i ''key''], rx_lit_i ''password'', rx_lit_i ''passwd'', rx_lit_i ''pwd'',
        rx_lit_i ''token'', rx_seqs [rx_lit_i ''auth'', rx_joiner, rx_lit_i ''token''], rx_lit_i ''bearer'', rx_lit_i ''jwt'',
        rx_seqs [rx_lit_i ''private'', rx_joiner, rx_lit_i ''key'']],
      rx_quote, rx_blanks, RCls (\<lambda>c. c = CHR ''='' \<or> c = CHR '':''), rx_blanks, rx_opt (RSeq rx_quote rx_blanks),
      rx_plus (RCls (\<lambda>c. \<not> is_ws c))]"

definition private_key_block :: rx where
  "private_key_block = (let sp = rx_plus (RCls is_ws) in rx_seqs
     [rx_lit_i ''-----begin'', sp, rx_alts [rx_lit_i ''rsa'', rx_lit_i ''ec'', rx_lit_i ''dsa'', rx_lit_i ''openssh'', rx_lit_i ''pgp''],
      sp, rx_lit_i ''private'', sp, rx_lit_i ''key-----''])"

definition github_token :: rx where
  "github_token = RSeq (rx_alts (map rx_lit [''ghp_'', ''gho_'', ''ghu_'', ''ghs_'', ''ghr_''])) (rx_at_least 36 (RCls is_alnum))"

definition secret_key_token :: rx where
  "secret_key_token = rx_seqs [rx_lit ''sk-'', rx_at_least 20 (RCls is_alnum), rx_opt (rx_at_least 10 (RCls is_alnum))]"

definition aws_key :: rx where
  "aws_key = rx_seqs [rx_lit ''AKIA'', rx_times 16 (RCls (\<lambda>c. is_digit c \<or> is_upper c)),
     rx_times 40 (RCls (\<lambda>c. is_alnum c \<or> c = CHR ''+'' \<or> c = CHR ''/''))]"

definition SECRET_LIKE_PATTERNS :: "rx list" where
  "SECRET_LIKE_PATTERNS = [assigned_secret, private_key_block, github_token, secret_key_token, aws_key]"

definition scanSafeStringValue :: "string \<Rightarrow> bool" where
  "scanSafeStringValue s \<longleftrightarrow>
     \<not> str_includes s [CHR 0x00]
     \<and> list_all (\<lambda>c. \<not> (code_of c < 0x20 \<and> code_of c \<noteq> 0x09 \<and> code_of c \<noteq> 0x0a \<and> code_of c \<noteq> 0x0d)) s
     \<and> isWellFormedUtf16 s
     \<and> \<not> str_includes s [CHR 0x1B]
     \<and> \<not> list_ex (\<lambda>r. rx_test r s) SECRET_LIKE_PATTERNS"

definition scanSafeContent :: "string \<Rightarrow> bool" where
  "scanSafeContent s \<longleftrightarrow> 0 < length s \<and> scanSafeStringValue s"

section \<open>Guards\<close>

definition assertSafeIdentifier :: "jsv \<Rightarrow> string option" where
  "assertSafeIdentifier v = string_where (\<lambda>s. 0 < length s \<and> length s \<le> 256 \<and> scanSafeContent s) v"

definition assertKebabIdentifier :: "jsv \<Rightarrow> string option" where
  "assertKebabIdentifier v = string_where (\<lambda>s. 0 < length s \<and> length s \<le> 128 \<and> rx_full KEBAB_CASE_RE s) v"

definition assertSafeBoundedString :: "jsv \<Rightarrow> string option" where
  "assertSafeBoundedString v = string_where (\<lambda>s. 0 < length s \<and> length s \<le> 4096 \<and> scanSafeContent s) v"

definition EVENT_UTC_RE :: rx where
  "EVENT_UTC_RE = (let d = RCls is_digit; dd = rx_times 2 d; lit = (\<lambda>x. RCls (\<lambda>c. c = x))
     in rx_seqs [rx_times 4 d, lit CHR ''-'', dd, lit CHR ''-'', dd, lit CHR ''T'', dd, lit CHR '':'', dd, lit CHR '':'', dd,
          rx_opt (RSeq (lit CHR ''.'') (rx_plus d)),
          RAlt (lit CHR ''Z'') (RSeq (RCls (\<lambda>c. c = CHR ''+'' \<or> c = CHR ''-'')) (rx_lit ''00:00''))])"

definition event_utc_text :: "string \<Rightarrow> bool" where
  "event_utc_text s \<longleftrightarrow> rx_full EVENT_UTC_RE s \<and> 2000 \<le> field_at s 0 4 \<and> field_at s 0 4 \<le> 2099
     \<and> calendar_ok (field_at s 0 4) (field_at s 5 2) (field_at s 8 2) (field_at s 11 2) (field_at s 14 2) (field_at s 17 2)"

definition assertUtcTimestamp :: "jsv \<Rightarrow> string option" where
  "assertUtcTimestamp v = string_where event_utc_text v"

definition assertExactShape :: "string list \<Rightarrow> string list \<Rightarrow> jsv \<Rightarrow> bool" where
  "assertExactShape required optional v \<longleftrightarrow>
     isRecord v \<and> hasOnlyKeys v (required @ optional) \<and> list_all (\<lambda>k. k \<in> set (jkeys v)) required"

definition assertAssessmentIds :: "nat \<Rightarrow> jsv \<Rightarrow> string list option" where
  "assertAssessmentIds maximum v = do {
     xs \<leftarrow> as_array v;
     chk (0 < length xs \<and> length xs \<le> maximum);
     is \<leftarrow> parse_all assertKebabIdentifier xs;
     chk (distinct is);
     Some is }"

definition assertReplanScope :: "jsv \<Rightarrow> replan_scope option" where
  "assertReplanScope v = do {
     p \<leftarrow> assertSafeIdentifier (jget v ''projectId'');
     f \<leftarrow> assertSafeIdentifier (jget v ''featureId'');
     g \<leftarrow> assertSafeIdentifier (jget v ''reviewGateId'');
     n \<leftarrow> as_nat_int (jget v ''phaseNumber'');
     d \<leftarrow> assertKebabIdentifier (jget v ''defectClass'');
     Some \<lparr>rs_projectId = p, rs_featureId = f, rs_phaseNumber = n, rs_reviewGateId = g, rs_defectClass = d\<rparr> }"

section \<open>Rows\<close>

type_synonym row_key = "replan_scope \<times> string"

definition read_key :: "string list \<Rightarrow> string list \<Rightarrow> jsv \<Rightarrow> row_key option" where
  "read_key required optional v = do {
     chk (assertExactShape (scope_keys @ required) optional v);
     sc \<leftarrow> assertReplanScope v;
     a \<leftarrow> assertKebabIdentifier (jget v ''aggregateId'');
     Some (sc, a) }"

definition read_observation :: "jsv \<Rightarrow> (row_key \<times> replan_observation) option" where
  "read_observation v = do {
     k \<leftarrow> read_key [''observationEventId'', ''observationKind'', ''triggerManifestHash'', ''basisManifestHash'', ''createdAt'']
       [''findingObservationId'', ''remediationCycleId'', ''decisionId''] v;
     e \<leftarrow> assertKebabIdentifier (jget v ''observationEventId'');
     ok \<leftarrow> enum_of OBSERVATION_KINDS (jget v ''observationKind'');
     c \<leftarrow> assertUtcTimestamp (jget v ''createdAt'');
     fi \<leftarrow> opt_field assertKebabIdentifier (jget v ''findingObservationId'');
     cy \<leftarrow> opt_field assertKebabIdentifier (jget v ''remediationCycleId'');
     de \<leftarrow> opt_field assertKebabIdentifier (jget v ''decisionId'');
     t \<leftarrow> hash (jget v ''triggerManifestHash'');
     b \<leftarrow> hash (jget v ''basisManifestHash'');
     Some (k, \<lparr>ob_observationEventId = e, ob_observationKind = ok, ob_triggerManifestHash = t, ob_basisManifestHash = b,
       ob_findingObservationId = fi, ob_remediationCycleId = cy, ob_decisionId = de, ob_createdAt = c\<rparr>) }"

definition read_request :: "jsv \<Rightarrow> (row_key \<times> replan_request) option" where
  "read_request v = do {
     k \<leftarrow> read_key [''requestId'', ''triggerEventId'', ''planHash'', ''planVersion'', ''proposalAuthorActor'',
       ''producerInvocationId'', ''policyId'', ''policyVersion'', ''requestedAt''] [] v;
     i \<leftarrow> assertKebabIdentifier (jget v ''requestId'');
     t \<leftarrow> assertKebabIdentifier (jget v ''triggerEventId'');
     a \<leftarrow> assertSafeIdentifier (jget v ''proposalAuthorActor'');
     p \<leftarrow> assertSafeIdentifier (jget v ''producerInvocationId'');
     n \<leftarrow> positive_int (jget v ''planVersion'');
     chk (policy_v1 v);
     r \<leftarrow> assertUtcTimestamp (jget v ''requestedAt'');
     h \<leftarrow> hash (jget v ''planHash'');
     Some (k, \<lparr>rq_requestId = i, rq_triggerEventId = t, rq_planHash = h, rq_planVersion = n, rq_proposalAuthorActor = a,
       rq_producerInvocationId = p, rq_requestedAt = r\<rparr>) }"

definition read_scope_decision :: "jsv \<Rightarrow> (row_key \<times> scope_decision) option" where
  "read_scope_decision v = do {
     k \<leftarrow> read_key [''decisionId'', ''findingObservationId'', ''outcome'', ''actorId'', ''policyId'', ''policyVersion'', ''reason'',
       ''expectedVersion'', ''resultingVersion'', ''decidedAt''] [] v;
     i \<leftarrow> assertKebabIdentifier (jget v ''decisionId'');
     f \<leftarrow> assertKebabIdentifier (jget v ''findingObservationId'');
     a \<leftarrow> assertSafeIdentifier (jget v ''actorId'');
     ot \<leftarrow> enum_of [(''ACCEPT'', ACCEPT_SCOPE), (''REJECT'', REJECT_SCOPE)] (jget v ''outcome'');
     chk (policy_v1 v);
     (e, n) \<leftarrow> version_pair v;
     r \<leftarrow> assertSafeBoundedString (jget v ''reason'');
     t \<leftarrow> assertUtcTimestamp (jget v ''decidedAt'');
     Some (k, \<lparr>sd_decisionId = i, sd_findingObservationId = f, sd_outcome = ot, sd_actorId = a, sd_reason = r,
       sd_expectedVersion = e, sd_resultingVersion = n, sd_decidedAt = t\<rparr>) }"

definition read_decision :: "jsv \<Rightarrow> (row_key \<times> replan_decision) option" where
  "read_decision v = do {
     k \<leftarrow> read_key [''decisionId'', ''requestId'', ''planHash'', ''planVersion'', ''outcome'', ''actorId'', ''policyId'',
       ''policyVersion'', ''reason'', ''expectedVersion'', ''resultingVersion'', ''decidedAt''] [] v;
     i \<leftarrow> assertKebabIdentifier (jget v ''decisionId'');
     q \<leftarrow> assertKebabIdentifier (jget v ''requestId'');
     a \<leftarrow> assertSafeIdentifier (jget v ''actorId'');
     pv \<leftarrow> positive_int (jget v ''planVersion'');
     (e, n) \<leftarrow> version_pair v;
     ot \<leftarrow> enum_of [(''APPROVE'', APPROVE), (''REJECT'', REJECT)] (jget v ''outcome'');
     chk (policy_v1 v);
     r \<leftarrow> assertSafeBoundedString (jget v ''reason'');
     t \<leftarrow> assertUtcTimestamp (jget v ''decidedAt'');
     h \<leftarrow> hash (jget v ''planHash'');
     Some (k, \<lparr>dc_decisionId = i, dc_requestId = q, dc_planHash = h, dc_planVersion = pv, dc_outcome = ot, dc_actorId = a,
       dc_authorizedRole = ARCHITECTURE_STEWARD, dc_reason = r, dc_expectedVersion = e, dc_resultingVersion = n, dc_decidedAt = t\<rparr>) }"

definition read_transition :: "jsv \<Rightarrow> (row_key \<times> replan_transition) option" where
  "read_transition v = do {
     k \<leftarrow> read_key [''transitionId'', ''fromState'', ''toState'', ''reasonCode'', ''triggerRecordId'', ''expectedVersion'',
       ''resultingVersion'', ''transitionedAt''] [''triggerHash''] v;
     i \<leftarrow> assertKebabIdentifier (jget v ''transitionId'');
     t \<leftarrow> assertKebabIdentifier (jget v ''triggerRecordId'');
     r \<leftarrow> assertKebabIdentifier (jget v ''reasonCode'');
     f \<leftarrow> enum_of STATES (jget v ''fromState'');
     g \<leftarrow> enum_of STATES (jget v ''toState'');
     (e, n) \<leftarrow> version_pair v;
     a \<leftarrow> assertUtcTimestamp (jget v ''transitionedAt'');
     h \<leftarrow> opt_field hash (jget v ''triggerHash'');
     Some (k, \<lparr>tr_transitionId = i, tr_fromState = f, tr_toState = g, tr_reasonCode = r, tr_triggerRecordId = t,
       tr_triggerHash = h, tr_expectedVersion = e, tr_resultingVersion = n, tr_transitionedAt = a\<rparr>) }"

definition read_dispatch :: "jsv \<Rightarrow> (row_key \<times> dispatch_attempt) option" where
  "read_dispatch v = do {
     k \<leftarrow> read_key [''attemptEventId'', ''dispatchId'', ''requestId'', ''planHash'', ''planVersion'', ''approvalDecisionId'',
       ''approvalEventVersion'', ''outcome'', ''workflowRunId'', ''attemptedAt''] [''reasonCode''] v;
     i \<leftarrow> assertKebabIdentifier (jget v ''attemptEventId'');
     d \<leftarrow> assertKebabIdentifier (jget v ''dispatchId'');
     q \<leftarrow> assertKebabIdentifier (jget v ''requestId'');
     ai \<leftarrow> assertKebabIdentifier (jget v ''approvalDecisionId'');
     w \<leftarrow> assertSafeIdentifier (jget v ''workflowRunId'');
     pv \<leftarrow> positive_int (jget v ''planVersion'');
     av \<leftarrow> as_nat_int (jget v ''approvalEventVersion'');
     ot \<leftarrow> enum_of [(''STARTED'', STARTED), (''START_FAILED'', START_FAILED)] (jget v ''outcome'');
     r \<leftarrow> opt_field assertKebabIdentifier (jget v ''reasonCode'');
     t \<leftarrow> assertUtcTimestamp (jget v ''attemptedAt'');
     h \<leftarrow> hash (jget v ''planHash'');
     Some (k, \<lparr>da_attemptEventId = i, da_dispatchId = d, da_requestId = q, da_planHash = h, da_planVersion = pv,
       da_approvalDecisionId = ai, da_approvalEventVersion = av, da_outcome = ot, da_reasonCode = r, da_workflowRunId = w,
       da_attemptedAt = t\<rparr>) }"

definition read_assessment :: "jsv \<Rightarrow> (row_key \<times> review_assessment) option" where
  "read_assessment v = do {
     k \<leftarrow> read_key [''assessmentId'', ''dispatchId'', ''reviewManifestHash'', ''reviewRunId'', ''planHash'', ''planVersion'', ''outcome'',
       ''assessedSurfaceIds'', ''assessedRemediationItemIds'', ''assessedTestIds'', ''createdAt''] [] v;
     i \<leftarrow> assertKebabIdentifier (jget v ''assessmentId'');
     d \<leftarrow> assertKebabIdentifier (jget v ''dispatchId'');
     chk (jget v ''outcome'' = JStr ''APPROVED'');
     r \<leftarrow> assertSafeIdentifier (jget v ''reviewRunId'');
     pv \<leftarrow> positive_int (jget v ''planVersion'');
     ss \<leftarrow> assertAssessmentIds 128 (jget v ''assessedSurfaceIds'');
     is \<leftarrow> assertAssessmentIds 64 (jget v ''assessedRemediationItemIds'');
     ts \<leftarrow> assertAssessmentIds 64 (jget v ''assessedTestIds'');
     c \<leftarrow> assertUtcTimestamp (jget v ''createdAt'');
     m \<leftarrow> hash (jget v ''reviewManifestHash'');
     h \<leftarrow> hash (jget v ''planHash'');
     Some (k, \<lparr>as_assessmentId = i, as_dispatchId = d, as_reviewManifestHash = m, as_reviewRunId = r, as_planHash = h,
       as_planVersion = pv, as_outcome = ''APPROVED'', as_assessedSurfaceIds = ss, as_assessedRemediationItemIds = is,
       as_assessedTestIds = ts, as_createdAt = c\<rparr>) }"

section \<open>Tables and context\<close>

datatype store_error = SE_INVALID_INPUT | SE_PERSISTENCE_FAILED

record replan_tables =
  tb_observations :: "(row_key \<times> replan_observation) list"
  tb_requests :: "(row_key \<times> replan_request) list"
  tb_scopeDecisions :: "(row_key \<times> scope_decision) list"
  tb_decisions :: "(row_key \<times> replan_decision) list"
  tb_transitions :: "(row_key \<times> replan_transition) list"
  tb_dispatches :: "(row_key \<times> dispatch_attempt) list"
  tb_assessments :: "(row_key \<times> review_assessment) list"

definition empty_tables :: replan_tables where
  "empty_tables = \<lparr>tb_observations = [], tb_requests = [], tb_scopeDecisions = [], tb_decisions = [], tb_transitions = [],
     tb_dispatches = [], tb_assessments = []\<rparr>"

record finding_row =
  fr_scope :: artifact_scope
  fr_defectClass :: "string option"
  fr_disposition :: string
  fr_agentInvocationId :: "string option"

record review_context =
  cx_artifact :: "string \<rightharpoonup> string \<times> artifact_scope"
  cx_cycle :: "string \<rightharpoonup> artifact_scope"
  cx_finding :: "string \<rightharpoonup> finding_row"
  cx_run :: "string \<rightharpoonup> string"

definition gate_scope :: "replan_scope \<Rightarrow> artifact_scope" where
  "gate_scope sc = \<lparr>as_projectId = rs_projectId sc, as_featureId = rs_featureId sc, as_phaseNumber = rs_phaseNumber sc,
     as_reviewGateId = rs_reviewGateId sc\<rparr>"

definition assertArtifact :: "review_context \<Rightarrow> string \<Rightarrow> replan_scope \<Rightarrow> string option \<Rightarrow> bool" where
  "assertArtifact cx h sc kind \<longleftrightarrow>
     (case cx_artifact cx h of
        None \<Rightarrow> False
      | Some (k, s) \<Rightarrow> (kind = None \<or> kind = Some k) \<and> s = gate_scope sc)"

definition rows_of :: "row_key \<Rightarrow> (row_key \<times> 'a) list \<Rightarrow> 'a list" where
  "rows_of k rows = map snd (filter (\<lambda>r. fst r = k) rows)"

definition row_by :: "('a \<Rightarrow> string) \<Rightarrow> string \<Rightarrow> (row_key \<times> 'a) list \<Rightarrow> (row_key \<times> 'a) option" where
  "row_by f i rows = List.find (\<lambda>r. f (snd r) = i) rows"

definition currentEventVersion :: "row_key \<Rightarrow> replan_tables \<Rightarrow> int" where
  "currentEventVersion k tb = foldl max 0 (map tr_resultingVersion (rows_of k (tb_transitions tb)))"

definition currentState :: "row_key \<Rightarrow> replan_tables \<Rightarrow> replan_state" where
  "currentState k tb =
     (case sort_key (\<lambda>t. - tr_resultingVersion t) (rows_of k (tb_transitions tb)) of [] \<Rightarrow> NORMAL_REMEDIATION | t # _ \<Rightarrow> tr_toState t)"

section \<open>Appending\<close>

text \<open>
  An insert fails on a row that agrees with the new one in a primary key or a unique constraint; columns that are null agree with
  nothing. The foreign keys and the value checks of the tables follow from the tests before each insert.
\<close>

definition insert_row ::
  "(row_key \<times> 'a \<Rightarrow> bool) \<Rightarrow> row_key \<times> 'a \<Rightarrow> (row_key \<times> 'a) list \<Rightarrow> store_error + (row_key \<times> 'a) list" where
  "insert_row clash r rows = (if list_ex clash rows then Inl SE_PERSISTENCE_FAILED else Inr (rows @ [r]))"

definition observation_refs :: "review_context \<Rightarrow> replan_tables \<Rightarrow> row_key \<Rightarrow> replan_observation \<Rightarrow> store_error option" where
  "observation_refs cx tb k ob =
     (let sc = fst k in
      if \<not> assertArtifact cx (ob_triggerManifestHash ob) sc (Some ''review_manifest'')
         \<or> \<not> assertArtifact cx (ob_basisManifestHash ob) sc (Some ''review_manifest'') then Some SE_INVALID_INPUT
      else if \<not> kind_fields_ok (ob_observationKind ob) (ob_findingObservationId ob) (ob_remediationCycleId ob) (ob_decisionId ob)
        then Some SE_INVALID_INPUT
      else (case ob_observationKind ob of
          POST_FIX_MANIFESTATION \<Rightarrow>
            if cx_cycle cx (the (ob_remediationCycleId ob)) = Some (gate_scope sc) then None else Some SE_PERSISTENCE_FAILED
        | SCOPE_EXPANSION_ACCEPTED \<Rightarrow>
            (case row_by sd_decisionId (the (ob_decisionId ob)) (tb_scopeDecisions tb) of
               None \<Rightarrow> Some SE_PERSISTENCE_FAILED
             | Some (k', d) \<Rightarrow>
                 if k' = k \<and> Some (sd_findingObservationId d) = ob_findingObservationId ob \<and> sd_outcome d = ACCEPT_SCOPE then None
                 else Some SE_PERSISTENCE_FAILED)
        | FINDING_EXHAUSTIVENESS \<Rightarrow>
            (case cx_finding cx (the (ob_findingObservationId ob)) of
               None \<Rightarrow> Some SE_PERSISTENCE_FAILED
             | Some f \<Rightarrow> if fr_scope f = gate_scope sc \<and> fr_defectClass f = Some (rs_defectClass sc) then None
                 else Some SE_PERSISTENCE_FAILED)))"

definition observation_clash :: "row_key \<times> replan_observation \<Rightarrow> row_key \<times> replan_observation \<Rightarrow> bool" where
  "observation_clash r q \<longleftrightarrow>
     ob_observationEventId (snd q) = ob_observationEventId (snd r)
     \<or> (fst (fst q) = fst (fst r) \<and> ob_observationKind (snd q) = ob_observationKind (snd r)
        \<and> ob_triggerManifestHash (snd q) = ob_triggerManifestHash (snd r))
     \<or> (ob_findingObservationId (snd r) \<noteq> None \<and> ob_decisionId (snd r) \<noteq> None
        \<and> ob_findingObservationId (snd q) = ob_findingObservationId (snd r) \<and> ob_decisionId (snd q) = ob_decisionId (snd r))"

definition appendObservation :: "review_context \<Rightarrow> jsv \<Rightarrow> replan_tables \<Rightarrow> store_error + replan_tables" where
  "appendObservation cx v tb =
     (case read_observation v of
        None \<Rightarrow> Inl SE_INVALID_INPUT
      | Some (k, ob) \<Rightarrow>
          (case observation_refs cx tb k ob of
             Some e \<Rightarrow> Inl e
           | None \<Rightarrow> map_sum id (\<lambda>rows. tb\<lparr>tb_observations := rows\<rparr>)
               (insert_row (observation_clash (k, ob)) (k, ob) (tb_observations tb))))"

definition request_clash :: "row_key \<times> replan_request \<Rightarrow> row_key \<times> replan_request \<Rightarrow> bool" where
  "request_clash r q \<longleftrightarrow>
     rq_requestId (snd q) = rq_requestId (snd r)
     \<or> (fst q = fst r \<and> (rq_planVersion (snd q) = rq_planVersion (snd r) \<or> rq_planHash (snd q) = rq_planHash (snd r)))"

definition appendRequest :: "review_context \<Rightarrow> jsv \<Rightarrow> replan_tables \<Rightarrow> store_error + replan_tables" where
  "appendRequest cx v tb =
     (case read_request v of
        None \<Rightarrow> Inl SE_INVALID_INPUT
      | Some (k, q) \<Rightarrow>
          if \<not> assertArtifact cx (rq_planHash q) (fst k) (Some ''replan_plan'') then Inl SE_INVALID_INPUT
          else (case row_by ob_observationEventId (rq_triggerEventId q) (tb_observations tb) of
              None \<Rightarrow> Inl SE_PERSISTENCE_FAILED
            | Some (k', _) \<Rightarrow>
                if k' \<noteq> k then Inl SE_PERSISTENCE_FAILED
                else map_sum id (\<lambda>rows. tb\<lparr>tb_requests := rows\<rparr>) (insert_row (request_clash (k, q)) (k, q) (tb_requests tb))))"

definition scope_decision_clash :: "row_key \<times> scope_decision \<Rightarrow> row_key \<times> scope_decision \<Rightarrow> bool" where
  "scope_decision_clash r q \<longleftrightarrow>
     sd_decisionId (snd q) = sd_decisionId (snd r) \<or> sd_findingObservationId (snd q) = sd_findingObservationId (snd r)"

definition appendScopeDecision :: "review_context \<Rightarrow> jsv \<Rightarrow> replan_tables \<Rightarrow> store_error + replan_tables" where
  "appendScopeDecision cx v tb =
     (case read_scope_decision v of
        None \<Rightarrow> Inl SE_INVALID_INPUT
      | Some (k, d) \<Rightarrow>
          if currentEventVersion k tb \<noteq> sd_expectedVersion d then Inl SE_INVALID_INPUT
          else (case cx_finding cx (sd_findingObservationId d) of
              None \<Rightarrow> Inl SE_PERSISTENCE_FAILED
            | Some f \<Rightarrow>
                if \<not> (fr_scope f = gate_scope (fst k) \<and> fr_defectClass f = Some (rs_defectClass (fst k))
                     \<and> fr_disposition f = ''SCOPE_EXPANSION'') then Inl SE_PERSISTENCE_FAILED
                else if fr_agentInvocationId f = None \<or> fr_agentInvocationId f = Some (sd_actorId d) then Inl SE_INVALID_INPUT
                else map_sum id (\<lambda>rows. tb\<lparr>tb_scopeDecisions := rows\<rparr>)
                  (insert_row (scope_decision_clash (k, d)) (k, d) (tb_scopeDecisions tb))))"

definition decision_clash :: "row_key \<times> replan_decision \<Rightarrow> row_key \<times> replan_decision \<Rightarrow> bool" where
  "decision_clash r q \<longleftrightarrow>
     dc_decisionId (snd q) = dc_decisionId (snd r)
     \<or> (dc_requestId (snd q) = dc_requestId (snd r) \<and> dc_planVersion (snd q) = dc_planVersion (snd r))"

definition appendDecision :: "review_context \<Rightarrow> jsv \<Rightarrow> replan_tables \<Rightarrow> store_error + replan_tables" where
  "appendDecision cx v tb =
     (case read_decision v of
        None \<Rightarrow> Inl SE_INVALID_INPUT
      | Some (k, d) \<Rightarrow>
          if \<not> assertArtifact cx (dc_planHash d) (fst k) (Some ''replan_plan'') then Inl SE_INVALID_INPUT
          else (case row_by rq_requestId (dc_requestId d) (tb_requests tb) of
              None \<Rightarrow> Inl SE_PERSISTENCE_FAILED
            | Some (k', q) \<Rightarrow>
                if \<not> (k' = k \<and> rq_planHash q = dc_planHash d \<and> rq_planVersion q = dc_planVersion d) then Inl SE_PERSISTENCE_FAILED
                else if rq_proposalAuthorActor q = dc_actorId d \<or> currentEventVersion k tb \<noteq> dc_expectedVersion d then Inl SE_INVALID_INPUT
                else map_sum id (\<lambda>rows. tb\<lparr>tb_decisions := rows\<rparr>) (insert_row (decision_clash (k, d)) (k, d) (tb_decisions tb))))"

definition transition_clash :: "row_key \<times> replan_transition \<Rightarrow> row_key \<times> replan_transition \<Rightarrow> bool" where
  "transition_clash r q \<longleftrightarrow>
     tr_transitionId (snd q) = tr_transitionId (snd r)
     \<or> (fst q = fst r \<and> tr_resultingVersion (snd q) = tr_resultingVersion (snd r))"

definition appendTransition :: "review_context \<Rightarrow> jsv \<Rightarrow> replan_tables \<Rightarrow> store_error + replan_tables" where
  "appendTransition cx v tb =
     (case read_transition v of
        None \<Rightarrow> Inl SE_INVALID_INPUT
      | Some (k, t) \<Rightarrow>
          if currentEventVersion k tb \<noteq> tr_expectedVersion t \<or> currentState k tb \<noteq> tr_fromState t then Inl SE_INVALID_INPUT
          else if (case tr_triggerHash t of None \<Rightarrow> False | Some h \<Rightarrow> \<not> assertArtifact cx h (fst k) None) then Inl SE_INVALID_INPUT
          else map_sum id (\<lambda>rows. tb\<lparr>tb_transitions := rows\<rparr>) (insert_row (transition_clash (k, t)) (k, t) (tb_transitions tb)))"

definition dispatch_clash :: "row_key \<times> dispatch_attempt \<Rightarrow> row_key \<times> dispatch_attempt \<Rightarrow> bool" where
  "dispatch_clash r q \<longleftrightarrow>
     da_attemptEventId (snd q) = da_attemptEventId (snd r)
     \<or> (da_dispatchId (snd q) = da_dispatchId (snd r) \<and> da_outcome (snd q) = da_outcome (snd r))
     \<or> (fst q = fst r \<and> da_requestId (snd q) = da_requestId (snd r) \<and> da_planVersion (snd q) = da_planVersion (snd r)
        \<and> da_outcome (snd q) = da_outcome (snd r))"

definition started_for :: "row_key \<Rightarrow> dispatch_attempt \<Rightarrow> row_key \<times> dispatch_attempt \<Rightarrow> bool" where
  "started_for k a q \<longleftrightarrow> fst q = k \<and> da_requestId (snd q) = da_requestId a \<and> da_planVersion (snd q) = da_planVersion a
     \<and> da_outcome (snd q) = STARTED"

definition same_dispatch :: "row_key \<Rightarrow> dispatch_attempt \<Rightarrow> row_key \<times> dispatch_attempt \<Rightarrow> bool" where
  "same_dispatch k a q \<longleftrightarrow>
     fst q = k \<and> da_requestId (snd q) = da_requestId a \<and> da_planHash (snd q) = da_planHash a \<and> da_planVersion (snd q) = da_planVersion a
     \<and> da_approvalDecisionId (snd q) = da_approvalDecisionId a \<and> da_approvalEventVersion (snd q) = da_approvalEventVersion a
     \<and> da_workflowRunId (snd q) = da_workflowRunId a"

definition appendDispatch :: "review_context \<Rightarrow> jsv \<Rightarrow> replan_tables \<Rightarrow> store_error + replan_tables" where
  "appendDispatch cx v tb =
     (case read_dispatch v of
        None \<Rightarrow> Inl SE_INVALID_INPUT
      | Some (k, a) \<Rightarrow>
          if \<not> assertArtifact cx (da_planHash a) (fst k) (Some ''replan_plan'') then Inl SE_INVALID_INPUT
          else (case row_by dc_decisionId (da_approvalDecisionId a) (tb_decisions tb) of
              None \<Rightarrow> Inl SE_PERSISTENCE_FAILED
            | Some (k', d) \<Rightarrow>
                if \<not> (dc_requestId d = da_requestId a \<and> k' = k \<and> dc_planHash d = da_planHash a \<and> dc_planVersion d = da_planVersion a
                     \<and> dc_outcome d = APPROVE \<and> dc_resultingVersion d = da_approvalEventVersion a) then Inl SE_PERSISTENCE_FAILED
                else if da_outcome a = STARTED \<and> list_ex (started_for k a) (tb_dispatches tb) then Inl SE_INVALID_INPUT
                else if da_outcome a \<noteq> STARTED
                     \<and> (case List.find (\<lambda>q. da_dispatchId (snd q) = da_dispatchId a \<and> da_outcome (snd q) = STARTED) (tb_dispatches tb) of
                          None \<Rightarrow> True | Some q \<Rightarrow> \<not> same_dispatch k a q) then Inl SE_INVALID_INPUT
                else map_sum id (\<lambda>rows. tb\<lparr>tb_dispatches := rows\<rparr>) (insert_row (dispatch_clash (k, a)) (k, a) (tb_dispatches tb))))"

definition assessment_clash :: "row_key \<times> review_assessment \<Rightarrow> row_key \<times> review_assessment \<Rightarrow> bool" where
  "assessment_clash r q \<longleftrightarrow>
     as_assessmentId (snd q) = as_assessmentId (snd r)
     \<or> (as_dispatchId (snd q) = as_dispatchId (snd r) \<and> as_reviewManifestHash (snd q) = as_reviewManifestHash (snd r))"

definition appendAssessment :: "review_context \<Rightarrow> jsv \<Rightarrow> replan_tables \<Rightarrow> store_error + replan_tables" where
  "appendAssessment cx v tb =
     (case read_assessment v of
        None \<Rightarrow> Inl SE_INVALID_INPUT
      | Some (k, s) \<Rightarrow>
          if \<not> assertArtifact cx (as_reviewManifestHash s) (fst k) (Some ''review_manifest'')
             \<or> \<not> assertArtifact cx (as_planHash s) (fst k) (Some ''replan_plan'') then Inl SE_INVALID_INPUT
          else (case row_by da_dispatchId (as_dispatchId s) (tb_dispatches tb) of
              None \<Rightarrow> Inl SE_PERSISTENCE_FAILED
            | Some (k', a) \<Rightarrow>
                if \<not> (snd k' = snd k \<and> da_planHash a = as_planHash s \<and> da_planVersion a = as_planVersion s \<and> da_outcome a = STARTED)
                then Inl SE_PERSISTENCE_FAILED
                else if cx_run cx (as_reviewManifestHash s) \<noteq> Some (as_reviewRunId s) then Inl SE_INVALID_INPUT
                else map_sum id (\<lambda>rows. tb\<lparr>tb_assessments := rows\<rparr>)
                  (insert_row (assessment_clash (k, s)) (k, s) (tb_assessments tb))))"

section \<open>The projection\<close>

definition by_text :: "('a \<Rightarrow> string) \<Rightarrow> 'a \<Rightarrow> 'a \<Rightarrow> int" where
  "by_text f x y = (if str_less (f x) (f y) then - 1 else if f x = f y then 0 else 1)"

definition by_number :: "('a \<Rightarrow> int) \<Rightarrow> 'a \<Rightarrow> 'a \<Rightarrow> int" where
  "by_number f x y = f x - f y"

definition by_then :: "('a \<Rightarrow> 'a \<Rightarrow> int) \<Rightarrow> ('a \<Rightarrow> 'a \<Rightarrow> int) \<Rightarrow> 'a \<Rightarrow> 'a \<Rightarrow> int" where
  "by_then f g x y = (if f x y \<noteq> 0 then f x y else g x y)"

definition getAggregate :: "row_key \<Rightarrow> replan_tables \<Rightarrow> replan_aggregate" where
  "getAggregate k tb =
     (let ts = sort_key tr_resultingVersion (rows_of k (tb_transitions tb)) in
      \<lparr>ag_scope = fst k, ag_aggregateId = snd k,
       ag_eventVersion = (if ts = [] then 0 else tr_resultingVersion (last ts)),
       ag_state = (if ts = [] then NORMAL_REMEDIATION else tr_toState (last ts)),
       ag_observations = sort_by (by_then (by_text ob_createdAt) (by_text ob_observationEventId)) (rows_of k (tb_observations tb)),
       ag_requests = sort_by (by_then (by_number rq_planVersion) (by_text rq_requestId)) (rows_of k (tb_requests tb)),
       ag_scopeExpansionDecisions =
         sort_by (by_then (by_number sd_resultingVersion) (by_text sd_decisionId)) (rows_of k (tb_scopeDecisions tb)),
       ag_decisions = sort_by (by_then (by_number dc_resultingVersion) (by_text dc_decisionId)) (rows_of k (tb_decisions tb)),
       ag_transitions = ts,
       ag_dispatchAttempts = sort_by (by_then (by_text da_attemptedAt)
         (by_then (by_number (\<lambda>a. if da_outcome a = STARTED then 0 else 1)) (by_text da_attemptEventId))) (rows_of k (tb_dispatches tb)),
       ag_reviewAssessments = sort_by (by_then (by_text as_createdAt) (by_text as_assessmentId)) (rows_of k (tb_assessments tb))\<rparr>)"

section \<open>Operations\<close>

datatype operation_kind =
    op_OBSERVATION | op_THRESHOLD_MANIFESTATION | op_SCOPE_EXPANSION_ACCEPTED | op_SCOPE_EXPANSION_ACCEPTED_NO_THRESHOLD
  | op_SCOPE_EXPANSION_REJECTED | op_PLAN_REQUEST | op_REPLAN_DECISION | op_DISPATCH_STARTED | op_DISPATCH_FAILED
  | op_REVIEW_ASSESSMENT

definition OPERATION_KINDS :: "(string \<times> operation_kind) list" where
  "OPERATION_KINDS =
     [(''OBSERVATION'', op_OBSERVATION), (''THRESHOLD_MANIFESTATION'', op_THRESHOLD_MANIFESTATION),
      (''SCOPE_EXPANSION_ACCEPTED'', op_SCOPE_EXPANSION_ACCEPTED),
      (''SCOPE_EXPANSION_ACCEPTED_NO_THRESHOLD'', op_SCOPE_EXPANSION_ACCEPTED_NO_THRESHOLD),
      (''SCOPE_EXPANSION_REJECTED'', op_SCOPE_EXPANSION_REJECTED), (''PLAN_REQUEST'', op_PLAN_REQUEST),
      (''REPLAN_DECISION'', op_REPLAN_DECISION), (''DISPATCH_STARTED'', op_DISPATCH_STARTED),
      (''DISPATCH_FAILED'', op_DISPATCH_FAILED), (''REVIEW_ASSESSMENT'', op_REVIEW_ASSESSMENT)]"

fun replanOperationRecordKeys :: "operation_kind \<Rightarrow> string list" where
  "replanOperationRecordKeys op_OBSERVATION = [''observation'']"
| "replanOperationRecordKeys op_THRESHOLD_MANIFESTATION = [''observation'', ''transition'']"
| "replanOperationRecordKeys op_SCOPE_EXPANSION_ACCEPTED = [''decision'', ''observation'', ''transition'']"
| "replanOperationRecordKeys op_SCOPE_EXPANSION_ACCEPTED_NO_THRESHOLD = [''decision'', ''transition'']"
| "replanOperationRecordKeys op_SCOPE_EXPANSION_REJECTED = [''decision'', ''transition'']"
| "replanOperationRecordKeys op_PLAN_REQUEST = [''request'', ''transition'']"
| "replanOperationRecordKeys op_REPLAN_DECISION = [''decision'', ''transition'']"
| "replanOperationRecordKeys op_DISPATCH_STARTED = [''dispatch'', ''transition'']"
| "replanOperationRecordKeys op_DISPATCH_FAILED = [''dispatch'']"
| "replanOperationRecordKeys op_REVIEW_ASSESSMENT = [''assessment'', ''transition'']"

definition row_key_of :: "jsv \<Rightarrow> row_key option" where
  "row_key_of v = do {
     chk (isRecord v);
     sc \<leftarrow> assertReplanScope v;
     a \<leftarrow> assertKebabIdentifier (jget v ''aggregateId'');
     Some (sc, a) }"

definition linked :: "jsv \<Rightarrow> string \<Rightarrow> string \<Rightarrow> string \<Rightarrow> string \<Rightarrow> bool" where
  "linked rs r f r' f' \<longleftrightarrow> js_eq (jget (jget rs r) f) (jget (jget rs r') f')"

fun trigger_linked :: "operation_kind \<Rightarrow> jsv \<Rightarrow> bool" where
  "trigger_linked op_THRESHOLD_MANIFESTATION rs = linked rs ''transition'' ''triggerRecordId'' ''observation'' ''observationEventId''"
| "trigger_linked op_SCOPE_EXPANSION_ACCEPTED rs =
     (linked rs ''observation'' ''findingObservationId'' ''decision'' ''findingObservationId''
      \<and> linked rs ''observation'' ''decisionId'' ''decision'' ''decisionId''
      \<and> linked rs ''transition'' ''triggerRecordId'' ''observation'' ''observationEventId'')"
| "trigger_linked op_SCOPE_EXPANSION_ACCEPTED_NO_THRESHOLD rs = linked rs ''transition'' ''triggerRecordId'' ''decision'' ''decisionId''"
| "trigger_linked op_SCOPE_EXPANSION_REJECTED rs = linked rs ''transition'' ''triggerRecordId'' ''decision'' ''decisionId''"
| "trigger_linked op_PLAN_REQUEST rs = linked rs ''transition'' ''triggerRecordId'' ''request'' ''requestId''"
| "trigger_linked op_REPLAN_DECISION rs = linked rs ''transition'' ''triggerRecordId'' ''decision'' ''decisionId''"
| "trigger_linked op_DISPATCH_STARTED rs = linked rs ''transition'' ''triggerRecordId'' ''dispatch'' ''attemptEventId''"
| "trigger_linked op_REVIEW_ASSESSMENT rs = linked rs ''transition'' ''triggerRecordId'' ''assessment'' ''assessmentId''"
| "trigger_linked _ rs = True"

definition assertCoherentReplanOperation :: "operation_kind \<Rightarrow> jsv \<Rightarrow> row_key option" where
  "assertCoherentReplanOperation op rs = do {
     let keys = replanOperationRecordKeys op;
     k \<leftarrow> row_key_of (jget rs (hd keys));
     chk (list_all (\<lambda>n. row_key_of (jget rs n) = Some k) keys);
     chk (trigger_linked op rs);
     Some k }"

text \<open>The appends of an operation, in order.\<close>

fun seq_writes :: "(replan_tables \<Rightarrow> store_error + replan_tables) list \<Rightarrow> replan_tables \<Rightarrow> store_error + replan_tables" where
  "seq_writes [] tb = Inr tb"
| "seq_writes (w # ws) tb = (case w tb of Inl e \<Rightarrow> Inl e | Inr tb' \<Rightarrow> seq_writes ws tb')"

fun operation_writes :: "review_context \<Rightarrow> operation_kind \<Rightarrow> jsv \<Rightarrow> (replan_tables \<Rightarrow> store_error + replan_tables) list" where
  "operation_writes cx op_OBSERVATION rs = [appendObservation cx (jget rs ''observation'')]"
| "operation_writes cx op_THRESHOLD_MANIFESTATION rs =
     [appendObservation cx (jget rs ''observation''), appendTransition cx (jget rs ''transition'')]"
| "operation_writes cx op_SCOPE_EXPANSION_ACCEPTED rs =
     [appendScopeDecision cx (jget rs ''decision''), appendObservation cx (jget rs ''observation''),
      appendTransition cx (jget rs ''transition'')]"
| "operation_writes cx op_SCOPE_EXPANSION_ACCEPTED_NO_THRESHOLD rs =
     [appendScopeDecision cx (jget rs ''decision''), appendTransition cx (jget rs ''transition'')]"
| "operation_writes cx op_SCOPE_EXPANSION_REJECTED rs =
     [appendScopeDecision cx (jget rs ''decision''), appendTransition cx (jget rs ''transition'')]"
| "operation_writes cx op_PLAN_REQUEST rs =
     [appendRequest cx (jget rs ''request''), appendTransition cx (jget rs ''transition'')]"
| "operation_writes cx op_REPLAN_DECISION rs =
     [appendDecision cx (jget rs ''decision''), appendTransition cx (jget rs ''transition'')]"
| "operation_writes cx op_DISPATCH_STARTED rs =
     [appendDispatch cx (jget rs ''dispatch''), appendTransition cx (jget rs ''transition'')]"
| "operation_writes cx op_DISPATCH_FAILED rs = [appendDispatch cx (jget rs ''dispatch'')]"
| "operation_writes cx op_REVIEW_ASSESSMENT rs =
     [appendAssessment cx (jget rs ''assessment''), appendTransition cx (jget rs ''transition'')]"

definition read_operation :: "jsv \<Rightarrow> (operation_kind \<times> jsv \<times> row_key) option" where
  "read_operation v = do {
     chk (assertExactShape [''kind'', ''records''] [] v);
     op \<leftarrow> enum_of OPERATION_KINDS (jget v ''kind'');
     chk (assertExactShape (replanOperationRecordKeys op) [] (jget v ''records''));
     k \<leftarrow> assertCoherentReplanOperation op (jget v ''records'');
     Some (op, jget v ''records'', k) }"

text \<open>\<open>verify\<close> is the caller's check of the aggregate read back, when there is one.\<close>

definition commit ::
  "review_context \<Rightarrow> (replan_aggregate \<Rightarrow> bool) option \<Rightarrow> jsv \<Rightarrow> replan_tables \<Rightarrow> store_error + replan_aggregate \<times> replan_tables" where
  "commit cx verify v tb =
     (case read_operation v of
        None \<Rightarrow> Inl SE_INVALID_INPUT
      | Some (op, rs, k) \<Rightarrow>
          (case seq_writes (operation_writes cx op rs) tb of
             Inl e \<Rightarrow> Inl e
           | Inr tb' \<Rightarrow>
               (let a = getAggregate k tb' in
                if (case verify of None \<Rightarrow> False | Some P \<Rightarrow> \<not> P a) then Inl SE_PERSISTENCE_FAILED else Inr (a, tb'))))"

text \<open>The tables after a call: a failed transaction is rolled back.\<close>

definition after_commit :: "review_context \<Rightarrow> (replan_aggregate \<Rightarrow> bool) option \<Rightarrow> jsv \<Rightarrow> replan_tables \<Rightarrow> replan_tables" where
  "after_commit cx verify v tb = (case commit cx verify v tb of Inl _ \<Rightarrow> tb | Inr r \<Rightarrow> snd r)"

end
