(* ===== verification/ReplanFacts.thy ===== *)
theory ReplanFacts
  imports ReplanGovernance
begin

text \<open>
  What replan governance promises. The transition log of every accepted aggregate is a history of
  the governed state machine from normal remediation to the aggregate's state; a demanded replan is
  only left through an approval and its dispatch; the three decisions are characterised and what
  they imply about separation of duties, versions and single dispatch is proved.
\<close>

section \<open>The state machine\<close>

text \<open>One governed step, with the event that takes it.\<close>

inductive replan_step :: "replan_state \<Rightarrow> replan_state \<Rightarrow> bool" where
  observe: "replan_step NORMAL_REMEDIATION NORMAL_REMEDIATION"
| recur: "replan_step NORMAL_REMEDIATION REMEDIATION_REPLAN_REQUIRED"
| propose: "replan_step REMEDIATION_REPLAN_REQUIRED REPLAN_PENDING_APPROVAL"
| approve: "replan_step REPLAN_PENDING_APPROVAL REPLAN_APPROVED"
| reject: "replan_step REPLAN_PENDING_APPROVAL REPLAN_REJECTED"
| repropose: "replan_step REPLAN_REJECTED REPLAN_PENDING_APPROVAL"
| dispatch: "replan_step REPLAN_APPROVED BOUNDED_REMEDIATION_DISPATCHED"
| review: "replan_step BOUNDED_REMEDIATION_DISPATCHED REVIEW_PENDING"
| reassess: "replan_step REVIEW_PENDING REVIEW_PENDING"
| clear: "replan_step REVIEW_PENDING NORMAL_REMEDIATION"
| recur_after_review: "replan_step REVIEW_PENDING REMEDIATION_REPLAN_REQUIRED"

inductive_cases replan_stepE [elim!]: "replan_step s t"

lemma allowedTransitions_step: "t \<in> set (allowedTransitions s) \<longleftrightarrow> replan_step s t"
  by (cases s) (auto intro: replan_step.intros)

text \<open>A history: numbered transitions that continue each other, from a state to a state.\<close>

inductive history :: "nat \<Rightarrow> replan_state \<Rightarrow> replan_transition list \<Rightarrow> replan_state \<Rightarrow> bool" where
  h_done: "history n s [] s"
| h_step: "tr_fromState t = s \<Longrightarrow> replan_step s (tr_toState t) \<Longrightarrow> tr_expectedVersion t = int n
     \<Longrightarrow> tr_resultingVersion t = int n + 1 \<Longrightarrow> history (Suc n) (tr_toState t) ts s'
     \<Longrightarrow> history n s (t # ts) s'"

inductive_simps history_Nil [simp]: "history n s [] s'"
inductive_simps history_Cons: "history n s (t # ts) s'"

lemma history_coherent:
  "ts \<noteq> [] \<Longrightarrow> history n s ts s' \<longleftrightarrow>
     list_all (\<lambda>i. transition_at (n + i) (if i = 0 then s else tr_toState (ts ! (i - 1))) (ts ! i)) [0..<length ts]
     \<and> s' = tr_toState (last ts)"
proof (induction ts arbitrary: n s)
  case (Cons t ts)
  have split: "[0..<length (t # ts)] = 0 # map Suc [0..<length ts]"
    using upt_conv_Cons [of 0 "Suc (length ts)"] by (simp add: map_Suc_upt del: upt_Suc)
  show ?case
  proof (cases "ts = []")
    case True
    then show ?thesis by (auto simp: history_Cons transition_at_def allowedTransitions_step)
  next
    case False
    have "(if Suc i = 0 then s else tr_toState ((t # ts) ! (Suc i - 1)))
        = (if i = 0 then tr_toState t else tr_toState (ts ! (i - 1)))" for i
      by (cases i) auto
    then show ?thesis
      using Cons.IH [OF False, of "Suc n" "tr_toState t"] False
      by (simp only: split list.pred_inject list.pred_map comp_def)
         (auto simp: history_Cons transition_at_def allowedTransitions_step)
  qed
qed simp

lemma history_version: "history n s ts s' \<Longrightarrow> ts \<noteq> [] \<Longrightarrow> tr_resultingVersion (last ts) = int (n + length ts)"
  by (induction rule: history.induct) (auto split: if_splits)

lemma transitions_coherent_iff:
  "transitions_coherent v st ts \<longleftrightarrow> history 0 NORMAL_REMEDIATION ts st \<and> v = int (length ts)"
proof (cases "ts = []")
  case True
  then show ?thesis by (auto simp: transitions_coherent_def)
next
  case False
  show ?thesis
    unfolding transitions_coherent_def if_not_P [OF False]
    using history_coherent [OF False, of 0 NORMAL_REMEDIATION st, unfolded add_0]
      history_version [OF _ False, of 0 NORMAL_REMEDIATION st, unfolded add_0]
    by argo
qed

lemma validateAggregate_history:
  "validateAggregate v = Some a \<Longrightarrow>
     history 0 NORMAL_REMEDIATION (ag_transitions a) (ag_state a) \<and> ag_eventVersion a = int (length (ag_transitions a))"
  by (auto simp: validateAggregate_def Option.bind_eq_Some_conv transitions_coherent_iff split: if_splits)

lemma history_append:
  "history n s (us @ vs) s' \<longleftrightarrow> (\<exists>m. history n s us m \<and> history (n + length us) m vs s')"
  by (induction us arbitrary: n s) (auto simp: history_Cons)

definition replan_demanded :: "replan_state set" where
  "replan_demanded = {REMEDIATION_REPLAN_REQUIRED, REPLAN_PENDING_APPROVAL, REPLAN_REJECTED}"

lemma leave_replan:
  "history n s ts s' \<Longrightarrow> s \<in> replan_demanded \<Longrightarrow> s' \<notin> replan_demanded \<Longrightarrow>
     \<exists>us p vs. ts = us @ p # vs \<and> tr_fromState p = REPLAN_PENDING_APPROVAL \<and> tr_toState p = REPLAN_APPROVED
       \<and> history (Suc (n + length us)) REPLAN_APPROVED vs s'"
proof (induction rule: history.induct)
  case (h_step t s n ts s')
  show ?case
  proof (cases "tr_toState t = REPLAN_APPROVED")
    case True
    with h_step show ?thesis
      by (intro exI [of _ "[]"] exI [of _ t] exI [of _ ts]) (auto simp: replan_demanded_def)
  next
    case False
    with h_step have "tr_toState t \<in> replan_demanded" by (auto simp: replan_demanded_def)
    with h_step obtain us p vs where "ts = us @ p # vs" "tr_fromState p = REPLAN_PENDING_APPROVAL"
      "tr_toState p = REPLAN_APPROVED" "history (Suc (Suc n + length us)) REPLAN_APPROVED vs s'"
      by blast
    then show ?thesis
      by (intro exI [of _ "t # us"] exI [of _ p] exI [of _ vs]) auto
  qed
qed simp

section \<open>A concrete aggregate\<close>

lemma hash_Some: "hash v = Some s \<longleftrightarrow> v = JStr s \<and> length s = 64 \<and> list_all is_hex s"
  by (simp add: hash_def sha256_text)

definition sample_sha :: string where
  "sample_sha = replicate 64 CHR ''a''"

definition sample_time :: string where
  "sample_time = ''2026-02-28T10:11:12Z''"

lemma sample_hash_guard [simp]: "hash (JStr sample_sha) = Some sample_sha" "rx_full SHA256_HEX_RE sample_sha"
proof -
  have "is_hex CHR ''a''" by code_simp
  then show "hash (JStr sample_sha) = Some sample_sha" "rx_full SHA256_HEX_RE sample_sha"
    by (simp_all add: hash_Some sha256_text sample_sha_def list_all_iff)
qed

lemma sample_time_rx: "rx_full TIMESTAMP_RE ''2026-02-28T10:11:12Z''"
  by (simp add: TIMESTAMP_RE_def rx_eval rx_ws_def char_eval)

lemma sample_time_text: "timestamp_text ''2026-02-28T10:11:12Z''"
  using sample_time_rx
  by (simp del: rx_full.simps add: timestamp_text_def calendar_ok_def field_at_def decimal_def digit_value_def char_eval
        days_in_month_def)

lemma sample_time_guard [simp]: "timestamp (JStr sample_time) = Some sample_time"
  by (simp add: timestamp_def sample_time_text sample_time_def)

lemma sample_word_text: "safe_text_string ''aa'' \<and> safe_text_string ''bb'' \<and> rx_full KEBAB_CASE_RE ''aa'' \<and> rx_full KEBAB_CASE_RE ''bb''"
  by (simp add: safe_text_string_def plain_text_safe rx_eval rx_ws_def char_eval KEBAB_CASE_RE_def is_control_def)

lemma sample_word_guard [simp]:
  "isIdentifier (JStr ''aa'') = Some ''aa''" "isIdentifier (JStr ''bb'') = Some ''bb''"
  "safeText (JStr ''aa'') = Some ''aa''"
  "safeIdentity (JStr ''aa'') = Some ''aa''" "safeIdentity (JStr ''bb'') = Some ''bb''"
  using sample_word_text by (simp_all add: isIdentifier_def safeText_def safeIdentity_def)

definition sj_scope :: "(string \<times> jsv) list" where
  "sj_scope = [(''projectId'', JStr ''aa''), (''featureId'', JStr ''aa''), (''phaseNumber'', JNum (JInt 2)),
     (''reviewGateId'', JStr ''aa''), (''defectClass'', JStr ''aa'')]"

definition sj_record :: "(string \<times> jsv) list \<Rightarrow> jsv" where
  "sj_record kvs = JObj (sj_scope @ (''aggregateId'', JStr ''aa'') # kvs)"

definition sj_transition :: "nat \<Rightarrow> string \<Rightarrow> string \<Rightarrow> jsv" where
  "sj_transition n f t = sj_record [(''transitionId'', JStr ''aa''), (''fromState'', JStr f), (''toState'', JStr t),
     (''reasonCode'', JStr ''aa''), (''triggerRecordId'', JStr ''aa''), (''expectedVersion'', JNum (JInt (int n))),
     (''resultingVersion'', JNum (JInt (int n + 1))), (''transitionedAt'', JStr sample_time)]"

definition sj_observation :: jsv where
  "sj_observation = sj_record [(''observationEventId'', JStr ''aa''), (''observationKind'', JStr ''FINDING_EXHAUSTIVENESS''),
     (''triggerManifestHash'', JStr sample_sha), (''basisManifestHash'', JStr sample_sha),
     (''findingObservationId'', JStr ''aa''), (''createdAt'', JStr sample_time)]"

definition sj_request :: jsv where
  "sj_request = sj_record [(''requestId'', JStr ''aa''), (''triggerEventId'', JStr ''aa''),
     (''planHash'', JStr sample_sha), (''planVersion'', JNum (JInt 1)), (''proposalAuthorActor'', JStr ''aa''),
     (''producerInvocationId'', JStr ''aa''), (''policyId'', JStr ''replan-governance-v1''),
     (''policyVersion'', JNum (JInt 1)), (''eligibleRoles'', JArr [JStr ''ARCHITECTURE_STEWARD'']),
     (''requestedAt'', JStr sample_time)]"

definition sj_decision :: jsv where
  "sj_decision = sj_record [(''decisionId'', JStr ''aa''), (''requestId'', JStr ''aa''),
     (''planHash'', JStr sample_sha), (''planVersion'', JNum (JInt 1)), (''outcome'', JStr ''APPROVE''),
     (''actorId'', JStr ''bb''), (''authorizedRole'', JStr ''ARCHITECTURE_STEWARD''),
     (''policyId'', JStr ''replan-governance-v1''), (''policyVersion'', JNum (JInt 1)), (''reason'', JStr ''aa''),
     (''expectedVersion'', JNum (JInt 2)), (''resultingVersion'', JNum (JInt 3)), (''decidedAt'', JStr sample_time)]"

definition sj_aggregate :: "nat \<Rightarrow> string \<Rightarrow> jsv list \<Rightarrow> jsv list \<Rightarrow> jsv" where
  "sj_aggregate n st dcs trs = JObj [(''scope'', JObj sj_scope), (''aggregateId'', JStr ''aa''),
     (''eventVersion'', JNum (JInt (int n))), (''state'', JStr st), (''observations'', JArr [sj_observation]),
     (''requests'', JArr [sj_request]), (''scopeExpansionDecisions'', JArr []), (''decisions'', JArr dcs),
     (''transitions'', JArr trs), (''dispatchAttempts'', JArr []), (''reviewAssessments'', JArr [])]"

definition sj_log :: "jsv list" where
  "sj_log = [sj_transition 0 ''NORMAL_REMEDIATION'' ''REMEDIATION_REPLAN_REQUIRED'',
     sj_transition 1 ''REMEDIATION_REPLAN_REQUIRED'' ''REPLAN_PENDING_APPROVAL'',
     sj_transition 2 ''REPLAN_PENDING_APPROVAL'' ''REPLAN_APPROVED'']"

text \<open>Their narrowed forms.\<close>

definition sa_scope :: replan_scope where
  "sa_scope = \<lparr>rs_projectId = ''aa'', rs_featureId = ''aa'', rs_phaseNumber = 2, rs_reviewGateId = ''aa'',
     rs_defectClass = ''aa''\<rparr>"

definition sa_transition :: "nat \<Rightarrow> replan_state \<Rightarrow> replan_state \<Rightarrow> replan_transition" where
  "sa_transition n f t = \<lparr>tr_transitionId = ''aa'', tr_fromState = f, tr_toState = t, tr_reasonCode = ''aa'',
     tr_triggerRecordId = ''aa'', tr_triggerHash = None, tr_expectedVersion = int n, tr_resultingVersion = int n + 1,
     tr_transitionedAt = sample_time\<rparr>"

definition sa_observation :: replan_observation where
  "sa_observation = \<lparr>ob_observationEventId = ''aa'', ob_observationKind = FINDING_EXHAUSTIVENESS,
     ob_triggerManifestHash = sample_sha, ob_basisManifestHash = sample_sha, ob_findingObservationId = Some ''aa'',
     ob_remediationCycleId = None, ob_decisionId = None, ob_createdAt = sample_time\<rparr>"

definition sa_request :: replan_request where
  "sa_request = \<lparr>rq_requestId = ''aa'', rq_triggerEventId = ''aa'', rq_planHash = sample_sha, rq_planVersion = 1,
     rq_proposalAuthorActor = ''aa'', rq_producerInvocationId = ''aa'', rq_requestedAt = sample_time\<rparr>"

definition sa_decision :: replan_decision where
  "sa_decision = \<lparr>dc_decisionId = ''aa'', dc_requestId = ''aa'', dc_planHash = sample_sha, dc_planVersion = 1,
     dc_outcome = APPROVE, dc_actorId = ''bb'', dc_authorizedRole = ARCHITECTURE_STEWARD, dc_reason = ''aa'',
     dc_expectedVersion = 2, dc_resultingVersion = 3, dc_decidedAt = sample_time\<rparr>"

definition sa_log :: "replan_transition list" where
  "sa_log = [sa_transition 0 NORMAL_REMEDIATION REMEDIATION_REPLAN_REQUIRED,
     sa_transition 1 REMEDIATION_REPLAN_REQUIRED REPLAN_PENDING_APPROVAL,
     sa_transition 2 REPLAN_PENDING_APPROVAL REPLAN_APPROVED]"

definition sa_aggregate :: "nat \<Rightarrow> replan_state \<Rightarrow> replan_decision list \<Rightarrow> replan_transition list \<Rightarrow> replan_aggregate" where
  "sa_aggregate n st dcs trs = \<lparr>ag_scope = sa_scope, ag_aggregateId = ''aa'', ag_eventVersion = int n, ag_state = st,
     ag_observations = [sa_observation], ag_requests = [sa_request], ag_scopeExpansionDecisions = [],
     ag_decisions = dcs, ag_transitions = trs, ag_dispatchAttempts = [], ag_reviewAssessments = []\<rparr>"

lemmas guard_eval = Option.bind_eq_Some_conv hasOnlyKeys_def opt_field_def isScopedAggregateRecord_def scope_keys_def
  enum_of_def as_nat_int_def positive_int_def policy_v1_def version_pair_def js_succ_def array_of_def

lemma sj_scope_guard [simp]: "isReplanScope (JObj sj_scope) = Some sa_scope"
  by (simp add: isReplanScope_def sj_scope_def guard_eval sa_scope_def)

lemma sj_transition_guard [simp]:
  "map_of STATES f = Some f' \<Longrightarrow> map_of STATES t = Some t' \<Longrightarrow> n < 1000 \<Longrightarrow>
     isTransitionRecord sa_scope ''aa'' (sj_transition n f t) = Some (sa_transition n f' t')"
  by (simp add: isTransitionRecord_def sj_transition_def sj_record_def sj_scope_def guard_eval sa_scope_def sa_transition_def)

lemma sj_observation_guard [simp]: "isObservationRecord sa_scope ''aa'' sj_observation = Some sa_observation"
  by (simp add: isObservationRecord_def sj_observation_def sj_record_def sj_scope_def guard_eval sa_scope_def
        sa_observation_def OBSERVATION_KINDS_def)

lemma sj_request_guard [simp]: "isRequestRecord sa_scope ''aa'' sj_request = Some sa_request"
  by (simp add: isRequestRecord_def sj_request_def sj_record_def sj_scope_def guard_eval sa_scope_def sa_request_def)

lemma sj_decision_guard [simp]: "isDecisionRecord sa_scope ''aa'' sj_decision = Some sa_decision"
  by (simp add: isDecisionRecord_def sj_decision_def sj_record_def sj_scope_def guard_eval sa_scope_def sa_decision_def)

lemma parse_all_take: "parse_all f xs = Some ys \<Longrightarrow> parse_all f (take k xs) = Some (take k ys)"
  by (simp add: parse_all_Some_iff list_all2_takeI)

lemma sj_log_guard [simp]: "parse_all (isTransitionRecord sa_scope ''aa'') sj_log = Some sa_log"
  by (simp add: sj_log_def sa_log_def STATES_def)

lemma sj_log_take_guard [simp]:
  "parse_all (isTransitionRecord sa_scope ''aa'') (take k sj_log) = Some (take k sa_log)"
  by (rule parse_all_take) simp

lemma sa_log_history: "history 0 NORMAL_REMEDIATION sa_log REPLAN_APPROVED"
  by (auto simp: sa_log_def sa_transition_def history_Cons intro: replan_step.intros)

definition sj_pending :: jsv where
  "sj_pending = sj_aggregate 2 ''REPLAN_PENDING_APPROVAL'' [] (take 2 sj_log)"

definition sj_approved :: jsv where
  "sj_approved = sj_aggregate 3 ''REPLAN_APPROVED'' [sj_decision] sj_log"

definition sj_fresh :: jsv where
  "sj_fresh = sj_aggregate 0 ''NORMAL_REMEDIATION'' [] []"

lemma sj_pending_guard [simp]:
  "validateAggregate sj_pending = Some (sa_aggregate 2 REPLAN_PENDING_APPROVAL [] (take 2 sa_log))"
  by (simp add: validateAggregate_def sj_pending_def sj_aggregate_def guard_eval sa_aggregate_def
        transitions_coherent_iff STATES_def)
     (simp add: sj_log_def sa_log_def history_Cons sa_transition_def replan_step.intros)

lemma sj_approved_guard [simp]:
  "validateAggregate sj_approved = Some (sa_aggregate 3 REPLAN_APPROVED [sa_decision] sa_log)"
  using sa_log_history
  by (simp add: validateAggregate_def sj_approved_def sj_aggregate_def guard_eval sa_aggregate_def
        transitions_coherent_iff STATES_def)
     (simp add: sj_log_def sa_log_def)

lemma sj_fresh_guard [simp]: "validateAggregate sj_fresh = Some (sa_aggregate 0 NORMAL_REMEDIATION [] [])"
  by (simp add: validateAggregate_def sj_fresh_def sj_aggregate_def guard_eval sa_aggregate_def
        transitions_coherent_iff STATES_def)

section \<open>The log is a history\<close>

text \<open>C26. Every accepted aggregate's transition log is a history of the governed state machine from normal
  remediation to the aggregate's state, numbered without gaps, and the event version counts it.\<close>

theorem replan_log_is_history:
  assumes "validateAggregate v = Some a"
  shows "history 0 NORMAL_REMEDIATION (ag_transitions a) (ag_state a)
     \<and> ag_eventVersion a = int (length (ag_transitions a))"
  using validateAggregate_history [OF assms] .

theorem replan_log_is_history_witness:
  "history 0 NORMAL_REMEDIATION sa_log REPLAN_APPROVED \<and> (3::int) = int (length sa_log)"
  using replan_log_is_history [OF sj_approved_guard] by (simp add: sa_aggregate_def)

text \<open>C15. Once a replan is demanded, no accepted aggregate has left that demand except through an approval
  of a pending proposal, and no further than the approval except through the dispatch that follows it.\<close>

theorem replan_demand_needs_approval:
  assumes "validateAggregate v = Some a" and "ag_transitions a = us @ t # vs"
    and "tr_toState t = REMEDIATION_REPLAN_REQUIRED" and "ag_state a \<notin> replan_demanded"
  shows "\<exists>xs p ys. vs = xs @ p # ys \<and> tr_fromState p = REPLAN_PENDING_APPROVAL \<and> tr_toState p = REPLAN_APPROVED
     \<and> (ys = [] \<and> ag_state a = REPLAN_APPROVED
        \<or> (\<exists>d zs. ys = d # zs \<and> tr_fromState d = REPLAN_APPROVED \<and> tr_toState d = BOUNDED_REMEDIATION_DISPATCHED))"
proof -
  obtain m where "history m REMEDIATION_REPLAN_REQUIRED vs (ag_state a)"
    using validateAggregate_history [OF assms(1)] assms(2,3) by (auto simp: history_append history_Cons)
  from leave_replan [OF this _ assms(4)] obtain xs p ys
    where "vs = xs @ p # ys" "tr_fromState p = REPLAN_PENDING_APPROVAL" "tr_toState p = REPLAN_APPROVED"
      and "history (Suc (m + length xs)) REPLAN_APPROVED ys (ag_state a)"
    by (auto simp: replan_demanded_def)
  then show ?thesis
    by (intro exI [of _ xs] exI [of _ p] exI [of _ ys]) (cases ys; auto simp: history_Cons)
qed

theorem replan_demand_needs_approval_witness:
  "\<exists>xs p ys. tl sa_log = xs @ p # ys \<and> tr_fromState p = REPLAN_PENDING_APPROVAL \<and> tr_toState p = REPLAN_APPROVED"
  using replan_demand_needs_approval [OF sj_approved_guard, of "[]" "hd sa_log" "tl sa_log"]
  by (auto simp: sa_aggregate_def replan_demanded_def sa_log_def sa_transition_def)

section \<open>Recurrence\<close>

definition recurrences :: "replan_aggregate \<Rightarrow> replan_candidate \<Rightarrow> observation_kind list" where
  "recurrences a c = ca_observationKind c # map ob_observationKind (ag_observations a)"

text \<open>A replan is demanded: an exhaustive finding, or one of the two recurrence kinds seen twice.\<close>

definition demands_replan :: "replan_aggregate \<Rightarrow> replan_candidate \<Rightarrow> bool" where
  "demands_replan a c \<longleftrightarrow> ca_observationKind c = FINDING_EXHAUSTIVENESS
     \<or> (\<exists>k. k \<noteq> FINDING_EXHAUSTIVENESS \<and> 2 \<le> count_list (recurrences a c) k)"

definition admissible :: "replan_aggregate \<Rightarrow> replan_candidate \<Rightarrow> bool" where
  "admissible a c \<longleftrightarrow> ag_aggregateId a = ca_aggregateId c \<and> ag_scope a = ca_scope c
     \<and> ag_state a \<in> {NORMAL_REMEDIATION, REVIEW_PENDING}
     \<and> (\<forall>ob\<in>set (ag_observations a). \<not> is_duplicate c ob)
     \<and> (ca_observationKind c = SCOPE_EXPANSION_ACCEPTED \<longrightarrow> expansion_decided a c)"

lemma sameReplanScope_eq [simp]: "sameReplanScope x y \<longleftrightarrow> x = y"
  by (cases x; cases y) (auto simp: sameReplanScope_def)

lemma kind_count_list: "kind_count k a c = count_list (recurrences a c) k"
  by (simp add: kind_count_def recurrences_def count_list_eq_length_filter comp_def filter_map eq_commute)

lemma demands_replan_iff:
  "demands_replan a c \<longleftrightarrow> ca_observationKind c = FINDING_EXHAUSTIVENESS
     \<or> 2 \<le> kind_count POST_FIX_MANIFESTATION a c \<or> 2 \<le> kind_count SCOPE_EXPANSION_ACCEPTED a c"
  unfolding demands_replan_def kind_count_list by (metis observation_kind.exhaust observation_kind.distinct(4,6))

lemma evaluate_governance_Inr:
  "evaluate_governance a c = Inr d \<longleftrightarrow> admissible a c
     \<and> gv_action d = (if demands_replan a c then APPEND_THRESHOLD else APPEND_OBSERVATION)
     \<and> gv_state d = (if demands_replan a c then REMEDIATION_REPLAN_REQUIRED else NORMAL_REMEDIATION)
     \<and> gv_reasonCode d = (if ca_observationKind c = FINDING_EXHAUSTIVENESS then finding_exhaustiveness
               else if demands_replan a c then recurrence_threshold
               else if ca_observationKind c = POST_FIX_MANIFESTATION then first_post_fix_manifestation
               else first_scope_expansion)
     \<and> gv_expectedVersion d = ag_eventVersion a \<and> gv_candidate d = c"
  by (cases d) (auto simp: evaluate_governance_def admissible_def demands_replan_iff Let_def list_ex_iff)

lemma demanded_state_step:
  "admissible a c \<Longrightarrow> replan_step (ag_state a) (if demands_replan a c then REMEDIATION_REPLAN_REQUIRED else NORMAL_REMEDIATION)"
  by (auto simp: admissible_def intro: replan_step.intros)

text \<open>C27. An observation is accepted exactly when it is admissible; it then demands a replan exactly when it is
  an exhaustive finding or the second of a recurrence kind, and the state it moves to is a governed step.\<close>

theorem replan_governance_decides:
  assumes "governance_input v = Some (a, c)"
  shows "case evaluateReplanGovernance v of
      Inl code \<Rightarrow> \<not> admissible a c \<and> code \<in> {SCOPE_MISMATCH, INVALID_STATE, DUPLICATE_EVENT, INVALID_INPUT}
    | Inr d \<Rightarrow> admissible a c
        \<and> gv_state d = (if demands_replan a c then REMEDIATION_REPLAN_REQUIRED else NORMAL_REMEDIATION)
        \<and> (gv_action d = APPEND_THRESHOLD \<longleftrightarrow> demands_replan a c)
        \<and> replan_step (ag_state a) (gv_state d)
        \<and> gv_expectedVersion d = int (length (ag_transitions a)) \<and> gv_candidate d = c"
proof (cases "evaluateReplanGovernance v")
  case (Inl code)
  then have e: "evaluate_governance a c = Inl code"
    using assms by (simp add: evaluateReplanGovernance_def)
  have "\<exists>d. evaluate_governance a c = Inr d" if "admissible a c"
    using that by (simp add: evaluate_governance_def admissible_def list_ex_iff Let_def)
  with e have "\<not> admissible a c" by auto
  moreover have "code \<in> {SCOPE_MISMATCH, INVALID_STATE, DUPLICATE_EVENT, INVALID_INPUT}"
    using e by (auto simp: evaluate_governance_def Let_def split: if_splits)
  ultimately show ?thesis using Inl by simp
next
  case (Inr d)
  then have e: "evaluate_governance a c = Inr d"
    using assms by (simp add: evaluateReplanGovernance_def)
  obtain w where "validateAggregate w = Some a"
    using assms by (auto simp: governance_input_def Option.bind_eq_Some_conv split: if_splits)
  with e Inr demanded_state_step [of a c] validateAggregate_history [of w a] show ?thesis
    by (auto simp: evaluate_governance_Inr)
qed

definition sj_candidate :: jsv where
  "sj_candidate = JObj [(''aggregateId'', JStr ''aa''), (''scope'', JObj sj_scope), (''observationEventId'', JStr ''bb''),
     (''observationKind'', JStr ''POST_FIX_MANIFESTATION''), (''triggerManifestHash'', JStr sample_sha),
     (''basisManifestHash'', JStr sample_sha), (''remediationCycleId'', JStr ''aa'')]"

definition sa_candidate :: replan_candidate where
  "sa_candidate = \<lparr>ca_aggregateId = ''aa'', ca_scope = sa_scope, ca_observationEventId = ''bb'',
     ca_observationKind = POST_FIX_MANIFESTATION, ca_triggerManifestHash = sample_sha, ca_basisManifestHash = sample_sha,
     ca_findingObservationId = None, ca_remediationCycleId = Some ''aa'', ca_decisionId = None\<rparr>"

lemma sj_governance_input:
  "governance_input (JObj [(''aggregate'', sj_fresh), (''candidate'', sj_candidate)])
     = Some (sa_aggregate 0 NORMAL_REMEDIATION [] [], sa_candidate)"
proof -
  have "validateCandidate sj_candidate = Some sa_candidate"
    by (simp add: validateCandidate_def sj_candidate_def guard_eval OBSERVATION_KINDS_def sa_candidate_def)
  then show ?thesis by (simp add: governance_input_def guard_eval)
qed

theorem replan_governance_decides_witness:
  "case evaluateReplanGovernance (JObj [(''aggregate'', sj_fresh), (''candidate'', sj_candidate)]) of
     Inl code \<Rightarrow> False | Inr d \<Rightarrow> gv_state d = NORMAL_REMEDIATION"
  using replan_governance_decides [OF sj_governance_input]
  by (auto simp: admissible_def sa_aggregate_def sa_candidate_def is_duplicate_def sa_observation_def demands_replan_def
        recurrences_def split: sum.splits if_splits)

section \<open>Approval\<close>

lemma find_request_Some:
  "find_request i rqs = Some (k, p) \<longleftrightarrow>
     k < length rqs \<and> p = rqs ! k \<and> rq_requestId p = i \<and> (\<forall>j<k. rq_requestId (rqs ! j) \<noteq> i)"
  by (auto simp: find_request_def find_Some_iff)

lemma find_request_last:
  "(\<exists>p. find_request i rqs = Some (length rqs - 1, p)) \<longleftrightarrow>
     rqs \<noteq> [] \<and> rq_requestId (last rqs) = i \<and> (\<forall>p\<in>set (butlast rqs). rq_requestId p \<noteq> i)"
  by (cases rqs rule: rev_cases)
     (auto simp: find_request_Some nth_append in_set_conv_nth dest: nth_mem)

text \<open>Who may decide what: an architecture steward who did not author the last request, on the pending aggregate
  as it stands, once.\<close>

definition may_decide :: "replan_aggregate \<Rightarrow> approval_request \<Rightarrow> loopback_authority \<Rightarrow> bool" where
  "may_decide a q u \<longleftrightarrow> ag_state a = REPLAN_PENDING_APPROVAL \<and> aq_expectedVersion q = ag_eventVersion a
     \<and> ARCHITECTURE_STEWARD \<in> set (la_roles u)
     \<and> ag_requests a \<noteq> [] \<and> rq_requestId (last (ag_requests a)) = aq_requestId q
     \<and> (\<forall>p\<in>set (butlast (ag_requests a)). rq_requestId p \<noteq> aq_requestId q)
     \<and> rq_proposalAuthorActor (last (ag_requests a)) \<noteq> la_actorId u
     \<and> (\<forall>d\<in>set (ag_decisions a). (dc_requestId d, dc_planHash d, dc_planVersion d)
          \<noteq> (rq_requestId (last (ag_requests a)), rq_planHash (last (ag_requests a)), rq_planVersion (last (ag_requests a))))"

lemma request_guard_facts:
  assumes "validateAggregate v = Some a" and "p \<in> set (ag_requests a)"
  shows "1 \<le> rq_planVersion p \<and> rx_full SHA256_HEX_RE (rq_planHash p)"
proof -
  obtain sc i xs where "parse_all (isRequestRecord sc i) xs = Some (ag_requests a)"
    using assms(1) by (auto simp: validateAggregate_def Option.bind_eq_Some_conv split: if_splits)
  from parse_all_image [OF this assms(2)] show ?thesis
    by (auto simp: isRequestRecord_def positive_int_def hash_def Option.bind_eq_Some_conv split: if_splits)
qed

lemma log_bounded:
  "validateAggregate v = Some a \<Longrightarrow> length (ag_transitions a) \<le> 512"
  by (auto simp: validateAggregate_def Option.bind_eq_Some_conv split: if_splits dest!: parse_all_length)

definition decision_of :: "replan_aggregate \<Rightarrow> approval_request \<Rightarrow> loopback_authority \<Rightarrow> string \<Rightarrow> authorized_decision" where
  "decision_of a q u t = (let p = last (ag_requests a) in
     \<lparr>az_requestId = rq_requestId p, az_planHash = rq_planHash p, az_planVersion = rq_planVersion p,
      az_outcome = (if aq_action q = APPROVE_REPLAN then APPROVE else REJECT),
      az_actorId = la_actorId u, az_authorizedRole = ARCHITECTURE_STEWARD, az_reason = aq_reason q,
      az_expectedVersion = ag_eventVersion a, az_resultingVersion = ag_eventVersion a + 1, az_decidedAt = t\<rparr>)"

lemma find_request_position:
  "find_request i rqs = Some (k, p) \<Longrightarrow> rqs \<noteq> [] \<and> (k = length rqs - 1 \<longrightarrow> p = last rqs)"
  by (cases "rqs = []") (auto simp: find_request_Some last_conv_nth)

lemma authorize_last_request:
  assumes g: "validateAggregate v = Some a"
  shows "authorize a q u t = Inr d \<longleftrightarrow> may_decide a q u \<and> d = decision_of a q u t"
proof (cases "\<exists>p. find_request (aq_requestId q) (ag_requests a) = Some (length (ag_requests a) - 1, p)")
  case True
  then obtain p where f: "find_request (aq_requestId q) (ag_requests a) = Some (length (ag_requests a) - 1, p)" by blast
  from True have r: "ag_requests a \<noteq> []" "rq_requestId (last (ag_requests a)) = aq_requestId q"
      "\<forall>p\<in>set (butlast (ag_requests a)). rq_requestId p \<noteq> aq_requestId q"
    using find_request_last by blast+
  have p: "p = last (ag_requests a)" using find_request_position [OF f] by simp
  have ok: "\<not> rq_planVersion p < 1" "rx_full SHA256_HEX_RE (rq_planHash p)"
    using request_guard_facts [OF g, of p] r(1) p by auto
  have ver: "js_succ (ag_eventVersion a) = ag_eventVersion a + 1"
    using validateAggregate_history [OF g] log_bounded [OF g] by simp
  show ?thesis
    using f r p ok ver
    by (auto simp: authorize_def may_decide_def decision_of_def Let_def list_ex_iff)
next
  case False
  then have "\<not> may_decide a q u" unfolding find_request_last may_decide_def by blast
  moreover from False have "authorize a q u t \<noteq> Inr d"
    by (auto simp: authorize_def split: option.split)
  ultimately show ?thesis by blast
qed

text \<open>C19. A decision is authorised exactly for an architecture steward who did not author the pending proposal,
  on the current version, for the last request, undecided so far; it binds that request's plan and
  advances the version by one.\<close>

theorem replan_authorization:
  assumes "authorization_input v = Some (a, q, u, t)"
  shows "case authorizeLoopbackGovernanceDecision v of
      Inl code \<Rightarrow> \<not> may_decide a q u
    | Inr d \<Rightarrow> may_decide a q u \<and> d = decision_of a q u t"
proof -
  obtain w where w: "validateAggregate w = Some a"
    using assms by (auto simp: authorization_input_def Option.bind_eq_Some_conv split: if_splits)
  have e: "authorizeLoopbackGovernanceDecision v = authorize a q u t"
    using assms by (simp add: authorizeLoopbackGovernanceDecision_def)
  show ?thesis
    using authorize_last_request [OF w, of q u t]
    unfolding e by (cases "authorize a q u t") auto
qed

definition sj_approval :: "string \<Rightarrow> jsv" where
  "sj_approval actor = JObj [(''aggregate'', sj_pending),
     (''request'', JObj [(''subject'', JStr ''REPLAN''), (''requestId'', JStr ''aa''), (''action'', JStr ''APPROVE_REPLAN''),
        (''expectedVersion'', JNum (JInt 2)), (''reason'', JStr ''aa'')]),
     (''authority'', JObj [(''actorId'', JStr actor), (''roles'', JArr [JStr ''ARCHITECTURE_STEWARD''])]),
     (''decidedAt'', JStr sample_time)]"

definition sa_approval :: approval_request where
  "sa_approval = \<lparr>aq_requestId = ''aa'', aq_action = APPROVE_REPLAN, aq_expectedVersion = 2, aq_reason = ''aa''\<rparr>"

definition sa_authority :: "string \<Rightarrow> loopback_authority" where
  "sa_authority actor = \<lparr>la_actorId = actor, la_roles = [ARCHITECTURE_STEWARD]\<rparr>"

lemma sj_approval_input:
  "safeIdentity (JStr actor) = Some actor \<Longrightarrow> authorization_input (sj_approval actor)
     = Some (sa_aggregate 2 REPLAN_PENDING_APPROVAL [] (take 2 sa_log), sa_approval, sa_authority actor, sample_time)"
  by (simp add: authorization_input_def sj_approval_def guard_eval validateApprovalRequest_def validateAuthority_def
        sa_approval_def sa_authority_def)

theorem replan_authorization_witness:
  "(case authorizeLoopbackGovernanceDecision (sj_approval ''bb'') of Inl code \<Rightarrow> False
     | Inr d \<Rightarrow> az_outcome d = APPROVE \<and> az_resultingVersion d = 3)
   \<and> (case authorizeLoopbackGovernanceDecision (sj_approval ''aa'') of Inl code \<Rightarrow> True | Inr d \<Rightarrow> False)"
  using replan_authorization [OF sj_approval_input [of "''bb''"]] replan_authorization [OF sj_approval_input [of "''aa''"]]
  by (auto simp: may_decide_def decision_of_def sa_aggregate_def sa_approval_def sa_authority_def sa_request_def
        split: sum.splits)

section \<open>Dispatch\<close>

lemma last_step_into_approved:
  "history n s ts REPLAN_APPROVED \<Longrightarrow> ts \<noteq> [] \<Longrightarrow>
     tr_fromState (last ts) = REPLAN_PENDING_APPROVAL \<and> tr_toState (last ts) = REPLAN_APPROVED"
  by (induction n s ts "REPLAN_APPROVED" rule: history.induct) (auto split: if_splits)

text \<open>The approval that a dispatch consumes: the last decision on the last request, by a steward, recorded by the
  transition that entered the approved state, for this very plan text, and never started before.\<close>

definition approval_stands :: "replan_aggregate \<Rightarrow> plan_artifact \<Rightarrow> replan_plan \<Rightarrow> bool" where
  "approval_stands a f p \<longleftrightarrow> ag_state a = REPLAN_APPROVED
     \<and> ag_requests a \<noteq> [] \<and> ag_decisions a \<noteq> [] \<and> ag_transitions a \<noteq> []
     \<and> dc_outcome (last (ag_decisions a)) = APPROVE
     \<and> dc_authorizedRole (last (ag_decisions a)) = ARCHITECTURE_STEWARD
     \<and> dc_requestId (last (ag_decisions a)) = rq_requestId (last (ag_requests a))
     \<and> dc_planHash (last (ag_decisions a)) = pa_contentHash f
     \<and> rq_planHash (last (ag_requests a)) = pa_contentHash f
     \<and> dc_planVersion (last (ag_decisions a)) = rq_planVersion (last (ag_requests a))
     \<and> dc_resultingVersion (last (ag_decisions a)) = ag_eventVersion a
     \<and> tr_triggerRecordId (last (ag_transitions a)) = dc_decisionId (last (ag_decisions a))
     \<and> pl_artifactId p = pa_artifactId f
     \<and> (\<forall>at\<in>set (ag_dispatchAttempts a). da_outcome at = STARTED \<longrightarrow>
          (da_requestId at, da_planHash at, da_planVersion at)
          \<noteq> (rq_requestId (last (ag_requests a)), pa_contentHash f, rq_planVersion (last (ag_requests a))))"

lemma dispatch_checked_Inr:
  "dispatch_checked a f p = Inr x \<longleftrightarrow> approval_stands a f p
     \<and> x = dispatch_context a f p (last (ag_requests a)) (last (ag_decisions a))"
  by (auto simp: dispatch_checked_def approval_stands_def Let_def list_ex_iff)

text \<open>The worker payload is built exactly when the plan is in the aggregate's scope, its canonical text hashes
  to the artifact's hash and a standing approval of that hash has not been consumed; the payload then
  carries that request, decision and plan, and the approval is the transition out of a pending
  proposal.\<close>

lemma replan_dispatch:
  assumes "dispatch_input v = Some (a, f, p)"
  shows "buildApprovedBoundedReplanDispatch num sha v = Some (Inr x) \<longleftrightarrow>
       plan_in_scope a p \<and> map_option sha (canonicalize num (jget v ''plan'')) = Some (pa_contentHash f)
       \<and> approval_stands a f p
       \<and> tr_fromState (last (ag_transitions a)) = REPLAN_PENDING_APPROVAL
       \<and> x = dispatch_context a f p (last (ag_requests a)) (last (ag_decisions a))"
proof -
  obtain w where w: "validateAggregate w = Some a"
    using assms by (auto simp: dispatch_input_def Option.bind_eq_Some_conv split: if_splits)
  have "approval_stands a f p \<Longrightarrow> tr_fromState (last (ag_transitions a)) = REPLAN_PENDING_APPROVAL"
    using last_step_into_approved [of 0 NORMAL_REMEDIATION "ag_transitions a"] validateAggregate_history [OF w]
    by (auto simp: approval_stands_def)
  then show ?thesis
    using assms
    by (auto simp: buildApprovedBoundedReplanDispatch_def computeReviewArtifactHash_def dispatch_checked_Inr
          split: option.splits)
qed

definition sj_plan :: jsv where
  "sj_plan = JObj [(''schemaVersion'', JNum (JInt 1)), (''artifactKind'', JStr ''replan_plan''), (''artifactId'', JStr ''aa''),
     (''scope'', JObj (take 4 sj_scope)),
     (''manifestReference'', JObj [(''artifactKind'', JStr ''review_manifest''), (''artifactId'', JStr ''aa''),
        (''contentHash'', JStr sample_sha), (''relativePath'', JStr ''aa'')]),
     (''findingIds'', JArr [JStr ''aa'']), (''defectClass'', JStr ''aa''),
     (''replanReason'', JStr ''recurrence_signal''), (''rootCause'', JStr ''aa''),
     (''surface'', JObj [(''inspected'', JArr []),
        (''affected'', JArr [JObj [(''surfaceId'', JStr ''aa''), (''relativePath'', JStr ''aa'')]]),
        (''confirmedUnaffected'', JArr [])]),
     (''explicitExclusions'', JArr []),
     (''remediationItems'', JArr [JObj [(''remediationItemId'', JStr ''aa''), (''instruction'', JStr ''aa''),
        (''targetSurfaceIds'', JArr [JStr ''aa''])]]),
     (''testMatrix'', JArr [JObj [(''testId'', JStr ''aa''), (''requirement'', JStr ''aa''),
        (''targetSurfaceIds'', JArr [JStr ''aa''])]]),
     (''verificationPlan'', JStr ''aa''), (''closureCriteria'', JStr ''aa'')]"

definition sa_item :: plan_item where
  "sa_item = \<lparr>pi_id = ''aa'', pi_text = ''aa'', pi_targetSurfaceIds = [''aa'']\<rparr>"

definition sa_plan :: replan_plan where
  "sa_plan = \<lparr>pl_artifactId = ''aa'',
     pl_scope = \<lparr>as_projectId = ''aa'', as_featureId = ''aa'', as_phaseNumber = 2, as_reviewGateId = ''aa''\<rparr>,
     pl_lineage = None,
     pl_manifestReference = \<lparr>ar_artifactKind = review_manifest, ar_artifactId = ''aa'', ar_contentHash = sample_sha,
       ar_relativePath = ''aa''\<rparr>,
     pl_findingIds = [''aa''], pl_defectClass = ''aa'', pl_replanReason = rr_recurrence_signal, pl_rootCause = ''aa'',
     pl_surface = \<lparr>su_inspected = [],
       su_affected = [\<lparr>se_surfaceId = ''aa'', se_relativePath = ''aa'', se_symbol = None, se_endpoint = None,
         se_rationale = None\<rparr>],
       su_confirmedUnaffected = []\<rparr>,
     pl_explicitExclusions = [], pl_remediationItems = [sa_item], pl_testMatrix = [sa_item],
     pl_verificationPlan = ''aa'', pl_closureCriteria = ''aa''\<rparr>"

lemma sample_path: "isValidProjectRelativePath ''aa''"
  by (simp add: isValidProjectRelativePath_def DRIVE_RE_def SCHEME_RE_def rx_eval char_eval startsWith_def endsWith_def)

lemma sample_path_guard [simp]: "safeProjectRelativePath (JStr ''aa'') = Some ''aa''"
  by (simp add: safeProjectRelativePath_def sample_path)

lemma sample_reference_guard [simp]:
  "hasSafeArtifactReference (JObj [(''artifactKind'', JStr ''review_manifest''), (''artifactId'', JStr ''aa''),
        (''contentHash'', JStr sample_sha), (''relativePath'', JStr ''aa'')])
   = Some \<lparr>ar_artifactKind = review_manifest, ar_artifactId = ''aa'', ar_contentHash = sample_sha, ar_relativePath = ''aa''\<rparr>"
  using sample_word_text
  by (simp add: hasSafeArtifactReference_def isValidArtifactReference_def guard_eval ARTIFACT_KINDS_def
        isValidKebabCaseIdentifier_def isValidSha256Hex_def sample_path)
     (simp add: sample_sha_def)

lemma sample_ids_guard [simp]: "0 < n \<Longrightarrow> id_list n (JArr [JStr ''aa'']) = Some [''aa'']"
  by (simp add: id_list_def guard_eval)

lemma sj_plan_guard [simp]: "validatePlan sj_plan = Some sa_plan"
proof -
  have item: "itemShape [''aa''] k t (JObj [(k, JStr ''aa''), (t, JStr ''aa''), (''targetSurfaceIds'', JArr [JStr ''aa''])]) = Some sa_item"
    if "k \<noteq> t" "k \<noteq> ''targetSurfaceIds''" "t \<noteq> ''targetSurfaceIds''" for k t
    using that by (simp add: itemShape_def guard_eval sa_item_def)
  have surf: "validatePlanSurface (jget sj_plan ''surface'') = Some (pl_surface sa_plan)"
    by (simp add: validatePlanSurface_def sj_plan_def guard_eval surface_list_def validateSurfaceEntry_def sa_plan_def)
  show ?thesis
    using surf
    by (simp add: validatePlan_def sj_plan_def guard_eval isArtifactScope_def sj_scope_def hasSafeArtifactLineage_def
          item sa_plan_def)
qed

definition sj_dispatch :: jsv where
  "sj_dispatch = JObj [(''aggregate'', sj_approved),
     (''artifact'', JObj [(''artifactId'', JStr ''aa''), (''contentHash'', JStr sample_sha), (''relativePath'', JStr ''aa'')]),
     (''plan'', sj_plan)]"

lemma sj_dispatch_input:
  "dispatch_input sj_dispatch = Some (sa_aggregate 3 REPLAN_APPROVED [sa_decision] sa_log,
     \<lparr>pa_artifactId = ''aa'', pa_contentHash = sample_sha, pa_relativePath = ''aa''\<rparr>, sa_plan)"
  by (simp add: dispatch_input_def sj_dispatch_def guard_eval validateArtifact_def)

theorem replan_dispatch_witness:
  "\<exists>x. buildApprovedBoundedReplanDispatch (\<lambda>_. ''1'') (\<lambda>_. sample_sha) sj_dispatch = Some (Inr x)"
proof -
  have "canonicalize (\<lambda>_. ''1'') sj_plan \<noteq> None"
    by (simp add: sj_plan_def sj_scope_def)
  then show ?thesis
    using replan_dispatch [OF sj_dispatch_input, of "\<lambda>_. ''1''" "\<lambda>_. sample_sha"]
    by (auto simp: plan_in_scope_def approval_stands_def sa_aggregate_def sa_scope_def sa_plan_def sa_decision_def
          sa_request_def sa_log_def sa_transition_def sj_dispatch_def)
qed

end
