(* ===== verification/Versioned.thy ===== *)
theory Versioned
  imports Prelude
begin

text \<open>
  Optimistic concurrency, the contract of the governance ledgers: a command names the version it was
  prepared against; it is executed only on that version, and execution moves to the next one. The
  versions are integers below \<open>2 ^ 53\<close>, where the language's numbers still count. The client
  lemmas say that a command is never executed twice, that of two commands prepared against one version
  at most one takes effect, and that a run of executed commands is numbered without gaps.
\<close>

definition version_limit :: int where
  "version_limit = 2 ^ 53"

text \<open>Executing a list of commands in order; the first refusal stops the run.\<close>

fun run_commands :: "('s \<Rightarrow> 'c \<Rightarrow> 's option) \<Rightarrow> 's \<Rightarrow> 'c list \<Rightarrow> 's option" where
  "run_commands ex s [] = Some s"
| "run_commands ex s (c # cs) = (case ex s c of None \<Rightarrow> None | Some s' \<Rightarrow> run_commands ex s' cs)"

lemma run_commands_append:
  "run_commands ex s (cs @ ds) = (case run_commands ex s cs of None \<Rightarrow> None | Some t \<Rightarrow> run_commands ex t ds)"
  by (induction cs arbitrary: s) (auto split: option.split)

locale versioned =
  fixes exec :: "'s \<Rightarrow> 'c \<Rightarrow> 's option"
    and ver :: "'s \<Rightarrow> int"
    and expd :: "'c \<Rightarrow> int"
  assumes exec_expected: "exec s c = Some s' \<Longrightarrow> expd c = ver s"
    and exec_version: "exec s c = Some s' \<Longrightarrow> ver s < version_limit \<Longrightarrow> ver s' = ver s + 1"
begin

lemma stale_refused: "expd c \<noteq> ver s \<Longrightarrow> exec s c = None"
  using exec_expected by (cases "exec s c") auto

lemma replay_refused: "exec s c = Some s' \<Longrightarrow> ver s < version_limit \<Longrightarrow> exec s' c = None"
  using exec_expected [of s c s'] exec_version [of s c s'] by (intro stale_refused) simp

lemma competitor_refused:
  "exec s c = Some s' \<Longrightarrow> ver s < version_limit \<Longrightarrow> expd c' = expd c \<Longrightarrow> exec s' c' = None"
  using exec_expected [of s c s'] exec_version [of s c s'] by (intro stale_refused) simp

lemma run_numbered:
  "run_commands exec s cs = Some t \<Longrightarrow> ver s + int (length cs) \<le> version_limit \<Longrightarrow>
     ver t = ver s + int (length cs) \<and> map expd cs = map (\<lambda>i. ver s + int i) [0..<length cs]"
proof (induction cs arbitrary: s)
  case (Cons c cs)
  from Cons.prems obtain s' where s': "exec s c = Some s'" "run_commands exec s' cs = Some t"
    by (auto split: option.splits)
  then have v: "ver s' = ver s + 1" "expd c = ver s"
    using exec_version exec_expected Cons.prems(2) by auto
  have up: "map (\<lambda>i. ver s + int i) [0..<length (c # cs)] = ver s # map (\<lambda>i. ver s' + int i) [0..<length cs]"
    using upt_conv_Cons [of 0 "Suc (length cs)"] v
    by (simp add: map_Suc_upt [symmetric] comp_def del: upt_Suc)
  from Cons.IH [OF s'(2)] v Cons.prems(2) show ?case
    by (simp only: up) simp
qed simp

lemma run_executes_once:
  "run_commands exec s cs = Some t \<Longrightarrow> ver s + int (length cs) \<le> version_limit \<Longrightarrow> distinct (map expd cs)"
  using run_numbered [of s cs t] by (simp add: distinct_map inj_on_def)

end

end
