(* ===== verification/ReplanStoreFacts.thy ===== *)
theory ReplanStoreFacts
  imports ReplanStore ReplanFacts Versioned
begin

text \<open>
  What the replan store keeps. The transition rows of an aggregate are one chain of versions and states, so that what the
  store returns passes the policy's check of the log exactly when every single step is allowed. Every dispatch rests on an
  approval by somebody else than the author of the plan, and a request is started once. Operations with a transition
  are commands of the contract of \<open>Versioned\<close>.
\<close>

section \<open>Appends\<close>

lemma map_sum_Inr: "map_sum id f r = Inr y \<longleftrightarrow> (\<exists>x. r = Inr x \<and> y = f x)"
  by (cases r) auto

lemma insert_row_Inr [simp]: "insert_row P r rows = Inr rows' \<longleftrightarrow> \<not> list_ex P rows \<and> rows' = rows @ [r]"
  by (auto simp: insert_row_def)

lemmas append_splits = option.splits prod.splits if_splits

lemma appendObservation_Inr:
  "appendObservation cx v tb = Inr tb' \<Longrightarrow> \<exists>r. tb' = tb\<lparr>tb_observations := tb_observations tb @ [r]\<rparr>"
  by (auto simp: appendObservation_def map_sum_Inr split: append_splits)

lemma appendScopeDecision_Inr:
  "appendScopeDecision cx v tb = Inr tb' \<Longrightarrow> \<exists>r. tb' = tb\<lparr>tb_scopeDecisions := tb_scopeDecisions tb @ [r]\<rparr>"
  by (auto simp: appendScopeDecision_def map_sum_Inr split: append_splits)

lemma appendRequest_Inr:
  "appendRequest cx v tb = Inr tb' \<Longrightarrow>
     \<exists>r. tb' = tb\<lparr>tb_requests := tb_requests tb @ [r]\<rparr> \<and> \<not> list_ex (request_clash r) (tb_requests tb)"
  by (auto simp: appendRequest_def map_sum_Inr split: append_splits)

lemma appendDecision_Inr:
  "appendDecision cx v tb = Inr tb' \<Longrightarrow>
     \<exists>k d q. tb' = tb\<lparr>tb_decisions := tb_decisions tb @ [(k, d)]\<rparr> \<and> (k, q) \<in> set (tb_requests tb)
       \<and> rq_requestId q = dc_requestId d \<and> rq_planHash q = dc_planHash d \<and> rq_planVersion q = dc_planVersion d
       \<and> rq_proposalAuthorActor q \<noteq> dc_actorId d"
proof -
  assume w: "appendDecision cx v tb = Inr tb'"
  then obtain k d where r: "read_decision v = Some (k, d)" by (auto simp: appendDecision_def split: append_splits)
  with w obtain q where q: "row_by rq_requestId (dc_requestId d) (tb_requests tb) = Some (k, q)"
    and facts: "rq_planHash q = dc_planHash d" "rq_planVersion q = dc_planVersion d" "rq_proposalAuthorActor q \<noteq> dc_actorId d"
      "tb' = tb\<lparr>tb_decisions := tb_decisions tb @ [(k, d)]\<rparr>"
    by (cases k) (auto simp: appendDecision_def map_sum_Inr split: append_splits)
  from q have "(k, q) \<in> set (tb_requests tb)" "rq_requestId q = dc_requestId d"
    by (auto simp: row_by_def dest: find_Some_set)
  with facts show ?thesis by blast
qed

lemma appendTransition_Inr:
  "appendTransition cx v tb = Inr tb' \<Longrightarrow>
     \<exists>k t. read_transition v = Some (k, t) \<and> tb' = tb\<lparr>tb_transitions := tb_transitions tb @ [(k, t)]\<rparr>
       \<and> currentEventVersion k tb = tr_expectedVersion t \<and> currentState k tb = tr_fromState t
       \<and> \<not> list_ex (transition_clash (k, t)) (tb_transitions tb)"
  unfolding appendTransition_def by (auto simp: map_sum_Inr split: append_splits)

lemma appendDispatch_Inr:
  "appendDispatch cx v tb = Inr tb' \<Longrightarrow>
     \<exists>k a d. tb' = tb\<lparr>tb_dispatches := tb_dispatches tb @ [(k, a)]\<rparr> \<and> (k, d) \<in> set (tb_decisions tb)
       \<and> dc_decisionId d = da_approvalDecisionId a \<and> dc_requestId d = da_requestId a \<and> dc_planHash d = da_planHash a
       \<and> dc_planVersion d = da_planVersion a \<and> dc_outcome d = APPROVE \<and> dc_resultingVersion d = da_approvalEventVersion a
       \<and> \<not> list_ex (dispatch_clash (k, a)) (tb_dispatches tb)"
proof -
  assume w: "appendDispatch cx v tb = Inr tb'"
  then obtain k a where r: "read_dispatch v = Some (k, a)" by (auto simp: appendDispatch_def split: append_splits)
  with w obtain d where d: "row_by dc_decisionId (da_approvalDecisionId a) (tb_decisions tb) = Some (k, d)"
    by (cases k) (auto simp: appendDispatch_def split: append_splits)
  have facts: "dc_requestId d = da_requestId a" "dc_planHash d = da_planHash a" "dc_planVersion d = da_planVersion a"
      "dc_outcome d = APPROVE" "dc_resultingVersion d = da_approvalEventVersion a"
      "\<not> list_ex (dispatch_clash (k, a)) (tb_dispatches tb)" "tb' = tb\<lparr>tb_dispatches := tb_dispatches tb @ [(k, a)]\<rparr>"
    using w unfolding appendDispatch_def by (simp_all add: r d map_sum_Inr split: if_splits)
  from d have "(k, d) \<in> set (tb_decisions tb)" "dc_decisionId d = da_approvalDecisionId a"
    by (auto simp: row_by_def dest: find_Some_set)
  with facts show ?thesis by blast
qed

lemma appendAssessment_Inr:
  "appendAssessment cx v tb = Inr tb' \<Longrightarrow> \<exists>r. tb' = tb\<lparr>tb_assessments := tb_assessments tb @ [r]\<rparr>"
  by (auto simp: appendAssessment_def map_sum_Inr split: append_splits)

text \<open>One append of any kind.\<close>

definition is_append :: "(replan_tables \<Rightarrow> store_error + replan_tables) \<Rightarrow> bool" where
  "is_append w \<longleftrightarrow>
     (\<exists>cx v. w \<in> {appendObservation cx v, appendRequest cx v, appendScopeDecision cx v, appendDecision cx v, appendTransition cx v,
       appendDispatch cx v, appendAssessment cx v})"

lemma operation_appends: "w \<in> set (operation_writes cx op rs) \<Longrightarrow> is_append w"
  by (cases op) (auto simp: is_append_def)

text \<open>An invariant that every append preserves holds of the tables after every call.\<close>

lemma seq_writes_inv:
  assumes "seq_writes ws tb = Inr tb'" and "\<And>w tb tb'. w \<in> set ws \<Longrightarrow> w tb = Inr tb' \<Longrightarrow> P tb \<Longrightarrow> P tb'" and "P tb"
  shows "P tb'"
  using assms
proof (induction ws arbitrary: tb)
  case (Cons w ws)
  then obtain tb1 where "w tb = Inr tb1" "seq_writes ws tb1 = Inr tb'" by (auto split: sum.splits)
  with Cons.prems(2) [of w] Cons.prems(2,3) Cons.IH [of tb1] show ?case by (meson list.set_intros)
qed simp

lemma after_commit_inv:
  assumes "\<And>w tb tb'. is_append w \<Longrightarrow> w tb = Inr tb' \<Longrightarrow> P tb \<Longrightarrow> P tb'" and "P tb"
  shows "P (after_commit cx vf v tb)"
proof (cases "commit cx vf v tb")
  case (Inr r)
  then obtain op rs k where "seq_writes (operation_writes cx op rs) tb = Inr (snd r)"
    by (auto simp: commit_def Let_def split: append_splits sum.splits)
  then have "P (snd r)" by (rule seq_writes_inv) (use assms operation_appends in blast)+
  with Inr show ?thesis by (simp add: after_commit_def)
qed (use assms in \<open>simp add: after_commit_def\<close>)

inductive stored :: "replan_tables \<Rightarrow> bool" where
  st_empty: "stored empty_tables"
| st_commit: "stored tb \<Longrightarrow> stored (after_commit cx vf v tb)"

lemma stored_inv:
  assumes "stored tb" and "P empty_tables"
    and "\<And>w tb tb'. is_append w \<Longrightarrow> w tb = Inr tb' \<Longrightarrow> P tb \<Longrightarrow> P tb'"
  shows "P tb"
  using assms(1)
proof (induction rule: stored.induct)
  case (st_commit tb cx vf v)
  then show ?case using after_commit_inv [of P tb cx vf v] assms(3) by blast
qed (rule assms(2))

section \<open>The chain of transitions\<close>

fun chain :: "int \<Rightarrow> replan_state \<Rightarrow> replan_transition list \<Rightarrow> bool" where
  "chain v s [] = True"
| "chain v s (t # ts) =
     (tr_expectedVersion t = v \<and> tr_fromState t = s \<and> tr_resultingVersion t = js_succ v \<and> v < js_succ v
      \<and> chain (js_succ v) (tr_toState t) ts)"

definition end_version :: "int \<Rightarrow> replan_transition list \<Rightarrow> int" where
  "end_version v ts = (if ts = [] then v else tr_resultingVersion (last ts))"

definition end_state :: "replan_state \<Rightarrow> replan_transition list \<Rightarrow> replan_state" where
  "end_state s ts = (if ts = [] then s else tr_toState (last ts))"

lemma end_Cons [simp]:
  "end_version v (t # ts) = end_version (tr_resultingVersion t) ts" "end_state s (t # ts) = end_state (tr_toState t) ts"
  by (simp_all add: end_version_def end_state_def)

lemma chain_snoc:
  "chain v s (ts @ [t]) \<longleftrightarrow> chain v s ts \<and> tr_expectedVersion t = end_version v ts \<and> tr_fromState t = end_state s ts
     \<and> tr_resultingVersion t = js_succ (end_version v ts) \<and> end_version v ts < js_succ (end_version v ts)"
  by (induction ts arbitrary: v s) (auto simp: end_version_def end_state_def)

lemma chain_increasing: "chain v s ts \<Longrightarrow> sorted_wrt (<) (v # map tr_resultingVersion ts)"
proof (induction ts arbitrary: v s)
  case (Cons t ts)
  then have "sorted_wrt (<) (js_succ v # map tr_resultingVersion ts)" "v < js_succ v" "tr_resultingVersion t = js_succ v"
    by auto
  then show ?case by (auto intro: less_trans)
qed simp

lemma chain_end_version: "chain v s ts \<Longrightarrow> foldl max v (map tr_resultingVersion ts) = end_version v ts"
  by (induction ts arbitrary: v s) (auto simp: end_version_def)

lemma chain_sorted: "chain v s ts \<Longrightarrow> sort_key tr_resultingVersion ts = ts"
  using chain_increasing [of v s ts] by (intro sorted_sort_id sort_key_id_if_sorted) (simp add: strict_sorted_imp_sorted)

lemma chain_sorted_desc: "chain v s ts \<Longrightarrow> sort_key (\<lambda>t. - tr_resultingVersion t) ts = rev ts"
proof (rule sort_key_inj_key_eq)
  assume "chain v s ts"
  then have inc: "sorted_wrt (<) (map tr_resultingVersion ts)" using chain_increasing [of v s ts] by simp
  then have "distinct (map tr_resultingVersion ts)" by (simp add: strict_sorted_iff)
  then show "inj_on (\<lambda>t. - tr_resultingVersion t) (set ts)" by (auto simp: distinct_map inj_on_def)
  have "sorted_wrt (\<le>) (map (\<lambda>t. - tr_resultingVersion t) (rev ts))"
    using inc by (auto simp: sorted_wrt_rev rev_map [symmetric] sorted_wrt_map elim: sorted_wrt_mono_rel [rotated])
  then show "sorted (map (\<lambda>t. - tr_resultingVersion t) (rev ts))" .
qed simp

definition log_ok :: "replan_tables \<Rightarrow> bool" where
  "log_ok tb \<longleftrightarrow> (\<forall>k. chain 0 NORMAL_REMEDIATION (rows_of k (tb_transitions tb)))"

lemma log_okD: "log_ok tb \<Longrightarrow> chain 0 NORMAL_REMEDIATION (rows_of k (tb_transitions tb))"
  unfolding log_ok_def by blast

lemma log_version: "log_ok tb \<Longrightarrow> currentEventVersion k tb = end_version 0 (rows_of k (tb_transitions tb))"
  using log_okD [of tb k] by (simp add: currentEventVersion_def chain_end_version)

lemma log_state: "log_ok tb \<Longrightarrow> currentState k tb = end_state NORMAL_REMEDIATION (rows_of k (tb_transitions tb))"
proof -
  assume "log_ok tb"
  then have "sort_key (\<lambda>t. - tr_resultingVersion t) (rows_of k (tb_transitions tb)) = rev (rows_of k (tb_transitions tb))"
    unfolding log_ok_def using chain_sorted_desc by blast
  then show ?thesis
    by (cases "rows_of k (tb_transitions tb)" rule: rev_cases) (simp_all add: currentState_def end_state_def)
qed

lemma rows_of_snoc [simp]: "rows_of k (rows @ [(k', r)]) = rows_of k rows @ (if k' = k then [r] else [])"
  by (simp add: rows_of_def)

lemma rows_of_mem: "r \<in> set (rows_of k rows) \<longleftrightarrow> (k, r) \<in> set rows"
  by (force simp: rows_of_def)

lemma read_version: "read_transition v = Some (k, t) \<Longrightarrow> tr_resultingVersion t = js_succ (tr_expectedVersion t)"
  by (auto simp: read_transition_def version_pair_def Option.bind_eq_Some_conv split: if_splits)

lemma read_version_nat: "read_transition v = Some (k, t) \<Longrightarrow> 0 \<le> tr_expectedVersion t"
  by (auto simp: read_transition_def version_pair_def Option.bind_eq_Some_conv split: if_splits)

lemma append_log_ok: "is_append w \<Longrightarrow> w tb = Inr tb' \<Longrightarrow> log_ok tb \<Longrightarrow> log_ok tb'"
proof -
  assume w: "is_append w" "w tb = Inr tb'" and ok: "log_ok tb"
  have same: "tb_transitions tb' = tb_transitions tb \<Longrightarrow> log_ok tb'" using ok by (simp add: log_ok_def)
  from w consider cx v where "appendTransition cx v tb = Inr tb'" | "tb_transitions tb' = tb_transitions tb"
    unfolding is_append_def
    by (auto dest: appendObservation_Inr appendRequest_Inr appendScopeDecision_Inr appendDecision_Inr appendDispatch_Inr
        appendAssessment_Inr)
  then show "log_ok tb'"
  proof cases
    case 1
    then obtain k t where t: "read_transition v = Some (k, t)" "tb' = tb\<lparr>tb_transitions := tb_transitions tb @ [(k, t)]\<rparr>"
      "currentEventVersion k tb = tr_expectedVersion t" "currentState k tb = tr_fromState t"
      "\<not> list_ex (transition_clash (k, t)) (tb_transitions tb)"
      using appendTransition_Inr by blast
    let ?ts = "rows_of k (tb_transitions tb)"
    have v: "tr_expectedVersion t = end_version 0 ?ts" "tr_resultingVersion t = js_succ (end_version 0 ?ts)"
      using t(3) read_version [OF t(1)] log_version [OF ok, of k] by simp_all
    have new: "tr_resultingVersion q \<noteq> tr_resultingVersion t" if "q \<in> set ?ts" for q
      using that t(5) by (auto simp: rows_of_mem list_ex_iff transition_clash_def)
    have less: "end_version 0 ?ts < js_succ (end_version 0 ?ts)"
    proof (cases ?ts rule: rev_cases)
      case Nil
      then show ?thesis by (simp add: end_version_def js_succ_def)
    next
      case (snoc us q)
      then have "q \<in> set ?ts" "end_version 0 ?ts = tr_resultingVersion q" by (simp_all add: end_version_def)
      then show ?thesis using new [of q] v(2) js_succ_ge [of "end_version 0 ?ts"] by simp
    qed
    have "chain 0 NORMAL_REMEDIATION (?ts @ [t])"
      using log_okD [OF ok, of k] t(4) log_state [OF ok, of k] v less by (simp add: chain_snoc)
    then show ?thesis using ok by (auto simp: log_ok_def t(2))
  qed (rule same)
qed

lemma stored_log_ok: "stored tb \<Longrightarrow> log_ok tb"
  by (erule stored_inv [where P = log_ok]) (simp add: log_ok_def empty_tables_def rows_of_def, rule append_log_ok)

lemma aggregate_log:
  assumes "log_ok tb"
  shows "ag_transitions (getAggregate k tb) = rows_of k (tb_transitions tb)"
    and "ag_eventVersion (getAggregate k tb) = end_version 0 (rows_of k (tb_transitions tb))"
    and "ag_state (getAggregate k tb) = end_state NORMAL_REMEDIATION (rows_of k (tb_transitions tb))"
proof -
  have "sort_key tr_resultingVersion (rows_of k (tb_transitions tb)) = rows_of k (tb_transitions tb)"
    using assms chain_sorted unfolding log_ok_def by blast
  then show "ag_transitions (getAggregate k tb) = rows_of k (tb_transitions tb)"
    and "ag_eventVersion (getAggregate k tb) = end_version 0 (rows_of k (tb_transitions tb))"
    and "ag_state (getAggregate k tb) = end_state NORMAL_REMEDIATION (rows_of k (tb_transitions tb))"
    by (simp_all add: getAggregate_def Let_def end_version_def end_state_def)
qed

text \<open>Below the bound of exact integers the chain counts, and it is the policy's history when its steps are allowed.\<close>

lemma chain_history:
  "chain (int n) s ts \<Longrightarrow> int (n + length ts) \<le> version_limit \<Longrightarrow>
     (history n s ts (end_state s ts) \<longleftrightarrow> list_all (\<lambda>t. tr_toState t \<in> set (allowedTransitions (tr_fromState t))) ts)
     \<and> end_version (int n) ts = int (n + length ts)"
proof (induction ts arbitrary: n s)
  case (Cons t ts)
  then have lt: "int n < 2 ^ 53" by (simp add: version_limit_def)
  then have succ: "js_succ (int n) = int (Suc n)" by simp
  with Cons.prems have t: "tr_expectedVersion t = int n" "tr_fromState t = s" "tr_resultingVersion t = int (Suc n)"
    and ch: "chain (int (Suc n)) (tr_toState t) ts" by auto
  have "int (Suc n + length ts) \<le> version_limit" using Cons.prems(2) by simp
  note ih = Cons.IH [OF ch this]
  show ?case
    using ih t by (auto simp: history_Cons allowedTransitions_step)
qed (simp add: end_state_def end_version_def)

section \<open>Approvals and dispatches\<close>

text \<open>The decision behind a dispatch, and the request behind a decision.\<close>

definition decided :: "replan_tables \<Rightarrow> row_key \<Rightarrow> dispatch_attempt \<Rightarrow> replan_decision \<Rightarrow> bool" where
  "decided tb k a d \<longleftrightarrow> (k, d) \<in> set (tb_decisions tb)
     \<and> dc_decisionId d = da_approvalDecisionId a \<and> dc_requestId d = da_requestId a \<and> dc_planHash d = da_planHash a
     \<and> dc_planVersion d = da_planVersion a \<and> dc_outcome d = APPROVE \<and> dc_resultingVersion d = da_approvalEventVersion a"

definition proposed :: "replan_tables \<Rightarrow> row_key \<Rightarrow> replan_decision \<Rightarrow> replan_request \<Rightarrow> bool" where
  "proposed tb k d q \<longleftrightarrow> (k, q) \<in> set (tb_requests tb)
     \<and> rq_requestId q = dc_requestId d \<and> rq_planHash q = dc_planHash d \<and> rq_planVersion q = dc_planVersion d
     \<and> rq_proposalAuthorActor q \<noteq> dc_actorId d"

definition started_keys :: "replan_tables \<Rightarrow> (row_key \<times> string \<times> int) list" where
  "started_keys tb = map (\<lambda>r. (fst r, da_requestId (snd r), da_planVersion (snd r)))
     (filter (\<lambda>r. da_outcome (snd r) = STARTED) (tb_dispatches tb))"

definition dispatch_ok :: "replan_tables \<Rightarrow> bool" where
  "dispatch_ok tb \<longleftrightarrow>
     (\<forall>(k, d)\<in>set (tb_decisions tb). \<exists>q. proposed tb k d q)
     \<and> (\<forall>(k, a)\<in>set (tb_dispatches tb). \<exists>d. decided tb k a d) \<and> distinct (started_keys tb)"

lemma append_dispatch_ok: "is_append w \<Longrightarrow> w tb = Inr tb' \<Longrightarrow> dispatch_ok tb \<Longrightarrow> dispatch_ok tb'"
proof -
  assume w: "is_append w" "w tb = Inr tb'" and ok: "dispatch_ok tb"
  from w consider
      "tb_requests tb' = tb_requests tb" "tb_decisions tb' = tb_decisions tb" "tb_dispatches tb' = tb_dispatches tb"
    | r where "tb' = tb\<lparr>tb_requests := tb_requests tb @ [r]\<rparr>"
    | cx v where "appendDecision cx v tb = Inr tb'"
    | cx v where "appendDispatch cx v tb = Inr tb'"
    unfolding is_append_def
    by (auto dest: appendObservation_Inr appendRequest_Inr appendScopeDecision_Inr appendTransition_Inr appendAssessment_Inr)
  then show "dispatch_ok tb'"
  proof cases
    case 1
    with ok show ?thesis by (simp add: dispatch_ok_def decided_def proposed_def started_keys_def)
  next
    case 2
    with ok show ?thesis by (fastforce simp: dispatch_ok_def decided_def proposed_def started_keys_def)
  next
    case 3
    then obtain k d q where d: "tb' = tb\<lparr>tb_decisions := tb_decisions tb @ [(k, d)]\<rparr>" "proposed tb k d q"
      using appendDecision_Inr unfolding proposed_def by blast
    have keep: "proposed tb' k' d' q' = proposed tb k' d' q'" "started_keys tb' = started_keys tb"
        "decided tb k' a d' \<Longrightarrow> decided tb' k' a d'" for k' d' q' a
      by (auto simp: d(1) proposed_def started_keys_def decided_def)
    show ?thesis using ok d(2) keep unfolding dispatch_ok_def by (fastforce simp: d(1))
  next
    case 4
    then obtain k a d where a: "tb' = tb\<lparr>tb_dispatches := tb_dispatches tb @ [(k, a)]\<rparr>" "decided tb k a d"
      "\<not> list_ex (dispatch_clash (k, a)) (tb_dispatches tb)"
      using appendDispatch_Inr unfolding decided_def by blast
    have keep: "proposed tb' k' d' q' = proposed tb k' d' q'" "decided tb' k' a' d' = decided tb k' a' d'" for k' d' q' a'
      by (auto simp: a(1) proposed_def decided_def)
    have "distinct (started_keys tb')"
      using ok a(3) by (auto simp: a(1) dispatch_ok_def started_keys_def list_ex_iff dispatch_clash_def)
    then show ?thesis using ok a(2) keep unfolding dispatch_ok_def by (fastforce simp: a(1))
  qed
qed

lemma stored_dispatch_ok: "stored tb \<Longrightarrow> dispatch_ok tb"
  by (erule stored_inv [where P = dispatch_ok])
    (simp add: dispatch_ok_def started_keys_def empty_tables_def, rule append_dispatch_ok)

section \<open>Operations as versioned commands\<close>

type_synonym store_command = "review_context \<times> (replan_aggregate \<Rightarrow> bool) option \<times> jsv"

text \<open>The version an operation was prepared against, and the aggregate it addresses.\<close>

definition transition_of :: "jsv \<Rightarrow> (row_key \<times> replan_transition) option" where
  "transition_of v =
     (case read_operation v of
        None \<Rightarrow> None
      | Some (op, rs, k) \<Rightarrow>
          if ''transition'' \<in> set (replanOperationRecordKeys op) then read_transition (jget rs ''transition'') else None)"

definition store_expected :: "store_command \<Rightarrow> int" where
  "store_expected c = (case transition_of (snd (snd c)) of None \<Rightarrow> - 1 | Some (k, t) \<Rightarrow> tr_expectedVersion t)"

definition store_exec :: "row_key \<Rightarrow> replan_tables \<Rightarrow> store_command \<Rightarrow> replan_tables option" where
  "store_exec k tb c =
     (case transition_of (snd (snd c)) of
        None \<Rightarrow> None
      | Some (k', t) \<Rightarrow>
          if k' = k then (case commit (fst c) (fst (snd c)) (snd (snd c)) tb of Inl _ \<Rightarrow> None | Inr r \<Rightarrow> Some (snd r)) else None)"

lemma append_other_version:
  assumes "is_append w" and "w tb = Inr tb'" and "\<And>cx v. w \<noteq> appendTransition cx v"
  shows "currentEventVersion k tb' = currentEventVersion k tb"
proof -
  have "tb_transitions tb' = tb_transitions tb"
    using assms unfolding is_append_def
    by (auto dest: appendObservation_Inr appendRequest_Inr appendScopeDecision_Inr appendDecision_Inr appendDispatch_Inr
        appendAssessment_Inr)
  then show ?thesis by (simp add: currentEventVersion_def)
qed

lemma append_transition_version:
  "appendTransition cx v tb = Inr tb' \<Longrightarrow> read_transition v = Some (k, t) \<Longrightarrow>
     tr_expectedVersion t = currentEventVersion k tb
     \<and> currentEventVersion k tb' = max (currentEventVersion k tb) (js_succ (currentEventVersion k tb))"
  using appendTransition_Inr [of cx v tb tb'] read_version [of v k t]
  by (auto simp: currentEventVersion_def)

lemma seq_writes_append: "seq_writes (ws @ us) tb = (case seq_writes ws tb of Inl e \<Rightarrow> Inl e | Inr tb' \<Rightarrow> seq_writes us tb')"
  by (induction ws arbitrary: tb) (auto split: sum.splits)

text \<open>The transition is the last append of an operation that has one, and the only one that moves the version.\<close>

lemma operation_writes_split:
  assumes "''transition'' \<in> set (replanOperationRecordKeys op)"
  obtains ws where "operation_writes cx op rs = ws @ [appendTransition cx (jget rs ''transition'')]"
    and "\<And>w tb tb'. w \<in> set ws \<Longrightarrow> w tb = Inr tb' \<Longrightarrow> tb_transitions tb' = tb_transitions tb"
proof -
  let ?w = "butlast (operation_writes cx op rs)"
  have "operation_writes cx op rs = ?w @ [appendTransition cx (jget rs ''transition'')]"
    using assms by (cases op) auto
  moreover have "tb_transitions tb' = tb_transitions tb" if "w \<in> set ?w" "w tb = Inr tb'" for w tb tb'
    using that assms
    by (cases op) (auto dest: appendObservation_Inr appendRequest_Inr appendScopeDecision_Inr appendDecision_Inr appendDispatch_Inr
        appendAssessment_Inr)
  ultimately show thesis using that by blast
qed

lemma store_exec_step:
  assumes "store_exec k tb c = Some tb'"
  shows "store_expected c = currentEventVersion k tb"
    and "currentEventVersion k tb' = max (currentEventVersion k tb) (js_succ (currentEventVersion k tb))"
proof -
  obtain cx vf v where c: "c = (cx, vf, v)" by (cases c)
  from assms obtain t where t: "transition_of v = Some (k, t)" and com: "\<exists>a. commit cx vf v tb = Inr (a, tb')"
    by (auto simp: store_exec_def c split: option.splits prod.splits if_splits sum.splits)
  from t obtain op rs k' where op: "read_operation v = Some (op, rs, k')"
    "''transition'' \<in> set (replanOperationRecordKeys op)" "read_transition (jget rs ''transition'') = Some (k, t)"
    by (auto simp: transition_of_def split: option.splits prod.splits if_splits)
  from com op(1) have run: "seq_writes (operation_writes cx op rs) tb = Inr tb'"
    by (auto simp: commit_def Let_def split: option.splits if_splits sum.splits)
  obtain ws where ws: "operation_writes cx op rs = ws @ [appendTransition cx (jget rs ''transition'')]"
    and keep: "\<And>w tb tb'. w \<in> set ws \<Longrightarrow> w tb = Inr tb' \<Longrightarrow> tb_transitions tb' = tb_transitions tb"
    using operation_writes_split [OF op(2)] by blast
  from run obtain tb1 where tb1: "seq_writes ws tb = Inr tb1" "appendTransition cx (jget rs ''transition'') tb1 = Inr tb'"
    by (auto simp: ws seq_writes_append split: sum.splits)
  have "tb_transitions tb1 = tb_transitions tb"
    using seq_writes_inv [OF tb1(1), of "\<lambda>x. tb_transitions x = tb_transitions tb"] keep by simp
  then have "currentEventVersion k tb1 = currentEventVersion k tb" by (simp add: currentEventVersion_def)
  with append_transition_version [OF tb1(2) op(3)] t
  show "store_expected c = currentEventVersion k tb"
    and "currentEventVersion k tb' = max (currentEventVersion k tb) (js_succ (currentEventVersion k tb))"
    by (simp_all add: store_expected_def c)
qed

interpretation replan_store: versioned "store_exec k" "currentEventVersion k" store_expected for k
  by unfold_locales (auto dest: store_exec_step simp: version_limit_def)

section \<open>A stored history\<close>

text \<open>Four operations that demand a replan, propose a plan, approve it and start its dispatch.\<close>

lemma word_guard [simp]:
  "assertKebabIdentifier (JStr ''aa'') = Some ''aa''" "assertKebabIdentifier (JStr ''bb'') = Some ''bb''"
  "assertKebabIdentifier (JStr ''cc'') = Some ''cc''" "assertKebabIdentifier (JStr ''dd'') = Some ''dd''"
  by (simp_all add: assertKebabIdentifier_def string_where_def rx_eval char_eval KEBAB_CASE_RE_def)

lemma lower_char_lower: "is_lower c \<Longrightarrow> lower_char c = c"
  by (auto simp: char_eval Let_def)

lemma lower_not_sign: "\<not> is_lower CHR ''=''" "\<not> is_lower CHR '':''" "\<not> is_lower CHR ''-''" "\<not> is_lower CHR ''_''" "\<not> is_lower CHR ''A''"
  by code_simp+

text \<open>Every secret pattern asks for a character that is not a lower-case letter.\<close>

lemma secret_needs_sign:
  assumes "r \<in> set SECRET_LIKE_PATTERNS" and "rx_match r v"
  shows "\<not> list_all is_lower v"
proof -
  have "rx_match assigned_secret v \<Longrightarrow> CHR ''='' \<in> set v \<or> CHR '':'' \<in> set v"
    by (auto simp: assigned_secret_def rx_match_seq)
  moreover have "rx_match private_key_block v \<Longrightarrow> \<exists>c\<in>set v. lower_char c = CHR ''-''"
    by (auto simp: private_key_block_def Let_def rx_match_seq)
  moreover have "rx_match github_token v \<Longrightarrow> CHR ''_'' \<in> set v"
    by (auto simp: github_token_def rx_match_seq)
  moreover have "rx_match secret_key_token v \<Longrightarrow> CHR ''-'' \<in> set v"
    by (auto simp: secret_key_token_def rx_match_seq)
  moreover have "rx_match aws_key v \<Longrightarrow> CHR ''A'' \<in> set v"
    by (auto simp: aws_key_def rx_match_seq)
  ultimately show ?thesis
    using assms lower_char_lower lower_not_sign unfolding SECRET_LIKE_PATTERNS_def list_all_iff by auto metis+
qed

lemma lower_text_safe:
  assumes "s \<noteq> []" and "list_all is_lower s"
  shows "scanSafeContent s"
proof -
  have "\<not> rx_test r s" if "r \<in> set SECRET_LIKE_PATTERNS" for r
    using secret_needs_sign [OF that] assms(2) by (auto simp: rx_test_iff)
  moreover have "\<not> code_of c < 0x20" "c \<noteq> CHR 0x00" "c \<noteq> CHR 0x1B" if "c \<in> set s" for c
    using that assms(2) by (auto simp: list_all_iff char_eval)
  ultimately show ?thesis
    using assms(1) by (auto simp: scanSafeContent_def scanSafeStringValue_def list_ex_iff list_all_iff str_includes_char)
qed

lemma word_safe: "scanSafeContent ''aa''" "scanSafeContent ''bb''"
  by (rule lower_text_safe; code_simp)+

lemma safe_guard [simp]:
  "assertSafeIdentifier (JStr ''aa'') = Some ''aa''" "assertSafeIdentifier (JStr ''bb'') = Some ''bb''"
  "assertSafeBoundedString (JStr ''aa'') = Some ''aa''"
  by (simp_all add: assertSafeIdentifier_def assertSafeBoundedString_def string_where_def word_safe)

lemma time_rx: "rx_full EVENT_UTC_RE ''2026-02-28T10:11:12Z''"
  by (simp add: EVENT_UTC_RE_def rx_eval char_eval)

lemma time_guard [simp]: "assertUtcTimestamp (JStr sample_time) = Some sample_time"
  using time_rx
  by (simp del: rx_full.simps add: assertUtcTimestamp_def string_where_def event_utc_text_def sample_time_def calendar_ok_def field_at_def
      decimal_def digit_value_def char_eval days_in_month_def)

definition st_key :: row_key where
  "st_key = (sa_scope, ''aa'')"

definition st_transition :: "string \<Rightarrow> string \<Rightarrow> nat \<Rightarrow> string \<Rightarrow> string \<Rightarrow> jsv" where
  "st_transition i r n f t = sj_record [(''transitionId'', JStr i), (''fromState'', JStr f), (''toState'', JStr t),
     (''reasonCode'', JStr ''aa''), (''triggerRecordId'', JStr r), (''expectedVersion'', JNum (JInt (int n))),
     (''resultingVersion'', JNum (JInt (int n + 1))), (''transitionedAt'', JStr sample_time)]"

definition st_row :: "string \<Rightarrow> string \<Rightarrow> nat \<Rightarrow> replan_state \<Rightarrow> replan_state \<Rightarrow> replan_transition" where
  "st_row i r n f t = \<lparr>tr_transitionId = i, tr_fromState = f, tr_toState = t, tr_reasonCode = ''aa'', tr_triggerRecordId = r,
     tr_triggerHash = None, tr_expectedVersion = int n, tr_resultingVersion = int n + 1, tr_transitionedAt = sample_time\<rparr>"

definition st_request :: jsv where
  "st_request = sj_record [(''requestId'', JStr ''aa''), (''triggerEventId'', JStr ''aa''),
     (''planHash'', JStr sample_sha), (''planVersion'', JNum (JInt 1)), (''proposalAuthorActor'', JStr ''aa''),
     (''producerInvocationId'', JStr ''aa''), (''policyId'', JStr ''replan-governance-v1''), (''policyVersion'', JNum (JInt 1)),
     (''requestedAt'', JStr sample_time)]"

definition st_decision :: jsv where
  "st_decision = sj_record [(''decisionId'', JStr ''aa''), (''requestId'', JStr ''aa''),
     (''planHash'', JStr sample_sha), (''planVersion'', JNum (JInt 1)), (''outcome'', JStr ''APPROVE''),
     (''actorId'', JStr ''bb''), (''policyId'', JStr ''replan-governance-v1''), (''policyVersion'', JNum (JInt 1)),
     (''reason'', JStr ''aa''), (''expectedVersion'', JNum (JInt 2)), (''resultingVersion'', JNum (JInt 3)),
     (''decidedAt'', JStr sample_time)]"

definition st_dispatch :: jsv where
  "st_dispatch = sj_record [(''attemptEventId'', JStr ''aa''), (''dispatchId'', JStr ''aa''), (''requestId'', JStr ''aa''),
     (''planHash'', JStr sample_sha), (''planVersion'', JNum (JInt 1)), (''approvalDecisionId'', JStr ''aa''),
     (''approvalEventVersion'', JNum (JInt 3)), (''outcome'', JStr ''STARTED''), (''workflowRunId'', JStr ''aa''),
     (''attemptedAt'', JStr sample_time)]"

definition st_attempt :: dispatch_attempt where
  "st_attempt = \<lparr>da_attemptEventId = ''aa'', da_dispatchId = ''aa'', da_requestId = ''aa'', da_planHash = sample_sha,
     da_planVersion = 1, da_approvalDecisionId = ''aa'', da_approvalEventVersion = 3, da_outcome = STARTED, da_reasonCode = None,
     da_workflowRunId = ''aa'', da_attemptedAt = sample_time\<rparr>"

lemmas read_eval = read_key_def assertExactShape_def assertReplanScope_def hasOnlyKeys_def opt_field_def scope_keys_def sj_record_def
  sj_scope_def sa_scope_def positive_int_def policy_v1_def version_pair_def enum_of_def as_nat_int_def st_key_def

lemma read_st_transition [simp]:
  "assertKebabIdentifier (JStr i) = Some i \<Longrightarrow> assertKebabIdentifier (JStr r) = Some r \<Longrightarrow>
     map_of STATES f = Some f' \<Longrightarrow> map_of STATES t = Some t' \<Longrightarrow> n < 1000 \<Longrightarrow>
     read_transition (st_transition i r n f t) = Some (st_key, st_row i r n f' t')"
  by (simp add: read_transition_def st_transition_def read_eval st_row_def)

lemma read_st_observation [simp]: "read_observation sj_observation = Some (st_key, sa_observation)"
  by (simp add: read_observation_def sj_observation_def read_eval sa_observation_def OBSERVATION_KINDS_def)

lemma read_st_request [simp]: "read_request st_request = Some (st_key, sa_request)"
  by (simp add: read_request_def st_request_def read_eval sa_request_def)

lemma read_st_decision [simp]: "read_decision st_decision = Some (st_key, sa_decision)"
  by (simp add: read_decision_def st_decision_def read_eval sa_decision_def)

lemma read_st_dispatch [simp]: "read_dispatch st_dispatch = Some (st_key, st_attempt)"
  by (simp add: read_dispatch_def st_dispatch_def read_eval st_attempt_def)

definition st_context :: review_context where
  "st_context = \<lparr>cx_artifact = (\<lambda>h. None), cx_cycle = Map.empty,
     cx_finding = [''aa'' \<mapsto> \<lparr>fr_scope = gate_scope sa_scope, fr_defectClass = Some ''aa'', fr_disposition = [],
       fr_agentInvocationId = None\<rparr>], cx_run = Map.empty\<rparr>"

text \<open>The artifact is the manifest in the first operation and the plan in the others.\<close>

definition st_with :: "string \<Rightarrow> review_context" where
  "st_with kind = st_context\<lparr>cx_artifact := [sample_sha \<mapsto> (kind, gate_scope sa_scope)]\<rparr>"

definition st_operation :: "string \<Rightarrow> (string \<times> jsv) list \<Rightarrow> jsv" where
  "st_operation kind rs = JObj [(''kind'', JStr kind), (''records'', JObj rs)]"

definition st_op1 :: jsv where
  "st_op1 = st_operation ''THRESHOLD_MANIFESTATION'' [(''observation'', sj_observation),
     (''transition'', st_transition ''aa'' ''aa'' 0 ''NORMAL_REMEDIATION'' ''REMEDIATION_REPLAN_REQUIRED'')]"

definition st_op2 :: jsv where
  "st_op2 = st_operation ''PLAN_REQUEST'' [(''request'', st_request),
     (''transition'', st_transition ''bb'' ''aa'' 1 ''REMEDIATION_REPLAN_REQUIRED'' ''REPLAN_PENDING_APPROVAL'')]"

definition st_op3 :: jsv where
  "st_op3 = st_operation ''REPLAN_DECISION'' [(''decision'', st_decision),
     (''transition'', st_transition ''cc'' ''aa'' 2 ''REPLAN_PENDING_APPROVAL'' ''REPLAN_APPROVED'')]"

definition st_op4 :: jsv where
  "st_op4 = st_operation ''DISPATCH_STARTED'' [(''dispatch'', st_dispatch),
     (''transition'', st_transition ''dd'' ''aa'' 3 ''REPLAN_APPROVED'' ''BOUNDED_REMEDIATION_DISPATCHED'')]"

lemmas op_eval = read_operation_def st_operation_def assertExactShape_def hasOnlyKeys_def enum_of_def OPERATION_KINDS_def
  assertCoherentReplanOperation_def row_key_of_def linked_def assertReplanScope_def sj_record_def sj_scope_def sa_scope_def
  as_nat_int_def st_key_def

lemma read_st_op1: "read_operation st_op1 = Some (op_THRESHOLD_MANIFESTATION, JObj [(''observation'', sj_observation),
     (''transition'', st_transition ''aa'' ''aa'' 0 ''NORMAL_REMEDIATION'' ''REMEDIATION_REPLAN_REQUIRED'')], st_key)"
  by (simp add: st_op1_def op_eval) (simp add: sj_observation_def st_transition_def op_eval)

lemma read_st_op2: "read_operation st_op2 = Some (op_PLAN_REQUEST, JObj [(''request'', st_request),
     (''transition'', st_transition ''bb'' ''aa'' 1 ''REMEDIATION_REPLAN_REQUIRED'' ''REPLAN_PENDING_APPROVAL'')], st_key)"
  by (simp add: st_op2_def op_eval) (simp add: st_request_def st_transition_def op_eval)

lemma read_st_op3: "read_operation st_op3 = Some (op_REPLAN_DECISION, JObj [(''decision'', st_decision),
     (''transition'', st_transition ''cc'' ''aa'' 2 ''REPLAN_PENDING_APPROVAL'' ''REPLAN_APPROVED'')], st_key)"
  by (simp add: st_op3_def op_eval) (simp add: st_decision_def st_transition_def op_eval)

lemma read_st_op4: "read_operation st_op4 = Some (op_DISPATCH_STARTED, JObj [(''dispatch'', st_dispatch),
     (''transition'', st_transition ''dd'' ''aa'' 3 ''REPLAN_APPROVED'' ''BOUNDED_REMEDIATION_DISPATCHED'')], st_key)"
  by (simp add: st_op4_def op_eval) (simp add: st_dispatch_def st_transition_def op_eval)

text \<open>The tables after each operation.\<close>

definition st_tb1 :: replan_tables where
  "st_tb1 = empty_tables\<lparr>tb_observations := [(st_key, sa_observation)],
     tb_transitions := [(st_key, st_row ''aa'' ''aa'' 0 NORMAL_REMEDIATION REMEDIATION_REPLAN_REQUIRED)]\<rparr>"

definition st_tb2 :: replan_tables where
  "st_tb2 = st_tb1\<lparr>tb_requests := [(st_key, sa_request)], tb_transitions := tb_transitions st_tb1
     @ [(st_key, st_row ''bb'' ''aa'' 1 REMEDIATION_REPLAN_REQUIRED REPLAN_PENDING_APPROVAL)]\<rparr>"

definition st_tb3 :: replan_tables where
  "st_tb3 = st_tb2\<lparr>tb_decisions := [(st_key, sa_decision)], tb_transitions := tb_transitions st_tb2
     @ [(st_key, st_row ''cc'' ''aa'' 2 REPLAN_PENDING_APPROVAL REPLAN_APPROVED)]\<rparr>"

definition st_tb4 :: replan_tables where
  "st_tb4 = st_tb3\<lparr>tb_dispatches := [(st_key, st_attempt)], tb_transitions := tb_transitions st_tb3
     @ [(st_key, st_row ''dd'' ''aa'' 3 REPLAN_APPROVED BOUNDED_REMEDIATION_DISPATCHED)]\<rparr>"

lemmas tables_eval = st_tb1_def st_tb2_def st_tb3_def st_tb4_def empty_tables_def currentEventVersion_def currentState_def rows_of_def
  st_row_def row_by_def

lemmas append_eval = assertArtifact_def insert_row_def st_with_def st_context_def STATES_def js_succ_def

lemma commit_from:
  assumes "read_operation v = Some (op, rs, k)" and "seq_writes (operation_writes cx op rs) tb = Inr tb'"
  shows "commit cx None v tb = Inr (getAggregate k tb', tb')" "after_commit cx None v tb = tb'"
  using assms by (simp_all add: commit_def after_commit_def Let_def)

lemma st_commit1: "after_commit (st_with ''review_manifest'') None st_op1 empty_tables = st_tb1"
  by (rule commit_from(2) [OF read_st_op1])
    (simp add: appendObservation_def appendTransition_def append_eval observation_refs_def tables_eval,
     simp add: sa_observation_def st_key_def gate_scope_def sa_scope_def appendTransition_def append_eval tables_eval)

lemma st_commit2: "after_commit (st_with ''replan_plan'') None st_op2 st_tb1 = st_tb2"
  by (rule commit_from(2) [OF read_st_op2])
    (simp add: appendRequest_def appendTransition_def append_eval tables_eval,
     simp add: sa_observation_def sa_request_def st_key_def transition_clash_def)

lemma st_commit3: "after_commit (st_with ''replan_plan'') None st_op3 st_tb2 = st_tb3"
  by (rule commit_from(2) [OF read_st_op3])
    (simp add: appendDecision_def appendTransition_def append_eval tables_eval,
     simp add: sa_decision_def sa_request_def st_key_def transition_clash_def)

lemma st_commit4: "after_commit (st_with ''replan_plan'') None st_op4 st_tb3 = st_tb4"
  by (rule commit_from(2) [OF read_st_op4])
    (simp add: appendDispatch_def appendTransition_def append_eval tables_eval,
     simp add: sa_decision_def st_attempt_def st_key_def transition_clash_def)

lemma st_stored: "stored st_tb4"
  using st_empty st_commit st_commit1 st_commit2 st_commit3 st_commit4 by metis

section \<open>Properties\<close>

text \<open>C18. Whatever operations were committed, the store numbers the transitions of an aggregate without gaps, and what it returns
  passes the policy's check of the log exactly when every single transition is an allowed one: the store keeps the order, the
  policy alone judges the steps.\<close>

theorem replan_store_log:
  assumes "stored tb" and "int (length (ag_transitions (getAggregate k tb))) \<le> version_limit"
  shows "ag_eventVersion (getAggregate k tb) = int (length (ag_transitions (getAggregate k tb)))
     \<and> (transitions_coherent (ag_eventVersion (getAggregate k tb)) (ag_state (getAggregate k tb)) (ag_transitions (getAggregate k tb))
        \<longleftrightarrow> list_all (\<lambda>t. tr_toState t \<in> set (allowedTransitions (tr_fromState t))) (ag_transitions (getAggregate k tb)))"
proof -
  have ok: "log_ok tb" using assms(1) by (rule stored_log_ok)
  note agg = aggregate_log [OF ok, of k]
  have "chain (int 0) NORMAL_REMEDIATION (rows_of k (tb_transitions tb))" using log_okD [OF ok, of k] by simp
  from chain_history [OF this] assms(2) show ?thesis by (simp add: agg transitions_coherent_iff)
qed

text \<open>C2. Every dispatch in the store rests on an approval of the same request and plan at the version it names, given by somebody
  else than the author of the proposal, and no request of an aggregate is started twice at one plan version.\<close>

theorem replan_store_dispatch:
  assumes "stored tb"
  shows "list_all (\<lambda>(k, a). \<exists>d q. decided tb k a d \<and> proposed tb k d q) (tb_dispatches tb) \<and> distinct (started_keys tb)"
proof -
  from assms have "dispatch_ok tb" by (rule stored_dispatch_ok)
  then show ?thesis unfolding dispatch_ok_def list_all_iff decided_def by fast
qed

text \<open>C28. Optimistic concurrency: once an operation with a transition is committed, every operation on that aggregate prepared against
  the same version is refused, the same operation included.\<close>

theorem replan_store_once:
  assumes "commit cx vf v tb = Inr (a, tb')" and "transition_of v = Some (k, t)" and "transition_of w = Some (k, u)"
    and "tr_expectedVersion u = tr_expectedVersion t" and "tr_expectedVersion t < version_limit"
  shows "\<exists>e. commit cx' vf' w tb' = Inl e"
proof -
  have step: "store_exec k tb (cx, vf, v) = Some tb'" using assms(1,2) by (simp add: store_exec_def)
  have expd: "store_expected (cx', vf', w) = store_expected (cx, vf, v)" using assms(2,3,4) by (simp add: store_expected_def)
  have "currentEventVersion k tb < version_limit"
    using store_exec_step(1) [OF step] assms(2,5) by (simp add: store_expected_def)
  from replan_store.competitor_refused [OF step this expd] show ?thesis
    using assms(3) by (auto simp: store_exec_def split: sum.splits)
qed

section \<open>Witnesses\<close>

theorem replan_store_log_witness:
  "ag_eventVersion (getAggregate st_key st_tb4) = int (length (ag_transitions (getAggregate st_key st_tb4)))
     \<and> (transitions_coherent (ag_eventVersion (getAggregate st_key st_tb4)) (ag_state (getAggregate st_key st_tb4))
          (ag_transitions (getAggregate st_key st_tb4))
        \<longleftrightarrow> list_all (\<lambda>t. tr_toState t \<in> set (allowedTransitions (tr_fromState t))) (ag_transitions (getAggregate st_key st_tb4)))"
proof (rule replan_store_log [OF st_stored])
  have "length (ag_transitions (getAggregate st_key st_tb4)) = length (rows_of st_key (tb_transitions st_tb4))"
    by (simp add: getAggregate_def Let_def)
  also have "\<dots> = 4" by (simp add: tables_eval)
  finally show "int (length (ag_transitions (getAggregate st_key st_tb4))) \<le> version_limit" by (simp add: version_limit_def)
qed

theorem replan_store_dispatch_witness:
  "list_all (\<lambda>(k, a). \<exists>d q. decided st_tb4 k a d \<and> proposed st_tb4 k d q) (tb_dispatches st_tb4)
     \<and> distinct (started_keys st_tb4) \<and> tb_dispatches st_tb4 = [(st_key, st_attempt)]"
  using replan_store_dispatch [OF st_stored] by (simp add: st_tb4_def)

theorem replan_store_once_witness:
  "\<exists>e. commit (st_with ''replan_plan'') None st_op4 st_tb4 = Inl e"
proof (rule replan_store_once [of "st_with ''replan_plan''" None st_op4 st_tb3 "getAggregate st_key st_tb4" st_tb4])
  have "\<exists>tb. seq_writes (operation_writes (st_with ''replan_plan'') op_DISPATCH_STARTED (JObj [(''dispatch'', st_dispatch),
     (''transition'', st_transition ''dd'' ''aa'' 3 ''REPLAN_APPROVED'' ''BOUNDED_REMEDIATION_DISPATCHED'')])) st_tb3 = Inr tb"
    by (simp add: appendDispatch_def appendTransition_def append_eval tables_eval,
      simp add: sa_decision_def st_attempt_def st_key_def transition_clash_def)
  then obtain tb where "seq_writes (operation_writes (st_with ''replan_plan'') op_DISPATCH_STARTED (JObj [(''dispatch'', st_dispatch),
     (''transition'', st_transition ''dd'' ''aa'' 3 ''REPLAN_APPROVED'' ''BOUNDED_REMEDIATION_DISPATCHED'')])) st_tb3 = Inr tb" ..
  from commit_from [OF read_st_op4 this] st_commit4
  show "commit (st_with ''replan_plan'') None st_op4 st_tb3 = Inr (getAggregate st_key st_tb4, st_tb4)" by simp
  show "transition_of st_op4 = Some (st_key, st_row ''dd'' ''aa'' 3 REPLAN_APPROVED BOUNDED_REMEDIATION_DISPATCHED)"
    "transition_of st_op4 = Some (st_key, st_row ''dd'' ''aa'' 3 REPLAN_APPROVED BOUNDED_REMEDIATION_DISPATCHED)"
    by (simp_all add: transition_of_def read_st_op4 STATES_def)
qed (simp_all add: st_row_def version_limit_def)

end
