(* ===== verification/ArchDebt.thy ===== *)
theory ArchDebt
  imports ReviewContract Versioned
begin

text \<open>
  Architecture debt, \<open>architecture-debt-policy.ts\<close>: the guards over a debt record, the triage of one
  record by a steward, and the check that a feature which will touch open debt carries one current
  decision for every record it touches.
\<close>

section \<open>Data\<close>

datatype debt_state =
    PENDING_TRIAGE | CONFIRMED | DEFERRED | ACCEPTED_RISK | PLANNED | CLOSED | REJECTED | MERGED | SUPERSEDED

datatype debt_operation =
    OP_CONFIRM | OP_REJECT | OP_MERGE | OP_REASSIGN | OP_DEFER | OP_ACCEPT_RISK | OP_PLAN_LINK | OP_CLOSE | OP_SUPERSEDE

datatype debt_refusal_code =
    dr_invalid_input | dr_unauthorized | dr_stale_version | dr_foreign_identity | dr_invalid_transition
  | dr_invalid_target | dr_invalid_decision

datatype debt_priority = P0 | P1 | P2 | P3

datatype priority_source = AUTO_PENDING_DEFAULT | STEWARD_CONFIRMED

record debt_trigger =
  tg_triggerId :: string
  tg_name :: string
  tg_paths :: "string list"
  tg_symbols :: "string list"
  tg_ruleTags :: "string list"

record debt_reference =
  rf_artifactId :: string
  rf_contentHash :: string
  rf_relativePath :: string

record debt_location =
  lo_locationId :: string
  lo_relativePath :: string
  lo_symbol :: "string option"
  lo_endpoint :: "string option"
  lo_ruleTags :: "string list"

record debt_discovery =
  dy_featureId :: string
  dy_phaseNumber :: int
  dy_reviewGateId :: string
  dy_findingId :: string
  dy_manifest :: debt_reference
  dy_observation :: debt_reference

record debt_rule =
  ru_ruleId :: string
  ru_ruleVersion :: string
  ru_ruleHash :: string
  ru_catalogHash :: string
  ru_category :: string
  ru_sourceReference :: string

record debt_aggregate =
  de_recordId :: string
  de_projectId :: string
  de_eventVersion :: int
  de_state :: debt_state
  de_ownerId :: string
  de_rationale :: string
  de_risk :: string
  de_architecturalBoundary :: string
  de_priority :: debt_priority
  de_prioritySource :: priority_source
  de_futureTouchTrigger :: debt_trigger
  de_discovery :: debt_discovery
  de_rule :: debt_rule
  de_locations :: "debt_location list"
  de_observationReferences :: "debt_reference list"
  de_duplicateOfRecordId :: "string option"
  de_supersededByRecordId :: "string option"

text \<open>The authority is an actor whose verified role can only be the architecture steward.\<close>

record debt_authority =
  au_actorId :: string

text \<open>What an event records besides the common fields.\<close>

datatype debt_event_detail =
    EvConfirm string string string string debt_priority debt_trigger
  | EvReject
  | EvMerge string
  | EvReassign string
  | EvDefer
  | EvAcceptRisk string
  | EvPlanLink string string
  | EvClose string
  | EvSupersede string

record debt_event =
  ev_projectId :: string
  ev_recordId :: string
  ev_actorId :: string
  ev_reason :: string
  ev_expectedVersion :: int
  ev_resultingVersion :: int
  ev_occurredAt :: string
  ev_detail :: debt_event_detail

record touch_symbol =
  ts_relativePath :: string
  ts_symbol :: string

record touch_plan =
  tp_projectId :: string
  tp_featureId :: string
  tp_paths :: "string list"
  tp_symbols :: "touch_symbol list"
  tp_ruleTags :: "string list"

datatype decision_kind =
    REMEDIATE string string
  | PREREQUISITE string string string
  | WAIVER "string option" "string option"
  | NON_INTERACTION string string

record touch_decision =
  td_decisionId :: string
  td_projectId :: string
  td_featureId :: string
  td_touchPlanHash :: string
  td_recordId :: string
  td_recordVersion :: int
  td_selectorIds :: "string list"
  td_actorId :: string
  td_reason :: string
  td_occurredAt :: string
  td_kind :: decision_kind

record touch_match =
  tm_recordId :: string
  tm_recordVersion :: int
  tm_selectorIds :: "string list"
  tm_decision :: touch_decision

section \<open>Names\<close>

definition DEBT_STATES :: "(string \<times> debt_state) list" where
  "DEBT_STATES =
     [(''PENDING_TRIAGE'', PENDING_TRIAGE), (''CONFIRMED'', CONFIRMED), (''DEFERRED'', DEFERRED),
      (''ACCEPTED_RISK'', ACCEPTED_RISK), (''PLANNED'', PLANNED), (''CLOSED'', CLOSED), (''REJECTED'', REJECTED),
      (''MERGED'', MERGED), (''SUPERSEDED'', SUPERSEDED)]"

definition OPEN_STATES :: "debt_state list" where
  "OPEN_STATES = [PENDING_TRIAGE, CONFIRMED, DEFERRED, ACCEPTED_RISK, PLANNED]"

definition PRIORITIES :: "(string \<times> debt_priority) list" where
  "PRIORITIES = [(''P0'', P0), (''P1'', P1), (''P2'', P2), (''P3'', P3)]"

definition PRIORITY_SOURCES :: "(string \<times> priority_source) list" where
  "PRIORITY_SOURCES = [(''AUTO_PENDING_DEFAULT'', AUTO_PENDING_DEFAULT), (''STEWARD_CONFIRMED'', STEWARD_CONFIRMED)]"

definition OPERATIONS :: "(string \<times> debt_operation) list" where
  "OPERATIONS =
     [(''CONFIRM'', OP_CONFIRM), (''REJECT'', OP_REJECT), (''MERGE'', OP_MERGE), (''REASSIGN'', OP_REASSIGN),
      (''DEFER'', OP_DEFER), (''ACCEPT_RISK'', OP_ACCEPT_RISK), (''PLAN_LINK'', OP_PLAN_LINK), (''CLOSE'', OP_CLOSE),
      (''SUPERSEDE'', OP_SUPERSEDE)]"

section \<open>Primitive guards\<close>

definition RECORD_ID_RE :: rx where
  "RECORD_ID_RE = RSeq (rx_lit ''ARCH-DEBT-'') (rx_times 32 (RCls is_hex))"

definition UTC_RE :: rx where
  "UTC_RE = (let d = RCls is_digit; dd = rx_times 2 d; lit = (\<lambda>x. RCls (\<lambda>c. c = x))
     in rx_seqs [rx_times 4 d, lit CHR ''-'', dd, lit CHR ''-'', dd, lit CHR ''T'', dd, lit CHR '':'',
          dd, lit CHR '':'', dd, rx_opt (RSeq (lit CHR ''.'') (rx_times 3 d)), lit CHR ''Z''])"

text \<open>The class \<open>[\x00-\x08\x0B\x0C\x0E-\x1F\x7F]\<close>.\<close>

definition debt_control :: "char \<Rightarrow> bool" where
  "debt_control c \<longleftrightarrow> (let n = code_of c in n \<le> 0x08 \<or> n = 0x0B \<or> n = 0x0C \<or> (0x0E \<le> n \<and> n \<le> 0x1F) \<or> n = 0x7F)"

definition text_ok :: "nat \<Rightarrow> string \<Rightarrow> bool" where
  "text_ok mx s \<longleftrightarrow> 0 < length s \<and> length s \<le> mx \<and> \<not> str_includes s [CHR 0x00] \<and> \<not> list_ex debt_control s
     \<and> \<not> list_ex (\<lambda>p. rx_test p s) secretPatterns"

definition dtext :: "jsv \<Rightarrow> string option" where
  "dtext v = string_where (text_ok 4096) v"

definition dident :: "nat \<Rightarrow> jsv \<Rightarrow> string option" where
  "dident mx v = string_where (text_ok mx) v"

definition path_ok :: "string \<Rightarrow> bool" where
  "path_ok s \<longleftrightarrow> text_ok 1024 s \<and> \<not> str_includes s [CHR 0x5C] \<and> \<not> startsWith s ''/''
     \<and> \<not> rx_prefix (RSeq (RCls (\<lambda>c. is_lower c \<or> is_upper c)) (RCls (\<lambda>c. c = CHR '':''))) s
     \<and> \<not> list_ex (\<lambda>w. w = [] \<or> w = ''.'' \<or> w = ''..'') (split_on CHR ''/'' s)"

definition dpath :: "jsv \<Rightarrow> string option" where
  "dpath v = string_where path_ok v"

text \<open>
  The finite results of \<open>Date.parse\<close> on the pattern: month 1 to 12, day 1 to 31 whatever the month,
  and a time of day, or exactly 24:00:00.
\<close>

fun decimal_value :: "nat \<Rightarrow> string \<Rightarrow> nat" where
  "decimal_value n [] = n"
| "decimal_value n (c # s) = decimal_value (10 * n + (code_of c - 48)) s"

definition digits_at :: "string \<Rightarrow> nat \<Rightarrow> nat \<Rightarrow> nat" where
  "digits_at s i n = decimal_value 0 (take n (drop i s))"

definition utc_ok :: "string \<Rightarrow> bool" where
  "utc_ok s \<longleftrightarrow> rx_full UTC_RE s
     \<and> (let mo = digits_at s 5 2; d = digits_at s 8 2; h = digits_at s 11 2; mi = digits_at s 14 2;
            sec = digits_at s 17 2; ms = (if length s = 24 then digits_at s 20 3 else 0)
        in 1 \<le> mo \<and> mo \<le> 12 \<and> 1 \<le> d \<and> d \<le> 31
           \<and> (h < 24 \<and> mi < 60 \<and> sec < 60 \<or> h = 24 \<and> mi = 0 \<and> sec = 0 \<and> ms = 0))"

definition dtime :: "jsv \<Rightarrow> string option" where
  "dtime v = string_where utc_ok v"

definition dhash :: "jsv \<Rightarrow> string option" where
  "dhash v = string_where (rx_full SHA256_HEX_RE) v"

definition drecord_id :: "jsv \<Rightarrow> string option" where
  "drecord_id v = string_where (rx_full RECORD_ID_RE) v"

fun sortedUnique :: "string list \<Rightarrow> bool" where
  "sortedUnique [] = True"
| "sortedUnique [x] = True"
| "sortedUnique (x # y # zs) = (str_less x y \<and> sortedUnique (y # zs))"

definition stringList :: "(jsv \<Rightarrow> string option) \<Rightarrow> jsv \<Rightarrow> string list option" where
  "stringList p v = do {
     xs \<leftarrow> as_array v;
     chk (length xs \<le> 128);
     ys \<leftarrow> parse_all p xs;
     chk (sortedUnique ys);
     Some ys }"

text \<open>\<open>keys.filter((key) => value[key] !== undefined)\<close>.\<close>

definition present :: "jsv \<Rightarrow> string list \<Rightarrow> string list" where
  "present v ks = filter (\<lambda>k. jget v k \<noteq> JUndef) ks"

section \<open>Guards over a record\<close>

definition validTrigger :: "jsv \<Rightarrow> debt_trigger option" where
  "validTrigger v = do {
     chk (isRecord v \<and> exactKeys v [''triggerId'', ''name'', ''paths'', ''symbols'', ''ruleTags'']);
     i \<leftarrow> dident 256 (jget v ''triggerId'');
     n \<leftarrow> dtext (jget v ''name'');
     ps \<leftarrow> stringList dpath (jget v ''paths'');
     ss \<leftarrow> stringList dtext (jget v ''symbols'');
     ts \<leftarrow> stringList dtext (jget v ''ruleTags'');
     chk (0 < length ps + length ss + length ts);
     Some \<lparr>tg_triggerId = i, tg_name = n, tg_paths = ps, tg_symbols = ss, tg_ruleTags = ts\<rparr> }"

definition validReference :: "string \<Rightarrow> jsv \<Rightarrow> debt_reference option" where
  "validReference kind v = do {
     chk (isRecord v \<and> exactKeys v [''artifactKind'', ''artifactId'', ''contentHash'', ''relativePath'']
       \<and> jget v ''artifactKind'' = JStr kind);
     i \<leftarrow> dident 256 (jget v ''artifactId'');
     h \<leftarrow> dhash (jget v ''contentHash'');
     p \<leftarrow> dpath (jget v ''relativePath'');
     Some \<lparr>rf_artifactId = i, rf_contentHash = h, rf_relativePath = p\<rparr> }"

definition validLocation :: "jsv \<Rightarrow> debt_location option" where
  "validLocation v = do {
     chk (isRecord v \<and>
       exactKeys v (present v [''locationId'', ''relativePath'', ''symbol'', ''endpoint'', ''ruleTags'']));
     i \<leftarrow> dident 256 (jget v ''locationId'');
     p \<leftarrow> dpath (jget v ''relativePath'');
     s \<leftarrow> opt_field (dident 256) (jget v ''symbol'');
     e \<leftarrow> opt_field (dident 256) (jget v ''endpoint'');
     ts \<leftarrow> stringList dtext (jget v ''ruleTags'');
     Some \<lparr>lo_locationId = i, lo_relativePath = p, lo_symbol = s, lo_endpoint = e, lo_ruleTags = ts\<rparr> }"

definition validDiscovery :: "jsv \<Rightarrow> debt_discovery option" where
  "validDiscovery v = do {
     chk (isRecord v \<and> exactKeys v [''featureId'', ''phaseNumber'', ''reviewGateId'', ''findingId'', ''manifest'',
       ''observation'', ''currentFeatureImpact'']);
     f \<leftarrow> dident 256 (jget v ''featureId'');
     n \<leftarrow> as_nat_int (jget v ''phaseNumber'');
     g \<leftarrow> dident 256 (jget v ''reviewGateId'');
     i \<leftarrow> dident 256 (jget v ''findingId'');
     m \<leftarrow> validReference ''review_manifest'' (jget v ''manifest'');
     ob \<leftarrow> validReference ''debt_observation'' (jget v ''observation'');
     chk (jget v ''currentFeatureImpact'' = JStr ''untouched_non_blocking'');
     Some \<lparr>dy_featureId = f, dy_phaseNumber = n, dy_reviewGateId = g, dy_findingId = i, dy_manifest = m,
           dy_observation = ob\<rparr> }"

definition validRule :: "jsv \<Rightarrow> debt_rule option" where
  "validRule v = do {
     chk (isRecord v \<and> exactKeys v [''ruleId'', ''ruleVersion'', ''ruleHash'', ''catalogHash'', ''category'',
       ''sourceReference'']);
     i \<leftarrow> dident 256 (jget v ''ruleId'');
     n \<leftarrow> dident 256 (jget v ''ruleVersion'');
     h \<leftarrow> dhash (jget v ''ruleHash'');
     k \<leftarrow> dhash (jget v ''catalogHash'');
     c \<leftarrow> dident 128 (jget v ''category'');
     p \<leftarrow> dpath (jget v ''sourceReference'');
     Some \<lparr>ru_ruleId = i, ru_ruleVersion = n, ru_ruleHash = h, ru_catalogHash = k, ru_category = c,
           ru_sourceReference = p\<rparr> }"

definition validPolicyAggregate :: "jsv \<Rightarrow> debt_aggregate option" where
  "validPolicyAggregate v = do {
     chk (isRecord v \<and> exactKeys v (present v [''schemaVersion'', ''recordId'', ''projectId'', ''eventVersion'',
       ''state'', ''ownerId'', ''rationale'', ''risk'', ''architecturalBoundary'', ''priority'', ''prioritySource'',
       ''futureTouchTrigger'', ''discovery'', ''rule'', ''locations'', ''observationReferences'',
       ''duplicateOfRecordId'', ''supersededByRecordId'']));
     chk (jget v ''schemaVersion'' = JNum (JInt 1));
     i \<leftarrow> drecord_id (jget v ''recordId'');
     p \<leftarrow> dident 256 (jget v ''projectId'');
     n \<leftarrow> as_nat_int (jget v ''eventVersion'');
     st \<leftarrow> enum_of DEBT_STATES (jget v ''state'');
     ow \<leftarrow> dident 256 (jget v ''ownerId'');
     ra \<leftarrow> dtext (jget v ''rationale'');
     ri \<leftarrow> dtext (jget v ''risk'');
     ab \<leftarrow> dident 256 (jget v ''architecturalBoundary'');
     pr \<leftarrow> enum_of PRIORITIES (jget v ''priority'');
     ps \<leftarrow> enum_of PRIORITY_SOURCES (jget v ''prioritySource'');
     tg \<leftarrow> validTrigger (jget v ''futureTouchTrigger'');
     dy \<leftarrow> validDiscovery (jget v ''discovery'');
     ru \<leftarrow> validRule (jget v ''rule'');
     los \<leftarrow> as_array (jget v ''locations'');
     chk (0 < length los \<and> length los \<le> 128);
     ls \<leftarrow> parse_all validLocation los;
     chk (hasUniqueValues (map lo_locationId ls));
     ors \<leftarrow> as_array (jget v ''observationReferences'');
     chk (0 < length ors \<and> length ors \<le> 128);
     rs \<leftarrow> parse_all (validReference ''debt_observation'') ors;
     du \<leftarrow> opt_field drecord_id (jget v ''duplicateOfRecordId'');
     su \<leftarrow> opt_field drecord_id (jget v ''supersededByRecordId'');
     Some \<lparr>de_recordId = i, de_projectId = p, de_eventVersion = n, de_state = st, de_ownerId = ow,
           de_rationale = ra, de_risk = ri, de_architecturalBoundary = ab, de_priority = pr,
           de_prioritySource = ps, de_futureTouchTrigger = tg, de_discovery = dy, de_rule = ru,
           de_locations = ls, de_observationReferences = rs, de_duplicateOfRecordId = du,
           de_supersededByRecordId = su\<rparr> }"

definition validDebtAuthority :: "jsv \<Rightarrow> debt_authority option" where
  "validDebtAuthority v = do {
     chk (isRecord v \<and> exactKeys v [''actorId'', ''verifiedRole'']);
     a \<leftarrow> dident 256 (jget v ''actorId'');
     chk (jget v ''verifiedRole'' = JStr ''ARCHITECTURE_STEWARD'');
     Some \<lparr>au_actorId = a\<rparr> }"

definition sameTargetProject :: "debt_aggregate \<Rightarrow> debt_aggregate \<Rightarrow> bool" where
  "sameTargetProject s c \<longleftrightarrow> de_projectId s = de_projectId c \<and> de_recordId s \<noteq> de_recordId c
     \<and> de_state c \<in> set OPEN_STATES"

definition targetCreatesCycle :: "debt_aggregate \<Rightarrow> debt_aggregate \<Rightarrow> bool" where
  "targetCreatesCycle s c \<longleftrightarrow> de_duplicateOfRecordId c = Some (de_recordId s)
     \<or> de_supersededByRecordId c = Some (de_recordId s)"

section \<open>Triage\<close>

record action_base =
  ab_operation :: debt_operation
  ab_projectId :: string
  ab_recordId :: string
  ab_expectedVersion :: int
  ab_reason :: string
  ab_occurredAt :: string

definition actionBase :: "jsv \<Rightarrow> action_base option" where
  "actionBase v = do {
     ot \<leftarrow> enum_of OPERATIONS (jget v ''operation'');
     p \<leftarrow> dident 256 (jget v ''projectId'');
     i \<leftarrow> drecord_id (jget v ''recordId'');
     n \<leftarrow> as_nat_int (jget v ''expectedVersion'');
     r \<leftarrow> dtext (jget v ''reason'');
     t \<leftarrow> dtime (jget v ''occurredAt'');
     Some \<lparr>ab_operation = ot, ab_projectId = p, ab_recordId = i, ab_expectedVersion = n, ab_reason = r,
           ab_occurredAt = t\<rparr> }"

fun debt_transitions :: "debt_state \<Rightarrow> debt_operation list" where
  "debt_transitions PENDING_TRIAGE =
     [OP_CONFIRM, OP_REJECT, OP_MERGE, OP_REASSIGN, OP_DEFER, OP_ACCEPT_RISK, OP_PLAN_LINK, OP_SUPERSEDE]"
| "debt_transitions CONFIRMED =
     [OP_MERGE, OP_REASSIGN, OP_DEFER, OP_ACCEPT_RISK, OP_PLAN_LINK, OP_CLOSE, OP_SUPERSEDE]"
| "debt_transitions DEFERRED =
     [OP_CONFIRM, OP_MERGE, OP_REASSIGN, OP_ACCEPT_RISK, OP_PLAN_LINK, OP_CLOSE, OP_SUPERSEDE]"
| "debt_transitions ACCEPTED_RISK = [OP_CONFIRM, OP_REASSIGN, OP_PLAN_LINK, OP_CLOSE, OP_SUPERSEDE]"
| "debt_transitions PLANNED = [OP_REASSIGN, OP_DEFER, OP_ACCEPT_RISK, OP_CLOSE, OP_SUPERSEDE]"
| "debt_transitions _ = []"

definition transitionAllowed :: "debt_state \<Rightarrow> debt_operation \<Rightarrow> bool" where
  "transitionAllowed s ot \<longleftrightarrow> ot \<in> set (debt_transitions s)"

fun nextState :: "debt_operation \<Rightarrow> debt_state \<Rightarrow> debt_state" where
  "nextState OP_CONFIRM s = CONFIRMED"
| "nextState OP_REJECT s = REJECTED"
| "nextState OP_MERGE s = MERGED"
| "nextState OP_REASSIGN s = s"
| "nextState OP_DEFER s = DEFERRED"
| "nextState OP_ACCEPT_RISK s = ACCEPTED_RISK"
| "nextState OP_PLAN_LINK s = PLANNED"
| "nextState OP_CLOSE s = CLOSED"
| "nextState OP_SUPERSEDE s = SUPERSEDED"

definition base_keys :: "string list" where
  "base_keys = [''operation'', ''projectId'', ''recordId'', ''expectedVersion'', ''reason'', ''occurredAt'']"

text \<open>The branches of the operations: what the event adds, and the next record.\<close>

definition apply_operation ::
  "debt_operation \<Rightarrow> debt_aggregate \<Rightarrow> debt_aggregate \<Rightarrow> jsv \<Rightarrow> debt_refusal_code + debt_event_detail \<times> debt_aggregate" where
  "apply_operation ot a nb act =
     (case ot of
        OP_CONFIRM \<Rightarrow>
          (case do {
             chk (exactKeys act (base_keys @ [''ownerId'', ''rationale'', ''risk'', ''architecturalBoundary'', ''priority'',
               ''futureTouchTrigger'']));
             ow \<leftarrow> dident 256 (jget act ''ownerId'');
             ra \<leftarrow> dtext (jget act ''rationale'');
             ri \<leftarrow> dtext (jget act ''risk'');
             ab \<leftarrow> dident 256 (jget act ''architecturalBoundary'');
             pr \<leftarrow> enum_of PRIORITIES (jget act ''priority'');
             tg \<leftarrow> validTrigger (jget act ''futureTouchTrigger'');
             Some (EvConfirm ow ra ri ab pr tg,
               nb\<lparr>de_ownerId := ow, de_rationale := ra, de_risk := ri, de_architecturalBoundary := ab,
                  de_priority := pr, de_prioritySource := STEWARD_CONFIRMED, de_futureTouchTrigger := tg\<rparr>) }
           of None \<Rightarrow> Inl dr_invalid_input | Some r \<Rightarrow> Inr r)
      | OP_REASSIGN \<Rightarrow>
          (case do {
             chk (exactKeys act (base_keys @ [''ownerId'']));
             ow \<leftarrow> dident 256 (jget act ''ownerId'');
             Some (EvReassign ow, nb\<lparr>de_ownerId := ow\<rparr>) }
           of None \<Rightarrow> Inl dr_invalid_input | Some r \<Rightarrow> Inr r)
      | OP_MERGE \<Rightarrow>
          (case do { chk (exactKeys act (base_keys @ [''targetAggregate'']));
                     validPolicyAggregate (jget act ''targetAggregate'') } of
             None \<Rightarrow> Inl dr_invalid_input
           | Some t \<Rightarrow>
               if \<not> sameTargetProject a t \<or> targetCreatesCycle a t then Inl dr_invalid_target
               else Inr (EvMerge (de_recordId t), nb\<lparr>de_duplicateOfRecordId := Some (de_recordId t)\<rparr>))
      | OP_SUPERSEDE \<Rightarrow>
          (case do { chk (exactKeys act (base_keys @ [''targetAggregate'']));
                     validPolicyAggregate (jget act ''targetAggregate'') } of
             None \<Rightarrow> Inl dr_invalid_input
           | Some t \<Rightarrow>
               if \<not> sameTargetProject a t \<or> targetCreatesCycle a t then Inl dr_invalid_target
               else Inr (EvSupersede (de_recordId t), nb\<lparr>de_supersededByRecordId := Some (de_recordId t)\<rparr>))
      | OP_PLAN_LINK \<Rightarrow>
          (case do {
             chk (exactKeys act (base_keys @ [''featureId'', ''phaseTask'']));
             f \<leftarrow> dident 256 (jget act ''featureId'');
             t \<leftarrow> dident 256 (jget act ''phaseTask'');
             Some (EvPlanLink f t, nb) }
           of None \<Rightarrow> Inl dr_invalid_input | Some r \<Rightarrow> Inr r)
      | OP_ACCEPT_RISK \<Rightarrow>
          (case do {
             chk (exactKeys act (base_keys @ [''reviewTrigger'']));
             t \<leftarrow> dident 256 (jget act ''reviewTrigger'');
             Some (EvAcceptRisk t, nb) }
           of None \<Rightarrow> Inl dr_invalid_input | Some r \<Rightarrow> Inr r)
      | OP_CLOSE \<Rightarrow>
          (case do {
             chk (exactKeys act (base_keys @ [''closureEvidence'']));
             t \<leftarrow> dtext (jget act ''closureEvidence'');
             Some (EvClose t, nb) }
           of None \<Rightarrow> Inl dr_invalid_input | Some r \<Rightarrow> Inr r)
      | OP_REJECT \<Rightarrow> if \<not> exactKeys act base_keys then Inl dr_invalid_input else Inr (EvReject, nb)
      | OP_DEFER \<Rightarrow> if \<not> exactKeys act base_keys then Inl dr_invalid_input else Inr (EvDefer, nb))"

text \<open>The body after the envelope was found valid, on the narrowed record and authority and the raw action.\<close>

definition triage ::
  "debt_aggregate \<Rightarrow> debt_authority \<Rightarrow> jsv \<Rightarrow> debt_refusal_code + debt_event \<times> debt_aggregate" where
  "triage a u act =
     (case actionBase act of
        None \<Rightarrow> Inl dr_invalid_input
      | Some b \<Rightarrow>
          if ab_projectId b \<noteq> de_projectId a \<or> ab_recordId b \<noteq> de_recordId a then Inl dr_foreign_identity
          else if ab_expectedVersion b \<noteq> de_eventVersion a then Inl dr_stale_version
          else if \<not> transitionAllowed (de_state a) (ab_operation b) then Inl dr_invalid_transition
          else
            let nb = a\<lparr>de_state := nextState (ab_operation b) (de_state a), de_eventVersion := js_succ (de_eventVersion a)\<rparr>
            in case apply_operation (ab_operation b) a nb act of
                 Inl c \<Rightarrow> Inl c
               | Inr (dt, a') \<Rightarrow>
                   Inr (\<lparr>ev_projectId = de_projectId a, ev_recordId = de_recordId a, ev_actorId = au_actorId u,
                         ev_reason = ab_reason b, ev_expectedVersion = de_eventVersion a,
                         ev_resultingVersion = js_succ (de_eventVersion a), ev_occurredAt = ab_occurredAt b,
                         ev_detail = dt\<rparr>, a'))"

definition triage_envelope :: "jsv \<Rightarrow> (debt_aggregate \<times> debt_authority \<times> jsv) option" where
  "triage_envelope v = do {
     chk (isRecord v \<and> exactKeys v [''aggregate'', ''authority'', ''action'']);
     a \<leftarrow> validPolicyAggregate (jget v ''aggregate'');
     u \<leftarrow> validDebtAuthority (jget v ''authority'');
     chk (isRecord (jget v ''action''));
     Some (a, u, jget v ''action'') }"

definition evaluateArchitectureDebtTriage :: "jsv \<Rightarrow> debt_refusal_code + debt_event \<times> debt_aggregate" where
  "evaluateArchitectureDebtTriage v =
     (case triage_envelope v of None \<Rightarrow> Inl dr_invalid_input | Some (a, u, act) \<Rightarrow> triage a u act)"

section \<open>Future touch\<close>

definition validTouchSymbol :: "jsv \<Rightarrow> touch_symbol option" where
  "validTouchSymbol v = do {
     chk (isRecord v \<and> exactKeys v [''relativePath'', ''symbol'']);
     p \<leftarrow> dpath (jget v ''relativePath'');
     s \<leftarrow> dident 256 (jget v ''symbol'');
     Some \<lparr>ts_relativePath = p, ts_symbol = s\<rparr> }"

definition validTouchPlan :: "jsv \<Rightarrow> touch_plan option" where
  "validTouchPlan v = do {
     chk (isRecord v \<and> exactKeys v [''schemaVersion'', ''projectId'', ''featureId'', ''paths'', ''symbols'', ''ruleTags'']
       \<and> jget v ''schemaVersion'' = JStr ''hepha-architecture-debt-touch-plan/v1'');
     p \<leftarrow> dident 256 (jget v ''projectId'');
     f \<leftarrow> dident 256 (jget v ''featureId'');
     ps \<leftarrow> stringList dpath (jget v ''paths'');
     ts \<leftarrow> stringList dtext (jget v ''ruleTags'');
     sy \<leftarrow> as_array (jget v ''symbols'');
     chk (length sy \<le> 128);
     ss \<leftarrow> parse_all validTouchSymbol sy;
     chk (0 < length ps + length ss + length ts);
     chk (sortedUnique (map (\<lambda>s. ts_relativePath s @ CHR 0x00 # ts_symbol s) ss));
     Some \<lparr>tp_projectId = p, tp_featureId = f, tp_paths = ps, tp_symbols = ss, tp_ruleTags = ts\<rparr> }"

definition pathsOverlap :: "string \<Rightarrow> string \<Rightarrow> bool" where
  "pathsOverlap l r \<longleftrightarrow> l = r \<or> startsWith l (r @ ''/'') \<or> startsWith r (l @ ''/'')"

definition location_selectors :: "touch_plan \<Rightarrow> debt_location \<Rightarrow> string list" where
  "location_selectors p l =
     (if list_ex (pathsOverlap (lo_relativePath l)) (tp_paths p)
      then [''location:'' @ lo_locationId l @ '':path''] else [])
     @ (case lo_symbol l of None \<Rightarrow> []
        | Some s \<Rightarrow>
            if list_ex (\<lambda>c. ts_symbol c = s \<and> pathsOverlap (lo_relativePath l) (ts_relativePath c)) (tp_symbols p)
            then [''location:'' @ lo_locationId l @ '':symbol''] else [])
     @ map (\<lambda>t. ''location:'' @ lo_locationId l @ '':rule:'' @ t) (filter (\<lambda>t. t \<in> set (tp_ruleTags p)) (lo_ruleTags l))"

definition trigger_selectors :: "touch_plan \<Rightarrow> debt_trigger \<Rightarrow> string list" where
  "trigger_selectors p g =
     map (\<lambda>x. ''trigger:'' @ tg_triggerId g @ '':path:'' @ x)
       (filter (\<lambda>x. list_ex (pathsOverlap x) (tp_paths p)) (tg_paths g))
     @ map (\<lambda>x. ''trigger:'' @ tg_triggerId g @ '':symbol:'' @ x)
       (filter (\<lambda>x. list_ex (\<lambda>c. ts_symbol c = x) (tp_symbols p)) (tg_symbols g))
     @ map (\<lambda>x. ''trigger:'' @ tg_triggerId g @ '':rule:'' @ x)
       (filter (\<lambda>x. x \<in> set (tp_ruleTags p)) (tg_ruleTags g))"

text \<open>\<open>[...new Set(matches)].sort()\<close>: insertion into a list sorted by code units.\<close>

fun insert_str :: "string \<Rightarrow> string list \<Rightarrow> string list" where
  "insert_str x [] = [x]"
| "insert_str x (y # ys) = (if str_less y x then y # insert_str x ys else x # y # ys)"

definition sort_strs :: "string list \<Rightarrow> string list" where
  "sort_strs xs = foldr insert_str xs []"

definition selectorsFor :: "debt_aggregate \<Rightarrow> touch_plan \<Rightarrow> string list" where
  "selectorsFor a p =
     sort_strs (js_set (concat (map (location_selectors p) (de_locations a))
       @ trigger_selectors p (de_futureTouchTrigger a)))"

definition decision_keys :: "string list" where
  "decision_keys = [''decisionId'', ''projectId'', ''featureId'', ''touchPlanHash'', ''recordId'', ''recordVersion'',
     ''selectorIds'', ''kind'', ''actorId'', ''authorizedRole'', ''reason'', ''occurredAt'']"

definition decision_kind_of :: "jsv \<Rightarrow> decision_kind option" where
  "decision_kind_of v =
     (if jget v ''kind'' = JStr ''REMEDIATE'' then do {
        chk (exactKeys v (decision_keys @ [''owningPhaseTask'', ''acceptanceObligation'']));
        a \<leftarrow> dident 256 (jget v ''owningPhaseTask'');
        b \<leftarrow> dtext (jget v ''acceptanceObligation'');
        Some (REMEDIATE a b) }
      else if jget v ''kind'' = JStr ''PREREQUISITE'' then do {
        chk (exactKeys v (decision_keys @ [''prerequisiteFeatureId'', ''orderingEvidence'', ''completionCondition'']));
        a \<leftarrow> dident 256 (jget v ''prerequisiteFeatureId'');
        b \<leftarrow> dtext (jget v ''orderingEvidence'');
        c \<leftarrow> dtext (jget v ''completionCondition'');
        Some (PREREQUISITE a b c) }
      else if jget v ''kind'' = JStr ''WAIVER'' then do {
        chk (exactKeys v (decision_keys @ present v [''waiverExpiry'', ''reconsiderationTrigger'']));
        a \<leftarrow> opt_field dtime (jget v ''waiverExpiry'');
        b \<leftarrow> opt_field (dident 256) (jget v ''reconsiderationTrigger'');
        chk (a \<noteq> None \<or> b \<noteq> None);
        Some (WAIVER a b) }
      else if jget v ''kind'' = JStr ''NON_INTERACTION'' then do {
        chk (exactKeys v (decision_keys @ [''inspectedBoundary'', ''explanation'']));
        a \<leftarrow> dident 256 (jget v ''inspectedBoundary'');
        b \<leftarrow> dtext (jget v ''explanation'');
        Some (NON_INTERACTION a b) }
      else None)"

definition validDecision :: "jsv \<Rightarrow> touch_decision option" where
  "validDecision v = do {
     chk (isRecord v);
     i \<leftarrow> dident 256 (jget v ''decisionId'');
     p \<leftarrow> dident 256 (jget v ''projectId'');
     f \<leftarrow> dident 256 (jget v ''featureId'');
     h \<leftarrow> dhash (jget v ''touchPlanHash'');
     r \<leftarrow> drecord_id (jget v ''recordId'');
     n \<leftarrow> as_nat_int (jget v ''recordVersion'');
     ss \<leftarrow> stringList dtext (jget v ''selectorIds'');
     chk (length ss \<noteq> 0);
     a \<leftarrow> dident 256 (jget v ''actorId'');
     chk (jget v ''authorizedRole'' = JStr ''ARCHITECTURE_STEWARD'');
     re \<leftarrow> dtext (jget v ''reason'');
     t \<leftarrow> dtime (jget v ''occurredAt'');
     k \<leftarrow> decision_kind_of v;
     Some \<lparr>td_decisionId = i, td_projectId = p, td_featureId = f, td_touchPlanHash = h, td_recordId = r,
           td_recordVersion = n, td_selectorIds = ss, td_actorId = a, td_reason = re, td_occurredAt = t,
           td_kind = k\<rparr> }"

text \<open>The identity check of \<open>some\<close>, with the set it fills.\<close>

fun foreign_or_repeated :: "string \<Rightarrow> string list \<Rightarrow> debt_aggregate list \<Rightarrow> bool" where
  "foreign_or_repeated p seen [] = False"
| "foreign_or_repeated p seen (a # as) =
     (de_projectId a \<noteq> p \<or> de_recordId a \<in> set seen \<or> foreign_or_repeated p (de_recordId a # seen) as)"

text \<open>
  \<open>sort\<close> by record identifier. Identifiers that passed the guard share their prefix and go on with
  lower-case hexadecimal digits, where the locale's order is the order of code units.
\<close>

definition sort_records :: "debt_aggregate list \<Rightarrow> debt_aggregate list" where
  "sort_records as = foldr (\<lambda>a. \<lambda>bs. takeWhile (\<lambda>b. str_less (de_recordId b) (de_recordId a)) bs
     @ a # dropWhile (\<lambda>b. str_less (de_recordId b) (de_recordId a)) bs) as []"

definition decisions_for :: "touch_plan \<Rightarrow> string \<Rightarrow> touch_decision list \<Rightarrow> debt_aggregate \<Rightarrow> touch_decision list" where
  "decisions_for p h ds a =
     filter (\<lambda>d. td_projectId d = tp_projectId p \<and> td_featureId d = tp_featureId p \<and> td_touchPlanHash d = h
       \<and> td_recordId d = de_recordId a \<and> td_recordVersion d = de_eventVersion a) ds"

fun touch_matches ::
  "touch_plan \<Rightarrow> string \<Rightarrow> debt_authority \<Rightarrow> touch_decision list \<Rightarrow> debt_aggregate list \<Rightarrow> touch_match list option" where
  "touch_matches p h u ds [] = Some []"
| "touch_matches p h u ds (a # as) =
     (let ss = selectorsFor a p
      in if ss = [] then touch_matches p h u ds as
         else case decisions_for p h ds a of
           [d] \<Rightarrow>
             if td_actorId d \<noteq> au_actorId u \<or> td_selectorIds d \<noteq> ss then None
             else (case touch_matches p h u ds as of None \<Rightarrow> None
                   | Some ms \<Rightarrow> Some (\<lparr>tm_recordId = de_recordId a, tm_recordVersion = de_eventVersion a,
                                     tm_selectorIds = ss, tm_decision = d\<rparr> # ms))
         | _ \<Rightarrow> None)"

record touch_input =
  ti_plan :: touch_plan
  ti_hash :: string
  ti_aggregates :: "debt_aggregate list"
  ti_decisions :: "touch_decision list"
  ti_authority :: debt_authority

definition touch_input_of :: "jsv \<Rightarrow> touch_input option" where
  "touch_input_of v = do {
     chk (isRecord v \<and> exactKeys v [''touchPlan'', ''touchPlanHash'', ''aggregates'', ''decisions'', ''authority'']);
     p \<leftarrow> validTouchPlan (jget v ''touchPlan'');
     h \<leftarrow> dhash (jget v ''touchPlanHash'');
     as \<leftarrow> array_of validPolicyAggregate (jget v ''aggregates'');
     ds \<leftarrow> array_of validDecision (jget v ''decisions'');
     u \<leftarrow> validDebtAuthority (jget v ''authority'');
     Some \<lparr>ti_plan = p, ti_hash = h, ti_aggregates = as, ti_decisions = ds, ti_authority = u\<rparr> }"

definition future_touch :: "touch_input \<Rightarrow> debt_refusal_code + touch_match list" where
  "future_touch i =
     (let as = filter (\<lambda>a. de_state a \<in> set OPEN_STATES) (ti_aggregates i)
      in if foreign_or_repeated (tp_projectId (ti_plan i)) [] as then Inl dr_foreign_identity
         else case touch_matches (ti_plan i) (ti_hash i) (ti_authority i) (ti_decisions i) (sort_records as) of
           None \<Rightarrow> Inl dr_invalid_decision
         | Some ms \<Rightarrow> Inr ms)"

definition evaluateFutureTouch :: "jsv \<Rightarrow> debt_refusal_code + touch_match list" where
  "evaluateFutureTouch v = (case touch_input_of v of None \<Rightarrow> Inl dr_invalid_input | Some i \<Rightarrow> future_touch i)"

end
