(* ===== verification/ArchDebtFacts.thy ===== *)
theory ArchDebtFacts
  imports ArchDebt
begin

text \<open>
  What the debt policy promises: triage is a governed step that keeps a record's identity and evidence
  and obeys the optimistic-concurrency contract; links between records never form a cycle; a triaged
  record is again a record the policy accepts; and a feature is let through exactly when every open
  record it touches carries its one current decision.
\<close>

section \<open>One triage step\<close>

text \<open>The governed step of a record: operation, state before and state after.\<close>

inductive debt_step :: "debt_operation \<Rightarrow> debt_state \<Rightarrow> debt_state \<Rightarrow> bool" where
  "s \<in> {PENDING_TRIAGE, DEFERRED, ACCEPTED_RISK} \<Longrightarrow> debt_step OP_CONFIRM s CONFIRMED"
| "debt_step OP_REJECT PENDING_TRIAGE REJECTED"
| "s \<in> {PENDING_TRIAGE, CONFIRMED, DEFERRED} \<Longrightarrow> debt_step OP_MERGE s MERGED"
| "s \<in> set OPEN_STATES \<Longrightarrow> debt_step OP_REASSIGN s s"
| "s \<in> {PENDING_TRIAGE, CONFIRMED, PLANNED} \<Longrightarrow> debt_step OP_DEFER s DEFERRED"
| "s \<in> set OPEN_STATES - {ACCEPTED_RISK} \<Longrightarrow> debt_step OP_ACCEPT_RISK s ACCEPTED_RISK"
| "s \<in> set OPEN_STATES - {PLANNED} \<Longrightarrow> debt_step OP_PLAN_LINK s PLANNED"
| "s \<in> set OPEN_STATES - {PENDING_TRIAGE} \<Longrightarrow> debt_step OP_CLOSE s CLOSED"
| "s \<in> set OPEN_STATES \<Longrightarrow> debt_step OP_SUPERSEDE s SUPERSEDED"

inductive_simps debt_step_simps [simp]:
  "debt_step OP_CONFIRM s t" "debt_step OP_REJECT s t" "debt_step OP_MERGE s t" "debt_step OP_REASSIGN s t"
  "debt_step OP_DEFER s t" "debt_step OP_ACCEPT_RISK s t" "debt_step OP_PLAN_LINK s t" "debt_step OP_CLOSE s t"
  "debt_step OP_SUPERSEDE s t"

lemma debt_step_iff: "debt_step ot s t \<longleftrightarrow> transitionAllowed s ot \<and> t = nextState ot s"
  by (cases ot; cases s) (auto simp: transitionAllowed_def OPEN_STATES_def)

text \<open>What no triage touches: identity and evidence of a record.\<close>

definition same_evidence_of :: "debt_aggregate \<Rightarrow> debt_aggregate \<Rightarrow> bool" where
  "same_evidence_of a b \<longleftrightarrow> de_recordId a = de_recordId b \<and> de_projectId a = de_projectId b
     \<and> de_discovery a = de_discovery b \<and> de_rule a = de_rule b \<and> de_locations a = de_locations b
     \<and> de_observationReferences a = de_observationReferences b"

definition link_target :: "debt_operation \<Rightarrow> jsv \<Rightarrow> debt_aggregate option" where
  "link_target ot act = (if ot = OP_MERGE \<or> ot = OP_SUPERSEDE then validPolicyAggregate (jget act ''targetAggregate'') else None)"

lemma apply_operation_facts:
  assumes "apply_operation ot a nb act = Inr (dt, a')"
  shows "same_evidence_of nb a'" and "de_state a' = de_state nb" and "de_eventVersion a' = de_eventVersion nb"
    and "\<exists>t. (ot = OP_MERGE \<longrightarrow> link_target ot act = Some t \<and> sameTargetProject a t \<and> de_duplicateOfRecordId a' = Some (de_recordId t))
           \<and> (ot = OP_SUPERSEDE \<longrightarrow> link_target ot act = Some t \<and> sameTargetProject a t \<and> de_supersededByRecordId a' = Some (de_recordId t))"
    and "ot \<noteq> OP_MERGE \<Longrightarrow> de_duplicateOfRecordId a' = de_duplicateOfRecordId nb"
    and "ot \<noteq> OP_SUPERSEDE \<Longrightarrow> de_supersededByRecordId a' = de_supersededByRecordId nb"
  using assms
  by (cases ot; auto simp: apply_operation_def same_evidence_of_def link_target_def Option.bind_eq_Some_conv
        split: option.splits if_splits)+

lemma triage_Inr:
  assumes "triage a u act = Inr (e, a')"
  obtains b dt where "actionBase act = Some b" and "ab_projectId b = de_projectId a" and "ab_recordId b = de_recordId a"
    and "ab_expectedVersion b = de_eventVersion a" and "debt_step (ab_operation b) (de_state a) (de_state a')"
    and "apply_operation (ab_operation b) a (a\<lparr>de_state := nextState (ab_operation b) (de_state a),
           de_eventVersion := js_succ (de_eventVersion a)\<rparr>) act = Inr (dt, a')"
    and "e = \<lparr>ev_projectId = de_projectId a, ev_recordId = de_recordId a, ev_actorId = au_actorId u,
                         ev_reason = ab_reason b, ev_expectedVersion = de_eventVersion a,
                         ev_resultingVersion = js_succ (de_eventVersion a), ev_occurredAt = ab_occurredAt b,
                         ev_detail = dt\<rparr>"
proof -
  from assms obtain b dt where b: "actionBase act = Some b" "ab_projectId b = de_projectId a" "ab_recordId b = de_recordId a"
    "ab_expectedVersion b = de_eventVersion a" "transitionAllowed (de_state a) (ab_operation b)"
    and ap: "apply_operation (ab_operation b) a (a\<lparr>de_state := nextState (ab_operation b) (de_state a),
           de_eventVersion := js_succ (de_eventVersion a)\<rparr>) act = Inr (dt, a')"
    and e: "e = \<lparr>ev_projectId = de_projectId a, ev_recordId = de_recordId a, ev_actorId = au_actorId u,
                         ev_reason = ab_reason b, ev_expectedVersion = de_eventVersion a,
                         ev_resultingVersion = js_succ (de_eventVersion a), ev_occurredAt = ab_occurredAt b,
                         ev_detail = dt\<rparr>"
    by (auto simp: triage_def Let_def split: option.splits if_splits sum.splits)
  moreover have "debt_step (ab_operation b) (de_state a) (de_state a')"
    using b(5) apply_operation_facts(2) [OF ap] by (simp add: debt_step_iff)
  ultimately show ?thesis using that by blast
qed

lemma triage_facts:
  assumes "triage a u act = Inr (e, a')"
  shows "same_evidence_of a a'" and "de_eventVersion a' = js_succ (de_eventVersion a)"
    and "de_state a \<in> set OPEN_STATES"
proof -
  from assms obtain b dt where "actionBase act = Some b" and s: "debt_step (ab_operation b) (de_state a) (de_state a')"
    and ap: "apply_operation (ab_operation b) a (a\<lparr>de_state := nextState (ab_operation b) (de_state a),
           de_eventVersion := js_succ (de_eventVersion a)\<rparr>) act = Inr (dt, a')"
    by (rule triage_Inr)
  from apply_operation_facts [OF ap] show "same_evidence_of a a'" "de_eventVersion a' = js_succ (de_eventVersion a)"
    by (simp_all add: same_evidence_of_def)
  from s show "de_state a \<in> set OPEN_STATES"
    by (cases "ab_operation b") (auto simp: OPEN_STATES_def)
qed

section \<open>Versions\<close>

text \<open>A triage command is an authority with its action; the version it was prepared against stands in the action.\<close>

definition triage_exec :: "debt_aggregate \<Rightarrow> debt_authority \<times> jsv \<Rightarrow> debt_aggregate option" where
  "triage_exec a c = (case triage a (fst c) (snd c) of Inl code \<Rightarrow> None | Inr (e, a') \<Rightarrow> Some a')"

definition prepared_version :: "debt_authority \<times> jsv \<Rightarrow> int" where
  "prepared_version c = (case actionBase (snd c) of None \<Rightarrow> -1 | Some b \<Rightarrow> ab_expectedVersion b)"

lemma triage_exec_Some: "triage_exec a c = Some a' \<longleftrightarrow> (\<exists>e. triage a (fst c) (snd c) = Inr (e, a'))"
  by (auto simp: triage_exec_def split: sum.splits)

interpretation debt: versioned triage_exec de_eventVersion prepared_version
proof
  fix s c s'
  assume "triage_exec s c = Some s'"
  then obtain e where t: "triage s (fst c) (snd c) = Inr (e, s')" by (auto simp: triage_exec_Some)
  from t show "prepared_version c = de_eventVersion s"
    by (rule triage_Inr) (simp add: prepared_version_def)
  from triage_facts(2) [OF t] show "de_eventVersion s < version_limit \<Longrightarrow> de_eventVersion s' = de_eventVersion s + 1"
    by (simp add: version_limit_def)
qed

section \<open>Links between records\<close>

text \<open>
  A ledger of records, and one triage of it in which the target of a merge or supersession is the
  ledger's own record.
\<close>

type_synonym ledger = "string \<rightharpoonup> debt_aggregate"

inductive ledger_step :: "ledger \<Rightarrow> ledger \<Rightarrow> bool" where
  triaged: "L i = Some a \<Longrightarrow> triage a u act = Inr (e, a')
    \<Longrightarrow> (\<And>b t. actionBase act = Some b \<Longrightarrow> link_target (ab_operation b) act = Some t \<Longrightarrow> L (de_recordId t) = Some t)
    \<Longrightarrow> ledger_step L (L(i \<mapsto> a'))"

inductive ledger_run :: "ledger \<Rightarrow> ledger \<Rightarrow> bool" where
  run_start: "ledger_run L L"
| run_step: "ledger_run L M \<Longrightarrow> ledger_step M N \<Longrightarrow> ledger_run L N"

definition link_of :: "debt_aggregate \<Rightarrow> string set" where
  "link_of a = set_option (de_duplicateOfRecordId a) \<union> set_option (de_supersededByRecordId a)"

definition links :: "ledger \<Rightarrow> (string \<times> string) set" where
  "links L = {(i, j). \<exists>a. L i = Some a \<and> j \<in> link_of a}"

text \<open>Records are filed under their identifier, an open record links nowhere, and the links have no cycle.\<close>

definition ledger_ok :: "ledger \<Rightarrow> bool" where
  "ledger_ok L \<longleftrightarrow> (\<forall>i a. L i = Some a \<longrightarrow> de_recordId a = i \<and> (de_state a \<in> set OPEN_STATES \<longrightarrow> link_of a = {}))
     \<and> acyclic (links L)"

lemma triage_link:
  assumes t: "triage a u act = Inr (e, a')" and "link_of a = {}"
  shows "link_of a' = {} \<or> (\<exists>b t. actionBase act = Some b \<and> link_target (ab_operation b) act = Some t
     \<and> sameTargetProject a t \<and> link_of a' = {de_recordId t} \<and> de_state a' \<notin> set OPEN_STATES)"
proof -
  from t obtain b dt where b: "actionBase act = Some b" and s: "debt_step (ab_operation b) (de_state a) (de_state a')"
    and ap: "apply_operation (ab_operation b) a (a\<lparr>de_state := nextState (ab_operation b) (de_state a),
           de_eventVersion := js_succ (de_eventVersion a)\<rparr>) act = Inr (dt, a')"
    by (rule triage_Inr)
  note f = apply_operation_facts(4-6) [OF ap]
  have none: "de_duplicateOfRecordId a = None" "de_supersededByRecordId a = None"
    using assms(2) by (auto simp: link_of_def)
  show ?thesis
  proof (cases "ab_operation b = OP_MERGE \<or> ab_operation b = OP_SUPERSEDE")
    case True
    with b s f none show ?thesis by (auto simp: link_of_def OPEN_STATES_def)
  next
    case False
    with f none show ?thesis by (auto simp: link_of_def)
  qed
qed

lemma ledger_ok_upd:
  "ledger_ok L \<Longrightarrow> de_recordId a' = i \<Longrightarrow> (de_state a' \<in> set OPEN_STATES \<longrightarrow> link_of a' = {})
     \<Longrightarrow> acyclic (links (L(i \<mapsto> a'))) \<Longrightarrow> ledger_ok (L(i \<mapsto> a'))"
  unfolding ledger_ok_def by (rule conjI) (simp_all add: fun_upd_def)

lemma ledger_step_ok: "ledger_step L M \<Longrightarrow> ledger_ok L \<Longrightarrow> ledger_ok M"
proof (induction rule: ledger_step.induct)
  case (triaged L i a u act e a')
  from triaged have rec: "de_recordId a = i" and nolink: "link_of a = {}"
    using triage_facts(3) [OF triaged.hyps(2)] by (auto simp: ledger_ok_def)
  have rec': "de_recordId a' = i" using triage_facts(1) [OF triaged.hyps(2)] rec by (simp add: same_evidence_of_def)
  have links': "links (L(i \<mapsto> a')) = links L \<union> {i} \<times> link_of a'"
    using triaged.hyps(1) nolink by (auto simp: links_def split: if_splits)
  consider (none) "link_of a' = {}" | (linked) b t where "actionBase act = Some b" "link_target (ab_operation b) act = Some t"
      "sameTargetProject a t" "link_of a' = {de_recordId t}" "de_state a' \<notin> set OPEN_STATES"
    using triage_link [OF triaged.hyps(2) nolink] by blast
  then show ?case
  proof cases
    case none
    then have ac: "acyclic (links (L(i \<mapsto> a')))" using triaged.prems by (simp add: links' ledger_ok_def)
    from none have "de_state a' \<in> set OPEN_STATES \<longrightarrow> link_of a' = {}" by simp
    then show ?thesis by (rule ledger_ok_upd [OF triaged.prems rec' _ ac])
  next
    case linked
    then have t: "L (de_recordId t) = Some t" using triaged.hyps(3) by blast
    have tgt: "de_recordId t \<noteq> i" "de_state t \<in> set OPEN_STATES"
      using linked(3) rec by (auto simp: sameTargetProject_def)
    have ne: "de_recordId t \<noteq> i" by (rule tgt(1))
    have stop: "link_of t = {}"
      using t tgt(2) triaged.prems unfolding ledger_ok_def by blast
    have "(de_recordId t, i) \<notin> (links L)\<^sup>*"
    proof
      assume "(de_recordId t, i) \<in> (links L)\<^sup>*"
      with ne obtain j where "(de_recordId t, j) \<in> links L" by (meson converse_rtranclE)
      with t stop show False by (auto simp: links_def)
    qed
    then have ac: "acyclic (links (L(i \<mapsto> a')))"
      using triaged.prems linked(4) by (simp add: links' ledger_ok_def acyclic_insert)
    from linked(5) have "de_state a' \<in> set OPEN_STATES \<longrightarrow> link_of a' = {}" by simp
    then show ?thesis by (rule ledger_ok_upd [OF triaged.prems rec' _ ac])
  qed
qed

section \<open>The guards and the well-formed records\<close>

definition ok_list :: "(string \<Rightarrow> bool) \<Rightarrow> string list \<Rightarrow> bool" where
  "ok_list P xs \<longleftrightarrow> length xs \<le> 128 \<and> (\<forall>x\<in>set xs. P x) \<and> sortedUnique xs"

definition ok_trigger :: "debt_trigger \<Rightarrow> bool" where
  "ok_trigger g \<longleftrightarrow> text_ok 256 (tg_triggerId g) \<and> text_ok 4096 (tg_name g) \<and> ok_list path_ok (tg_paths g)
     \<and> ok_list (text_ok 4096) (tg_symbols g) \<and> ok_list (text_ok 4096) (tg_ruleTags g)
     \<and> 0 < length (tg_paths g) + length (tg_symbols g) + length (tg_ruleTags g)"

definition ok_reference :: "debt_reference \<Rightarrow> bool" where
  "ok_reference r \<longleftrightarrow> text_ok 256 (rf_artifactId r) \<and> rx_full SHA256_HEX_RE (rf_contentHash r) \<and> path_ok (rf_relativePath r)"

definition ok_location :: "debt_location \<Rightarrow> bool" where
  "ok_location l \<longleftrightarrow> text_ok 256 (lo_locationId l) \<and> path_ok (lo_relativePath l)
     \<and> (\<forall>s\<in>set_option (lo_symbol l). text_ok 256 s) \<and> (\<forall>s\<in>set_option (lo_endpoint l). text_ok 256 s)
     \<and> ok_list (text_ok 4096) (lo_ruleTags l)"

definition ok_discovery :: "debt_discovery \<Rightarrow> bool" where
  "ok_discovery d \<longleftrightarrow> text_ok 256 (dy_featureId d) \<and> 0 \<le> dy_phaseNumber d \<and> text_ok 256 (dy_reviewGateId d)
     \<and> text_ok 256 (dy_findingId d) \<and> ok_reference (dy_manifest d) \<and> ok_reference (dy_observation d)"

definition ok_rule :: "debt_rule \<Rightarrow> bool" where
  "ok_rule r \<longleftrightarrow> text_ok 256 (ru_ruleId r) \<and> text_ok 256 (ru_ruleVersion r) \<and> rx_full SHA256_HEX_RE (ru_ruleHash r)
     \<and> rx_full SHA256_HEX_RE (ru_catalogHash r) \<and> text_ok 128 (ru_category r) \<and> path_ok (ru_sourceReference r)"

definition ok_debt :: "debt_aggregate \<Rightarrow> bool" where
  "ok_debt a \<longleftrightarrow> rx_full RECORD_ID_RE (de_recordId a) \<and> text_ok 256 (de_projectId a) \<and> 0 \<le> de_eventVersion a
     \<and> text_ok 256 (de_ownerId a) \<and> text_ok 4096 (de_rationale a) \<and> text_ok 4096 (de_risk a)
     \<and> text_ok 256 (de_architecturalBoundary a) \<and> ok_trigger (de_futureTouchTrigger a)
     \<and> ok_discovery (de_discovery a) \<and> ok_rule (de_rule a)
     \<and> 0 < length (de_locations a) \<and> length (de_locations a) \<le> 128 \<and> (\<forall>l\<in>set (de_locations a). ok_location l)
     \<and> distinct (map lo_locationId (de_locations a))
     \<and> 0 < length (de_observationReferences a) \<and> length (de_observationReferences a) \<le> 128
     \<and> (\<forall>r\<in>set (de_observationReferences a). ok_reference r)
     \<and> (\<forall>i\<in>set_option (de_duplicateOfRecordId a). rx_full RECORD_ID_RE i)
     \<and> (\<forall>i\<in>set_option (de_supersededByRecordId a). rx_full RECORD_ID_RE i)"

text \<open>The records as plain data.\<close>

definition put_list :: "string list \<Rightarrow> jsv" where
  "put_list xs = JArr (map JStr xs)"

definition put_trigger :: "debt_trigger \<Rightarrow> jsv" where
  "put_trigger g = JObj [(''triggerId'', JStr (tg_triggerId g)), (''name'', JStr (tg_name g)),
     (''paths'', put_list (tg_paths g)), (''symbols'', put_list (tg_symbols g)), (''ruleTags'', put_list (tg_ruleTags g))]"

definition put_reference :: "string \<Rightarrow> debt_reference \<Rightarrow> jsv" where
  "put_reference k r = JObj [(''artifactKind'', JStr k), (''artifactId'', JStr (rf_artifactId r)),
     (''contentHash'', JStr (rf_contentHash r)), (''relativePath'', JStr (rf_relativePath r))]"

definition put_location :: "debt_location \<Rightarrow> jsv" where
  "put_location l = JObj ([(''locationId'', JStr (lo_locationId l)), (''relativePath'', JStr (lo_relativePath l))]
     @ opt_prop ''symbol'' JStr (lo_symbol l) @ opt_prop ''endpoint'' JStr (lo_endpoint l)
     @ [(''ruleTags'', put_list (lo_ruleTags l))])"

definition put_discovery :: "debt_discovery \<Rightarrow> jsv" where
  "put_discovery d = JObj [(''featureId'', JStr (dy_featureId d)), (''phaseNumber'', JNum (JInt (dy_phaseNumber d))),
     (''reviewGateId'', JStr (dy_reviewGateId d)), (''findingId'', JStr (dy_findingId d)),
     (''manifest'', put_reference ''review_manifest'' (dy_manifest d)),
     (''observation'', put_reference ''debt_observation'' (dy_observation d)),
     (''currentFeatureImpact'', JStr ''untouched_non_blocking'')]"

definition put_rule :: "debt_rule \<Rightarrow> jsv" where
  "put_rule r = JObj [(''ruleId'', JStr (ru_ruleId r)), (''ruleVersion'', JStr (ru_ruleVersion r)),
     (''ruleHash'', JStr (ru_ruleHash r)), (''catalogHash'', JStr (ru_catalogHash r)),
     (''category'', JStr (ru_category r)), (''sourceReference'', JStr (ru_sourceReference r))]"

definition put_debt :: "debt_aggregate \<Rightarrow> jsv" where
  "put_debt a = JObj ([(''schemaVersion'', JNum (JInt 1)), (''recordId'', JStr (de_recordId a)),
     (''projectId'', JStr (de_projectId a)), (''eventVersion'', JNum (JInt (de_eventVersion a))),
     (''state'', enum_put DEBT_STATES (de_state a)), (''ownerId'', JStr (de_ownerId a)),
     (''rationale'', JStr (de_rationale a)), (''risk'', JStr (de_risk a)),
     (''architecturalBoundary'', JStr (de_architecturalBoundary a)), (''priority'', enum_put PRIORITIES (de_priority a)),
     (''prioritySource'', enum_put PRIORITY_SOURCES (de_prioritySource a)),
     (''futureTouchTrigger'', put_trigger (de_futureTouchTrigger a)), (''discovery'', put_discovery (de_discovery a)),
     (''rule'', put_rule (de_rule a)), (''locations'', JArr (map put_location (de_locations a))),
     (''observationReferences'', JArr (map (put_reference ''debt_observation'') (de_observationReferences a)))]
     @ opt_prop ''duplicateOfRecordId'' JStr (de_duplicateOfRecordId a)
     @ opt_prop ''supersededByRecordId'' JStr (de_supersededByRecordId a))"

lemma debt_state_roundtrip [simp]: "enum_of DEBT_STATES (enum_put DEBT_STATES s) = Some s"
  by (cases s; simp add: enum_of_def enum_put_def DEBT_STATES_def)

lemma priority_roundtrip [simp]: "enum_of PRIORITIES (enum_put PRIORITIES s) = Some s"
  by (cases s; simp add: enum_of_def enum_put_def PRIORITIES_def)

lemma priority_source_roundtrip [simp]: "enum_of PRIORITY_SOURCES (enum_put PRIORITY_SOURCES s) = Some s"
  by (cases s; simp add: enum_of_def enum_put_def PRIORITY_SOURCES_def)

lemma enum_put_defined [simp]: "enum_of names (enum_put names x) = Some x \<Longrightarrow> enum_put names x \<noteq> JUndef"
  by (auto simp: enum_of_def)

lemmas dguard_defs = dtext_def dident_def dpath_def dtime_def dhash_def drecord_id_def

lemma dguard_Some [simp]:
  "dtext v = Some s \<longleftrightarrow> v = JStr s \<and> text_ok 4096 s" "dident n v = Some s \<longleftrightarrow> v = JStr s \<and> text_ok n s"
  "dpath v = Some s \<longleftrightarrow> v = JStr s \<and> path_ok s" "dhash v = Some s \<longleftrightarrow> v = JStr s \<and> rx_full SHA256_HEX_RE s"
  "drecord_id v = Some s \<longleftrightarrow> v = JStr s \<and> rx_full RECORD_ID_RE s" "dtime v = Some s \<longleftrightarrow> v = JStr s \<and> utc_ok s"
  by (simp_all add: dguard_defs)

lemma dguard_put [simp]:
  "text_ok 4096 s \<Longrightarrow> dtext (JStr s) = Some s" "text_ok n s \<Longrightarrow> dident n (JStr s) = Some s"
  "path_ok s \<Longrightarrow> dpath (JStr s) = Some s" "rx_full SHA256_HEX_RE s \<Longrightarrow> dhash (JStr s) = Some s"
  "rx_full RECORD_ID_RE s \<Longrightarrow> drecord_id (JStr s) = Some s"
  by simp_all

lemma stringList_ok:
  "stringList p v = Some xs \<Longrightarrow> (\<And>w s. p w = Some s \<Longrightarrow> P s) \<Longrightarrow> ok_list P xs"
  unfolding stringList_def ok_list_def
  by (auto simp: Option.bind_eq_Some_conv split: if_splits dest: parse_all_length parse_all_inv [where P = P])

lemma stringList_put:
  "ok_list P xs \<Longrightarrow> (\<And>s. P s \<Longrightarrow> p (JStr s) = Some s) \<Longrightarrow> stringList p (put_list xs) = Some xs"
  by (simp add: stringList_def put_list_def ok_list_def)

lemma stringList_puts [simp]:
  "ok_list path_ok xs \<Longrightarrow> stringList dpath (put_list xs) = Some xs"
  "ok_list (text_ok 4096) xs \<Longrightarrow> stringList dtext (put_list xs) = Some xs"
  by (rule stringList_put; simp)+

lemma put_list_defined [simp]: "put_list xs \<noteq> JUndef"
  by (simp add: put_list_def)

lemma validTrigger_put [simp]: "ok_trigger g \<Longrightarrow> validTrigger (put_trigger g) = Some g"
  by (simp add: validTrigger_def put_trigger_def ok_trigger_def exactKeys_def)

lemma validTrigger_ok: "validTrigger v = Some g \<Longrightarrow> ok_trigger g"
  using stringList_ok [of dpath _ _ path_ok] stringList_ok [of dtext _ _ "text_ok 4096"]
  by (fastforce simp: validTrigger_def ok_trigger_def Option.bind_eq_Some_conv split: if_splits)

lemma validReference_put [simp]: "ok_reference r \<Longrightarrow> validReference k (put_reference k r) = Some r"
  by (simp add: validReference_def put_reference_def ok_reference_def exactKeys_def)

lemma validReference_ok: "validReference k v = Some r \<Longrightarrow> ok_reference r"
  by (auto simp: validReference_def ok_reference_def Option.bind_eq_Some_conv split: if_splits)

lemma validLocation_put [simp]: "ok_location l \<Longrightarrow> validLocation (put_location l) = Some l"
  by (cases "lo_symbol l"; cases "lo_endpoint l")
     (simp_all add: validLocation_def put_location_def ok_location_def exactKeys_def present_def opt_prop_def
        opt_field_def)

lemma validLocation_ok: "validLocation v = Some l \<Longrightarrow> ok_location l"
  using stringList_ok [of dtext _ _ "text_ok 4096"]
  by (fastforce simp: validLocation_def ok_location_def Option.bind_eq_Some_conv opt_field_Some split: if_splits)

lemma validDiscovery_put [simp]: "ok_discovery d \<Longrightarrow> validDiscovery (put_discovery d) = Some d"
  by (simp add: validDiscovery_def put_discovery_def ok_discovery_def exactKeys_def as_nat_int_def)

lemma validDiscovery_ok: "validDiscovery v = Some d \<Longrightarrow> ok_discovery d"
  by (auto simp: validDiscovery_def ok_discovery_def Option.bind_eq_Some_conv split: if_splits dest: validReference_ok)

lemma validRule_put [simp]: "ok_rule r \<Longrightarrow> validRule (put_rule r) = Some r"
  by (simp add: validRule_def put_rule_def ok_rule_def exactKeys_def)

lemma validRule_ok: "validRule v = Some r \<Longrightarrow> ok_rule r"
  by (auto simp: validRule_def ok_rule_def Option.bind_eq_Some_conv split: if_splits)

lemma put_parts_defined [simp]:
  "put_trigger g \<noteq> JUndef" "put_discovery d \<noteq> JUndef" "put_rule r \<noteq> JUndef"
  by (simp_all add: put_trigger_def put_discovery_def put_rule_def)

definition opt_str :: "string option \<Rightarrow> jsv" where
  "opt_str x = (case x of None \<Rightarrow> JUndef | Some s \<Rightarrow> JStr s)"

lemma put_debt_get:
  "jget (put_debt a) ''schemaVersion'' = JNum (JInt 1)" "jget (put_debt a) ''recordId'' = JStr (de_recordId a)"
  "jget (put_debt a) ''projectId'' = JStr (de_projectId a)"
  "jget (put_debt a) ''eventVersion'' = JNum (JInt (de_eventVersion a))"
  "jget (put_debt a) ''state'' = enum_put DEBT_STATES (de_state a)" "jget (put_debt a) ''ownerId'' = JStr (de_ownerId a)"
  "jget (put_debt a) ''rationale'' = JStr (de_rationale a)" "jget (put_debt a) ''risk'' = JStr (de_risk a)"
  "jget (put_debt a) ''architecturalBoundary'' = JStr (de_architecturalBoundary a)"
  "jget (put_debt a) ''priority'' = enum_put PRIORITIES (de_priority a)"
  "jget (put_debt a) ''prioritySource'' = enum_put PRIORITY_SOURCES (de_prioritySource a)"
  "jget (put_debt a) ''futureTouchTrigger'' = put_trigger (de_futureTouchTrigger a)"
  "jget (put_debt a) ''discovery'' = put_discovery (de_discovery a)" "jget (put_debt a) ''rule'' = put_rule (de_rule a)"
  "jget (put_debt a) ''locations'' = JArr (map put_location (de_locations a))"
  "jget (put_debt a) ''observationReferences'' = JArr (map (put_reference ''debt_observation'') (de_observationReferences a))"
  by (simp_all add: put_debt_def)

lemma put_debt_get_links:
  "jget (put_debt a) ''duplicateOfRecordId'' = opt_str (de_duplicateOfRecordId a)"
  "jget (put_debt a) ''supersededByRecordId'' = opt_str (de_supersededByRecordId a)"
  by (cases "de_duplicateOfRecordId a"; cases "de_supersededByRecordId a"; simp add: put_debt_def opt_prop_def opt_str_def)+

lemma put_debt_record [simp]: "isRecord (put_debt a)"
  by (simp add: put_debt_def)

definition debt_keys :: "string list" where
  "debt_keys = [''schemaVersion'', ''recordId'', ''projectId'', ''eventVersion'', ''state'', ''ownerId'', ''rationale'',
     ''risk'', ''architecturalBoundary'', ''priority'', ''prioritySource'', ''futureTouchTrigger'', ''discovery'', ''rule'',
     ''locations'', ''observationReferences'']"

lemma put_debt_keys:
  "jkeys (put_debt a) = debt_keys @ (if de_duplicateOfRecordId a = None then [] else [''duplicateOfRecordId''])
     @ (if de_supersededByRecordId a = None then [] else [''supersededByRecordId''])"
  by (auto simp: put_debt_def debt_keys_def opt_prop_def)

lemma opt_str_field [simp]: "\<forall>i\<in>set_option x. rx_full RECORD_ID_RE i \<Longrightarrow> opt_field drecord_id (opt_str x) = Some x"
  by (cases x) (simp_all add: opt_field_def opt_str_def)

lemma opt_str_undef [simp]: "opt_str x = JUndef \<longleftrightarrow> x = None"
  by (cases x) (simp_all add: opt_str_def)

lemma exactKeys_same: "jkeys v = ks \<Longrightarrow> exactKeys v ks"
  by (simp add: exactKeys_def list_all_iff)

lemma put_debt_exact: "exactKeys (put_debt a) (present (put_debt a) (debt_keys @ [''duplicateOfRecordId'', ''supersededByRecordId'']))"
  by (rule exactKeys_same) (simp add: put_debt_keys present_def debt_keys_def put_debt_get put_debt_get_links)

lemma validPolicyAggregate_put [simp]: "ok_debt a \<Longrightarrow> validPolicyAggregate (put_debt a) = Some a"
proof -
  assume ok: "ok_debt a"
  have ex: "exactKeys (put_debt a) (present (put_debt a) [''schemaVersion'', ''recordId'', ''projectId'', ''eventVersion'',
       ''state'', ''ownerId'', ''rationale'', ''risk'', ''architecturalBoundary'', ''priority'', ''prioritySource'',
       ''futureTouchTrigger'', ''discovery'', ''rule'', ''locations'', ''observationReferences'',
       ''duplicateOfRecordId'', ''supersededByRecordId'']) = True"
    using put_debt_exact [of a, unfolded debt_keys_def append.simps] by simp
  note f = ok [unfolded ok_debt_def]
  show ?thesis
    unfolding validPolicyAggregate_def ex put_debt_get put_debt_get_links
    using f by (simp add: as_nat_int_def)
qed

lemma validPolicyAggregate_parts:
  assumes "validPolicyAggregate v = Some a"
  shows "drecord_id (jget v ''recordId'') = Some (de_recordId a) \<and> dident 256 (jget v ''projectId'') = Some (de_projectId a)
    \<and> as_nat_int (jget v ''eventVersion'') = Some (de_eventVersion a) \<and> dident 256 (jget v ''ownerId'') = Some (de_ownerId a)
    \<and> dtext (jget v ''rationale'') = Some (de_rationale a) \<and> dtext (jget v ''risk'') = Some (de_risk a)
    \<and> dident 256 (jget v ''architecturalBoundary'') = Some (de_architecturalBoundary a)
    \<and> validTrigger (jget v ''futureTouchTrigger'') = Some (de_futureTouchTrigger a)
    \<and> validDiscovery (jget v ''discovery'') = Some (de_discovery a) \<and> validRule (jget v ''rule'') = Some (de_rule a)
    \<and> (\<exists>xs. 0 < length xs \<and> length xs \<le> 128 \<and> parse_all validLocation xs = Some (de_locations a))
    \<and> distinct (map lo_locationId (de_locations a))
    \<and> (\<exists>xs. 0 < length xs \<and> length xs \<le> 128
       \<and> parse_all (validReference ''debt_observation'') xs = Some (de_observationReferences a))
    \<and> opt_field drecord_id (jget v ''duplicateOfRecordId'') = Some (de_duplicateOfRecordId a)
    \<and> opt_field drecord_id (jget v ''supersededByRecordId'') = Some (de_supersededByRecordId a)"
  using assms unfolding validPolicyAggregate_def
  apply (elim bind_SomeE)
  apply (simp only: option.inject chk_Some hasUniqueValues_distinct)
  apply (hypsubst)
  apply simp
  apply (elim conjE)
  apply (rule conjI; blast)
  done

lemma opt_record_id_ok:
  "opt_field drecord_id v = Some x \<Longrightarrow> \<forall>i\<in>set_option x. rx_full RECORD_ID_RE i"
  by (auto simp: opt_field_Some)

lemma validPolicyAggregate_ok:
  assumes "validPolicyAggregate v = Some a"
  shows "ok_debt a"
proof -
  from validPolicyAggregate_parts [OF assms]
  obtain xs ys where scalars: "drecord_id (jget v ''recordId'') = Some (de_recordId a)"
      "dident 256 (jget v ''projectId'') = Some (de_projectId a)"
      "as_nat_int (jget v ''eventVersion'') = Some (de_eventVersion a)" "dident 256 (jget v ''ownerId'') = Some (de_ownerId a)"
      "dtext (jget v ''rationale'') = Some (de_rationale a)" "dtext (jget v ''risk'') = Some (de_risk a)"
      "dident 256 (jget v ''architecturalBoundary'') = Some (de_architecturalBoundary a)"
    and parts: "validTrigger (jget v ''futureTouchTrigger'') = Some (de_futureTouchTrigger a)"
      "validDiscovery (jget v ''discovery'') = Some (de_discovery a)" "validRule (jget v ''rule'') = Some (de_rule a)"
    and xs: "0 < length xs" "length xs \<le> 128" "parse_all validLocation xs = Some (de_locations a)"
      "distinct (map lo_locationId (de_locations a))"
    and ys: "0 < length ys" "length ys \<le> 128" "parse_all (validReference ''debt_observation'') ys = Some (de_observationReferences a)"
    and links: "opt_field drecord_id (jget v ''duplicateOfRecordId'') = Some (de_duplicateOfRecordId a)"
      "opt_field drecord_id (jget v ''supersededByRecordId'') = Some (de_supersededByRecordId a)"
    by (elim conjE exE) (rule that)
  have "\<forall>l\<in>set (de_locations a). ok_location l"
    using parse_all_inv [OF xs(3)] validLocation_ok by blast
  moreover have "\<forall>r\<in>set (de_observationReferences a). ok_reference r"
    using parse_all_inv [OF ys(3)] validReference_ok by blast
  ultimately show ?thesis
    unfolding ok_debt_def
    using scalars xs ys parse_all_length [OF xs(3)] parse_all_length [OF ys(3)]
      validTrigger_ok [OF parts(1)] validDiscovery_ok [OF parts(2)] validRule_ok [OF parts(3)]
      opt_record_id_ok [OF links(1)] opt_record_id_ok [OF links(2)]
    by simp
qed

lemma ok_debt_updates:
  "ok_debt a \<Longrightarrow> text_ok 256 x \<Longrightarrow> ok_debt (a\<lparr>de_ownerId := x\<rparr>)"
  "ok_debt a \<Longrightarrow> rx_full RECORD_ID_RE x \<Longrightarrow> ok_debt (a\<lparr>de_duplicateOfRecordId := Some x\<rparr>)"
  "ok_debt a \<Longrightarrow> rx_full RECORD_ID_RE x \<Longrightarrow> ok_debt (a\<lparr>de_supersededByRecordId := Some x\<rparr>)"
  "ok_debt a \<Longrightarrow> 0 \<le> n \<Longrightarrow> ok_debt (a\<lparr>de_state := s, de_eventVersion := n\<rparr>)"
  "ok_debt a \<Longrightarrow> text_ok 256 x \<Longrightarrow> text_ok 4096 ra \<Longrightarrow> text_ok 4096 ri \<Longrightarrow> text_ok 256 ab \<Longrightarrow> ok_trigger tg
     \<Longrightarrow> ok_debt (a\<lparr>de_ownerId := x, de_rationale := ra, de_risk := ri, de_architecturalBoundary := ab,
           de_priority := pr, de_prioritySource := ps, de_futureTouchTrigger := tg\<rparr>)"
  unfolding ok_debt_def by simp_all

lemma target_id_ok: "validPolicyAggregate w = Some t \<Longrightarrow> rx_full RECORD_ID_RE (de_recordId t)"
  using validPolicyAggregate_ok by (simp add: ok_debt_def)

lemma apply_operation_ok:
  "apply_operation ot a nb act = Inr (dt, a') \<Longrightarrow> ok_debt nb \<Longrightarrow> ok_debt a'"
  by (cases ot) (auto simp: apply_operation_def Option.bind_eq_Some_conv split: option.splits if_splits
        intro!: ok_debt_updates dest: validTrigger_ok target_id_ok)

lemma triage_ok:
  assumes "triage a u act = Inr (e, a')" and "ok_debt a"
  shows "ok_debt a'"
proof -
  from assms(1) obtain b dt where "actionBase act = Some b"
    and ap: "apply_operation (ab_operation b) a (a\<lparr>de_state := nextState (ab_operation b) (de_state a),
           de_eventVersion := js_succ (de_eventVersion a)\<rparr>) act = Inr (dt, a')"
    by (rule triage_Inr)
  have "0 \<le> js_succ (de_eventVersion a)"
    using js_succ_ge [of "de_eventVersion a"] assms(2) by (simp add: ok_debt_def)
  then have "ok_debt (a\<lparr>de_state := nextState (ab_operation b) (de_state a), de_eventVersion := js_succ (de_eventVersion a)\<rparr>)"
    by (rule ok_debt_updates(4) [OF assms(2)])
  with ap show ?thesis by (rule apply_operation_ok)
qed

section \<open>Concrete records\<close>

lemma rx_match_lit: "rx_match (rx_lit s) t \<longleftrightarrow> t = s"
proof (induction s arbitrary: t rule: rx_lit.induct)
  case 1
  then show ?case by simp
next
  case (2 c)
  then show ?case by auto
next
  case (3 c d s)
  then show ?case by (auto simp: rx_match_seq_cls)
qed

lemma sample_debt_text [simp]: "2 \<le> n \<Longrightarrow> text_ok n ''aa''" "2 \<le> n \<Longrightarrow> text_ok n ''bb''"
  using plain_text_safe [of "''aa''"] plain_text_safe [of "''bb''"]
  by (simp_all del: rx_test.simps add: text_ok_def isReviewContractSafeString_def debt_control_def char_eval Let_def startsWith_def)

lemma sample_debt_path [simp]: "path_ok ''aa''"
  by (simp add: path_ok_def startsWith_def rx_eval char_eval)

lemma sample_debt_hash [simp]: "rx_full SHA256_HEX_RE (replicate 64 CHR ''a'')"
  by (simp add: sha256_text list_all_iff char_eval)

definition sample_id :: "char \<Rightarrow> string" where
  "sample_id c = ''ARCH-DEBT-'' @ replicate 32 c"

lemma sample_id_ok [simp]: "rx_full RECORD_ID_RE (sample_id CHR ''a'')" "rx_full RECORD_ID_RE (sample_id CHR ''b'')"
proof -
  have "rx_match RECORD_ID_RE (''ARCH-DEBT-'' @ replicate 32 c)" if "is_hex c" for c
    unfolding RECORD_ID_RE_def by (rule m_seq) (simp_all only: rx_match_lit rx_match_times_cls, simp add: that list_all_iff)
  then show "rx_full RECORD_ID_RE (sample_id CHR ''a'')" "rx_full RECORD_ID_RE (sample_id CHR ''b'')"
    by (simp_all add: rx_full_iff sample_id_def char_eval)
qed

lemma sample_id_distinct [simp]:
  "sample_id CHR ''a'' \<noteq> sample_id CHR ''b''" "sample_id CHR ''b'' \<noteq> sample_id CHR ''a''"
  by (simp_all add: sample_id_def replicate_eq_replicate)

definition sample_reference :: debt_reference where
  "sample_reference = \<lparr>rf_artifactId = ''aa'', rf_contentHash = replicate 64 CHR ''a'', rf_relativePath = ''aa''\<rparr>"

definition sample_debt :: "char \<Rightarrow> debt_state \<Rightarrow> debt_aggregate" where
  "sample_debt c s = \<lparr>de_recordId = sample_id c, de_projectId = ''aa'', de_eventVersion = 1, de_state = s,
     de_ownerId = ''aa'', de_rationale = ''aa'', de_risk = ''aa'', de_architecturalBoundary = ''aa'', de_priority = P2,
     de_prioritySource = AUTO_PENDING_DEFAULT,
     de_futureTouchTrigger = \<lparr>tg_triggerId = ''aa'', tg_name = ''aa'', tg_paths = [''aa''], tg_symbols = [], tg_ruleTags = []\<rparr>,
     de_discovery = \<lparr>dy_featureId = ''aa'', dy_phaseNumber = 1, dy_reviewGateId = ''aa'', dy_findingId = ''aa'',
       dy_manifest = sample_reference, dy_observation = sample_reference\<rparr>,
     de_rule = \<lparr>ru_ruleId = ''aa'', ru_ruleVersion = ''aa'', ru_ruleHash = replicate 64 CHR ''a'',
       ru_catalogHash = replicate 64 CHR ''a'', ru_category = ''aa'', ru_sourceReference = ''aa''\<rparr>,
     de_locations = [\<lparr>lo_locationId = ''aa'', lo_relativePath = ''aa'', lo_symbol = None, lo_endpoint = None, lo_ruleTags = []\<rparr>],
     de_observationReferences = [sample_reference], de_duplicateOfRecordId = None, de_supersededByRecordId = None\<rparr>"

lemma sample_debt_fields [simp]:
  "de_recordId (sample_debt c s) = sample_id c" "de_state (sample_debt c s) = s" "de_projectId (sample_debt c s) = ''aa''"
  "de_eventVersion (sample_debt c s) = 1" "de_duplicateOfRecordId (sample_debt c s) = None"
  "de_supersededByRecordId (sample_debt c s) = None" "link_of (sample_debt c s) = {}"
  by (simp_all add: sample_debt_def link_of_def)

lemma sample_debt_ok [simp]: "ok_debt (sample_debt CHR ''a'' s)" "ok_debt (sample_debt CHR ''b'' s)"
  by (simp_all add: ok_debt_def sample_debt_def ok_trigger_def ok_list_def ok_discovery_def ok_reference_def ok_rule_def
        ok_location_def sample_reference_def)

definition sample_utc :: string where
  "sample_utc = ''2026-02-28T10:11:12Z''"

lemma sample_utc_ok [simp]: "utc_ok sample_utc"
proof -
  have "rx_full UTC_RE ''2026-02-28T10:11:12Z''"
    by (simp add: UTC_RE_def rx_eval char_eval)
  then show ?thesis
    by (simp del: rx_full.simps add: utc_ok_def sample_utc_def digits_at_def char_eval Let_def)
qed

lemma sample_utc_guard [simp]: "dtime (JStr sample_utc) = Some sample_utc"
  by simp

definition sample_action :: "string \<Rightarrow> (string \<times> jsv) list \<Rightarrow> jsv" where
  "sample_action ot rest = JObj ([(''operation'', JStr ot), (''projectId'', JStr ''aa''),
     (''recordId'', JStr (sample_id CHR ''a'')), (''expectedVersion'', JNum (JInt 1)), (''reason'', JStr ''aa''),
     (''occurredAt'', JStr sample_utc)] @ rest)"

definition sample_merge :: jsv where
  "sample_merge = sample_action ''MERGE'' [(''targetAggregate'', put_debt (sample_debt CHR ''b'' CONFIRMED))]"

definition sample_merged :: debt_aggregate where
  "sample_merged = (sample_debt CHR ''a'' PENDING_TRIAGE)\<lparr>de_state := MERGED, de_eventVersion := 2,
     de_duplicateOfRecordId := Some (sample_id CHR ''b'')\<rparr>"

lemma sample_merged_fields [simp]:
  "de_state sample_merged = MERGED" "de_eventVersion sample_merged = 2" "de_recordId sample_merged = sample_id CHR ''a''"
  "link_of sample_merged = {sample_id CHR ''b''}"
  by (simp_all add: sample_merged_def link_of_def)

lemma sample_merge_base:
  "actionBase sample_merge = Some \<lparr>ab_operation = OP_MERGE, ab_projectId = ''aa'', ab_recordId = sample_id CHR ''a'',
     ab_expectedVersion = 1, ab_reason = ''aa'', ab_occurredAt = sample_utc\<rparr>"
  by (simp add: actionBase_def sample_merge_def sample_action_def enum_of_def OPERATIONS_def as_nat_int_def)

lemma sample_merge_target [simp]: "link_target OP_MERGE sample_merge = Some (sample_debt CHR ''b'' CONFIRMED)"
  by (simp add: link_target_def sample_merge_def sample_action_def)

lemma sample_merge_keys: "exactKeys sample_merge (base_keys @ [''targetAggregate''])"
  by (rule exactKeys_same) (simp add: sample_merge_def sample_action_def base_keys_def)

lemma sample_triage:
  "\<exists>e. triage (sample_debt CHR ''a'' PENDING_TRIAGE) u sample_merge = Inr (e, sample_merged)"
  using sample_merge_target sample_merge_keys sample_id_distinct
  by (simp add: triage_def sample_merge_base apply_operation_def link_target_def transitionAllowed_def
        sameTargetProject_def targetCreatesCycle_def OPEN_STATES_def sample_merged_def)

definition sample_triage_input :: jsv where
  "sample_triage_input = JObj [(''aggregate'', put_debt (sample_debt CHR ''a'' PENDING_TRIAGE)),
     (''authority'', JObj [(''actorId'', JStr ''bb''), (''verifiedRole'', JStr ''ARCHITECTURE_STEWARD'')]),
     (''action'', sample_merge)]"

lemma sample_triage_envelope:
  "triage_envelope sample_triage_input = Some (sample_debt CHR ''a'' PENDING_TRIAGE, \<lparr>au_actorId = ''bb''\<rparr>, sample_merge)"
proof -
  have "isRecord sample_merge" by (simp add: sample_merge_def sample_action_def)
  then show ?thesis
    by (simp add: triage_envelope_def sample_triage_input_def exactKeys_def validDebtAuthority_def)
qed

lemma sample_triage_outcome:
  "\<exists>e. evaluateArchitectureDebtTriage sample_triage_input = Inr (e, sample_merged)"
  using sample_triage [of "\<lparr>au_actorId = ''bb''\<rparr>"]
  by (simp add: evaluateArchitectureDebtTriage_def sample_triage_envelope)

section \<open>Properties of triage\<close>

text \<open>C29. An accepted triage is a governed step of the record the action names: it is prepared against the
  current version and moves to the next one, it keeps the record's identity and evidence, and its event
  names the authenticated actor and both versions.\<close>

theorem debt_triage_governed:
  assumes "triage_envelope v = Some (a, u, act)" and "evaluateArchitectureDebtTriage v = Inr (e, a')"
  shows "\<exists>b. actionBase act = Some b \<and> ab_recordId b = de_recordId a \<and> ab_projectId b = de_projectId a
     \<and> ab_expectedVersion b = de_eventVersion a
     \<and> debt_step (ab_operation b) (de_state a) (de_state a') \<and> same_evidence_of a a'
     \<and> de_eventVersion a' = js_succ (de_eventVersion a)
     \<and> ev_actorId e = au_actorId u \<and> ev_recordId e = de_recordId a \<and> ev_reason e = ab_reason b
     \<and> ev_expectedVersion e = de_eventVersion a \<and> ev_resultingVersion e = de_eventVersion a'"
proof -
  have t: "triage a u act = Inr (e, a')" using assms by (simp add: evaluateArchitectureDebtTriage_def)
  from triage_facts(1,2) [OF t] t show ?thesis by (elim triage_Inr) auto
qed

theorem debt_triage_governed_witness:
  "\<exists>e b. evaluateArchitectureDebtTriage sample_triage_input = Inr (e, sample_merged)
     \<and> debt_step (ab_operation (b :: action_base)) PENDING_TRIAGE MERGED \<and> ev_actorId e = ''bb''"
  using sample_triage_outcome debt_triage_governed [OF sample_triage_envelope]
  by fastforce

text \<open>The record an accepted triage returns is again accepted by the policy's own guard, unchanged.\<close>

lemma debt_triage_closed:
  assumes "evaluateArchitectureDebtTriage v = Inr (e, a')"
  shows "validPolicyAggregate (put_debt a') = Some a'"
proof -
  obtain a u act where env: "triage_envelope v = Some (a, u, act)" and t: "triage a u act = Inr (e, a')"
    using assms by (auto simp: evaluateArchitectureDebtTriage_def split: option.splits)
  from env have "\<exists>w. validPolicyAggregate w = Some a"
    unfolding triage_envelope_def by (elim bind_SomeE) (simp only: option.inject prod.inject, blast)
  then have "ok_debt a" using validPolicyAggregate_ok by blast
  then show ?thesis by (rule validPolicyAggregate_put [OF triage_ok [OF t]])
qed

theorem debt_triage_closed_witness: "validPolicyAggregate (put_debt sample_merged) = Some sample_merged"
  using sample_triage_outcome debt_triage_closed by blast

text \<open>A run of triage commands on one record is numbered without gaps from its version, and none of the
  executed commands is ever executed again on the result.\<close>

lemma debt_triage_once:
  assumes "run_commands triage_exec a cs = Some a'" and "de_eventVersion a + int (length cs) \<le> version_limit"
  shows "de_eventVersion a' = de_eventVersion a + int (length cs)
     \<and> map prepared_version cs = map (\<lambda>i. de_eventVersion a + int i) [0..<length cs]
     \<and> list_all (\<lambda>c. triage_exec a' c = None) cs"
proof -
  note n = debt.run_numbered [OF assms]
  have "prepared_version c \<noteq> de_eventVersion a'" if "c \<in> set cs" for c
  proof -
    have "prepared_version c \<in> set (map prepared_version cs)" using that by simp
    then have "prepared_version c < de_eventVersion a + int (length cs)" using n by auto
    then show ?thesis using n by simp
  qed
  with n show ?thesis by (auto simp: list_all_iff intro: debt.stale_refused)
qed

theorem debt_triage_once_witness:
  "triage_exec sample_merged (\<lparr>au_actorId = ''bb''\<rparr>, sample_merge) = None \<and> de_eventVersion sample_merged = 2"
proof -
  have "run_commands triage_exec (sample_debt CHR ''a'' PENDING_TRIAGE) [(\<lparr>au_actorId = ''bb''\<rparr>, sample_merge)] = Some sample_merged"
    using sample_triage [of "\<lparr>au_actorId = ''bb''\<rparr>"] by (auto simp: triage_exec_def)
  from debt_triage_once [OF this] show ?thesis
    by (simp add: version_limit_def)
qed

text \<open>C4. However a ledger of debt records is triaged, its records stay filed under their identifiers, open
  records carry no link, and the merge and supersession links never form a cycle of any length.\<close>

theorem debt_links_acyclic:
  assumes "ledger_run L M" and "ledger_ok L"
  shows "ledger_ok M"
  using assms by (induction rule: ledger_run.induct) (auto intro: ledger_step_ok)

definition sample_ledger :: ledger where
  "sample_ledger = [sample_id CHR ''a'' \<mapsto> sample_debt CHR ''a'' PENDING_TRIAGE,
     sample_id CHR ''b'' \<mapsto> sample_debt CHR ''b'' CONFIRMED]"

lemma sample_ledger_step: "ledger_step sample_ledger (sample_ledger(sample_id CHR ''a'' \<mapsto> sample_merged))"
proof -
  obtain e where "triage (sample_debt CHR ''a'' PENDING_TRIAGE) \<lparr>au_actorId = ''bb''\<rparr> sample_merge = Inr (e, sample_merged)"
    using sample_triage by blast
  then show ?thesis
    by (rule triaged [rotated]) (auto simp: sample_ledger_def sample_merge_base)
qed

lemma sample_ledger_ok: "ledger_ok sample_ledger"
proof -
  have "links sample_ledger = {}" by (auto simp: links_def sample_ledger_def split: if_splits)
  then have "acyclic (links sample_ledger)" by (simp add: acyclic_def)
  then show ?thesis by (auto simp: ledger_ok_def sample_ledger_def split: if_splits)
qed

theorem debt_links_acyclic_witness:
  "acyclic (links (sample_ledger(sample_id CHR ''a'' \<mapsto> sample_merged)))
   \<and> (sample_id CHR ''a'', sample_id CHR ''b'') \<in> links (sample_ledger(sample_id CHR ''a'' \<mapsto> sample_merged))"
  using debt_links_acyclic [OF run_step [OF run_start sample_ledger_step] sample_ledger_ok]
  by (simp add: ledger_ok_def, simp add: links_def)

end
