(* ===== verification/DebtTouchFacts.thy ===== *)
theory DebtTouchFacts
  imports ArchDebtFacts
begin

text \<open>
  The future-touch gate of \<open>architecture-debt-policy.ts\<close>: what makes a plan touch a record, when the gate lets the
  plan through, and a location name for which it never does.
\<close>

section \<open>Paths that overlap\<close>

definition below :: "string \<Rightarrow> string \<Rightarrow> bool" where
  "below p f \<longleftrightarrow> prefix (split_on slash f) (split_on slash p)"

lemma below_iff: "below p f \<longleftrightarrow> p = f \<or> startsWith p (f @ ''/'')"
  by (simp add: below_def segment_prefix_iff)

lemma pathsOverlap_iff: "pathsOverlap p q \<longleftrightarrow> below p q \<or> below q p"
  by (auto simp: pathsOverlap_def below_iff)

text \<open>The plan touches a record: it overlaps one of the record's places, symbols or rules, or its trigger's.\<close>

definition touched :: "debt_aggregate \<Rightarrow> touch_plan \<Rightarrow> bool" where
  "touched a p \<longleftrightarrow>
     (\<exists>l\<in>set (de_locations a).
        (\<exists>q\<in>set (tp_paths p). pathsOverlap (lo_relativePath l) q)
        \<or> (\<exists>c\<in>set (tp_symbols p). lo_symbol l = Some (ts_symbol c) \<and> pathsOverlap (lo_relativePath l) (ts_relativePath c))
        \<or> set (lo_ruleTags l) \<inter> set (tp_ruleTags p) \<noteq> {})
     \<or> (\<exists>x\<in>set (tg_paths (de_futureTouchTrigger a)). \<exists>q\<in>set (tp_paths p). pathsOverlap x q)
     \<or> (\<exists>c\<in>set (tp_symbols p). ts_symbol c \<in> set (tg_symbols (de_futureTouchTrigger a)))
     \<or> set (tg_ruleTags (de_futureTouchTrigger a)) \<inter> set (tp_ruleTags p) \<noteq> {}"

lemma set_insert_str [simp]: "set (insert_str x xs) = insert x (set xs)"
  by (induction xs) auto

lemma set_sort_strs [simp]: "set (sort_strs xs) = set xs"
  by (induction xs) (simp_all add: sort_strs_def)

lemma set_selectorsFor:
  "set (selectorsFor a p) = \<Union> (set ` location_selectors p ` set (de_locations a)) \<union> set (trigger_selectors p (de_futureTouchTrigger a))"
  by (simp add: selectorsFor_def)

lemma location_selectors_empty:
  "location_selectors p l = [] \<longleftrightarrow>
     \<not> ((\<exists>q\<in>set (tp_paths p). pathsOverlap (lo_relativePath l) q)
        \<or> (\<exists>c\<in>set (tp_symbols p). lo_symbol l = Some (ts_symbol c) \<and> pathsOverlap (lo_relativePath l) (ts_relativePath c))
        \<or> set (lo_ruleTags l) \<inter> set (tp_ruleTags p) \<noteq> {})"
  by (auto simp: location_selectors_def list_ex_iff filter_empty_conv split: option.splits)

lemma trigger_selectors_empty:
  "trigger_selectors p g = [] \<longleftrightarrow>
     \<not> ((\<exists>x\<in>set (tg_paths g). \<exists>q\<in>set (tp_paths p). pathsOverlap x q)
        \<or> (\<exists>c\<in>set (tp_symbols p). ts_symbol c \<in> set (tg_symbols g))
        \<or> set (tg_ruleTags g) \<inter> set (tp_ruleTags p) \<noteq> {})"
  by (auto simp: trigger_selectors_def list_ex_iff filter_empty_conv)

lemma selectors_touched: "selectorsFor a p \<noteq> [] \<longleftrightarrow> touched a p"
proof -
  have "selectorsFor a p \<noteq> [] \<longleftrightarrow> set (selectorsFor a p) \<noteq> {}" by simp
  also have "\<dots> \<longleftrightarrow> (\<exists>l\<in>set (de_locations a). location_selectors p l \<noteq> []) \<or> trigger_selectors p (de_futureTouchTrigger a) \<noteq> []"
    unfolding set_selectorsFor by auto
  finally show ?thesis
    by (simp only: location_selectors_empty trigger_selectors_empty touched_def not_not)
qed

section \<open>The order of the records\<close>

definition id_order :: "debt_aggregate list \<Rightarrow> bool" where
  "id_order as \<longleftrightarrow> sorted_wrt (\<lambda>a b. str_less (de_recordId a) (de_recordId b)) as"

lemma takeWhile_dropWhile_set: "set (takeWhile P xs) \<union> set (dropWhile P xs) = set xs"
  by (metis set_append takeWhile_dropWhile_id)

lemma sort_records_Cons:
  "sort_records (a # as) = takeWhile (\<lambda>b. str_less (de_recordId b) (de_recordId a)) (sort_records as)
     @ a # dropWhile (\<lambda>b. str_less (de_recordId b) (de_recordId a)) (sort_records as)"
  by (simp add: sort_records_def)

lemma set_sort_records [simp]: "set (sort_records as) = set as"
proof (induction as)
  case Nil
  then show ?case by (simp add: sort_records_def)
next
  case (Cons a as)
  then show ?case using takeWhile_dropWhile_set [of _ "sort_records as"] by (auto simp: sort_records_Cons)
qed

lemma insert_record_order:
  assumes "id_order bs" and "\<forall>b\<in>set bs. de_recordId b \<noteq> de_recordId a"
  shows "id_order (takeWhile (\<lambda>b. str_less (de_recordId b) (de_recordId a)) bs
     @ a # dropWhile (\<lambda>b. str_less (de_recordId b) (de_recordId a)) bs)"
  using assms
proof (induction bs)
  case Nil
  then show ?case by (simp add: id_order_def)
next
  case (Cons b bs)
  show ?case
  proof (cases "str_less (de_recordId b) (de_recordId a)")
    case True
    then show ?thesis
      using Cons takeWhile_dropWhile_set [of "\<lambda>b. str_less (de_recordId b) (de_recordId a)" bs]
      by (fastforce simp: id_order_def)
  next
    case False
    with Cons.prems(2) have "str_less (de_recordId a) (de_recordId b)" using str_less_linear by auto
    with False Cons.prems(1) show ?thesis by (auto simp: id_order_def intro: str_less_trans)
  qed
qed

lemma sort_records_order: "distinct (map de_recordId as) \<Longrightarrow> id_order (sort_records as)"
proof (induction as)
  case Nil
  then show ?case by (simp add: sort_records_def id_order_def)
next
  case (Cons a as)
  then show ?case unfolding sort_records_Cons by (intro insert_record_order) (simp_all, metis imageI)
qed

lemma foreign_or_repeated_iff:
  "foreign_or_repeated p seen as \<longleftrightarrow>
     \<not> ((\<forall>a\<in>set as. de_projectId a = p) \<and> distinct (map de_recordId as) \<and> set seen \<inter> de_recordId ` set as = {})"
  by (induction p seen as rule: foreign_or_repeated.induct) auto

section \<open>Decided records\<close>

definition open_records :: "touch_input \<Rightarrow> debt_aggregate list" where
  "open_records i = filter (\<lambda>a. de_state a \<in> set OPEN_STATES) (ti_aggregates i)"

text \<open>The only current decision for the record is the authority's, and it answers exactly the selectors.\<close>

definition decided_by :: "touch_input \<Rightarrow> debt_aggregate \<Rightarrow> touch_decision \<Rightarrow> bool" where
  "decided_by i a d \<longleftrightarrow> decisions_for (ti_plan i) (ti_hash i) (ti_decisions i) a = [d]
     \<and> td_actorId d = au_actorId (ti_authority i) \<and> td_selectorIds d = selectorsFor a (ti_plan i)"

definition touch_match_of :: "touch_input \<Rightarrow> debt_aggregate \<Rightarrow> touch_match" where
  "touch_match_of i a = \<lparr>tm_recordId = de_recordId a, tm_recordVersion = de_eventVersion a,
     tm_selectorIds = selectorsFor a (ti_plan i),
     tm_decision = hd (decisions_for (ti_plan i) (ti_hash i) (ti_decisions i) a)\<rparr>"

lemma touch_matches_eq:
  "touch_matches (ti_plan i) (ti_hash i) (ti_authority i) (ti_decisions i) as =
     (if \<forall>a\<in>set as. touched a (ti_plan i) \<longrightarrow> (\<exists>d. decided_by i a d)
      then Some (map (touch_match_of i) (filter (\<lambda>a. touched a (ti_plan i)) as)) else None)"
proof (induction as)
  case Nil
  then show ?case by auto
next
  case (Cons a as)
  show ?case
  proof (cases "touched a (ti_plan i)")
    case False
    then have "selectorsFor a (ti_plan i) = []" using selectors_touched by blast
    then show ?thesis using False Cons by simp
  next
    case t: True
    then have ne: "selectorsFor a (ti_plan i) \<noteq> []" using selectors_touched by blast
    show ?thesis
    proof (cases "\<exists>d. decided_by i a d")
      case True
      then show ?thesis using t ne Cons by (auto simp: decided_by_def touch_match_of_def)
    next
      case False
      then show ?thesis using t ne
        by (auto simp: decided_by_def Let_def split: list.splits)
    qed
  qed
qed

lemma touch_match_of_id [simp]: "tm_recordId (touch_match_of i a) = de_recordId a"
  by (simp add: touch_match_of_def)

lemma evaluateFutureTouch_eq:
  assumes "touch_input_of v = Some i"
  shows "evaluateFutureTouch v =
      (if foreign_or_repeated (tp_projectId (ti_plan i)) [] (open_records i) then Inl dr_foreign_identity
       else case touch_matches (ti_plan i) (ti_hash i) (ti_authority i) (ti_decisions i) (sort_records (open_records i)) of
           None \<Rightarrow> Inl dr_invalid_decision | Some ms \<Rightarrow> Inr ms)"
  using assms by (simp add: evaluateFutureTouch_def future_touch_def open_records_def Let_def)

text \<open>C16. A plan is let through exactly when the open records are the plan's project's and each at most once, and
  every open record the plan touches has exactly one current decision, made by the authority and answering exactly
  the record's selectors; the matches are then those records in the order of their identifiers. Otherwise the
  refusal tells which of the two failed.\<close>

theorem debt_touch_decided:
  assumes "touch_input_of v = Some i"
  shows "case evaluateFutureTouch v of
      Inl c \<Rightarrow>
        (if (\<forall>a\<in>set (open_records i). de_projectId a = tp_projectId (ti_plan i)) \<and> distinct (map de_recordId (open_records i))
         then c = dr_invalid_decision \<and> (\<exists>a\<in>set (open_records i). touched a (ti_plan i) \<and> \<not> (\<exists>d. decided_by i a d))
         else c = dr_foreign_identity)
    | Inr ms \<Rightarrow>
        (\<forall>a\<in>set (open_records i). de_projectId a = tp_projectId (ti_plan i)) \<and> distinct (map de_recordId (open_records i))
        \<and> (\<forall>a\<in>set (open_records i). touched a (ti_plan i) \<longrightarrow> (\<exists>d. decided_by i a d))
        \<and> set ms = touch_match_of i ` {a \<in> set (open_records i). touched a (ti_plan i)}
        \<and> sorted_wrt (\<lambda>m n. str_less (tm_recordId m) (tm_recordId n)) ms"
proof -
  have "sorted_wrt (\<lambda>m n. str_less (tm_recordId m) (tm_recordId n))
      (map (touch_match_of i) (filter (\<lambda>a. touched a (ti_plan i)) (sort_records (open_records i))))"
    if "distinct (map de_recordId (open_records i))"
    using sort_records_order [OF that] by (simp add: sorted_wrt_map id_order_def sorted_wrt_filter)
  then show ?thesis
    unfolding evaluateFutureTouch_eq [OF assms] touch_matches_eq foreign_or_repeated_iff by auto
qed

section \<open>A location no decision can answer\<close>

lemma decisions_guarded:
  assumes "touch_input_of v = Some i" and "d \<in> set (ti_decisions i)" and "s \<in> set (td_selectorIds d)"
  shows "text_ok 4096 s"
proof -
  have "array_of validDecision (jget v ''decisions'') = Some (ti_decisions i)"
    using assms(1) unfolding touch_input_of_def by (elim bind_SomeE) auto
  then have "\<forall>d\<in>set (ti_decisions i). \<exists>w. validDecision w = Some d"
    by (rule array_of_inv) blast
  then obtain w where w: "validDecision w = Some d" using assms(2) by blast
  have "stringList dtext (jget w ''selectorIds'') = Some (td_selectorIds d)"
    using w unfolding validDecision_def by (elim bind_SomeE) auto
  then have "ok_list (text_ok 4096) (td_selectorIds d)" by (rule stringList_ok) simp
  then show ?thesis using assms(3) by (simp add: ok_list_def)
qed

lemma token_selector_secret: "\<not> text_ok n (''location:'' @ x @ ''token:path'')"
proof -
  have "rx_full secret_assignment ''token:path''"
    by (simp add: secret_assignment_def rx_ws_def rx_eval char_eval is_ws_def lower_char_def code_of_def)
  then have "rx_match secret_assignment ''token:path''" by (simp only: rx_full_iff)
  then have "rx_test secret_assignment ((''location:'' @ x) @ ''token:path'' @ '''')"
    unfolding rx_test_iff by blast
  then show ?thesis by (simp add: text_ok_def secretPatterns_def)
qed

text \<open>C30. An open record touched at a location whose identifier ends in \<open>token\<close> can never be decided: its selector
  reads as a secret, so every decision that answers it is refused by the guard, and the plan never passes.\<close>

theorem debt_touch_token_location:
  assumes "touch_input_of v = Some i" and "a \<in> set (open_records i)" and "l \<in> set (de_locations a)"
    and "lo_locationId l = x @ ''token''" and "q \<in> set (tp_paths (ti_plan i))" and "pathsOverlap (lo_relativePath l) q"
  shows "evaluateFutureTouch v \<in> {Inl dr_foreign_identity, Inl dr_invalid_decision}"
proof -
  let ?s = "''location:'' @ x @ ''token:path''"
  have "?s \<in> set (location_selectors (ti_plan i) l)"
    using assms(4-6) by (auto simp: location_selectors_def list_ex_iff)
  then have s: "?s \<in> set (selectorsFor a (ti_plan i))" using assms(3) by (auto simp: set_selectorsFor)
  have "\<not> decided_by i a d" for d
  proof
    assume "decided_by i a d"
    then have "decisions_for (ti_plan i) (ti_hash i) (ti_decisions i) a = [d]"
      and ss: "td_selectorIds d = selectorsFor a (ti_plan i)" by (auto simp: decided_by_def)
    then have "d \<in> set (filter (\<lambda>d. td_projectId d = tp_projectId (ti_plan i) \<and> td_featureId d = tp_featureId (ti_plan i)
        \<and> td_touchPlanHash d = ti_hash i \<and> td_recordId d = de_recordId a \<and> td_recordVersion d = de_eventVersion a) (ti_decisions i))"
      unfolding decisions_for_def by simp
    then have "d \<in> set (ti_decisions i)" by simp
    from decisions_guarded [OF assms(1) this] ss s have "text_ok 4096 ?s" by simp
    then show False using token_selector_secret by blast
  qed
  moreover have "selectorsFor a (ti_plan i) \<noteq> []" using s by auto
  then have "touched a (ti_plan i)" by (simp only: selectors_touched)
  ultimately have "touch_matches (ti_plan i) (ti_hash i) (ti_authority i) (ti_decisions i) (sort_records (open_records i)) = None"
    unfolding touch_matches_eq using assms(2) by auto
  then show ?thesis
    unfolding evaluateFutureTouch_eq [OF assms(1)] by simp
qed

definition sample_touch_plan :: touch_plan where
  "sample_touch_plan = \<lparr>tp_projectId = ''aa'', tp_featureId = ''aa'', tp_paths = [''aa''], tp_symbols = [], tp_ruleTags = []\<rparr>"

definition sample_touch_input :: "debt_aggregate \<Rightarrow> touch_input" where
  "sample_touch_input a = \<lparr>ti_plan = sample_touch_plan, ti_hash = replicate 64 CHR ''a'', ti_aggregates = [a],
     ti_decisions = [], ti_authority = \<lparr>au_actorId = ''bb''\<rparr>\<rparr>"

definition sample_touch :: "debt_aggregate \<Rightarrow> jsv" where
  "sample_touch a = JObj [(''touchPlan'', JObj [(''schemaVersion'', JStr ''hepha-architecture-debt-touch-plan/v1''),
       (''projectId'', JStr ''aa''), (''featureId'', JStr ''aa''), (''paths'', JArr [JStr ''aa'']), (''symbols'', JArr []),
       (''ruleTags'', JArr [])]),
     (''touchPlanHash'', JStr (replicate 64 CHR ''a'')), (''aggregates'', JArr [put_debt a]), (''decisions'', JArr []),
     (''authority'', JObj [(''actorId'', JStr ''bb''), (''verifiedRole'', JStr ''ARCHITECTURE_STEWARD'')])]"

lemma sample_touch_guard: "ok_debt a \<Longrightarrow> touch_input_of (sample_touch a) = Some (sample_touch_input a)"
  by (simp add: touch_input_of_def sample_touch_def sample_touch_input_def sample_touch_plan_def exactKeys_def
        validTouchPlan_def stringList_def array_of_def validDebtAuthority_def)

lemma sample_touch_fields [simp]:
  "ti_plan (sample_touch_input a) = sample_touch_plan" "tp_projectId sample_touch_plan = ''aa''"
  by (simp_all add: sample_touch_input_def sample_touch_plan_def)

lemma sample_touch_open: "de_state a = CONFIRMED \<Longrightarrow> open_records (sample_touch_input a) = [a]"
  by (simp add: open_records_def sample_touch_input_def OPEN_STATES_def)

theorem debt_touch_decided_witness:
  "evaluateFutureTouch (sample_touch (sample_debt CHR ''a'' CONFIRMED)) = Inl dr_invalid_decision"
proof -
  let ?a = "sample_debt CHR ''a'' CONFIRMED"
  have t: "touched ?a sample_touch_plan"
    by (simp add: touched_def sample_debt_def sample_touch_plan_def pathsOverlap_def)
  have "\<not> decided_by (sample_touch_input ?a) ?a d" for d
    by (simp add: decided_by_def decisions_for_def sample_touch_input_def)
  with t debt_touch_decided [OF sample_touch_guard [of ?a]] show ?thesis
    by (auto simp: sample_touch_open split: sum.splits)
qed

definition token_location :: debt_location where
  "token_location = \<lparr>lo_locationId = ''token'', lo_relativePath = ''aa'', lo_symbol = None, lo_endpoint = None, lo_ruleTags = []\<rparr>"

definition token_record :: debt_aggregate where
  "token_record = (sample_debt CHR ''a'' CONFIRMED)\<lparr>de_locations := [token_location]\<rparr>"

lemma token_record_ok: "ok_debt token_record"
proof -
  have "text_ok 256 ''token''"
    using plain_text_safe [of "''token''"]
    by (simp del: rx_test.simps add: text_ok_def isReviewContractSafeString_def debt_control_def char_eval Let_def startsWith_def code_of_def)
  then show ?thesis
    using sample_debt_ok(1) [of CONFIRMED] by (simp add: ok_debt_def ok_location_def token_location_def ok_list_def sample_debt_def token_record_def)
qed

theorem debt_touch_token_location_witness:
  "evaluateFutureTouch (sample_touch token_record) \<in> {Inl dr_foreign_identity, Inl dr_invalid_decision}"
proof -
  have "de_state token_record = CONFIRMED" "de_locations token_record = [token_location]"
    by (simp_all add: token_record_def)
  then show ?thesis
    by (intro debt_touch_token_location [OF sample_touch_guard [OF token_record_ok], of token_record token_location "[]" "''aa''"])
      (simp_all add: sample_touch_open token_location_def sample_touch_plan_def pathsOverlap_def)
qed

end
