(* ===== verification/PhasePolicies.thy ===== *)
theory PhasePolicies
  imports JsValue
begin

text \<open>
  The phase policies of the orchestrator: the reconciliation of durable phase state
  (\<open>phase-state-reconciliation-policy.ts\<close>), the ordered task queue
  (\<open>ordered-phase-task-policy.ts\<close>), the continuation after a phase worker
  (\<open>phase-worker-result-policy.ts\<close>) and the outcome of a worker process
  (\<open>generic-worker-result-policy.ts\<close>). Phase numbers, task indices and counters are integers. A
  decision carries its reason text as the code builds it.
\<close>

section \<open>Facts of a phase\<close>

datatype gate_status = Satisfied | Not_applicable | Waived | Missing | Unknown

fun gate_status_text :: "gate_status \<Rightarrow> string" where
  "gate_status_text Satisfied = ''satisfied''"
| "gate_status_text Not_applicable = ''not_applicable''"
| "gate_status_text Waived = ''waived''"
| "gate_status_text Missing = ''missing''"
| "gate_status_text Unknown = ''unknown''"

record reconciliation_gate =
  gt_name :: string
  gt_status :: gate_status
  gt_justification :: "string option"

datatype task_run_status = tr_NOT_STARTED | tr_IN_PROGRESS | tr_COMPLETED | tr_SKIPPED

record reconciliation_task =
  tk_id :: string
  tk_index :: int
  tk_checked :: bool
  tk_persistedStatus :: "task_run_status option"

record reconciliation_phase =
  ph_number :: int
  ph_title :: string
  ph_documentExists :: bool
  ph_documentStatus :: "string option"
  ph_featureTasksStatus :: "string option"
  ph_tasks :: "reconciliation_task list option"
  ph_taskRunCount :: int
  ph_gates :: "reconciliation_gate list option"
  ph_autonomousCodeReviewRequired :: "bool option"

datatype reconciliation_decision =
    Promote int "string list" string
  | Initialize int string
  | Select int string string
  | Blocked int string
  | All_terminal string

definition TERMINAL :: "string list" where
  "TERMINAL = [''COMPLETED'', ''SKIPPED'']"

definition SETTLED_GATES :: "gate_status list" where
  "SETTLED_GATES = [Satisfied, Not_applicable, Waived]"

definition REQUIRED_GATES :: "string list" where
  "REQUIRED_GATES = [''changed_files'', ''tests'', ''gherkin_e2e'', ''code_review'']"

section \<open>Status text\<close>

text \<open>\<open>replace(/[\s-]+/g, "_")\<close>: every maximal run of white space and hyphens is one underscore.\<close>

definition gap :: "char \<Rightarrow> bool" where
  "gap c \<longleftrightarrow> is_ws c \<or> c = CHR ''-''"

fun join_gaps :: "bool \<Rightarrow> string \<Rightarrow> string" where
  "join_gaps inside [] = []"
| "join_gaps inside (c # s) =
     (if gap c then (if inside then join_gaps True s else CHR ''_'' # join_gaps True s)
      else c # join_gaps False s)"

definition status_tokens :: "string list" where
  "status_tokens = [''AWAITING_REVIEW'', ''AWAITING_CODE_REVIEW_RERUN'', ''COMPLETED'', ''COMPLETE'', ''DONE'', ''SKIPPED'',
     ''IN_PROGRESS'', ''PENDING'', ''BLOCKED'', ''FAILED'']"

text \<open>The alternatives of the pattern in their order, each followed by an underscore or the end.\<close>

definition leading_token :: "string \<Rightarrow> string option" where
  "leading_token v = List.find (\<lambda>t. startsWith v t
     \<and> (case drop (length t) v of [] \<Rightarrow> True | c # _ \<Rightarrow> c = CHR ''_'')) status_tokens"

definition canonical_status :: "string \<Rightarrow> string" where
  "canonical_status v =
     (case leading_token v of
        None \<Rightarrow> v
      | Some t \<Rightarrow> if t = ''COMPLETED'' \<or> t = ''COMPLETE'' \<or> t = ''DONE'' then ''COMPLETED'' else t)"

definition normalizeReconciliationPhaseStatus :: "string option \<Rightarrow> string option" where
  "normalizeReconciliationPhaseStatus status =
     (case status of
        None \<Rightarrow> None
      | Some s \<Rightarrow> if blank s then None else Some (canonical_status (join_gaps False (toUpperCase (trim s)))))"

definition is_terminal :: "reconciliation_phase \<Rightarrow> bool" where
  "is_terminal p \<longleftrightarrow> (case normalizeReconciliationPhaseStatus (ph_documentStatus p) of
      None \<Rightarrow> False | Some s \<Rightarrow> s \<in> set TERMINAL)"

section \<open>Gates\<close>

definition findRecoverableMissingGate :: "reconciliation_gate list \<Rightarrow> string option" where
  "findRecoverableMissingGate gs =
     List.find (\<lambda>n. case List.find (\<lambda>g. gt_name g = n) gs of None \<Rightarrow> False | Some g \<Rightarrow> gt_status g = Missing) REQUIRED_GATES"

definition isContradictoryStatus :: "string \<Rightarrow> string \<Rightarrow> bool" where
  "isContradictoryStatus ds fs \<longleftrightarrow> ds \<noteq> fs \<and> \<not> (fs = ''PENDING'' \<or> fs = ''IN_PROGRESS'')"

definition gate_failure_of :: "reconciliation_gate list \<Rightarrow> string \<Rightarrow> string option" where
  "gate_failure_of gs n =
     (case js_map (map (\<lambda>g. (gt_name g, g)) gs) n of
        None \<Rightarrow> Some (''is missing the '' @ n @ '' quality gate.'')
      | Some g \<Rightarrow>
          if gt_status g \<notin> set SETTLED_GATES
          then Some (''has an unsettled '' @ n @ '' quality gate ('' @ gate_status_text (gt_status g) @ '').'')
          else (case gt_justification g of
              None \<Rightarrow> Some (''has no evidence/justification for the '' @ n @ '' quality gate.'')
            | Some j \<Rightarrow> if blank j then Some (''has no evidence/justification for the '' @ n @ '' quality gate.'') else None))"

fun first_failure :: "reconciliation_gate list \<Rightarrow> string list \<Rightarrow> string option" where
  "first_failure gs [] = None"
| "first_failure gs (n # ns) = (case gate_failure_of gs n of Some m \<Rightarrow> Some m | None \<Rightarrow> first_failure gs ns)"

definition validateSettledGates :: "reconciliation_gate list \<Rightarrow> string option" where
  "validateSettledGates gs = first_failure gs REQUIRED_GATES"

section \<open>Reconciliation\<close>

fun first_duplicate :: "reconciliation_phase list \<Rightarrow> reconciliation_phase option" where
  "first_duplicate (p # q # ps) = (if ph_number q = ph_number p then Some q else first_duplicate (q # ps))"
| "first_duplicate _ = None"

text \<open>The loop over completed phases: the decision of the first one with an unchecked task.\<close>

fun first_unfinished :: "reconciliation_phase list \<Rightarrow> reconciliation_decision option" where
  "first_unfinished [] = None"
| "first_unfinished (p # ps) =
     (let s = normalizeReconciliationPhaseStatus (ph_documentStatus p) in
      if s = Some ''SKIPPED'' \<or> \<not> is_terminal p \<or> ph_tasks p = None then first_unfinished ps
      else (case List.find (\<lambda>t. \<not> tk_checked t) (the (ph_tasks p)) of
          Some t \<Rightarrow> Some (Blocked (ph_number p)
            (''Phase '' @ int_text (ph_number p) @ '' is marked '' @ the s @ '' but durable task '' @ tk_id t @ '' remains unchecked.''))
        | None \<Rightarrow> first_unfinished ps))"

definition persisted_terminal :: "reconciliation_task \<Rightarrow> bool" where
  "persisted_terminal t \<longleftrightarrow> tk_persistedStatus t = Some tr_COMPLETED \<or> tk_persistedStatus t = Some tr_SKIPPED"

text \<open>The branch for a phase without a task ledger.\<close>

definition reconcile_unplanned :: "reconciliation_phase \<Rightarrow> string \<Rightarrow> string \<Rightarrow> reconciliation_decision" where
  "reconcile_unplanned p ds fs =
     (let active = (fs = ''PENDING'' \<or> fs = ''IN_PROGRESS'');
          fresh = (ds = ''PENDING'' \<and> active);
          orphaned = (ds = ''IN_PROGRESS'' \<and> active \<and> ph_taskRunCount p = 0);
          n = int_text (ph_number p)
      in if fresh \<or> orphaned then
           Initialize (ph_number p)
             (if orphaned
              then ''Phase '' @ n @ '' was interrupted before any durable task-run evidence; the recovery worker must inspect current files and create its task ledger before substantive work.''
              else ''Phase '' @ n @ '' is a fresh pending phase; the worker must create its durable task ledger before substantive work.'')
         else Blocked (ph_number p) (''Phase '' @ n @ '' has no durable phase-document task ledger.''))"

text \<open>The branch in which every task is checked.\<close>

definition reconcile_checked ::
  "reconciliation_phase \<Rightarrow> reconciliation_gate list \<Rightarrow> string \<Rightarrow> reconciliation_task list \<Rightarrow> reconciliation_decision" where
  "reconcile_checked p gs ds ts =
     (let failure = validateSettledGates gs; n = int_text (ph_number p);
          reviewing = (ds = ''AWAITING_REVIEW'' \<or> ds = ''AWAITING_CODE_REVIEW_RERUN'')
      in if reviewing \<and> ph_autonomousCodeReviewRequired p = Some False \<and> failure = None then
           Promote (ph_number p) (map tk_id ts)
             ''Checked tasks and settled gates show no production-source change, so stale autonomous review state is recovered without reviewing reports.''
         else if reviewing then
           Select (ph_number p) (tk_id (last ts))
             (''Phase '' @ n @ '' has completed task work and is awaiting the orchestrator-owned review gate.'')
         else (case failure of
             Some m \<Rightarrow>
               (case findRecoverableMissingGate gs of
                  Some g \<Rightarrow>
                    if ds = ''IN_PROGRESS'' \<or> ds = ''PENDING'' then
                      Blocked (ph_number p) (''Phase '' @ n @ '' has checked task work but its '' @ g
                        @ '' quality gate is missing. No unchecked declared task can repair that gate safely; explicit gate evidence or authoritative task invalidation is required.'')
                    else Blocked (ph_number p) (''Phase '' @ n @ '' '' @ m)
                | None \<Rightarrow> Blocked (ph_number p) (''Phase '' @ n @ '' '' @ m))
           | None \<Rightarrow>
               Promote (ph_number p) (map tk_id ts)
                 ''Every phase-document task is checked and every quality gate is settled with evidence.''))"

text \<open>The branch in which \<open>t\<close> is the first unchecked task.\<close>

definition out_of_order :: "reconciliation_task list \<Rightarrow> reconciliation_task \<Rightarrow> bool" where
  "out_of_order ts t \<longleftrightarrow> list_ex (\<lambda>u. tk_index t < tk_index u
     \<and> (tk_checked u \<or> tk_persistedStatus u = Some tr_IN_PROGRESS \<or> persisted_terminal u)) ts"

text \<open>The phase has a task ledger \<open>ts\<close> in index order and a readable gate table.\<close>

definition reconcile_planned ::
  "reconciliation_phase \<Rightarrow> reconciliation_gate list \<Rightarrow> string \<Rightarrow> string \<Rightarrow> reconciliation_task list \<Rightarrow> reconciliation_decision" where
  "reconcile_planned p gs ds fs ts =
     (let n = int_text (ph_number p);
          ahead = (fs \<in> set TERMINAL \<and> ds \<notin> set TERMINAL \<and> list_all tk_checked ts)
      in if isContradictoryStatus ds fs \<and> \<not> ahead then
           Blocked (ph_number p) (''Phase '' @ n @ '' has contradictory statuses: document '' @ ds @ '', FeatureTasks '' @ fs @ ''.'')
         else (case List.find (\<lambda>t. \<not> tk_checked t \<and> persisted_terminal t) ts of
             Some t \<Rightarrow> Blocked (ph_number p) (''Phase '' @ n @ '' task '' @ tk_id t @ '' is unchecked in the phase document but ''
               @ (if tk_persistedStatus t = Some tr_COMPLETED then ''COMPLETED'' else ''SKIPPED'') @ '' in the task ledger.'')
           | None \<Rightarrow>
               (case List.find (\<lambda>t. \<not> tk_checked t) ts of
                  Some t \<Rightarrow>
                    if out_of_order ts t then
                      Blocked (ph_number p) (''Phase '' @ n @ '' task ledger is out of order: a later task has state after unchecked task '' @ tk_id t @ ''.'')
                    else Select (ph_number p) (tk_id t) ''Selected the first unchecked task in the earliest non-terminal phase.''
                | None \<Rightarrow> reconcile_checked p gs ds ts)))"

definition reconcile_phase :: "reconciliation_phase \<Rightarrow> reconciliation_decision" where
  "reconcile_phase p =
     (let n = int_text (ph_number p) in
      if \<not> ph_documentExists p then Blocked (ph_number p) (''Phase '' @ n @ '' document is missing.'')
      else (case (normalizeReconciliationPhaseStatus (ph_documentStatus p), normalizeReconciliationPhaseStatus (ph_featureTasksStatus p)) of
          (Some ds, Some fs) \<Rightarrow>
            (case ph_tasks p of
               None \<Rightarrow> reconcile_unplanned p ds fs
             | Some [] \<Rightarrow> reconcile_unplanned p ds fs
             | Some ts \<Rightarrow>
                 (case ph_gates p of
                    None \<Rightarrow> Blocked (ph_number p) (''Phase '' @ n @ '' has no readable Quality Gate Evidence table.'')
                  | Some gs \<Rightarrow> reconcile_planned p gs ds fs (sort_key tk_index ts)))
        | _ \<Rightarrow> Blocked (ph_number p) (''Phase '' @ n @ '' is missing a document or FeatureTasks status.'')))"

definition reconcilePhaseState :: "reconciliation_phase list \<Rightarrow> reconciliation_decision" where
  "reconcilePhaseState input =
     (let ps = sort_key ph_number input in
      case first_duplicate ps of
        Some d \<Rightarrow> Blocked (ph_number d) (''Duplicate Phase '' @ int_text (ph_number d) @ '' documents cannot be reconciled safely.'')
      | None \<Rightarrow>
          (case first_unfinished ps of
             Some b \<Rightarrow> b
           | None \<Rightarrow>
               (case List.find (\<lambda>p. \<not> is_terminal p) ps of
                  None \<Rightarrow> All_terminal ''Every numbered phase is terminal; feature completion remains a manual workflow.''
                | Some p \<Rightarrow> reconcile_phase p)))"

section \<open>The ordered task queue\<close>

datatype task_executor = ex_agent | ex_code_review | ex_verification | ex_git_commit | ex_git_push

record ordered_task =
  ot_id :: string
  ot_executor :: task_executor
  ot_required :: bool

datatype ordered_state = os_NOT_STARTED | os_IN_PROGRESS | os_COMPLETED | os_SKIPPED | os_BLOCKED

datatype ordered_selection = Execute_task ordered_task | Phase_complete | Selection_blocked ordered_task

datatype task_outcome =
  oc_SUCCEEDED | oc_FIXER_SUCCEEDED | oc_RECOVERABLE_FAILURE | oc_NEEDS_CHANGES | oc_APPROVED | oc_PASSED | oc_BLOCKED

datatype task_worker = w_agent | w_reviewer | w_fixer | w_checkpoint_repair

datatype task_transition = Complete_current_task | Retry_current_task task_worker | Transition_blocked

datatype missing_evidence = declared_tasks | durable_review_approval

datatype exit_transition = Complete_phase | Exit_blocked missing_evidence

record ledger_item =
  it_section :: string
  it_text :: string

definition ledger_entries :: "(string \<Rightarrow> string option) \<Rightarrow> ledger_item list \<Rightarrow> (string \<times> ledger_item) list" where
  "ledger_entries readTaskId items =
     List.map_filter (\<lambda>i. map_option (\<lambda>k. (k, i)) (readTaskId (it_text i)))
       (filter (\<lambda>i. toLowerCase (trim (it_section i)) = ''phase task ledger'') items)"

text \<open>\<open>readTaskId\<close> is a callback of the caller.\<close>

definition selectDeclaredOrderedLedgerItems ::
  "(string \<Rightarrow> string option) \<Rightarrow> ledger_item list \<Rightarrow> string list \<Rightarrow> ledger_item list" where
  "selectDeclaredOrderedLedgerItems readTaskId items declared =
     List.map_filter (js_map (ledger_entries readTaskId items)) declared"

fun selectNextOrderedPhaseTask :: "ordered_task list \<Rightarrow> (string \<rightharpoonup> ordered_state) \<Rightarrow> ordered_selection" where
  "selectNextOrderedPhaseTask [] st = Phase_complete"
| "selectNextOrderedPhaseTask (t # ts) st =
     (let s = (case st (ot_id t) of None \<Rightarrow> os_NOT_STARTED | Some s \<Rightarrow> s)
      in if s = os_BLOCKED then Selection_blocked t
         else if s \<noteq> os_COMPLETED \<and> s \<noteq> os_SKIPPED then Execute_task t
         else selectNextOrderedPhaseTask ts st)"

definition selectOrderedTaskTransition :: "ordered_task \<Rightarrow> task_outcome \<Rightarrow> task_transition" where
  "selectOrderedTaskTransition t r =
     (if r = oc_BLOCKED then Transition_blocked
      else if ot_executor t = ex_code_review then
        (if r = oc_APPROVED then Complete_current_task
         else if r = oc_FIXER_SUCCEEDED then Retry_current_task w_reviewer
         else Retry_current_task w_fixer)
      else if ot_executor t = ex_verification then
        (if r = oc_PASSED \<or> r = oc_SUCCEEDED then Complete_current_task else Retry_current_task w_checkpoint_repair)
      else if r = oc_SUCCEEDED then Complete_current_task
      else Retry_current_task w_agent)"

definition selectOrderedPhaseExit :: "bool \<Rightarrow> bool \<Rightarrow> bool \<Rightarrow> exit_transition" where
  "selectOrderedPhaseExit tasksComplete reviewRequired durableReviewApproved =
     (if \<not> tasksComplete then Exit_blocked declared_tasks
      else if reviewRequired \<and> \<not> durableReviewApproved then Exit_blocked durable_review_approval
      else Complete_phase)"

section \<open>After a phase worker\<close>

record continuation_input =
  ci_phaseNumber :: int
  ci_phaseStatus :: "string option"
  ci_reconciliationDecision :: reconciliation_decision
  ci_hasDurableTaskProgress :: bool
  ci_blocker :: "string option"
  ci_recoveryAttempt :: int
  ci_absoluteSafetyCap :: int

datatype continuation_decision = Continue string string | Phase_completed string | Fail_closed string

datatype repair_trigger = test_coverage_restored | quality_gate_failed | authoritative_handoff_invalid

record repair_input =
  ri_detail :: string
  ri_failurePolicy :: "string option"
  ri_phaseNumber :: int
  ri_trigger :: repair_trigger

datatype repair_decision = Retry_same_phase string | Fail_workflow string

definition evaluatePhaseRepairLoop :: "repair_input \<Rightarrow> repair_decision" where
  "evaluatePhaseRepairLoop i =
     (if ri_failurePolicy i \<noteq> Some ''repair_and_rerun'' then
        Fail_workflow (''Phase '' @ int_text (ri_phaseNumber i) @ '' cannot automatically repair because its failure policy is ''
          @ (case ri_failurePolicy i of None \<Rightarrow> ''missing'' | Some p \<Rightarrow> p) @ ''.'')
      else Retry_same_phase (''Phase '' @ int_text (ri_phaseNumber i) @ '' requires repair and rerun: '' @ ri_detail i))"

fun decision_reason :: "reconciliation_decision \<Rightarrow> string" where
  "decision_reason (Promote _ _ r) = r"
| "decision_reason (Initialize _ r) = r"
| "decision_reason (Select _ _ r) = r"
| "decision_reason (Blocked _ r) = r"
| "decision_reason (All_terminal r) = r"

definition evaluatePhaseWorkerResultContinuation :: "continuation_input \<Rightarrow> continuation_decision" where
  "evaluatePhaseWorkerResultContinuation i =
     (let status = normalizeReconciliationPhaseStatus (ci_phaseStatus i);
          n = int_text (ci_phaseNumber i);
          moved = (case ci_reconciliationDecision i of
              All_terminal _ \<Rightarrow> True | Select m _ _ \<Rightarrow> m \<noteq> ci_phaseNumber i | _ \<Rightarrow> False)
      in if status = Some ''COMPLETED'' \<and> moved then
           Phase_completed (''Phase '' @ n @ '' completed from its declared durable tasks and settled gates; continue with the reconciled contract transition.'')
         else if ci_absoluteSafetyCap i \<le> ci_recoveryAttempt i then
           Fail_closed (''Phase '' @ n @ '' cannot dispatch another worker: absolute safety cap ('' @ int_text (ci_absoluteSafetyCap i) @ '') is exhausted.'')
         else (case ci_blocker i of
             Some (c # b) \<Rightarrow> Fail_closed (''Phase '' @ n @ '' has a durable blocker: '' @ (c # b))
           | _ \<Rightarrow>
             if status \<noteq> Some ''IN_PROGRESS'' then
               Fail_closed (''Phase '' @ n @ '' is '' @ (case ci_phaseStatus i of None \<Rightarrow> ''missing a status'' | Some s \<Rightarrow> s) @ '', not IN_PROGRESS.'')
             else if \<not> ci_hasDurableTaskProgress i then
               Fail_closed (''Phase '' @ n @ '' has no durable checked-task progress after the worker returned.'')
             else (case ci_reconciliationDecision i of
                 Select m t r \<Rightarrow>
                   if m \<noteq> ci_phaseNumber i then
                     Fail_closed (''Phase '' @ n @ '' has no safely selectable next same-phase task. '' @ r)
                   else Continue t (''Phase '' @ n @ '' has durable task-ledger progress; dispatch the reconciled next same-phase task '' @ t @ ''.'')
               | d \<Rightarrow> Fail_closed (''Phase '' @ n @ '' has no safely selectable next same-phase task. '' @ decision_reason d))))"

section \<open>The outcome of a worker process\<close>

datatype terminal_state = Pending | Succeeded | Failed string

datatype process_decision = Complete string | Fail string

definition initialGenericWorkerTerminalState :: terminal_state where
  "initialGenericWorkerTerminalState = Pending"

definition nonblank_text :: "jsv \<Rightarrow> string option" where
  "nonblank_text v = (case v of JStr s \<Rightarrow> if trim s = [] then None else Some (trim s) | _ \<Rightarrow> None)"

definition readErrorText :: "jsv \<Rightarrow> string option" where
  "readErrorText v =
     (case List.map_filter (\<lambda>k. nonblank_text (jget v k)) [''errorMessage'', ''message'', ''error''] of
        [] \<Rightarrow> None | t # _ \<Rightarrow> Some t)"

definition observeTerminalMessage :: "terminal_state \<Rightarrow> jsv \<Rightarrow> terminal_state" where
  "observeTerminalMessage current m =
     (if \<not> (isRecord m \<or> as_array m \<noteq> None) then current
      else let stop = (case jget m ''stopReason'' of JStr s \<Rightarrow> s | _ \<Rightarrow> []); error = readErrorText m
        in if error \<noteq> None \<or> stop = ''error'' then
             Failed (case error of None \<Rightarrow> ''Pi model provider returned an error.'' | Some e \<Rightarrow> e)
           else if stop = ''stop'' then Succeeded
           else current)"

definition observeGenericWorkerTerminalEvent :: "terminal_state \<Rightarrow> jsv \<Rightarrow> terminal_state" where
  "observeGenericWorkerTerminalEvent current e =
     (if jget e ''type'' = JStr ''error'' then
        Failed (case readErrorText e of None \<Rightarrow> ''Pi worker emitted an error event.'' | Some t \<Rightarrow> t)
      else if jget e ''type'' = JStr ''message_end'' then observeTerminalMessage current (jget e ''message'')
      else if jget e ''type'' = JStr ''agent_end'' then
        (case jget e ''messages'' of JArr ms \<Rightarrow> foldl observeTerminalMessage current ms | _ \<Rightarrow> current)
      else current)"

definition resolveGenericWorkerProcessResult ::
  "int option \<Rightarrow> string \<Rightarrow> string \<Rightarrow> string \<Rightarrow> terminal_state \<Rightarrow> process_decision" where
  "resolveGenericWorkerProcessResult exitCode fallbackOutput outp stderr st =
     (if exitCode \<noteq> Some 0 then
        Fail (if trim stderr \<noteq> [] then trim stderr
              else ''Pi exited with code '' @ (case exitCode of None \<Rightarrow> ''unknown'' | Some n \<Rightarrow> int_text n) @ ''.'')
      else (case st of
          Failed e \<Rightarrow> Fail e
        | _ \<Rightarrow>
          let out = (if trim outp \<noteq> [] then trim outp else trim fallbackOutput)
          in if out = [] then Fail (if trim stderr \<noteq> [] then trim stderr else ''Pi completed without returning output.'')
             else Complete out))"

end
