(* ===== verification/PhaseFacts.thy ===== *)
theory PhaseFacts
  imports PhasePolicies
begin

text \<open>
  What the phase policies guarantee: promotion only of settled phases, recovery that ends, continuation only on an
  unchecked task, a queue worked through in order, and the outcome of a worker read off its last verdict.
\<close>

section \<open>Settled phases\<close>

definition gates_settled :: "reconciliation_gate list \<Rightarrow> bool" where
  "gates_settled gs \<longleftrightarrow> (\<forall>n\<in>set REQUIRED_GATES. \<exists>g j. js_map (map (\<lambda>g. (gt_name g, g)) gs) n = Some g
     \<and> gt_status g \<in> {Satisfied, Not_applicable, Waived} \<and> gt_justification g = Some j \<and> \<not> blank j)"

lemma gate_failure_of_None:
  "gate_failure_of gs n = None \<longleftrightarrow> (\<exists>g j. js_map (map (\<lambda>g. (gt_name g, g)) gs) n = Some g
     \<and> gt_status g \<in> {Satisfied, Not_applicable, Waived} \<and> gt_justification g = Some j \<and> \<not> blank j)"
  by (auto simp: gate_failure_of_def SETTLED_GATES_def split: option.splits)

lemma first_failure_None: "first_failure gs ns = None \<longleftrightarrow> (\<forall>n\<in>set ns. gate_failure_of gs n = None)"
  by (induction ns) (auto split: option.splits)

lemma validateSettledGates_None [simp]: "validateSettledGates gs = None \<longleftrightarrow> gates_settled gs"
  by (simp add: validateSettledGates_def first_failure_None gate_failure_of_None gates_settled_def)

definition status_of :: "reconciliation_phase \<Rightarrow> string option" where
  "status_of p = normalizeReconciliationPhaseStatus (ph_documentStatus p)"

lemma is_terminal_iff: "is_terminal p \<longleftrightarrow> status_of p = Some ''COMPLETED'' \<or> status_of p = Some ''SKIPPED''"
  by (auto simp: is_terminal_def status_of_def TERMINAL_def split: option.splits)

text \<open>No completed phase hides unchecked work.\<close>

definition completed_done :: "reconciliation_phase list \<Rightarrow> bool" where
  "completed_done ps \<longleftrightarrow> (\<forall>p\<in>set ps. \<forall>ts. status_of p = Some ''COMPLETED'' \<longrightarrow> ph_tasks p = Some ts \<longrightarrow> list_all tk_checked ts)"

lemma first_unfinished_None: "first_unfinished ps = None \<longleftrightarrow> completed_done ps"
proof (induction ps)
  case Nil
  then show ?case by (simp add: completed_done_def)
next
  case (Cons p ps)
  show ?case
  proof (cases "status_of p = Some ''COMPLETED'' \<and> ph_tasks p \<noteq> None")
    case True
    then obtain ts where ts: "ph_tasks p = Some ts" "status_of p = Some ''COMPLETED''" by auto
    then have "is_terminal p" by (simp add: is_terminal_iff)
    with ts Cons show ?thesis
      by (auto simp: Let_def completed_done_def status_of_def find_None_set list_all_iff split: option.splits dest!: find_Some_set)
  next
    case False
    then have "first_unfinished (p # ps) = first_unfinished ps"
      by (auto simp: Let_def status_of_def is_terminal_iff)
    with False Cons show ?thesis by (auto simp: completed_done_def)
  qed
qed

lemma first_unfinished_Some:
  "first_unfinished ps = Some d \<Longrightarrow> \<exists>p r. p \<in> set ps \<and> d = Blocked (ph_number p) r \<and> status_of p = Some ''COMPLETED''"
proof (induction ps)
  case (Cons p ps)
  show ?case
  proof (cases "status_of p = Some ''SKIPPED'' \<or> \<not> is_terminal p \<or> ph_tasks p = None")
    case True
    then show ?thesis using Cons by (auto simp: Let_def status_of_def)
  next
    case False
    then show ?thesis using Cons by (auto simp: Let_def status_of_def is_terminal_iff split: option.splits)
  qed
qed simp

lemma first_duplicate_None:
  "sorted (map ph_number ps) \<Longrightarrow> first_duplicate ps = None \<longleftrightarrow> distinct (map ph_number ps)"
  by (induction ps rule: first_duplicate.induct) auto

text \<open>The earliest phase that is not terminal, among phases of distinct numbers.\<close>

definition earliest_open :: "reconciliation_phase list \<Rightarrow> reconciliation_phase \<Rightarrow> bool" where
  "earliest_open ps p \<longleftrightarrow> p \<in> set ps \<and> \<not> is_terminal p \<and> (\<forall>q\<in>set ps. ph_number q < ph_number p \<longrightarrow> is_terminal q)"

lemma distinct_numbers: "distinct (map ph_number ps) \<Longrightarrow> p \<in> set ps \<Longrightarrow> q \<in> set ps \<Longrightarrow> ph_number p = ph_number q \<Longrightarrow> p = q"
  by (metis distinct_map inj_onD)

lemma distinct_sort_numbers [simp]: "distinct (map ph_number (sort_key ph_number ps)) \<longleftrightarrow> distinct (map ph_number ps)"
  by (metis distinct_map distinct_sort set_sort)

lemma find_earliest:
  assumes "distinct (map ph_number ps)"
  shows "List.find (\<lambda>p. \<not> is_terminal p) (sort_key ph_number ps) = Some p \<longleftrightarrow> earliest_open ps p"
proof
  assume "List.find (\<lambda>p. \<not> is_terminal p) (sort_key ph_number ps) = Some p"
  from find_sort_key [OF this] show "earliest_open ps p" by (fastforce simp: earliest_open_def)
next
  assume e: "earliest_open ps p"
  then obtain q where q: "List.find (\<lambda>p. \<not> is_terminal p) (sort_key ph_number ps) = Some q"
    by (cases "List.find (\<lambda>p. \<not> is_terminal p) (sort_key ph_number ps)") (auto simp: find_None_set earliest_open_def)
  from find_sort_key [OF q] e have "ph_number q = ph_number p" "q \<in> set ps" "p \<in> set ps"
    by (auto simp: earliest_open_def intro: antisym) force+
  with assms q show "List.find (\<lambda>p. \<not> is_terminal p) (sort_key ph_number ps) = Some p"
    by (metis distinct_numbers)
qed

lemma reconcilePhaseState_open:
  assumes "distinct (map ph_number ps)" and "completed_done ps" and "earliest_open ps p"
  shows "reconcilePhaseState ps = reconcile_phase p"
proof -
  have "first_unfinished (sort_key ph_number ps) = None"
    using assms(2) by (simp add: first_unfinished_None completed_done_def)
  moreover have "first_duplicate (sort_key ph_number ps) = None"
    using assms(1) by (simp add: first_duplicate_None)
  moreover have "List.find (\<lambda>p. \<not> is_terminal p) (sort_key ph_number ps) = Some p"
    using assms(1,3) by (simp only: find_earliest)
  ultimately show ?thesis by (simp add: reconcilePhaseState_def Let_def)
qed

text \<open>A decision that dispatches or promotes is always the decision on the earliest open phase.\<close>

lemma reconcilePhaseState_cases:
  obtains (blocked) n r where "reconcilePhaseState ps = Blocked n r"
  | (all) r where "reconcilePhaseState ps = All_terminal r" "distinct (map ph_number ps)" "completed_done ps" "\<forall>p\<in>set ps. is_terminal p"
  | (on_phase) p where "distinct (map ph_number ps)" "completed_done ps" "earliest_open ps p" "reconcilePhaseState ps = reconcile_phase p"
proof (cases "first_duplicate (sort_key ph_number ps)")
  case (Some d)
  then show ?thesis by (intro blocked) (simp add: reconcilePhaseState_def Let_def)
next
  case d: None
  then have dist: "distinct (map ph_number ps)" by (simp add: first_duplicate_None)
  show ?thesis
  proof (cases "first_unfinished (sort_key ph_number ps)")
    case (Some b)
    then obtain n r where "b = Blocked n r" using first_unfinished_Some by blast
    with Some d show ?thesis by (intro blocked) (simp add: reconcilePhaseState_def Let_def)
  next
    case f: None
    then have c: "completed_done ps" by (simp add: first_unfinished_None completed_done_def)
    show ?thesis
    proof (cases "List.find (\<lambda>p. \<not> is_terminal p) (sort_key ph_number ps)")
      case None
      then have "\<forall>p\<in>set ps. is_terminal p" by (auto simp: find_None_set)
      moreover have "reconcilePhaseState ps = All_terminal ''Every numbered phase is terminal; feature completion remains a manual workflow.''"
        using None d f by (simp add: reconcilePhaseState_def Let_def)
      ultimately show ?thesis using dist c by (intro all) simp_all
    next
      case (Some p)
      then have "earliest_open ps p" using find_earliest [OF dist] by blast
      with dist c show ?thesis by (intro on_phase) (simp_all add: reconcilePhaseState_open)
    qed
  qed
qed

section \<open>Promotion\<close>

lemma reconcile_unplanned_cases:
  "(\<exists>n r. reconcile_unplanned p ds fs = Initialize n r) \<or> (\<exists>n r. reconcile_unplanned p ds fs = Blocked n r)"
  by (simp add: reconcile_unplanned_def Let_def)

text \<open>Only a phase with a ledger and a gate table reaches the last branch.\<close>

lemma reconcile_phase_dispatch:
  assumes "reconcile_phase p = Promote n ids r \<or> reconcile_phase p = Select n tid r"
  obtains ds fs ts gs where "ph_documentExists p" "status_of p = Some ds"
    "normalizeReconciliationPhaseStatus (ph_featureTasksStatus p) = Some fs" "ph_tasks p = Some ts" "ts \<noteq> []" "ph_gates p = Some gs"
    "reconcile_phase p = reconcile_planned p gs ds fs (sort_key tk_index ts)"
proof -
  have "ph_documentExists p" using assms by (auto simp: reconcile_phase_def Let_def split: if_splits)
  moreover obtain ds where ds: "status_of p = Some ds"
    using assms by (cases "status_of p") (auto simp: reconcile_phase_def status_of_def Let_def split: if_splits)
  moreover obtain fs where fs: "normalizeReconciliationPhaseStatus (ph_featureTasksStatus p) = Some fs"
    using assms ds by (cases "normalizeReconciliationPhaseStatus (ph_featureTasksStatus p)") (auto simp: reconcile_phase_def status_of_def Let_def split: if_splits)
  moreover obtain t ts where ts: "ph_tasks p = Some (t # ts)"
    using assms ds fs calculation(1) reconcile_unplanned_cases [of p ds fs]
    by (cases "ph_tasks p" rule: option.exhaust; cases "the (ph_tasks p)") (auto simp: reconcile_phase_def status_of_def Let_def)
  moreover obtain gs where "ph_gates p = Some gs"
    using assms ds fs ts calculation(1) by (cases "ph_gates p") (auto simp: reconcile_phase_def status_of_def Let_def)
  ultimately show ?thesis using that [of ds fs "t # ts" gs] by (simp add: reconcile_phase_def status_of_def)
qed

lemma reconcile_checked_Promote:
  "reconcile_checked p gs ds ts = Promote n ids r \<Longrightarrow> n = ph_number p \<and> ids = map tk_id ts \<and> gates_settled gs"
  by (auto simp: reconcile_checked_def Let_def split: if_splits option.splits)

lemma reconcile_checked_Select:
  "reconcile_checked p gs ds ts = Select n tid r \<Longrightarrow>
     n = ph_number p \<and> tid = tk_id (last ts) \<and> ds \<in> {''AWAITING_REVIEW'', ''AWAITING_CODE_REVIEW_RERUN''}"
  by (auto simp: reconcile_checked_def Let_def split: if_splits option.splits)

lemma reconcile_planned_Promote:
  assumes "reconcile_planned p gs ds fs ts = Promote n ids r"
  shows "n = ph_number p" and "ids = map tk_id ts" and "gates_settled gs" and "list_all tk_checked ts"
proof -
  have u: "List.find (\<lambda>t. \<not> tk_checked t) ts = None"
    using assms by (auto simp: reconcile_planned_def Let_def split: if_splits option.splits)
  then have "reconcile_checked p gs ds ts = Promote n ids r"
    using assms by (auto simp: reconcile_planned_def Let_def split: if_splits option.splits)
  with reconcile_checked_Promote [OF this] u
  show "n = ph_number p" and "ids = map tk_id ts" and "gates_settled gs" and "list_all tk_checked ts"
    by (auto simp: find_None_set list_all_iff)
qed

text \<open>The unchecked task all of whose predecessors in the ledger are checked.\<close>

definition next_task :: "reconciliation_task list \<Rightarrow> reconciliation_task \<Rightarrow> bool" where
  "next_task ts t \<longleftrightarrow> t \<in> set ts \<and> \<not> tk_checked t \<and> (\<forall>u\<in>set ts. tk_index u < tk_index t \<longrightarrow> tk_checked u)"

lemma reconcile_planned_Select:
  assumes "reconcile_planned p gs ds fs (sort_key tk_index ts) = Select n tid r"
  shows "n = ph_number p"
    and "(\<exists>t. next_task ts t \<and> tid = tk_id t \<and> \<not> persisted_terminal t)
       \<or> (list_all tk_checked ts \<and> ds \<in> {''AWAITING_REVIEW'', ''AWAITING_CODE_REVIEW_RERUN''})"
proof -
  have conf: "List.find (\<lambda>t. \<not> tk_checked t \<and> persisted_terminal t) (sort_key tk_index ts) = None"
    using assms by (auto simp: reconcile_planned_def Let_def split: if_splits option.splits)
  have "n = ph_number p \<and> ((\<exists>t. next_task ts t \<and> tid = tk_id t \<and> \<not> persisted_terminal t)
       \<or> (list_all tk_checked ts \<and> ds \<in> {''AWAITING_REVIEW'', ''AWAITING_CODE_REVIEW_RERUN''}))"
  proof (cases "List.find (\<lambda>t. \<not> tk_checked t) (sort_key tk_index ts)")
    case None
    then have "reconcile_checked p gs ds (sort_key tk_index ts) = Select n tid r"
      using assms conf by (auto simp: reconcile_planned_def Let_def split: if_splits)
    from reconcile_checked_Select [OF this] None show ?thesis by (auto simp: find_None_set list_all_iff)
  next
    case (Some t)
    from find_sort_key [OF this] conf have "next_task ts t" "\<not> persisted_terminal t"
      by (auto simp: next_task_def find_None_set) force
    moreover have "n = ph_number p \<and> tid = tk_id t"
      using assms conf Some by (auto simp: reconcile_planned_def Let_def split: if_splits)
    ultimately show ?thesis by blast
  qed
  then show "n = ph_number p" and "(\<exists>t. next_task ts t \<and> tid = tk_id t \<and> \<not> persisted_terminal t)
       \<or> (list_all tk_checked ts \<and> ds \<in> {''AWAITING_REVIEW'', ''AWAITING_CODE_REVIEW_RERUN''})" by blast+
qed

text \<open>A phase is promoted only when it is the earliest phase that is not terminal, its numbers are unique, no
  completed phase hides an unchecked task, every task of it is checked and every required gate is settled with
  non-blank evidence; the promotion names all its tasks in ledger order.\<close>

lemma reconcile_promotes_settled:
  assumes "reconcilePhaseState ps = Promote n ids r"
  shows "\<exists>p ts gs. earliest_open ps p \<and> ph_number p = n \<and> distinct (map ph_number ps) \<and> completed_done ps
     \<and> ph_documentExists p \<and> ph_tasks p = Some ts \<and> ts \<noteq> [] \<and> list_all tk_checked ts
     \<and> ids = map tk_id (sort_key tk_index ts) \<and> ph_gates p = Some gs \<and> gates_settled gs"
proof (cases ps rule: reconcilePhaseState_cases)
  case (on_phase p)
  with assms have pr: "reconcile_phase p = Promote n ids r" by simp
  then obtain ds fs ts gs where *: "ph_documentExists p" "ph_tasks p = Some ts" "ts \<noteq> []" "ph_gates p = Some gs"
    "reconcile_planned p gs ds fs (sort_key tk_index ts) = Promote n ids r"
    by (metis reconcile_phase_dispatch)
  from reconcile_planned_Promote [OF *(5)] on_phase(1-3) *(1-4) show ?thesis by (auto simp: list_all_iff)
qed (use assms in simp_all)

lemma reconcile_selects:
  assumes "reconcilePhaseState ps = Select n tid r"
  obtains p ts where "earliest_open ps p" "ph_number p = n" "distinct (map ph_number ps)" "ph_tasks p = Some ts"
    "(\<exists>t. next_task ts t \<and> tid = tk_id t \<and> \<not> persisted_terminal t)
     \<or> (list_all tk_checked ts \<and> (status_of p = Some ''AWAITING_REVIEW'' \<or> status_of p = Some ''AWAITING_CODE_REVIEW_RERUN''))"
proof (cases ps rule: reconcilePhaseState_cases)
  case (on_phase p)
  with assms have "reconcile_phase p = Select n tid r" by simp
  then obtain ds fs ts gs where "status_of p = Some ds" "ph_tasks p = Some ts"
    and "reconcile_planned p gs ds fs (sort_key tk_index ts) = Select n tid r"
    by (metis reconcile_phase_dispatch)
  with reconcile_planned_Select [OF this(3)] on_phase show ?thesis by (intro that [of p ts]) auto
qed (use assms in simp_all)

section \<open>Continuation\<close>

text \<open>C31. A phase worker is continued only below the safety cap, without a blocker and on a phase in progress, and
  then, when the decision is the reconciliation of the phases, only on a task of that phase that is unchecked while
  all tasks before it are checked.\<close>

theorem continuation_next_task:
  assumes "evaluatePhaseWorkerResultContinuation i = Continue tid r"
    and "ci_reconciliationDecision i = reconcilePhaseState ps" and "p \<in> set ps"
    and "ph_number p = ci_phaseNumber i" and "ph_documentStatus p = ci_phaseStatus i"
  shows "ci_recoveryAttempt i < ci_absoluteSafetyCap i \<and> ci_blocker i \<in> {None, Some []} \<and> ci_hasDurableTaskProgress i
     \<and> earliest_open ps p \<and> (\<exists>ts t. ph_tasks p = Some ts \<and> next_task ts t \<and> tid = tk_id t)"
proof -
  obtain n r' where sel: "ci_reconciliationDecision i = Select n tid r'" "n = ci_phaseNumber i"
    and st: "normalizeReconciliationPhaseStatus (ci_phaseStatus i) = Some ''IN_PROGRESS''"
    and g: "ci_recoveryAttempt i < ci_absoluteSafetyCap i" "ci_blocker i \<in> {None, Some []}" "ci_hasDurableTaskProgress i"
    using assms(1) unfolding evaluatePhaseWorkerResultContinuation_def Let_def
    by (auto split: if_splits option.splits list.splits reconciliation_decision.splits)
  from assms(2) sel(1) have "reconcilePhaseState ps = Select n tid r'" by simp
  then obtain q ts where q: "earliest_open ps q" "ph_number q = n" "distinct (map ph_number ps)" "ph_tasks q = Some ts"
    "(\<exists>t. next_task ts t \<and> tid = tk_id t \<and> \<not> persisted_terminal t)
     \<or> (list_all tk_checked ts \<and> (status_of q = Some ''AWAITING_REVIEW'' \<or> status_of q = Some ''AWAITING_CODE_REVIEW_RERUN''))"
    by (rule reconcile_selects)
  have "q = p" using q(1-3) assms(3,4) sel(2) by (auto simp: earliest_open_def intro: distinct_numbers)
  moreover have "status_of p = Some ''IN_PROGRESS''" using st assms(5) by (simp add: status_of_def)
  ultimately show ?thesis using q g by auto
qed

section \<open>Recovery ends in promotion\<close>

text \<open>One round of the recovery loop: the task the reconciliation selects is carried out and checked off.\<close>

definition check_task :: "string \<Rightarrow> reconciliation_phase \<Rightarrow> reconciliation_phase" where
  "check_task i p = p\<lparr>ph_tasks := map_option (map (\<lambda>t. if tk_id t = i then t\<lparr>tk_checked := True\<rparr> else t)) (ph_tasks p)\<rparr>"

definition recover_round :: "reconciliation_phase list \<Rightarrow> reconciliation_phase list" where
  "recover_round ps =
     (case reconcilePhaseState ps of
        Select n i _ \<Rightarrow> map (\<lambda>p. if ph_number p = n then check_task i p else p) ps
      | _ \<Rightarrow> ps)"

definition recoverable_tasks :: "reconciliation_task list \<Rightarrow> bool" where
  "recoverable_tasks ts \<longleftrightarrow> ts \<noteq> [] \<and> distinct (map tk_id ts) \<and> distinct (map tk_index ts)
     \<and> (\<forall>t\<in>set ts. \<not> tk_checked t \<longrightarrow> \<not> persisted_terminal t
          \<and> (\<forall>u\<in>set ts. tk_index t < tk_index u \<longrightarrow> \<not> tk_checked u \<and> tk_persistedStatus u \<noteq> Some tr_IN_PROGRESS))"

definition recoverable :: "reconciliation_phase list \<Rightarrow> reconciliation_phase \<Rightarrow> bool" where
  "recoverable ps p \<longleftrightarrow> distinct (map ph_number ps) \<and> completed_done ps \<and> earliest_open ps p
     \<and> ph_documentExists p \<and> status_of p = Some ''IN_PROGRESS''
     \<and> normalizeReconciliationPhaseStatus (ph_featureTasksStatus p) \<in> {Some ''PENDING'', Some ''IN_PROGRESS''}
     \<and> (\<exists>gs. ph_gates p = Some gs \<and> gates_settled gs) \<and> (\<exists>ts. ph_tasks p = Some ts \<and> recoverable_tasks ts)"

definition open_tasks :: "reconciliation_phase \<Rightarrow> nat" where
  "open_tasks p = length (filter (\<lambda>t. \<not> tk_checked t) (the (ph_tasks p)))"

lemma next_task_unique:
  assumes "distinct (map tk_index ts)" and "next_task ts t" and "next_task ts u"
  shows "t = u"
proof -
  have "tk_index t = tk_index u"
    using assms(2,3) unfolding next_task_def by (meson linorder_neqE)
  with assms show ?thesis by (metis distinct_map inj_onD next_task_def)
qed

lemma find_next_task:
  assumes "List.find (\<lambda>t. \<not> tk_checked t) (sort_key tk_index ts) = Some t"
  shows "next_task ts t"
  using find_sort_key [OF assms] by (auto simp: next_task_def) force

lemma reconcile_recoverable:
  assumes "recoverable ps p" and "ph_tasks p = Some ts"
  shows "if list_all tk_checked ts
    then \<exists>r. reconcilePhaseState ps = Promote (ph_number p) (map tk_id (sort_key tk_index ts)) r
    else \<exists>t r. next_task ts t \<and> reconcilePhaseState ps = Select (ph_number p) (tk_id t) r"
proof -
  have rt: "recoverable_tasks ts" using assms by (auto simp: recoverable_def)
  then have ne: "ts \<noteq> []" by (simp add: recoverable_tasks_def)
  obtain gs where gs: "ph_gates p = Some gs" "gates_settled gs" using assms(1) by (auto simp: recoverable_def)
  obtain fs where fs: "normalizeReconciliationPhaseStatus (ph_featureTasksStatus p) = Some fs" "fs \<in> {''PENDING'', ''IN_PROGRESS''}"
    using assms(1) by (auto simp: recoverable_def)
  have rec: "reconcilePhaseState ps = reconcile_planned p gs ''IN_PROGRESS'' fs (sort_key tk_index ts)"
  proof -
    have "reconcilePhaseState ps = reconcile_phase p"
      using assms(1) by (intro reconcilePhaseState_open) (auto simp: recoverable_def)
    moreover have "ph_documentExists p" "normalizeReconciliationPhaseStatus (ph_documentStatus p) = Some ''IN_PROGRESS''"
      using assms(1) by (auto simp: recoverable_def status_of_def)
    ultimately show ?thesis using assms(2) ne gs(1) fs(1)
      by (cases ts) (simp_all add: reconcile_phase_def Let_def)
  qed
  have ok: "\<not> isContradictoryStatus ''IN_PROGRESS'' fs" using fs(2) by (auto simp: isContradictoryStatus_def)
  have pt: "List.find (\<lambda>t. \<not> tk_checked t \<and> persisted_terminal t) (sort_key tk_index ts) = None"
    using rt by (auto simp: find_None_set recoverable_tasks_def)
  show ?thesis
  proof (cases "list_all tk_checked ts")
    case True
    then have "List.find (\<lambda>t. \<not> tk_checked t) (sort_key tk_index ts) = None" by (auto simp: find_None_set list_all_iff)
    moreover have "validateSettledGates gs = None" using gs(2) by simp
    ultimately show ?thesis using rec ok pt True by (simp del: validateSettledGates_None add: reconcile_planned_def Let_def reconcile_checked_def)
  next
    case False
    then obtain t where t: "List.find (\<lambda>t. \<not> tk_checked t) (sort_key tk_index ts) = Some t"
      by (cases "List.find (\<lambda>t. \<not> tk_checked t) (sort_key tk_index ts)") (auto simp: find_None_set list_all_iff)
    then have n: "next_task ts t" by (rule find_next_task)
    have later: "\<not> tk_checked u \<and> tk_persistedStatus u \<noteq> Some tr_IN_PROGRESS \<and> \<not> persisted_terminal u"
      if "u \<in> set ts" "tk_index t < tk_index u" for u
      using that n rt unfolding next_task_def recoverable_tasks_def by blast
    then have "\<not> out_of_order (sort_key tk_index ts) t"
      by (auto simp: out_of_order_def list_ex_iff)
    with rec ok pt t n False show ?thesis by (auto simp: reconcile_planned_def Let_def)
  qed
qed

lemma status_of_check_task [simp]: "status_of (check_task i p) = status_of p"
  by (simp add: check_task_def status_of_def)

lemma is_terminal_check_task [simp]: "is_terminal (check_task i p) = is_terminal p"
  by (simp add: is_terminal_iff)

lemma check_task_fields [simp]:
  "ph_number (check_task i p) = ph_number p" "ph_documentExists (check_task i p) = ph_documentExists p"
  "ph_featureTasksStatus (check_task i p) = ph_featureTasksStatus p" "ph_gates (check_task i p) = ph_gates p"
  "ph_tasks (check_task i p) = map_option (map (\<lambda>t. if tk_id t = i then t\<lparr>tk_checked := True\<rparr> else t)) (ph_tasks p)"
  by (simp_all add: check_task_def)

lemma check_next_tasks:
  assumes "recoverable_tasks ts" and "next_task ts t"
  defines "us \<equiv> map (\<lambda>u. if tk_id u = tk_id t then u\<lparr>tk_checked := True\<rparr> else u) ts"
  shows "recoverable_tasks us" and "map tk_id (sort_key tk_index us) = map tk_id (sort_key tk_index ts)"
    and "Suc (length (filter (\<lambda>t. \<not> tk_checked t) us)) = length (filter (\<lambda>t. \<not> tk_checked t) ts)"
proof -
  let ?f = "\<lambda>u. if tk_id u = tk_id t then u\<lparr>tk_checked := True\<rparr> else u"
  have same: "map tk_id us = map tk_id ts" "map tk_index us = map tk_index ts"
    by (auto simp: us_def)
  have id: "u = t" if "u \<in> set ts" "tk_id u = tk_id t" for u
    using that assms(1,2) by (metis distinct_map inj_onD next_task_def recoverable_tasks_def)
  have inj: "u = t" if "u \<in> set ts" "tk_index u = tk_index t" for u
    using that assms(1,2) by (metis distinct_map inj_onD next_task_def recoverable_tasks_def)
  have chk: "tk_checked (?f u) \<longleftrightarrow> tk_checked u \<or> u = t" if "u \<in> set ts" for u
    using id [OF that] by auto
  have pst: "persisted_terminal (?f u) = persisted_terminal u" "tk_persistedStatus (?f u) = tk_persistedStatus u"
    "tk_index (?f u) = tk_index u" for u
    by (simp_all add: persisted_terminal_def)
  have ord: "\<not> tk_checked u \<and> u \<noteq> t \<Longrightarrow> u \<in> set ts \<Longrightarrow> tk_index t < tk_index u" for u
    using assms(2) inj [of u] unfolding next_task_def by (metis linorder_neqE)
  show "recoverable_tasks us"
    unfolding recoverable_tasks_def same
  proof (intro conjI ballI impI)
    show "us \<noteq> []" "distinct (map tk_id ts)" "distinct (map tk_index ts)"
      using assms(1) by (auto simp: us_def recoverable_tasks_def)
  next
    fix u assume u: "u \<in> set us" "\<not> tk_checked u"
    then obtain v where v: "v \<in> set ts" "u = ?f v" by (auto simp: us_def)
    with u(2) chk have nv: "\<not> tk_checked v" "v \<noteq> t" by auto
    then show "\<not> persisted_terminal u" using assms(1) v pst by (auto simp: recoverable_tasks_def)
    fix w assume w: "w \<in> set us" "tk_index u < tk_index w"
    then obtain x where x: "x \<in> set ts" "w = ?f x" by (auto simp: us_def)
    with w(2) v(2) have less: "tk_index v < tk_index x" by (simp only: pst)
    with ord [of v] nv v(1) have "x \<noteq> t" by auto
    moreover have "\<not> tk_checked x \<and> tk_persistedStatus x \<noteq> Some tr_IN_PROGRESS"
      using assms(1) nv(1) v(1) x(1) less unfolding recoverable_tasks_def by blast
    ultimately show "\<not> tk_checked w" "tk_persistedStatus w \<noteq> Some tr_IN_PROGRESS"
      using chk [OF x(1)] by (simp_all only: x(2) pst) simp_all
  qed
  have "sort_key tk_index us = map ?f (sort_key tk_index ts)"
    unfolding us_def by (rule sort_key_map) (rule pst(3))
  then show "map tk_id (sort_key tk_index us) = map tk_id (sort_key tk_index ts)" by auto
  show "Suc (length (filter (\<lambda>t. \<not> tk_checked t) us)) = length (filter (\<lambda>t. \<not> tk_checked t) ts)"
  proof -
    have "filter (\<lambda>u. \<not> tk_checked (?f u)) ts = filter (\<lambda>u. \<not> tk_checked u \<and> u \<noteq> t) ts"
      by (rule filter_cong) (simp_all only: chk, blast)
    then have "length (filter (\<lambda>t. \<not> tk_checked t) us) = length (filter (\<lambda>u. \<not> tk_checked u \<and> u \<noteq> t) ts)"
      unfolding us_def by (simp only: filter_map comp_def length_map)
    moreover have "Suc (length (filter (\<lambda>u. \<not> tk_checked u \<and> u \<noteq> t) ts)) = length (filter (\<lambda>u. \<not> tk_checked u) ts)"
      using assms(1,2) by (intro length_filter_except) (auto simp: recoverable_tasks_def next_task_def distinct_map)
    ultimately show ?thesis by simp
  qed
qed


lemma recoverable_round:
  assumes "recoverable ps p" and "ph_tasks p = Some ts" and "\<not> list_all tk_checked ts"
  shows "\<exists>t. next_task ts t \<and> recoverable (recover_round ps) (check_task (tk_id t) p)"
proof -
  obtain t r where t: "next_task ts t" "reconcilePhaseState ps = Select (ph_number p) (tk_id t) r"
    using reconcile_recoverable [OF assms(1,2)] assms(3) by auto
  let ?g = "\<lambda>q. if ph_number q = ph_number p then check_task (tk_id t) q else q"
  have rr: "recover_round ps = map ?g ps" by (simp add: recover_round_def t(2))
  have rt: "recoverable_tasks ts" and e: "earliest_open ps p" and d: "distinct (map ph_number ps)" and c: "completed_done ps"
    using assms(1,2) by (auto simp: recoverable_def)
  have nums: "ph_number (?g q) = ph_number q" "is_terminal (?g q) = is_terminal q" "status_of (?g q) = status_of q" for q by auto
  have "map ph_number (map ?g ps) = map ph_number ps" by auto
  moreover have "earliest_open (map ?g ps) (check_task (tk_id t) p)"
    using e nums unfolding earliest_open_def by auto
  moreover have "completed_done (map ?g ps)"
  proof -
    have "?g q = q" if "q \<in> set ps" "status_of q = Some ''COMPLETED''" for q
      using that e d distinct_numbers [of ps q p] by (auto simp: earliest_open_def is_terminal_iff)
    then have "?g q = q" if "q \<in> set ps" "status_of (?g q) = Some ''COMPLETED''" for q
      using that nums(3) by metis
    then have "?g q \<in> set ps" if "q \<in> set ps" "status_of (?g q) = Some ''COMPLETED''" for q
      using that by metis
    then show ?thesis using c unfolding completed_done_def set_map by blast
  qed
  ultimately have "distinct (map ph_number (recover_round ps)) \<and> completed_done (recover_round ps)
      \<and> earliest_open (recover_round ps) (check_task (tk_id t) p)"
    using d by (simp only: rr)
  moreover have "recoverable_tasks (map (\<lambda>u. if tk_id u = tk_id t then u\<lparr>tk_checked := True\<rparr> else u) ts)"
    by (rule check_next_tasks(1) [OF rt t(1)])
  ultimately have "recoverable (recover_round ps) (check_task (tk_id t) p)"
    using assms(1,2) unfolding recoverable_def status_of_check_task check_task_fields by simp
  with t(1) show ?thesis by blast
qed


definition sample_task :: "char \<Rightarrow> int \<Rightarrow> bool \<Rightarrow> reconciliation_task" where
  "sample_task c n b = \<lparr>tk_id = [c], tk_index = n, tk_checked = b, tk_persistedStatus = None\<rparr>"

lemma sample_status [simp]:
  "normalizeReconciliationPhaseStatus (Some ''IN_PROGRESS'') = Some ''IN_PROGRESS''"
  "normalizeReconciliationPhaseStatus (Some ''PENDING'') = Some ''PENDING''"
  by code_simp+

definition sample_gates :: "reconciliation_gate list" where
  "sample_gates = map (\<lambda>n. \<lparr>gt_name = n, gt_status = Satisfied, gt_justification = Some ''ok''\<rparr>) REQUIRED_GATES"

lemma sample_gates_settled: "gates_settled sample_gates"
  by (simp add: gates_settled_def sample_gates_def REQUIRED_GATES_def js_map_def blank_def
      trim_def trimStart_def trimEnd_def is_ws_def code_of_def Let_def)

definition sample_phase :: "bool \<Rightarrow> reconciliation_phase" where
  "sample_phase b = \<lparr>ph_number = 2, ph_title = ''Build'', ph_documentExists = True, ph_documentStatus = Some ''IN_PROGRESS'',
     ph_featureTasksStatus = Some ''PENDING'', ph_tasks = Some [sample_task CHR ''a'' 1 True, sample_task CHR ''b'' 2 b],
     ph_taskRunCount = 1, ph_gates = Some sample_gates, ph_autonomousCodeReviewRequired = None\<rparr>"

lemma sample_status_of [simp]: "status_of (sample_phase b) = Some ''IN_PROGRESS''"
  by (simp add: status_of_def sample_phase_def)

lemma sample_recoverable: "recoverable [sample_phase b] (sample_phase b)"
  unfolding recoverable_def
proof (intro conjI)
  show "completed_done [sample_phase b]" "earliest_open [sample_phase b] (sample_phase b)"
    by (simp_all add: completed_done_def earliest_open_def is_terminal_iff)
  show "status_of (sample_phase b) = Some ''IN_PROGRESS''" by simp
  show "\<exists>gs. ph_gates (sample_phase b) = Some gs \<and> gates_settled gs"
    using sample_gates_settled by (simp add: sample_phase_def)
  show "\<exists>ts. ph_tasks (sample_phase b) = Some ts \<and> recoverable_tasks ts"
    by (simp add: sample_phase_def recoverable_tasks_def sample_task_def persisted_terminal_def)
qed (simp_all add: sample_phase_def)


theorem reconcile_promotes_settled_witness: "earliest_open [sample_phase True] (sample_phase True) \<and> gates_settled sample_gates"
proof -
  obtain n ids r where "reconcilePhaseState [sample_phase True] = Promote n ids r"
    using reconcile_recoverable [OF sample_recoverable [of True], of "the (ph_tasks (sample_phase True))"]
    by (auto simp: sample_phase_def sample_task_def)
  from reconcile_promotes_settled [OF this] show ?thesis by (auto simp: earliest_open_def sample_phase_def)
qed

definition sample_continuation :: continuation_input where
  "sample_continuation = \<lparr>ci_phaseNumber = 2, ci_phaseStatus = Some ''IN_PROGRESS'',
     ci_reconciliationDecision = reconcilePhaseState [sample_phase False], ci_hasDurableTaskProgress = True, ci_blocker = None,
     ci_recoveryAttempt = 0, ci_absoluteSafetyCap = 3\<rparr>"

theorem continuation_next_task_witness:
  "\<exists>tid r. evaluatePhaseWorkerResultContinuation sample_continuation = Continue tid r \<and> tid = ''b''"
proof -
  obtain i r where s: "reconcilePhaseState [sample_phase False] = Select 2 i r"
    using reconcile_recoverable [OF sample_recoverable [of False], of "the (ph_tasks (sample_phase False))"]
    by (auto simp: sample_phase_def sample_task_def)
  then have c: "\<exists>r. evaluatePhaseWorkerResultContinuation sample_continuation = Continue i r"
    by (simp add: evaluatePhaseWorkerResultContinuation_def sample_continuation_def Let_def)
  then obtain r' where c': "evaluatePhaseWorkerResultContinuation sample_continuation = Continue i r'" by blast
  from continuation_next_task [OF c', of "[sample_phase False]" "sample_phase False"] have "i = ''b''"
    by (auto simp: sample_continuation_def sample_phase_def sample_task_def next_task_def)
  with c show ?thesis by blast
qed

section \<open>The verdict on a worker process\<close>

text \<open>What one message and one event say about the end of the work.\<close>

definition message_verdict :: "jsv \<Rightarrow> terminal_state list" where
  "message_verdict m =
     (if \<not> (isRecord m \<or> as_array m \<noteq> None) then []
      else case readErrorText m of
          Some e \<Rightarrow> [Failed e]
        | None \<Rightarrow> if jget m ''stopReason'' = JStr ''error'' then [Failed ''Pi model provider returned an error.'']
                  else if jget m ''stopReason'' = JStr ''stop'' then [Succeeded] else [])"

definition event_verdicts :: "jsv \<Rightarrow> terminal_state list" where
  "event_verdicts e =
     (if jget e ''type'' = JStr ''error'' then
        [Failed (case readErrorText e of None \<Rightarrow> ''Pi worker emitted an error event.'' | Some t \<Rightarrow> t)]
      else if jget e ''type'' = JStr ''message_end'' then message_verdict (jget e ''message'')
      else if jget e ''type'' = JStr ''agent_end'' then
        (case jget e ''messages'' of JArr ms \<Rightarrow> concat (map message_verdict ms) | _ \<Rightarrow> [])
      else [])"

definition last_of :: "'a \<Rightarrow> 'a list \<Rightarrow> 'a" where
  "last_of x xs = (if xs = [] then x else last xs)"

lemma last_of_append [simp]: "last_of x (xs @ ys) = last_of (last_of x xs) ys"
  by (simp add: last_of_def)

lemma last_of_simps [simp]: "last_of x [] = x" "last_of x [y] = y"
  by (simp_all add: last_of_def)

lemma observe_message: "observeTerminalMessage c m = last_of c (message_verdict m)"
  by (auto simp: observeTerminalMessage_def message_verdict_def Let_def split: option.splits jsv.splits)

lemma observe_messages: "foldl observeTerminalMessage c ms = last_of c (concat (map message_verdict ms))"
  by (induction ms arbitrary: c) (simp_all add: observe_message)

lemma observe_event: "observeGenericWorkerTerminalEvent c e = last_of c (event_verdicts e)"
  by (auto simp: observeGenericWorkerTerminalEvent_def event_verdicts_def observe_message observe_messages split: jsv.splits)

lemma observe_events:
  "foldl observeGenericWorkerTerminalEvent c es = last_of c (concat (map event_verdicts es))"
  by (induction es arbitrary: c) (simp_all add: observe_event)

text \<open>A worker process completes with an output exactly when it exits with code zero, the last verdict in its whole
  event stream is not a failure (earlier transient errors do not matter), and its trimmed output, or else the trimmed
  fallback, is not empty and is that output.\<close>

lemma worker_completes:
  "resolveGenericWorkerProcessResult code fb out err
       (foldl observeGenericWorkerTerminalEvent initialGenericWorkerTerminalState es) = Complete x \<longleftrightarrow>
     code = Some 0 \<and> last_of Pending (concat (map event_verdicts es)) \<in> {Pending, Succeeded}
     \<and> x \<noteq> [] \<and> x = (if trim out \<noteq> [] then trim out else trim fb)"
  unfolding observe_events initialGenericWorkerTerminalState_def
  by (cases "last_of Pending (concat (map event_verdicts es))")
    (auto simp: resolveGenericWorkerProcessResult_def Let_def)

section \<open>The queue is worked through in order\<close>

text \<open>The executor loop around the queue: the selected task is run, its outcome is interpreted for that task, and the
  task's state is recorded. The log holds every run.\<close>

inductive queue_run :: "ordered_task list \<Rightarrow> (string \<rightharpoonup> ordered_state) \<Rightarrow> (ordered_task \<times> task_outcome) list \<Rightarrow> bool"
  for ts where
  queue_start: "queue_run ts Map.empty []"
| queue_complete: "queue_run ts st es \<Longrightarrow> selectNextOrderedPhaseTask ts st = Execute_task t \<Longrightarrow>
     selectOrderedTaskTransition t r = Complete_current_task \<Longrightarrow> queue_run ts (st(ot_id t \<mapsto> os_COMPLETED)) (es @ [(t, r)])"
| queue_retry: "queue_run ts st es \<Longrightarrow> selectNextOrderedPhaseTask ts st = Execute_task t \<Longrightarrow>
     selectOrderedTaskTransition t r = Retry_current_task w \<Longrightarrow> queue_run ts (st(ot_id t \<mapsto> os_IN_PROGRESS)) (es @ [(t, r)])"
| queue_block: "queue_run ts st es \<Longrightarrow> selectNextOrderedPhaseTask ts st = Execute_task t \<Longrightarrow>
     selectOrderedTaskTransition t r = Transition_blocked \<Longrightarrow> queue_run ts (st(ot_id t \<mapsto> os_BLOCKED)) (es @ [(t, r)])"

definition completes :: "ordered_task \<times> task_outcome \<Rightarrow> bool" where
  "completes e \<longleftrightarrow> selectOrderedTaskTransition (fst e) (snd e) = Complete_current_task"

text \<open>The outcome that completes a task of its kind.\<close>

fun completing :: "task_executor \<Rightarrow> task_outcome set" where
  "completing ex_code_review = {oc_APPROVED}"
| "completing ex_verification = {oc_PASSED, oc_SUCCEEDED}"
| "completing _ = {oc_SUCCEEDED}"

lemma completes_iff: "completes (t, r) \<longleftrightarrow> r \<in> completing (ot_executor t)"
  by (cases "ot_executor t") (auto simp: completes_def selectOrderedTaskTransition_def)

text \<open>The first \<open>n\<close> tasks are completed, the next one may have started, the others are untouched.\<close>

definition queue_at :: "ordered_task list \<Rightarrow> (string \<rightharpoonup> ordered_state) \<Rightarrow> nat \<Rightarrow> bool" where
  "queue_at ts st n \<longleftrightarrow> n \<le> length ts \<and> (\<forall>t\<in>set (take n ts). st (ot_id t) = Some os_COMPLETED)
     \<and> (\<forall>i. i < length ts \<longrightarrow> n \<le> i \<longrightarrow>
          st (ot_id (ts ! i)) \<in> (if i = n then {None, Some os_IN_PROGRESS, Some os_BLOCKED} else {None}))"

lemma select_skip:
  "(\<forall>t\<in>set us. st (ot_id t) = Some os_COMPLETED) \<Longrightarrow>
     selectNextOrderedPhaseTask (us @ ts) st = selectNextOrderedPhaseTask ts st"
  by (induction us) (auto simp: Let_def)

lemma queue_at_select:
  assumes "queue_at ts st n"
  shows "selectNextOrderedPhaseTask ts st =
     (if n = length ts then Phase_complete
      else if st (ot_id (ts ! n)) = Some os_BLOCKED then Selection_blocked (ts ! n) else Execute_task (ts ! n))"
proof -
  have "selectNextOrderedPhaseTask ts st = selectNextOrderedPhaseTask (drop n ts) st"
    using select_skip [of "take n ts" st "drop n ts"] assms by (simp add: queue_at_def)
  moreover have "drop n ts = (if n = length ts then [] else ts ! n # drop (Suc n) ts)"
    using assms by (auto simp: queue_at_def Cons_nth_drop_Suc)
  moreover have "n < length ts \<Longrightarrow> st (ot_id (ts ! n)) \<in> {None, Some os_IN_PROGRESS, Some os_BLOCKED}"
    using assms unfolding queue_at_def by force
  ultimately show ?thesis using assms by (auto simp: Let_def queue_at_def split: option.splits)
qed

lemma queue_at_step:
  assumes "queue_at ts st n" and "n < length ts" and "distinct (map ot_id ts)"
  shows "queue_at ts (st(ot_id (ts ! n) \<mapsto> os_COMPLETED)) (Suc n)"
    and "s \<in> {os_IN_PROGRESS, os_BLOCKED} \<Longrightarrow> queue_at ts (st(ot_id (ts ! n) \<mapsto> s)) n"
proof -
  have neq: "ot_id (ts ! i) \<noteq> ot_id (ts ! n)" if "i < length ts" "i \<noteq> n" for i
    using that assms(2,3) by (simp add: distinct_conv_nth)
  then have pre: "ot_id t \<noteq> ot_id (ts ! n)" if "t \<in> set (take n ts)" for t
    using that assms(2) by (fastforce simp: in_set_conv_nth)
  show "queue_at ts (st(ot_id (ts ! n) \<mapsto> os_COMPLETED)) (Suc n)"
    using assms(1,2) neq by (auto simp: queue_at_def take_Suc_conv_app_nth)
  show "queue_at ts (st(ot_id (ts ! n) \<mapsto> s)) n" if "s \<in> {os_IN_PROGRESS, os_BLOCKED}"
    using assms(1,2) neq pre that by (auto simp: queue_at_def)
qed

lemma queue_at_executes:
  "queue_at ts st n \<Longrightarrow> selectNextOrderedPhaseTask ts st = Execute_task t \<Longrightarrow> n < length ts \<and> t = ts ! n"
  by (auto simp: queue_at_select queue_at_def split: if_splits)

lemma queue_run_at:
  assumes "queue_run ts st es" and "distinct (map ot_id ts)"
  shows "\<exists>n. queue_at ts st n \<and> map fst (filter completes es) = take n ts"
  using assms(1)
proof induction
  case queue_start
  show ?case by (intro exI [of _ 0]) (simp add: queue_at_def)
next
  case (queue_complete st es t r)
  then obtain n where n: "queue_at ts st n" "map fst (filter completes es) = take n ts" by blast
  moreover have "n < length ts \<and> t = ts ! n" by (rule queue_at_executes [OF n(1) queue_complete(2)])
  moreover have "completes (t, r)" using queue_complete(3) by (simp add: completes_def)
  ultimately show ?case using queue_at_step(1) [OF n(1) _ assms(2)]
    by (intro exI [of _ "Suc n"]) (simp add: take_Suc_conv_app_nth fun_upd_def)
next
  case (queue_retry st es t r w)
  then obtain n where n: "queue_at ts st n" "map fst (filter completes es) = take n ts" by blast
  moreover have "n < length ts \<and> t = ts ! n" by (rule queue_at_executes [OF n(1) queue_retry(2)])
  moreover have "\<not> completes (t, r)" using queue_retry(3) by (simp add: completes_def)
  ultimately show ?case using queue_at_step(2) [OF n(1) _ assms(2)]
    by (intro exI [of _ n]) (simp add: fun_upd_def)
next
  case (queue_block st es t r)
  then obtain n where n: "queue_at ts st n" "map fst (filter completes es) = take n ts" by blast
  moreover have "n < length ts \<and> t = ts ! n" by (rule queue_at_executes [OF n(1) queue_block(2)])
  moreover have "\<not> completes (t, r)" using queue_block(3) by (simp add: completes_def)
  ultimately show ?case using queue_at_step(2) [OF n(1) _ assms(2)]
    by (intro exI [of _ n]) (simp add: fun_upd_def)
qed



end
