(* ===== verification/DependencyOrder.thy ===== *)
theory DependencyOrder
  imports Prelude
begin

text \<open>
  The order in which the candidates of an epic are created (\<open>batch-preview/dependency-order.ts\<close>): the dependency
  graph as the code builds it in three maps, and the loop over the queue of candidates without open dependencies. The
  loop is a partial function; that it returns is a theorem of \<open>DependencyFacts\<close>. Source orders are integers.
\<close>

record preview_candidate =
  pc_title :: string
  pc_summary :: string
  pc_plannedFeatureId :: string
  pc_plannedFolderName :: string
  pc_plannedDocumentPath :: string
  pc_parentEpic :: string
  pc_dependencyIds :: "string list"
  pc_priority :: "string option"
  pc_sourceOrder :: int
  pc_backlinkText :: string
  pc_fromExplicitLink :: bool

record ordered_candidates =
  oc_ordered :: "preview_candidate list"
  oc_warnings :: "string list"
  oc_blocked :: bool

section \<open>The graph\<close>

text \<open>The three maps and the warnings; the keys of \<open>inDegree\<close> in insertion order are the identifiers without
  repetitions.\<close>

record dependency_graph =
  dg_candidateMap :: "string \<rightharpoonup> preview_candidate"
  dg_inDegree :: "string \<rightharpoonup> int"
  dg_adjacency :: "string \<rightharpoonup> string list"
  dg_warnings :: "string list"

fun add_candidate :: "preview_candidate \<Rightarrow> dependency_graph \<Rightarrow> dependency_graph" where
  "add_candidate c g = g\<lparr>dg_candidateMap := (dg_candidateMap g)(pc_plannedFeatureId c \<mapsto> c),
     dg_inDegree := (dg_inDegree g)(pc_plannedFeatureId c \<mapsto> 0), dg_adjacency := (dg_adjacency g)(pc_plannedFeatureId c \<mapsto> [])\<rparr>"

definition unresolved_warning :: "string \<Rightarrow> string \<Rightarrow> string" where
  "unresolved_warning i d = ''Unresolved dependency: '' @ i @ '' depends on '' @ d @ '', which is not in the candidate list.''"

fun add_dependency :: "string \<Rightarrow> string \<Rightarrow> dependency_graph \<Rightarrow> dependency_graph" where
  "add_dependency i d g =
     (if dg_candidateMap g d \<noteq> None then
        g\<lparr>dg_adjacency := (dg_adjacency g)(d \<mapsto> the (dg_adjacency g d) @ [i]),
          dg_inDegree := (dg_inDegree g)(i \<mapsto> (case dg_inDegree g i of None \<Rightarrow> 0 | Some n \<Rightarrow> n) + 1)\<rparr>
      else g\<lparr>dg_warnings := dg_warnings g @ [unresolved_warning i d]\<rparr>)"

definition build_graph :: "preview_candidate list \<Rightarrow> dependency_graph" where
  "build_graph cs =
     fold (\<lambda>c. fold (add_dependency (pc_plannedFeatureId c)) (pc_dependencyIds c)) cs
       (fold add_candidate cs \<lparr>dg_candidateMap = Map.empty, dg_inDegree = Map.empty, dg_adjacency = Map.empty, dg_warnings = []\<rparr>)"

section \<open>The loop\<close>

definition source_order :: "(string \<rightharpoonup> preview_candidate) \<Rightarrow> string \<Rightarrow> int" where
  "source_order m i = (case m i of None \<Rightarrow> 0 | Some c \<Rightarrow> pc_sourceOrder c)"

fun release :: "string \<Rightarrow> string list \<times> (string \<rightharpoonup> int) \<Rightarrow> string list \<times> (string \<rightharpoonup> int)" where
  "release k (queue, deg) =
     (let n = (case deg k of None \<Rightarrow> 1 | Some n \<Rightarrow> n) - 1
      in (if n = 0 then queue @ [k] else queue, deg(k \<mapsto> n)))"

definition neighbours :: "(string \<rightharpoonup> string list) \<Rightarrow> string \<Rightarrow> string list" where
  "neighbours adj i = (case adj i of None \<Rightarrow> [] | Some ks \<Rightarrow> ks)"

partial_function (option) drain ::
  "(string \<rightharpoonup> preview_candidate) \<Rightarrow> (string \<rightharpoonup> string list) \<Rightarrow> string list \<Rightarrow> (string \<rightharpoonup> int) \<Rightarrow> string list \<Rightarrow> string list option" where
  "drain m adj queue deg done =
     (case sort_key (source_order m) queue of
        [] \<Rightarrow> Some done
      | i # rest \<Rightarrow>
          (let r = fold release (neighbours adj i) (rest, deg)
           in drain m adj (fst r) (snd r) (done @ [i])))"

fun append_missing :: "preview_candidate list \<Rightarrow> string list \<Rightarrow> string list" where
  "append_missing [] done = done"
| "append_missing (c # cs) done =
     append_missing cs (if pc_plannedFeatureId c \<in> set done then done else done @ [pc_plannedFeatureId c])"

definition orderByDependencies :: "preview_candidate list \<Rightarrow> ordered_candidates option" where
  "orderByDependencies cs =
     (let g = build_graph cs;
          m = dg_candidateMap g;
          start = filter (\<lambda>i. dg_inDegree g i = Some 0) (js_set (map pc_plannedFeatureId cs))
      in case drain m (dg_adjacency g) (sort_key (source_order m) start) (dg_inDegree g) [] of
           None \<Rightarrow> None
         | Some done \<Rightarrow>
             if length done < length cs then
               Some \<lparr>oc_ordered = List.map_filter m (append_missing cs done),
                 oc_warnings = dg_warnings g @ [''Dependency cycle detected. Some candidates cannot be fully ordered.''],
                 oc_blocked = True\<rparr>
             else Some \<lparr>oc_ordered = List.map_filter m done, oc_warnings = dg_warnings g, oc_blocked = False\<rparr>)"

end
