(* ===== verification/DependencyFacts.thy ===== *)
theory DependencyFacts
  imports DependencyOrder "HOL-Library.Multiset"
begin

text \<open>
  The ordering of candidates: the three maps describe the dependency relation, the loop returns, what it returns
  respects every resolved dependency, and it is blocked exactly by a cycle.
\<close>

section \<open>The dependency relation\<close>

text \<open>The resolved dependencies, one entry for each listing: \<open>(d, i)\<close> when candidate \<open>i\<close> lists \<open>d\<close>.\<close>

definition ids :: "preview_candidate list \<Rightarrow> string list" where
  "ids cs = map pc_plannedFeatureId cs"

definition dep_list :: "preview_candidate list \<Rightarrow> (string \<times> string) list" where
  "dep_list cs = concat (map (\<lambda>c. map (\<lambda>d. (d, pc_plannedFeatureId c)) (filter (\<lambda>d. d \<in> set (ids cs)) (pc_dependencyIds c))) cs)"

definition dependencies :: "preview_candidate list \<Rightarrow> (string \<times> string) set" where
  "dependencies cs = set (dep_list cs)"

lemma dependencies_iff:
  "(d, i) \<in> dependencies cs \<longleftrightarrow> (\<exists>c\<in>set cs. pc_plannedFeatureId c = i \<and> d \<in> set (pc_dependencyIds c)) \<and> d \<in> set (ids cs)"
  by (auto simp: dependencies_def dep_list_def)

lemma dependencies_ids: "(d, i) \<in> dependencies cs \<Longrightarrow> d \<in> set (ids cs) \<and> i \<in> set (ids cs)"
  by (auto simp: dependencies_iff ids_def)

section \<open>The maps\<close>

lemma candidates_added:
  "dom (dg_candidateMap (fold add_candidate cs g)) = set (ids cs) \<union> dom (dg_candidateMap g)
   \<and> dg_inDegree (fold add_candidate cs g) = (\<lambda>i. if i \<in> set (ids cs) then Some 0 else dg_inDegree g i)
   \<and> dg_adjacency (fold add_candidate cs g) = (\<lambda>i. if i \<in> set (ids cs) then Some [] else dg_adjacency g i)"
proof (induction cs arbitrary: g)
  case Nil
  then show ?case by (simp add: ids_def)
next
  case (Cons c cs)
  from Cons.IH [of "add_candidate c g"] show ?case by (auto simp: ids_def fun_eq_iff)
qed

lemma candidate_found:
  "distinct (ids cs) \<Longrightarrow> c \<in> set cs \<Longrightarrow> dg_candidateMap (fold add_candidate cs g) (pc_plannedFeatureId c) = Some c"
proof (induction cs arbitrary: g)
  case (Cons d cs)
  have keep: "i \<notin> set (ids cs) \<Longrightarrow> dg_candidateMap (fold add_candidate cs g) i = dg_candidateMap g i" for i g
    by (induction cs arbitrary: g) (auto simp: ids_def)
  from Cons.prems have "distinct (ids cs)" by (simp add: ids_def)
  moreover have "dg_candidateMap (add_candidate d g) (pc_plannedFeatureId d) = Some d" by simp
  ultimately show ?case
    using Cons.IH [of "add_candidate d g"] Cons.prems keep [of "pc_plannedFeatureId d" "add_candidate d g"]
    by (auto simp del: add_candidate.simps simp: ids_def)
qed simp

text \<open>The edges recorded so far, in the three maps.\<close>

definition graph_of :: "string set \<Rightarrow> (string \<times> string) list \<Rightarrow> dependency_graph \<Rightarrow> bool" where
  "graph_of N es g \<longleftrightarrow> dom (dg_candidateMap g) = N
     \<and> dg_inDegree g = (\<lambda>k. if k \<in> N then Some (int (length (filter (\<lambda>e. snd e = k) es))) else None)
     \<and> dg_adjacency g = (\<lambda>k. if k \<in> N then Some (map snd (filter (\<lambda>e. fst e = k) es)) else None)"

lemma add_dependency_graph:
  assumes "graph_of N es g" and "i \<in> N"
  shows "graph_of N (es @ (if d \<in> N then [(d, i)] else [])) (add_dependency i d g)"
    and "dg_candidateMap (add_dependency i d g) = dg_candidateMap g"
  using assms by (auto simp: graph_of_def fun_eq_iff)

declare add_dependency.simps [simp del]

lemma add_dependencies_graph:
  assumes "graph_of N es g" and "i \<in> N"
  shows "graph_of N (es @ map (\<lambda>d. (d, i)) (filter (\<lambda>d. d \<in> N) ds)) (fold (add_dependency i) ds g)
    \<and> dg_candidateMap (fold (add_dependency i) ds g) = dg_candidateMap g"
  using assms(1)
proof (induction ds arbitrary: es g)
  case (Cons d ds)
  from Cons.IH [OF add_dependency_graph(1) [OF Cons.prems assms(2), of d]] add_dependency_graph(2) [OF Cons.prems assms(2), of d]
  show ?case by (auto split: if_splits)
qed simp

lemma add_all_graph:
  assumes "graph_of N es g" and "set (ids cs) \<subseteq> N"
  shows "graph_of N (es @ concat (map (\<lambda>c. map (\<lambda>d. (d, pc_plannedFeatureId c)) (filter (\<lambda>d. d \<in> N) (pc_dependencyIds c))) cs))
      (fold (\<lambda>c. fold (add_dependency (pc_plannedFeatureId c)) (pc_dependencyIds c)) cs g)
    \<and> dg_candidateMap (fold (\<lambda>c. fold (add_dependency (pc_plannedFeatureId c)) (pc_dependencyIds c)) cs g) = dg_candidateMap g"
  using assms
proof (induction cs arbitrary: es g)
  case (Cons c cs)
  then have "pc_plannedFeatureId c \<in> N" "set (ids cs) \<subseteq> N" by (auto simp: ids_def)
  note g = add_dependencies_graph [OF Cons.prems(1) this(1), of "pc_dependencyIds c"]
  from Cons.IH [OF conjunct1 [OF g] \<open>set (ids cs) \<subseteq> N\<close>] g show ?case by simp
qed simp

lemma build_graph:
  "graph_of (set (ids cs)) (dep_list cs) (build_graph cs)"
  "distinct (ids cs) \<Longrightarrow> c \<in> set cs \<Longrightarrow> dg_candidateMap (build_graph cs) (pc_plannedFeatureId c) = Some c"
proof -
  let ?e = "\<lparr>dg_candidateMap = Map.empty, dg_inDegree = Map.empty, dg_adjacency = Map.empty, dg_warnings = []\<rparr> :: dependency_graph"
  have "graph_of (set (ids cs)) [] (fold add_candidate cs ?e)"
    using candidates_added [of cs ?e] by (simp add: graph_of_def fun_eq_iff)
  from add_all_graph [OF this subset_refl]
  have g: "graph_of (set (ids cs)) (dep_list cs) (build_graph cs)" "dg_candidateMap (build_graph cs) = dg_candidateMap (fold add_candidate cs ?e)"
    by (simp_all add: build_graph_def dep_list_def)
  then show "graph_of (set (ids cs)) (dep_list cs) (build_graph cs)" by blast
  assume "distinct (ids cs)" and "c \<in> set cs"
  then show "dg_candidateMap (build_graph cs) (pc_plannedFeatureId c) = Some c"
    unfolding g(2) by (rule candidate_found)
qed

section \<open>One turn of the loop\<close>

lemma release_all:
  assumes "\<forall>k\<in>set ks. \<exists>n. deg k = Some n \<and> int (count_list ks k) \<le> n"
  shows "snd (fold release ks (queue, deg)) = (\<lambda>k. if k \<in> set ks then Some (the (deg k) - int (count_list ks k)) else deg k)
    \<and> set (fst (fold release ks (queue, deg))) = set queue \<union> {k \<in> set ks. the (deg k) = int (count_list ks k)}
    \<and> (distinct queue \<longrightarrow> set queue \<inter> set ks = {} \<longrightarrow> distinct (fst (fold release ks (queue, deg))))"
  using assms
proof (induction ks arbitrary: queue deg)
  case (Cons k ks)
  define n where "n = the (deg k) - 1"
  have dk: "deg k = Some (n + 1)" "int (count_list ks k) \<le> n" using Cons.prems by (auto simp: n_def)
  define q where "q = (if n = 0 then queue @ [k] else queue)"
  define e where "e = deg(k \<mapsto> n)"
  have step: "release k (queue, deg) = (q, e)" by (simp add: dk(1) q_def e_def)
  have pre: "\<forall>j\<in>set ks. \<exists>m. e j = Some m \<and> int (count_list ks j) \<le> m"
  proof
    fix j assume "j \<in> set ks"
    with Cons.prems show "\<exists>m. e j = Some m \<and> int (count_list ks j) \<le> m"
      using dk unfolding e_def by (cases "j = k") auto
  qed
  have z: "n = 0 \<Longrightarrow> k \<notin> set ks" using dk(2) by (auto simp: count_list_0_iff [symmetric])
  have c: "count_list ks j = 0 \<longleftrightarrow> j \<notin> set ks" for j by (rule count_list_0_iff)
  note ih = Cons.IH [OF pre, of q]
  have "snd (fold release ks (q, e)) j
      = (if j \<in> set (k # ks) then Some (the (deg j) - int (count_list (k # ks) j)) else deg j)" for j
    unfolding conjunct1 [OF ih] using dk by (cases "j = k"; cases "k \<in> set ks") (auto simp: e_def c)
  moreover have "set (fst (fold release ks (q, e))) =
      set queue \<union> {j \<in> set (k # ks). the (deg j) = int (count_list (k # ks) j)}"
  proof -
    have "j \<in> set q \<or> (j \<in> set ks \<and> the (e j) = int (count_list ks j)) \<longleftrightarrow>
        j \<in> set queue \<or> (j \<in> set (k # ks) \<and> the (deg j) = int (count_list (k # ks) j))" for j
      unfolding q_def e_def using dk z c [of k]
      by (cases "j = k"; cases "k \<in> set ks"; cases "n = 0") auto
    with ih show ?thesis by blast
  qed
  moreover have "distinct (fst (fold release ks (q, e)))" if "distinct queue" "set queue \<inter> set (k # ks) = {}"
    using ih that z by (auto simp: q_def)
  ultimately show ?case unfolding fold.simps comp_def step by (intro conjI ext impI) assumption+
qed simp

section \<open>The loop returns\<close>

text \<open>The listings of dependencies of \<open>k\<close> that are not done.\<close>

definition open_count :: "(string \<times> string) list \<Rightarrow> string set \<Rightarrow> string \<Rightarrow> nat" where
  "open_count es S k = length (filter (\<lambda>e. snd e = k \<and> fst e \<notin> S) es)"

definition edge_targets :: "(string \<times> string) list \<Rightarrow> string \<Rightarrow> string list" where
  "edge_targets es i = map snd (filter (\<lambda>e. fst e = i) es)"

lemma open_count_step:
  "i \<notin> S \<Longrightarrow> open_count es S k = open_count es (insert i S) k + count_list (edge_targets es i) k"
  by (induction es) (auto simp: open_count_def edge_targets_def)

lemma open_count_0: "open_count es S k = 0 \<longleftrightarrow> (\<forall>d. (d, k) \<in> set es \<longrightarrow> d \<in> S)"
  by (auto simp: open_count_def filter_empty_conv)

text \<open>Every entry of the sequence comes after all its dependencies.\<close>

definition dep_order :: "(string \<times> string) set \<Rightarrow> string list \<Rightarrow> bool" where
  "dep_order R xs \<longleftrightarrow> (\<forall>n<length xs. \<forall>d. (d, xs ! n) \<in> R \<longrightarrow> d \<in> set (take n xs))"

lemma dep_order_Nil [simp]: "dep_order R []"
  by (simp add: dep_order_def)

lemma dep_order_snoc: "dep_order R (xs @ [i]) \<longleftrightarrow> dep_order R xs \<and> (\<forall>d. (d, i) \<in> R \<longrightarrow> d \<in> set xs)"
  unfolding dep_order_def by (auto simp: nth_append less_Suc_eq)

lemma dep_order_member: "dep_order R xs \<Longrightarrow> i \<in> set xs \<Longrightarrow> (d, i) \<in> R \<Longrightarrow> d \<in> set xs"
  unfolding dep_order_def in_set_conv_nth by (metis in_set_conv_nth in_set_takeD)

definition drain_inv ::
  "string set \<Rightarrow> (string \<times> string) list \<Rightarrow> string list \<Rightarrow> (string \<rightharpoonup> int) \<Rightarrow> string list \<Rightarrow> bool" where
  "drain_inv N es queue deg xs \<longleftrightarrow> distinct xs \<and> set xs \<subseteq> N \<and> dep_order (set es) xs \<and> distinct queue
     \<and> deg = (\<lambda>k. if k \<in> N then Some (int (open_count es (set xs) k)) else None)
     \<and> set queue = {k \<in> N. k \<notin> set xs \<and> open_count es (set xs) k = 0}"

lemma drain_inv_step:
  assumes "drain_inv N es (i # rest) deg xs" and "set es \<subseteq> N \<times> N"
  shows "drain_inv N es (fst (fold release (edge_targets es i) (rest, deg))) (snd (fold release (edge_targets es i) (rest, deg))) (xs @ [i])"
proof -
  let ?ks = "edge_targets es i" and ?S = "set xs"
  have inv: "distinct xs" "?S \<subseteq> N" "dep_order (set es) xs" "distinct (i # rest)"
    "deg = (\<lambda>k. if k \<in> N then Some (int (open_count es ?S k)) else None)"
    "set (i # rest) = {k \<in> N. k \<notin> ?S \<and> open_count es ?S k = 0}"
    using assms(1) by (simp_all add: drain_inv_def)
  have i: "i \<in> N" "i \<notin> ?S" "open_count es ?S i = 0" using inv(6) by auto
  have ks: "k \<in> set ?ks \<longleftrightarrow> (i, k) \<in> set es" for k by (force simp: edge_targets_def)
  have ksN: "set ?ks \<subseteq> N" using assms(2) ks by auto
  note oc = open_count_step [OF i(2), of es]
  have pre: "\<forall>k\<in>set ?ks. \<exists>n. deg k = Some n \<and> int (count_list ?ks k) \<le> n"
    using ksN oc by (auto simp: inv(5))
  note r = release_all [OF pre, of rest]
  have new: "k \<notin> ?S \<and> k \<noteq> i" if "k \<in> set ?ks" for k
    using that i(2,3) dep_order_member [OF inv(3), of k i] ks by (auto simp: open_count_0)
  have rest: "set rest = {k \<in> N. k \<notin> ?S \<and> open_count es ?S k = 0} - {i}" using inv(4,6) by auto
  have "set (fst (fold release ?ks (rest, deg))) = {k \<in> N. k \<notin> insert i ?S \<and> open_count es (insert i ?S) k = 0}"
  proof -
    have "k \<in> set rest \<or> k \<in> set ?ks \<and> the (deg k) = int (count_list ?ks k) \<longleftrightarrow>
        k \<in> N \<and> k \<notin> insert i ?S \<and> open_count es (insert i ?S) k = 0" for k
      using rest new [of k] ksN oc [of k] count_list_0_iff [of ?ks k] by (cases "k \<in> set ?ks") (auto simp: inv(5))
    with r show ?thesis by blast
  qed
  moreover have "snd (fold release ?ks (rest, deg)) = (\<lambda>k. if k \<in> N then Some (int (open_count es (insert i ?S) k)) else None)"
  proof
    fix k
    show "snd (fold release ?ks (rest, deg)) k = (if k \<in> N then Some (int (open_count es (insert i ?S) k)) else None)"
      using conjunct1 [OF r] oc [of k] ksN count_list_0_iff [of ?ks k] by (cases "k \<in> set ?ks") (auto simp: inv(5))
  qed
  moreover have "distinct (fst (fold release ?ks (rest, deg)))"
    using r inv(4) rest oc count_list_0_iff [of ?ks] by fastforce
  moreover have "dep_order (set es) (xs @ [i])" using inv(3) i(3) by (simp add: dep_order_snoc open_count_0)
  moreover have "set (xs @ [i]) = insert i ?S" by auto
  ultimately show ?thesis using inv(1,2) i unfolding drain_inv_def by auto
qed

lemma drain_returns:
  assumes "drain_inv N es queue deg xs" and "set es \<subseteq> N \<times> N" and "finite N"
    and "\<And>i. i \<in> N \<Longrightarrow> neighbours adj i = edge_targets es i"
  shows "\<exists>ys. drain m adj queue deg xs = Some ys \<and> drain_inv N es [] (\<lambda>k. if k \<in> N then Some (int (open_count es (set ys) k)) else None) ys"
  using assms(1)
proof (induction "card (N - set xs)" arbitrary: queue deg xs rule: less_induct)
  case less
  show ?case
  proof (cases "sort_key (source_order m) queue")
    case Nil
    then have "drain m adj queue deg xs = Some xs" by (subst drain.simps) simp
    moreover have "queue = []" using Nil by (metis length_0_conv length_sort)
    ultimately show ?thesis using less.prems by (auto simp: drain_inv_def)
  next
    case (Cons i rest)
    have "set (i # rest) = set queue" "distinct (i # rest) = distinct queue" by (metis Cons set_sort, metis Cons distinct_sort)
    then have inv: "drain_inv N es (i # rest) deg xs" using less.prems by (simp add: drain_inv_def)
    then have i: "i \<in> N" "i \<notin> set xs" by (auto simp: drain_inv_def)
    then have "card (N - set (xs @ [i])) < card (N - set xs)" using assms(3) by (intro psubset_card_mono) auto
    from less.hyps [OF this drain_inv_step [OF inv assms(2)]] Cons assms(4) [OF i(1)]
    show ?thesis by (subst drain.simps) (simp add: Let_def)
  qed
qed

section \<open>What the order guarantees\<close>

text \<open>The sequence the loop delivers: what could be ordered, in dependency order, and nothing else could.\<close>

definition ordered_part :: "preview_candidate list \<Rightarrow> string list \<Rightarrow> bool" where
  "ordered_part cs xs \<longleftrightarrow> distinct xs \<and> set xs \<subseteq> set (ids cs) \<and> dep_order (dependencies cs) xs
     \<and> (\<forall>k\<in>set (ids cs) - set xs. \<exists>d\<in>set (ids cs) - set xs. (d, k) \<in> dependencies cs)"

definition drained :: "preview_candidate list \<Rightarrow> string list option" where
  "drained cs = (let g = build_graph cs in drain (dg_candidateMap g) (dg_adjacency g)
     (sort_key (source_order (dg_candidateMap g)) (filter (\<lambda>i. dg_inDegree g i = Some 0) (js_set (map pc_plannedFeatureId cs))))
     (dg_inDegree g) [])"

lemma drained_returns: "\<exists>xs. drained cs = Some xs \<and> ordered_part cs xs"
proof -
  let ?g = "build_graph cs" and ?N = "set (ids cs)" and ?es = "dep_list cs"
  let ?q = "sort_key (source_order (dg_candidateMap ?g)) (filter (\<lambda>i. dg_inDegree ?g i = Some 0) (js_set (map pc_plannedFeatureId cs)))"
  note g = build_graph(1) [of cs, unfolded graph_of_def]
  have es: "set ?es \<subseteq> ?N \<times> ?N" using dependencies_ids [of _ _ cs] by (auto simp: dependencies_def)
  have "drain_inv ?N ?es ?q (dg_inDegree ?g) []"
    using g by (auto simp: drain_inv_def open_count_def ids_def)
  moreover have "neighbours (dg_adjacency ?g) i = edge_targets ?es i" if "i \<in> ?N" for i
    using g that by (simp add: neighbours_def edge_targets_def)
  ultimately obtain xs where xs: "drained cs = Some xs"
    and inv: "drain_inv ?N ?es [] (\<lambda>k. if k \<in> ?N then Some (int (open_count ?es (set xs) k)) else None) xs"
    using drain_returns [of ?N ?es ?q "dg_inDegree ?g" "[]" "dg_adjacency ?g" "dg_candidateMap ?g", OF _ es]
    by (auto simp: drained_def Let_def)
  have "\<exists>d\<in>?N - set xs. (d, k) \<in> dependencies cs" if "k \<in> ?N - set xs" for k
  proof -
    have "open_count ?es (set xs) k \<noteq> 0" using inv that by (auto simp: drain_inv_def)
    then obtain d where "(d, k) \<in> set ?es" "d \<notin> set xs" unfolding open_count_0 by blast
    then show ?thesis using es by (auto simp: dependencies_def)
  qed
  with xs inv show ?thesis by (auto simp: ordered_part_def drain_inv_def dependencies_def)
qed

lemma orderByDependencies_eq:
  "orderByDependencies cs = (case drained cs of None \<Rightarrow> None
     | Some xs \<Rightarrow> Some (if length xs < length cs
         then \<lparr>oc_ordered = List.map_filter (dg_candidateMap (build_graph cs)) (append_missing cs xs),
           oc_warnings = dg_warnings (build_graph cs) @ [''Dependency cycle detected. Some candidates cannot be fully ordered.''], oc_blocked = True\<rparr>
         else \<lparr>oc_ordered = List.map_filter (dg_candidateMap (build_graph cs)) xs, oc_warnings = dg_warnings (build_graph cs), oc_blocked = False\<rparr>))"
  by (simp add: orderByDependencies_def drained_def Let_def split: option.split)

text \<open>C33. The ordering returns for every list of candidates, cyclic, dangling or repeated dependencies included.\<close>

theorem ordering_returns: "\<exists>r. orderByDependencies cs = Some r"
  using drained_returns [of cs] by (auto simp: orderByDependencies_eq)

lemma append_missing_set:
  "distinct xs \<Longrightarrow> distinct (append_missing cs xs) \<and> set (append_missing cs xs) = set xs \<union> set (ids cs)"
  by (induction cs arbitrary: xs) (auto simp: ids_def)

lemma candidates_of_ids:
  assumes "distinct (ids cs)" and "distinct xs" and "set xs = set (ids cs)"
  shows "mset (List.map_filter (dg_candidateMap (build_graph cs)) xs) = mset cs"
    and "ids (List.map_filter (dg_candidateMap (build_graph cs)) xs) = xs"
proof -
  let ?m = "dg_candidateMap (build_graph cs)"
  have m: "\<exists>c\<in>set cs. ?m i = Some c \<and> pc_plannedFeatureId c = i" if "i \<in> set xs" for i
    using that assms(3) build_graph(2) [OF assms(1)] by (auto simp: ids_def)
  then have mf: "List.map_filter ?m xs = map (the \<circ> ?m) xs"
    by (induction xs) (auto simp: map_filter_simps, force)
  then show "ids (List.map_filter ?m xs) = xs" using m by (force simp: ids_def intro: map_idI)
  then have "distinct (map pc_plannedFeatureId (List.map_filter ?m xs))" using assms(2) by (simp add: ids_def)
  then have "distinct (List.map_filter ?m xs)" by (simp only: distinct_map)
  moreover have "set (List.map_filter ?m xs) = set cs"
  proof
    show "set (List.map_filter ?m xs) \<subseteq> set cs" using m by (force simp: mf)
    show "set cs \<subseteq> set (List.map_filter ?m xs)"
    proof
      fix c assume "c \<in> set cs"
      with build_graph(2) [OF assms(1) this] assms(3) show "c \<in> set (List.map_filter ?m xs)"
        by (force simp: mf ids_def image_iff)
    qed
  qed
  moreover have "distinct cs" using assms(1) by (simp add: ids_def distinct_map)
  ultimately show "mset (List.map_filter ?m xs) = mset cs" by (simp add: set_eq_iff_mset_eq_distinct)
qed

lemma dep_order_acyclic:
  assumes "dep_order R xs" and "distinct xs" and "\<And>d i. (d, i) \<in> R \<Longrightarrow> i \<in> set xs"
  shows "acyclic R"
proof -
  define pos where "pos i = (LEAST n. n < length xs \<and> xs ! n = i)" for i
  have pos: "pos (xs ! n) = n" if "n < length xs" for n
    unfolding pos_def using that assms(2) by (intro Least_equality) (auto simp: nth_eq_iff_index_eq)
  have "pos d < pos i" if e: "(d, i) \<in> R" for d i
  proof -
    obtain n where n: "n < length xs" "xs ! n = i" using assms(3) [OF e] by (auto simp: in_set_conv_nth)
    then have "d \<in> set (take n xs)" using assms(1) e by (auto simp: dep_order_def)
    then obtain k where "k < n" "xs ! k = d" by (auto simp: in_set_conv_nth)
    with n pos show ?thesis by (metis order_less_trans)
  qed
  then have "R \<subseteq> measure pos" by auto
  then show ?thesis using wf_acyclic [OF wf_measure] acyclic_subset by blast
qed

text \<open>C6. With distinct identifiers the order lists every candidate exactly once; it is blocked exactly when the resolved
  dependencies have a cycle, and otherwise every candidate comes after everything it depends on.\<close>

theorem ordering_correct:
  assumes "orderByDependencies cs = Some r" and "distinct (ids cs)"
  shows "mset (oc_ordered r) = mset cs \<and> (oc_blocked r \<longleftrightarrow> \<not> acyclic (dependencies cs))
    \<and> (oc_blocked r \<or> dep_order (dependencies cs) (ids (oc_ordered r)))"
proof -
  obtain xs where xs: "drained cs = Some xs" "ordered_part cs xs" using drained_returns by blast
  have len: "length cs = card (set (ids cs))" using assms(2) by (metis distinct_card ids_def length_map)
  have lx: "length xs = card (set xs)" using xs(2) by (simp add: ordered_part_def distinct_card)
  have r: "oc_blocked r \<longleftrightarrow> length xs < length cs"
    "oc_ordered r = List.map_filter (dg_candidateMap (build_graph cs)) (if length xs < length cs then append_missing cs xs else xs)"
    using assms(1) xs(1) by (auto simp: orderByDependencies_eq split: if_splits)
  show ?thesis
  proof (cases "length xs < length cs")
    case True
    have "distinct (append_missing cs xs)" "set (append_missing cs xs) = set (ids cs)"
      using append_missing_set [of xs cs] xs(2) by (auto simp: ordered_part_def)
    from candidates_of_ids(1) [OF assms(2) this] have "mset (oc_ordered r) = mset cs" using r(2) True by simp
    moreover have "\<not> acyclic (dependencies cs)"
    proof
      assume "acyclic (dependencies cs)"
      moreover have "finite (dependencies cs)" by (simp add: dependencies_def)
      ultimately have "wf (dependencies cs)" by (rule finite_acyclic_wf [rotated])
      moreover have "set (ids cs) - set xs \<noteq> {}"
        using True len lx xs(2) by (metis Diff_eq_empty_iff List.finite_set card_mono leD)
      ultimately obtain k where "k \<in> set (ids cs) - set xs" "\<And>d. (d, k) \<in> dependencies cs \<Longrightarrow> d \<notin> set (ids cs) - set xs"
        by (meson ex_in_conv wfE_min)
      with xs(2) show False unfolding ordered_part_def by blast
    qed
    ultimately show ?thesis using r(1) True by blast
  next
    case False
    then have eq: "set xs = set (ids cs)"
      using len lx xs(2) by (intro card_subset_eq) (auto simp: ordered_part_def card_mono le_antisym)
    have dx: "distinct xs" "dep_order (dependencies cs) xs" using xs(2) by (auto simp: ordered_part_def)
    note c = candidates_of_ids [OF assms(2) dx(1) eq]
    have "acyclic (dependencies cs)"
      using dx eq dependencies_ids [of _ _ cs] by (intro dep_order_acyclic [of _ xs]) auto
    with c r False dx(2) show ?thesis by simp
  qed
qed

definition sample_candidate :: "string \<Rightarrow> string list \<Rightarrow> int \<Rightarrow> preview_candidate" where
  "sample_candidate i ds n = \<lparr>pc_title = i, pc_summary = [], pc_plannedFeatureId = i, pc_plannedFolderName = [],
     pc_plannedDocumentPath = [], pc_parentEpic = [], pc_dependencyIds = ds, pc_priority = None, pc_sourceOrder = n,
     pc_backlinkText = [], pc_fromExplicitLink = True\<rparr>"

definition sample_candidates :: "preview_candidate list" where
  "sample_candidates = [sample_candidate ''FEAT-2'' [''FEAT-1'', ''FEAT-9''] 1, sample_candidate ''FEAT-1'' [] 2]"

theorem ordering_correct_witness:
  "\<exists>r. orderByDependencies sample_candidates = Some r \<and> \<not> oc_blocked r \<and> ids (oc_ordered r) = [''FEAT-1'', ''FEAT-2'']"
proof -
  obtain r where r: "orderByDependencies sample_candidates = Some r"
    using drained_returns [of sample_candidates] by (auto simp: orderByDependencies_eq)
  have d: "dependencies sample_candidates = {(''FEAT-1'', ''FEAT-2'')}"
    by (simp add: dependencies_def dep_list_def sample_candidates_def sample_candidate_def ids_def)
  have u: "distinct (ids sample_candidates)" by (simp add: sample_candidates_def sample_candidate_def ids_def)
  have c: "mset (oc_ordered r) = mset sample_candidates" "oc_blocked r \<longleftrightarrow> \<not> acyclic {(''FEAT-1'', ''FEAT-2'')}"
    "oc_blocked r \<or> dep_order {(''FEAT-1'', ''FEAT-2'')} (ids (oc_ordered r))"
    using ordering_correct [OF r u, unfolded d] by blast+
  have "acyclic {(''FEAT-1'', ''FEAT-2'')}" by (rule wf_acyclic) (simp add: wf_insert)
  with c have ok: "\<not> oc_blocked r" "dep_order {(''FEAT-1'', ''FEAT-2'')} (ids (oc_ordered r))" by auto
  have "mset (ids (oc_ordered r)) = {#''FEAT-1'', ''FEAT-2''#}"
    unfolding ids_def mset_map c(1) by (simp add: sample_candidates_def sample_candidate_def)
  then have len: "length (ids (oc_ordered r)) = 2" and st: "set (ids (oc_ordered r)) = {''FEAT-1'', ''FEAT-2''}"
    by (metis numeral_2_eq_2 size_add_mset size_empty size_mset, metis set_mset_add_mset_insert set_mset_empty set_mset_mset)
  then obtain x y where xy: "ids (oc_ordered r) = [x, y]" by (auto simp: numeral_2_eq_2 length_Suc_conv)
  with st ok(2) have "ids (oc_ordered r) = [''FEAT-1'', ''FEAT-2'']"
    by (auto simp: dep_order_def doubleton_eq_iff less_Suc_eq)
  with r ok(1) show ?thesis by blast
qed

end
