(* ===== verification/WorkItems.thy ===== *)
theory WorkItems
  imports JsText
begin

text \<open>
  Work items: the state of an epic in its document (\<open>epic-state/lifecycle-state.ts\<close>), the two boards
  (\<open>epic-board.ts\<close>, \<open>feature-board.ts\<close>), the terminal lifecycle (\<open>work-item-lifecycle.ts\<close>) and the run
  transitions (\<open>workflow-state-machine.ts\<close>). A work item carries the fields the boards read; the others only
  travel along. The order of two names (\<open>localeCompare\<close> with numeric collation) depends on the host's locale data and
  is a parameter.
\<close>

section \<open>Epic state in a document\<close>

datatype epic_state = not_started | in_progress | completed | cancelled

text \<open>\<open>split(/\r?\n/)\<close>: at every line feed, which takes one carriage return before it along.\<close>

definition LF :: char where
  "LF = CHR 0x0A"

definition CR :: char where
  "CR = CHR 0x0D"

definition drop_cr :: "string \<Rightarrow> string" where
  "drop_cr l = (if l \<noteq> [] \<and> last l = CR then butlast l else l)"

definition lines_of :: "string \<Rightarrow> string list" where
  "lines_of s = (let ls = split_on LF s in map drop_cr (butlast ls) @ [last ls])"

text \<open>Removing the pairs of asterisks and then the single ones removes them all.\<close>

definition cleanMarkdownTableCell :: "string \<Rightarrow> string" where
  "cleanMarkdownTableCell s =
     trim (map (\<lambda>c. if c = CHR ''_'' then CHR '' '' else c) (filter (\<lambda>c. c \<noteq> CHR 0x60 \<and> c \<noteq> CHR ''*'') s))"

definition alnum_only :: "string \<Rightarrow> string" where
  "alnum_only s = filter is_lower_alnum s"

definition normalizeFieldName :: "string \<Rightarrow> string" where
  "normalizeFieldName s = alnum_only (toLowerCase (cleanMarkdownTableCell s))"

definition parseMarkdownTableLine :: "string \<Rightarrow> string list" where
  "parseMarkdownTableLine l =
     (if CHR ''|'' \<notin> set l then [] else filter (\<lambda>c. c \<noteq> []) (map cleanMarkdownTableCell (split_on CHR ''|'' l)))"

definition epicStateFields :: "string list" where
  "epicStateFields = [''state'', ''epicstate'', ''deliverystate'']"

definition field_row :: "string list \<Rightarrow> string \<Rightarrow> bool" where
  "field_row names l \<longleftrightarrow> (let cells = parseMarkdownTableLine l in 2 \<le> length cells \<and> normalizeFieldName (hd cells) \<in> set names)"

definition extractMarkdownTableField :: "string \<Rightarrow> string list \<Rightarrow> string option" where
  "extractMarkdownTableField markdown names =
     map_option (\<lambda>l. parseMarkdownTableLine l ! 1) (List.find (field_row names) (lines_of markdown))"

definition normalizeEpicState :: "string option \<Rightarrow> epic_state option" where
  "normalizeEpicState v =
     (case v of
        None \<Rightarrow> None
      | Some [] \<Rightarrow> None
      | Some s \<Rightarrow>
          let n = alnum_only (toLowerCase (cleanMarkdownTableCell s))
          in if n \<in> {''notstarted'', ''notstart'', ''new'', ''planned'', ''planning'', ''draft'', ''todo''} then Some not_started
             else if n \<in> {''inprogress'', ''progress'', ''started'', ''active'', ''implementing''} then Some in_progress
             else if n \<in> {''completed'', ''complete'', ''done'', ''finished''} then Some completed
             else if n \<in> {''cancelled'', ''canceled'', ''cancel'', ''abandoned'', ''rejected''} then Some cancelled
             else None)"

definition extractEpicState :: "string \<Rightarrow> epic_state option" where
  "extractEpicState markdown = normalizeEpicState (extractMarkdownTableField markdown epicStateFields)"

fun formatEpicStateForFile :: "epic_state \<Rightarrow> string" where
  "formatEpicStateForFile cancelled = ''Cancelled''"
| "formatEpicStateForFile completed = ''Completed''"
| "formatEpicStateForFile in_progress = ''InProgress''"
| "formatEpicStateForFile not_started = ''NotStarted''"

definition state_row :: "epic_state \<Rightarrow> string" where
  "state_row s = ''| State | '' @ formatEpicStateForFile s @ '' |''"

definition strip_newlines :: "string \<Rightarrow> string" where
  "strip_newlines s = rev (dropWhile (\<lambda>c. c = LF) (rev s))"

definition preserveTrailingNewline :: "string \<Rightarrow> string \<Rightarrow> string" where
  "preserveTrailingNewline original result =
     (if endsWith original [LF] then strip_newlines result @ [LF] else strip_newlines result)"

text \<open>The first line that satisfies a test is replaced by other lines.\<close>

fun replace_first :: "(string \<Rightarrow> bool) \<Rightarrow> (string \<Rightarrow> string list) \<Rightarrow> string list \<Rightarrow> string list option" where
  "replace_first P f [] = None"
| "replace_first P f (l # ls) = (if P l then Some (f l @ ls) else map_option ((#) l) (replace_first P f ls))"

definition upsertEpicState :: "string \<Rightarrow> epic_state \<Rightarrow> string" where
  "upsertEpicState markdown s =
     (let lines = lines_of markdown; row = state_row s in
      case replace_first (field_row epicStateFields) (\<lambda>_. [row]) lines of
        Some ls \<Rightarrow> preserveTrailingNewline markdown (join_with [LF] ls)
      | None \<Rightarrow>
          (case replace_first (field_row [''epicid'']) (\<lambda>l. [l, row]) lines of
             Some ls \<Rightarrow> preserveTrailingNewline markdown (join_with [LF] ls)
           | None \<Rightarrow>
               (case replace_first (\<lambda>l. startsWith l ''# '')
                       (\<lambda>l. [l, [], ''| Field | Value |'', ''|-------|-------|'', row]) lines of
                  Some ls \<Rightarrow> preserveTrailingNewline markdown (join_with [LF] ls)
                | None \<Rightarrow> ''| Field | Value |'' @ [LF] @ ''|-------|-------|'' @ [LF] @ row @ [LF, LF] @ trimStart markdown)))"

datatype state_folder = EPICS_00 | SUBMITTED_01 | READY_TO_DEVELOP_02 | IN_PROGRESS_03 | COMPLETED_04 | CANCELLED_05

definition deriveEpicStateFromFeatureStateFolders :: "state_folder list \<Rightarrow> bool \<Rightarrow> epic_state" where
  "deriveEpicStateFromFeatureStateFolders fs missing =
     (if fs \<noteq> [] \<and> \<not> missing \<and> list_all (\<lambda>f. f = COMPLETED_04) fs then completed
      else if fs \<noteq> [] \<and> \<not> missing \<and> list_all (\<lambda>f. f = CANCELLED_05) fs then cancelled
      else if list_ex (\<lambda>f. f \<in> {IN_PROGRESS_03, COMPLETED_04, CANCELLED_05}) fs then in_progress
      else not_started)"

section \<open>Boards\<close>

datatype card_kind = epic | feature

record work_item =
  wi_externalId :: string
  wi_kind :: card_kind
  wi_stateFolder :: state_folder
  wi_epicState :: "epic_state option"

record source_issue =
  si_sourceType :: card_kind
  si_folderName :: string
  si_sourcePath :: "string option"

record 'c board_column =
  co_id :: 'c
  co_title :: string
  co_count :: nat
  co_items :: "work_item list"
  co_sourceIssues :: "source_issue list"

type_synonym collation = "string \<Rightarrow> string \<Rightarrow> int"

definition compareWorkItemsByExternalId :: "collation \<Rightarrow> work_item \<Rightarrow> work_item \<Rightarrow> int" where
  "compareWorkItemsByExternalId collate x y = collate (wi_externalId x) (wi_externalId y)"

definition compareSourceIssues :: "collation \<Rightarrow> source_issue \<Rightarrow> source_issue \<Rightarrow> int" where
  "compareSourceIssues collate x y =
     (let r = collate (si_folderName x) (si_folderName y)
      in if r \<noteq> 0 then r
         else collate (case si_sourcePath x of None \<Rightarrow> [] | Some p \<Rightarrow> p) (case si_sourcePath y of None \<Rightarrow> [] | Some p \<Rightarrow> p))"

datatype epic_column = Epic_state epic_state | Epic_invalid_sources

definition epicBoardColumnDefinitions :: "(epic_column \<times> string) list" where
  "epicBoardColumnDefinitions = [(Epic_state not_started, ''Not Started''), (Epic_state in_progress, ''In Progress''),
     (Epic_state completed, ''Completed''), (Epic_state cancelled, ''Cancelled''), (Epic_invalid_sources, ''Invalid Sources'')]"

record scan_status =
  ss_epicScanFailed :: bool
  ss_message :: "string option"

record epic_board =
  eb_columns :: "epic_column board_column list"
  eb_empty :: bool
  eb_failed :: bool
  eb_hasInvalidSources :: bool
  eb_message :: "string option"
  eb_sourceIssues :: "source_issue list"
  eb_validItems :: "work_item list"

definition getEpicStateForBoard :: "work_item \<Rightarrow> epic_state" where
  "getEpicStateForBoard i = (case wi_epicState i of None \<Rightarrow> not_started | Some s \<Rightarrow> s)"

definition epic_column_of :: "work_item list \<Rightarrow> source_issue list \<Rightarrow> epic_column \<times> string \<Rightarrow> epic_column board_column" where
  "epic_column_of valid issues d =
     (let items = (if fst d \<noteq> Epic_invalid_sources then filter (\<lambda>i. Epic_state (getEpicStateForBoard i) = fst d) valid else []);
          own = (if fst d = Epic_invalid_sources then issues else [])
      in \<lparr>co_id = fst d, co_title = snd d, co_count = length items + length own, co_items = items, co_sourceIssues = own\<rparr>)"

definition buildEpicBoardModel :: "collation \<Rightarrow> work_item list \<Rightarrow> source_issue list \<Rightarrow> scan_status option \<Rightarrow> epic_board" where
  "buildEpicBoardModel collate items issues scan =
     (let valid = sort_by (compareWorkItemsByExternalId collate) (filter (\<lambda>i. wi_kind i = epic) items);
          own = sort_by (compareSourceIssues collate) (filter (\<lambda>i. si_sourceType i = epic) issues);
          fl = (case scan of None \<Rightarrow> False | Some s \<Rightarrow> ss_epicScanFailed s)
      in \<lparr>eb_columns = map (epic_column_of valid own) epicBoardColumnDefinitions,
          eb_empty = (\<not> fl \<and> length valid = 0 \<and> length own = 0), eb_failed = fl,
          eb_hasInvalidSources = (0 < length own), eb_message = (case scan of None \<Rightarrow> None | Some s \<Rightarrow> ss_message s),
          eb_sourceIssues = own, eb_validItems = valid\<rparr>)"

datatype feat_column = Feat_folder state_folder | Feat_invalid_sources

definition featBoardColumnDefinitions :: "(feat_column \<times> string) list" where
  "featBoardColumnDefinitions = [(Feat_folder SUBMITTED_01, ''Submitted''), (Feat_folder READY_TO_DEVELOP_02, ''Ready To Develop''),
     (Feat_folder IN_PROGRESS_03, ''In Progress''), (Feat_folder COMPLETED_04, ''Completed''),
     (Feat_folder CANCELLED_05, ''Cancelled''), (Feat_invalid_sources, ''Invalid Sources'')]"

record feat_board =
  fb_columns :: "feat_column board_column list"
  fb_empty :: bool
  fb_hasInvalidSources :: bool
  fb_sourceIssues :: "source_issue list"
  fb_validItems :: "work_item list"

definition feat_column_of :: "work_item list \<Rightarrow> source_issue list \<Rightarrow> feat_column \<times> string \<Rightarrow> feat_column board_column" where
  "feat_column_of valid issues d =
     (let items = (if fst d \<noteq> Feat_invalid_sources then filter (\<lambda>i. Feat_folder (wi_stateFolder i) = fst d) valid else []);
          own = (if fst d = Feat_invalid_sources then issues else [])
      in \<lparr>co_id = fst d, co_title = snd d, co_count = length items + length own, co_items = items, co_sourceIssues = own\<rparr>)"

definition buildFeatureBoardModel :: "collation \<Rightarrow> work_item list \<Rightarrow> source_issue list \<Rightarrow> feat_board" where
  "buildFeatureBoardModel collate items issues =
     (let valid = sort_by (compareWorkItemsByExternalId collate) (filter (\<lambda>i. wi_kind i = feature) items);
          own = sort_by (compareSourceIssues collate) (filter (\<lambda>i. si_sourceType i = feature) issues)
      in \<lparr>fb_columns = map (feat_column_of valid own) featBoardColumnDefinitions,
          fb_empty = (length valid = 0 \<and> length own = 0), fb_hasInvalidSources = (0 < length own),
          fb_sourceIssues = own, fb_validItems = valid\<rparr>)"

section \<open>Terminal lifecycle and run transitions\<close>

datatype terminal_lifecycle = tl_completed | tl_cancelled

definition getTerminalWorkItemLifecycle :: "card_kind \<Rightarrow> string \<Rightarrow> string option \<Rightarrow> terminal_lifecycle option" where
  "getTerminalWorkItemLifecycle kind folder est =
     (if kind = feature then
        (if folder = ''04_COMPLETED'' then Some tl_completed
         else if folder = ''05_CANCELLED'' then Some tl_cancelled
         else None)
      else if est = Some ''completed'' then Some tl_completed
      else if est = Some ''cancelled'' then Some tl_cancelled
      else None)"

datatype run_status = rs_running | rs_completed | rs_failed | rs_blocked | rs_cancelled

datatype workflow_command =
  deep_dive_epic | deep_dive_feature | design_feature | refine_feature | start_implementing | continue_implementing
  | complete_feature | cancel | recovery

text \<open>No previous run is \<open>None\<close>; a missing key of the table is \<open>None\<close>.\<close>

definition ALLOWED_TRANSITIONS :: "((run_status option \<times> workflow_command) \<times> run_status list) list" where
  "ALLOWED_TRANSITIONS =
     [((None, start_implementing), [rs_running]),
      ((Some rs_failed, continue_implementing), [rs_running]), ((Some rs_cancelled, continue_implementing), [rs_running]),
      ((Some rs_running, complete_feature), [rs_completed]), ((Some rs_failed, complete_feature), [rs_completed]),
      ((Some rs_cancelled, complete_feature), [rs_completed]), ((Some rs_running, cancel), [rs_cancelled]),
      ((Some rs_failed, recovery), [rs_running]), ((Some rs_cancelled, recovery), [rs_running]),
      ((Some rs_blocked, recovery), [rs_running]), ((None, refine_feature), [rs_completed]),
      ((None, design_feature), [rs_completed])]"

definition isAllowedTransition :: "run_status option \<Rightarrow> workflow_command \<Rightarrow> run_status \<Rightarrow> bool" where
  "isAllowedTransition src c tgt \<longleftrightarrow>
     (case map_of ALLOWED_TRANSITIONS (src, c) of None \<Rightarrow> False | Some ts \<Rightarrow> tgt \<in> set ts)"

end
