(* ===== verification/WorkItemFacts.thy ===== *)
theory WorkItemFacts
  imports WorkItems "HOL-Library.Multiset"
begin

text \<open>
  Work items: a state written into an epic's document is the state read back, and the boards show every work item
  of their kind in exactly one column.
\<close>

section \<open>The epic state is read back\<close>

lemma trim_snoc_ws: "is_ws c \<Longrightarrow> trim (s @ [c]) = trim s"
  by (induction s) (auto simp: trim_def trimStart_def trimEnd_def)

lemma is_ws_CR [simp]: "is_ws CR"
  by code_simp

lemma cr_plain [simp]: "CR \<noteq> CHR ''|''" "CHR ''|'' \<noteq> CR" "CR \<noteq> CHR ''*''" "CR \<noteq> CHR 0x60" "CR \<noteq> CHR ''_''" "LF \<noteq> CR"
  "LF \<noteq> CHR ''|''" "LF \<noteq> CHR '' ''"
  by (simp_all add: CR_def LF_def)

lemma clean_snoc_cr: "cleanMarkdownTableCell (s @ [CR]) = cleanMarkdownTableCell s"
  by (simp add: cleanMarkdownTableCell_def trim_snoc_ws)

lemma split_on_snoc:
  "c \<noteq> sep \<Longrightarrow> split_on sep (s @ [c]) = butlast (split_on sep s) @ [last (split_on sep s) @ [c]]"
proof (induction s)
  case (Cons d s)
  then show ?case by (cases "split_on sep s") auto
qed simp

lemma map_butlast_last: "xs \<noteq> [] \<Longrightarrow> map f (butlast xs) @ [f (last xs)] = map f xs"
  by (induction xs) auto

lemma parse_snoc_cr: "parseMarkdownTableLine (l @ [CR]) = parseMarkdownTableLine l"
proof (cases "CHR ''|'' \<in> set l")
  case True
  have "map cleanMarkdownTableCell (split_on CHR ''|'' (l @ [CR])) = map cleanMarkdownTableCell (split_on CHR ''|'' l)"
    by (simp add: split_on_snoc clean_snoc_cr map_butlast_last)
  then show ?thesis using True by (simp add: parseMarkdownTableLine_def)
qed (simp add: parseMarkdownTableLine_def)

lemma parse_drop_cr [simp]: "parseMarkdownTableLine (drop_cr l) = parseMarkdownTableLine l"
proof (cases "l \<noteq> [] \<and> last l = CR")
  case True
  then have "l = butlast l @ [CR]" by (metis append_butlast_last_id)
  then show ?thesis using parse_snoc_cr [of "butlast l"] True by (simp add: drop_cr_def)
qed (auto simp: drop_cr_def)

lemma field_row_drop_cr [simp]: "field_row names (drop_cr l) = field_row names l"
  by (simp add: field_row_def)

lemma lines_of_no_lf: "l \<in> set (lines_of s) \<Longrightarrow> LF \<notin> set l"
proof -
  have "set (drop_cr w) \<subseteq> set w" for w by (auto simp: drop_cr_def dest: in_set_butlastD)
  then show "l \<in> set (lines_of s) \<Longrightarrow> LF \<notin> set l"
    using split_on_no_sep [of _ LF s] unfolding lines_of_def Let_def
    by (auto dest: in_set_butlastD)
qed

text \<open>The value of the first row of the fields among given lines; a carriage return at the end of a line does not matter.\<close>

definition row_value :: "string list \<Rightarrow> string list \<Rightarrow> string option" where
  "row_value names ls = map_option (\<lambda>l. parseMarkdownTableLine l ! 1) (List.find (field_row names) ls)"

lemma row_value_Nil [simp]: "row_value names [] = None"
  by (simp add: row_value_def)

lemma row_value_Cons [simp]:
  "row_value names (l # ls) = (if field_row names l then Some (parseMarkdownTableLine l ! 1) else row_value names ls)"
  by (simp add: row_value_def)

lemma row_value_append: "(\<forall>l\<in>set us. \<not> field_row names l) \<Longrightarrow> row_value names (us @ vs) = row_value names vs"
  by (induction us) auto

lemma row_value_append_blank: "row_value names (ls @ replicate n []) = row_value names ls"
  by (induction ls; induction n) (auto simp: field_row_def parseMarkdownTableLine_def)

lemma row_value_drop_cr: "row_value names (map drop_cr ls) = row_value names ls"
  by (induction ls) auto

lemma extract_row: "extractMarkdownTableField s names = row_value names (split_on LF s)"
proof -
  let ?ls = "split_on LF s"
  have split: "?ls = butlast ?ls @ [last ?ls]" by simp
  have "row_value names (map drop_cr us @ vs) = row_value names (us @ vs)" for us vs by (induction us) auto
  then have "row_value names (lines_of s) = row_value names ?ls"
    using split by (simp add: lines_of_def Let_def)
  then show ?thesis by (simp add: extractMarkdownTableField_def row_value_def)
qed

lemma split_on_trailing: "split_on sep (s @ replicate n sep) = split_on sep s @ replicate n []"
proof (induction s)
  case Nil
  show ?case by (induction n) auto
next
  case (Cons c s)
  then show ?case by (cases "split_on sep s") auto
qed

lemma strip_newlines: "\<exists>n. s = strip_newlines s @ replicate n LF"
proof -
  have "rev s = takeWhile (\<lambda>c. c = LF) (rev s) @ dropWhile (\<lambda>c. c = LF) (rev s)" by simp
  then have "s = strip_newlines s @ rev (takeWhile (\<lambda>c. c = LF) (rev s))"
    unfolding strip_newlines_def by (metis rev_append rev_rev_ident)
  moreover have "takeWhile (\<lambda>c. c = LF) (rev s) = replicate (length (takeWhile (\<lambda>c. c = LF) (rev s))) LF"
    by (metis (mono_tags, lifting) replicate_length_same set_takeWhileD)
  ultimately show ?thesis by (metis rev_replicate)
qed

lemma extract_preserved:
  assumes "ls \<noteq> []" and "\<forall>l\<in>set ls. LF \<notin> set l"
  shows "extractMarkdownTableField (preserveTrailingNewline md (join_with [LF] ls)) names = row_value names ls"
proof -
  obtain n where n: "join_with [LF] ls = strip_newlines (join_with [LF] ls) @ replicate n LF" using strip_newlines by blast
  have "row_value names (split_on LF (strip_newlines (join_with [LF] ls) @ replicate k LF)) = row_value names ls" for k
  proof -
    have "row_value names ls = row_value names (split_on LF (strip_newlines (join_with [LF] ls) @ replicate n LF))"
      using split_join [OF assms] n by metis
    then show ?thesis by (simp add: split_on_trailing row_value_append_blank)
  qed
  from this [of 0] this [of 1] show ?thesis by (simp add: extract_row preserveTrailingNewline_def)
qed

lemma replace_first_None: "replace_first P f ls = None \<longleftrightarrow> (\<forall>l\<in>set ls. \<not> P l)"
  by (induction ls) auto

lemma replace_first_Some:
  "replace_first P f ls = Some ms \<Longrightarrow> \<exists>us l vs. ls = us @ l # vs \<and> (\<forall>u\<in>set us. \<not> P u) \<and> P l \<and> ms = us @ f l @ vs"
proof (induction ls arbitrary: ms)
  case (Cons l ls)
  show ?case
  proof (cases "P l")
    case True
    with Cons.prems have "l # ls = [] @ l # ls \<and> (\<forall>u\<in>set []. \<not> P u) \<and> P l \<and> ms = [] @ f l @ ls" by simp
    then show ?thesis by blast
  next
    case False
    with Cons.prems obtain ns where ns: "replace_first P f ls = Some ns" "ms = l # ns" by auto
    from Cons.IH [OF ns(1)] obtain us k vs where "ls = us @ k # vs" "\<forall>u\<in>set us. \<not> P u" "P k" "ns = us @ f k @ vs" by blast
    with ns(2) False have "l # ls = (l # us) @ k # vs \<and> (\<forall>u\<in>set (l # us). \<not> P u) \<and> P k \<and> ms = (l # us) @ f k @ vs" by simp
    then show ?thesis by blast
  qed
qed simp

lemma state_row_field: "field_row epicStateFields (state_row s)"
  by (induction s; code_simp)

lemma state_row_value: "parseMarkdownTableLine (state_row s) ! Suc 0 = formatEpicStateForFile s"
  by (induction s; code_simp)

lemma state_row_no_lf: "LF \<notin> set (state_row s)"
  by (induction s) (simp_all add: state_row_def LF_def)

lemma header_no_field: "\<not> field_row epicStateFields ''| Field | Value |''" "\<not> field_row epicStateFields ''|-------|-------|''"
    "\<not> field_row epicStateFields []"
  by code_simp+

lemmas state_row_facts [simp] = state_row_field state_row_value state_row_no_lf header_no_field

lemma header_no_lf [simp]: "LF \<notin> set ''| Field | Value |''" "LF \<notin> set ''|-------|-------|''"
  by (simp_all add: LF_def)

lemma normalize_format [simp]: "normalizeEpicState (Some (formatEpicStateForFile s)) = Some s"
  by (induction s; code_simp)

lemma split_four_lines:
  "LF \<notin> set a \<Longrightarrow> LF \<notin> set b \<Longrightarrow> LF \<notin> set c \<Longrightarrow>
     split_on LF (a @ LF # b @ LF # c @ LF # LF # t) = a # b # c # [] # split_on LF t"
  by (simp add: split_on_append_sep)

text \<open>C34. Whatever an epic's document contains, the state written into it is the state read back from it.\<close>

theorem epic_state_roundtrip: "extractEpicState (upsertEpicState md s) = Some s"
proof -
  note nolf = lines_of_no_lf [of _ md]
  have ok: "extractMarkdownTableField (preserveTrailingNewline md (join_with [LF] ls)) epicStateFields = Some (formatEpicStateForFile s)"
    if "ls = us @ ws @ state_row s # vs" "\<forall>l\<in>set (us @ ws). \<not> field_row epicStateFields l" "\<forall>l\<in>set (us @ ws @ vs). LF \<notin> set l" for ls us ws vs
    using that extract_preserved [of ls md epicStateFields] row_value_append [of "us @ ws" epicStateFields "state_row s # vs"] by auto
  have "extractMarkdownTableField (upsertEpicState md s) epicStateFields = Some (formatEpicStateForFile s)"
  proof (cases "replace_first (field_row epicStateFields) (\<lambda>_. [state_row s]) (lines_of md)")
    case (Some ls)
    then obtain us l vs where "lines_of md = us @ l # vs" "\<forall>u\<in>set us. \<not> field_row epicStateFields u" "ls = us @ [] @ state_row s # vs"
      by (auto dest!: replace_first_Some)
    with Some nolf show ?thesis using ok [of ls us "[]" vs] by (simp add: upsertEpicState_def Let_def)
  next
    case n1: None
    then have no: "\<forall>l\<in>set (lines_of md). \<not> field_row epicStateFields l" by (simp add: replace_first_None)
    show ?thesis
    proof (cases "replace_first (field_row [''epicid'']) (\<lambda>l. [l, state_row s]) (lines_of md)")
      case (Some ls)
      then obtain us l vs where "lines_of md = us @ l # vs" "ls = us @ [l] @ state_row s # vs"
        by (auto dest!: replace_first_Some)
      with Some n1 no nolf show ?thesis using ok [of ls us "[l]" vs] by (simp add: upsertEpicState_def Let_def)
    next
      case n2: None
      show ?thesis
      proof (cases "replace_first (\<lambda>l. startsWith l ''# '') (\<lambda>l. [l, [], ''| Field | Value |'', ''|-------|-------|'', state_row s]) (lines_of md)")
        case (Some ls)
        then obtain us l vs where "lines_of md = us @ l # vs" "ls = us @ [l, [], ''| Field | Value |'', ''|-------|-------|''] @ state_row s # vs"
          by (auto dest!: replace_first_Some)
        moreover have "\<forall>k\<in>set (us @ [l, [], ''| Field | Value |'', ''|-------|-------|''] @ vs). LF \<notin> set k"
          using nolf calculation(1) header_no_lf by simp
        moreover have "\<forall>k\<in>set (us @ [l, [], ''| Field | Value |'', ''|-------|-------|'']). \<not> field_row epicStateFields k"
          using no calculation(1) by simp
        ultimately have "extractMarkdownTableField (preserveTrailingNewline md (join_with [LF] ls)) epicStateFields = Some (formatEpicStateForFile s)"
          using ok by metis
        with Some n1 n2 show ?thesis by (simp add: upsertEpicState_def Let_def)
      next
        case None
        then have "upsertEpicState md s = ''| Field | Value |'' @ LF # ''|-------|-------|'' @ LF # state_row s @ LF # LF # trimStart md"
          using n1 n2 by (simp add: upsertEpicState_def Let_def)
        then have "split_on LF (upsertEpicState md s) = ''| Field | Value |'' # ''|-------|-------|'' # state_row s # [] # split_on LF (trimStart md)"
          by (simp only: split_four_lines [OF header_no_lf state_row_no_lf])
        then show ?thesis by (simp add: extract_row)
      qed
    qed
  qed
  then show ?thesis by (simp add: extractEpicState_def)
qed

section \<open>Boards\<close>

text \<open>The contract of a board: it files every shown item under one of its columns, shows the source issues in one
  column of their own, and counts what a column holds. \<open>filed\<close> singles out the items the filing covers.\<close>

locale board =
  fixes definitions :: "('c \<times> string) list"
    and bucket :: "work_item \<Rightarrow> 'c"
    and invalid :: 'c
    and filed :: "work_item \<Rightarrow> bool"
    and column :: "work_item list \<Rightarrow> source_issue list \<Rightarrow> 'c \<times> string \<Rightarrow> 'c board_column"
  assumes column_ids: "distinct (map fst definitions)" "invalid \<in> set (map fst definitions)"
    and bucket_column: "filed i \<Longrightarrow> bucket i \<in> set (map fst definitions) - {invalid}"
    and column_items: "co_items (column vs ss d) = (if fst d = invalid then [] else filter (\<lambda>i. bucket i = fst d) vs)"
    and column_issues: "co_sourceIssues (column vs ss d) = (if fst d = invalid then ss else [])"
    and column_count: "co_count (column vs ss d) = length (co_items (column vs ss d)) + length (co_sourceIssues (column vs ss d))"
    and column_id: "co_id (column vs ss d) = fst d"
begin

lemma items_of_columns:
  "distinct (map fst ds) \<Longrightarrow>
   mset (concat (map (\<lambda>d. co_items (column vs ss d)) ds)) = mset (filter (\<lambda>i. bucket i \<in> set (map fst ds) - {invalid}) vs)"
proof (induction ds)
  case (Cons d ds)
  have "mset (filter (\<lambda>i. bucket i \<in> set (map fst (d # ds)) - {invalid}) vs) =
      mset (co_items (column vs ss d)) + mset (filter (\<lambda>i. bucket i \<in> set (map fst ds) - {invalid}) vs)"
    using Cons.prems by (induction vs) (auto simp: column_items)
  with Cons show ?case by simp
qed simp

lemma issues_of_columns:
  "distinct (map fst ds) \<Longrightarrow> concat (map (\<lambda>d. co_sourceIssues (column vs ss d)) ds) = (if invalid \<in> set (map fst ds) then ss else [])"
  by (induction ds) (auto simp: column_issues)

lemma partition:
  assumes "list_all filed vs"
  shows "mset (concat (map (\<lambda>d. co_items (column vs ss d)) definitions)) = mset vs"
    and "concat (map (\<lambda>d. co_sourceIssues (column vs ss d)) definitions) = ss"
    and "sum_list (map (\<lambda>d. co_count (column vs ss d)) definitions) = length vs + length ss"
proof -
  have "filter (\<lambda>i. bucket i \<in> set (map fst definitions) - {invalid}) vs = vs"
    using assms bucket_column by (auto simp: list_all_iff filter_id_conv)
  then show 1: "mset (concat (map (\<lambda>d. co_items (column vs ss d)) definitions)) = mset vs"
    using items_of_columns [OF column_ids(1), of vs ss] by simp
  show 2: "concat (map (\<lambda>d. co_sourceIssues (column vs ss d)) definitions) = ss"
    using issues_of_columns [OF column_ids(1), of vs ss] column_ids(2) by simp
  have "sum_list (map (\<lambda>d. co_count (column vs ss d)) ds) =
      length (concat (map (\<lambda>d. co_items (column vs ss d)) ds)) + length (concat (map (\<lambda>d. co_sourceIssues (column vs ss d)) ds))" for ds
    by (induction ds) (simp_all add: column_count)
  with 1 2 show "sum_list (map (\<lambda>d. co_count (column vs ss d)) definitions) = length vs + length ss"
    by (metis size_mset)
qed

lemma complete:
  fixes vs :: "work_item list" and ss :: "source_issue list"
  assumes "list_all filed vs"
  defines "cs \<equiv> map (column vs ss) definitions"
  shows "mset (concat (map co_items cs)) = mset vs \<and> mset (concat (map co_sourceIssues cs)) = mset ss
     \<and> sum_list (map co_count cs) = length vs + length ss \<and> list_all (\<lambda>c. list_all (\<lambda>i. bucket i = co_id c) (co_items c)) cs"
proof (intro conjI)
  show "mset (concat (map co_items cs)) = mset vs" "mset (concat (map co_sourceIssues cs)) = mset ss"
    "sum_list (map co_count cs) = length vs + length ss"
    unfolding cs_def map_map comp_def using partition [OF assms(1), of ss] by simp_all
  show "list_all (\<lambda>c. list_all (\<lambda>i. bucket i = co_id c) (co_items c)) cs"
    unfolding cs_def list_all_iff by (simp add: column_items column_id)
qed

end

interpretation epics: board epicBoardColumnDefinitions "\<lambda>i. Epic_state (getEpicStateForBoard i)" Epic_invalid_sources "\<lambda>_. True" epic_column_of
proof
  fix i
  show "Epic_state (getEpicStateForBoard i) \<in> set (map fst epicBoardColumnDefinitions) - {Epic_invalid_sources}"
    by (cases "getEpicStateForBoard i") (simp_all add: epicBoardColumnDefinitions_def)
qed (auto simp: epicBoardColumnDefinitions_def epic_column_of_def Let_def)

interpretation feats: board featBoardColumnDefinitions "\<lambda>i. Feat_folder (wi_stateFolder i)" Feat_invalid_sources
    "\<lambda>i. wi_stateFolder i \<noteq> EPICS_00" feat_column_of
proof
  fix i assume "wi_stateFolder i \<noteq> EPICS_00"
  then show "Feat_folder (wi_stateFolder i) \<in> set (map fst featBoardColumnDefinitions) - {Feat_invalid_sources}"
    by (cases "wi_stateFolder i") (simp_all add: featBoardColumnDefinitions_def)
qed (auto simp: featBoardColumnDefinitions_def feat_column_of_def Let_def)

text \<open>Whatever the collation, the epic board shows every epic in exactly one column, the column of its state, and
  every epic source issue in the column of invalid sources; the counts of the columns add up to both.\<close>

lemma epic_board_partition:
  "mset (concat (map co_items (eb_columns (buildEpicBoardModel collate is ss scan)))) = mset (filter (\<lambda>i. wi_kind i = epic) is)
   \<and> mset (concat (map co_sourceIssues (eb_columns (buildEpicBoardModel collate is ss scan)))) = mset (filter (\<lambda>s. si_sourceType s = epic) ss)
   \<and> sum_list (map co_count (eb_columns (buildEpicBoardModel collate is ss scan)))
       = length (filter (\<lambda>i. wi_kind i = epic) is) + length (filter (\<lambda>s. si_sourceType s = epic) ss)
   \<and> list_all (\<lambda>c. list_all (\<lambda>i. Epic_state (getEpicStateForBoard i) = co_id c) (co_items c)) (eb_columns (buildEpicBoardModel collate is ss scan))"
proof -
  let ?vs = "sort_by (compareWorkItemsByExternalId collate) (filter (\<lambda>i. wi_kind i = epic) is)"
  let ?ss = "sort_by (compareSourceIssues collate) (filter (\<lambda>s. si_sourceType s = epic) ss)"
  have cols: "eb_columns (buildEpicBoardModel collate is ss scan) = map (epic_column_of ?vs ?ss) epicBoardColumnDefinitions"
    by (simp add: buildEpicBoardModel_def Let_def)
  show ?thesis
    unfolding cols using epics.complete [of ?vs ?ss] by (simp only: mset_sort_by length_sort_by list.pred_True)
qed

text \<open>The feature board does the same for features by their folder, provided no feature lies in the epics'
  folder, for which the board has no column.\<close>

lemma feature_board_partition:
  assumes "list_all (\<lambda>i. wi_kind i = feature \<longrightarrow> wi_stateFolder i \<noteq> EPICS_00) is"
  shows "mset (concat (map co_items (fb_columns (buildFeatureBoardModel collate is ss)))) = mset (filter (\<lambda>i. wi_kind i = feature) is)
   \<and> mset (concat (map co_sourceIssues (fb_columns (buildFeatureBoardModel collate is ss)))) = mset (filter (\<lambda>s. si_sourceType s = feature) ss)
   \<and> sum_list (map co_count (fb_columns (buildFeatureBoardModel collate is ss)))
       = length (filter (\<lambda>i. wi_kind i = feature) is) + length (filter (\<lambda>s. si_sourceType s = feature) ss)
   \<and> list_all (\<lambda>c. list_all (\<lambda>i. Feat_folder (wi_stateFolder i) = co_id c) (co_items c)) (fb_columns (buildFeatureBoardModel collate is ss))"
proof -
  let ?vs = "sort_by (compareWorkItemsByExternalId collate) (filter (\<lambda>i. wi_kind i = feature) is)"
  let ?ss = "sort_by (compareSourceIssues collate) (filter (\<lambda>s. si_sourceType s = feature) ss)"
  have cols: "fb_columns (buildFeatureBoardModel collate is ss) = map (feat_column_of ?vs ?ss) featBoardColumnDefinitions"
    by (simp add: buildFeatureBoardModel_def Let_def)
  have "list_all (\<lambda>i. wi_stateFolder i \<noteq> EPICS_00) ?vs" using assms by (auto simp: list_all_iff)
  from feats.complete [OF this, of ?ss] show ?thesis
    unfolding cols by (simp only: mset_sort_by length_sort_by)
qed

definition sample_feature :: work_item where
  "sample_feature = \<lparr>wi_externalId = ''FEAT-1'', wi_kind = feature, wi_stateFolder = IN_PROGRESS_03, wi_epicState = None\<rparr>"

theorem feature_board_partition_witness:
  "mset (concat (map co_items (fb_columns (buildFeatureBoardModel (\<lambda>_ _. 0) [sample_feature] [])))) = {#sample_feature#}"
  using feature_board_partition [of "[sample_feature]" "\<lambda>_ _. 0" "[]"] by (simp add: sample_feature_def)

end
