(* ===== verification/FinalVerification.thy ===== *)
theory FinalVerification
  imports JsValue JsRegex
begin

text \<open>
  Final verification: the types (\<open>final-verification-types.ts\<close>), the pure policy
  (\<open>final-verification-policy.ts\<close>), the profile loader (\<open>final-verification-profile-loader.ts\<close>) and the serial
  loop of the adapter (\<open>final-verification-adapter.ts\<close>). What the file system, the YAML parser and the child process
  answer is an input. A check result is kept without its \<open>outputSummary\<close>, a redacted and truncated text for display that
  no decision reads. Durations and clock readings are integers of milliseconds.
\<close>

section \<open>Types\<close>

datatype check_intent = in_build | in_test | in_lint | in_coverage

definition REQUIRED_VERIFICATION_INTENTS :: "check_intent list" where
  "REQUIRED_VERIFICATION_INTENTS = [in_build, in_test, in_lint]"

fun intent_text :: "check_intent \<Rightarrow> string" where
  "intent_text in_build = ''build''"
| "intent_text in_test = ''test''"
| "intent_text in_lint = ''lint''"
| "intent_text in_coverage = ''coverage''"

record coverage_declaration =
  cv_reportPath :: string
  cv_include :: "string list"
  cv_exclude :: "string list"
  cv_minimumPercent :: jnum
  cv_targetPercent :: jnum
  cv_improvementAttempts :: int

datatype run_stage = run_always | run_final_checkpoint

record check_declaration =
  cd_id :: string
  cd_description :: string
  cd_intent :: check_intent
  cd_command :: "string list"
  cd_workingDirectory :: string
  cd_timeout :: jnum
  cd_required :: bool
  cd_runAt :: run_stage
  cd_coverage :: "coverage_declaration option"

record verification_profile =
  vp_version :: string
  vp_description :: string
  vp_checks :: "check_declaration list"

datatype issue_kind =
    missing_file | invalid_yaml | missing_checks | zero_checks | duplicate_check_id | invalid_intent
  | missing_required_intent | unsafe_command_type | unsafe_working_directory | invalid_run_stage
  | invalid_coverage_contract | policy_blocked_issue | timeout_too_low

record profile_issue =
  is_kind :: issue_kind
  is_message :: string
  is_checkId :: "string option"
  is_missingIntents :: "check_intent list option"

datatype profile_validation = Valid_profile verification_profile | Invalid_profile "profile_issue list"

datatype check_outcome = passed | advisory | coverage_unavailable | failed | timed_out | policy_blocked | skipped | zero_selection

record check_result =
  cr_checkId :: string
  cr_intent :: check_intent
  cr_description :: string
  cr_command :: "string list"
  cr_workingDirectory :: string
  cr_outcome :: check_outcome
  cr_duration :: int
  cr_exitCode :: "int option"
  cr_startedAt :: string
  cr_required :: bool
  cr_advisoryRepairLimit :: "int option"

datatype aggregate_status = ag_passed | ag_failed | ag_blocked | ag_skipped

record aggregate_result =
  ar_status :: aggregate_status
  ar_failedRequiredChecks :: "string list"
  ar_blockedReason :: "string option"
  ar_persistenceWarning :: "string option"
  ar_checks :: "check_result list"
  ar_duration :: int
  ar_startedAt :: string

datatype checkpoint_kind = at_phase | at_final_checkpoint

section \<open>Policy\<close>

definition normalizeChecks :: "verification_profile \<Rightarrow> check_declaration list" where
  "normalizeChecks p = vp_checks p"

definition selectChecksForCheckpoint :: "check_declaration list \<Rightarrow> checkpoint_kind \<Rightarrow> check_declaration list" where
  "selectChecksForCheckpoint cs k = filter (\<lambda>c. cd_runAt c \<noteq> run_final_checkpoint \<or> k = at_final_checkpoint) cs"

fun duplicates_from :: "string list \<Rightarrow> check_declaration list \<Rightarrow> string list" where
  "duplicates_from seen [] = []"
| "duplicates_from seen (c # cs) =
     (if cd_id c \<in> set seen then cd_id c # duplicates_from (cd_id c # seen) cs else duplicates_from (cd_id c # seen) cs)"

definition detectDuplicateCheckIds :: "check_declaration list \<Rightarrow> string list" where
  "detectDuplicateCheckIds cs = duplicates_from [] cs"

definition shell_meta :: "char \<Rightarrow> bool" where
  "shell_meta c \<longleftrightarrow> c \<in> set (''|;&$'' @ [CHR 0x60] @ ''(){}<>!~*?['' @ [CHR 0x5C] @ ''#'')"

definition detectUnsafeCommands :: "check_declaration list \<Rightarrow> string list" where
  "detectUnsafeCommands cs = map cd_id (filter (\<lambda>c. list_ex (list_ex shell_meta) (cd_command c)) cs)"

definition findMissingRequiredIntents :: "check_declaration list \<Rightarrow> check_intent list" where
  "findMissingRequiredIntents cs =
     filter (\<lambda>i. i \<notin> set (map cd_intent (filter cd_required cs))) REQUIRED_VERIFICATION_INTENTS"

definition classifyOutcome :: "int option \<Rightarrow> bool \<Rightarrow> bool \<Rightarrow> bool \<Rightarrow> bool \<Rightarrow> check_outcome" where
  "classifyOutcome exitCode timedOut policyBlocked skip zeroSelection =
     (if timedOut then timed_out
      else if policyBlocked then policy_blocked
      else if skip then skipped
      else if zeroSelection then zero_selection
      else if exitCode = Some 0 then passed
      else if exitCode \<noteq> None then failed
      else skipped)"

text \<open>
  A word boundary next to a word character of the pattern is a neighbour that is not a word character, or the edge of the
  subject: the subject is padded with a line feed at each end and the neighbour is part of the pattern.
\<close>

definition word_char :: "char \<Rightarrow> bool" where
  "word_char c \<longleftrightarrow> is_alnum c \<or> c = CHR ''_''"

definition rx_edge :: rx where
  "rx_edge = RCls (\<lambda>c. \<not> word_char c)"

definition padded :: "string \<Rightarrow> string" where
  "padded s = [CHR 0x0A] @ s @ [CHR 0x0A]"

definition rx_spaces :: rx where
  "rx_spaces = RStar (RCls is_ws)"

definition zero_selection_patterns :: "rx list" where
  "zero_selection_patterns =
     [rx_lit_i ''no test matches the given testcase filter'',
      rx_seqs [rx_lit_i ''no test'', rx_opt (rx_lit_i ''s''), rx_lit '' '', rx_opt (rx_lit_i ''were ''),
        rx_alts [rx_lit_i ''found'', rx_lit_i ''discovered'', rx_lit_i ''matched'', rx_lit_i ''selected'']],
      rx_seqs [rx_lit_i ''total tests:'', rx_spaces, rx_lit ''0'', rx_edge],
      rx_seqs [rx_lit_i ''test'', rx_opt (rx_lit_i ''s''), rx_lit_i '' run:'', rx_spaces, rx_lit ''0'', rx_edge],
      rx_seqs [rx_lit_i ''test file'', rx_opt (rx_lit_i ''s''), rx_plus (RCls is_ws), rx_lit_i ''no tests'']]"

definition detectsZeroTestSelection :: "string \<Rightarrow> bool" where
  "detectsZeroTestSelection out \<longleftrightarrow> list_ex (\<lambda>r. rx_test r (padded out)) zero_selection_patterns"

definition normalizeCoverageOutcome :: "check_intent \<Rightarrow> check_outcome \<Rightarrow> check_outcome" where
  "normalizeCoverageOutcome i oc =
     (if i \<noteq> in_coverage \<or> oc = passed \<or> oc = advisory then oc else coverage_unavailable)"

definition buildExecutionPlan :: "check_declaration list \<Rightarrow> check_declaration list" where
  "buildExecutionPlan cs = cs"

definition isSuccessfulOutcome :: "check_outcome \<Rightarrow> bool" where
  "isSuccessfulOutcome oc \<longleftrightarrow> oc = passed \<or> oc = advisory \<or> oc = coverage_unavailable"

definition shouldSuppressNextRequiredCheck :: "check_result list \<Rightarrow> bool" where
  "shouldSuppressNextRequiredCheck rs \<longleftrightarrow> list_ex (\<lambda>r. cr_required r \<and> \<not> isSuccessfulOutcome (cr_outcome r)) rs"

definition allRequiredChecksPassed :: "check_result list \<Rightarrow> bool" where
  "allRequiredChecksPassed rs \<longleftrightarrow>
     rs \<noteq> [] \<and> list_all (\<lambda>r. isSuccessfulOutcome (cr_outcome r)) (filter cr_required rs)"

definition computeAggregateStatus :: "check_result list \<Rightarrow> aggregate_status" where
  "computeAggregateStatus rs =
     (if rs = [] then ag_skipped
      else if list_ex (\<lambda>r. cr_required r \<and> cr_outcome r = policy_blocked) rs then ag_blocked
      else if list_ex (\<lambda>r. cr_required r \<and> cr_outcome r = timed_out) rs then ag_blocked
      else if list_ex (\<lambda>r. cr_required r \<and> (cr_outcome r = failed \<or> cr_outcome r = zero_selection)) rs then ag_failed
      else if list_ex (\<lambda>r. cr_required r \<and> cr_outcome r = skipped) rs then ag_blocked
      else if length (filter cr_required rs) = 0 then ag_skipped
      else ag_passed)"

definition getFailedRequiredCheckIds :: "check_result list \<Rightarrow> string list" where
  "getFailedRequiredCheckIds rs =
     map cr_checkId (filter (\<lambda>r. cr_required r \<and> \<not> isSuccessfulOutcome (cr_outcome r)) rs)"

definition exit_text :: "int option \<Rightarrow> string" where
  "exit_text e = (case e of None \<Rightarrow> ''null'' | Some n \<Rightarrow> int_text n)"

fun blocking_text :: "check_result \<Rightarrow> string option" where
  "blocking_text r =
     (if \<not> cr_required r then None
      else let name = ''Check '' @ [CHR 0x27] @ cr_checkId r @ [CHR 0x27] in
        (case cr_outcome r of
           policy_blocked \<Rightarrow> Some (name @ '' blocked by command policy'')
         | timed_out \<Rightarrow> Some (name @ '' timed out after '' @ int_text (cr_duration r) @ ''ms'')
         | failed \<Rightarrow>
             if cr_exitCode r = Some 0 then Some (name @ '' emitted warnings despite a successful exit code'')
             else Some (name @ '' exited with code '' @ exit_text (cr_exitCode r))
         | skipped \<Rightarrow> Some (name @ '' was skipped'')
         | zero_selection \<Rightarrow> Some (name @ '' selected zero tests'')
         | _ \<Rightarrow> None))"

definition getBlockedReason :: "check_result list \<Rightarrow> aggregate_status \<Rightarrow> string option" where
  "getBlockedReason rs st =
     (if st \<noteq> ag_blocked \<and> st \<noteq> ag_failed then None
      else (case List.map_filter blocking_text rs of [] \<Rightarrow> None | t # _ \<Rightarrow> Some t))"

definition computeTotalDuration :: "check_result list \<Rightarrow> int" where
  "computeTotalDuration rs = foldl (\<lambda>n r. n + cr_duration r) 0 rs"

definition buildAggregateResult :: "check_result list \<Rightarrow> string \<Rightarrow> string option \<Rightarrow> aggregate_result" where
  "buildAggregateResult rs startedAt warning =
     (let st = computeAggregateStatus rs in
      \<lparr>ar_status = st, ar_failedRequiredChecks = getFailedRequiredCheckIds rs, ar_blockedReason = getBlockedReason rs st,
       ar_persistenceWarning = warning, ar_checks = rs, ar_duration = computeTotalDuration rs, ar_startedAt = startedAt\<rparr>)"

section \<open>The profile loader\<close>

text \<open>What the path holds: no file, a file that cannot be read or parsed (with the message of the error), or a document.\<close>

datatype profile_source = No_file | Unreadable string | Document jsv

definition MIN_TIMEOUT_MS :: int where
  "MIN_TIMEOUT_MS = 10000"

definition VALID_INTENTS :: "(string \<times> check_intent) list" where
  "VALID_INTENTS = [(''build'', in_build), (''test'', in_test), (''lint'', in_lint), (''coverage'', in_coverage)]"

text \<open>\<open>isAbsolute\<close> of \<open>node:path\<close> on a POSIX host.\<close>

definition isAbsolute :: "string \<Rightarrow> bool" where
  "isAbsolute p \<longleftrightarrow> startsWith p ''/''"

text \<open>The order of numbers: a comparison with a value that is not a number is false.\<close>

fun num_less :: "jnum \<Rightarrow> jnum \<Rightarrow> bool" where
  "num_less (JInt a) (JInt b) = (a < b)"
| "num_less (JInt a) (JFrac m e) = (a * 2 ^ e < m)"
| "num_less (JFrac m e) (JInt b) = (m < b * 2 ^ e)"
| "num_less (JFrac m e) (JFrac n f) = (m * 2 ^ f < n * 2 ^ e)"
| "num_less JNegInf b = (b \<noteq> JNaN \<and> b \<noteq> JNegInf)"
| "num_less a JPosInf = (a \<noteq> JNaN \<and> a \<noteq> JPosInf)"
| "num_less _ _ = False"

fun num_finite :: "jnum \<Rightarrow> bool" where
  "num_finite (JInt _) = True"
| "num_finite (JFrac _ _) = True"
| "num_finite _ = False"

definition finite_number :: "jsv \<Rightarrow> jnum option" where
  "finite_number v = (case v of JNum n \<Rightarrow> if num_finite n then Some n else None | _ \<Rightarrow> None)"

definition forward_slashes :: "string \<Rightarrow> string" where
  "forward_slashes s = map (\<lambda>c. if c = CHR 0x5C then CHR ''/'' else c) s"

definition string_or :: "string \<Rightarrow> jsv \<Rightarrow> string" where
  "string_or d v = (case v of JStr s \<Rightarrow> s | _ \<Rightarrow> d)"

definition readStringArray :: "jsv \<Rightarrow> string list option" where
  "readStringArray v =
     (case v of
        JArr xs \<Rightarrow> parse_all (\<lambda>x. map_option (\<lambda>s. forward_slashes (trim s)) (string_where (\<lambda>s. trim s \<noteq> []) x)) xs
      | _ \<Rightarrow> None)"

definition quoted :: "string \<Rightarrow> string" where
  "quoted s = [CHR 0x27] @ s @ [CHR 0x27]"

definition issue :: "issue_kind \<Rightarrow> string \<Rightarrow> string option \<Rightarrow> profile_issue" where
  "issue k m i = \<lparr>is_kind = k, is_message = m, is_checkId = i, is_missingIntents = None\<rparr>"

definition improvement_attempts :: "jsv \<Rightarrow> int option" where
  "improvement_attempts v = (if v = JUndef \<or> v = JNull then Some 5 else as_int v)"

definition coverage_of :: "jsv \<Rightarrow> coverage_declaration option" where
  "coverage_of v =
     (let reportPath = (case jget v ''reportPath'' of JStr s \<Rightarrow> forward_slashes (trim s) | _ \<Rightarrow> [])
      in do {
        chk (reportPath \<noteq> [] \<and> \<not> isAbsolute reportPath \<and> ''..'' \<notin> set (split_on CHR ''/'' reportPath));
        chk (jget v ''format'' = JStr ''lcov'');
        inc \<leftarrow> readStringArray (jget v ''include'');
        chk (inc \<noteq> []);
        exc \<leftarrow> (if jget v ''exclude'' = JUndef then Some [] else readStringArray (jget v ''exclude''));
        lo \<leftarrow> finite_number (jget v ''minimumPercent'');
        hi \<leftarrow> finite_number (jget v ''targetPercent'');
        n \<leftarrow> improvement_attempts (jget v ''improvementAttempts'');
        chk (0 \<le> n \<and> n \<le> 7);
        chk (\<not> num_less lo (JInt 0) \<and> \<not> num_less (JInt 100) lo);
        chk (\<not> num_less hi lo \<and> \<not> num_less (JInt 100) hi);
        Some \<lparr>cv_reportPath = reportPath, cv_include = inc, cv_exclude = exc, cv_minimumPercent = lo, cv_targetPercent = hi,
          cv_improvementAttempts = n\<rparr>
      })"

definition readCoverageDeclaration :: "jsv \<Rightarrow> string \<Rightarrow> profile_issue + coverage_declaration" where
  "readCoverageDeclaration raw checkId =
     (if \<not> isRecord raw then
        Inl (issue invalid_coverage_contract (''Coverage check '' @ quoted checkId @ '' requires a coverage mapping.'') (Some checkId))
      else (case coverage_of raw of
          None \<Rightarrow> Inl (issue invalid_coverage_contract
            (''Coverage check '' @ quoted checkId @ '' requires a relative LCOV reportPath, non-empty include globs, optional exclude globs, 0-100 thresholds where targetPercent is not below minimumPercent, and optional 0-7 FEAT-scoped improvementAttempts (default 5).'')
            (Some checkId))
        | Some c \<Rightarrow> Inr c))"

text \<open>The stages of one entry after its id. \<open>txt\<close> is \<open>String\<close> of a value.\<close>

definition entry_intent :: "(jsv \<Rightarrow> string) \<Rightarrow> string \<Rightarrow> jsv \<Rightarrow> profile_issue list + check_intent" where
  "entry_intent txt i e =
     (case do { s \<leftarrow> as_string (jget e ''intent''); map_of VALID_INTENTS (toLowerCase s) } of
        Some k \<Rightarrow> Inr k
      | None \<Rightarrow> Inl [issue invalid_intent (''Check '' @ quoted i @ '' has invalid intent '' @ quoted (txt (jget e ''intent''))
          @ ''. Must be one of: '' @ join_with '', '' (map fst VALID_INTENTS) @ ''.'') (Some i)])"

definition entry_command :: "string \<Rightarrow> jsv \<Rightarrow> profile_issue list + string list" where
  "entry_command i e =
     (case jget e ''command'' of
        JArr (a # as) \<Rightarrow>
          (case parse_all as_string (a # as) of
             Some cmd \<Rightarrow> Inr cmd
           | None \<Rightarrow> Inl (map (\<lambda>_. issue unsafe_command_type (''Check '' @ quoted i @ '' command argument must be a string.'') (Some i))
               (filter (\<lambda>x. as_string x = None) (a # as))))
      | _ \<Rightarrow> Inl [issue unsafe_command_type
          (''Check '' @ quoted i @ '' '' @ quoted ''command'' @ '' must be a non-empty array of strings (argv).'') (Some i)])"

definition entry_directory :: "string \<Rightarrow> jsv \<Rightarrow> profile_issue list + string" where
  "entry_directory i e =
     (let d = (case jget e ''workingDirectory'' of JStr s \<Rightarrow> trim s | _ \<Rightarrow> ''.'')
      in if isAbsolute d then Inl [issue unsafe_working_directory
           (''Check '' @ quoted i @ '' '' @ quoted ''workingDirectory''
            @ '' must be relative to the execution root, not absolute: '' @ quoted d @ ''.'') (Some i)]
         else Inr d)"

definition entry_timeout :: "(jsv \<Rightarrow> string) \<Rightarrow> string \<Rightarrow> jsv \<Rightarrow> profile_issue list + jnum" where
  "entry_timeout txt i e =
     (let t = (case finite_number (jget e ''timeout'') of
            Some n \<Rightarrow> if num_less (JInt 0) n then n else JInt 120000
          | None \<Rightarrow> JInt 120000)
      in if num_less t (JInt MIN_TIMEOUT_MS) then Inl [issue timeout_too_low
           (''Check '' @ quoted i @ '' timeout ('' @ txt (JNum t) @ ''ms) is below minimum ('' @ int_text MIN_TIMEOUT_MS @ ''ms).'')
           (Some i)]
         else Inr t)"

definition entry_stage :: "string \<Rightarrow> jsv \<Rightarrow> profile_issue list + run_stage" where
  "entry_stage i e =
     (case jget e ''runAt'' of
        JUndef \<Rightarrow> Inr run_always
      | v \<Rightarrow>
        if v = JStr ''always'' then Inr run_always
        else if v = JStr ''final_checkpoint'' then Inr run_final_checkpoint
        else Inl [issue invalid_run_stage
          (''Check '' @ quoted i @ '' runAt must be '' @ quoted ''always'' @ '' or '' @ quoted ''final_checkpoint'' @ ''.'') (Some i)])"

definition entry_coverage :: "string \<Rightarrow> check_intent \<Rightarrow> jsv \<Rightarrow> profile_issue list + coverage_declaration option" where
  "entry_coverage i k e =
     (if k = in_coverage then
        (case readCoverageDeclaration (jget e ''coverage'') i of Inl x \<Rightarrow> Inl [x] | Inr c \<Rightarrow> Inr (Some c))
      else if jget e ''coverage'' \<noteq> JUndef then
        Inl [issue invalid_coverage_contract
          (''Check '' @ quoted i @ '' may declare coverage only when intent is '' @ quoted ''coverage'' @ ''.'') (Some i)]
      else Inr None)"

definition declaration_of :: "(jsv \<Rightarrow> string) \<Rightarrow> string \<Rightarrow> jsv \<Rightarrow> profile_issue list + check_declaration" where
  "declaration_of txt i e =
     (case entry_intent txt i e of Inl is \<Rightarrow> Inl is | Inr k \<Rightarrow>
     (case entry_command i e of Inl is \<Rightarrow> Inl is | Inr cmd \<Rightarrow>
     (case entry_directory i e of Inl is \<Rightarrow> Inl is | Inr d \<Rightarrow>
     (case entry_timeout txt i e of Inl is \<Rightarrow> Inl is | Inr t \<Rightarrow>
     (case entry_stage i e of Inl is \<Rightarrow> Inl is | Inr st \<Rightarrow>
     (case entry_coverage i k e of Inl is \<Rightarrow> Inl is | Inr cv \<Rightarrow>
       Inr \<lparr>cd_id = i, cd_description = string_or [] (jget e ''description''), cd_intent = k, cd_command = cmd,
         cd_workingDirectory = d, cd_timeout = t, cd_required = (jget e ''required'' = JBool True), cd_runAt = st,
         cd_coverage = cv\<rparr>))))))"

text \<open>The loop over the entries, with the ids seen, the issues and the declarations so far.\<close>

record load_state =
  ls_seen :: "string list"
  ls_issues :: "profile_issue list"
  ls_checks :: "check_declaration list"

definition js_object :: "jsv \<Rightarrow> bool" where
  "js_object v \<longleftrightarrow> isRecord v \<or> as_array v \<noteq> None"

definition entry_id :: "jsv \<Rightarrow> string option" where
  "entry_id e = (case jget e ''id'' of JStr s \<Rightarrow> if trim s = [] then None else Some (trim s) | _ \<Rightarrow> None)"

definition load_entry :: "(jsv \<Rightarrow> string) \<Rightarrow> load_state \<Rightarrow> nat \<times> jsv \<Rightarrow> load_state" where
  "load_entry txt s ie =
     (let n = int_text (int (fst ie)); e = snd ie in
      if \<not> js_object e then
        s\<lparr>ls_issues := ls_issues s @ [issue invalid_yaml (''Check at index '' @ n @ '' is not an object.'') (Some n)]\<rparr>
      else (case entry_id e of
          None \<Rightarrow> s\<lparr>ls_issues := ls_issues s @ [issue invalid_yaml
            (''Check at index '' @ n @ '' has no '' @ quoted ''id'' @ '' or a blank '' @ quoted ''id'' @ ''.'') (Some n)]\<rparr>
        | Some i \<Rightarrow>
            if i \<in> set (ls_seen s) then
              s\<lparr>ls_issues := ls_issues s @ [issue duplicate_check_id (''Duplicate check id '' @ quoted i @ ''.'') (Some i)]\<rparr>
            else (case declaration_of txt i e of
                Inl is \<Rightarrow> s\<lparr>ls_seen := i # ls_seen s, ls_issues := ls_issues s @ is\<rparr>
              | Inr c \<Rightarrow> s\<lparr>ls_seen := i # ls_seen s, ls_checks := ls_checks s @ [c]\<rparr>)))"

definition load_entries :: "(jsv \<Rightarrow> string) \<Rightarrow> jsv list \<Rightarrow> load_state" where
  "load_entries txt es =
     foldl (load_entry txt) \<lparr>ls_seen = [], ls_issues = [], ls_checks = []\<rparr> (zip [0..<length es] es)"

definition missing_issue :: "check_intent list \<Rightarrow> profile_issue" where
  "missing_issue ms =
     \<lparr>is_kind = missing_required_intent,
      is_message = ''Profile is missing required intent(s): '' @ join_with '', '' (map intent_text ms) @ ''. At least one ''
        @ quoted ''required: true'' @ '' check must cover each intent.'',
      is_checkId = None, is_missingIntents = Some ms\<rparr>"

definition load_checks :: "(jsv \<Rightarrow> string) \<Rightarrow> jsv \<Rightarrow> jsv list \<Rightarrow> profile_validation" where
  "load_checks txt doc es =
     (let s = load_entries txt es;
          ms = findMissingRequiredIntents (ls_checks s);
          is = ls_issues s @ (if ms = [] then [] else [missing_issue ms])
      in if is \<noteq> [] then Invalid_profile is
         else Valid_profile \<lparr>vp_version = string_or ''1.0'' (jget doc ''version''),
           vp_description = string_or [] (jget doc ''description''), vp_checks = ls_checks s\<rparr>)"

definition loadVerificationProfile :: "(jsv \<Rightarrow> string) \<Rightarrow> string \<Rightarrow> profile_source \<Rightarrow> profile_validation" where
  "loadVerificationProfile txt path src =
     (case src of
        No_file \<Rightarrow> Invalid_profile [issue missing_file (''Verification profile not found at '' @ path) None]
      | Unreadable m \<Rightarrow> Invalid_profile [issue invalid_yaml (''Failed to parse verification profile: '' @ m) None]
      | Document doc \<Rightarrow>
        if \<not> js_object doc then Invalid_profile [issue invalid_yaml ''Verification profile must be a YAML mapping (object).'' None]
        else if ''checks'' \<notin> set (jkeys doc) then
          Invalid_profile [issue missing_checks (''Verification profile must contain a '' @ quoted ''checks'' @ '' array.'') None]
        else (case jget doc ''checks'' of
            JArr [] \<Rightarrow> Invalid_profile [issue zero_checks (quoted ''checks'' @ '' array is empty. At least one check is required.'') None]
          | JArr es \<Rightarrow> load_checks txt doc es
          | _ \<Rightarrow> Invalid_profile [issue missing_checks (quoted ''checks'' @ '' must be an array.'') None]))"

section \<open>The serial loop of the adapter\<close>

text \<open>
  The facts of one check: whether its working directory exists, what the child process reported, the kind of the coverage
  report, the duration and the time of its start. \<open>ex_error\<close> is the code of a spawn error with the message, \<open>ex_signalled\<close> tells
  that a signal ended the process.
\<close>

record execution_facts =
  ex_directory :: bool
  ex_stdout :: string
  ex_stderr :: string
  ex_status :: "int option"
  ex_error :: "string option"
  ex_signalled :: bool
  ex_coverage :: check_outcome
  ex_duration :: int
  ex_startedAt :: string

definition combined_output :: "execution_facts \<Rightarrow> string" where
  "combined_output x = join_with [CHR 0x0A] (filter (\<lambda>s. s \<noteq> []) [ex_stdout x, ex_stderr x])"

definition rx_warnings :: rx where
  "rx_warnings = RSeq (rx_lit_i ''warning'') (rx_opt (rx_lit_i ''s''))"

definition rx_no_warnings :: rx where
  "rx_no_warnings = rx_seqs [rx_edge, rx_alts [rx_lit ''0'', rx_lit_i ''zero'', rx_lit_i ''no''], rx_plus (RCls is_ws),
     rx_warnings, rx_edge]"

definition rx_warning_start :: rx where
  "rx_warning_start = RSeq (RAlt (rx_lit_i ''warning'') (rx_lit_i ''warn'')) (RCls (\<lambda>c. is_ws c \<or> c = CHR '':''))"

definition rx_compiled_warnings :: rx where
  "rx_compiled_warnings = rx_seqs [rx_edge, rx_lit_i ''compiled with '', rx_warnings, rx_edge]"

text \<open>The warning sign of the first alternative lies outside the model's characters.\<close>

definition warning_line :: "string \<Rightarrow> bool" where
  "warning_line l =
     (let t = trim l in
      if t = [] \<or> rx_test rx_no_warnings (padded t) then False
      else rx_prefix rx_warning_start t \<or> rx_test rx_compiled_warnings (padded t))"

text \<open>A line is trimmed before it is read, which takes the carriage return of a line end along.\<close>

definition containsActionableWarning :: "string \<Rightarrow> bool" where
  "containsActionableWarning out = list_ex warning_line (split_on CHR 0x0A out)"

definition check_result_of :: "check_declaration \<Rightarrow> check_outcome \<Rightarrow> int \<Rightarrow> int option \<Rightarrow> string \<Rightarrow> int option \<Rightarrow> check_result" where
  "check_result_of c oc ms e at lim =
     \<lparr>cr_checkId = cd_id c, cr_intent = cd_intent c, cr_description = cd_description c, cr_command = cd_command c,
      cr_workingDirectory = cd_workingDirectory c, cr_outcome = oc, cr_duration = ms, cr_exitCode = e, cr_startedAt = at,
      cr_required = cd_required c, cr_advisoryRepairLimit = lim\<rparr>"

definition coverage_outcome :: "check_outcome \<Rightarrow> check_outcome" where
  "coverage_outcome k = (if k = passed then passed else if k = advisory then advisory else coverage_unavailable)"

text \<open>The outcome of a child process that ran: exit status, empty selection, warnings, coverage report.\<close>

definition completed_outcome :: "check_declaration \<Rightarrow> execution_facts \<Rightarrow> check_outcome" where
  "completed_outcome c x =
     (let out = combined_output x;
          warning = (cd_intent c = in_build \<or> cd_intent c = in_lint) \<and> containsActionableWarning out;
          oc = classifyOutcome (ex_status x) False False False
            (cd_intent c = in_test \<and> ex_status x = Some 0 \<and> detectsZeroTestSelection out);
          oc' = (if warning \<and> oc = passed then failed else oc)
      in if oc' = passed \<and> cd_intent c = in_coverage \<and> cd_coverage c \<noteq> None then coverage_outcome (ex_coverage x) else oc')"

definition advisory_limit :: "check_declaration \<Rightarrow> execution_facts \<Rightarrow> int option" where
  "advisory_limit c x =
     (case cd_coverage c of
        None \<Rightarrow> None
      | Some cv \<Rightarrow>
          if cd_intent c = in_coverage \<and> completed_outcome c x = advisory then Some (cv_improvementAttempts cv) else None)"

definition run_check :: "check_declaration \<Rightarrow> execution_facts \<Rightarrow> check_result" where
  "run_check c x =
     (if \<not> ex_directory x then
        check_result_of c (if cd_intent c = in_coverage then coverage_unavailable else policy_blocked) 0 None (ex_startedAt x) None
      else (case ex_error x of
          None \<Rightarrow> check_result_of c (normalizeCoverageOutcome (cd_intent c) (completed_outcome c x)) (ex_duration x) (ex_status x)
            (ex_startedAt x) (advisory_limit c x)
        | Some code \<Rightarrow>
            if code = ''ETIMEDOUT'' \<or> ex_signalled x then
              check_result_of c (normalizeCoverageOutcome (cd_intent c) timed_out) (ex_duration x) None (ex_startedAt x) None
            else if code = ''ENOENT'' then
              check_result_of c (normalizeCoverageOutcome (cd_intent c) policy_blocked) (ex_duration x) None (ex_startedAt x) None
            else
              check_result_of c (normalizeCoverageOutcome (cd_intent c) failed) (ex_duration x)
                (Some (case ex_status x of None \<Rightarrow> 1 | Some n \<Rightarrow> n)) (ex_startedAt x) None))"

text \<open>\<open>facts n\<close> are the facts of the check that is started after \<open>n\<close> others.\<close>

fun run_checks :: "(nat \<Rightarrow> execution_facts) \<Rightarrow> check_result list \<Rightarrow> check_declaration list \<Rightarrow> check_result list" where
  "run_checks facts rs [] = rs"
| "run_checks facts rs (c # cs) =
     (let rs' = rs @ [run_check c (facts (length rs))]
      in if shouldSuppressNextRequiredCheck rs' then rs' else run_checks facts rs' cs)"

definition issue_kind_text :: "issue_kind \<Rightarrow> string" where
  "issue_kind_text k =
     (case k of
        missing_file \<Rightarrow> ''missing-file'' | invalid_yaml \<Rightarrow> ''invalid-yaml'' | missing_checks \<Rightarrow> ''missing-checks''
      | zero_checks \<Rightarrow> ''zero-checks'' | duplicate_check_id \<Rightarrow> ''duplicate-check-id'' | invalid_intent \<Rightarrow> ''invalid-intent''
      | missing_required_intent \<Rightarrow> ''missing-required-intent'' | unsafe_command_type \<Rightarrow> ''unsafe-command-type''
      | unsafe_working_directory \<Rightarrow> ''unsafe-working-directory'' | invalid_run_stage \<Rightarrow> ''invalid-run-stage''
      | invalid_coverage_contract \<Rightarrow> ''invalid-coverage-contract'' | policy_blocked_issue \<Rightarrow> ''policy-blocked''
      | timeout_too_low \<Rightarrow> ''timeout-too-low'')"

definition runFinalVerification ::
  "(jsv \<Rightarrow> string) \<Rightarrow> string \<Rightarrow> profile_source \<Rightarrow> checkpoint_kind option \<Rightarrow> (nat \<Rightarrow> execution_facts) \<Rightarrow> string \<Rightarrow> aggregate_result" where
  "runFinalVerification txt path src kind facts startedAt =
     (case loadVerificationProfile txt path src of
        Invalid_profile is \<Rightarrow>
          \<lparr>ar_status = ag_blocked, ar_failedRequiredChecks = [],
           ar_blockedReason = Some (case is of [] \<Rightarrow> ''Unknown profile validation error''
             | i # _ \<Rightarrow> issue_kind_text (is_kind i) @ '': '' @ is_message i),
           ar_persistenceWarning = None, ar_checks = [], ar_duration = 0, ar_startedAt = startedAt\<rparr>
      | Valid_profile p \<Rightarrow>
          buildAggregateResult
            (run_checks facts [] (selectChecksForCheckpoint (vp_checks p)
               (case kind of None \<Rightarrow> at_final_checkpoint | Some k \<Rightarrow> k)))
            startedAt None)"

definition phase_role_checkpoint :: "string option \<Rightarrow> checkpoint_kind" where
  "phase_role_checkpoint role = (if role = None \<or> role = Some ''final_checkpoint'' then at_final_checkpoint else at_phase)"

end
