(* ===== verification/VerificationFacts.thy ===== *)
theory VerificationFacts
  imports FinalVerification
begin

text \<open>
  Facts of the final verification. The loader accepts exactly well-formed profiles, the status of an aggregate is
  characterised by the required results, and a passed run is one whose required gates all held.
\<close>

section \<open>Text\<close>

lemma trim_slashes [simp]: "trim (forward_slashes s) = forward_slashes (trim s)"
  unfolding forward_slashes_def by (rule trim_map) (simp add: is_ws_def code_of_def)

lemma slashes_slashes [simp]: "forward_slashes (forward_slashes s) = forward_slashes s"
  by (simp add: forward_slashes_def)

lemma slashes_Nil [simp]: "forward_slashes s = [] \<longleftrightarrow> s = []"
  by (simp add: forward_slashes_def)

section \<open>Well-formed profiles\<close>

text \<open>A path as the loader leaves it: trimmed, with forward slashes only.\<close>

definition clean_path :: "string \<Rightarrow> bool" where
  "clean_path s \<longleftrightarrow> s \<noteq> [] \<and> forward_slashes (trim s) = s"

definition coverage_ok :: "coverage_declaration \<Rightarrow> bool" where
  "coverage_ok c \<longleftrightarrow>
     clean_path (cv_reportPath c) \<and> \<not> isAbsolute (cv_reportPath c) \<and> ''..'' \<notin> set (split_on CHR ''/'' (cv_reportPath c))
     \<and> cv_include c \<noteq> [] \<and> list_all clean_path (cv_include c) \<and> list_all clean_path (cv_exclude c)
     \<and> num_finite (cv_minimumPercent c) \<and> num_finite (cv_targetPercent c)
     \<and> 0 \<le> cv_improvementAttempts c \<and> cv_improvementAttempts c \<le> 7
     \<and> \<not> num_less (cv_minimumPercent c) (JInt 0) \<and> \<not> num_less (JInt 100) (cv_minimumPercent c)
     \<and> \<not> num_less (cv_targetPercent c) (cv_minimumPercent c) \<and> \<not> num_less (JInt 100) (cv_targetPercent c)"

definition check_ok :: "check_declaration \<Rightarrow> bool" where
  "check_ok c \<longleftrightarrow>
     cd_id c \<noteq> [] \<and> trim (cd_id c) = cd_id c \<and> cd_command c \<noteq> []
     \<and> trim (cd_workingDirectory c) = cd_workingDirectory c \<and> \<not> isAbsolute (cd_workingDirectory c)
     \<and> num_finite (cd_timeout c) \<and> \<not> num_less (cd_timeout c) (JInt MIN_TIMEOUT_MS)
     \<and> (cd_coverage c \<noteq> None \<longleftrightarrow> cd_intent c = in_coverage) \<and> pred_option coverage_ok (cd_coverage c)"

definition profile_ok :: "verification_profile \<Rightarrow> bool" where
  "profile_ok p \<longleftrightarrow>
     list_all check_ok (vp_checks p) \<and> detectDuplicateCheckIds (vp_checks p) = [] \<and> findMissingRequiredIntents (vp_checks p) = []"

text \<open>The document a profile stands for.\<close>

definition put_strings :: "string list \<Rightarrow> jsv" where
  "put_strings ss = JArr (map JStr ss)"

definition put_coverage :: "coverage_declaration \<Rightarrow> jsv" where
  "put_coverage c = JObj
     [(''reportPath'', JStr (cv_reportPath c)), (''format'', JStr ''lcov''), (''include'', put_strings (cv_include c)),
      (''exclude'', put_strings (cv_exclude c)), (''minimumPercent'', JNum (cv_minimumPercent c)),
      (''targetPercent'', JNum (cv_targetPercent c)), (''improvementAttempts'', JNum (JInt (cv_improvementAttempts c)))]"

definition put_stage :: "run_stage \<Rightarrow> jsv" where
  "put_stage s = JStr (case s of run_always \<Rightarrow> ''always'' | run_final_checkpoint \<Rightarrow> ''final_checkpoint'')"

definition put_check :: "check_declaration \<Rightarrow> jsv" where
  "put_check c = JObj
     ([(''id'', JStr (cd_id c)), (''description'', JStr (cd_description c)), (''intent'', JStr (intent_text (cd_intent c))),
       (''command'', put_strings (cd_command c)), (''workingDirectory'', JStr (cd_workingDirectory c)),
       (''timeout'', JNum (cd_timeout c)), (''required'', JBool (cd_required c)), (''runAt'', put_stage (cd_runAt c))]
      @ opt_prop ''coverage'' put_coverage (cd_coverage c))"

definition put_profile :: "verification_profile \<Rightarrow> jsv" where
  "put_profile p = JObj
     [(''version'', JStr (vp_version p)), (''description'', JStr (vp_description p)), (''checks'', JArr (map put_check (vp_checks p)))]"

section \<open>The loader accepts well-formed profiles only\<close>

lemma readStringArray_ok: "readStringArray v = Some ss \<Longrightarrow> list_all clean_path ss"
proof -
  assume "readStringArray v = Some ss"
  then obtain xs where p: "parse_all (\<lambda>x. map_option (\<lambda>s. forward_slashes (trim s)) (string_where (\<lambda>s. trim s \<noteq> []) x)) xs = Some ss"
    by (cases v) (auto simp: readStringArray_def)
  have "\<forall>y\<in>set ss. clean_path y"
    by (rule parse_all_inv [OF p]) (auto simp: clean_path_def)
  then show ?thesis by (simp add: list_all_iff)
qed

lemma finite_number_Some: "finite_number v = Some n \<longleftrightarrow> v = JNum n \<and> num_finite n"
  by (cases v) (auto simp: finite_number_def)

lemma coverage_of_ok: "coverage_of v = Some c \<Longrightarrow> coverage_ok c"
  unfolding coverage_of_def Let_def
  by (auto simp: coverage_ok_def finite_number_Some clean_path_def Option.bind_eq_Some_conv list_all_iff
        dest!: readStringArray_ok split: if_splits jsv.splits)

lemma readCoverage_ok: "readCoverageDeclaration raw i = Inr c \<Longrightarrow> coverage_ok c"
  by (auto simp: readCoverageDeclaration_def dest: coverage_of_ok split: if_splits option.splits)

lemma entry_command_ok: "entry_command i e = Inr cmd \<Longrightarrow> cmd \<noteq> []"
  by (auto simp: entry_command_def dest: parse_all_length split: jsv.splits list.splits option.splits)

lemma trim_dot: "trim ''.'' = ''.''" "\<not> isAbsolute ''.''"
  by code_simp+

lemma entry_directory_ok: "entry_directory i e = Inr d \<Longrightarrow> trim d = d \<and> \<not> isAbsolute d"
  by (auto simp: entry_directory_def Let_def trim_dot split: jsv.splits if_splits)

lemma entry_timeout_ok: "entry_timeout txt i e = Inr t \<Longrightarrow> num_finite t \<and> \<not> num_less t (JInt MIN_TIMEOUT_MS)"
  by (auto simp: entry_timeout_def Let_def finite_number_Some split: option.splits if_splits)

lemma entry_coverage_ok:
  "entry_coverage i k e = Inr cv \<Longrightarrow> (cv \<noteq> None \<longleftrightarrow> k = in_coverage) \<and> pred_option coverage_ok cv"
  by (auto simp: entry_coverage_def dest: readCoverage_ok split: if_splits sum.splits)

lemma declaration_ok:
  assumes "declaration_of txt i e = Inr c" and "i \<noteq> []" and "trim i = i"
  shows "check_ok c" and "cd_id c = i"
proof -
  obtain k cmd d t st cv where parts: "entry_command i e = Inr cmd" "entry_directory i e = Inr d"
      "entry_timeout txt i e = Inr t" "entry_coverage i k e = Inr cv"
    and c: "c = \<lparr>cd_id = i, cd_description = string_or [] (jget e ''description''), cd_intent = k, cd_command = cmd,
         cd_workingDirectory = d, cd_timeout = t, cd_required = (jget e ''required'' = JBool True), cd_runAt = st, cd_coverage = cv\<rparr>"
    using assms(1) unfolding declaration_of_def by (auto split: sum.splits)
  from c show "cd_id c = i" by simp
  show "check_ok c"
    using entry_command_ok [OF parts(1)] entry_directory_ok [OF parts(2)] entry_timeout_ok [OF parts(3)]
      entry_coverage_ok [OF parts(4)] assms(2,3)
    by (simp add: c check_ok_def)
qed

text \<open>The state of the loop.\<close>

definition load_ok :: "load_state \<Rightarrow> bool" where
  "load_ok s \<longleftrightarrow> list_all check_ok (ls_checks s) \<and> distinct (map cd_id (ls_checks s))
     \<and> set (map cd_id (ls_checks s)) \<subseteq> set (ls_seen s)"

lemma load_entry_ok: "load_ok s \<Longrightarrow> load_ok (load_entry txt s ie)"
proof -
  assume s: "load_ok s"
  show ?thesis
  proof (cases "js_object (snd ie) \<and> (\<exists>i. entry_id (snd ie) = Some i \<and> i \<notin> set (ls_seen s))")
    case True
    then obtain i where i: "js_object (snd ie)" "entry_id (snd ie) = Some i" "i \<notin> set (ls_seen s)" by blast
    then have id: "i \<noteq> []" "trim i = i" by (auto simp: entry_id_def split: jsv.splits if_splits)
    show ?thesis
    proof (cases "declaration_of txt i (snd ie)")
      case (Inl errs)
      with s i show ?thesis by (auto simp: load_entry_def load_ok_def Let_def)
    next
      case (Inr c)
      from declaration_ok [OF Inr id] s i Inr show ?thesis by (auto simp: load_entry_def load_ok_def Let_def)
    qed
  next
    case False
    with s show ?thesis by (auto simp: load_entry_def load_ok_def Let_def split: option.splits)
  qed
qed

lemma load_entries_ok: "load_ok (load_entries txt es)"
proof -
  have "load_ok s \<Longrightarrow> load_ok (foldl (load_entry txt) s xs)" for s xs
    by (induction xs arbitrary: s) (auto simp: load_entry_ok)
  then show ?thesis by (simp add: load_entries_def load_ok_def)
qed

lemma duplicates_from_Nil:
  "duplicates_from seen cs = [] \<longleftrightarrow> distinct (map cd_id cs) \<and> set (map cd_id cs) \<inter> set seen = {}"
  by (induction cs arbitrary: seen) auto

lemma no_duplicates: "detectDuplicateCheckIds cs = [] \<longleftrightarrow> distinct (map cd_id cs)"
  by (simp add: detectDuplicateCheckIds_def duplicates_from_Nil)

lemma load_checks_ok: "load_checks txt doc es = Valid_profile p \<Longrightarrow> profile_ok p"
  using load_entries_ok [of _ es]
  by (auto simp: load_checks_def Let_def profile_ok_def load_ok_def no_duplicates split: if_splits)

lemma load_ok_profile: "loadVerificationProfile txt path src = Valid_profile p \<Longrightarrow> profile_ok p"
  by (auto simp: loadVerificationProfile_def dest: load_checks_ok
      split: profile_source.splits if_splits jsv.splits list.splits)


section \<open>The loader reads back every well-formed profile\<close>

lemma parse_paths:
  "list_all clean_path ss \<Longrightarrow>
     parse_all (\<lambda>x. map_option (\<lambda>s. forward_slashes (trim s)) (string_where (\<lambda>s. trim s \<noteq> []) x)) (map JStr ss) = Some ss"
proof (rule parse_all_map)
  fix s assume "list_all clean_path ss" "s \<in> set ss"
  then have "s \<noteq> []" "forward_slashes (trim s) = s" by (auto simp: list_all_iff clean_path_def)
  moreover from this have "trim s \<noteq> []" by (metis slashes_Nil)
  ultimately show "map_option (\<lambda>s. forward_slashes (trim s)) (string_where (\<lambda>s. trim s \<noteq> []) (JStr s)) = Some s"
    by (simp add: string_where_def)
qed

lemma readStringArray_put: "list_all clean_path ss \<Longrightarrow> readStringArray (put_strings ss) = Some ss"
  by (simp add: readStringArray_def put_strings_def parse_paths)

lemma coverage_of_put: "coverage_ok c \<Longrightarrow> coverage_of (put_coverage c) = Some c"
  by (simp add: coverage_of_def put_coverage_def coverage_ok_def clean_path_def Let_def improvement_attempts_def
      finite_number_def readStringArray_put, simp add: put_strings_def)

lemma entry_intent_put: "jget e ''intent'' = JStr (intent_text k) \<Longrightarrow> entry_intent txt i e = Inr k"
proof -
  have "map_of VALID_INTENTS (toLowerCase (intent_text k)) = Some k" by (induction k; code_simp)
  then show "jget e ''intent'' = JStr (intent_text k) \<Longrightarrow> entry_intent txt i e = Inr k" by (simp add: entry_intent_def)
qed

lemma entry_command_put: "jget e ''command'' = put_strings cmd \<Longrightarrow> cmd \<noteq> [] \<Longrightarrow> entry_command i e = Inr cmd"
proof -
  assume e: "jget e ''command'' = put_strings cmd" and ne: "cmd \<noteq> []"
  have "parse_all as_string (map JStr cmd) = Some cmd" by (rule parse_all_map) simp
  with e ne show ?thesis by (cases cmd) (auto simp: entry_command_def put_strings_def)
qed

lemma entry_stage_put: "jget e ''runAt'' = put_stage st \<Longrightarrow> entry_stage i e = Inr st"
  by (cases st) (auto simp: entry_stage_def put_stage_def)

lemma not_less_positive: "\<not> num_less t (JInt MIN_TIMEOUT_MS) \<Longrightarrow> num_finite t \<Longrightarrow> num_less (JInt 0) t"
proof (cases t)
  case (JFrac m e)
  assume "\<not> num_less t (JInt MIN_TIMEOUT_MS)"
  with JFrac have "10000 * 2 ^ e \<le> m" by (simp add: MIN_TIMEOUT_MS_def)
  moreover have "(0::int) < 10000 * 2 ^ e" by simp
  ultimately have "0 < m" by linarith
  with JFrac show ?thesis by simp
qed (auto simp: MIN_TIMEOUT_MS_def)

lemma put_check_get:
  "jget (put_check c) ''id'' = JStr (cd_id c)" "jget (put_check c) ''description'' = JStr (cd_description c)"
  "jget (put_check c) ''intent'' = JStr (intent_text (cd_intent c))" "jget (put_check c) ''command'' = put_strings (cd_command c)"
  "jget (put_check c) ''workingDirectory'' = JStr (cd_workingDirectory c)" "jget (put_check c) ''timeout'' = JNum (cd_timeout c)"
  "jget (put_check c) ''required'' = JBool (cd_required c)" "jget (put_check c) ''runAt'' = put_stage (cd_runAt c)"
  "jget (put_check c) ''coverage'' = (case cd_coverage c of None \<Rightarrow> JUndef | Some v \<Rightarrow> put_coverage v)"
  by (simp_all add: put_check_def opt_prop_def split: option.splits)

lemma entry_coverage_put:
  assumes "check_ok c"
  shows "entry_coverage i (cd_intent c) (put_check c) = Inr (cd_coverage c)"
proof (cases "cd_coverage c")
  case None
  with assms show ?thesis by (simp add: check_ok_def entry_coverage_def put_check_get)
next
  case (Some v)
  with assms have "coverage_ok v" "cd_intent c = in_coverage" by (auto simp: check_ok_def)
  moreover have "isRecord (put_coverage v)" by (simp add: put_coverage_def)
  ultimately show ?thesis
    using Some by (simp add: entry_coverage_def readCoverageDeclaration_def put_check_get coverage_of_put)
qed

lemma declaration_put:
  assumes "check_ok c"
  shows "declaration_of txt (cd_id c) (put_check c) = Inr c"
proof -
  let ?e = "put_check c" and ?i = "cd_id c"
  from assms have "entry_directory ?i ?e = Inr (cd_workingDirectory c)"
    by (simp add: check_ok_def entry_directory_def put_check_get)
  moreover from assms have "entry_timeout txt ?i ?e = Inr (cd_timeout c)"
    by (simp add: check_ok_def entry_timeout_def put_check_get finite_number_def not_less_positive)
  ultimately show ?thesis
    using assms by (simp add: declaration_of_def entry_intent_put entry_command_put entry_stage_put entry_coverage_put
        put_check_get string_or_def check_ok_def)
qed

lemma load_entry_put:
  assumes "check_ok c" and "cd_id c \<notin> set (ls_seen s)"
  shows "load_entry txt s (n, put_check c) = s\<lparr>ls_seen := cd_id c # ls_seen s, ls_checks := ls_checks s @ [c]\<rparr>"
proof -
  have "js_object (put_check c)" by (simp add: js_object_def put_check_def)
  moreover from assms have "entry_id (put_check c) = Some (cd_id c)" by (simp add: entry_id_def put_check_get check_ok_def)
  ultimately show ?thesis using assms by (simp add: load_entry_def declaration_put Let_def)
qed

lemma load_entries_put:
  assumes "list_all check_ok cs" and "distinct (map cd_id cs)"
  shows "load_entries txt (map put_check cs) = \<lparr>ls_seen = rev (map cd_id cs), ls_issues = [], ls_checks = cs\<rparr>"
proof -
  have "length ns = length cs \<Longrightarrow> list_all check_ok cs \<Longrightarrow> distinct (map cd_id cs) \<Longrightarrow> set (map cd_id cs) \<inter> set (ls_seen s) = {}
      \<Longrightarrow> foldl (load_entry txt) s (zip ns (map put_check cs))
        = s\<lparr>ls_seen := rev (map cd_id cs) @ ls_seen s, ls_checks := ls_checks s @ cs\<rparr>" for ns s
  proof (induction cs arbitrary: ns s)
    case (Cons c cs)
    then obtain m ms where "ns = m # ms" by (cases ns) auto
    with Cons show ?case by (simp add: load_entry_put)
  qed simp
  from this [of "[0..<length cs]" "\<lparr>ls_seen = [], ls_issues = [], ls_checks = []\<rparr>"] assms show ?thesis
    by (simp add: load_entries_def)
qed

lemma load_put_profile:
  assumes "profile_ok p"
  shows "loadVerificationProfile txt path (Document (put_profile p)) = Valid_profile p"
proof -
  from assms have ok: "list_all check_ok (vp_checks p)" "distinct (map cd_id (vp_checks p))"
      and covered: "findMissingRequiredIntents (vp_checks p) = []"
    by (simp_all add: profile_ok_def no_duplicates)
  have "findMissingRequiredIntents [] \<noteq> []" by (simp add: findMissingRequiredIntents_def REQUIRED_VERIFICATION_INTENTS_def)
  with covered obtain c cs where ne: "vp_checks p = c # cs" by (cases "vp_checks p") auto
  have "load_checks txt (put_profile p) (map put_check (vp_checks p)) = Valid_profile p"
    using covered by (simp add: load_checks_def load_entries_put [OF ok] put_profile_def string_or_def)
  then show ?thesis
    using ne by (simp add: loadVerificationProfile_def js_object_def put_profile_def)
qed

section \<open>The status of an aggregate\<close>

lemma status_cases:
  "computeAggregateStatus rs = ag_passed \<longleftrightarrow> list_ex cr_required rs \<and> \<not> shouldSuppressNextRequiredCheck rs"
  "computeAggregateStatus rs = ag_skipped \<longleftrightarrow> \<not> list_ex cr_required rs"
  "computeAggregateStatus rs = ag_failed \<or> computeAggregateStatus rs = ag_blocked \<longleftrightarrow> shouldSuppressNextRequiredCheck rs"
proof -
  have out: "isSuccessfulOutcome oc \<longleftrightarrow> oc \<notin> {policy_blocked, timed_out, failed, zero_selection, skipped}" for oc
    by (cases oc) (auto simp: isSuccessfulOutcome_def)
  have none: "length (filter cr_required rs) = 0 \<longleftrightarrow> \<not> list_ex cr_required rs"
    by (auto simp: filter_empty_conv list_ex_iff)
  show "computeAggregateStatus rs = ag_passed \<longleftrightarrow> list_ex cr_required rs \<and> \<not> shouldSuppressNextRequiredCheck rs"
    "computeAggregateStatus rs = ag_skipped \<longleftrightarrow> \<not> list_ex cr_required rs"
    "computeAggregateStatus rs = ag_failed \<or> computeAggregateStatus rs = ag_blocked \<longleftrightarrow> shouldSuppressNextRequiredCheck rs"
    unfolding computeAggregateStatus_def shouldSuppressNextRequiredCheck_def none by (auto simp: out list_ex_iff)
qed

lemma blocking_text_iff: "blocking_text r \<noteq> None \<longleftrightarrow> cr_required r \<and> \<not> isSuccessfulOutcome (cr_outcome r)"
  by (cases "cr_outcome r") (auto simp: Let_def isSuccessfulOutcome_def)

declare blocking_text.simps [simp del]

lemma blocked_reason_iff: "getBlockedReason rs (computeAggregateStatus rs) \<noteq> None \<longleftrightarrow> shouldSuppressNextRequiredCheck rs"
proof -
  have "(case List.map_filter blocking_text rs of [] \<Rightarrow> None | u # _ \<Rightarrow> Some u) \<noteq> None
      \<longleftrightarrow> list_ex (\<lambda>r. blocking_text r \<noteq> None) rs"
    by (induction rs) (auto simp: List.map_filter_simps split: option.splits)
  then have "(case List.map_filter blocking_text rs of [] \<Rightarrow> None | u # _ \<Rightarrow> Some u) \<noteq> None
      \<longleftrightarrow> shouldSuppressNextRequiredCheck rs"
    by (simp only: blocking_text_iff shouldSuppressNextRequiredCheck_def)
  then show ?thesis
    using status_cases(3) [of rs] by (cases "computeAggregateStatus rs") (simp_all add: getBlockedReason_def)
qed

lemma failed_ids_Nil: "getFailedRequiredCheckIds rs = [] \<longleftrightarrow> \<not> shouldSuppressNextRequiredCheck rs"
  by (auto simp: getFailedRequiredCheckIds_def shouldSuppressNextRequiredCheck_def filter_empty_conv list_ex_iff)

section \<open>The serial run\<close>

text \<open>The executable gate of a check held: it ran to exit code zero, with tests selected and without warnings.\<close>

definition gate_held :: "check_declaration \<Rightarrow> execution_facts \<Rightarrow> bool" where
  "gate_held c x \<longleftrightarrow>
     ex_directory x \<and> ex_error x = None \<and> ex_status x = Some 0
     \<and> \<not> (cd_intent c = in_test \<and> detectsZeroTestSelection (combined_output x))
     \<and> \<not> ((cd_intent c = in_build \<or> cd_intent c = in_lint) \<and> containsActionableWarning (combined_output x))"

lemma check_result_of_sel [simp]:
  "cr_checkId (check_result_of c oc ms e at lim) = cd_id c" "cr_required (check_result_of c oc ms e at lim) = cd_required c"
  "cr_outcome (check_result_of c oc ms e at lim) = oc"
  by (simp_all add: check_result_of_def)

lemma run_check_fields [simp]: "cr_checkId (run_check c x) = cd_id c" "cr_required (run_check c x) = cd_required c"
  by (auto simp: run_check_def split: option.splits)

lemma completed_success:
  "cd_intent c \<noteq> in_coverage \<Longrightarrow> isSuccessfulOutcome (completed_outcome c x) \<longleftrightarrow>
     ex_status x = Some 0
     \<and> \<not> (cd_intent c = in_test \<and> detectsZeroTestSelection (combined_output x))
     \<and> \<not> ((cd_intent c = in_build \<or> cd_intent c = in_lint) \<and> containsActionableWarning (combined_output x))"
  by (cases "cd_intent c") (auto simp: completed_outcome_def classifyOutcome_def isSuccessfulOutcome_def Let_def)

lemma run_check_success:
  "isSuccessfulOutcome (cr_outcome (run_check c x)) \<longleftrightarrow> cd_intent c = in_coverage \<or> gate_held c x"
proof (cases "cd_intent c = in_coverage")
  case True
  then show ?thesis
    by (auto simp: run_check_def isSuccessfulOutcome_def normalizeCoverageOutcome_def split: option.splits)
next
  case False
  then have n: "normalizeCoverageOutcome (cd_intent c) oc = oc" for oc by (simp add: normalizeCoverageOutcome_def)
  have bad: "\<not> isSuccessfulOutcome policy_blocked" "\<not> isSuccessfulOutcome timed_out" "\<not> isSuccessfulOutcome failed"
    by (simp_all add: isSuccessfulOutcome_def)
  show ?thesis
    using False by (cases "ex_error x") (auto simp: run_check_def n bad gate_held_def completed_success)
qed

definition stops :: "check_declaration \<Rightarrow> execution_facts \<Rightarrow> bool" where
  "stops c x \<longleftrightarrow> cd_required c \<and> cd_intent c \<noteq> in_coverage \<and> \<not> gate_held c x"

text \<open>The loop runs the checks in order up to the first required gate that does not hold.\<close>

definition results_upto :: "(nat \<Rightarrow> execution_facts) \<Rightarrow> check_declaration list \<Rightarrow> nat \<Rightarrow> check_result list" where
  "results_upto facts cs n = map (\<lambda>i. run_check (cs ! i) (facts i)) [0..<n]"

lemma suppress_snoc:
  "shouldSuppressNextRequiredCheck (rs @ [run_check c x]) \<longleftrightarrow> shouldSuppressNextRequiredCheck rs \<or> stops c x"
  by (auto simp: shouldSuppressNextRequiredCheck_def stops_def run_check_success)

lemma run_checks_general:
  assumes "rs = results_upto facts cs n" and "n \<le> length cs" and "\<forall>i<n. \<not> stops (cs ! i) (facts i)"
  shows "\<exists>m. m \<le> length cs \<and> run_checks facts rs (drop n cs) = results_upto facts cs m \<and>
     (m = length cs \<and> (\<forall>i<m. \<not> stops (cs ! i) (facts i)) \<or>
      (\<exists>k. m = Suc k \<and> stops (cs ! k) (facts k) \<and> (\<forall>i<k. \<not> stops (cs ! i) (facts i))))"
  using assms
proof (induction "length cs - n" arbitrary: n rs)
  case 0
  then have "n = length cs" by simp
  with "0.prems" show ?case by (intro exI [of _ n]) simp
next
  case (Suc d)
  then have n: "n < length cs" by simp
  then have d: "drop n cs = cs ! n # drop (Suc n) cs" by (simp add: Cons_nth_drop_Suc)
  let ?rs = "rs @ [run_check (cs ! n) (facts (length rs))]"
  have len: "length rs = n" by (simp add: Suc.prems(1) results_upto_def)
  have next_rs: "?rs = results_upto facts cs (Suc n)" by (simp add: len, simp add: Suc.prems(1) results_upto_def)
  have clean: "\<not> shouldSuppressNextRequiredCheck rs"
    using Suc.prems(3)
    by (auto simp: Suc.prems(1) results_upto_def shouldSuppressNextRequiredCheck_def list_ex_iff stops_def run_check_success)
  then have stop: "shouldSuppressNextRequiredCheck ?rs \<longleftrightarrow> stops (cs ! n) (facts n)" by (simp add: suppress_snoc len)
  show ?case
  proof (cases "stops (cs ! n) (facts n)")
    case True
    then have "run_checks facts rs (drop n cs) = results_upto facts cs (Suc n)"
      using stop by (simp only: d run_checks.simps Let_def if_True flip: next_rs)
    with True Suc.prems(3) n show ?thesis by (intro exI [of _ "Suc n"]) auto
  next
    case False
    then have step: "run_checks facts rs (drop n cs) = run_checks facts ?rs (drop (Suc n) cs)"
      by (simp only: d run_checks.simps Let_def stop if_False)
    have "d = length cs - Suc n" using Suc.hyps(2) by simp
    moreover have "Suc n \<le> length cs" using n by simp
    moreover have "\<forall>i<Suc n. \<not> stops (cs ! i) (facts i)" using Suc.prems(3) False by (simp add: less_Suc_eq)
    ultimately show ?thesis unfolding step using Suc.hyps(1) [OF _ next_rs] by simp
  qed
qed

lemma run_checks_result:
  "\<exists>m. m \<le> length cs \<and> run_checks facts [] cs = results_upto facts cs m \<and>
     (m = length cs \<and> (\<forall>i<m. \<not> stops (cs ! i) (facts i)) \<or>
      (\<exists>k. m = Suc k \<and> stops (cs ! k) (facts k) \<and> (\<forall>i<k. \<not> stops (cs ! i) (facts i))))"
  using run_checks_general [of "[]" facts cs 0] by (simp add: results_upto_def)

lemma suppress_results:
  "shouldSuppressNextRequiredCheck (results_upto facts cs m) \<longleftrightarrow> (\<exists>i<m. stops (cs ! i) (facts i))"
  by (auto simp: results_upto_def shouldSuppressNextRequiredCheck_def list_ex_iff stops_def run_check_success)

lemma run_suppressed: "shouldSuppressNextRequiredCheck (run_checks facts [] cs) \<longleftrightarrow> (\<exists>i<length cs. stops (cs ! i) (facts i))"
proof -
  obtain m where m: "m \<le> length cs" "run_checks facts [] cs = results_upto facts cs m"
    "m = length cs \<and> (\<forall>i<m. \<not> stops (cs ! i) (facts i)) \<or> (\<exists>k. m = Suc k \<and> stops (cs ! k) (facts k))"
    using run_checks_result [of cs facts] by blast
  then show ?thesis unfolding m(2) suppress_results by (auto intro: less_le_trans)
qed

lemma run_required: "list_ex cr_required (run_checks facts [] cs) \<longleftrightarrow> list_ex cd_required cs"
proof -
  obtain m where m: "m \<le> length cs" "run_checks facts [] cs = results_upto facts cs m"
    "m = length cs \<or> (\<exists>k. m = Suc k \<and> stops (cs ! k) (facts k))"
    using run_checks_result [of cs facts] by blast
  have r: "list_ex cr_required (results_upto facts cs m) \<longleftrightarrow> (\<exists>i<m. cd_required (cs ! i))"
    by (auto simp: results_upto_def list_ex_iff)
  show ?thesis
  proof (cases "m = length cs")
    case True
    then show ?thesis unfolding m(2) r by (simp add: list_ex_length)
  next
    case False
    with m obtain k where k: "m = Suc k" "stops (cs ! k) (facts k)" by blast
    then have "cd_required (cs ! k)" by (simp add: stops_def)
    with k m(1) have "(\<exists>i<m. cd_required (cs ! i)) \<longleftrightarrow> (\<exists>i<length cs. cd_required (cs ! i))"
      by (meson Suc_le_lessD lessI)
    then show ?thesis by (simp only: m(2) r list_ex_length [of _ cs])
  qed
qed

lemma run_status:
  "computeAggregateStatus (run_checks facts [] cs) = ag_passed \<longleftrightarrow>
     list_ex cd_required cs \<and> (\<forall>i<length cs. \<not> stops (cs ! i) (facts i))"
  by (simp add: status_cases run_required run_suppressed)

section \<open>Properties\<close>

definition checkpoint_of :: "checkpoint_kind option \<Rightarrow> checkpoint_kind" where
  "checkpoint_of kind = (case kind of None \<Rightarrow> at_final_checkpoint | Some k \<Rightarrow> k)"

lemma run_status_loaded:
  "ar_status (runFinalVerification txt path src kind facts startedAt) = ag_passed \<longleftrightarrow>
     (\<exists>p. loadVerificationProfile txt path src = Valid_profile p
        \<and> list_ex cd_required (selectChecksForCheckpoint (vp_checks p) (checkpoint_of kind))
        \<and> (\<forall>i<length (selectChecksForCheckpoint (vp_checks p) (checkpoint_of kind)).
             \<not> stops (selectChecksForCheckpoint (vp_checks p) (checkpoint_of kind) ! i) (facts i)))"
  by (cases "loadVerificationProfile txt path src")
    (auto simp: runFinalVerification_def buildAggregateResult_def Let_def run_status checkpoint_of_def split: option.splits)

text \<open>C35. The profile loader accepts exactly the well-formed profiles: what it returns has usable checks with distinct ids and
  a required check for each of build, test and lint, and the document of every such profile is read back as it is.\<close>

theorem profile_loader_exact:
  "(loadVerificationProfile txt path src = Valid_profile p \<longrightarrow> profile_ok p)
   \<and> (profile_ok p \<longrightarrow> loadVerificationProfile txt path (Document (put_profile p)) = Valid_profile p)"
  using load_ok_profile load_put_profile by blast

text \<open>C36. The status of an aggregate: passed when all required checks passed and there is one, skipped when no required check ran,
  failed or blocked, with the ids of the failed checks and a reason, when a required check has no successful outcome.\<close>

theorem aggregate_status_characterised:
  "(computeAggregateStatus rs = ag_passed \<longleftrightarrow> allRequiredChecksPassed rs \<and> list_ex cr_required rs)
   \<and> (computeAggregateStatus rs = ag_skipped \<longleftrightarrow> \<not> list_ex cr_required rs)
   \<and> (computeAggregateStatus rs \<in> {ag_failed, ag_blocked} \<longleftrightarrow> shouldSuppressNextRequiredCheck rs)
   \<and> (getFailedRequiredCheckIds rs \<noteq> [] \<longleftrightarrow> shouldSuppressNextRequiredCheck rs)
   \<and> (getBlockedReason rs (computeAggregateStatus rs) \<noteq> None \<longleftrightarrow> shouldSuppressNextRequiredCheck rs)"
proof -
  have "allRequiredChecksPassed rs \<and> list_ex cr_required rs \<longleftrightarrow> list_ex cr_required rs \<and> \<not> shouldSuppressNextRequiredCheck rs"
    by (auto simp: allRequiredChecksPassed_def shouldSuppressNextRequiredCheck_def list_all_iff list_ex_iff)
  then show ?thesis
    using status_cases [of rs] blocked_reason_iff [of rs] failed_ids_Nil [of rs] by auto
qed


text \<open>C5. A run that passes at the final checkpoint has executed a required build, a required test and a required lint check of a
  well-formed profile, each to exit code zero.\<close>

theorem final_checkpoint_gates:
  assumes "ar_status (runFinalVerification txt path src (Some at_final_checkpoint) facts startedAt) = ag_passed"
  shows "\<exists>p. loadVerificationProfile txt path src = Valid_profile p \<and> profile_ok p
     \<and> list_all (\<lambda>k. list_ex (\<lambda>i. cd_intent (vp_checks p ! i) = k \<and> cd_required (vp_checks p ! i)
             \<and> gate_held (vp_checks p ! i) (facts i)) [0..<length (vp_checks p)]) REQUIRED_VERIFICATION_INTENTS"
proof -
  have all: "selectChecksForCheckpoint cs (checkpoint_of (Some at_final_checkpoint)) = cs" for cs
    by (simp add: selectChecksForCheckpoint_def checkpoint_of_def)
  from assms obtain p where p: "loadVerificationProfile txt path src = Valid_profile p"
      and held: "\<forall>i<length (vp_checks p). \<not> stops (vp_checks p ! i) (facts i)"
    unfolding run_status_loaded all by blast
  from p have ok: "profile_ok p" by (rule load_ok_profile)
  have "list_ex (\<lambda>i. cd_intent (vp_checks p ! i) = k \<and> cd_required (vp_checks p ! i) \<and> gate_held (vp_checks p ! i) (facts i))
      [0..<length (vp_checks p)]" if k: "k \<in> set REQUIRED_VERIFICATION_INTENTS" for k
  proof -
    from ok k have "k \<in> cd_intent ` set (filter cd_required (vp_checks p))"
      by (auto simp: profile_ok_def findMissingRequiredIntents_def filter_empty_conv)
    then obtain i where "i < length (vp_checks p)" "cd_required (vp_checks p ! i)" "cd_intent (vp_checks p ! i) = k"
      by (auto simp: in_set_conv_nth)
    moreover from k have "k \<noteq> in_coverage" by (auto simp: REQUIRED_VERIFICATION_INTENTS_def)
    ultimately show ?thesis using held by (auto simp: list_ex_iff stops_def)
  qed
  with p ok show ?thesis by (auto simp: list_all_iff)
qed

section \<open>Witnesses\<close>

definition sample_check :: "string \<Rightarrow> check_intent \<Rightarrow> check_declaration" where
  "sample_check i k = \<lparr>cd_id = i, cd_description = [], cd_intent = k, cd_command = [''pnpm'', i], cd_workingDirectory = ''.'',
     cd_timeout = JInt 120000, cd_required = True, cd_runAt = run_always, cd_coverage = None\<rparr>"

definition sample_profile :: verification_profile where
  "sample_profile = \<lparr>vp_version = ''1.0'', vp_description = [],
     vp_checks = [sample_check ''build'' in_build, sample_check ''test'' in_test, sample_check ''lint'' in_lint]\<rparr>"

definition clean_facts :: "nat \<Rightarrow> execution_facts" where
  "clean_facts n = \<lparr>ex_directory = True, ex_stdout = [], ex_stderr = [], ex_status = Some 0, ex_error = None, ex_signalled = False,
     ex_coverage = passed, ex_duration = 1, ex_startedAt = []\<rparr>"

lemma sample_profile_ok: "profile_ok sample_profile"
proof -
  have "check_ok (sample_check i k)" if "trim i = i" "i \<noteq> []" "k \<noteq> in_coverage" for i k
    using that by (simp add: check_ok_def sample_check_def trim_dot MIN_TIMEOUT_MS_def)
  moreover have "trim ''build'' = ''build''" "trim ''test'' = ''test''" "trim ''lint'' = ''lint''" by code_simp+
  moreover have "detectDuplicateCheckIds (vp_checks sample_profile) = []" "findMissingRequiredIntents (vp_checks sample_profile) = []"
    by code_simp+
  ultimately show ?thesis by (simp add: profile_ok_def sample_profile_def)
qed

lemma clean_facts_hold: "gate_held c (clean_facts n)"
proof -
  have out: "combined_output (clean_facts n) = []" by (simp add: combined_output_def clean_facts_def)
  have "\<not> detectsZeroTestSelection []"
    by (simp add: detectsZeroTestSelection_def zero_selection_patterns_def padded_def rx_eval rx_spaces_def rx_edge_def word_char_def
        char_eval)
  moreover have "\<not> containsActionableWarning []" by (simp add: containsActionableWarning_def warning_line_def, code_simp)
  ultimately show ?thesis by (simp add: gate_held_def out) (simp add: clean_facts_def)
qed

theorem profile_loader_exact_witness:
  "profile_ok sample_profile
   \<and> loadVerificationProfile (\<lambda>_. []) ''p'' (Document (put_profile sample_profile)) = Valid_profile sample_profile"
  using profile_loader_exact [of "\<lambda>_. []" "''p''" "Document (put_profile sample_profile)" sample_profile] sample_profile_ok by blast

lemma sample_run_passes:
  "ar_status (runFinalVerification (\<lambda>_. []) ''p'' (Document (put_profile sample_profile)) (Some at_final_checkpoint) clean_facts [])
     = ag_passed"
  unfolding run_status_loaded
  by (rule exI [of _ sample_profile])
    (simp add: load_put_profile [OF sample_profile_ok] stops_def clean_facts_hold,
     simp add: sample_profile_def sample_check_def selectChecksForCheckpoint_def)

theorem final_checkpoint_gates_witness:
  "\<exists>p. loadVerificationProfile (\<lambda>_. []) ''p'' (Document (put_profile sample_profile)) = Valid_profile p \<and> profile_ok p
     \<and> list_all (\<lambda>k. list_ex (\<lambda>i. cd_intent (vp_checks p ! i) = k \<and> cd_required (vp_checks p ! i)
             \<and> gate_held (vp_checks p ! i) (clean_facts i)) [0..<length (vp_checks p)]) REQUIRED_VERIFICATION_INTENTS"
  by (rule final_checkpoint_gates [OF sample_run_passes])

end
