(* ===== verification/JsDate.thy ===== *)
theory JsDate
  imports JsRegex
begin

text \<open>
  Dates of the language as the guards use them: a string is a canonical timestamp when \<open>new Date(s).toISOString() === s\<close>,
  and \<open>Date.parse\<close> of such a string is a number of milliseconds. For years of four digits the order of the strings is the
  order of the instants.
\<close>

section \<open>Canonical timestamps\<close>

text \<open>
  The canonical form with milliseconds, in years 0 to 9999 with four digits and
  outside them with a sign and six, of an instant the calendar has and the language can represent.
\<close>

definition decimal_at :: "string \<Rightarrow> nat \<Rightarrow> nat \<Rightarrow> int" where
  "decimal_at s i n = foldl (\<lambda>m c. 10 * m + (int (code_of c) - 48)) 0 (take n (drop i s))"

definition ISO_TAIL_RE :: rx where
  "ISO_TAIL_RE = (let d = RCls is_digit; dd = rx_times 2 d; lit = (\<lambda>x. RCls (\<lambda>c. c = x))
     in rx_seqs [lit CHR ''-'', dd, lit CHR ''-'', dd, lit CHR ''T'', dd, lit CHR '':'', dd, lit CHR '':'', dd, lit CHR ''.'', rx_times 3 d,
          lit CHR ''Z''])"

definition month_days :: "int \<Rightarrow> int \<Rightarrow> int" where
  "month_days y m =
     (if m = 2 then (if (y mod 4 = 0 \<and> y mod 100 \<noteq> 0) \<or> y mod 400 = 0 then 29 else 28)
      else if m = 4 \<or> m = 6 \<or> m = 9 \<or> m = 11 then 30 else 31)"

definition instant_ok :: "int \<Rightarrow> string \<Rightarrow> bool" where
  "instant_ok y s \<longleftrightarrow>
     (let mo = decimal_at s 1 2; d = decimal_at s 4 2; h = decimal_at s 7 2; mi = decimal_at s 10 2; sec = decimal_at s 13 2;
          ms = decimal_at s 16 3; rest = 10000 * mo + 100 * d
      in 1 \<le> mo \<and> mo \<le> 12 \<and> 1 \<le> d \<and> d \<le> month_days y mo \<and> h < 24 \<and> mi < 60 \<and> sec < 60
         \<and> (y < 275760 \<or> (y = 275760 \<and> (rest < 91300 \<or> (rest = 91300 \<and> h = 0 \<and> mi = 0 \<and> sec = 0 \<and> ms = 0))))
         \<and> (- 271821 < y \<or> (y = - 271821 \<and> 42000 \<le> rest)))"

definition canonical_iso :: "string \<Rightarrow> bool" where
  "canonical_iso s \<longleftrightarrow>
     (case s of
        [] \<Rightarrow> False
      | c # u \<Rightarrow>
          if c = CHR ''+'' then list_all is_digit (take 6 u) \<and> rx_full ISO_TAIL_RE (drop 6 u) \<and> 10000 \<le> decimal_at u 0 6
            \<and> instant_ok (decimal_at u 0 6) (drop 6 u)
          else if c = CHR ''-'' then list_all is_digit (take 6 u) \<and> rx_full ISO_TAIL_RE (drop 6 u) \<and> 1 \<le> decimal_at u 0 6
            \<and> instant_ok (- decimal_at u 0 6) (drop 6 u)
          else list_all is_digit (take 4 s) \<and> rx_full ISO_TAIL_RE (drop 4 s) \<and> instant_ok (decimal_at s 0 4) (drop 4 s))"

section \<open>Milliseconds\<close>

text \<open>Days from the epoch to the first day of a year of the proleptic Gregorian calendar, and to the first day of a month in it.\<close>

definition days_before_year :: "int \<Rightarrow> int" where
  "days_before_year y = 365 * y + (y + 3) div 4 - (y + 99) div 100 + (y + 399) div 400 - 719528"

definition days_before_month :: "int \<Rightarrow> int \<Rightarrow> int" where
  "days_before_month y m = sum_list (map (\<lambda>k. month_days y (int k)) [1..<nat m])"

definition instant_millis :: "int \<Rightarrow> string \<Rightarrow> int" where
  "instant_millis y s =
     ((((days_before_year y + days_before_month y (decimal_at s 1 2) + decimal_at s 4 2 - 1) * 24 + decimal_at s 7 2) * 60
        + decimal_at s 10 2) * 60 + decimal_at s 13 2) * 1000 + decimal_at s 16 3"

definition date_parse :: "string \<Rightarrow> int" where
  "date_parse s =
     (case s of
        [] \<Rightarrow> 0
      | c # u \<Rightarrow>
          if c = CHR ''+'' then instant_millis (decimal_at u 0 6) (drop 6 u)
          else if c = CHR ''-'' then instant_millis (- decimal_at u 0 6) (drop 6 u)
          else instant_millis (decimal_at s 0 4) (drop 4 s))"

section \<open>The order of the strings\<close>

text \<open>A canonical timestamp with a year of four digits.\<close>

definition common_era :: "string \<Rightarrow> bool" where
  "common_era s \<longleftrightarrow> canonical_iso s \<and> hd s \<noteq> CHR ''+'' \<and> hd s \<noteq> CHR ''-''"

lemma str_less_append:
  "length a = length b \<Longrightarrow> str_less (a @ s) (b @ t) \<longleftrightarrow> str_less a b \<or> (a = b \<and> str_less s t)"
  by (induction a b rule: list_induct2) auto

definition decimal_text :: "string \<Rightarrow> int" where
  "decimal_text s = foldl (\<lambda>m c. 10 * m + (int (code_of c) - 48)) 0 s"

lemma decimal_text_snoc [simp]: "decimal_text (s @ [c]) = 10 * decimal_text s + (int (code_of c) - 48)"
  by (simp add: decimal_text_def)

lemma digit_code: "is_digit c \<Longrightarrow> 48 \<le> code_of c \<and> code_of c \<le> 57"
  by (simp add: char_eval code_of_def)

lemma str_less_snoc:
  "length a = length b \<Longrightarrow> str_less (a @ [c]) (b @ [d]) \<longleftrightarrow> str_less a b \<or> (a = b \<and> code_of c < code_of d)"
  by (simp add: str_less_append)

text \<open>Digits of one length are ordered as the numbers they write.\<close>

lemma digits_order:
  assumes "length a = length b" and "list_all is_digit a" and "list_all is_digit b"
  shows "(str_less a b \<longleftrightarrow> decimal_text a < decimal_text b) \<and> (a = b \<longleftrightarrow> decimal_text a = decimal_text b)"
  using assms
proof (induction a arbitrary: b rule: rev_induct)
  case (snoc c a)
  then obtain b' d where b: "b = b' @ [d]" by (metis append_butlast_last_id length_0_conv snoc_eq_iff_butlast)
  with snoc have "length a = length b'" "list_all is_digit a" "list_all is_digit b'" "is_digit c" "is_digit d" by auto
  with snoc.IH [of b'] have ih: "str_less a b' \<longleftrightarrow> decimal_text a < decimal_text b'" "a = b' \<longleftrightarrow> decimal_text a = decimal_text b'"
    and l: "length a = length b'" by auto
  have cd: "48 \<le> int (code_of c)" "int (code_of c) \<le> 57" "48 \<le> int (code_of d)" "int (code_of d) \<le> 57"
    using digit_code [OF \<open>is_digit c\<close>] digit_code [OF \<open>is_digit d\<close>] by simp_all
  have eq: "c = d \<longleftrightarrow> int (code_of c) = int (code_of d)" by simp
  show ?case unfolding b str_less_snoc [OF l] ih(1) decimal_text_snoc
    using cd ih(2) eq l by (auto simp del: of_nat_eq_iff)
qed (simp add: decimal_text_def)


text \<open>The fields of a canonical timestamp with a year of four digits.\<close>

definition iso_text :: "string \<Rightarrow> string \<Rightarrow> string \<Rightarrow> string \<Rightarrow> string \<Rightarrow> string \<Rightarrow> string \<Rightarrow> string" where
  "iso_text y mo d h mi s ms = y @ ''-'' @ mo @ ''-'' @ d @ ''T'' @ h @ '':'' @ mi @ '':'' @ s @ ''.'' @ ms @ ''Z''"

definition iso_fields :: "string \<Rightarrow> string \<Rightarrow> string \<Rightarrow> string \<Rightarrow> string \<Rightarrow> string \<Rightarrow> string \<Rightarrow> bool" where
  "iso_fields y mo d h mi s ms \<longleftrightarrow>
     length y = 4 \<and> length mo = 2 \<and> length d = 2 \<and> length h = 2 \<and> length mi = 2 \<and> length s = 2 \<and> length ms = 3
     \<and> list_all (list_all is_digit) [y, mo, d, h, mi, s, ms]"

lemma rx_match_seqE:
  assumes "rx_match (RSeq r q) s"
  obtains u v where "s = u @ v" and "rx_match r u" and "rx_match q v"
  using assms by (auto simp: rx_match_seq)

lemma iso_tail:
  assumes "rx_full ISO_TAIL_RE r"
  obtains mo d h mi s ms where "r = ''-'' @ mo @ ''-'' @ d @ ''T'' @ h @ '':'' @ mi @ '':'' @ s @ ''.'' @ ms @ ''Z''"
    and "length mo = 2" and "length d = 2" and "length h = 2" and "length mi = 2" and "length s = 2" and "length ms = 3"
    and "list_all (list_all is_digit) [mo, d, h, mi, s, ms]"
proof -
  from assms have "\<exists>mo d h mi s ms. r = ''-'' @ mo @ ''-'' @ d @ ''T'' @ h @ '':'' @ mi @ '':'' @ s @ ''.'' @ ms @ ''Z''
      \<and> (length mo = 2 \<and> list_all is_digit mo) \<and> (length d = 2 \<and> list_all is_digit d) \<and> (length h = 2 \<and> list_all is_digit h)
      \<and> (length mi = 2 \<and> list_all is_digit mi) \<and> (length s = 2 \<and> list_all is_digit s) \<and> (length ms = 3 \<and> list_all is_digit ms)"
    unfolding rx_full_iff ISO_TAIL_RE_def Let_def rx_seqs.simps
    by (elim rx_match_seqE, clarsimp simp: rx_match_times_cls simp del: rx_times.simps) (intro exI conjI, rule refl, assumption+)
  then show thesis using that by auto
qed

lemma take_drop_text: "length a = i \<Longrightarrow> length b = n \<Longrightarrow> take n (drop i (a @ b @ c)) = b"
  by simp

lemma decimal_at_text: "length a = i \<Longrightarrow> length b = n \<Longrightarrow> decimal_at (a @ b @ c) i n = decimal_text b"
  by (simp add: decimal_at_def decimal_text_def)

lemma tail_fields:
  assumes "length mo = 2" "length d = 2" "length h = 2" "length mi = 2" "length s = 2" "length ms = 3"
  defines "r \<equiv> ''-'' @ mo @ ''-'' @ d @ ''T'' @ h @ '':'' @ mi @ '':'' @ s @ ''.'' @ ms @ ''Z''"
  shows "decimal_at r 1 2 = decimal_text mo" "decimal_at r 4 2 = decimal_text d" "decimal_at r 7 2 = decimal_text h"
    "decimal_at r 10 2 = decimal_text mi" "decimal_at r 13 2 = decimal_text s" "decimal_at r 16 3 = decimal_text ms"
  using assms(1-6) decimal_at_text [of "''-''" 1 mo 2] decimal_at_text [of "''-'' @ mo @ ''-''" 4 d 2]
    decimal_at_text [of "''-'' @ mo @ ''-'' @ d @ ''T''" 7 h 2] decimal_at_text [of "''-'' @ mo @ ''-'' @ d @ ''T'' @ h @ '':''" 10 mi 2]
    decimal_at_text [of "''-'' @ mo @ ''-'' @ d @ ''T'' @ h @ '':'' @ mi @ '':''" 13 s 2]
    decimal_at_text [of "''-'' @ mo @ ''-'' @ d @ ''T'' @ h @ '':'' @ mi @ '':'' @ s @ ''.''" 16 ms 3]
  unfolding r_def append_assoc by simp_all

lemma common_era_fields:
  assumes "common_era t"
  obtains y mo d h mi s ms where "t = iso_text y mo d h mi s ms" and "iso_fields y mo d h mi s ms"
    and "date_parse t = ((((days_before_year (decimal_text y) + days_before_month (decimal_text y) (decimal_text mo) + decimal_text d - 1) * 24
       + decimal_text h) * 60 + decimal_text mi) * 60 + decimal_text s) * 1000 + decimal_text ms"
    and "1 \<le> decimal_text mo" and "decimal_text mo \<le> 12" and "1 \<le> decimal_text d"
    and "decimal_text d \<le> month_days (decimal_text y) (decimal_text mo)"
    and "decimal_text h < 24" and "decimal_text mi < 60" and "decimal_text s < 60"
proof -
  from assms have c: "list_all is_digit (take 4 t)" "rx_full ISO_TAIL_RE (drop 4 t)" "instant_ok (decimal_at t 0 4) (drop 4 t)"
      "date_parse t = instant_millis (decimal_at t 0 4) (drop 4 t)"
    by (auto simp: common_era_def canonical_iso_def date_parse_def split: list.splits if_splits)
  from iso_tail [OF c(2)] obtain mo d h mi s ms where
    r: "drop 4 t = ''-'' @ mo @ ''-'' @ d @ ''T'' @ h @ '':'' @ mi @ '':'' @ s @ ''.'' @ ms @ ''Z''"
    and len: "length mo = 2" "length d = 2" "length h = 2" "length mi = 2" "length s = 2" "length ms = 3"
    and digits: "list_all (list_all is_digit) [mo, d, h, mi, s, ms]" .
  let ?y = "take 4 t"
  have "t = ?y @ drop 4 t" by simp
  then have t: "t = iso_text ?y mo d h mi s ms" unfolding r iso_text_def .
  have "length t > 4" using r by (cases "length t \<le> 4") auto
  then have fields: "iso_fields ?y mo d h mi s ms" using len digits c(1) by (simp add: iso_fields_def)
  have year: "decimal_at t 0 4 = decimal_text ?y" by (simp add: decimal_at_def decimal_text_def)
  note at = tail_fields [OF len, folded r]
  show thesis
    using c(3) by (intro that [OF t fields]) (auto simp: c(4) instant_ok_def instant_millis_def Let_def year at simp del: One_nat_def)
qed

section \<open>The calendar\<close>

definition year_days :: "int \<Rightarrow> int" where
  "year_days y = 337 + month_days y 2"

lemma days_before_month_last: "days_before_month y 13 = year_days y"
  by (simp add: days_before_month_def year_days_def month_days_def upt_rec)

lemma days_before_month_Suc:
  assumes "1 \<le> m"
  shows "days_before_month y (m + 1) = days_before_month y m + month_days y m"
proof -
  have "[1..<nat (m + 1)] = [1..<nat m] @ [nat m]" using assms by (simp add: nat_add_distrib)
  then show ?thesis using assms by (simp add: days_before_month_def)
qed

lemma month_days_pos: "0 < month_days y m"
  by (simp add: month_days_def)

lemma days_before_month_mono:
  assumes "1 \<le> m" and "m \<le> n"
  shows "days_before_month y m \<le> days_before_month y n"
  using assms(2)
proof (induction n rule: int_ge_induct)
  case (step n)
  with days_before_month_Suc [of n y] month_days_pos [of y n] assms(1) show ?case by simp
qed simp

lemma ceiling_div:
  fixes y k :: int
  assumes "0 < k"
  shows "(y + (k - 1)) div k = y div k + (if y mod k = 0 then 0 else 1)"
proof -
  define m where "m = y mod k"
  have m: "0 \<le> m" "m < k" using assms by (simp_all add: m_def)
  have "y + (k - 1) = (m + (k - 1)) + k * (y div k)" by (simp add: m_def)
  then have "(y + (k - 1)) div k = (m + (k - 1)) div k + y div k" using assms by (simp only: div_mult_self2)
  moreover have "(m + (k - 1)) div k = (if m = 0 then 0 else 1)"
    using m by (auto intro!: int_div_pos_eq [where r = "m - 1"])
  ultimately show ?thesis by (simp add: m_def)
qed

lemma days_before_year_Suc: "days_before_year (y + 1) = days_before_year y + year_days y"
proof -
  have step: "(y + k) div k = (y + (k - 1)) div k + (if y mod k = 0 then 1 else 0)" if "0 < k" for k :: int
    using ceiling_div [OF that, of y] div_add_self2 [of k y] that by simp
  have four: "(y + 4) div 4 = (y + 3) div 4 + (if y mod 4 = 0 then 1 else 0)" using step [of 4] by simp
  have hundred: "(y + 100) div 100 = (y + 99) div 100 + (if y mod 100 = 0 then 1 else 0)" using step [of 100] by simp
  have fhundred: "(y + 400) div 400 = (y + 399) div 400 + (if y mod 400 = 0 then 1 else 0)" using step [of 400] by simp
  have "y mod 4 = 0" if "y mod 100 = 0" using that mod_mod_cancel [of 4 100 y] by simp
  moreover have "y mod 100 = 0" if "y mod 400 = 0" using that mod_mod_cancel [of 100 400 y] by simp
  moreover have "y + 1 + 3 = y + 4" "y + 1 + 99 = y + 100" "y + 1 + 399 = y + 400" by simp_all
  ultimately show ?thesis
    unfolding days_before_year_def year_days_def month_days_def by (simp only: four hundred fhundred) (simp split: if_splits)
qed

lemma days_before_year_mono: "y < z \<Longrightarrow> days_before_year y + year_days y \<le> days_before_year z"
proof -
  have "days_before_year (y + 1) \<le> days_before_year z" if "y + 1 \<le> z" for z
    using that
  proof (induction z rule: int_ge_induct)
    case (step z)
    with days_before_year_Suc [of z] month_days_pos [of z 2] show ?case by (simp add: year_days_def)
  qed simp
  then show "y < z \<Longrightarrow> ?thesis" using days_before_year_Suc [of y] by simp
qed

lemma days_in_year: "1 \<le> m \<Longrightarrow> m \<le> 12 \<Longrightarrow> d \<le> month_days y m \<Longrightarrow> days_before_month y m + d \<le> year_days y"
  using days_before_month_Suc [of m y] days_before_month_mono [of "m + 1" 13 y] days_before_month_last [of y] by simp

text \<open>The lexicographic order of dates is the order of the days.\<close>

definition day_number :: "int \<Rightarrow> int \<Rightarrow> int \<Rightarrow> int" where
  "day_number y m d = days_before_year y + days_before_month y m + d - 1"

lemma day_number_less:
  assumes "1 \<le> m" "m \<le> 12" "1 \<le> d" "d \<le> month_days y m" and "1 \<le> m'" "m' \<le> 12" "1 \<le> d'" "d' \<le> month_days y' m'"
    and "y < y' \<or> (y = y' \<and> (m < m' \<or> (m = m' \<and> d < d')))"
  shows "day_number y m d < day_number y' m' d'"
proof -
  consider (year) "y < y'" | (month) "y = y'" "m < m'" | (day) "y = y'" "m = m'" "d < d'" using assms(9) by blast
  then show ?thesis
  proof cases
    case year
    have "0 \<le> days_before_month y' m'" using days_before_month_mono [of 1 m' y'] assms(5) by (simp add: days_before_month_def)
    with days_in_year [OF assms(1,2,4)] days_before_year_mono [OF year] assms(7) show ?thesis by (simp add: day_number_def)
  next
    case month
    with days_before_month_Suc [OF assms(1), of y] days_before_month_mono [of "m + 1" m' y] assms(1,4,7) show ?thesis
      by (simp add: day_number_def)
  qed (simp add: day_number_def)
qed

lemma decimal_text_bound: "list_all is_digit s \<Longrightarrow> 0 \<le> decimal_text s"
proof (induction s rule: rev_induct)
  case (snoc c s)
  then show ?case using digit_code [of c] by simp
qed (simp add: decimal_text_def)

lemma two_digits: "length s = 2 \<Longrightarrow> list_all is_digit s \<Longrightarrow> decimal_text s < 100"
proof -
  assume s: "length s = 2" "list_all is_digit s"
  then obtain a b where "s = [a, b]" "is_digit a" "is_digit b" by (auto simp: length_Suc_conv numeral_2_eq_2)
  then show ?thesis using digit_code [of a] digit_code [of b] by (simp add: decimal_text_def)
qed

lemma three_digits: "length s = 3 \<Longrightarrow> list_all is_digit s \<Longrightarrow> decimal_text s < 1000"
proof -
  assume s: "length s = 3" "list_all is_digit s"
  then obtain t c where t: "s = t @ [c]" "length t = 2" "list_all is_digit t" "is_digit c"
    by (cases s rule: rev_cases) auto
  then show ?thesis using two_digits [OF t(2,3)] digit_code [OF t(4)] by simp
qed

lemma carry_less:
  fixes a b k :: int
  assumes "a < a'" and "b < k" and "0 \<le> b'" and "0 < k"
  shows "a * k + b < a' * k + b'"
proof -
  have "(a + 1) * k \<le> a' * k" using assms(1,4) by (intro mult_right_mono) simp_all
  then show ?thesis using assms(2,3) by (simp add: distrib_right)
qed

text \<open>The order of the strings is the order of the instants.\<close>

lemma iso_less:
  assumes "common_era s" and "common_era t" and "str_less s t"
  shows "date_parse s < date_parse t"
proof -
  obtain y mo d h mi se ms where s: "s = iso_text y mo d h mi se ms" "iso_fields y mo d h mi se ms"
    "date_parse s = (((day_number (decimal_text y) (decimal_text mo) (decimal_text d) * 24 + decimal_text h) * 60 + decimal_text mi) * 60
       + decimal_text se) * 1000 + decimal_text ms"
    "1 \<le> decimal_text mo" "decimal_text mo \<le> 12" "1 \<le> decimal_text d" "decimal_text d \<le> month_days (decimal_text y) (decimal_text mo)"
    "decimal_text h < 24" "decimal_text mi < 60" "decimal_text se < 60"
    using common_era_fields [OF assms(1)] unfolding day_number_def by metis
  obtain y' mo' d' h' mi' se' ms' where t: "t = iso_text y' mo' d' h' mi' se' ms'" "iso_fields y' mo' d' h' mi' se' ms'"
    "date_parse t = (((day_number (decimal_text y') (decimal_text mo') (decimal_text d') * 24 + decimal_text h') * 60 + decimal_text mi') * 60
       + decimal_text se') * 1000 + decimal_text ms'"
    "1 \<le> decimal_text mo'" "decimal_text mo' \<le> 12" "1 \<le> decimal_text d'" "decimal_text d' \<le> month_days (decimal_text y') (decimal_text mo')"
    "decimal_text h' < 24" "decimal_text mi' < 60" "decimal_text se' < 60"
    using common_era_fields [OF assms(2)] unfolding day_number_def by metis
  note digits = s(2)[unfolded iso_fields_def list.pred_inject] t(2)[unfolded iso_fields_def list.pred_inject]
  have len: "length y = length y'" "length mo = length mo'" "length d = length d'" "length h = length h'" "length mi = length mi'"
      "length se = length se'" "length ms = length ms'"
    using digits by simp_all
  have ord: "str_less y y' \<longleftrightarrow> decimal_text y < decimal_text y'" "str_less mo mo' \<longleftrightarrow> decimal_text mo < decimal_text mo'"
      "str_less d d' \<longleftrightarrow> decimal_text d < decimal_text d'" "str_less h h' \<longleftrightarrow> decimal_text h < decimal_text h'"
      "str_less mi mi' \<longleftrightarrow> decimal_text mi < decimal_text mi'" "str_less se se' \<longleftrightarrow> decimal_text se < decimal_text se'"
      "str_less ms ms' \<longleftrightarrow> decimal_text ms < decimal_text ms'"
    using digits by (simp_all add: digits_order)
  have pos: "0 \<le> decimal_text h'" "0 \<le> decimal_text mi'" "0 \<le> decimal_text se'" "0 \<le> decimal_text ms'" "decimal_text ms < 1000"
    using digits by (simp_all add: decimal_text_bound three_digits)
  let ?D = "day_number (decimal_text y) (decimal_text mo) (decimal_text d)"
  let ?D' = "day_number (decimal_text y') (decimal_text mo') (decimal_text d')"
  have "str_less s t \<longleftrightarrow> str_less y y' \<or> (y = y' \<and> (str_less mo mo' \<or> (mo = mo' \<and> (str_less d d' \<or> (d = d' \<and> (str_less h h'
      \<or> (h = h' \<and> (str_less mi mi' \<or> (mi = mi' \<and> (str_less se se' \<or> (se = se' \<and> str_less ms ms')))))))))))"
    unfolding s(1) t(1) iso_text_def using len by (simp add: str_less_append)
  with assms(3) consider
      (day) "decimal_text y < decimal_text y' \<or> (decimal_text y = decimal_text y' \<and> (decimal_text mo < decimal_text mo'
         \<or> (decimal_text mo = decimal_text mo' \<and> decimal_text d < decimal_text d')))"
    | (hour) "?D = ?D'" "decimal_text h < decimal_text h'"
    | (minute) "?D = ?D'" "decimal_text h = decimal_text h'" "decimal_text mi < decimal_text mi'"
    | (second) "?D = ?D'" "decimal_text h = decimal_text h'" "decimal_text mi = decimal_text mi'" "decimal_text se < decimal_text se'"
    | (milli) "?D = ?D'" "decimal_text h = decimal_text h'" "decimal_text mi = decimal_text mi'" "decimal_text se = decimal_text se'"
        "decimal_text ms < decimal_text ms'"
    unfolding ord by metis
  then show ?thesis
  proof cases
    case day
    with day_number_less s(4-7) t(4-7) have "?D < ?D'" by simp
    then show ?thesis unfolding s(3) t(3) by (intro carry_less) (use s(8-10) pos in simp_all)
  next
    case hour
    show ?thesis unfolding s(3) t(3) hour(1) by (rule carry_less, rule carry_less, rule carry_less) (use hour s(8-10) pos in simp_all)
  next
    case minute
    show ?thesis unfolding s(3) t(3) minute(1,2) by (rule carry_less, rule carry_less) (use minute s(8-10) pos in simp_all)
  next
    case second
    show ?thesis unfolding s(3) t(3) second(1-3) by (rule carry_less) (use second s(8-10) pos in simp_all)
  next
    case milli
    then show ?thesis unfolding s(3) t(3) by simp
  qed
qed

lemma iso_order:
  assumes "common_era s" and "common_era t"
  shows "str_less s t \<longleftrightarrow> date_parse s < date_parse t"
  using iso_less [OF assms] iso_less [OF assms(2,1)] str_less_linear [of s t] by fastforce

end
