(* ===== verification/Routing.thy ===== *)
theory Routing
  imports JsValue JsDate
begin

text \<open>
  Agent routing: the closed contract with its guards (\<open>agent-routing.ts\<close>), the registry of actions
  (\<open>agent-registry.ts\<close>), the resolver of an action into a dispatch plan (\<open>routing-resolver.ts\<close>) and its adapter
  (\<open>routing-action-resolver.ts\<close>). The store of the policy is a parameter: what its current policy reads as, before and after
  the attempt to bootstrap it, and what the attempt returns. A rejection is its code; the message is a function of the code.
\<close>

section \<open>Contract\<close>

datatype action_type = at_completion | at_discovery_planning | at_implementation | at_knowledge_documentation | at_review

definition actionTypes :: "(string \<times> action_type) list" where
  "actionTypes = [(''completion'', at_completion), (''discovery_planning'', at_discovery_planning),
     (''implementation'', at_implementation), (''knowledge_documentation'', at_knowledge_documentation), (''review'', at_review)]"

datatype role_id =
    ro_code_review | ro_completion | ro_feature_lessons_writer | ro_implementation | ro_phase_lessons_capture | ro_planning
  | ro_post_complete_lessons_curator | ro_product_architect | ro_requirements | ro_ux_design

definition roleIds :: "(string \<times> role_id) list" where
  "roleIds = [(''code-review-agent'', ro_code_review), (''completion-agent'', ro_completion),
     (''feature-lessons-writer-agent'', ro_feature_lessons_writer), (''implementation-agent'', ro_implementation),
     (''phase-lessons-capture-agent'', ro_phase_lessons_capture), (''planning-agent'', ro_planning),
     (''post-complete-lessons-curator-agent'', ro_post_complete_lessons_curator), (''product-architect'', ro_product_architect),
     (''requirements-agent'', ro_requirements), (''ux-design-agent'', ro_ux_design)]"

definition name_in :: "(string \<times> 'a) list \<Rightarrow> 'a \<Rightarrow> string" where
  "name_in names x = (case List.find (\<lambda>p. snd p = x) names of None \<Rightarrow> [] | Some p \<Rightarrow> fst p)"

record capability_requirements =
  cq_minimumContextWindowTokens :: int
  cq_requiresTools :: bool
  cq_requiresApi :: bool
  cq_requiresReasoning :: bool

record registry_entry =
  re_actionId :: string
  re_actionType :: action_type
  re_actionTypeLabel :: string
  re_actionTypeDisplayOrder :: int
  re_label :: string
  re_displayOrder :: int
  re_roleId :: role_id
  re_promptVersion :: string
  re_capabilityRequirements :: capability_requirements

record route_identity =
  ri_connectionId :: string
  ri_modelId :: string

datatype route_selector = Inherit | Select_route route_identity

datatype failure_policy = Fail_immediately | Reroute_global_once | Reroute_route_once route_identity

datatype selector_scope = Scope_global | Scope_action_type action_type | Scope_action string

record policy_selector =
  ps_scope :: selector_scope
  ps_selector :: route_selector
  ps_failurePolicy :: failure_policy

datatype revision_reason = rr_bootstrap | rr_catalog_reset | rr_operator_mutation

record policy_mutation =
  pm_registryVersion :: string
  pm_expectedRevisionId :: "string option"
  pm_reason :: revision_reason
  pm_occurredAt :: string
  pm_actor :: "string option"
  pm_correlationId :: "string option"
  pm_selectors :: "policy_selector list"

record policy_revision =
  pr_revisionId :: string
  pr_registryVersion :: string
  pr_reason :: revision_reason
  pr_createdAt :: string
  pr_actor :: "string option"
  pr_correlationId :: "string option"
  pr_selectors :: "policy_selector list"

record routing_dependency =
  rd_revisionId :: string
  rd_route :: route_identity
  rd_selectorScope :: selector_scope

record routing_attention =
  ra_attentionId :: string
  ra_connectionId :: string
  ra_modelId :: string
  ra_reasonCode :: string
  ra_revisionId :: string
  ra_occurredAt :: string
  ra_acknowledgedAt :: "string option"

record route_fact =
  rf_route :: route_identity
  rf_connectionActive :: bool
  rf_available :: bool
  rf_contextWindowTokens :: "int option"
  rf_tools :: "bool option"
  rf_api :: "bool option"
  rf_reasoning :: "bool option"

record validation_context =
  vc_registry :: "registry_entry list"
  vc_routes :: "route_fact list"

datatype routing_code =
    ROUTING_INVALID_REQUEST | ROUTING_INVALID_POLICY | ROUTING_ROUTE_UNAVAILABLE | ROUTING_CAPABILITY_MISMATCH
  | ROUTING_INVALID_HANDOFF_CHAIN | ROUTING_POLICY_CONFLICT | ROUTING_UNKNOWN_SCOPE | ROUTING_GLOBAL_DELETE_BLOCKED
  | ROUTING_UNKNOWN_ACTION | ROUTING_BOOTSTRAP_REQUIRED | ROUTING_GLOBAL_UNAVAILABLE

datatype policy_source = From_global | From_action_type | From_action

record resolved_route =
  rv_action :: registry_entry
  rv_route :: route_identity
  rv_policySource :: policy_source
  rv_revisionId :: string

datatype step_kind = Primary | Recovery

record handoff_step =
  hs_kind :: step_kind
  hs_route :: route_identity

record handoff_plan =
  hp_resolvedRoute :: resolved_route
  hp_steps :: "handoff_step list"

section \<open>Guards\<close>

definition schema_v1 :: "jsv \<Rightarrow> bool" where
  "schema_v1 v \<longleftrightarrow> jget v ''schemaVersion'' = JStr ''agent-routing/v1''"

definition bounded_text :: "nat \<Rightarrow> string \<Rightarrow> bool" where
  "bounded_text n s \<longleftrightarrow> 0 < length s \<and> length s \<le> n \<and> trim s = s"

definition isBoundedString :: "nat \<Rightarrow> jsv \<Rightarrow> string option" where
  "isBoundedString n v = string_where (bounded_text n) v"

definition or_null :: "(jsv \<Rightarrow> 'a option) \<Rightarrow> jsv \<Rightarrow> 'a option option" where
  "or_null f v = (if v = JNull then Some None else map_option Some (f v))"

definition isPositiveInteger :: "jsv \<Rightarrow> int option" where
  "isPositiveInteger v = do { n \<leftarrow> as_int v; chk (0 < n \<and> n \<le> 10000000); Some n }"

definition natural_bounded :: "jsv \<Rightarrow> int option" where
  "natural_bounded v = do { n \<leftarrow> as_int v; chk (0 \<le> n \<and> n \<le> 10000000); Some n }"

definition ACTION_ID_RE :: rx where
  "ACTION_ID_RE = RSeq (RCls is_lower) (RStar (RCls (\<lambda>c. is_lower_alnum c \<or> c = CHR ''-'')))"

definition isActionId :: "jsv \<Rightarrow> string option" where
  "isActionId v = string_where (\<lambda>s. bounded_text 128 s \<and> rx_full ACTION_ID_RE s) v"

definition isCanonicalIsoTimestamp :: "jsv \<Rightarrow> string option" where
  "isCanonicalIsoTimestamp v = string_where canonical_iso v"

definition isAgentCapabilityRequirementsV1 :: "jsv \<Rightarrow> capability_requirements option" where
  "isAgentCapabilityRequirementsV1 v = do {
     chk (isRecord v);
     n \<leftarrow> isPositiveInteger (jget v ''minimumContextWindowTokens'');
     t \<leftarrow> as_bool (jget v ''requiresTools'');
     a \<leftarrow> as_bool (jget v ''requiresApi'');
     r \<leftarrow> as_bool (jget v ''requiresReasoning'');
     chk (exactKeys v [''minimumContextWindowTokens'', ''requiresTools'', ''requiresApi'', ''requiresReasoning'']);
     Some \<lparr>cq_minimumContextWindowTokens = n, cq_requiresTools = t, cq_requiresApi = a, cq_requiresReasoning = r\<rparr> }"

definition isAgentRegistryEntryV1 :: "jsv \<Rightarrow> registry_entry option" where
  "isAgentRegistryEntryV1 v = do {
     chk (isRecord v \<and> schema_v1 v);
     i \<leftarrow> isActionId (jget v ''actionId'');
     t \<leftarrow> enum_of actionTypes (jget v ''actionType'');
     tl \<leftarrow> isBoundedString 256 (jget v ''actionTypeLabel'');
     ord \<leftarrow> isPositiveInteger (jget v ''actionTypeDisplayOrder'');
     l \<leftarrow> isBoundedString 256 (jget v ''label'');
     d \<leftarrow> isPositiveInteger (jget v ''displayOrder'');
     r \<leftarrow> enum_of roleIds (jget v ''roleId'');
     p \<leftarrow> isBoundedString 256 (jget v ''promptVersion'');
     c \<leftarrow> isAgentCapabilityRequirementsV1 (jget v ''capabilityRequirements'');
     chk (exactKeys v [''schemaVersion'', ''actionId'', ''actionType'', ''actionTypeLabel'', ''actionTypeDisplayOrder'', ''label'',
       ''displayOrder'', ''roleId'', ''promptVersion'', ''capabilityRequirements'']);
     Some \<lparr>re_actionId = i, re_actionType = t, re_actionTypeLabel = tl, re_actionTypeDisplayOrder = ord, re_label = l,
       re_displayOrder = d, re_roleId = r, re_promptVersion = p, re_capabilityRequirements = c\<rparr> }"

definition role_prompt_key :: "registry_entry \<Rightarrow> string" where
  "role_prompt_key e = name_in roleIds (re_roleId e) @ [CHR 0x00] @ re_promptVersion e"

definition type_order_key :: "registry_entry \<Rightarrow> string" where
  "type_order_key e = name_in actionTypes (re_actionType e) @ [CHR 0x00] @ int_text (re_displayOrder e)"

definition type_identity :: "registry_entry \<Rightarrow> string" where
  "type_identity e = re_actionTypeLabel e @ [CHR 0x00] @ int_text (re_actionTypeDisplayOrder e)"

text \<open>The loop over the entries, with the identity of each type and the type at each order.\<close>

fun type_metadata_ok :: "(action_type \<rightharpoonup> string) \<Rightarrow> (int \<rightharpoonup> action_type) \<Rightarrow> registry_entry list \<Rightarrow> bool" where
  "type_metadata_ok ids ords [] = True"
| "type_metadata_ok ids ords (e # es) =
     (if (case ids (re_actionType e) of None \<Rightarrow> False | Some i \<Rightarrow> i \<noteq> type_identity e)
         \<or> (case ords (re_actionTypeDisplayOrder e) of None \<Rightarrow> False | Some t \<Rightarrow> t \<noteq> re_actionType e) then False
      else type_metadata_ok (ids(re_actionType e \<mapsto> type_identity e)) (ords(re_actionTypeDisplayOrder e \<mapsto> re_actionType e)) es)"

definition isAgentRegistryCollectionV1 :: "jsv \<Rightarrow> registry_entry list option" where
  "isAgentRegistryCollectionV1 v = do {
     es \<leftarrow> array_of isAgentRegistryEntryV1 v;
     chk (es \<noteq> [] \<and> distinct (map re_actionId es) \<and> distinct (map role_prompt_key es) \<and> distinct (map type_order_key es));
     chk (type_metadata_ok Map.empty Map.empty es);
     Some es }"

definition isRouteIdentityV1 :: "jsv \<Rightarrow> route_identity option" where
  "isRouteIdentityV1 v = do {
     chk (isRecord v);
     c \<leftarrow> isBoundedString 512 (jget v ''connectionId'');
     m \<leftarrow> isBoundedString 512 (jget v ''modelId'');
     chk (exactKeys v [''connectionId'', ''modelId'']);
     Some \<lparr>ri_connectionId = c, ri_modelId = m\<rparr> }"

definition isRouteSelectorV1 :: "jsv \<Rightarrow> route_selector option" where
  "isRouteSelectorV1 v =
     (if \<not> isRecord v then None
      else if jget v ''kind'' = JStr ''inherit'' \<and> exactKeys v [''kind''] then Some Inherit
      else if jget v ''kind'' = JStr ''route'' \<and> exactKeys v [''kind'', ''route'']
        then map_option Select_route (isRouteIdentityV1 (jget v ''route''))
      else None)"

definition isFailurePolicyV1 :: "jsv \<Rightarrow> failure_policy option" where
  "isFailurePolicyV1 v =
     (if \<not> isRecord v then None
      else if jget v ''kind'' = JStr ''fail_immediately'' \<and> exactKeys v [''kind''] then Some Fail_immediately
      else if jget v ''kind'' = JStr ''reroute_global_once'' \<and> exactKeys v [''kind''] then Some Reroute_global_once
      else if jget v ''kind'' = JStr ''reroute_route_once'' \<and> exactKeys v [''kind'', ''fallbackRoute'']
        then map_option Reroute_route_once (isRouteIdentityV1 (jget v ''fallbackRoute''))
      else None)"

definition isRoutingSelectorScopeV1 :: "jsv \<Rightarrow> selector_scope option" where
  "isRoutingSelectorScopeV1 v =
     (if \<not> isRecord v then None
      else if jget v ''kind'' = JStr ''global'' \<and> exactKeys v [''kind''] then Some Scope_global
      else if jget v ''kind'' = JStr ''action_type'' \<and> exactKeys v [''kind'', ''actionType'']
        then map_option Scope_action_type (enum_of actionTypes (jget v ''actionType''))
      else if jget v ''kind'' = JStr ''action'' \<and> exactKeys v [''kind'', ''actionId'']
        then map_option Scope_action (isActionId (jget v ''actionId''))
      else None)"

definition isRoutingPolicySelectorV1 :: "jsv \<Rightarrow> policy_selector option" where
  "isRoutingPolicySelectorV1 v = do {
     chk (isRecord v \<and> schema_v1 v);
     sc \<leftarrow> isRoutingSelectorScopeV1 (jget v ''scope'');
     s \<leftarrow> isRouteSelectorV1 (jget v ''selector'');
     f \<leftarrow> isFailurePolicyV1 (jget v ''failurePolicy'');
     chk (exactKeys v [''schemaVersion'', ''scope'', ''selector'', ''failurePolicy'']);
     Some \<lparr>ps_scope = sc, ps_selector = s, ps_failurePolicy = f\<rparr> }"

definition revisionReasons :: "(string \<times> revision_reason) list" where
  "revisionReasons = [(''bootstrap'', rr_bootstrap), (''catalog_reset'', rr_catalog_reset), (''operator_mutation'', rr_operator_mutation)]"

definition isRoutingPolicyMutationV1 :: "jsv \<Rightarrow> policy_mutation option" where
  "isRoutingPolicyMutationV1 v = do {
     chk (isRecord v \<and> schema_v1 v);
     rv \<leftarrow> isBoundedString 256 (jget v ''registryVersion'');
     e \<leftarrow> or_null (isBoundedString 256) (jget v ''expectedRevisionId'');
     r \<leftarrow> enum_of [(''bootstrap'', rr_bootstrap), (''operator_mutation'', rr_operator_mutation)] (jget v ''reason'');
     t \<leftarrow> isCanonicalIsoTimestamp (jget v ''occurredAt'');
     a \<leftarrow> or_null (isBoundedString 512) (jget v ''actor'');
     c \<leftarrow> or_null (isBoundedString 512) (jget v ''correlationId'');
     ss \<leftarrow> array_of isRoutingPolicySelectorV1 (jget v ''selectors'');
     chk (exactKeys v [''schemaVersion'', ''registryVersion'', ''expectedRevisionId'', ''reason'', ''occurredAt'', ''actor'',
       ''correlationId'', ''selectors'']);
     Some \<lparr>pm_registryVersion = rv, pm_expectedRevisionId = e, pm_reason = r, pm_occurredAt = t, pm_actor = a, pm_correlationId = c,
       pm_selectors = ss\<rparr> }"

definition isRoutingDependencyV1 :: "jsv \<Rightarrow> routing_dependency option" where
  "isRoutingDependencyV1 v = do {
     chk (isRecord v \<and> schema_v1 v);
     r \<leftarrow> isBoundedString 256 (jget v ''revisionId'');
     i \<leftarrow> isRouteIdentityV1 (JObj [(''connectionId'', jget v ''connectionId''), (''modelId'', jget v ''modelId'')]);
     sc \<leftarrow> isRoutingSelectorScopeV1 (jget v ''selectorScope'');
     chk (exactKeys v [''schemaVersion'', ''revisionId'', ''connectionId'', ''modelId'', ''selectorScope'']);
     Some \<lparr>rd_revisionId = r, rd_route = i, rd_selectorScope = sc\<rparr> }"

definition isRoutingAttentionV1 :: "jsv \<Rightarrow> routing_attention option" where
  "isRoutingAttentionV1 v = do {
     chk (isRecord v \<and> schema_v1 v);
     a \<leftarrow> isBoundedString 512 (jget v ''attentionId'');
     c \<leftarrow> isBoundedString 512 (jget v ''connectionId'');
     m \<leftarrow> isBoundedString 512 (jget v ''modelId'');
     rc \<leftarrow> isBoundedString 256 (jget v ''reasonCode'');
     r \<leftarrow> isBoundedString 256 (jget v ''revisionId'');
     t \<leftarrow> isCanonicalIsoTimestamp (jget v ''occurredAt'');
     k \<leftarrow> or_null isCanonicalIsoTimestamp (jget v ''acknowledgedAt'');
     chk (exactKeys v [''schemaVersion'', ''attentionId'', ''connectionId'', ''modelId'', ''reasonCode'', ''revisionId'', ''occurredAt'',
       ''acknowledgedAt'']);
     Some \<lparr>ra_attentionId = a, ra_connectionId = c, ra_modelId = m, ra_reasonCode = rc, ra_revisionId = r, ra_occurredAt = t,
       ra_acknowledgedAt = k\<rparr> }"

definition isRoutingPolicyRevisionV1 :: "jsv \<Rightarrow> policy_revision option" where
  "isRoutingPolicyRevisionV1 v = do {
     chk (isRecord v \<and> schema_v1 v);
     i \<leftarrow> isBoundedString 256 (jget v ''revisionId'');
     rv \<leftarrow> isBoundedString 256 (jget v ''registryVersion'');
     r \<leftarrow> enum_of revisionReasons (jget v ''reason'');
     t \<leftarrow> isCanonicalIsoTimestamp (jget v ''createdAt'');
     a \<leftarrow> or_null (isBoundedString 512) (jget v ''actor'');
     c \<leftarrow> or_null (isBoundedString 512) (jget v ''correlationId'');
     ss \<leftarrow> array_of isRoutingPolicySelectorV1 (jget v ''selectors'');
     chk (exactKeys v [''schemaVersion'', ''revisionId'', ''registryVersion'', ''reason'', ''createdAt'', ''actor'', ''correlationId'',
       ''selectors'']);
     Some \<lparr>pr_revisionId = i, pr_registryVersion = rv, pr_reason = r, pr_createdAt = t, pr_actor = a, pr_correlationId = c,
       pr_selectors = ss\<rparr> }"

definition isRoutingCatalogRouteFactV1 :: "jsv \<Rightarrow> route_fact option" where
  "isRoutingCatalogRouteFactV1 v = do {
     chk (isRecord v \<and> schema_v1 v);
     i \<leftarrow> isRouteIdentityV1 (jget v ''route'');
     ac \<leftarrow> as_bool (jget v ''connectionActive'');
     av \<leftarrow> as_bool (jget v ''available'');
     n \<leftarrow> or_null natural_bounded (jget v ''contextWindowTokens'');
     t \<leftarrow> or_null as_bool (jget v ''tools'');
     a \<leftarrow> or_null as_bool (jget v ''api'');
     r \<leftarrow> or_null as_bool (jget v ''reasoning'');
     chk (exactKeys v [''schemaVersion'', ''route'', ''connectionActive'', ''available'', ''contextWindowTokens'', ''tools'', ''api'',
       ''reasoning'']);
     Some \<lparr>rf_route = i, rf_connectionActive = ac, rf_available = av, rf_contextWindowTokens = n, rf_tools = t, rf_api = a,
       rf_reasoning = r\<rparr> }"

definition routeIdentityKey :: "route_identity \<Rightarrow> string" where
  "routeIdentityKey r = ri_connectionId r @ [CHR 0x00] @ ri_modelId r"

definition selectorScopeKey :: "selector_scope \<Rightarrow> string" where
  "selectorScopeKey sc =
     (case sc of
        Scope_global \<Rightarrow> ''global''
      | Scope_action i \<Rightarrow> ''action:'' @ i
      | Scope_action_type t \<Rightarrow> ''action_type:'' @ name_in actionTypes t)"

definition isRoutingPolicyValidationContextV1 :: "jsv \<Rightarrow> validation_context option" where
  "isRoutingPolicyValidationContextV1 v = do {
     chk (isRecord v \<and> schema_v1 v);
     es \<leftarrow> isAgentRegistryCollectionV1 (jget v ''registry'');
     fs \<leftarrow> array_of isRoutingCatalogRouteFactV1 (jget v ''routes'');
     chk (distinct (map (\<lambda>f. routeIdentityKey (rf_route f)) fs));
     chk (exactKeys v [''schemaVersion'', ''registry'', ''routes'']);
     Some \<lparr>vc_registry = es, vc_routes = fs\<rparr> }"

definition policySources :: "(string \<times> policy_source) list" where
  "policySources = [(''global'', From_global), (''action_type'', From_action_type), (''action'', From_action)]"

definition isResolvedRouteV1 :: "jsv \<Rightarrow> resolved_route option" where
  "isResolvedRouteV1 v = do {
     chk (isRecord v \<and> schema_v1 v);
     e \<leftarrow> isAgentRegistryEntryV1 (jget v ''action'');
     r \<leftarrow> isRouteIdentityV1 (jget v ''route'');
     s \<leftarrow> enum_of policySources (jget v ''policySource'');
     i \<leftarrow> isBoundedString 256 (jget v ''revisionId'');
     chk (exactKeys v [''schemaVersion'', ''action'', ''route'', ''policySource'', ''revisionId'']);
     Some \<lparr>rv_action = e, rv_route = r, rv_policySource = s, rv_revisionId = i\<rparr> }"

definition isHandoffPlanStepV1 :: "jsv \<Rightarrow> handoff_step option" where
  "isHandoffPlanStepV1 v = do {
     chk (isRecord v);
     k \<leftarrow> enum_of [(''primary'', Primary), (''recovery'', Recovery)] (jget v ''kind'');
     r \<leftarrow> isRouteIdentityV1 (jget v ''route'');
     chk (exactKeys v [''kind'', ''route'']);
     Some \<lparr>hs_kind = k, hs_route = r\<rparr> }"

text \<open>The conditions on the steps of a plan: one primary step on the resolved route, and at most one recovery to another route.\<close>

definition plan_steps_ok :: "resolved_route \<Rightarrow> handoff_step list \<Rightarrow> bool" where
  "plan_steps_ok rv steps \<longleftrightarrow>
     1 \<le> length steps \<and> length steps \<le> 2
     \<and> hs_kind (steps ! 0) = Primary \<and> hs_route (steps ! 0) = rv_route rv
     \<and> (length steps = 1
        \<or> (hs_kind (steps ! 1) = Recovery \<and> hs_route (steps ! 1) \<noteq> hs_route (steps ! 0) \<and> rv_policySource rv \<noteq> From_global))"

definition isHandoffPlanV1 :: "jsv \<Rightarrow> handoff_plan option" where
  "isHandoffPlanV1 v = do {
     chk (isRecord v \<and> schema_v1 v);
     rv \<leftarrow> isResolvedRouteV1 (jget v ''resolvedRoute'');
     steps \<leftarrow> array_of isHandoffPlanStepV1 (jget v ''steps'');
     chk (plan_steps_ok rv steps);
     chk (exactKeys v [''schemaVersion'', ''resolvedRoute'', ''steps'']);
     Some \<lparr>hp_resolvedRoute = rv, hp_steps = steps\<rparr> }"

section \<open>The registry\<close>

definition typeMetadata :: "action_type \<Rightarrow> string \<times> int" where
  "typeMetadata t =
     (case t of
        at_discovery_planning \<Rightarrow> (''Discovery & Planning'', 1)
      | at_implementation \<Rightarrow> (''Implementation'', 2)
      | at_review \<Rightarrow> (''Review'', 3)
      | at_completion \<Rightarrow> (''Completion'', 4)
      | at_knowledge_documentation \<Rightarrow> (''Knowledge & Documentation'', 5))"

text \<open>The requirements a definition leaves out have the defaults no tools, an API and no reasoning.\<close>

definition capability :: "int \<Rightarrow> bool \<Rightarrow> capability_requirements" where
  "capability n tools =
     \<lparr>cq_minimumContextWindowTokens = n, cq_requiresTools = tools, cq_requiresApi = True, cq_requiresReasoning = False\<rparr>"

definition canonicalDefinitions :: "(string \<times> action_type \<times> string \<times> int \<times> role_id \<times> int \<times> bool) list" where
  "canonicalDefinitions =
     [(''submit-epic'', at_discovery_planning, ''Submit EPIC'', 1, ro_product_architect, 32000, False),
      (''refine-epic'', at_discovery_planning, ''Refine EPIC'', 2, ro_product_architect, 32000, False),
      (''submit-feature'', at_discovery_planning, ''Submit Feature'', 3, ro_product_architect, 32000, False),
      (''deep-dive'', at_discovery_planning, ''Deep-Dive'', 4, ro_requirements, 32000, False),
      (''design-feature'', at_discovery_planning, ''Design Feature'', 5, ro_ux_design, 32000, False),
      (''refine-feature'', at_discovery_planning, ''Refine Feature'', 6, ro_planning, 32000, False),
      (''ui-requirement-evaluation'', at_discovery_planning, ''UI Requirement Evaluation'', 7, ro_requirements, 32000, False),
      (''start-feature'', at_implementation, ''Start Feature'', 1, ro_implementation, 32000, True),
      (''continue-implementing'', at_implementation, ''Continue Implementing'', 2, ro_implementation, 32000, True),
      (''phase-worker'', at_implementation, ''Phase Worker'', 3, ro_implementation, 32000, True),
      (''resolve-review-findings'', at_implementation, ''Resolve Review Findings'', 4, ro_implementation, 32000, True),
      (''workflow-recovery'', at_implementation, ''Workflow Recovery'', 5, ro_implementation, 32000, True),
      (''code-review'', at_review, ''Code Review'', 1, ro_code_review, 64000, True),
      (''complete-feature'', at_completion, ''Complete Feature'', 1, ro_completion, 32000, True),
      (''phase-lessons-capture'', at_knowledge_documentation, ''Phase Lessons Capture'', 1, ro_phase_lessons_capture, 32000, False),
      (''feature-lessons-writer'', at_knowledge_documentation, ''Feature Lessons Writer'', 2, ro_feature_lessons_writer, 32000, False),
      (''post-complete-lessons-curator'', at_knowledge_documentation, ''Post-Complete LessonsLearned Curator'', 3,
       ro_post_complete_lessons_curator, 32000, False)]"

definition canonical_entry :: "string \<times> action_type \<times> string \<times> int \<times> role_id \<times> int \<times> bool \<Rightarrow> registry_entry" where
  "canonical_entry d =
     (case d of (i, t, l, n, r, k, tools) \<Rightarrow>
       \<lparr>re_actionId = i, re_actionType = t, re_actionTypeLabel = fst (typeMetadata t), re_actionTypeDisplayOrder = snd (typeMetadata t),
        re_label = l, re_displayOrder = n, re_roleId = r, re_promptVersion = i @ ''/v1'', re_capabilityRequirements = capability k tools\<rparr>)"

definition canonicalEntries :: "registry_entry list" where
  "canonicalEntries = map canonical_entry canonicalDefinitions"

record agent_registry =
  ar_version :: string
  ar_entries :: "registry_entry list"

definition VERSION_RE :: rx where
  "VERSION_RE = rx_seqs [RCls is_lower, RStar (RCls (\<lambda>c. is_lower_alnum c \<or> c = CHR ''-'')), rx_lit ''/v'',
     RCls (in_range CHR ''1'' CHR ''9''), RStar (RCls is_digit)]"

text \<open>The constructor; it throws on an invalid version or collection.\<close>

definition new_registry :: "jsv \<Rightarrow> string \<Rightarrow> agent_registry option" where
  "new_registry entries version = do {
     chk (rx_full VERSION_RE version);
     es \<leftarrow> isAgentRegistryCollectionV1 entries;
     Some \<lparr>ar_version = version, ar_entries = es\<rparr> }"

definition registry_get :: "agent_registry \<Rightarrow> string \<Rightarrow> registry_entry option" where
  "registry_get reg i = js_map (map (\<lambda>e. (re_actionId e, e)) (ar_entries reg)) i"

definition by_orders :: "registry_entry \<Rightarrow> registry_entry \<Rightarrow> int" where
  "by_orders l r =
     (if re_actionTypeDisplayOrder l - re_actionTypeDisplayOrder r \<noteq> 0 then re_actionTypeDisplayOrder l - re_actionTypeDisplayOrder r
      else re_displayOrder l - re_displayOrder r)"

definition registry_list :: "agent_registry \<Rightarrow> registry_entry list" where
  "registry_list reg = sort_by by_orders (ar_entries reg)"

section \<open>Resolution\<close>

record bootstrap_route =
  bs_route :: route_identity
  bs_occurredAt :: string
  bs_actor :: "string option"
  bs_correlationId :: "string option"

definition nullable_text :: "jsv \<Rightarrow> string option option" where
  "nullable_text v = or_null (isBoundedString 512) v"

definition bootstrap_of :: "jsv \<Rightarrow> bootstrap_route option option" where
  "bootstrap_of v =
     (if v = JNull then Some None
      else do {
        chk (isRecord v);
        r \<leftarrow> isRouteIdentityV1 (jget v ''route'');
        t \<leftarrow> isCanonicalIsoTimestamp (jget v ''occurredAt'');
        a \<leftarrow> nullable_text (jget v ''actor'');
        c \<leftarrow> nullable_text (jget v ''correlationId'');
        chk (length (jkeys v) = 4);
        Some (Some \<lparr>bs_route = r, bs_occurredAt = t, bs_actor = a, bs_correlationId = c\<rparr>) })"

definition isResolutionInput :: "jsv \<Rightarrow> (string \<times> bootstrap_route option) option" where
  "isResolutionInput v = do {
     chk (isRecord v);
     i \<leftarrow> string_where (rx_full ACTION_ID_RE) (jget v ''actionId'');
     chk (hasOnlyKeys v [''actionId'', ''bootstrap'']);
     b \<leftarrow> bootstrap_of (jget v ''bootstrap'');
     Some (i, b) }"

definition isCatalogFact :: "jsv \<Rightarrow> route_fact option" where
  "isCatalogFact v = do {
     chk (isRecord v \<and> schema_v1 v);
     i \<leftarrow> isRouteIdentityV1 (jget v ''route'');
     ac \<leftarrow> as_bool (jget v ''connectionActive'');
     av \<leftarrow> as_bool (jget v ''available'');
     n \<leftarrow> or_null natural_bounded (jget v ''contextWindowTokens'');
     t \<leftarrow> or_null as_bool (jget v ''tools'');
     a \<leftarrow> or_null as_bool (jget v ''api'');
     r \<leftarrow> or_null as_bool (jget v ''reasoning'');
     chk (length (jkeys v) = 8);
     Some \<lparr>rf_route = i, rf_connectionActive = ac, rf_available = av, rf_contextWindowTokens = n, rf_tools = t, rf_api = a,
       rf_reasoning = r\<rparr> }"

definition catalog_of :: "jsv \<Rightarrow> route_fact list option" where
  "catalog_of v = do {
     fs \<leftarrow> array_of isCatalogFact v;
     chk (distinct (map (\<lambda>f. routeIdentityKey (rf_route f)) fs));
     Some fs }"

definition meets_requirements :: "capability_requirements \<Rightarrow> route_fact \<Rightarrow> bool" where
  "meets_requirements q f \<longleftrightarrow>
     \<not> ((case rf_contextWindowTokens f of None \<Rightarrow> - 1 | Some n \<Rightarrow> n) < cq_minimumContextWindowTokens q)
     \<and> \<not> (cq_requiresTools q \<and> rf_tools f \<noteq> Some True)
     \<and> \<not> (cq_requiresApi q \<and> rf_api f \<noteq> Some True)
     \<and> \<not> (cq_requiresReasoning q \<and> rf_reasoning f \<noteq> Some True)"

definition validateRoute :: "route_identity \<Rightarrow> registry_entry \<Rightarrow> route_fact list \<Rightarrow> bool \<Rightarrow> routing_code option" where
  "validateRoute r e fs global =
     (let unavailable = Some (if global then ROUTING_GLOBAL_UNAVAILABLE else ROUTING_ROUTE_UNAVAILABLE) in
      case List.find (\<lambda>f. routeIdentityKey (rf_route f) = routeIdentityKey r) fs of
        None \<Rightarrow> unavailable
      | Some f \<Rightarrow>
          if \<not> rf_connectionActive f \<or> \<not> rf_available f then unavailable
          else if \<not> meets_requirements (re_capabilityRequirements e) f then Some ROUTING_CAPABILITY_MISMATCH
          else None)"

definition route_at :: "policy_selector option \<Rightarrow> route_identity option" where
  "route_at s = (case s of None \<Rightarrow> None | Some p \<Rightarrow> (case ps_selector p of Select_route r \<Rightarrow> Some r | Inherit \<Rightarrow> None))"

definition selector_for :: "policy_revision \<Rightarrow> selector_scope \<Rightarrow> policy_selector option" where
  "selector_for pol sc = List.find (\<lambda>s. ps_scope s = sc) (pr_selectors pol)"

text \<open>The selector that decides, with its route and its source; the global selector has a route.\<close>

definition selected_policy :: "policy_revision \<Rightarrow> registry_entry \<Rightarrow> policy_selector \<Rightarrow> route_identity \<Rightarrow>
    policy_selector \<times> route_identity \<times> policy_source" where
  "selected_policy pol e global g =
     (let a = selector_for pol (Scope_action (re_actionId e)); t = selector_for pol (Scope_action_type (re_actionType e)) in
      case route_at a of
        Some r \<Rightarrow> (the a, r, From_action)
      | None \<Rightarrow>
          (case route_at t of
             Some r \<Rightarrow> (the t, r, From_action_type)
           | None \<Rightarrow> (global, g, From_global)))"

definition recovery_step :: "policy_selector \<Rightarrow> route_identity \<Rightarrow> policy_source \<Rightarrow> route_identity \<Rightarrow> registry_entry \<Rightarrow> route_fact list
    \<Rightarrow> routing_code + handoff_step list" where
  "recovery_step s primary source g e fs =
     (if source = From_global then Inr []
      else (case ps_failurePolicy s of
          Fail_immediately \<Rightarrow> Inr []
        | Reroute_global_once \<Rightarrow>
            (case validateRoute g e fs True of
               Some c \<Rightarrow> Inl c
             | None \<Rightarrow>
                 if routeIdentityKey primary = routeIdentityKey g then Inl ROUTING_INVALID_HANDOFF_CHAIN
                 else Inr [\<lparr>hs_kind = Recovery, hs_route = g\<rparr>])
        | Reroute_route_once fb \<Rightarrow>
            if routeIdentityKey primary = routeIdentityKey fb then Inl ROUTING_INVALID_HANDOFF_CHAIN
            else (case validateRoute fb e fs False of
                Some c \<Rightarrow> Inl c
              | None \<Rightarrow> Inr [\<lparr>hs_kind = Recovery, hs_route = fb\<rparr>])))"

definition resolvePolicy :: "policy_revision \<Rightarrow> registry_entry \<Rightarrow> route_fact list \<Rightarrow> routing_code + handoff_plan" where
  "resolvePolicy pol e fs =
     (case selector_for pol Scope_global of
        None \<Rightarrow> Inl ROUTING_INVALID_POLICY
      | Some global \<Rightarrow>
          (case ps_selector global of
             Inherit \<Rightarrow> Inl ROUTING_INVALID_POLICY
           | Select_route g \<Rightarrow>
               (case selected_policy pol e global g of (s, primary, source) \<Rightarrow>
                 (case validateRoute primary e fs (source = From_global) of
                    Some c \<Rightarrow> Inl c
                  | None \<Rightarrow>
                      (case recovery_step s primary source g e fs of
                         Inl c \<Rightarrow> Inl c
                       | Inr extra \<Rightarrow>
                           Inr \<lparr>hp_resolvedRoute = \<lparr>rv_action = e, rv_route = primary, rv_policySource = source,
                                  rv_revisionId = pr_revisionId pol\<rparr>,
                                hp_steps = \<lparr>hs_kind = Primary, hs_route = primary\<rparr> # extra\<rparr>)))))"

datatype policy_read = Read_throws | Read_policy "policy_revision option"

record policy_store =
  so_current :: policy_read
  so_apply :: "policy_mutation \<Rightarrow> validation_context \<Rightarrow> routing_code + policy_revision"
  so_again :: policy_read

definition bootstrap_mutation :: "agent_registry \<Rightarrow> bootstrap_route \<Rightarrow> policy_mutation" where
  "bootstrap_mutation reg b =
     \<lparr>pm_registryVersion = ar_version reg, pm_expectedRevisionId = None, pm_reason = rr_bootstrap, pm_occurredAt = bs_occurredAt b,
      pm_actor = bs_actor b, pm_correlationId = bs_correlationId b,
      pm_selectors = [\<lparr>ps_scope = Scope_global, ps_selector = Select_route (bs_route b), ps_failurePolicy = Fail_immediately\<rparr>]\<rparr>"

definition policy_or_bootstrap ::
  "agent_registry \<Rightarrow> policy_store \<Rightarrow> registry_entry \<Rightarrow> route_fact list \<Rightarrow> bootstrap_route option \<Rightarrow> routing_code + policy_revision" where
  "policy_or_bootstrap reg st e fs boot =
     (case so_current st of
        Read_throws \<Rightarrow> Inl ROUTING_INVALID_POLICY
      | Read_policy (Some pol) \<Rightarrow> Inr pol
      | Read_policy None \<Rightarrow>
          (case boot of
             None \<Rightarrow> Inl ROUTING_BOOTSTRAP_REQUIRED
           | Some b \<Rightarrow>
               (case validateRoute (bs_route b) e fs False of
                  Some c \<Rightarrow> Inl c
                | None \<Rightarrow>
                    (case so_apply st (bootstrap_mutation reg b) \<lparr>vc_registry = registry_list reg, vc_routes = fs\<rparr> of
                       Inr pol \<Rightarrow> Inr pol
                     | Inl c \<Rightarrow>
                         if c \<noteq> ROUTING_POLICY_CONFLICT then Inl c
                         else (case so_again st of
                             Read_throws \<Rightarrow> Inl ROUTING_INVALID_POLICY
                           | Read_policy None \<Rightarrow> Inl ROUTING_POLICY_CONFLICT
                           | Read_policy (Some pol) \<Rightarrow> Inr pol)))))"

definition resolve_route :: "agent_registry \<Rightarrow> policy_store \<Rightarrow> jsv \<Rightarrow> jsv \<Rightarrow> routing_code + handoff_plan" where
  "resolve_route reg st facts v =
     (case isResolutionInput v of
        None \<Rightarrow> Inl ROUTING_INVALID_REQUEST
      | Some (i, boot) \<Rightarrow>
          (case registry_get reg i of
             None \<Rightarrow> Inl ROUTING_UNKNOWN_ACTION
           | Some e \<Rightarrow>
               (case catalog_of facts of
                  None \<Rightarrow> Inl ROUTING_INVALID_REQUEST
                | Some fs \<Rightarrow>
                    (case policy_or_bootstrap reg st e fs boot of
                       Inl c \<Rightarrow> Inl c
                     | Inr pol \<Rightarrow>
                         if pr_registryVersion pol \<noteq> ar_version reg then Inl ROUTING_INVALID_POLICY
                         else resolvePolicy pol e fs))))"

definition resolution_input :: "string \<Rightarrow> bootstrap_route option \<Rightarrow> jsv" where
  "resolution_input i boot = JObj [(''actionId'', JStr i), (''bootstrap'',
     (case boot of
        None \<Rightarrow> JNull
      | Some b \<Rightarrow> JObj [(''route'', JObj [(''connectionId'', JStr (ri_connectionId (bs_route b))), (''modelId'', JStr (ri_modelId (bs_route b)))]),
          (''occurredAt'', JStr (bs_occurredAt b)),
          (''actor'', (case bs_actor b of None \<Rightarrow> JNull | Some a \<Rightarrow> JStr a)),
          (''correlationId'', (case bs_correlationId b of None \<Rightarrow> JNull | Some a \<Rightarrow> JStr a))]))]"

text \<open>The plan of a registered action: a second attempt with the route of the installation when the policy is unset.\<close>

definition resolvePlan :: "agent_registry \<Rightarrow> policy_store \<Rightarrow> jsv \<Rightarrow> bootstrap_route option \<Rightarrow> string \<Rightarrow> routing_code + handoff_plan" where
  "resolvePlan reg st facts boot i =
     (case resolve_route reg st facts (resolution_input i None) of
        Inl c \<Rightarrow>
          if c = ROUTING_BOOTSTRAP_REQUIRED \<and> boot \<noteq> None then resolve_route reg st facts (resolution_input i boot) else Inl c
      | Inr p \<Rightarrow> Inr p)"

end
