(* ===== verification/RoutingFacts.thy ===== *)
theory RoutingFacts
  imports Routing
begin

text \<open>
  Facts of agent routing: the guards read back what their records stand for, the canonical registry is a valid one, and a
  plan the resolver returns follows the precedence of the policy over routes of the catalog that meet the action's requirements.
\<close>

section \<open>Guards and encodings\<close>

lemma enum_name:
  "distinct (map fst names) \<Longrightarrow> (s, x) \<in> set names \<Longrightarrow> enum_of names (JStr s) = Some x"
  by (simp add: enum_of_def map_of_is_SomeI)

lemma action_type_name [simp]: "enum_of actionTypes (JStr (name_in actionTypes t)) = Some t"
  by (cases t) (simp_all add: enum_of_def actionTypes_def name_in_def)

lemma role_name [simp]: "enum_of roleIds (JStr (name_in roleIds r)) = Some r"
  by (cases r) (simp_all add: enum_of_def roleIds_def name_in_def)

definition put_null :: "('a \<Rightarrow> jsv) \<Rightarrow> 'a option \<Rightarrow> jsv" where
  "put_null f x = (case x of None \<Rightarrow> JNull | Some a \<Rightarrow> f a)"

definition route_ok :: "route_identity \<Rightarrow> bool" where
  "route_ok r \<longleftrightarrow> bounded_text 512 (ri_connectionId r) \<and> bounded_text 512 (ri_modelId r)"

definition put_route :: "route_identity \<Rightarrow> jsv" where
  "put_route r = JObj [(''connectionId'', JStr (ri_connectionId r)), (''modelId'', JStr (ri_modelId r))]"

lemma route_put: "route_ok r \<Longrightarrow> isRouteIdentityV1 (put_route r) = Some r"
  by (simp add: route_ok_def put_route_def isRouteIdentityV1_def isBoundedString_def string_where_def exactKeys_def)

lemma route_guard: "isRouteIdentityV1 v = Some r \<Longrightarrow> route_ok r"
  by (auto simp: isRouteIdentityV1_def route_ok_def isBoundedString_def Option.bind_eq_Some_conv split: if_splits)

definition requirements_ok :: "capability_requirements \<Rightarrow> bool" where
  "requirements_ok q \<longleftrightarrow> 0 < cq_minimumContextWindowTokens q \<and> cq_minimumContextWindowTokens q \<le> 10000000"

definition put_requirements :: "capability_requirements \<Rightarrow> jsv" where
  "put_requirements q = JObj [(''minimumContextWindowTokens'', JNum (JInt (cq_minimumContextWindowTokens q))),
     (''requiresTools'', JBool (cq_requiresTools q)), (''requiresApi'', JBool (cq_requiresApi q)),
     (''requiresReasoning'', JBool (cq_requiresReasoning q))]"

lemma requirements_put: "requirements_ok q \<Longrightarrow> isAgentCapabilityRequirementsV1 (put_requirements q) = Some q"
  by (simp add: requirements_ok_def put_requirements_def isAgentCapabilityRequirementsV1_def isPositiveInteger_def exactKeys_def)

lemma requirements_guard: "isAgentCapabilityRequirementsV1 v = Some q \<Longrightarrow> requirements_ok q"
  by (auto simp: isAgentCapabilityRequirementsV1_def requirements_ok_def isPositiveInteger_def Option.bind_eq_Some_conv split: if_splits)

definition entry_ok :: "registry_entry \<Rightarrow> bool" where
  "entry_ok e \<longleftrightarrow>
     bounded_text 128 (re_actionId e) \<and> rx_full ACTION_ID_RE (re_actionId e) \<and> bounded_text 256 (re_actionTypeLabel e)
     \<and> 0 < re_actionTypeDisplayOrder e \<and> re_actionTypeDisplayOrder e \<le> 10000000 \<and> bounded_text 256 (re_label e)
     \<and> 0 < re_displayOrder e \<and> re_displayOrder e \<le> 10000000 \<and> bounded_text 256 (re_promptVersion e)
     \<and> requirements_ok (re_capabilityRequirements e)"

definition put_entry :: "registry_entry \<Rightarrow> jsv" where
  "put_entry e = JObj [(''schemaVersion'', JStr ''agent-routing/v1''), (''actionId'', JStr (re_actionId e)),
     (''actionType'', JStr (name_in actionTypes (re_actionType e))), (''actionTypeLabel'', JStr (re_actionTypeLabel e)),
     (''actionTypeDisplayOrder'', JNum (JInt (re_actionTypeDisplayOrder e))), (''label'', JStr (re_label e)),
     (''displayOrder'', JNum (JInt (re_displayOrder e))), (''roleId'', JStr (name_in roleIds (re_roleId e))),
     (''promptVersion'', JStr (re_promptVersion e)), (''capabilityRequirements'', put_requirements (re_capabilityRequirements e))]"

lemma entry_put: "entry_ok e \<Longrightarrow> isAgentRegistryEntryV1 (put_entry e) = Some e"
  by (simp add: entry_ok_def put_entry_def isAgentRegistryEntryV1_def isActionId_def isBoundedString_def isPositiveInteger_def
      schema_v1_def exactKeys_def requirements_put string_where_def)

lemma entry_guard: "isAgentRegistryEntryV1 v = Some e \<Longrightarrow> entry_ok e"
  by (auto simp: isAgentRegistryEntryV1_def entry_ok_def isActionId_def isBoundedString_def isPositiveInteger_def
      Option.bind_eq_Some_conv dest: requirements_guard split: if_splits)

definition selector_ok :: "policy_selector \<Rightarrow> bool" where
  "selector_ok s \<longleftrightarrow>
     (case ps_selector s of Inherit \<Rightarrow> True | Select_route r \<Rightarrow> route_ok r)
     \<and> (case ps_failurePolicy s of Reroute_route_once r \<Rightarrow> route_ok r | _ \<Rightarrow> True)"

lemma selector_guard: "isRoutingPolicySelectorV1 v = Some s \<Longrightarrow> selector_ok s"
  by (auto simp: isRoutingPolicySelectorV1_def selector_ok_def isRouteSelectorV1_def isFailurePolicyV1_def
      Option.bind_eq_Some_conv dest: route_guard split: if_splits)

lemma revision_guard:
  "isRoutingPolicyRevisionV1 v = Some pol \<Longrightarrow> bounded_text 256 (pr_revisionId pol) \<and> (\<forall>s\<in>set (pr_selectors pol). selector_ok s)"
proof -
  assume "isRoutingPolicyRevisionV1 v = Some pol"
  then have "isBoundedString 256 (jget v ''revisionId'') = Some (pr_revisionId pol)"
      "array_of isRoutingPolicySelectorV1 (jget v ''selectors'') = Some (pr_selectors pol)"
    by (auto simp: isRoutingPolicyRevisionV1_def Option.bind_eq_Some_conv split: if_splits)
  then show ?thesis
    using array_of_inv [of isRoutingPolicySelectorV1 _ "pr_selectors pol" selector_ok] selector_guard
    by (auto simp: isBoundedString_def)
qed

definition put_step :: "handoff_step \<Rightarrow> jsv" where
  "put_step s = JObj [(''kind'', JStr (case hs_kind s of Primary \<Rightarrow> ''primary'' | Recovery \<Rightarrow> ''recovery'')), (''route'', put_route (hs_route s))]"

lemma step_put: "route_ok (hs_route s) \<Longrightarrow> isHandoffPlanStepV1 (put_step s) = Some s"
  by (cases "hs_kind s") (simp_all add: isHandoffPlanStepV1_def put_step_def enum_of_def route_put exactKeys_def)

definition plan_ok :: "handoff_plan \<Rightarrow> bool" where
  "plan_ok p \<longleftrightarrow>
     entry_ok (rv_action (hp_resolvedRoute p)) \<and> route_ok (rv_route (hp_resolvedRoute p))
     \<and> bounded_text 256 (rv_revisionId (hp_resolvedRoute p)) \<and> list_all (\<lambda>s. route_ok (hs_route s)) (hp_steps p)
     \<and> plan_steps_ok (hp_resolvedRoute p) (hp_steps p)"

definition put_plan :: "handoff_plan \<Rightarrow> jsv" where
  "put_plan p = JObj [(''schemaVersion'', JStr ''agent-routing/v1''),
     (''resolvedRoute'', JObj [(''schemaVersion'', JStr ''agent-routing/v1''), (''action'', put_entry (rv_action (hp_resolvedRoute p))),
        (''route'', put_route (rv_route (hp_resolvedRoute p))),
        (''policySource'', JStr (name_in policySources (rv_policySource (hp_resolvedRoute p)))),
        (''revisionId'', JStr (rv_revisionId (hp_resolvedRoute p)))]),
     (''steps'', JArr (map put_step (hp_steps p)))]"

lemma plan_put: "plan_ok p \<Longrightarrow> isHandoffPlanV1 (put_plan p) = Some p"
proof -
  assume ok: "plan_ok p"
  have src: "enum_of policySources (JStr (name_in policySources s)) = Some s" for s
    by (cases s) (simp_all add: policySources_def enum_of_def name_in_def)
  have steps: "array_of isHandoffPlanStepV1 (JArr (map put_step (hp_steps p))) = Some (hp_steps p)"
    using ok by (intro array_of_map step_put) (simp add: plan_ok_def list_all_iff)
  have "isResolvedRouteV1 (jget (put_plan p) ''resolvedRoute'') = Some (hp_resolvedRoute p)"
    using ok by (simp add: isResolvedRouteV1_def put_plan_def schema_v1_def plan_ok_def entry_put route_put src isBoundedString_def
        string_where_def exactKeys_def)
  moreover have "jget (put_plan p) ''steps'' = JArr (map put_step (hp_steps p))" "isRecord (put_plan p)" "schema_v1 (put_plan p)"
      "exactKeys (put_plan p) [''schemaVersion'', ''resolvedRoute'', ''steps'']"
    by (simp_all add: put_plan_def schema_v1_def exactKeys_def)
  ultimately show ?thesis
    using ok by (simp add: isHandoffPlanV1_def steps plan_ok_def)
qed

section \<open>The canonical registry\<close>

lemma collection_put:
  assumes "es \<noteq> []" and "list_all entry_ok es" and "distinct (map re_actionId es)" and "distinct (map role_prompt_key es)"
    and "distinct (map type_order_key es)" and "type_metadata_ok Map.empty Map.empty es"
  shows "isAgentRegistryCollectionV1 (JArr (map put_entry es)) = Some es"
proof -
  have "array_of isAgentRegistryEntryV1 (JArr (map put_entry es)) = Some es"
    using assms(2) by (intro array_of_map entry_put) (simp add: list_all_iff)
  then show ?thesis using assms by (simp add: isAgentRegistryCollectionV1_def)
qed

fun action_id_text :: "string \<Rightarrow> bool" where
  "action_id_text [] = False"
| "action_id_text (c # s) = (is_lower c \<and> list_all (\<lambda>d. is_lower_alnum d \<or> d = CHR ''-'') s)"

lemma canonical_ids: "list_all (\<lambda>d. rx_full ACTION_ID_RE (fst d)) canonicalDefinitions"
proof -
  have "rx_full ACTION_ID_RE s \<longleftrightarrow> action_id_text s" for s
    by (cases s) (auto simp: rx_full_iff ACTION_ID_RE_def rx_match_seq_cls)
  moreover have "list_all (\<lambda>d. action_id_text (fst d)) canonicalDefinitions" by code_simp
  ultimately show ?thesis by simp
qed

lemma canonical_texts:
  "list_all (\<lambda>e. bounded_text 128 (re_actionId e) \<and> bounded_text 256 (re_actionTypeLabel e) \<and> bounded_text 256 (re_label e)
     \<and> bounded_text 256 (re_promptVersion e)) canonicalEntries"
  by code_simp

lemma canonical_numbers:
  "list_all (\<lambda>e. 0 < re_actionTypeDisplayOrder e \<and> re_actionTypeDisplayOrder e \<le> 10000000 \<and> 0 < re_displayOrder e
     \<and> re_displayOrder e \<le> 10000000 \<and> requirements_ok (re_capabilityRequirements e)) canonicalEntries"
  by code_simp

lemma canonical_keys:
  "distinct (map re_actionId canonicalEntries)" "distinct (map role_prompt_key canonicalEntries)"
  "distinct (map type_order_key canonicalEntries)" "type_metadata_ok Map.empty Map.empty canonicalEntries"
  by code_simp+

lemma canonical_version: "rx_full VERSION_RE ''agent-registry/v1''"
  by (simp add: VERSION_RE_def rx_eval char_eval)

section \<open>The resolver\<close>

text \<open>A route of the catalog that an action may use.\<close>

definition usable :: "registry_entry \<Rightarrow> route_fact list \<Rightarrow> route_identity \<Rightarrow> bool" where
  "usable e fs r \<longleftrightarrow> list_ex (\<lambda>f. routeIdentityKey (rf_route f) = routeIdentityKey r \<and> rf_connectionActive f \<and> rf_available f
     \<and> meets_requirements (re_capabilityRequirements e) f) fs"

lemma validateRoute_None: "validateRoute r e fs b = None \<Longrightarrow> usable e fs r"
  by (auto simp: validateRoute_def usable_def list_ex_iff Let_def dest!: find_Some_set split: option.splits if_splits)

text \<open>The precedence of the policy: the selector of the action, of its type, and the global one; the first with a route decides.\<close>

definition precedence :: "policy_revision \<Rightarrow> registry_entry \<Rightarrow> (route_identity \<times> policy_source) list" where
  "precedence pol e = List.map_filter (\<lambda>(sc, src). map_option (\<lambda>r. (r, src)) (route_at (selector_for pol sc)))
     [(Scope_action (re_actionId e), From_action), (Scope_action_type (re_actionType e), From_action_type), (Scope_global, From_global)]"

lemma selector_for_set: "selector_for pol sc = Some p \<Longrightarrow> p \<in> set (pr_selectors pol)"
  by (auto simp: selector_for_def dest: find_Some_set)

lemma selected_precedence:
  assumes "selector_for pol Scope_global = Some global" and "ps_selector global = Select_route g"
    and "selected_policy pol e global g = (s, r, src)"
  shows "precedence pol e \<noteq> []" and "hd (precedence pol e) = (r, src)" and "s \<in> set (pr_selectors pol)" and "ps_selector s = Select_route r"
proof -
  let ?A = "selector_for pol (Scope_action (re_actionId e))" and ?T = "selector_for pol (Scope_action_type (re_actionType e))"
  have g: "route_at (Some global) = Some g" using assms(2) by (simp add: route_at_def)
  have none: "route_at None = None" by (simp add: route_at_def)
  have list: "precedence pol e = List.map_filter (\<lambda>(m, src). map_option (\<lambda>r. (r, src)) m)
      [(route_at ?A, From_action), (route_at ?T, From_action_type), (Some g, From_global)]"
    by (cases "route_at ?A"; cases "route_at ?T") (simp_all add: precedence_def List.map_filter_simps assms(1) g)
  note sel = selector_for_set
  have at: "\<exists>p. m = Some p \<and> ps_selector p = Select_route q" if "route_at m = Some q" for m q
    using that by (auto simp: route_at_def split: option.splits route_selector.splits)
  consider (a) q where "route_at ?A = Some q" | (t) q where "route_at ?A = None" "route_at ?T = Some q"
    | (g) "route_at ?A = None" "route_at ?T = None" by (cases "route_at ?A"; cases "route_at ?T") auto
  then have "precedence pol e \<noteq> [] \<and> hd (precedence pol e) = (r, src) \<and> s \<in> set (pr_selectors pol) \<and> ps_selector s = Select_route r"
  proof cases
    case (a q)
    then obtain p where "?A = Some p" "ps_selector p = Select_route q" using at by blast
    moreover from this a assms(3) have "s = p" "r = q" "src = From_action" by (auto simp: selected_policy_def)
    ultimately show ?thesis using a sel by (simp add: list List.map_filter_simps)
  next
    case (t q)
    then obtain p where "?T = Some p" "ps_selector p = Select_route q" using at by blast
    moreover from this t assms(3) have "s = p" "r = q" "src = From_action_type" by (auto simp: selected_policy_def)
    ultimately show ?thesis using t sel by (simp add: list List.map_filter_simps)
  next
    case g
    with assms(3) have "s = global" "r = g" "src = From_global" by (auto simp: selected_policy_def)
    then show ?thesis using g sel [OF assms(1)] assms(2) by (simp add: list List.map_filter_simps)
  qed
  then show "precedence pol e \<noteq> []" "hd (precedence pol e) = (r, src)" "s \<in> set (pr_selectors pol)" "ps_selector s = Select_route r"
    by blast+
qed

lemma recovery_step_Inr:
  assumes "recovery_step s r src g e fs = Inr steps"
  shows "steps = [] \<or> (src \<noteq> From_global \<and> (\<exists>q. steps = [\<lparr>hs_kind = Recovery, hs_route = q\<rparr>] \<and> usable e fs q \<and> q \<noteq> r
     \<and> (q = g \<or> ps_failurePolicy s = Reroute_route_once q)))"
  using assms unfolding recovery_step_def
  by (auto dest: validateRoute_None split: if_splits failure_policy.splits option.splits)

lemma resolvePolicy_Inr:
  assumes "resolvePolicy pol e fs = Inr p" and "\<forall>s\<in>set (pr_selectors pol). selector_ok s"
  shows "rv_action (hp_resolvedRoute p) = e" and "rv_revisionId (hp_resolvedRoute p) = pr_revisionId pol"
    and "precedence pol e \<noteq> []"
    and "hd (precedence pol e) = (rv_route (hp_resolvedRoute p), rv_policySource (hp_resolvedRoute p))"
    and "plan_steps_ok (hp_resolvedRoute p) (hp_steps p)"
    and "list_all (\<lambda>s. usable e fs (hs_route s) \<and> route_ok (hs_route s)) (hp_steps p)"
proof -
  from assms(1) obtain global where g1: "selector_for pol Scope_global = Some global"
    unfolding resolvePolicy_def by (auto split: option.splits)
  with assms(1) obtain g where glob: "selector_for pol Scope_global = Some global" "ps_selector global = Select_route g"
    unfolding resolvePolicy_def by (cases "ps_selector global") auto
  obtain s r src where sel: "selected_policy pol e global g = (s, r, src)" by (cases "selected_policy pol e global g")
  have prim: "validateRoute r e fs (src = From_global) = None"
    using assms(1) unfolding resolvePolicy_def by (simp add: glob sel split: option.splits)
  then obtain steps where rec: "recovery_step s r src g e fs = Inr steps"
    using assms(1) unfolding resolvePolicy_def by (cases "recovery_step s r src g e fs") (simp_all add: glob sel)
  then have p: "p = \<lparr>hp_resolvedRoute = \<lparr>rv_action = e, rv_route = r, rv_policySource = src, rv_revisionId = pr_revisionId pol\<rparr>,
      hp_steps = \<lparr>hs_kind = Primary, hs_route = r\<rparr> # steps\<rparr>"
    using assms(1) prim unfolding resolvePolicy_def by (simp add: glob sel)
  note prec = selected_precedence [OF glob sel]
  show "rv_action (hp_resolvedRoute p) = e" "rv_revisionId (hp_resolvedRoute p) = pr_revisionId pol" by (simp_all add: p)
  show "precedence pol e \<noteq> []" by (rule prec)
  show "hd (precedence pol e) = (rv_route (hp_resolvedRoute p), rv_policySource (hp_resolvedRoute p))" using prec by (simp add: p)
  have "global \<in> set (pr_selectors pol)" by (rule selector_for_set [OF glob(1)])
  with assms(2) glob(2) have "route_ok g" by (force simp: selector_ok_def)
  moreover have "selector_ok s" using assms(2) prec(3) by blast
  ultimately have ok: "route_ok r" "\<And>q. ps_failurePolicy s = Reroute_route_once q \<Longrightarrow> route_ok q"
    using prec(4) by (auto simp: selector_ok_def)
  have "plan_steps_ok (hp_resolvedRoute p) (hp_steps p) \<and> list_all (\<lambda>s. usable e fs (hs_route s) \<and> route_ok (hs_route s)) (hp_steps p)"
  proof (cases "steps = []")
    case True
    then show ?thesis using ok(1) validateRoute_None [OF prim] by (simp add: p plan_steps_ok_def)
  next
    case False
    then obtain q where q: "src \<noteq> From_global" "steps = [\<lparr>hs_kind = Recovery, hs_route = q\<rparr>]" "usable e fs q" "q \<noteq> r"
        "q = g \<or> ps_failurePolicy s = Reroute_route_once q"
      using recovery_step_Inr [OF rec] by blast
    then have "route_ok q" using ok(2) \<open>route_ok g\<close> by blast
    then show ?thesis using q(1-4) ok(1) validateRoute_None [OF prim] by (simp add: p plan_steps_ok_def)
  qed
  then show "plan_steps_ok (hp_resolvedRoute p) (hp_steps p)"
    and "list_all (\<lambda>s. usable e fs (hs_route s) \<and> route_ok (hs_route s)) (hp_steps p)" by blast+
qed

lemma registry_get_entry:
  assumes "new_registry entries version = Some reg" and "registry_get reg i = Some e"
  shows "entry_ok e" and "re_actionId e = i"
proof -
  from assms(1) have "\<exists>v. array_of isAgentRegistryEntryV1 v = Some (ar_entries reg)"
    by (auto simp: new_registry_def isAgentRegistryCollectionV1_def Option.bind_eq_Some_conv split: if_splits)
  then have "\<forall>e\<in>set (ar_entries reg). entry_ok e"
    using array_of_inv [of isAgentRegistryEntryV1 _ "ar_entries reg" entry_ok] entry_guard by blast
  moreover from assms(2) have "e \<in> set (ar_entries reg) \<and> re_actionId e = i"
    by (auto simp: registry_get_def dest!: js_map_Some)
  ultimately show "entry_ok e" "re_actionId e = i" by auto
qed

section \<open>Properties\<close>

text \<open>The canonical registry is one its own constructor accepts: its actions have distinct ids, prompts and positions and consistent
  types, every action is found under its id, and the list it returns is the declared order.\<close>

lemma canonical_registry:
  "\<exists>reg. new_registry (JArr (map put_entry canonicalEntries)) ''agent-registry/v1'' = Some reg
     \<and> list_all (\<lambda>e. registry_get reg (re_actionId e) = Some e) canonicalEntries \<and> registry_list reg = canonicalEntries"
proof -
  have ok: "list_all entry_ok canonicalEntries"
    using canonical_ids canonical_texts canonical_numbers
    by (auto simp: list_all_iff entry_ok_def canonicalEntries_def canonical_entry_def)
  let ?reg = "\<lparr>ar_version = ''agent-registry/v1'', ar_entries = canonicalEntries\<rparr>"
  have "new_registry (JArr (map put_entry canonicalEntries)) ''agent-registry/v1'' = Some ?reg"
    using collection_put [OF _ ok canonical_keys] canonical_version
    by (simp add: new_registry_def canonicalEntries_def canonicalDefinitions_def del: rx_full.simps)
  moreover have "list_all (\<lambda>e. registry_get ?reg (re_actionId e) = Some e) canonicalEntries"
    using canonical_keys(1) by (auto simp: registry_get_def list_all_iff js_map_distinct comp_def)
  moreover have "registry_list ?reg = canonicalEntries"
    by (simp add: registry_list_def, code_simp)
  ultimately show ?thesis by blast
qed

text \<open>C10. A plan the resolver returns for a stored policy is a valid plan, its route and source are the first in the precedence of the
  policy (action, type, global), and every step, the recovery included, is an active, available route of the catalog that meets the
  requirements of the action.\<close>

theorem resolved_plan:
  assumes "new_registry entries version = Some reg" and "isRoutingPolicyRevisionV1 w = Some pol"
    and "so_current st = Read_policy (Some pol)" and "resolve_route reg st facts v = Inr p"
  shows "isHandoffPlanV1 (put_plan p) = Some p
     \<and> precedence pol (rv_action (hp_resolvedRoute p)) \<noteq> []
     \<and> hd (precedence pol (rv_action (hp_resolvedRoute p))) = (rv_route (hp_resolvedRoute p), rv_policySource (hp_resolvedRoute p))
     \<and> (\<exists>boot fs. isResolutionInput v = Some (re_actionId (rv_action (hp_resolvedRoute p)), boot) \<and> catalog_of facts = Some fs
          \<and> list_all (\<lambda>s. usable (rv_action (hp_resolvedRoute p)) fs (hs_route s)) (hp_steps p))"
proof -
  from assms(3,4) obtain i boot e fs where
    r: "isResolutionInput v = Some (i, boot)" "registry_get reg i = Some e" "catalog_of facts = Some fs" "resolvePolicy pol e fs = Inr p"
    unfolding resolve_route_def policy_or_bootstrap_def by (auto split: option.splits prod.splits if_splits)
  note e = registry_get_entry [OF assms(1) r(2)]
  note pol = revision_guard [OF assms(2)]
  note res = resolvePolicy_Inr [OF r(4) conjunct2 [OF pol]]
  have steps: "list_all (\<lambda>s. route_ok (hs_route s)) (hp_steps p)" "list_all (\<lambda>s. usable e fs (hs_route s)) (hp_steps p)"
    using res(6) by (auto simp: list_all_iff)
  moreover have "route_ok (rv_route (hp_resolvedRoute p))"
    using res(5) steps(1) by (cases "hp_steps p") (auto simp: plan_steps_ok_def)
  ultimately have "plan_ok p" using res(1,2,5) e(1) pol by (simp add: plan_ok_def)
  with plan_put res(1,3,4) r(1,3) e(2) steps(2) show ?thesis by auto
qed

text \<open>A policy with a route for every action and another one, rerouted to the first on a failure, for implementation.\<close>

definition sample_route :: "string \<Rightarrow> route_identity" where
  "sample_route m = \<lparr>ri_connectionId = ''c'', ri_modelId = m\<rparr>"

definition sample_selector :: "jsv \<Rightarrow> string \<Rightarrow> string \<Rightarrow> jsv" where
  "sample_selector scope m failure =
     JObj [(''schemaVersion'', JStr ''agent-routing/v1''), (''scope'', scope),
       (''selector'', JObj [(''kind'', JStr ''route''), (''route'', put_route (sample_route m))]),
       (''failurePolicy'', JObj [(''kind'', JStr failure)])]"

definition sample_policy :: jsv where
  "sample_policy = JObj [(''schemaVersion'', JStr ''agent-routing/v1''), (''revisionId'', JStr ''r1''),
     (''registryVersion'', JStr ''agent-registry/v1''), (''reason'', JStr ''operator_mutation''),
     (''createdAt'', JStr ''2026-01-01T00:00:00.000Z''), (''actor'', JNull), (''correlationId'', JNull),
     (''selectors'', JArr [sample_selector (JObj [(''kind'', JStr ''global'')]) ''g'' ''fail_immediately'',
        sample_selector (JObj [(''kind'', JStr ''action_type''), (''actionType'', JStr ''implementation'')]) ''m'' ''reroute_global_once''])]"

definition sample_fact :: "string \<Rightarrow> jsv" where
  "sample_fact m = JObj [(''schemaVersion'', JStr ''agent-routing/v1''), (''route'', put_route (sample_route m)),
     (''connectionActive'', JBool True), (''available'', JBool True), (''contextWindowTokens'', JNum (JInt 128000)),
     (''tools'', JBool True), (''api'', JBool True), (''reasoning'', JNull)]"

lemma sample_revision:
  "isRoutingPolicyRevisionV1 sample_policy = Some
     \<lparr>pr_revisionId = ''r1'', pr_registryVersion = ''agent-registry/v1'', pr_reason = rr_operator_mutation,
      pr_createdAt = ''2026-01-01T00:00:00.000Z'', pr_actor = None, pr_correlationId = None,
      pr_selectors = [\<lparr>ps_scope = Scope_global, ps_selector = Select_route (sample_route ''g''), ps_failurePolicy = Fail_immediately\<rparr>,
        \<lparr>ps_scope = Scope_action_type at_implementation, ps_selector = Select_route (sample_route ''m''), ps_failurePolicy = Reroute_global_once\<rparr>]\<rparr>"
proof -
  have t: "isCanonicalIsoTimestamp (jget sample_policy ''createdAt'') = Some ''2026-01-01T00:00:00.000Z''"
  proof -
    have "canonical_iso ''2026-01-01T00:00:00.000Z''"
      by (simp add: canonical_iso_def ISO_TAIL_RE_def instant_ok_def decimal_at_def month_days_def rx_eval char_eval Let_def)
    then show ?thesis by (simp add: sample_policy_def isCanonicalIsoTimestamp_def)
  qed
  have "isBoundedString 256 (jget sample_policy ''revisionId'') = Some ''r1''"
    "isBoundedString 256 (jget sample_policy ''registryVersion'') = Some ''agent-registry/v1''"
    "enum_of revisionReasons (jget sample_policy ''reason'') = Some rr_operator_mutation"
    "or_null (isBoundedString 512) (jget sample_policy ''actor'') = Some None"
    "or_null (isBoundedString 512) (jget sample_policy ''correlationId'') = Some None"
    "isRecord sample_policy" "schema_v1 sample_policy" "exactKeys sample_policy [''schemaVersion'', ''revisionId'', ''registryVersion'',
      ''reason'', ''createdAt'', ''actor'', ''correlationId'', ''selectors'']"
    by code_simp+
  moreover have "array_of isRoutingPolicySelectorV1 (jget sample_policy ''selectors'') = Some
     [\<lparr>ps_scope = Scope_global, ps_selector = Select_route (sample_route ''g''), ps_failurePolicy = Fail_immediately\<rparr>,
        \<lparr>ps_scope = Scope_action_type at_implementation, ps_selector = Select_route (sample_route ''m''), ps_failurePolicy = Reroute_global_once\<rparr>]"
    by code_simp
  ultimately show ?thesis using t by (simp add: isRoutingPolicyRevisionV1_def)
qed

definition sample_entry :: registry_entry where
  "sample_entry = canonical_entry (''phase-worker'', at_implementation, ''Phase Worker'', 3, ro_implementation, 32000, True)"

definition sample_plan :: handoff_plan where
  "sample_plan = \<lparr>hp_resolvedRoute = \<lparr>rv_action = sample_entry, rv_route = sample_route ''m'', rv_policySource = From_action_type, rv_revisionId = ''r1''\<rparr>,
     hp_steps = [\<lparr>hs_kind = Primary, hs_route = sample_route ''m''\<rparr>, \<lparr>hs_kind = Recovery, hs_route = sample_route ''g''\<rparr>]\<rparr>"

lemma resolved_plan_witness:
  "isHandoffPlanV1 (put_plan sample_plan) = Some sample_plan"
proof -
  let ?pol = "\<lparr>pr_revisionId = ''r1'', pr_registryVersion = ''agent-registry/v1'', pr_reason = rr_operator_mutation,
      pr_createdAt = ''2026-01-01T00:00:00.000Z'', pr_actor = None, pr_correlationId = None,
      pr_selectors = [\<lparr>ps_scope = Scope_global, ps_selector = Select_route (sample_route ''g''), ps_failurePolicy = Fail_immediately\<rparr>,
        \<lparr>ps_scope = Scope_action_type at_implementation, ps_selector = Select_route (sample_route ''m''), ps_failurePolicy = Reroute_global_once\<rparr>]\<rparr>"
  let ?st = "\<lparr>so_current = Read_policy (Some ?pol), so_apply = (\<lambda>m v. Inl ROUTING_POLICY_CONFLICT), so_again = Read_throws\<rparr>"
  let ?v = "resolution_input ''phase-worker'' None" and ?facts = "JArr [sample_fact ''g'', sample_fact ''m'']"
  let ?fact = "\<lambda>m. \<lparr>rf_route = sample_route m, rf_connectionActive = True, rf_available = True, rf_contextWindowTokens = Some 128000,
      rf_tools = Some True, rf_api = Some True, rf_reasoning = None\<rparr>"
  obtain reg where reg: "new_registry (JArr (map put_entry canonicalEntries)) ''agent-registry/v1'' = Some reg"
      "list_all (\<lambda>e. registry_get reg (re_actionId e) = Some e) canonicalEntries" using canonical_registry by blast
  have "sample_entry \<in> set canonicalEntries" by (simp add: sample_entry_def canonicalEntries_def canonicalDefinitions_def)
  then have get: "registry_get reg ''phase-worker'' = Some sample_entry"
    using reg(2) by (auto simp: list_all_iff sample_entry_def canonical_entry_def)
  have version: "ar_version reg = ''agent-registry/v1''"
    using reg(1) by (auto simp: new_registry_def Option.bind_eq_Some_conv split: if_splits)
  have "rx_full ACTION_ID_RE ''phase-worker''" using canonical_ids by (simp add: canonicalDefinitions_def del: rx_full.simps)
  then have "isResolutionInput ?v = Some (''phase-worker'', None)"
    by (simp add: isResolutionInput_def resolution_input_def bootstrap_of_def hasOnlyKeys_def string_where_def del: rx_full.simps)
  moreover have "catalog_of ?facts = Some [?fact ''g'', ?fact ''m'']" by code_simp
  moreover have "resolvePolicy ?pol sample_entry [?fact ''g'', ?fact ''m''] = Inr sample_plan" by code_simp
  ultimately have "resolve_route reg ?st ?facts ?v = Inr sample_plan"
    by (simp add: resolve_route_def get version policy_or_bootstrap_def)
  with resolved_plan [OF reg(1) sample_revision _ this] show ?thesis by simp
qed

end
