(* ===== verification/RoutingStore.thy ===== *)
theory RoutingStore
  imports RoutingFacts
begin

text \<open>
  The durable routing policy (\<open>agent-routing-store.ts\<close>): immutable revisions with their selectors and dependencies, the
  singleton that names the current revision, and the attention a reset leaves behind; with the inputs of the matrix editor it
  guards (\<open>agent-routing-matrix.ts\<close>). A table is the list of its rows in the order of insertion and a primary key is a check
  on insertion. A method that throws is \<open>None\<close> and its transaction is rolled back. The columns that hold JSON text hold
  the value the guard reads back. SHA-256 in base64url is the parameter \<open>sha\<close>, the locale collation \<open>collate\<close>; the
  settlement of a row mutation is the argument \<open>settle\<close>, \<open>None\<close> when it answers null or throws.
\<close>

section \<open>Inputs of the matrix editor\<close>

definition ROUTING_MATRIX_POLICY_ID :: string where
  "ROUTING_MATRIX_POLICY_ID = ''installation-global''"

record expected_revision =
  xr_revisionId :: string
  xr_revisionNumber :: int

datatype row_selection = Row_inherit | Row_route route_identity failure_policy

record row_draft =
  dr_scope :: selector_scope
  dr_selection :: row_selection
  dr_expectedRevision :: expected_revision
  dr_revisionGuard :: string

record mutation_context =
  mx_registryVersion :: string
  mx_registry :: "registry_entry list"
  mx_routes :: "route_fact list"
  mx_occurredAt :: string
  mx_actor :: "string option"
  mx_correlationId :: "string option"

record attention_ack =
  ak_attentionId :: string
  ak_attentionRevisionId :: string
  ak_affectedRoute :: route_identity
  ak_expectedRevision :: expected_revision
  ak_revisionGuard :: string
  ak_acknowledgedAt :: string

record policy_identity =
  pi_revisionId :: string
  pi_revisionNumber :: int
  pi_registryVersion :: string
  pi_revisionGuard :: string

text \<open>The conditions on narrowed data; a method of the store that guards a typed argument asks these.\<close>

definition opt_bounded :: "nat \<Rightarrow> string option \<Rightarrow> bool" where
  "opt_bounded n x \<longleftrightarrow> (case x of None \<Rightarrow> True | Some s \<Rightarrow> bounded_text n s)"

definition scope_ok :: "selector_scope \<Rightarrow> bool" where
  "scope_ok sc \<longleftrightarrow> (case sc of Scope_action i \<Rightarrow> bounded_text 128 i \<and> rx_full ACTION_ID_RE i | _ \<Rightarrow> True)"

definition stored_selector_ok :: "policy_selector \<Rightarrow> bool" where
  "stored_selector_ok s \<longleftrightarrow> selector_ok s \<and> scope_ok (ps_scope s)"

definition collection_ok :: "registry_entry list \<Rightarrow> bool" where
  "collection_ok es \<longleftrightarrow> es \<noteq> [] \<and> list_all entry_ok es \<and> distinct (map re_actionId es) \<and> distinct (map role_prompt_key es)
     \<and> distinct (map type_order_key es) \<and> type_metadata_ok Map.empty Map.empty es"

definition fact_ok :: "route_fact \<Rightarrow> bool" where
  "fact_ok f \<longleftrightarrow> route_ok (rf_route f)
     \<and> (case rf_contextWindowTokens f of None \<Rightarrow> True | Some n \<Rightarrow> 0 \<le> n \<and> n \<le> 10000000)"

definition facts_ok :: "route_fact list \<Rightarrow> bool" where
  "facts_ok fs \<longleftrightarrow> list_all fact_ok fs \<and> distinct (map (\<lambda>f. routeIdentityKey (rf_route f)) fs)"

definition expected_ok :: "expected_revision \<Rightarrow> bool" where
  "expected_ok e \<longleftrightarrow> bounded_text 256 (xr_revisionId e) \<and> 0 < xr_revisionNumber e \<and> xr_revisionNumber e \<le> 2 ^ 53 - 1"

definition selection_ok :: "row_selection \<Rightarrow> bool" where
  "selection_ok s \<longleftrightarrow>
     (case s of Row_inherit \<Rightarrow> True
      | Row_route r f \<Rightarrow> route_ok r \<and> (case f of Reroute_route_once q \<Rightarrow> route_ok q | _ \<Rightarrow> True))"

definition draft_ok :: "row_draft \<Rightarrow> bool" where
  "draft_ok d \<longleftrightarrow> scope_ok (dr_scope d) \<and> selection_ok (dr_selection d) \<and> expected_ok (dr_expectedRevision d)
     \<and> bounded_text 512 (dr_revisionGuard d)
     \<and> (dr_scope d = Scope_global \<longrightarrow> (case dr_selection d of Row_route r f \<Rightarrow> f = Fail_immediately | Row_inherit \<Rightarrow> False))"

definition mutation_context_ok :: "mutation_context \<Rightarrow> bool" where
  "mutation_context_ok c \<longleftrightarrow> bounded_text 256 (mx_registryVersion c) \<and> collection_ok (mx_registry c) \<and> facts_ok (mx_routes c)
     \<and> canonical_iso (mx_occurredAt c) \<and> opt_bounded 512 (mx_actor c) \<and> opt_bounded 512 (mx_correlationId c)"

definition ack_ok :: "attention_ack \<Rightarrow> bool" where
  "ack_ok a \<longleftrightarrow> bounded_text 512 (ak_attentionId a) \<and> bounded_text 256 (ak_attentionRevisionId a) \<and> route_ok (ak_affectedRoute a)
     \<and> expected_ok (ak_expectedRevision a) \<and> bounded_text 512 (ak_revisionGuard a) \<and> canonical_iso (ak_acknowledgedAt a)"

definition mutation_ok :: "policy_mutation \<Rightarrow> bool" where
  "mutation_ok m \<longleftrightarrow> bounded_text 256 (pm_registryVersion m) \<and> opt_bounded 256 (pm_expectedRevisionId m)
     \<and> pm_reason m \<noteq> rr_catalog_reset \<and> canonical_iso (pm_occurredAt m) \<and> opt_bounded 512 (pm_actor m)
     \<and> opt_bounded 512 (pm_correlationId m) \<and> list_all stored_selector_ok (pm_selectors m)"

definition context_ok :: "validation_context \<Rightarrow> bool" where
  "context_ok c \<longleftrightarrow> collection_ok (vc_registry c) \<and> facts_ok (vc_routes c)"

definition revision_ok :: "policy_revision \<Rightarrow> bool" where
  "revision_ok p \<longleftrightarrow> bounded_text 256 (pr_revisionId p) \<and> bounded_text 256 (pr_registryVersion p) \<and> canonical_iso (pr_createdAt p)
     \<and> opt_bounded 512 (pr_actor p) \<and> opt_bounded 512 (pr_correlationId p) \<and> list_all stored_selector_ok (pr_selectors p)"

definition dependency_ok :: "routing_dependency \<Rightarrow> bool" where
  "dependency_ok d \<longleftrightarrow> bounded_text 256 (rd_revisionId d) \<and> route_ok (rd_route d) \<and> scope_ok (rd_selectorScope d)"

definition attention_ok :: "routing_attention \<Rightarrow> bool" where
  "attention_ok a \<longleftrightarrow> bounded_text 512 (ra_attentionId a) \<and> bounded_text 512 (ra_connectionId a) \<and> bounded_text 512 (ra_modelId a)
     \<and> bounded_text 256 (ra_reasonCode a) \<and> bounded_text 256 (ra_revisionId a) \<and> canonical_iso (ra_occurredAt a)
     \<and> (case ra_acknowledgedAt a of None \<Rightarrow> True | Some t \<Rightarrow> canonical_iso t)"

definition matrix_v1 :: "jsv \<Rightarrow> bool" where
  "matrix_v1 v \<longleftrightarrow> jget v ''schemaVersion'' = JStr ''agent-routing-matrix/v1''"

definition positive :: "jsv \<Rightarrow> int option" where
  "positive v = do { n \<leftarrow> as_int v; chk (0 < n \<and> n \<le> 2 ^ 53 - 1); Some n }"

definition isExpectedRevision :: "jsv \<Rightarrow> expected_revision option" where
  "isExpectedRevision v = do {
     chk (isRecord v \<and> exactKeys v [''revisionId'', ''revisionNumber'']);
     i \<leftarrow> isBoundedString 256 (jget v ''revisionId'');
     n \<leftarrow> positive (jget v ''revisionNumber'');
     Some \<lparr>xr_revisionId = i, xr_revisionNumber = n\<rparr> }"

definition isRowSelection :: "jsv \<Rightarrow> row_selection option" where
  "isRowSelection v =
     (if \<not> isRecord v then None
      else if exactKeys v [''kind''] \<and> jget v ''kind'' = JStr ''inherit'' then Some Row_inherit
      else if exactKeys v [''kind'', ''route'', ''failurePolicy''] \<and> jget v ''kind'' = JStr ''route'' then do {
        r \<leftarrow> isRouteIdentityV1 (jget v ''route'');
        f \<leftarrow> isFailurePolicyV1 (jget v ''failurePolicy'');
        Some (Row_route r f) }
      else None)"

definition isRoutingMatrixRowDraftV1 :: "jsv \<Rightarrow> row_draft option" where
  "isRoutingMatrixRowDraftV1 v = do {
     chk (isRecord v \<and> exactKeys v [''schemaVersion'', ''policyId'', ''scope'', ''selection'', ''expectedRevision'', ''revisionGuard'']);
     chk (matrix_v1 v \<and> jget v ''policyId'' = JStr ROUTING_MATRIX_POLICY_ID);
     sc \<leftarrow> isRoutingSelectorScopeV1 (jget v ''scope'');
     s \<leftarrow> isRowSelection (jget v ''selection'');
     e \<leftarrow> isExpectedRevision (jget v ''expectedRevision'');
     g \<leftarrow> isBoundedString 512 (jget v ''revisionGuard'');
     chk (sc = Scope_global \<longrightarrow> (case s of Row_route r f \<Rightarrow> f = Fail_immediately | Row_inherit \<Rightarrow> False));
     Some \<lparr>dr_scope = sc, dr_selection = s, dr_expectedRevision = e, dr_revisionGuard = g\<rparr> }"

definition isRoutingMatrixMutationContextV1 :: "jsv \<Rightarrow> mutation_context option" where
  "isRoutingMatrixMutationContextV1 v = do {
     chk (isRecord v \<and> exactKeys v [''schemaVersion'', ''registryVersion'', ''registry'', ''routes'', ''occurredAt'', ''actor'', ''correlationId'']);
     chk (matrix_v1 v);
     rv \<leftarrow> isBoundedString 256 (jget v ''registryVersion'');
     es \<leftarrow> isAgentRegistryCollectionV1 (jget v ''registry'');
     fs \<leftarrow> array_of isRoutingCatalogRouteFactV1 (jget v ''routes'');
     chk (distinct (map (\<lambda>f. routeIdentityKey (rf_route f)) fs));
     t \<leftarrow> isCanonicalIsoTimestamp (jget v ''occurredAt'');
     a \<leftarrow> or_null (isBoundedString 512) (jget v ''actor'');
     c \<leftarrow> or_null (isBoundedString 512) (jget v ''correlationId'');
     Some \<lparr>mx_registryVersion = rv, mx_registry = es, mx_routes = fs, mx_occurredAt = t, mx_actor = a, mx_correlationId = c\<rparr> }"

definition isRoutingMatrixAttentionAcknowledgeV1 :: "jsv \<Rightarrow> attention_ack option" where
  "isRoutingMatrixAttentionAcknowledgeV1 v = do {
     chk (isRecord v \<and> exactKeys v [''schemaVersion'', ''policyId'', ''attentionIdentity'', ''expectedRevision'', ''revisionGuard'', ''acknowledgedAt'']);
     chk (matrix_v1 v \<and> jget v ''policyId'' = JStr ROUTING_MATRIX_POLICY_ID);
     let n = jget v ''attentionIdentity'';
     chk (isRecord n \<and> exactKeys n [''attentionId'', ''attentionRevisionId'', ''affectedRoute'']);
     i \<leftarrow> isBoundedString 512 (jget n ''attentionId'');
     r \<leftarrow> isBoundedString 256 (jget n ''attentionRevisionId'');
     a \<leftarrow> isRouteIdentityV1 (jget n ''affectedRoute'');
     e \<leftarrow> isExpectedRevision (jget v ''expectedRevision'');
     g \<leftarrow> isBoundedString 512 (jget v ''revisionGuard'');
     t \<leftarrow> isCanonicalIsoTimestamp (jget v ''acknowledgedAt'');
     Some \<lparr>ak_attentionId = i, ak_attentionRevisionId = r, ak_affectedRoute = a, ak_expectedRevision = e, ak_revisionGuard = g,
       ak_acknowledgedAt = t\<rparr> }"

section \<open>The tables\<close>

record revision_row =
  rw_sequence :: int
  rw_revision_id :: string
  rw_registry_version :: string
  rw_reason :: revision_reason
  rw_created_at :: string
  rw_actor :: "string option"
  rw_correlation_id :: "string option"
  rw_revision_guard :: string

record selector_row =
  sl_revision_id :: string
  sl_scope_key :: string
  sl_selector :: policy_selector

record routing_db =
  rb_state :: "(string \<times> string) option"
  rb_revisions :: "revision_row list"
  rb_selectors :: "selector_row list"
  rb_dependencies :: "routing_dependency list"
  rb_attention :: "routing_attention list"

definition empty_routing_db :: routing_db where
  "empty_routing_db = \<lparr>rb_state = None, rb_revisions = [], rb_selectors = [], rb_dependencies = [], rb_attention = []\<rparr>"

definition createRevisionGuard :: "(string \<Rightarrow> string) \<Rightarrow> string \<Rightarrow> int \<Rightarrow> string \<Rightarrow> string" where
  "createRevisionGuard sha i n v =
     sha (ROUTING_MATRIX_POLICY_ID @ [CHR 0x00] @ i @ [CHR 0x00] @ int_text n @ [CHR 0x00] @ v)"

text \<open>The column of the guards is added to tables of an earlier version and filled for the revisions they hold.\<close>

record legacy_revision_row =
  lg_sequence :: int
  lg_revision_id :: string
  lg_registry_version :: string
  lg_reason :: revision_reason
  lg_created_at :: string
  lg_actor :: "string option"
  lg_correlation_id :: "string option"

definition ensureSchema :: "(string \<Rightarrow> string) \<Rightarrow> legacy_revision_row list \<Rightarrow> revision_row list" where
  "ensureSchema sha rows = map (\<lambda>r. \<lparr>rw_sequence = lg_sequence r, rw_revision_id = lg_revision_id r,
     rw_registry_version = lg_registry_version r, rw_reason = lg_reason r, rw_created_at = lg_created_at r, rw_actor = lg_actor r,
     rw_correlation_id = lg_correlation_id r,
     rw_revision_guard = createRevisionGuard sha (lg_revision_id r) (lg_sequence r) (lg_registry_version r)\<rparr>) rows"

section \<open>Reading\<close>

definition requiredBoundedText :: "nat \<Rightarrow> string \<Rightarrow> string option" where
  "requiredBoundedText n s = do { chk (bounded_text n s); Some s }"

definition requiredPositiveInteger :: "int \<Rightarrow> int option" where
  "requiredPositiveInteger n = do { chk (n \<le> 2 ^ 53 - 1 \<and> 1 \<le> n); Some n }"

definition parseSelector :: "selector_row \<Rightarrow> policy_selector option" where
  "parseSelector r = do { chk (stored_selector_ok (sl_selector r)); Some (sl_selector r) }"

definition selectorsForRevision :: "routing_db \<Rightarrow> string \<Rightarrow> selector_row list" where
  "selectorsForRevision db i = sort_by (\<lambda>l r. str_cmp (sl_scope_key l) (sl_scope_key r)) (filter (\<lambda>r. sl_revision_id r = i) (rb_selectors db))"

definition find_revision :: "routing_db \<Rightarrow> string \<Rightarrow> revision_row option" where
  "find_revision db i = List.find (\<lambda>r. rw_revision_id r = i) (rb_revisions db)"

definition readRevision :: "routing_db \<Rightarrow> string \<Rightarrow> policy_revision option" where
  "readRevision db i = do {
     row \<leftarrow> find_revision db i;
     ss \<leftarrow> parse_all parseSelector (selectorsForRevision db i);
     i' \<leftarrow> requiredBoundedText 512 (rw_revision_id row);
     v \<leftarrow> requiredBoundedText 512 (rw_registry_version row);
     chk (canonical_iso (rw_created_at row));
     chk (opt_bounded 512 (rw_actor row) \<and> opt_bounded 512 (rw_correlation_id row));
     let p = \<lparr>pr_revisionId = i', pr_registryVersion = v, pr_reason = rw_reason row, pr_createdAt = rw_created_at row,
        pr_actor = rw_actor row, pr_correlationId = rw_correlation_id row, pr_selectors = ss\<rparr>;
     chk (revision_ok p);
     Some p }"

text \<open>The current policy: \<open>None\<close> when the read throws, \<open>Some None\<close> before the first revision.\<close>

definition readBoundCurrentPolicy :: "routing_db \<Rightarrow> policy_revision option option" where
  "readBoundCurrentPolicy db =
     (case rb_state db of
        None \<Rightarrow> Some None
      | Some (i, v) \<Rightarrow> do {
          i' \<leftarrow> requiredBoundedText 256 i;
          v' \<leftarrow> requiredBoundedText 256 v;
          p \<leftarrow> readRevision db i';
          chk (pr_registryVersion p = v');
          Some (Some p) })"

definition getCurrentPolicy :: "routing_db \<Rightarrow> policy_revision option option" where
  "getCurrentPolicy db = readBoundCurrentPolicy db"

definition getCurrentRevisionGuard :: "routing_db \<Rightarrow> policy_identity option option" where
  "getCurrentRevisionGuard db =
     (case rb_state db of
        None \<Rightarrow> Some None
      | Some (i, sv) \<Rightarrow> do {
          i' \<leftarrow> requiredBoundedText 256 i;
          row \<leftarrow> find_revision db i';
          n \<leftarrow> requiredPositiveInteger (rw_sequence row);
          v \<leftarrow> requiredBoundedText 256 (rw_registry_version row);
          sv' \<leftarrow> requiredBoundedText 256 sv;
          chk (sv' = v);
          g \<leftarrow> requiredBoundedText 512 (rw_revision_guard row);
          Some (Some \<lparr>pi_revisionId = i', pi_revisionNumber = n, pi_registryVersion = v, pi_revisionGuard = g\<rparr>) })"

section \<open>Validation of a policy\<close>

definition entriesForScope :: "selector_scope \<Rightarrow> registry_entry list \<Rightarrow> registry_entry list" where
  "entriesForScope sc es =
     (case sc of
        Scope_action i \<Rightarrow> filter (\<lambda>e. re_actionId e = i) es
      | Scope_action_type t \<Rightarrow> filter (\<lambda>e. re_actionType e = t) es
      | Scope_global \<Rightarrow> es)"

definition meetsRequirements :: "route_fact \<Rightarrow> capability_requirements \<Rightarrow> bool" where
  "meetsRequirements f q \<longleftrightarrow>
     cq_minimumContextWindowTokens q \<le> (case rf_contextWindowTokens f of None \<Rightarrow> - 1 | Some n \<Rightarrow> n)
     \<and> (\<not> cq_requiresTools q \<or> rf_tools f = Some True) \<and> (\<not> cq_requiresApi q \<or> rf_api f = Some True)
     \<and> (\<not> cq_requiresReasoning q \<or> rf_reasoning f = Some True)"

definition validate_route :: "route_identity \<Rightarrow> registry_entry list \<Rightarrow> route_fact list \<Rightarrow> routing_code option" where
  "validate_route r es fs =
     (case List.find (\<lambda>f. routeIdentityKey (rf_route f) = routeIdentityKey r) fs of
        None \<Rightarrow> Some ROUTING_ROUTE_UNAVAILABLE
      | Some f \<Rightarrow>
          if \<not> rf_connectionActive f \<or> \<not> rf_available f then Some ROUTING_ROUTE_UNAVAILABLE
          else if list_ex (\<lambda>e. \<not> meetsRequirements f (re_capabilityRequirements e)) es then Some ROUTING_CAPABILITY_MISMATCH
          else None)"

text \<open>The body of the loop over the selectors, after the scope has been seen to be new and known.\<close>

definition check_routes :: "validation_context \<Rightarrow> policy_selector \<Rightarrow> routing_code option" where
  "check_routes ctx s =
     (let es = entriesForScope (ps_scope s) (vc_registry ctx) in
      case ps_selector s of
        Inherit \<Rightarrow> None
      | Select_route r \<Rightarrow>
          (case validate_route r es (vc_routes ctx) of
             Some c \<Rightarrow> Some c
           | None \<Rightarrow>
               (case ps_failurePolicy s of
                  Reroute_route_once q \<Rightarrow>
                    if routeIdentityKey r = routeIdentityKey q then Some ROUTING_INVALID_HANDOFF_CHAIN
                    else validate_route q es (vc_routes ctx)
                | _ \<Rightarrow> None)))"

definition check_shape :: "policy_selector \<Rightarrow> bool" where
  "check_shape s \<longleftrightarrow>
     (if ps_scope s = Scope_global then ps_selector s \<noteq> Inherit \<and> ps_failurePolicy s = Fail_immediately
      else ps_selector s = Inherit \<longrightarrow> ps_failurePolicy s = Fail_immediately)"

fun check_selectors :: "validation_context \<Rightarrow> string list \<Rightarrow> policy_selector list \<Rightarrow> routing_code option" where
  "check_selectors ctx scopes [] = None"
| "check_selectors ctx scopes (s # ss) =
     (if selectorScopeKey (ps_scope s) \<in> set scopes then Some ROUTING_INVALID_POLICY
      else if (case ps_scope s of Scope_action i \<Rightarrow> i \<notin> re_actionId ` set (vc_registry ctx) | _ \<Rightarrow> False)
        then Some ROUTING_INVALID_POLICY
      else if \<not> check_shape s then Some ROUTING_INVALID_POLICY
      else (case check_routes ctx s of
          Some c \<Rightarrow> Some c
        | None \<Rightarrow> check_selectors ctx (selectorScopeKey (ps_scope s) # scopes) ss))"

definition validateMutation :: "policy_mutation \<Rightarrow> validation_context \<Rightarrow> policy_revision option \<Rightarrow> routing_code option" where
  "validateMutation m ctx cur =
     (if \<not> mutation_ok m \<or> \<not> context_ok ctx then Some ROUTING_INVALID_REQUEST
      else if map_option pr_revisionId cur \<noteq> pm_expectedRevisionId m then Some ROUTING_POLICY_CONFLICT
      else if (case cur of None \<Rightarrow> False | Some p \<Rightarrow> pr_registryVersion p \<noteq> pm_registryVersion m) then Some ROUTING_INVALID_POLICY
      else if cur = None \<and> pm_reason m \<noteq> rr_bootstrap then Some ROUTING_INVALID_POLICY
      else (case check_selectors ctx [] (pm_selectors m) of
          Some c \<Rightarrow> Some c
        | None \<Rightarrow>
            if length (filter (\<lambda>s. ps_scope s = Scope_global) (pm_selectors m)) = 1 then None else Some ROUTING_INVALID_POLICY))"

definition referencedRoutes :: "policy_selector \<Rightarrow> route_identity list" where
  "referencedRoutes s =
     (case ps_selector s of Select_route r \<Rightarrow> [r] | Inherit \<Rightarrow> [])
     @ (case ps_failurePolicy s of Reroute_route_once q \<Rightarrow> [q] | _ \<Rightarrow> [])"

definition selectorReferences :: "policy_selector \<Rightarrow> string set \<Rightarrow> bool" where
  "selectorReferences s unavailable \<longleftrightarrow> list_ex (\<lambda>r. routeIdentityKey r \<in> unavailable) (referencedRoutes s)"

section \<open>Writing\<close>

text \<open>A revision that is prepared and not yet inserted.\<close>

record revision_candidate =
  rc_revision :: policy_revision
  rc_identity :: policy_identity

definition nextSequence :: "routing_db \<Rightarrow> int" where
  "nextSequence db = foldr max (map rw_sequence (rb_revisions db)) 0 + 1"

definition revision_id_of :: "int \<Rightarrow> string" where
  "revision_id_of n = ''routing-revision-'' @ int_text n"

text \<open>An integer column that is no safe integer cannot be read as a number; the driver throws.\<close>

definition prepareRevision ::
  "(string \<Rightarrow> string) \<Rightarrow> (string \<Rightarrow> string \<Rightarrow> int) \<Rightarrow> routing_db \<Rightarrow> policy_mutation \<Rightarrow> revision_reason \<Rightarrow> policy_selector list
     \<Rightarrow> revision_candidate option" where
  "prepareRevision sha collate db m reason ss = do {
     let n = nextSequence db;
     chk (1 \<le> n \<and> n \<le> 2 ^ 53 - 1);
     let i = revision_id_of n;
     let ordered = sort_by (\<lambda>l r. collate (selectorScopeKey (ps_scope l)) (selectorScopeKey (ps_scope r))) ss;
     Some \<lparr>rc_revision = \<lparr>pr_revisionId = i, pr_registryVersion = pm_registryVersion m, pr_reason = reason,
             pr_createdAt = pm_occurredAt m, pr_actor = pm_actor m, pr_correlationId = pm_correlationId m, pr_selectors = ordered\<rparr>,
           rc_identity = \<lparr>pi_revisionId = i, pi_revisionNumber = n, pi_registryVersion = pm_registryVersion m,
             pi_revisionGuard = createRevisionGuard sha i n (pm_registryVersion m)\<rparr>\<rparr> }"

definition insert_unique :: "('a \<Rightarrow> 'k) \<Rightarrow> 'a \<Rightarrow> 'a list \<Rightarrow> 'a list option" where
  "insert_unique key row rows = do { chk (key row \<notin> key ` set rows); Some (rows @ [row]) }"

definition insert_revision_row :: "revision_row \<Rightarrow> routing_db \<Rightarrow> routing_db option" where
  "insert_revision_row r db = do {
     chk (rw_sequence r \<notin> rw_sequence ` set (rb_revisions db) \<and> rw_revision_id r \<notin> rw_revision_id ` set (rb_revisions db));
     Some (db\<lparr>rb_revisions := rb_revisions db @ [r]\<rparr>) }"

fun insert_dependencies :: "string \<Rightarrow> selector_scope \<Rightarrow> route_identity list \<Rightarrow> routing_db \<Rightarrow> routing_db option" where
  "insert_dependencies i sc [] db = Some db"
| "insert_dependencies i sc (r # rs) db = do {
     ds \<leftarrow> insert_unique (\<lambda>d. d) \<lparr>rd_revisionId = i, rd_route = r, rd_selectorScope = sc\<rparr> (rb_dependencies db);
     insert_dependencies i sc rs (db\<lparr>rb_dependencies := ds\<rparr>) }"

fun insert_selectors :: "string \<Rightarrow> policy_selector list \<Rightarrow> routing_db \<Rightarrow> routing_db option" where
  "insert_selectors i [] db = Some db"
| "insert_selectors i (s # ss) db = do {
     rows \<leftarrow> insert_unique (\<lambda>r. (sl_revision_id r, sl_scope_key r))
       \<lparr>sl_revision_id = i, sl_scope_key = selectorScopeKey (ps_scope s), sl_selector = s\<rparr> (rb_selectors db);
     db' \<leftarrow> insert_dependencies i (ps_scope s) (referencedRoutes s) (db\<lparr>rb_selectors := rows\<rparr>);
     insert_selectors i ss db' }"

definition insertPreparedRevision :: "revision_candidate \<Rightarrow> routing_db \<Rightarrow> routing_db option" where
  "insertPreparedRevision c db =
     (let p = rc_revision c; d = rc_identity c in do {
        db1 \<leftarrow> insert_revision_row \<lparr>rw_sequence = pi_revisionNumber d, rw_revision_id = pr_revisionId p,
          rw_registry_version = pr_registryVersion p, rw_reason = pr_reason p, rw_created_at = pr_createdAt p, rw_actor = pr_actor p,
          rw_correlation_id = pr_correlationId p, rw_revision_guard = pi_revisionGuard d\<rparr> db;
        db2 \<leftarrow> insert_selectors (pr_revisionId p) (pr_selectors p) db1;
        Some (db2\<lparr>rb_state := Some (pr_revisionId p, pr_registryVersion p)\<rparr>) })"

definition insertRevision ::
  "(string \<Rightarrow> string) \<Rightarrow> (string \<Rightarrow> string \<Rightarrow> int) \<Rightarrow> policy_mutation \<Rightarrow> revision_reason \<Rightarrow> policy_selector list \<Rightarrow> routing_db
     \<Rightarrow> (policy_revision \<times> routing_db) option" where
  "insertRevision sha collate m reason ss db = do {
     c \<leftarrow> prepareRevision sha collate db m reason ss;
     db' \<leftarrow> insertPreparedRevision c db;
     Some (rc_revision c, db') }"

section \<open>The operations\<close>

text \<open>
  A policy is validated against a first reading, \<open>seen\<close>, and written in a transaction on \<open>db\<close>, which another process may have
  changed in between. \<open>None\<close> is a throw; the caller keeps its tables.
\<close>

definition applyMutation ::
  "(string \<Rightarrow> string) \<Rightarrow> (string \<Rightarrow> string \<Rightarrow> int) \<Rightarrow> policy_mutation \<Rightarrow> validation_context \<Rightarrow> routing_db \<Rightarrow> routing_db
     \<Rightarrow> ((routing_code + policy_revision) \<times> routing_db) option" where
  "applyMutation sha collate m ctx seen db = do {
     cur0 \<leftarrow> getCurrentPolicy seen;
     case validateMutation m ctx cur0 of
       Some c \<Rightarrow> Some (Inl c, db)
     | None \<Rightarrow> do {
         cur \<leftarrow> readBoundCurrentPolicy db;
         if map_option pr_revisionId cur \<noteq> pm_expectedRevisionId m then Some (Inl ROUTING_POLICY_CONFLICT, db)
         else do {
           (p, db') \<leftarrow> insertRevision sha collate m (pm_reason m) (pm_selectors m) db;
           Some (Inr p, db') } } }"

definition attention_id_of :: "string \<Rightarrow> nat \<Rightarrow> string \<Rightarrow> string" where
  "attention_id_of i k m = ''routing-attention-'' @ i @ ''-'' @ nat_digits k @ ''-'' @ m"

definition reset_attention :: "string set \<Rightarrow> string \<Rightarrow> string \<Rightarrow> string \<Rightarrow> nat \<Rightarrow> policy_selector \<Rightarrow> routing_attention list" where
  "reset_attention unavailable reason i t k s =
     map (\<lambda>r. \<lparr>ra_attentionId = attention_id_of i k (ri_modelId r), ra_connectionId = ri_connectionId r, ra_modelId = ri_modelId r,
            ra_reasonCode = reason, ra_revisionId = i, ra_occurredAt = t, ra_acknowledgedAt = None\<rparr>)
       (filter (\<lambda>r. routeIdentityKey r \<in> unavailable) (referencedRoutes s))"

fun insert_attention :: "routing_attention list \<Rightarrow> routing_db \<Rightarrow> routing_db option" where
  "insert_attention [] db = Some db"
| "insert_attention (a # rows) db = do {
     as \<leftarrow> insert_unique ra_attentionId a (rb_attention db);
     insert_attention rows (db\<lparr>rb_attention := as\<rparr>) }"

definition affected_by :: "string set \<Rightarrow> policy_selector \<Rightarrow> bool" where
  "affected_by unavailable s \<longleftrightarrow> ps_scope s \<noteq> Scope_global \<and> selectorReferences s unavailable"

record reset_request =
  rq_registryVersion :: string
  rq_unavailable :: "route_identity list"
  rq_reasonCode :: string
  rq_occurredAt :: string
  rq_actor :: "string option"
  rq_correlationId :: "string option"

definition reset_request_ok :: "reset_request \<Rightarrow> bool" where
  "reset_request_ok q \<longleftrightarrow> bounded_text 256 (rq_registryVersion q) \<and> canonical_iso (rq_occurredAt q) \<and> opt_bounded 512 (rq_actor q)
     \<and> opt_bounded 512 (rq_correlationId q) \<and> bounded_text 256 (rq_reasonCode q) \<and> list_all route_ok (rq_unavailable q)"

text \<open>The answer is \<open>None\<close> (the value null) when there is nothing to reset.\<close>

definition resetUnavailableRoutes ::
  "(string \<Rightarrow> string) \<Rightarrow> (string \<Rightarrow> string \<Rightarrow> int) \<Rightarrow> reset_request \<Rightarrow> routing_db \<Rightarrow> routing_db
     \<Rightarrow> ((routing_code + policy_revision) option \<times> routing_db) option" where
  "resetUnavailableRoutes sha collate q seen db =
     (if \<not> reset_request_ok q then Some (Some (Inl ROUTING_INVALID_REQUEST), db)
      else do {
        cur0 \<leftarrow> getCurrentPolicy seen;
        case cur0 of
          None \<Rightarrow> Some (None, db)
        | Some p \<Rightarrow>
            if pr_registryVersion p \<noteq> rq_registryVersion q then Some (Some (Inl ROUTING_INVALID_POLICY), db)
            else (let unavailable = routeIdentityKey ` set (rq_unavailable q);
                      affected = filter (affected_by unavailable) (pr_selectors p);
                      kept = filter (\<lambda>s. \<not> affected_by unavailable s) (pr_selectors p) in
              if affected = [] then Some (None, db)
              else do {
                cur \<leftarrow> readBoundCurrentPolicy db;
                if map_option pr_revisionId cur \<noteq> Some (pr_revisionId p) then Some (Some (Inl ROUTING_POLICY_CONFLICT), db)
                else do {
                  (p', db1) \<leftarrow> insertRevision sha collate
                    \<lparr>pm_registryVersion = rq_registryVersion q, pm_expectedRevisionId = Some (pr_revisionId p),
                      pm_reason = rr_operator_mutation, pm_occurredAt = rq_occurredAt q, pm_actor = rq_actor q,
                      pm_correlationId = rq_correlationId q, pm_selectors = kept\<rparr> rr_catalog_reset kept db;
                  db2 \<leftarrow> insert_attention (concat (map (\<lambda>(k, s). reset_attention unavailable (rq_reasonCode q) (pr_revisionId p')
                    (rq_occurredAt q) k s) (List.enumerate 0 affected))) db1;
                  Some (Some (Inr p'), db2) } }) })"

section \<open>Dependencies and attention\<close>

definition rowToDependency :: "routing_dependency \<Rightarrow> routing_dependency option" where
  "rowToDependency d = do { chk (dependency_ok d); Some d }"

definition rowToAttention :: "routing_attention \<Rightarrow> routing_attention option" where
  "rowToAttention a = do { chk (attention_ok a); Some a }"

text \<open>The text of a scope as the column holds it, the discriminant first, as its callers build it; an identifier has nothing to escape.\<close>

definition quoted :: "string \<Rightarrow> string" where
  "quoted s = [CHR 0x22] @ s @ [CHR 0x22]"

definition scope_json :: "selector_scope \<Rightarrow> string" where
  "scope_json sc =
     ''{'' @ quoted ''kind'' @ '':'' @
     (case sc of
        Scope_global \<Rightarrow> quoted ''global''
      | Scope_action i \<Rightarrow> quoted ''action'' @ '','' @ quoted ''actionId'' @ '':'' @ quoted i
      | Scope_action_type t \<Rightarrow> quoted ''action_type'' @ '','' @ quoted ''actionType'' @ '':'' @ quoted (name_in actionTypes t)) @ ''}''"

definition by_dependency :: "routing_dependency \<Rightarrow> routing_dependency \<Rightarrow> int" where
  "by_dependency l r =
     (if str_cmp (ri_connectionId (rd_route l)) (ri_connectionId (rd_route r)) \<noteq> 0
        then str_cmp (ri_connectionId (rd_route l)) (ri_connectionId (rd_route r))
      else if str_cmp (ri_modelId (rd_route l)) (ri_modelId (rd_route r)) \<noteq> 0
        then str_cmp (ri_modelId (rd_route l)) (ri_modelId (rd_route r))
      else str_cmp (scope_json (rd_selectorScope l)) (scope_json (rd_selectorScope r)))"

definition by_attention :: "routing_attention \<Rightarrow> routing_attention \<Rightarrow> int" where
  "by_attention l r =
     (if str_cmp (ra_occurredAt l) (ra_occurredAt r) \<noteq> 0 then str_cmp (ra_occurredAt l) (ra_occurredAt r)
      else str_cmp (ra_attentionId l) (ra_attentionId r))"

definition listCurrentDependencies :: "routing_db \<Rightarrow> routing_dependency list option" where
  "listCurrentDependencies db = do {
     cur \<leftarrow> getCurrentPolicy db;
     case cur of
       None \<Rightarrow> Some []
     | Some p \<Rightarrow> parse_all rowToDependency
         (sort_by by_dependency (filter (\<lambda>d. rd_revisionId d = pr_revisionId p) (rb_dependencies db))) }"

definition listCurrentAttention :: "routing_db \<Rightarrow> routing_attention list option" where
  "listCurrentAttention db = do {
     cur \<leftarrow> getCurrentPolicy db;
     case cur of
       None \<Rightarrow> Some []
     | Some p \<Rightarrow> parse_all rowToAttention
         (sort_by by_attention (filter (\<lambda>a. ra_revisionId a = pr_revisionId p) (rb_attention db))) }"

definition acknowledge_rows :: "string \<Rightarrow> string \<Rightarrow> routing_attention list \<Rightarrow> routing_attention list" where
  "acknowledge_rows i t as = map (\<lambda>a. if ra_attentionId a = i \<and> ra_acknowledgedAt a = None then a\<lparr>ra_acknowledgedAt := Some t\<rparr> else a) as"

definition acknowledge_changes :: "string \<Rightarrow> routing_attention list \<Rightarrow> nat" where
  "acknowledge_changes i as = length (filter (\<lambda>a. ra_attentionId a = i \<and> ra_acknowledgedAt a = None) as)"

definition acknowledgeAttention :: "string \<Rightarrow> string \<Rightarrow> routing_db \<Rightarrow> bool \<times> routing_db" where
  "acknowledgeAttention i t db =
     (if \<not> bounded_text 512 i \<or> \<not> canonical_iso t then (False, db)
      else (acknowledge_changes i (rb_attention db) = 1, db\<lparr>rb_attention := acknowledge_rows i t (rb_attention db)\<rparr>))"

datatype ack_code = ACK_INVALID_REQUEST | ACK_POLICY_CONFLICT | ACK_ATTENTION_CONFLICT

definition acknowledgeMatrixAttention :: "attention_ack \<Rightarrow> routing_db \<Rightarrow> (ack_code option \<times> routing_db) option" where
  "acknowledgeMatrixAttention k db =
     (if \<not> ack_ok k then Some (Some ACK_INVALID_REQUEST, db)
      else do {
        identity \<leftarrow> getCurrentRevisionGuard db;
        case identity of
          None \<Rightarrow> Some (Some ACK_POLICY_CONFLICT, db)
        | Some d \<Rightarrow>
            if xr_revisionId (ak_expectedRevision k) \<noteq> pi_revisionId d \<or> xr_revisionNumber (ak_expectedRevision k) \<noteq> pi_revisionNumber d
               \<or> ak_revisionGuard k \<noteq> pi_revisionGuard d then Some (Some ACK_POLICY_CONFLICT, db)
            else (case List.find (\<lambda>a. ra_attentionId a = ak_attentionId k) (rb_attention db) of
                None \<Rightarrow> Some (Some ACK_ATTENTION_CONFLICT, db)
              | Some row \<Rightarrow> do {
                  a \<leftarrow> rowToAttention row;
                  if ra_revisionId a \<noteq> ak_attentionRevisionId k \<or> ra_connectionId a \<noteq> ri_connectionId (ak_affectedRoute k)
                     \<or> ra_modelId a \<noteq> ri_modelId (ak_affectedRoute k) \<or> date_parse (ak_acknowledgedAt k) < date_parse (ra_occurredAt a)
                     \<or> ra_revisionId a \<noteq> pi_revisionId d then Some (Some ACK_ATTENTION_CONFLICT, db)
                  else (case ra_acknowledgedAt a of
                      Some t \<Rightarrow> Some (if t = ak_acknowledgedAt k then None else Some ACK_ATTENTION_CONFLICT, db)
                    | None \<Rightarrow> do {
                        chk (acknowledge_changes (ra_attentionId a) (rb_attention db) = 1);
                        Some (None, db\<lparr>rb_attention := acknowledge_rows (ra_attentionId a) (ak_acknowledgedAt k) (rb_attention db)\<rparr>) }) }) })"

text \<open>May the connection be deleted?\<close>

definition deletionPreflight :: "routing_db \<Rightarrow> string \<Rightarrow> routing_code option option" where
  "deletionPreflight db c =
     (if \<not> bounded_text 512 c then Some (Some ROUTING_GLOBAL_DELETE_BLOCKED)
      else do {
        ds \<leftarrow> listCurrentDependencies db;
        Some (if list_ex (\<lambda>d. ri_connectionId (rd_route d) = c \<and> rd_selectorScope d = Scope_global) ds
              then Some ROUTING_GLOBAL_DELETE_BLOCKED else None) })"

section \<open>Fallback cycles\<close>

text \<open>The map from a primary route to the set of its fallbacks, in insertion order.\<close>

fun add_edge :: "string \<Rightarrow> string \<Rightarrow> (string \<times> string list) list \<Rightarrow> (string \<times> string list) list" where
  "add_edge k t [] = [(k, [t])]"
| "add_edge k t ((j, ts) # es) = (if j = k then (j, if t \<in> set ts then ts else ts @ [t]) # es else (j, ts) # add_edge k t es)"

definition targets :: "(string \<times> string list) list \<Rightarrow> string \<Rightarrow> string list" where
  "targets es k = (case map_of es k of None \<Rightarrow> [] | Some ts \<Rightarrow> ts)"

definition globalRoute :: "policy_selector list \<Rightarrow> route_identity option" where
  "globalRoute ss = route_at (List.find (\<lambda>s. ps_scope s = Scope_global) ss)"

definition fallback_of :: "route_identity option \<Rightarrow> policy_selector \<Rightarrow> route_identity option" where
  "fallback_of g s =
     (case ps_failurePolicy s of Reroute_route_once q \<Rightarrow> Some q | Reroute_global_once \<Rightarrow> g | Fail_immediately \<Rightarrow> None)"

definition add_selector_edge :: "route_identity option \<Rightarrow> (string \<times> string list) list \<Rightarrow> policy_selector \<Rightarrow> (string \<times> string list) list" where
  "add_selector_edge g es s =
     (if ps_scope s = Scope_global then es
      else (case ps_selector s of
          Inherit \<Rightarrow> es
        | Select_route r \<Rightarrow>
            (case fallback_of g s of
               None \<Rightarrow> es
             | Some q \<Rightarrow> add_edge (routeIdentityKey r) (routeIdentityKey q) es)))"

definition fallback_edges :: "policy_selector list \<Rightarrow> (string \<times> string list) list" where
  "fallback_edges ss = foldl (add_selector_edge (globalRoute ss)) [] ss"

text \<open>
  The search: \<open>path\<close> are the routes being visited, \<open>done\<close> those visited. The result is \<open>None\<close> when a route is met again while
  it is being visited, and otherwise the routes visited afterwards.
\<close>

function visit :: "(string \<times> string list) list \<Rightarrow> string list \<Rightarrow> string list \<Rightarrow> string \<Rightarrow> string list option"
  and visit_all :: "(string \<times> string list) list \<Rightarrow> string list \<Rightarrow> string list \<Rightarrow> string list \<Rightarrow> string list option" where
  "visit es path visited k =
     (if k \<in> set path then None
      else if k \<in> set visited then Some visited
      else map_option (\<lambda>v. k # v) (visit_all es (k # path) visited (targets es k)))"
| "visit_all es path visited [] = Some visited"
| "visit_all es path visited (t # ts) =
     (case visit es path visited t of None \<Rightarrow> None | Some v \<Rightarrow> visit_all es path v ts)"
  by pat_completeness auto
termination
proof (relation "measures [\<lambda>x. case x of Inl (es, path, visited, k) \<Rightarrow> card (fst ` set es - set path)
    | Inr (es, path, visited, ts) \<Rightarrow> card (fst ` set es - set path),
    \<lambda>x. case x of Inl _ \<Rightarrow> 1 | Inr (es, path, visited, ts) \<Rightarrow> 2 * length ts]")
  fix es :: "(string \<times> string list) list" and path visited :: "string list" and k
  assume k: "k \<notin> set path"
  show "(Inr (es, k # path, visited, targets es k), Inl (es, path, visited, k)) \<in> measures [\<lambda>x. case x of
      Inl (es, path, visited, k) \<Rightarrow> card (fst ` set es - set path) | Inr (es, path, visited, ts) \<Rightarrow> card (fst ` set es - set path),
      \<lambda>x. case x of Inl _ \<Rightarrow> 1 | Inr (es, path, visited, ts) \<Rightarrow> 2 * length ts]"
  proof (cases "k \<in> fst ` set es")
    case True
    with k have "fst ` set es - set (k # path) \<subset> fst ` set es - set path" by auto
    then have "card (fst ` set es - set (k # path)) < card (fst ` set es - set path)" by (intro psubset_card_mono) simp_all
    then show ?thesis by simp
  next
    case False
    then have "fst ` set es - set (k # path) = fst ` set es - set path" by auto
    moreover from False have "targets es k = []" by (simp add: targets_def map_of_eq_None_iff [THEN iffD2])
    ultimately show ?thesis by simp
  qed
qed simp_all

declare visit.simps [simp del]

definition hasFallbackCycle :: "policy_selector list \<Rightarrow> bool" where
  "hasFallbackCycle ss = (visit_all (fallback_edges ss) [] [] (map fst (fallback_edges ss)) = None)"

definition createsFallbackCycle :: "route_identity \<Rightarrow> route_identity \<Rightarrow> policy_selector list \<Rightarrow> selector_scope \<Rightarrow> bool" where
  "createsFallbackCycle primary fallback ss changed =
     list_ex (\<lambda>s. selectorScopeKey (ps_scope s) \<noteq> selectorScopeKey changed
       \<and> (case (ps_selector s, fallback_of (globalRoute ss) s) of
            (Select_route r, Some q) \<Rightarrow> routeIdentityKey r = routeIdentityKey fallback \<and> routeIdentityKey q = routeIdentityKey primary
          | _ \<Rightarrow> False)) ss"

section \<open>One row of the matrix\<close>

definition validate_fallback :: "row_draft \<Rightarrow> route_identity \<Rightarrow> failure_policy \<Rightarrow> mutation_context \<Rightarrow> policy_revision \<Rightarrow> routing_code option" where
  "validate_fallback d r f ctx cur =
     (let es = entriesForScope (dr_scope d) (mx_registry ctx) in
      case f of
        Fail_immediately \<Rightarrow> None
      | Reroute_global_once \<Rightarrow>
          (case globalRoute (pr_selectors cur) of
             None \<Rightarrow> Some ROUTING_INVALID_POLICY
           | Some g \<Rightarrow>
               if routeIdentityKey g = routeIdentityKey r then Some ROUTING_INVALID_HANDOFF_CHAIN else validate_route g es (mx_routes ctx))
      | Reroute_route_once q \<Rightarrow>
          if routeIdentityKey q = routeIdentityKey r then Some ROUTING_INVALID_HANDOFF_CHAIN
          else (case validate_route q es (mx_routes ctx) of
              Some c \<Rightarrow> Some c
            | None \<Rightarrow>
                if createsFallbackCycle r q (pr_selectors cur) (dr_scope d) then Some ROUTING_INVALID_HANDOFF_CHAIN else None))"

definition validateRowMutationDraft ::
  "row_draft \<Rightarrow> mutation_context \<Rightarrow> policy_revision option \<Rightarrow> policy_identity option \<Rightarrow> routing_code option" where
  "validateRowMutationDraft d ctx cur0 identity =
     (case (cur0, identity) of
        (Some cur, Some i) \<Rightarrow>
          if xr_revisionId (dr_expectedRevision d) \<noteq> pi_revisionId i \<or> xr_revisionNumber (dr_expectedRevision d) \<noteq> pi_revisionNumber i
             \<or> dr_revisionGuard d \<noteq> pi_revisionGuard i \<or> pr_registryVersion cur \<noteq> pi_registryVersion i
             \<or> mx_registryVersion ctx \<noteq> pi_registryVersion i then Some ROUTING_POLICY_CONFLICT
          else if entriesForScope (dr_scope d) (mx_registry ctx) = [] then Some ROUTING_UNKNOWN_SCOPE
          else if dr_scope d = Scope_global \<and> (case dr_selection d of Row_route r f \<Rightarrow> f \<noteq> Fail_immediately | Row_inherit \<Rightarrow> True)
            then Some ROUTING_INVALID_POLICY
          else (case dr_selection d of
              Row_inherit \<Rightarrow> None
            | Row_route r f \<Rightarrow>
                (case validate_route r (entriesForScope (dr_scope d) (mx_registry ctx)) (mx_routes ctx) of
                   Some c \<Rightarrow> Some c
                 | None \<Rightarrow> validate_fallback d r f ctx cur))
      | _ \<Rightarrow> Some ROUTING_POLICY_CONFLICT)"

definition row_selectors :: "row_draft \<Rightarrow> policy_revision \<Rightarrow> policy_selector list" where
  "row_selectors d cur =
     filter (\<lambda>s. selectorScopeKey (ps_scope s) \<noteq> selectorScopeKey (dr_scope d)) (pr_selectors cur)
     @ (case dr_selection d of
          Row_inherit \<Rightarrow> []
        | Row_route r f \<Rightarrow> [\<lparr>ps_scope = dr_scope d, ps_selector = Select_route r, ps_failurePolicy = f\<rparr>])"

definition row_mutation :: "row_draft \<Rightarrow> mutation_context \<Rightarrow> policy_revision \<Rightarrow> policy_mutation" where
  "row_mutation d ctx cur =
     \<lparr>pm_registryVersion = mx_registryVersion ctx, pm_expectedRevisionId = Some (pr_revisionId cur), pm_reason = rr_operator_mutation,
      pm_occurredAt = mx_occurredAt ctx, pm_actor = mx_actor ctx, pm_correlationId = mx_correlationId ctx,
      pm_selectors = row_selectors d cur\<rparr>"

definition prepareRowMutation ::
  "row_draft \<Rightarrow> mutation_context \<Rightarrow> policy_revision option \<Rightarrow> policy_identity option \<Rightarrow> routing_code + policy_selector list" where
  "prepareRowMutation d ctx cur0 identity =
     (case validateRowMutationDraft d ctx cur0 identity of
        Some c \<Rightarrow> Inl c
      | None \<Rightarrow>
          (case cur0 of
             None \<Rightarrow> Inl ROUTING_POLICY_CONFLICT
           | Some cur \<Rightarrow>
               (case validateMutation (row_mutation d ctx cur) \<lparr>vc_registry = mx_registry ctx, vc_routes = mx_routes ctx\<rparr> (Some cur) of
                  Some c \<Rightarrow> Inl c
                | None \<Rightarrow>
                    if hasFallbackCycle (row_selectors d cur) then Inl ROUTING_INVALID_HANDOFF_CHAIN else Inr (row_selectors d cur))))"

definition validateRowMutation :: "row_draft \<Rightarrow> mutation_context \<Rightarrow> routing_db \<Rightarrow> routing_code option option" where
  "validateRowMutation d ctx db =
     (if \<not> draft_ok d \<or> \<not> mutation_context_ok ctx then Some (Some ROUTING_INVALID_REQUEST)
      else do {
        cur \<leftarrow> getCurrentPolicy db;
        identity \<leftarrow> getCurrentRevisionGuard db;
        Some (case prepareRowMutation d ctx cur identity of Inl c \<Rightarrow> Some c | Inr ss \<Rightarrow> None) })"

datatype row_refusal = Row_rejected routing_code | Row_read_failed

text \<open>The settlement of the candidate is the caller's; it is \<open>None\<close> when the caller answers null or throws.\<close>

definition applyRowMutation ::
  "(string \<Rightarrow> string) \<Rightarrow> (string \<Rightarrow> string \<Rightarrow> int) \<Rightarrow> row_draft \<Rightarrow> mutation_context \<Rightarrow> (revision_candidate \<Rightarrow> 'a option) \<Rightarrow> routing_db
     \<Rightarrow> ((row_refusal + policy_revision \<times> 'a) \<times> routing_db) option" where
  "applyRowMutation sha collate d ctx settle db =
     (if \<not> draft_ok d \<or> \<not> mutation_context_ok ctx then Some (Inl (Row_rejected ROUTING_INVALID_REQUEST), db)
      else do {
        cur0 \<leftarrow> readBoundCurrentPolicy db;
        identity \<leftarrow> getCurrentRevisionGuard db;
        case prepareRowMutation d ctx cur0 identity of
          Inl c \<Rightarrow> Some (Inl (Row_rejected c), db)
        | Inr ss \<Rightarrow> do {
            cur \<leftarrow> cur0;
            cand \<leftarrow> prepareRevision sha collate db (row_mutation d ctx cur) rr_operator_mutation ss;
            case settle cand of
              None \<Rightarrow> Some (Inl Row_read_failed, db)
            | Some x \<Rightarrow> do {
                db' \<leftarrow> insertPreparedRevision cand db;
                Some (Inr (rc_revision cand, x), db') } } })"

end
