(* ===== verification/RoutingStoreFacts.thy ===== *)
theory RoutingStoreFacts
  imports RoutingStore Versioned
begin

text \<open>
  What the routing store promises. The search for fallback cycles finds one exactly when there is one; in every reachable store
  the current policy can be read, has one global route and no two selectors of a scope, and its dependencies are the routes it
  names; a row mutation changes one scope, against the revision it names.
\<close>

section \<open>Fallback cycles\<close>

definition edge_rel :: "(string \<times> string list) list \<Rightarrow> (string \<times> string) set" where
  "edge_rel es = {(k, t). t \<in> set (targets es k)}"

definition selector_edge :: "route_identity option \<Rightarrow> policy_selector \<Rightarrow> (string \<times> string) set" where
  "selector_edge g s = {(routeIdentityKey r, routeIdentityKey q) | r q.
     ps_scope s \<noteq> Scope_global \<and> ps_selector s = Select_route r \<and> fallback_of g s = Some q}"

text \<open>The relation from the route of a selector to the route it falls back to.\<close>

definition fallback_rel :: "policy_selector list \<Rightarrow> (string \<times> string) set" where
  "fallback_rel ss = (\<Union>s\<in>set ss. selector_edge (globalRoute ss) s)"

lemma targets_add_edge: "set (targets (add_edge k t es) j) = set (targets es j) \<union> (if j = k then {t} else {})"
proof (induction k t es rule: add_edge.induct)
  case (2 k t i ts es)
  have "targets ((i, us) # fs) j = (if j = i then us else targets fs j)" for us fs by (simp add: targets_def)
  with 2 show ?case by auto
qed (simp add: targets_def)

lemma edge_rel_add [simp]: "edge_rel (add_edge k t es) = insert (k, t) (edge_rel es)"
  by (auto simp: edge_rel_def targets_add_edge split: if_splits)

lemma edge_rel_selector: "edge_rel (add_selector_edge g es s) = edge_rel es \<union> selector_edge g s"
  by (auto simp: add_selector_edge_def selector_edge_def split: route_selector.split option.split)

lemma edge_rel_foldl: "edge_rel (foldl (add_selector_edge g) es ss) = edge_rel es \<union> (\<Union>s\<in>set ss. selector_edge g s)"
  by (induction ss arbitrary: es) (auto simp: edge_rel_selector)

lemma edge_rel_fallback: "edge_rel (fallback_edges ss) = fallback_rel ss"
  by (simp add: fallback_edges_def edge_rel_foldl fallback_rel_def) (simp add: edge_rel_def targets_def)

lemma edge_rel_source: "(k, t) \<in> edge_rel es \<Longrightarrow> k \<in> fst ` set es"
  by (rule ccontr) (simp add: edge_rel_def targets_def map_of_eq_None_iff [THEN iffD2])

text \<open>Routes that are done: none of them is being visited, they are closed under the relation and lie on no cycle.\<close>

definition done_ok :: "(string \<times> string list) list \<Rightarrow> string list \<Rightarrow> string list \<Rightarrow> bool" where
  "done_ok es path v \<longleftrightarrow> set path \<inter> set v = {} \<and> edge_rel es `` set v \<subseteq> set v \<and> (\<forall>x\<in>set v. (x, x) \<notin> (edge_rel es)\<^sup>+)"

lemma done_ok_Cons:
  assumes "done_ok es (k # path) v" and "set (targets es k) \<subseteq> set v" and "k \<notin> set path"
  shows "done_ok es path (k # v)"
proof -
  have closed: "edge_rel es `` set v \<subseteq> set v" and k: "k \<notin> set v" using assms(1) by (auto simp: done_ok_def)
  have step: "t \<in> set v" if "(k, t) \<in> edge_rel es" for t using that assms(2) by (auto simp: edge_rel_def)
  have stay: "y \<in> set v" if "x \<in> set v" "(x, y) \<in> (edge_rel es)\<^sup>*" for x y
    using that(2,1) closed by (induction rule: rtrancl_induct) auto
  have "(k, k) \<notin> (edge_rel es)\<^sup>+"
  proof
    assume "(k, k) \<in> (edge_rel es)\<^sup>+"
    then obtain t where "(k, t) \<in> edge_rel es" "(t, k) \<in> (edge_rel es)\<^sup>*" by (meson tranclD)
    with step stay k show False by blast
  qed
  with assms closed step show ?thesis by (auto simp: done_ok_def)
qed

text \<open>The search, with the result of each call against the calls it makes.\<close>

lemma visit_search:
  "done_ok es path visited \<Longrightarrow> (\<forall>p\<in>set path. (p, k) \<in> (edge_rel es)\<^sup>+) \<Longrightarrow>
     (case visit es path visited k of
        None \<Rightarrow> \<not> acyclic (edge_rel es)
      | Some v \<Rightarrow> insert k (set visited) \<subseteq> set v \<and> done_ok es path v)"
  "done_ok es path visited \<Longrightarrow> (\<forall>t\<in>set ts. \<forall>p\<in>set path. (p, t) \<in> (edge_rel es)\<^sup>+) \<Longrightarrow>
     (case visit_all es path visited ts of
        None \<Rightarrow> \<not> acyclic (edge_rel es)
      | Some v \<Rightarrow> set ts \<union> set visited \<subseteq> set v \<and> done_ok es path v)"
proof (induction es path visited k and es path visited ts rule: visit_visit_all.induct)
  case (1 es path visited k)
  show ?case
  proof (cases "k \<in> set path \<or> k \<in> set visited")
    case True
    with "1.prems" show ?thesis by (auto simp: visit.simps [of es path visited k] acyclic_def)
  next
    case False
    have edge: "(k, t) \<in> edge_rel es" if "t \<in> set (targets es k)" for t using that by (simp add: edge_rel_def)
    have "done_ok es (k # path) visited" using "1.prems"(1) False by (auto simp: done_ok_def)
    moreover have "\<forall>t\<in>set (targets es k). \<forall>p\<in>set (k # path). (p, t) \<in> (edge_rel es)\<^sup>+"
      using edge "1.prems"(2) by (auto intro: trancl_into_trancl)
    ultimately have IH: "case visit_all es (k # path) visited (targets es k) of
        None \<Rightarrow> \<not> acyclic (edge_rel es)
      | Some v \<Rightarrow> set (targets es k) \<union> set visited \<subseteq> set v \<and> done_ok es (k # path) v"
      using "1.IH" False by blast
    have eq: "visit es path visited k = map_option (\<lambda>v. k # v) (visit_all es (k # path) visited (targets es k))"
      using False by (simp add: visit.simps [of es path visited k])
    show ?thesis
    proof (cases "visit_all es (k # path) visited (targets es k)")
      case None
      with IH show ?thesis by (simp add: eq)
    next
      case (Some v)
      with IH have "set (targets es k) \<subseteq> set v" "set visited \<subseteq> set v" "done_ok es (k # path) v" by simp_all
      with False show ?thesis by (auto simp: eq Some intro: done_ok_Cons)
    qed
  qed
next
  case (2 es path visited)
  then show ?case by simp
next
  case (3 es path visited t ts)
  show ?case
  proof (cases "visit es path visited t")
    case None
    with 3 show ?thesis by simp
  next
    case (Some v)
    with "3.IH"(1) "3.prems" have v: "insert t (set visited) \<subseteq> set v" "done_ok es path v" by simp_all
    with "3.IH"(2) [OF Some] "3.prems"(2) have "case visit_all es path v ts of
        None \<Rightarrow> \<not> acyclic (edge_rel es) | Some v' \<Rightarrow> set ts \<union> set v \<subseteq> set v' \<and> done_ok es path v'"
      by simp
    with v(1) Some show ?thesis by (auto split: option.splits)
  qed
qed

text \<open>The search for fallback cycles answers yes exactly when the relation from each configured route to the route it falls
  back to has a cycle.\<close>

lemma fallback_cycle_found: "hasFallbackCycle ss \<longleftrightarrow> \<not> acyclic (fallback_rel ss)"
proof -
  let ?es = "fallback_edges ss"
  have "case visit_all ?es [] [] (map fst ?es) of
      None \<Rightarrow> \<not> acyclic (edge_rel ?es) | Some v \<Rightarrow> set (map fst ?es) \<union> set [] \<subseteq> set v \<and> done_ok ?es [] v"
    by (rule visit_search(2)) (simp_all add: done_ok_def)
  moreover have "acyclic (edge_rel ?es)" if "fst ` set ?es \<subseteq> set v" "done_ok ?es [] v" for v
  proof (unfold acyclic_def, intro allI notI)
    fix x assume cyc: "(x, x) \<in> (edge_rel ?es)\<^sup>+"
    then obtain t where "(x, t) \<in> edge_rel ?es" by (meson tranclD)
    with that have "x \<in> set v" using edge_rel_source by blast
    with that(2) cyc show False by (simp add: done_ok_def)
  qed
  ultimately show ?thesis
    by (auto simp: hasFallbackCycle_def edge_rel_fallback split: option.splits)
qed

section \<open>Texts of identifiers\<close>

lemma decimal_nat_digits: "decimal_text (nat_digits n) = int n"
proof (induction n rule: nat_digits.induct)
  case (1 n)
  show ?case
  proof (cases "n < 10")
    case True
    then show ?thesis by (simp add: nat_digits.simps [of n] decimal_text_def code_of_def)
  next
    case False
    with 1 show ?thesis by (simp add: nat_digits.simps [of n] code_of_def) presburger
  qed
qed

lemma nat_digits_inject [simp]: "nat_digits m = nat_digits n \<longleftrightarrow> m = n"
  by (metis decimal_nat_digits of_nat_eq_iff)

lemma digit_char: "(k::nat) < 10 \<Longrightarrow> is_digit (char_of (48 + k))"
  by (simp add: is_digit_def in_range_def code_of_def)

lemma nat_digits_digit: "c \<in> set (nat_digits n) \<Longrightarrow> is_digit c"
proof (induction n rule: nat_digits.induct)
  case (1 n)
  show ?case
  proof (cases "n < 10")
    case True
    with 1 show ?thesis by (simp add: nat_digits.simps [of n] digit_char)
  next
    case False
    then have "nat_digits n = nat_digits (n div 10) @ [char_of (48 + n mod 10)]" by (simp add: nat_digits.simps [of n])
    with 1(2) have "c \<in> set (nat_digits (n div 10)) \<or> c = char_of (48 + n mod 10)" by auto
    with 1(1) [OF False] digit_char [of "n mod 10"] show ?thesis by auto
  qed
qed

lemma nat_digits_nonempty [simp]: "nat_digits n \<noteq> []"
  by (subst nat_digits.simps) simp

lemma nat_digits_length: "n < 10 ^ Suc k \<Longrightarrow> length (nat_digits n) \<le> Suc k"
proof (induction k arbitrary: n)
  case 0
  then show ?case by (simp add: nat_digits.simps [of n])
next
  case (Suc k)
  show ?case
  proof (cases "n < 10")
    case False
    from Suc.prems have "n div 10 < 10 ^ Suc k" by (simp add: less_mult_imp_div_less mult.commute)
    with Suc.IH [of "n div 10"] False show ?thesis by (simp add: nat_digits.simps [of n])
  qed (simp add: nat_digits.simps [of n])
qed

lemma dash_free: "CHR ''-'' \<notin> set (nat_digits n)"
  using nat_digits_digit [of "CHR ''-''" n] by (auto simp: char_eval)

lemma first_dash:
  assumes "CHR ''-'' \<notin> set a" and "CHR ''-'' \<notin> set b" and "a @ CHR ''-'' # s = b @ CHR ''-'' # t"
  shows "a = b \<and> s = t"
proof -
  have cut: "takeWhile (\<lambda>c. c \<noteq> CHR ''-'') (u @ CHR ''-'' # v) = u" if "CHR ''-'' \<notin> set u" for u v
    using that by (induction u) auto
  have "a = b" using cut [OF assms(1), of s] cut [OF assms(2), of t] assms(3) by simp
  with assms(3) show ?thesis by simp
qed

lemma revision_id_inject: "0 \<le> m \<Longrightarrow> 0 \<le> n \<Longrightarrow> revision_id_of m = revision_id_of n \<longleftrightarrow> m = n"
  by (simp add: revision_id_of_def int_text_def eq_nat_nat_iff)

lemma attention_id_inject:
  assumes "0 \<le> m" and "0 \<le> n"
  shows "attention_id_of (revision_id_of m) j a = attention_id_of (revision_id_of n) k b \<longleftrightarrow> m = n \<and> j = k \<and> a = b"
proof
  assume "attention_id_of (revision_id_of m) j a = attention_id_of (revision_id_of n) k b"
  then have eq: "nat_digits (nat m) @ CHR ''-'' # (nat_digits j @ CHR ''-'' # a) = nat_digits (nat n) @ CHR ''-'' # (nat_digits k @ CHR ''-'' # b)"
    using assms by (simp add: attention_id_of_def revision_id_of_def int_text_def)
  from first_dash [OF dash_free dash_free eq]
  have "nat m = nat n" and rest: "nat_digits j @ CHR ''-'' # a = nat_digits k @ CHR ''-'' # b" by simp_all
  with first_dash [OF dash_free dash_free rest] assms show "m = n \<and> j = k \<and> a = b" by simp
qed simp

lemma trim_solid:
  assumes "s \<noteq> []" and "\<not> is_ws (hd s)" and "\<not> is_ws (last s)"
  shows "trim s = s"
proof -
  have drop: "dropWhile is_ws u = u" if "u \<noteq> []" "\<not> is_ws (hd u)" for u using that by (cases u) auto
  have "dropWhile is_ws (rev s) = rev s" using assms by (intro drop) (simp_all add: hd_rev)
  with drop [OF assms(1,2)] show ?thesis by (simp add: trim_def trimStart_def trimEnd_def)
qed

lemma revision_id_bounded:
  assumes "1 \<le> n" and "n \<le> 2 ^ 53 - 1"
  shows "bounded_text 256 (revision_id_of n)"
proof -
  have "nat n < 10 ^ Suc 15" using assms by simp
  then have len: "length (nat_digits (nat n)) \<le> 16" using nat_digits_length [of "nat n" 15] by simp
  have "is_digit (last (nat_digits (nat n)))" by (rule nat_digits_digit [of _ "nat n"]) simp
  then have "\<not> is_ws (last (nat_digits (nat n)))" by (simp add: char_eval)
  then have "trim (revision_id_of n) = revision_id_of n"
    using assms(1) by (intro trim_solid) (simp_all add: revision_id_of_def int_text_def char_eval)
  with len assms(1) show ?thesis by (simp add: bounded_text_def revision_id_of_def int_text_def)
qed

lemma name_in_inject: "name_in actionTypes s = name_in actionTypes t \<Longrightarrow> s = t"
  by (metis action_type_name option.inject)

lemma scope_key_inject [simp]: "selectorScopeKey a = selectorScopeKey b \<longleftrightarrow> a = b"
proof
  assume eq: "selectorScopeKey a = selectorScopeKey b"
  have keys: "selectorScopeKey Scope_global = ''global''" "selectorScopeKey (Scope_action i) = ''action:'' @ i"
      "selectorScopeKey (Scope_action_type t) = ''action_type:'' @ name_in actionTypes t" for i t
    by (simp_all add: selectorScopeKey_def)
  have act: "''action:'' @ i \<noteq> ''action_type:'' @ s" for i s :: string by simp
  show "a = b"
  proof (cases a)
    case Scope_global
    with eq show ?thesis by (cases b) (simp_all add: keys)
  next
    case (Scope_action_type t)
    show ?thesis
    proof (cases b)
      case (Scope_action_type u)
      from eq have "name_in actionTypes t = name_in actionTypes u" unfolding \<open>a = _\<close> Scope_action_type keys by simp
      then have "t = u" by (rule name_in_inject)
      then show ?thesis by (simp only: \<open>a = _\<close> Scope_action_type)
    qed (use eq Scope_action_type keys act in \<open>simp_all\<close>)
  next
    case (Scope_action i)
    with eq show ?thesis by (cases b) (simp_all add: keys)
  qed
qed simp

section \<open>What an insertion writes\<close>

definition selector_row_of :: "string \<Rightarrow> policy_selector \<Rightarrow> selector_row" where
  "selector_row_of i s = \<lparr>sl_revision_id = i, sl_scope_key = selectorScopeKey (ps_scope s), sl_selector = s\<rparr>"

definition dependencies_of :: "string \<Rightarrow> policy_selector \<Rightarrow> routing_dependency list" where
  "dependencies_of i s = map (\<lambda>r. \<lparr>rd_revisionId = i, rd_route = r, rd_selectorScope = ps_scope s\<rparr>) (referencedRoutes s)"

definition revision_row_of :: "revision_candidate \<Rightarrow> revision_row" where
  "revision_row_of c =
     (let p = rc_revision c; d = rc_identity c in
      \<lparr>rw_sequence = pi_revisionNumber d, rw_revision_id = pr_revisionId p, rw_registry_version = pr_registryVersion p,
       rw_reason = pr_reason p, rw_created_at = pr_createdAt p, rw_actor = pr_actor p, rw_correlation_id = pr_correlationId p,
       rw_revision_guard = pi_revisionGuard d\<rparr>)"

lemma insert_unique_Some [simp]: "insert_unique key row rows = Some rows' \<longleftrightarrow> key row \<notin> key ` set rows \<and> rows' = rows @ [row]"
  by (auto simp: insert_unique_def Option.bind_eq_Some_conv)

lemma insert_dependencies_iff:
  "insert_dependencies i sc rs db = Some db' \<longleftrightarrow>
     (let new = map (\<lambda>r. \<lparr>rd_revisionId = i, rd_route = r, rd_selectorScope = sc\<rparr>) rs in
      distinct rs \<and> set new \<inter> set (rb_dependencies db) = {} \<and> db' = db\<lparr>rb_dependencies := rb_dependencies db @ new\<rparr>)"
proof (induction rs arbitrary: db)
  case (Cons r rs)
  then show ?case by (auto simp: Option.bind_eq_Some_conv Let_def)
qed (auto simp: Let_def)

lemma insert_selectors_Some:
  "insert_selectors i ss db = Some db' \<Longrightarrow>
     db' = db\<lparr>rb_selectors := rb_selectors db @ map (selector_row_of i) ss,
       rb_dependencies := rb_dependencies db @ concat (map (dependencies_of i) ss)\<rparr>"
proof (induction ss arbitrary: db)
  case (Cons s ss)
  then obtain db1 where db1: "insert_dependencies i (ps_scope s) (referencedRoutes s)
        (db\<lparr>rb_selectors := rb_selectors db @ [selector_row_of i s]\<rparr>) = Some db1" and rest: "insert_selectors i ss db1 = Some db'"
    by (auto simp: Option.bind_eq_Some_conv selector_row_of_def)
  from db1 have "db1 = db\<lparr>rb_selectors := rb_selectors db @ [selector_row_of i s],
      rb_dependencies := rb_dependencies db @ dependencies_of i s\<rparr>"
    by (simp add: insert_dependencies_iff Let_def dependencies_of_def)
  with Cons.IH [OF rest] show ?case by simp
qed simp

lemma insertPrepared_Some:
  assumes "insertPreparedRevision c db = Some db'"
  shows "rw_sequence (revision_row_of c) \<notin> rw_sequence ` set (rb_revisions db)"
    and "rw_revision_id (revision_row_of c) \<notin> rw_revision_id ` set (rb_revisions db)"
    and "db' = \<lparr>rb_state = Some (pr_revisionId (rc_revision c), pr_registryVersion (rc_revision c)),
      rb_revisions = rb_revisions db @ [revision_row_of c],
      rb_selectors = rb_selectors db @ map (selector_row_of (pr_revisionId (rc_revision c))) (pr_selectors (rc_revision c)),
      rb_dependencies = rb_dependencies db @ concat (map (dependencies_of (pr_revisionId (rc_revision c))) (pr_selectors (rc_revision c))),
      rb_attention = rb_attention db\<rparr>"
proof -
  from assms obtain db1 db2 where one: "insert_revision_row (revision_row_of c) db = Some db1"
    and two: "insert_selectors (pr_revisionId (rc_revision c)) (pr_selectors (rc_revision c)) db1 = Some db2"
    and three: "db' = db2\<lparr>rb_state := Some (pr_revisionId (rc_revision c), pr_registryVersion (rc_revision c))\<rparr>"
    by (auto simp: insertPreparedRevision_def revision_row_of_def Let_def Option.bind_eq_Some_conv)
  from one show "rw_sequence (revision_row_of c) \<notin> rw_sequence ` set (rb_revisions db)"
    and "rw_revision_id (revision_row_of c) \<notin> rw_revision_id ` set (rb_revisions db)"
    by (auto simp: insert_revision_row_def split: if_splits)
  from one have "db1 = db\<lparr>rb_revisions := rb_revisions db @ [revision_row_of c]\<rparr>"
    by (simp add: insert_revision_row_def split: if_splits)
  with insert_selectors_Some [OF two] three show "db' = \<lparr>rb_state = Some (pr_revisionId (rc_revision c), pr_registryVersion (rc_revision c)),
      rb_revisions = rb_revisions db @ [revision_row_of c],
      rb_selectors = rb_selectors db @ map (selector_row_of (pr_revisionId (rc_revision c))) (pr_selectors (rc_revision c)),
      rb_dependencies = rb_dependencies db @ concat (map (dependencies_of (pr_revisionId (rc_revision c))) (pr_selectors (rc_revision c))),
      rb_attention = rb_attention db\<rparr>"
    by (cases db) simp
qed

text \<open>It succeeds when the identifier is new to every table, the scopes differ and no selector names a route twice.\<close>

lemma insert_selectors_succeeds:
  "distinct (map ps_scope ss) \<Longrightarrow> (\<forall>s\<in>set ss. distinct (referencedRoutes s)) \<Longrightarrow>
     (\<forall>s\<in>set ss. (i, selectorScopeKey (ps_scope s)) \<notin> (\<lambda>r. (sl_revision_id r, sl_scope_key r)) ` set (rb_selectors db)) \<Longrightarrow>
     (\<forall>s\<in>set ss. \<forall>d\<in>set (rb_dependencies db). \<not> (rd_revisionId d = i \<and> rd_selectorScope d = ps_scope s)) \<Longrightarrow>
     insert_selectors i ss db \<noteq> None"
proof (induction ss arbitrary: db)
  case (Cons s ss)
  let ?db1 = "db\<lparr>rb_selectors := rb_selectors db @ [selector_row_of i s]\<rparr>"
  let ?db2 = "?db1\<lparr>rb_dependencies := rb_dependencies db @ dependencies_of i s\<rparr>"
  have row: "insert_unique (\<lambda>r. (sl_revision_id r, sl_scope_key r)) (selector_row_of i s) (rb_selectors db)
      = Some (rb_selectors db @ [selector_row_of i s])"
    using Cons.prems(3) by (auto simp: selector_row_of_def)
  have deps: "insert_dependencies i (ps_scope s) (referencedRoutes s) ?db1 = Some ?db2"
    using Cons.prems(2,4) by (auto simp: insert_dependencies_iff Let_def dependencies_of_def)
  have ne: "ps_scope t \<noteq> ps_scope s" if "t \<in> set ss" for t
    using Cons.prems(1) imageI [OF that, of ps_scope] by (cases "ps_scope t = ps_scope s") simp_all
  have "insert_selectors i ss ?db2 \<noteq> None"
  proof (rule Cons.IH)
    show "\<forall>t\<in>set ss. (i, selectorScopeKey (ps_scope t)) \<notin> (\<lambda>r. (sl_revision_id r, sl_scope_key r)) ` set (rb_selectors ?db2)"
      using ne Cons.prems(3) by (auto simp: selector_row_of_def)
    show "\<forall>t\<in>set ss. \<forall>d\<in>set (rb_dependencies ?db2). \<not> (rd_revisionId d = i \<and> rd_selectorScope d = ps_scope t)"
    proof -
      have "rd_selectorScope d = ps_scope s" if "d \<in> set (dependencies_of i s)" for d using that by (auto simp: dependencies_of_def)
      moreover have "\<forall>t\<in>set ss. ps_scope t \<noteq> ps_scope s" using ne by blast
      ultimately show ?thesis using Cons.prems(4) by auto
    qed
  qed (use Cons.prems(1,2) in auto)
  moreover have "insert_selectors i (s # ss) db = insert_selectors i ss ?db2"
    by (simp only: insert_selectors.simps selector_row_of_def [symmetric] row deps Option.bind_lunit)
  ultimately show ?case by simp
qed simp

section \<open>The invariant of the store\<close>

text \<open>What the selectors of a revision have in common: one per scope, a global one with a route, no selector naming a route twice.\<close>

definition policy_shape :: "policy_selector list \<Rightarrow> bool" where
  "policy_shape ss \<longleftrightarrow> distinct (map ps_scope ss) \<and> (\<exists>s\<in>set ss. ps_scope s = Scope_global)
     \<and> (\<forall>s\<in>set ss. stored_selector_ok s \<and> check_shape s \<and> distinct (referencedRoutes s))"

lemma policy_shape_mset: "mset ss = mset ts \<Longrightarrow> policy_shape ss = policy_shape ts"
proof -
  assume eq: "mset ss = mset ts"
  then have "mset (map ps_scope ss) = mset (map ps_scope ts)" by simp
  then have "distinct (map ps_scope ss) = distinct (map ps_scope ts)" by (rule mset_eq_imp_distinct_iff)
  with mset_eq_setD [OF eq] show ?thesis by (simp only: policy_shape_def)
qed

definition revision_row_ok :: "(string \<Rightarrow> string) \<Rightarrow> revision_row \<Rightarrow> bool" where
  "revision_row_ok sha r \<longleftrightarrow> 1 \<le> rw_sequence r \<and> rw_sequence r \<le> 2 ^ 53 - 1 \<and> rw_revision_id r = revision_id_of (rw_sequence r)
     \<and> bounded_text 256 (rw_registry_version r) \<and> canonical_iso (rw_created_at r) \<and> opt_bounded 512 (rw_actor r)
     \<and> opt_bounded 512 (rw_correlation_id r)
     \<and> rw_revision_guard r = createRevisionGuard sha (rw_revision_id r) (rw_sequence r) (rw_registry_version r)"

definition selectors_of :: "routing_db \<Rightarrow> string \<Rightarrow> policy_selector list" where
  "selectors_of db i = map sl_selector (filter (\<lambda>r. sl_revision_id r = i) (rb_selectors db))"

definition revision_content_ok :: "routing_db \<Rightarrow> string \<Rightarrow> bool" where
  "revision_content_ok db i \<longleftrightarrow> policy_shape (selectors_of db i)
     \<and> {d \<in> set (rb_dependencies db). rd_revisionId d = i} = (\<Union>s\<in>set (selectors_of db i). set (dependencies_of i s))"

definition revision_ids :: "routing_db \<Rightarrow> string set" where
  "revision_ids db = rw_revision_id ` set (rb_revisions db)"

definition attention_row_ok :: "nat \<Rightarrow> routing_attention \<Rightarrow> bool" where
  "attention_row_ok n a \<longleftrightarrow> (\<exists>k j m. k < n \<and> ra_revisionId a = revision_id_of (int k + 1)
     \<and> ra_attentionId a = attention_id_of (revision_id_of (int k + 1)) j m)"

definition routing_ok :: "(string \<Rightarrow> string) \<Rightarrow> routing_db \<Rightarrow> bool" where
  "routing_ok sha db \<longleftrightarrow>
     map rw_sequence (rb_revisions db) = map (\<lambda>k. int k + 1) [0..<length (rb_revisions db)]
     \<and> (\<forall>r\<in>set (rb_revisions db). revision_row_ok sha r \<and> revision_content_ok db (rw_revision_id r))
     \<and> (\<forall>r\<in>set (rb_selectors db). sl_revision_id r \<in> revision_ids db \<and> sl_scope_key r = selectorScopeKey (ps_scope (sl_selector r)))
     \<and> (\<forall>d\<in>set (rb_dependencies db). rd_revisionId d \<in> revision_ids db)
     \<and> (\<forall>a\<in>set (rb_attention db). attention_row_ok (length (rb_revisions db)) a)
     \<and> rb_state db = (if rb_revisions db = [] then None
         else Some (rw_revision_id (last (rb_revisions db)), rw_registry_version (last (rb_revisions db))))"

lemma routing_okD:
  assumes "routing_ok sha db"
  shows "map rw_sequence (rb_revisions db) = map (\<lambda>k. int k + 1) [0..<length (rb_revisions db)]"
    and "r \<in> set (rb_revisions db) \<Longrightarrow> revision_row_ok sha r"
    and "r \<in> set (rb_revisions db) \<Longrightarrow> revision_content_ok db (rw_revision_id r)"
    and "x \<in> set (rb_selectors db) \<Longrightarrow> sl_revision_id x \<in> revision_ids db \<and> sl_scope_key x = selectorScopeKey (ps_scope (sl_selector x))"
    and "d \<in> set (rb_dependencies db) \<Longrightarrow> rd_revisionId d \<in> revision_ids db"
    and "a \<in> set (rb_attention db) \<Longrightarrow> attention_row_ok (length (rb_revisions db)) a"
    and "rb_state db = (if rb_revisions db = [] then None
         else Some (rw_revision_id (last (rb_revisions db)), rw_registry_version (last (rb_revisions db))))"
  using assms unfolding routing_ok_def by blast+

lemma empty_routing_ok: "routing_ok sha empty_routing_db"
  by (simp add: routing_ok_def empty_routing_db_def)

lemma sequence_at: "routing_ok sha db \<Longrightarrow> k < length (rb_revisions db) \<Longrightarrow> rw_sequence (rb_revisions db ! k) = int k + 1"
proof -
  assume ok: "routing_ok sha db" and k: "k < length (rb_revisions db)"
  have "rw_sequence (rb_revisions db ! k) = map rw_sequence (rb_revisions db) ! k" using k by simp
  also have "\<dots> = int k + 1" using k by (subst routing_okD(1) [OF ok]) simp
  finally show ?thesis .
qed

lemma foldr_max: "(\<forall>x\<in>set xs. x \<le> (N::int)) \<Longrightarrow> N \<in> set xs \<or> N = 0 \<Longrightarrow> 0 \<le> N \<Longrightarrow> foldr max xs 0 = N"
proof -
  assume le: "\<forall>x\<in>set xs. x \<le> N" and mem: "N \<in> set xs \<or> N = 0" and pos: "0 \<le> N"
  have "foldr max xs 0 \<le> N" using le pos by (induction xs) auto
  moreover have "x \<le> foldr max xs 0" if "x \<in> set xs" for x using that by (induction xs) (auto simp: le_max_iff_disj)
  moreover have "0 \<le> foldr max xs 0" for xs :: "int list" by (induction xs) (auto simp: le_max_iff_disj)
  ultimately show ?thesis using mem by (metis antisym)
qed

lemma next_sequence:
  assumes "routing_ok sha db"
  shows "nextSequence db = int (length (rb_revisions db)) + 1"
proof -
  let ?n = "length (rb_revisions db)"
  have "foldr max (map (\<lambda>k. int k + 1) [0..<?n]) 0 = int ?n"
  proof (rule foldr_max)
    show "int ?n \<in> set (map (\<lambda>k. int k + 1) [0..<?n]) \<or> int ?n = 0"
      by (cases ?n) (auto intro!: image_eqI [of _ _ "?n - 1"])
  qed auto
  then show ?thesis by (simp add: nextSequence_def routing_okD(1) [OF assms])
qed

lemma revision_id_at: "routing_ok sha db \<Longrightarrow> k < length (rb_revisions db) \<Longrightarrow> rw_revision_id (rb_revisions db ! k) = revision_id_of (int k + 1)"
  using routing_okD(2) [of sha db "rb_revisions db ! k"] sequence_at [of sha db k] by (simp add: revision_row_ok_def)

lemma new_revision_id:
  assumes "routing_ok sha db"
  shows "revision_id_of (int (length (rb_revisions db)) + 1) \<notin> revision_ids db"
proof
  assume "revision_id_of (int (length (rb_revisions db)) + 1) \<in> revision_ids db"
  then obtain k where k: "k < length (rb_revisions db)" "rw_revision_id (rb_revisions db ! k) = revision_id_of (int (length (rb_revisions db)) + 1)"
    by (metis (no_types, lifting) imageE in_set_conv_nth revision_ids_def)
  with revision_id_at [OF assms k(1)] show False by (simp add: revision_id_inject)
qed

lemma find_revision_row:
  assumes "routing_ok sha db" and "r \<in> set (rb_revisions db)"
  shows "find_revision db (rw_revision_id r) = Some r"
proof -
  obtain k where k: "k < length (rb_revisions db)" "r = rb_revisions db ! k" using assms(2) by (metis in_set_conv_nth)
  have "y = r" if y: "y \<in> set (rb_revisions db)" "rw_revision_id y = rw_revision_id r" for y
  proof -
    obtain j where j: "j < length (rb_revisions db)" "y = rb_revisions db ! j" using y(1) by (metis in_set_conv_nth)
    have "revision_id_of (int j + 1) = revision_id_of (int k + 1)"
      using y(2) unfolding j(2) k(2) revision_id_at [OF assms(1) j(1)] revision_id_at [OF assms(1) k(1)] .
    then have "int j + 1 = int k + 1" by (subst (asm) revision_id_inject) simp_all
    then have "j = k" by simp
    with j k show ?thesis by simp
  qed
  with assms(2) show ?thesis unfolding find_revision_def by (intro find_unique) simp_all
qed

section \<open>Reading a store that is in order\<close>

definition policy_of :: "routing_db \<Rightarrow> revision_row \<Rightarrow> policy_revision" where
  "policy_of db r = \<lparr>pr_revisionId = rw_revision_id r, pr_registryVersion = rw_registry_version r, pr_reason = rw_reason r,
     pr_createdAt = rw_created_at r, pr_actor = rw_actor r, pr_correlationId = rw_correlation_id r,
     pr_selectors = map sl_selector (selectorsForRevision db (rw_revision_id r))\<rparr>"

lemma policy_of_selectors: "mset (pr_selectors (policy_of db r)) = mset (selectors_of db (rw_revision_id r))"
  by (simp add: policy_of_def selectors_of_def selectorsForRevision_def)

lemma bounded_text_mono: "bounded_text m s \<Longrightarrow> m \<le> n \<Longrightarrow> bounded_text n s"
  by (simp add: bounded_text_def)

lemma parse_selectors: "(\<forall>r\<in>set rows. stored_selector_ok (sl_selector r)) \<Longrightarrow> parse_all parseSelector rows = Some (map sl_selector rows)"
  by (induction rows) (simp_all add: parseSelector_def)

lemma revision_id_row_ok: "revision_row_ok sha r \<Longrightarrow> bounded_text 256 (rw_revision_id r)"
  using revision_id_bounded [of "rw_sequence r"] by (simp add: revision_row_ok_def)

lemma read_policy:
  assumes "routing_ok sha db" and "r \<in> set (rb_revisions db)"
  shows "readRevision db (rw_revision_id r) = Some (policy_of db r)" and "revision_ok (policy_of db r)"
proof -
  let ?rows = "selectorsForRevision db (rw_revision_id r)"
  have row: "revision_row_ok sha r" and shape: "policy_shape (selectors_of db (rw_revision_id r))"
    using routing_okD(2,3) [OF assms(1)] assms(2) by (auto simp: revision_content_ok_def)
  have "set (map sl_selector ?rows) = set (selectors_of db (rw_revision_id r))"
    by (simp add: selectorsForRevision_def selectors_of_def)
  with shape have stored: "\<forall>s\<in>set (map sl_selector ?rows). stored_selector_ok s" unfolding policy_shape_def by metis
  then have "parse_all parseSelector ?rows = Some (map sl_selector ?rows)" by (intro parse_selectors) simp
  moreover have id: "bounded_text 256 (rw_revision_id r)" by (rule revision_id_row_ok [OF row])
  moreover from stored row id show ok: "revision_ok (policy_of db r)"
    by (simp add: revision_ok_def policy_of_def revision_row_ok_def list_all_iff)
  ultimately show "readRevision db (rw_revision_id r) = Some (policy_of db r)"
    using find_revision_row [OF assms] row bounded_text_mono [of 256 _ 512]
    by (simp add: readRevision_def requiredBoundedText_def policy_of_def Let_def revision_row_ok_def)
qed

lemma last_revision: "rb_revisions db \<noteq> [] \<Longrightarrow> last (rb_revisions db) \<in> set (rb_revisions db)"
  by simp

lemma current_policy:
  assumes "routing_ok sha db"
  shows "rb_revisions db = [] \<Longrightarrow> readBoundCurrentPolicy db = Some None"
    and "rb_revisions db \<noteq> [] \<Longrightarrow> readBoundCurrentPolicy db = Some (Some (policy_of db (last (rb_revisions db))))"
proof -
  show "readBoundCurrentPolicy db = Some None" if "rb_revisions db = []"
    using that routing_okD(7) [OF assms] by (simp add: readBoundCurrentPolicy_def)
  assume ne: "rb_revisions db \<noteq> []"
  let ?r = "last (rb_revisions db)"
  note r = last_revision [OF ne]
  have "bounded_text 256 (rw_revision_id ?r)" and "bounded_text 256 (rw_registry_version ?r)"
    using routing_okD(2) [OF assms r] revision_id_row_ok by (auto simp: revision_row_ok_def)
  with ne routing_okD(7) [OF assms] read_policy(1) [OF assms r]
  show "readBoundCurrentPolicy db = Some (Some (policy_of db ?r))"
    by (simp add: readBoundCurrentPolicy_def requiredBoundedText_def) (simp add: policy_of_def)
qed

text \<open>The current policy as a whole: one revision, numbered by how many there are, with a policy of the right shape.\<close>

lemma current_cases:
  assumes "routing_ok sha db" and "readBoundCurrentPolicy db = Some (Some p)"
  shows "rb_revisions db \<noteq> []" and "p = policy_of db (last (rb_revisions db))" and "revision_ok p" and "policy_shape (pr_selectors p)"
    and "pr_revisionId p = revision_id_of (int (length (rb_revisions db)))"
    and "mset (pr_selectors p) = mset (selectors_of db (pr_revisionId p))"
proof -
  show ne: "rb_revisions db \<noteq> []" using current_policy(1) [OF assms(1)] assms(2) by auto
  note r = last_revision [OF ne]
  show p: "p = policy_of db (last (rb_revisions db))" using current_policy(2) [OF assms(1) ne] assms(2) by simp
  show "revision_ok p" unfolding p by (rule read_policy(2) [OF assms(1) r])
  have id: "pr_revisionId p = rw_revision_id (last (rb_revisions db))" by (simp add: p policy_of_def)
  show sel: "mset (pr_selectors p) = mset (selectors_of db (pr_revisionId p))" using policy_of_selectors [of db "last (rb_revisions db)"] by (simp only: p [symmetric] id [symmetric])
  show "policy_shape (pr_selectors p)"
    using policy_shape_mset [OF sel] routing_okD(3) [OF assms(1) r] by (simp add: revision_content_ok_def id)
  show "pr_revisionId p = revision_id_of (int (length (rb_revisions db)))"
    using revision_id_at [OF assms(1), of "length (rb_revisions db) - 1"] ne
    by (simp add: id last_conv_nth) (simp add: of_nat_diff Suc_leI)
qed

lemma current_guard:
  assumes "routing_ok sha db" and "\<forall>s. bounded_text 512 (sha s)" and "rb_revisions db \<noteq> []"
  shows "getCurrentRevisionGuard db = Some (Some \<lparr>pi_revisionId = revision_id_of (int (length (rb_revisions db))),
     pi_revisionNumber = int (length (rb_revisions db)), pi_registryVersion = rw_registry_version (last (rb_revisions db)),
     pi_revisionGuard = rw_revision_guard (last (rb_revisions db))\<rparr>)"
proof -
  let ?r = "last (rb_revisions db)"
  note r = last_revision [OF assms(3)]
  have row: "revision_row_ok sha ?r" by (rule routing_okD(2) [OF assms(1) r])
  have n: "rw_sequence ?r = int (length (rb_revisions db))"
    using sequence_at [OF assms(1), of "length (rb_revisions db) - 1"] assms(3) by (simp add: last_conv_nth of_nat_diff Suc_leI)
  have id: "rw_revision_id ?r = revision_id_of (int (length (rb_revisions db)))" using row n by (simp add: revision_row_ok_def)
  have guard: "bounded_text 512 (rw_revision_guard ?r)" using row assms(2) by (simp add: revision_row_ok_def createRevisionGuard_def)
  show ?thesis
    using routing_okD(7) [OF assms(1)] find_revision_row [OF assms(1) r] assms(3) row revision_id_row_ok [OF row] guard
    by (simp add: getCurrentRevisionGuard_def requiredBoundedText_def requiredPositiveInteger_def revision_row_ok_def id n)
qed

section \<open>A revision is added\<close>

definition mutation_fields_ok :: "policy_mutation \<Rightarrow> bool" where
  "mutation_fields_ok m \<longleftrightarrow> bounded_text 256 (pm_registryVersion m) \<and> canonical_iso (pm_occurredAt m) \<and> opt_bounded 512 (pm_actor m)
     \<and> opt_bounded 512 (pm_correlationId m)"

definition next_id :: "routing_db \<Rightarrow> string" where
  "next_id db = revision_id_of (int (length (rb_revisions db)) + 1)"

lemma prepared:
  assumes "routing_ok sha db" and "prepareRevision sha collate db m reason ss = Some c"
  shows "int (length (rb_revisions db)) + 1 \<le> 2 ^ 53 - 1" and "pr_revisionId (rc_revision c) = next_id db"
    and "mset (pr_selectors (rc_revision c)) = mset ss" and "pr_registryVersion (rc_revision c) = pm_registryVersion m"
    and "rw_sequence (revision_row_of c) = int (length (rb_revisions db)) + 1" and "rw_revision_id (revision_row_of c) = next_id db"
    and "mutation_fields_ok m \<Longrightarrow> revision_row_ok sha (revision_row_of c)"
    and "rw_registry_version (revision_row_of c) = pm_registryVersion m"
  using assms(2) by (auto simp: prepareRevision_def next_sequence [OF assms(1)] Let_def revision_row_of_def next_id_def
      mutation_fields_ok_def revision_row_ok_def split: if_splits)

lemma insertion:
  assumes ok: "routing_ok sha db" and prep: "prepareRevision sha collate db m reason ss = Some c"
    and ins: "insertPreparedRevision c db = Some db'"
  shows "rb_revisions db' = rb_revisions db @ [revision_row_of c]" and "rb_attention db' = rb_attention db"
    and "rb_state db' = Some (next_id db, pm_registryVersion m)"
    and "selectors_of db' (next_id db) = pr_selectors (rc_revision c)"
    and "j \<noteq> next_id db \<Longrightarrow> selectors_of db' j = selectors_of db j"
    and "rb_dependencies db' = rb_dependencies db @ concat (map (dependencies_of (next_id db)) (pr_selectors (rc_revision c)))"
    and "rb_selectors db' = rb_selectors db @ map (selector_row_of (next_id db)) (pr_selectors (rc_revision c))"
proof -
  note p = prepared [OF ok prep] and db' = insertPrepared_Some(3) [OF ins, unfolded p(2) p(4)]
  show "rb_revisions db' = rb_revisions db @ [revision_row_of c]" "rb_attention db' = rb_attention db"
    "rb_state db' = Some (next_id db, pm_registryVersion m)"
    "rb_dependencies db' = rb_dependencies db @ concat (map (dependencies_of (next_id db)) (pr_selectors (rc_revision c)))"
    "rb_selectors db' = rb_selectors db @ map (selector_row_of (next_id db)) (pr_selectors (rc_revision c))"
    by (simp_all add: db')
  have fresh: "filter (\<lambda>r. sl_revision_id r = next_id db) (rb_selectors db) = []"
  proof -
    have "sl_revision_id r \<noteq> next_id db" if "r \<in> set (rb_selectors db)" for r
      using routing_okD(4) [OF ok that] new_revision_id [OF ok] by (auto simp: next_id_def)
    then show ?thesis by (simp add: filter_empty_conv)
  qed
  show "selectors_of db' (next_id db) = pr_selectors (rc_revision c)"
    using fresh by (simp add: db' selectors_of_def filter_map comp_def selector_row_of_def)
  show "selectors_of db' j = selectors_of db j" if "j \<noteq> next_id db"
    using that by (simp add: db' selectors_of_def filter_map comp_def selector_row_of_def)
qed

lemma attention_row_mono: "attention_row_ok n a \<Longrightarrow> n \<le> k \<Longrightarrow> attention_row_ok k a"
  unfolding attention_row_ok_def by (meson order_less_le_trans)

lemma insertion_ok:
  assumes ok: "routing_ok sha db" and prep: "prepareRevision sha collate db m reason ss = Some c"
    and ins: "insertPreparedRevision c db = Some db'" and shape: "policy_shape ss" and fields: "mutation_fields_ok m"
  shows "routing_ok sha db'"
proof -
  note p = prepared [OF ok prep] and q = insertion [OF ok prep ins]
  let ?i = "next_id db" and ?n = "length (rb_revisions db)"
  have new: "?i \<notin> revision_ids db" using new_revision_id [OF ok] by (simp add: next_id_def)
  have ids: "revision_ids db' = insert ?i (revision_ids db)" by (simp add: revision_ids_def q(1) p(6))
  have deps: "{d \<in> set (rb_dependencies db'). rd_revisionId d = j} =
      {d \<in> set (rb_dependencies db). rd_revisionId d = j} \<union> (if j = ?i then \<Union>s\<in>set (selectors_of db' ?i). set (dependencies_of ?i s) else {})" for j
    by (auto simp: q(6) q(4) dependencies_of_def)
  have "map rw_sequence (rb_revisions db') = map (\<lambda>k. int k + 1) [0..<length (rb_revisions db')]"
    by (simp add: q(1) p(5) routing_okD(1) [OF ok])
  moreover have "revision_row_ok sha r \<and> revision_content_ok db' (rw_revision_id r)" if "r \<in> set (rb_revisions db')" for r
  proof (cases "r \<in> set (rb_revisions db)")
    case True
    then have "rw_revision_id r \<noteq> ?i" using new imageI [of r _ rw_revision_id] unfolding revision_ids_def by metis
    with routing_okD(2,3) [OF ok True] show ?thesis by (simp add: revision_content_ok_def q(5) deps)
  next
    case False
    with that have r: "r = revision_row_of c" by (simp add: q(1))
    have "rd_revisionId d \<noteq> ?i" if "d \<in> set (rb_dependencies db)" for d using routing_okD(5) [OF ok that] new by auto
    then have none: "{d \<in> set (rb_dependencies db). rd_revisionId d = ?i} = {}" by simp
    have "policy_shape (selectors_of db' ?i)" using policy_shape_mset [OF p(3)] shape by (simp add: q(4))
    then show ?thesis using p(7) [OF fields] unfolding r p(6) revision_content_ok_def deps none by simp
  qed
  moreover have "sl_revision_id x \<in> revision_ids db' \<and> sl_scope_key x = selectorScopeKey (ps_scope (sl_selector x))"
    if "x \<in> set (rb_selectors db')" for x
    using that routing_okD(4) [OF ok] by (auto simp: q(7) ids selector_row_of_def)
  moreover have "rd_revisionId d \<in> revision_ids db'" if "d \<in> set (rb_dependencies db')" for d
    using that routing_okD(5) [OF ok] by (auto simp: q(6) ids dependencies_of_def)
  moreover have "attention_row_ok (length (rb_revisions db')) a" if "a \<in> set (rb_attention db')" for a
    using attention_row_mono [OF routing_okD(6) [OF ok], of a] that by (simp add: q(1,2))
  ultimately show ?thesis by (simp add: routing_ok_def q(1,3) p(6,8))
qed

text \<open>The policy that is then in force.\<close>

lemma insertion_current:
  assumes ok: "routing_ok sha db" and prep: "prepareRevision sha collate db m reason ss = Some c"
    and ins: "insertPreparedRevision c db = Some db'" and shape: "policy_shape ss" and fields: "mutation_fields_ok m"
  obtains p where "readBoundCurrentPolicy db' = Some (Some p)" and "mset (pr_selectors p) = mset ss"
    and "pr_registryVersion p = pm_registryVersion m" and "pr_revisionId p = next_id db"
proof -
  note ok' = insertion_ok [OF ok prep ins shape fields] and q = insertion [OF ok prep ins] and p = prepared [OF ok prep]
  have cur: "readBoundCurrentPolicy db' = Some (Some (policy_of db' (revision_row_of c)))"
    using current_policy(2) [OF ok'] by (simp add: q(1))
  have id: "pr_revisionId (policy_of db' (revision_row_of c)) = next_id db" by (simp add: policy_of_def p(6))
  from current_cases(6) [OF ok' cur] have "mset (pr_selectors (policy_of db' (revision_row_of c))) = mset ss"
    by (simp add: id q(4) p(3))
  with cur id that [OF cur] show thesis by (simp add: policy_of_def p(8))
qed

section \<open>Every operation keeps the invariant\<close>

lemma check_selectors_None:
  "check_selectors ctx scopes ss = None \<Longrightarrow>
     distinct (map ps_scope ss) \<and> (\<forall>s\<in>set ss. selectorScopeKey (ps_scope s) \<notin> set scopes \<and> check_shape s \<and> check_routes ctx s = None)"
proof (induction ctx scopes ss rule: check_selectors.induct)
  case (2 ctx scopes s ss)
  then have s: "selectorScopeKey (ps_scope s) \<notin> set scopes" "check_shape s" "check_routes ctx s = None"
      and rest: "check_selectors ctx (selectorScopeKey (ps_scope s) # scopes) ss = None"
    by (auto split: if_splits option.splits)
  from "2.IH" [OF _ _ _ s(3)] "2.prems" rest
  have "distinct (map ps_scope ss) \<and> (\<forall>t\<in>set ss. selectorScopeKey (ps_scope t) \<notin> set (selectorScopeKey (ps_scope s) # scopes)
      \<and> check_shape t \<and> check_routes ctx t = None)"
    by (simp split: if_splits)
  with s show ?case by (auto simp: image_iff)
qed simp

lemma check_routes_distinct: "check_routes ctx s = None \<Longrightarrow> distinct (referencedRoutes s)"
  by (auto simp: check_routes_def referencedRoutes_def Let_def split: route_selector.splits failure_policy.splits option.splits if_splits)

lemma validated:
  assumes "validateMutation m ctx cur = None"
  shows "mutation_ok m" and "mutation_fields_ok m" and "policy_shape (pm_selectors m)" and "map_option pr_revisionId cur = pm_expectedRevisionId m"
    and "\<forall>s\<in>set (pm_selectors m). check_routes ctx s = None"
proof -
  from assms have sel: "check_selectors ctx [] (pm_selectors m) = None"
    and one: "length (filter (\<lambda>s. ps_scope s = Scope_global) (pm_selectors m)) = 1"
    and m: "mutation_ok m" and e: "map_option pr_revisionId cur = pm_expectedRevisionId m"
    by (auto simp: validateMutation_def split: if_splits option.splits)
  show "mutation_ok m" "map_option pr_revisionId cur = pm_expectedRevisionId m" by (fact m e)+
  from m show "mutation_fields_ok m" by (simp add: mutation_ok_def mutation_fields_ok_def)
  from check_selectors_None [OF sel] show "\<forall>s\<in>set (pm_selectors m). check_routes ctx s = None" by simp
  have "filter (\<lambda>s. ps_scope s = Scope_global) (pm_selectors m) \<noteq> []" using one by (metis length_0_conv zero_neq_one)
  then have "\<exists>s\<in>set (pm_selectors m). ps_scope s = Scope_global" by (simp add: filter_empty_conv)
  with check_selectors_None [OF sel] m check_routes_distinct show "policy_shape (pm_selectors m)"
    by (auto simp: policy_shape_def mutation_ok_def list_all_iff)
qed

lemma insertRevision_Some:
  "insertRevision sha collate m reason ss db = Some (p, db') \<longleftrightarrow>
     (\<exists>c. prepareRevision sha collate db m reason ss = Some c \<and> insertPreparedRevision c db = Some db' \<and> p = rc_revision c)"
  by (auto simp: insertRevision_def Option.bind_eq_Some_conv)

lemma apply_cases:
  assumes "applyMutation sha collate m ctx seen db = Some (x, db')"
  shows "db' = db \<or> (\<exists>c. validateMutation m ctx (the (getCurrentPolicy seen)) = None
     \<and> prepareRevision sha collate db m (pm_reason m) (pm_selectors m) = Some c \<and> insertPreparedRevision c db = Some db' \<and> x = Inr (rc_revision c))"
  using assms by (auto simp: applyMutation_def Option.bind_eq_Some_conv insertRevision_Some split: option.splits if_splits)

lemma apply_keeps:
  assumes "routing_ok sha db" and "applyMutation sha collate m ctx seen db = Some (x, db')"
  shows "routing_ok sha db'"
  using apply_cases [OF assms(2)] assms(1) insertion_ok [OF assms(1)] validated(2,3) by metis

text \<open>What a draft that passes has been checked for, and what a committed draft has done.\<close>

definition row_checked :: "row_draft \<Rightarrow> mutation_context \<Rightarrow> policy_revision \<Rightarrow> policy_identity option \<Rightarrow> bool" where
  "row_checked d ctx cur i \<longleftrightarrow> validateRowMutationDraft d ctx (Some cur) i = None
     \<and> validateMutation (row_mutation d ctx cur) \<lparr>vc_registry = mx_registry ctx, vc_routes = mx_routes ctx\<rparr> (Some cur) = None
     \<and> \<not> hasFallbackCycle (row_selectors d cur)"

lemma prepareRow_Inr:
  "prepareRowMutation d ctx cur0 i = Inr ss \<longleftrightarrow> (\<exists>cur. cur0 = Some cur \<and> row_checked d ctx cur i \<and> ss = row_selectors d cur)"
  by (auto simp: prepareRowMutation_def row_checked_def split: option.splits)

lemma row_cases:
  assumes "applyRowMutation sha collate d ctx settle db = Some (x, db')"
  shows "db' = db \<and> (\<exists>c. x = Inl c) \<or> (\<exists>cur i cand y. draft_ok d \<and> readBoundCurrentPolicy db = Some (Some cur) \<and> getCurrentRevisionGuard db = Some i
     \<and> row_checked d ctx cur i
     \<and> prepareRevision sha collate db (row_mutation d ctx cur) rr_operator_mutation (row_selectors d cur) = Some cand
     \<and> settle cand = Some y \<and> insertPreparedRevision cand db = Some db' \<and> x = Inr (rc_revision cand, y))"
proof (cases "draft_ok d \<and> mutation_context_ok ctx")
  case True
  with assms obtain cur0 i where r: "readBoundCurrentPolicy db = Some cur0" "getCurrentRevisionGuard db = Some i"
    and step: "(case prepareRowMutation d ctx cur0 i of Inl c \<Rightarrow> Some (Inl (Row_rejected c), db)
      | Inr ss \<Rightarrow> do { cur \<leftarrow> cur0; cand \<leftarrow> prepareRevision sha collate db (row_mutation d ctx cur) rr_operator_mutation ss;
          case settle cand of None \<Rightarrow> Some (Inl Row_read_failed, db)
          | Some x \<Rightarrow> do { db' \<leftarrow> insertPreparedRevision cand db; Some (Inr (rc_revision cand, x), db') } }) = Some (x, db')"
    by (auto simp: applyRowMutation_def Option.bind_eq_Some_conv)
  show ?thesis
  proof (cases "prepareRowMutation d ctx cur0 i")
    case (Inr ss)
    then obtain cur where "cur0 = Some cur" "row_checked d ctx cur i" "ss = row_selectors d cur" by (auto simp: prepareRow_Inr)
    with step Inr r True show ?thesis by (auto simp: Option.bind_eq_Some_conv split: option.splits)
  qed (use step in auto)
qed (use assms in \<open>auto simp: applyRowMutation_def\<close>)

lemma row_keeps:
  assumes "routing_ok sha db" and "applyRowMutation sha collate d ctx settle db = Some (x, db')"
  shows "routing_ok sha db'"
  using row_cases [OF assms(2)]
proof (elim disjE exE conjE)
  fix cur i cand assume v: "row_checked d ctx cur i"
    and c: "prepareRevision sha collate db (row_mutation d ctx cur) rr_operator_mutation (row_selectors d cur) = Some cand"
      "insertPreparedRevision cand db = Some db'"
  from v have "validateMutation (row_mutation d ctx cur) \<lparr>vc_registry = mx_registry ctx, vc_routes = mx_routes ctx\<rparr> (Some cur) = None"
    by (simp add: row_checked_def)
  from validated(2,3) [OF this] show ?thesis
    by (intro insertion_ok [OF assms(1) c]) (simp_all add: row_mutation_def)
qed (simp add: assms(1))

lemma policy_shape_filter:
  "policy_shape ss \<Longrightarrow> (\<And>s. ps_scope s = Scope_global \<Longrightarrow> P s) \<Longrightarrow> policy_shape (filter P ss)"
  by (auto simp: policy_shape_def distinct_map inj_on_def)

lemma insert_attention_iff:
  "insert_attention as db = Some db' \<longleftrightarrow>
     distinct (map ra_attentionId as) \<and> ra_attentionId ` set as \<inter> ra_attentionId ` set (rb_attention db) = {}
     \<and> db' = db\<lparr>rb_attention := rb_attention db @ as\<rparr>"
proof (induction as arbitrary: db)
  case (Cons a as)
  then show ?case by (auto simp: Option.bind_eq_Some_conv)
qed auto

definition reset_rows :: "reset_request \<Rightarrow> string \<Rightarrow> policy_selector list \<Rightarrow> routing_attention list" where
  "reset_rows q i affected = concat (map (\<lambda>(k, s). reset_attention (routeIdentityKey ` set (rq_unavailable q)) (rq_reasonCode q) i
     (rq_occurredAt q) k s) (List.enumerate 0 affected))"

definition reset_mutation :: "reset_request \<Rightarrow> policy_revision \<Rightarrow> policy_mutation" where
  "reset_mutation q p = \<lparr>pm_registryVersion = rq_registryVersion q, pm_expectedRevisionId = Some (pr_revisionId p),
     pm_reason = rr_operator_mutation, pm_occurredAt = rq_occurredAt q, pm_actor = rq_actor q, pm_correlationId = rq_correlationId q,
     pm_selectors = filter (\<lambda>s. \<not> affected_by (routeIdentityKey ` set (rq_unavailable q)) s) (pr_selectors p)\<rparr>"

lemma reset_cases:
  assumes "resetUnavailableRoutes sha collate q seen db = Some (x, db')"
  shows "db' = db \<or> (\<exists>p c db1. reset_request_ok q \<and> getCurrentPolicy seen = Some (Some p)
     \<and> prepareRevision sha collate db (reset_mutation q p) rr_catalog_reset (pm_selectors (reset_mutation q p)) = Some c
     \<and> insertPreparedRevision c db = Some db1
     \<and> insert_attention (reset_rows q (pr_revisionId (rc_revision c)) (filter (affected_by (routeIdentityKey ` set (rq_unavailable q))) (pr_selectors p))) db1
         = Some db' \<and> x = Some (Inr (rc_revision c)))"
  using assms
  by (auto simp: resetUnavailableRoutes_def reset_mutation_def reset_rows_def Let_def Option.bind_eq_Some_conv insertRevision_Some
      split: option.splits if_splits)

lemma reset_row_attention: "a \<in> set (reset_rows q i affected) \<Longrightarrow> \<exists>j m. ra_revisionId a = i \<and> ra_attentionId a = attention_id_of i j m"
  by (auto simp: reset_rows_def reset_attention_def) blast

lemma insertion_attention_ok:
  assumes "routing_ok sha db" and "length (rb_revisions db) = Suc n" and "insert_attention as db = Some db'"
    and "\<And>a. a \<in> set as \<Longrightarrow> \<exists>j m. ra_revisionId a = revision_id_of (int n + 1) \<and> ra_attentionId a = attention_id_of (revision_id_of (int n + 1)) j m"
  shows "routing_ok sha db'"
proof -
  have db': "db' = db\<lparr>rb_attention := rb_attention db @ as\<rparr>" using assms(3) by (simp add: insert_attention_iff)
  have "attention_row_ok (Suc n) a" if "a \<in> set as" for a using assms(4) [OF that] by (auto simp: attention_row_ok_def)
  then show ?thesis using assms(1,2) by (auto simp: routing_ok_def db' revision_ids_def revision_content_ok_def selectors_of_def)
qed

lemma reset_fields: "reset_request_ok q \<Longrightarrow> mutation_fields_ok (reset_mutation q p)"
  by (simp add: reset_request_ok_def mutation_fields_ok_def reset_mutation_def)

lemma kept_shape: "policy_shape (pr_selectors p) \<Longrightarrow> policy_shape (pm_selectors (reset_mutation q p))"
  by (simp add: reset_mutation_def affected_by_def policy_shape_filter)

lemma reset_keeps:
  assumes "routing_ok sha db" and "routing_ok sha seen" and "resetUnavailableRoutes sha collate q seen db = Some (x, db')"
  shows "routing_ok sha db'"
  using reset_cases [OF assms(3)]
proof (elim disjE exE conjE)
  fix p c db1
  assume q: "reset_request_ok q" and p: "getCurrentPolicy seen = Some (Some p)"
    and c: "prepareRevision sha collate db (reset_mutation q p) rr_catalog_reset (pm_selectors (reset_mutation q p)) = Some c"
      "insertPreparedRevision c db = Some db1"
    and att: "insert_attention (reset_rows q (pr_revisionId (rc_revision c))
      (filter (affected_by (routeIdentityKey ` set (rq_unavailable q))) (pr_selectors p))) db1 = Some db'"
  have shape: "policy_shape (pm_selectors (reset_mutation q p))"
    using current_cases(4) [OF assms(2)] p by (intro kept_shape) (simp add: getCurrentPolicy_def)
  have ok1: "routing_ok sha db1" by (rule insertion_ok [OF assms(1) c shape reset_fields [OF q]])
  show ?thesis
  proof (rule insertion_attention_ok [OF ok1 _ att])
    show "length (rb_revisions db1) = Suc (length (rb_revisions db))" by (simp add: insertion(1) [OF assms(1) c])
  qed (use reset_row_attention in \<open>auto simp: prepared(2) [OF assms(1) c(1)] next_id_def\<close>)
qed (simp add: assms(1))

lemma acknowledge_rows_ok:
  assumes "routing_ok sha db"
  shows "routing_ok sha (db\<lparr>rb_attention := acknowledge_rows i t (rb_attention db)\<rparr>)"
proof -
  have "attention_row_ok n a" if "\<forall>a\<in>set as. attention_row_ok n a" "a \<in> set (acknowledge_rows i t as)" for n a and as :: "routing_attention list"
    using that by (auto simp: acknowledge_rows_def attention_row_ok_def)
  with assms show ?thesis by (auto simp: routing_ok_def revision_ids_def revision_content_ok_def selectors_of_def)
qed

lemma ack_keeps: "routing_ok sha db \<Longrightarrow> routing_ok sha (snd (acknowledgeAttention i t db))"
  by (simp add: acknowledgeAttention_def acknowledge_rows_ok)

lemma matrix_ack_cases:
  assumes "acknowledgeMatrixAttention k db = Some (x, db')"
  shows "db' = db \<or> (\<exists>i t. db' = db\<lparr>rb_attention := acknowledge_rows i t (rb_attention db)\<rparr>)"
proof (cases "ack_ok k")
  case True
  with assms obtain i where "getCurrentRevisionGuard db = Some i" by (auto simp: acknowledgeMatrixAttention_def Option.bind_eq_Some_conv)
  with True assms show ?thesis
    by (cases i; cases "List.find (\<lambda>a. ra_attentionId a = ak_attentionId k) (rb_attention db)")
      (auto simp: acknowledgeMatrixAttention_def Option.bind_eq_Some_conv split: if_splits option.splits)
qed (use assms in \<open>simp add: acknowledgeMatrixAttention_def\<close>)

lemma matrix_ack_keeps: "routing_ok sha db \<Longrightarrow> acknowledgeMatrixAttention k db = Some (x, db') \<Longrightarrow> routing_ok sha db'"
  by (auto dest!: matrix_ack_cases intro: acknowledge_rows_ok)

section \<open>Reachable stores\<close>

text \<open>
  The operations in any order, with any settlement of a row. A policy is validated, and the selectors to reset are chosen, on a
  reading that may be older than the transaction; any reachable store may have been the one that was read.
\<close>

inductive routing_reachable :: "(string \<Rightarrow> string) \<Rightarrow> (string \<Rightarrow> string \<Rightarrow> int) \<Rightarrow> routing_db \<Rightarrow> bool"
  for sha :: "string \<Rightarrow> string" and collate :: "string \<Rightarrow> string \<Rightarrow> int" where
  start: "routing_reachable sha collate empty_routing_db"
| applied: "routing_reachable sha collate db \<Longrightarrow> routing_reachable sha collate seen \<Longrightarrow>
    applyMutation sha collate m ctx seen db = Some (x, db') \<Longrightarrow> routing_reachable sha collate db'"
| row: "routing_reachable sha collate db \<Longrightarrow>
    applyRowMutation sha collate d mctx (settle :: revision_candidate \<Rightarrow> jsv option) db = Some (y, db') \<Longrightarrow> routing_reachable sha collate db'"
| reset: "routing_reachable sha collate db \<Longrightarrow> routing_reachable sha collate seen \<Longrightarrow>
    resetUnavailableRoutes sha collate q seen db = Some (z, db') \<Longrightarrow> routing_reachable sha collate db'"
| acknowledged: "routing_reachable sha collate db \<Longrightarrow> routing_reachable sha collate (snd (acknowledgeAttention i t db))"
| matrix_acknowledged: "routing_reachable sha collate db \<Longrightarrow> acknowledgeMatrixAttention k db = Some (a, db') \<Longrightarrow>
    routing_reachable sha collate db'"

lemma routing_reachable_ok: "routing_reachable sha collate db \<Longrightarrow> routing_ok sha db"
  by (induction rule: routing_reachable.induct)
    (blast intro: empty_routing_ok apply_keeps row_keeps reset_keeps ack_keeps matrix_ack_keeps)+

lemma dependencies_listed:
  assumes "routing_ok sha db" and "readBoundCurrentPolicy db = Some (Some p)"
  shows "\<exists>ds. listCurrentDependencies db = Some ds \<and> set ds = (\<Union>s\<in>set (pr_selectors p). set (dependencies_of (pr_revisionId p) s))"
proof -
  note c = current_cases [OF assms]
  let ?rows = "filter (\<lambda>d. rd_revisionId d = pr_revisionId p) (rb_dependencies db)"
  let ?ds = "sort_by by_dependency ?rows"
  have id: "pr_revisionId p = rw_revision_id (last (rb_revisions db))" using c(2) by (simp add: policy_of_def)
  have set_eq: "set (pr_selectors p) = set (selectors_of db (pr_revisionId p))" by (rule mset_eq_setD [OF c(6)])
  have "set ?rows = {d \<in> set (rb_dependencies db). rd_revisionId d = pr_revisionId p}" by auto
  also have "\<dots> = (\<Union>s\<in>set (selectors_of db (pr_revisionId p)). set (dependencies_of (pr_revisionId p) s))"
    using routing_okD(3) [OF assms(1) last_revision [OF c(1)]] by (simp add: revision_content_ok_def id)
  finally have ds: "set ?ds = (\<Union>s\<in>set (pr_selectors p). set (dependencies_of (pr_revisionId p) s))" by (simp add: set_eq)
  have "dependency_ok d" if "d \<in> set ?ds" for d
  proof -
    from that ds obtain s where s: "s \<in> set (pr_selectors p)" "d \<in> set (dependencies_of (pr_revisionId p) s)" by auto
    with c(4) have "stored_selector_ok s" by (simp add: policy_shape_def)
    with s(2) c(3) show ?thesis
      by (auto simp: dependencies_of_def dependency_ok_def revision_ok_def stored_selector_ok_def selector_ok_def referencedRoutes_def
          split: route_selector.splits failure_policy.splits)
  qed
  then have "parse_all rowToDependency ?ds = Some ?ds" by (simp add: parse_all_Some_iff list_all2_same rowToDependency_def)
  with ds assms(2) show ?thesis by (simp add: listCurrentDependencies_def getCurrentPolicy_def)
qed

lemma global_selector:
  assumes "policy_shape ss"
  shows "\<exists>g. filter (\<lambda>s. ps_scope s = Scope_global) ss = [\<lparr>ps_scope = Scope_global, ps_selector = Select_route g, ps_failurePolicy = Fail_immediately\<rparr>]"
proof -
  obtain s where s: "s \<in> set ss" "ps_scope s = Scope_global" and d: "distinct (map ps_scope ss)"
    and shape: "check_shape s" using assms by (auto simp: policy_shape_def)
  from s(1) obtain xs ys where ss: "ss = xs @ s # ys" by (meson split_list)
  from d s(2) have "Scope_global \<notin> ps_scope ` set xs" "Scope_global \<notin> ps_scope ` set ys" by (auto simp: ss)
  then have "filter (\<lambda>s. ps_scope s = Scope_global) xs = []" "filter (\<lambda>s. ps_scope s = Scope_global) ys = []"
    by (metis (mono_tags, lifting) filter_False imageI)+
  then have "filter (\<lambda>s. ps_scope s = Scope_global) ss = [s]" using s(2) by (simp add: ss)
  moreover from shape s(2) obtain g where "ps_selector s = Select_route g" "ps_failurePolicy s = Fail_immediately"
    by (cases "ps_selector s") (auto simp: check_shape_def)
  ultimately show ?thesis using s(2) by (cases s) auto
qed

section \<open>The guards and the conditions\<close>

text \<open>What a guard narrows satisfies the condition on the record.\<close>

lemma scope_guard: "isRoutingSelectorScopeV1 v = Some sc \<Longrightarrow> scope_ok sc"
  by (auto simp: isRoutingSelectorScopeV1_def scope_ok_def isActionId_def split: if_splits)

lemma stored_selector_guard: "isRoutingPolicySelectorV1 v = Some s \<Longrightarrow> stored_selector_ok s"
proof -
  assume g: "isRoutingPolicySelectorV1 v = Some s"
  then have "isRoutingSelectorScopeV1 (jget v ''scope'') = Some (ps_scope s)"
    by (auto simp: isRoutingPolicySelectorV1_def Option.bind_eq_Some_conv split: if_splits)
  with selector_guard [OF g] scope_guard show ?thesis by (simp add: stored_selector_ok_def)
qed

lemma bounded_guard: "isBoundedString n v = Some s \<Longrightarrow> bounded_text n s"
  by (simp add: isBoundedString_def)

lemma opt_bounded_guard: "or_null (isBoundedString n) v = Some x \<Longrightarrow> opt_bounded n x"
  by (auto simp: or_null_def opt_bounded_def dest: bounded_guard split: if_splits)

lemma iso_guard: "isCanonicalIsoTimestamp v = Some t \<Longrightarrow> canonical_iso t"
  by (simp add: isCanonicalIsoTimestamp_def)

lemma collection_guard: "isAgentRegistryCollectionV1 v = Some es \<Longrightarrow> collection_ok es"
proof -
  assume g: "isAgentRegistryCollectionV1 v = Some es"
  then have "array_of isAgentRegistryEntryV1 v = Some es"
    by (auto simp: isAgentRegistryCollectionV1_def Option.bind_eq_Some_conv split: if_splits)
  then have "\<forall>e\<in>set es. entry_ok e" by (rule array_of_inv) (rule entry_guard)
  with g show ?thesis by (auto simp: isAgentRegistryCollectionV1_def collection_ok_def list_all_iff Option.bind_eq_Some_conv split: if_splits)
qed

lemma fact_guard: "isRoutingCatalogRouteFactV1 v = Some f \<Longrightarrow> fact_ok f"
  by (auto simp: isRoutingCatalogRouteFactV1_def fact_ok_def or_null_def natural_bounded_def Option.bind_eq_Some_conv
      dest: route_guard split: if_splits)

lemma expected_guard: "isExpectedRevision v = Some e \<Longrightarrow> expected_ok e"
  by (auto simp: isExpectedRevision_def expected_ok_def positive_def Option.bind_eq_Some_conv dest: bounded_guard split: if_splits)

lemma selection_guard: "isRowSelection v = Some s \<Longrightarrow> selection_ok s"
  by (auto simp: isRowSelection_def selection_ok_def isFailurePolicyV1_def Option.bind_eq_Some_conv dest: route_guard split: if_splits)

lemma draft_guard: "isRoutingMatrixRowDraftV1 v = Some d \<Longrightarrow> draft_ok d"
  by (auto simp: isRoutingMatrixRowDraftV1_def draft_ok_def Option.bind_eq_Some_conv
      dest: scope_guard selection_guard expected_guard bounded_guard split: if_splits)

lemma facts_guard: "array_of isRoutingCatalogRouteFactV1 v = Some fs \<Longrightarrow> list_all fact_ok fs"
  using array_of_inv [of isRoutingCatalogRouteFactV1 v fs fact_ok] fact_guard by (simp add: list_all_iff)

lemma matrix_context_guard: "isRoutingMatrixMutationContextV1 v = Some c \<Longrightarrow> mutation_context_ok c"
  by (auto simp: isRoutingMatrixMutationContextV1_def mutation_context_ok_def facts_ok_def Option.bind_eq_Some_conv
      dest: bounded_guard opt_bounded_guard iso_guard collection_guard facts_guard split: if_splits)

lemma ack_guard: "isRoutingMatrixAttentionAcknowledgeV1 v = Some k \<Longrightarrow> ack_ok k"
  by (auto simp: isRoutingMatrixAttentionAcknowledgeV1_def ack_ok_def Option.bind_eq_Some_conv Let_def
      dest: bounded_guard expected_guard route_guard iso_guard split: if_splits)

lemma validation_context_guard: "isRoutingPolicyValidationContextV1 v = Some c \<Longrightarrow> context_ok c"
  by (auto simp: isRoutingPolicyValidationContextV1_def context_ok_def facts_ok_def Option.bind_eq_Some_conv
      dest: collection_guard facts_guard split: if_splits)

lemma mutation_guard: "isRoutingPolicyMutationV1 v = Some m \<Longrightarrow> mutation_ok m"
proof -
  assume g: "isRoutingPolicyMutationV1 v = Some m"
  then have "array_of isRoutingPolicySelectorV1 (jget v ''selectors'') = Some (pm_selectors m)"
    by (auto simp: isRoutingPolicyMutationV1_def Option.bind_eq_Some_conv split: if_splits)
  then have "\<forall>s\<in>set (pm_selectors m). stored_selector_ok s" by (rule array_of_inv) (rule stored_selector_guard)
  with g show ?thesis
    by (auto simp: isRoutingPolicyMutationV1_def mutation_ok_def list_all_iff Option.bind_eq_Some_conv enum_of_def
        dest: bounded_guard opt_bounded_guard iso_guard split: if_splits)
qed

end
