(* ===== verification/RoutingProperties.thy ===== *)
theory RoutingProperties
  imports RoutingStoreFacts
begin

text \<open>
  The properties of the routing store, with an example store on which the witnesses are evaluated. A row draft is a command of
  the contract of \<open>Versioned\<close>.
\<close>

section \<open>Selectors of a scope\<close>

lemma find_mset:
  assumes "mset xs = mset ys" and "distinct (map f xs)"
  shows "List.find (\<lambda>x. f x = k) xs = List.find (\<lambda>x. f x = k) ys"
proof (cases "List.find (\<lambda>x. f x = k) xs")
  case None
  then show ?thesis using mset_eq_setD [OF assms(1)] by (metis find_None_set)
next
  case (Some x)
  note x = find_Some_set [OF Some]
  have "List.find (\<lambda>x. f x = k) ys = Some x"
    using x mset_eq_setD [OF assms(1)] assms(2) by (intro find_unique) (auto simp: distinct_map inj_on_def)
  with Some show ?thesis by simp
qed

lemma find_append: "List.find P (xs @ ys) = (case List.find P xs of None \<Rightarrow> List.find P ys | Some x \<Rightarrow> Some x)"
  by (induction xs) simp_all

lemma find_filter: "(\<And>x. P x \<Longrightarrow> Q x) \<Longrightarrow> List.find P (filter Q xs) = List.find P xs"
  by (induction xs) auto

lemma find_filter_none: "(\<And>x. P x \<Longrightarrow> \<not> Q x) \<Longrightarrow> List.find P (filter Q xs) = None"
  by (auto simp: find_None_set)

lemma row_selectors_find:
  "List.find (\<lambda>s. ps_scope s = sc) (row_selectors d cur) =
     (if sc = dr_scope d then (case dr_selection d of Row_inherit \<Rightarrow> None
        | Row_route r f \<Rightarrow> Some \<lparr>ps_scope = dr_scope d, ps_selector = Select_route r, ps_failurePolicy = f\<rparr>)
      else List.find (\<lambda>s. ps_scope s = sc) (pr_selectors cur))"
proof (cases "sc = dr_scope d")
  case True
  have "List.find (\<lambda>s. ps_scope s = dr_scope d) (filter (\<lambda>s. ps_scope s \<noteq> dr_scope d) (pr_selectors cur)) = None"
    by (rule find_filter_none) simp
  with True show ?thesis by (simp add: row_selectors_def find_append split: row_selection.split)
next
  case False
  have "List.find (\<lambda>s. ps_scope s = sc) (filter (\<lambda>s. ps_scope s \<noteq> dr_scope d) (pr_selectors cur))
      = List.find (\<lambda>s. ps_scope s = sc) (pr_selectors cur)"
    using False by (intro find_filter) simp
  with False show ?thesis by (simp add: row_selectors_def find_append split: row_selection.split option.split)
qed

lemma fallback_rel_mset:
  assumes "mset ss = mset ts" and "distinct (map ps_scope ss)"
  shows "fallback_rel ss = fallback_rel ts"
  using find_mset [OF assms, of Scope_global] mset_eq_setD [OF assms(1)] by (simp add: fallback_rel_def globalRoute_def)

text \<open>A route of the catalog that serves every action of a scope.\<close>

definition route_serves :: "validation_context \<Rightarrow> selector_scope \<Rightarrow> route_identity \<Rightarrow> bool" where
  "route_serves ctx sc r \<longleftrightarrow> (\<exists>f\<in>set (vc_routes ctx). routeIdentityKey (rf_route f) = routeIdentityKey r \<and> rf_connectionActive f \<and> rf_available f
     \<and> (\<forall>e\<in>set (entriesForScope sc (vc_registry ctx)). meetsRequirements f (re_capabilityRequirements e)))"

lemma validate_route_None: "validate_route r (entriesForScope sc (vc_registry ctx)) (vc_routes ctx) = None \<Longrightarrow> route_serves ctx sc r"
  by (auto simp: validate_route_def route_serves_def list_ex_iff dest!: find_Some_set split: option.splits if_splits)

lemma check_routes_serves: "check_routes ctx s = None \<Longrightarrow> check_shape s \<Longrightarrow> r \<in> set (referencedRoutes s) \<Longrightarrow> route_serves ctx (ps_scope s) r"
  by (auto simp: check_routes_def referencedRoutes_def check_shape_def Let_def intro!: validate_route_None
      split: route_selector.splits failure_policy.splits option.splits if_splits)

section \<open>Row drafts as versioned commands\<close>

definition store_version :: "routing_db \<Rightarrow> int" where
  "store_version db = (case rb_state db of None \<Rightarrow> 0
     | Some (i, v) \<Rightarrow> (case find_revision db i of None \<Rightarrow> 0 | Some r \<Rightarrow> rw_sequence r))"

definition exec_row ::
  "(string \<Rightarrow> string) \<Rightarrow> (string \<Rightarrow> string \<Rightarrow> int) \<Rightarrow> routing_db \<Rightarrow> row_draft \<times> mutation_context \<times> (revision_candidate \<Rightarrow> 'a option)
     \<Rightarrow> routing_db option" where
  "exec_row sha collate db c =
     (if routing_ok sha db then
        (case applyRowMutation sha collate (fst c) (fst (snd c)) (snd (snd c)) db of
           Some (Inr _, db') \<Rightarrow> Some db'
         | _ \<Rightarrow> None)
      else None)"

lemma exec_row_Some:
  "exec_row sha collate db c = Some db' \<longleftrightarrow>
     routing_ok sha db \<and> (\<exists>r. applyRowMutation sha collate (fst c) (fst (snd c)) (snd (snd c)) db = Some (Inr r, db'))"
  by (auto simp: exec_row_def split: option.splits sum.splits if_splits prod.splits)

lemma store_version_count:
  assumes "routing_ok sha db"
  shows "store_version db = int (length (rb_revisions db))"
proof (cases "rb_revisions db = []")
  case True
  with routing_okD(7) [OF assms] show ?thesis by (simp add: store_version_def)
next
  case False
  have "rw_sequence (last (rb_revisions db)) = int (length (rb_revisions db))"
    using sequence_at [OF assms, of "length (rb_revisions db) - 1"] False by (simp add: last_conv_nth of_nat_diff Suc_leI)
  with False routing_okD(7) [OF assms] find_revision_row [OF assms last_revision [OF False]]
  show ?thesis by (simp add: store_version_def)
qed

lemma guard_version: "getCurrentRevisionGuard db = Some (Some i) \<Longrightarrow> pi_revisionNumber i = store_version db"
  by (auto simp: getCurrentRevisionGuard_def store_version_def requiredPositiveInteger_def requiredBoundedText_def Option.bind_eq_Some_conv
      split: option.splits if_splits)

lemma draft_current:
  "validateRowMutationDraft d ctx (Some cur) i = None \<Longrightarrow>
     \<exists>j. i = Some j \<and> xr_revisionId (dr_expectedRevision d) = pi_revisionId j \<and> xr_revisionNumber (dr_expectedRevision d) = pi_revisionNumber j"
  by (auto simp: validateRowMutationDraft_def split: option.splits if_splits)

text \<open>What a committed draft has done, in terms of the tables.\<close>

lemma row_committed:
  assumes ok: "routing_ok sha db" and run: "applyRowMutation sha collate d ctx settle db = Some (Inr (p, y), db')"
  obtains cur i q where "readBoundCurrentPolicy db = Some (Some cur)" and "getCurrentRevisionGuard db = Some i" and "row_checked d ctx cur i"
    and "readBoundCurrentPolicy db' = Some (Some q)" and "mset (pr_selectors q) = mset (row_selectors d cur)"
    and "length (rb_revisions db') = Suc (length (rb_revisions db))" and "routing_ok sha db'"
proof -
  from row_cases [OF run] obtain cur i cand where a: "readBoundCurrentPolicy db = Some (Some cur)" "getCurrentRevisionGuard db = Some i" "row_checked d ctx cur i"
    and prep: "prepareRevision sha collate db (row_mutation d ctx cur) rr_operator_mutation (row_selectors d cur) = Some cand"
    and ins: "insertPreparedRevision cand db = Some db'"
    by auto
  from a(3) have v: "validateMutation (row_mutation d ctx cur) \<lparr>vc_registry = mx_registry ctx, vc_routes = mx_routes ctx\<rparr> (Some cur) = None"
    by (simp add: row_checked_def)
  have shape: "policy_shape (row_selectors d cur)" using validated(3) [OF v] by (simp add: row_mutation_def)
  obtain q where "readBoundCurrentPolicy db' = Some (Some q)" "mset (pr_selectors q) = mset (row_selectors d cur)"
    by (rule insertion_current [OF ok prep ins shape validated(2) [OF v]])
  with a that insertion(1) [OF ok prep ins] insertion_ok [OF ok prep ins shape validated(2) [OF v]] show thesis by simp
qed

interpretation rows: versioned "exec_row sha collate" store_version "\<lambda>c. xr_revisionNumber (dr_expectedRevision (fst c))" for sha collate
proof
  fix db db' and c :: "row_draft \<times> mutation_context \<times> (revision_candidate \<Rightarrow> 'a option)"
  assume "exec_row sha collate db c = Some db'"
  then obtain p y where ok: "routing_ok sha db"
    and run: "applyRowMutation sha collate (fst c) (fst (snd c)) (snd (snd c)) db = Some (Inr (p, y), db')"
    by (auto simp: exec_row_Some)
  from ok run obtain cur i where i: "getCurrentRevisionGuard db = Some i" "row_checked (fst c) (fst (snd c)) cur i"
    and len: "length (rb_revisions db') = Suc (length (rb_revisions db))" and ok': "routing_ok sha db'"
    by (rule row_committed)
  from i show "xr_revisionNumber (dr_expectedRevision (fst c)) = store_version db"
    by (auto simp: row_checked_def guard_version dest!: draft_current)
  show "store_version db' = store_version db + 1" by (simp add: store_version_count [OF ok] store_version_count [OF ok'] len)
qed

section \<open>The properties\<close>

text \<open>C9. In every reachable store the current policy can be read: before the first revision there is none, afterwards it is the
  newest revision, numbered without gaps, under the guard and registry version recorded with it; it has one selector per scope,
  exactly one global selector with a route and no failover, and the listed dependencies are exactly the routes it names.\<close>

theorem policy_readable:
  assumes "routing_reachable sha collate db" and "\<forall>s. bounded_text 512 (sha s)"
  shows "(rb_revisions db = [] \<and> getCurrentPolicy db = Some None \<and> getCurrentRevisionGuard db = Some None)
    \<or> (\<exists>p g ds. getCurrentPolicy db = Some (Some p)
       \<and> getCurrentRevisionGuard db = Some (Some \<lparr>pi_revisionId = pr_revisionId p, pi_revisionNumber = int (length (rb_revisions db)),
           pi_registryVersion = pr_registryVersion p,
           pi_revisionGuard = createRevisionGuard sha (pr_revisionId p) (int (length (rb_revisions db))) (pr_registryVersion p)\<rparr>)
       \<and> distinct (map ps_scope (pr_selectors p))
       \<and> filter (\<lambda>s. ps_scope s = Scope_global) (pr_selectors p)
           = [\<lparr>ps_scope = Scope_global, ps_selector = Select_route g, ps_failurePolicy = Fail_immediately\<rparr>]
       \<and> listCurrentDependencies db = Some ds
       \<and> set ds = {\<lparr>rd_revisionId = pr_revisionId p, rd_route = r, rd_selectorScope = ps_scope s\<rparr> | s r.
           s \<in> set (pr_selectors p) \<and> r \<in> set (referencedRoutes s)})"
proof -
  note ok = routing_reachable_ok [OF assms(1)]
  show ?thesis
  proof (cases "rb_revisions db = []")
    case True
    with current_policy(1) [OF ok True] routing_okD(7) [OF ok] show ?thesis
      by (simp add: getCurrentPolicy_def getCurrentRevisionGuard_def)
  next
    case False
    let ?r = "last (rb_revisions db)"
    obtain p where p: "readBoundCurrentPolicy db = Some (Some p)" using current_policy(2) [OF ok False] by simp
    note c = current_cases [OF ok p]
    obtain g where g: "filter (\<lambda>s. ps_scope s = Scope_global) (pr_selectors p)
        = [\<lparr>ps_scope = Scope_global, ps_selector = Select_route g, ps_failurePolicy = Fail_immediately\<rparr>]"
      using global_selector [OF c(4)] by (elim exE)
    obtain ds where ds: "listCurrentDependencies db = Some ds" "set ds = (\<Union>s\<in>set (pr_selectors p). set (dependencies_of (pr_revisionId p) s))"
      using dependencies_listed [OF ok p] by (elim exE conjE)
    have row: "revision_row_ok sha ?r" by (rule routing_okD(2) [OF ok last_revision [OF False]])
    have version: "pr_registryVersion p = rw_registry_version ?r" by (simp add: c(2) policy_of_def)
    have "rw_sequence ?r = int (length (rb_revisions db))"
      using sequence_at [OF ok, of "length (rb_revisions db) - 1"] False by (simp add: last_conv_nth of_nat_diff Suc_leI)
    with row have "rw_revision_guard ?r = createRevisionGuard sha (pr_revisionId p) (int (length (rb_revisions db))) (pr_registryVersion p)"
      by (simp add: revision_row_ok_def version c(5))
    with current_guard [OF ok assms(2) False] have "getCurrentRevisionGuard db = Some (Some \<lparr>pi_revisionId = pr_revisionId p,
        pi_revisionNumber = int (length (rb_revisions db)), pi_registryVersion = pr_registryVersion p,
        pi_revisionGuard = createRevisionGuard sha (pr_revisionId p) (int (length (rb_revisions db))) (pr_registryVersion p)\<rparr>)"
      by (simp add: c(5) version)
    moreover have "set ds = {\<lparr>rd_revisionId = pr_revisionId p, rd_route = r, rd_selectorScope = ps_scope s\<rparr> | s r.
        s \<in> set (pr_selectors p) \<and> r \<in> set (referencedRoutes s)}"
      by (auto simp: ds(2) dependencies_of_def)
    moreover have "distinct (map ps_scope (pr_selectors p))" using c(4) by (simp add: policy_shape_def)
    ultimately show ?thesis using p g ds(1) by (auto simp: getCurrentPolicy_def)
  qed
qed

text \<open>C11. The search for fallback cycles returns for every list of selectors, and answers yes exactly when some route leads back
  to itself along the fallbacks of the selectors that are not global.\<close>

theorem fallback_search: "hasFallbackCycle ss \<longleftrightarrow> (\<exists>r. (r, r) \<in> (fallback_rel ss)\<^sup>+)"
  by (simp add: fallback_cycle_found acyclic_def)

text \<open>C8. A row draft that is accepted was prepared against the revision in force; the next revision differs from it only in the
  draft's scope, every route it names serves all actions of its scope, and following fallbacks never leads back. A draft that is
  refused changes nothing.\<close>

theorem row_mutation_exact:
  assumes "routing_reachable sha collate db" and "applyRowMutation sha collate d ctx settle db = Some (x, db')"
  shows "case x of
      Inl c \<Rightarrow> db' = db
    | Inr (p, y) \<Rightarrow> \<exists>cur q. getCurrentPolicy db = Some (Some cur) \<and> xr_revisionId (dr_expectedRevision d) = pr_revisionId cur
        \<and> xr_revisionNumber (dr_expectedRevision d) = int (length (rb_revisions db))
        \<and> getCurrentPolicy db' = Some (Some q) \<and> length (rb_revisions db') = Suc (length (rb_revisions db))
        \<and> (\<forall>sc. selector_for q sc = (if sc = dr_scope d then (case dr_selection d of Row_inherit \<Rightarrow> None
              | Row_route r f \<Rightarrow> Some \<lparr>ps_scope = sc, ps_selector = Select_route r, ps_failurePolicy = f\<rparr>)
            else selector_for cur sc))
        \<and> (\<forall>s\<in>set (pr_selectors q). \<forall>r\<in>set (referencedRoutes s).
              route_serves \<lparr>vc_registry = mx_registry ctx, vc_routes = mx_routes ctx\<rparr> (ps_scope s) r)
        \<and> acyclic (fallback_rel (pr_selectors q))"
proof (cases x)
  case (Inl c)
  with row_cases [OF assms(2)] show ?thesis by auto
next
  case (Inr py)
  obtain p y where x: "x = Inr (p, y)" using Inr by (cases py) simp
  note ok = routing_reachable_ok [OF assms(1)]
  obtain cur i q where cur: "readBoundCurrentPolicy db = Some (Some cur)" and i: "getCurrentRevisionGuard db = Some i"
    and chk: "row_checked d ctx cur i" and q: "readBoundCurrentPolicy db' = Some (Some q)"
    and sel: "mset (pr_selectors q) = mset (row_selectors d cur)" and len: "length (rb_revisions db') = Suc (length (rb_revisions db))"
    and ok': "routing_ok sha db'"
    by (rule row_committed [OF ok assms(2) [unfolded x]])
  note c = current_cases [OF ok' q]
  have dist: "distinct (map ps_scope (pr_selectors q))" using c(4) by (simp add: policy_shape_def)
  obtain j where j: "i = Some j" "xr_revisionId (dr_expectedRevision d) = pi_revisionId j" "xr_revisionNumber (dr_expectedRevision d) = pi_revisionNumber j"
  proof -
    have "validateRowMutationDraft d ctx (Some cur) i = None" using chk by (simp add: row_checked_def)
    from draft_current [OF this] that show thesis by (elim exE conjE)
  qed
  have number: "pi_revisionNumber j = int (length (rb_revisions db))" using guard_version i j(1) store_version_count [OF ok] by simp
  have "\<exists>v. rb_state db = Some (pi_revisionId j, v)"
    using i j(1) by (auto simp: getCurrentRevisionGuard_def requiredBoundedText_def Option.bind_eq_Some_conv split: option.splits if_splits)
  with current_cases(1,2) [OF ok cur] routing_okD(7) [OF ok] have id: "pi_revisionId j = pr_revisionId cur" by (auto simp: policy_of_def)
  have find: "selector_for q sc = (if sc = dr_scope d then (case dr_selection d of Row_inherit \<Rightarrow> None
        | Row_route r f \<Rightarrow> Some \<lparr>ps_scope = sc, ps_selector = Select_route r, ps_failurePolicy = f\<rparr>) else selector_for cur sc)" for sc
    using find_mset [OF sel dist, of sc] by (simp add: selector_for_def row_selectors_find split: row_selection.split)
  have "validateMutation (row_mutation d ctx cur) \<lparr>vc_registry = mx_registry ctx, vc_routes = mx_routes ctx\<rparr> (Some cur) = None"
    using chk by (simp add: row_checked_def)
  from validated(5) [OF this] have routes: "check_routes \<lparr>vc_registry = mx_registry ctx, vc_routes = mx_routes ctx\<rparr> s = None"
    if "s \<in> set (pr_selectors q)" for s using that mset_eq_setD [OF sel] by (simp add: row_mutation_def)
  have shape: "check_shape s" if "s \<in> set (pr_selectors q)" for s using c(4) that by (simp add: policy_shape_def)
  have "acyclic (fallback_rel (pr_selectors q))"
    using chk by (simp add: fallback_rel_mset [OF sel dist] row_checked_def fallback_cycle_found)
  with cur q len find j number id check_routes_serves [OF routes shape] show ?thesis by (simp add: x getCurrentPolicy_def)
qed

text \<open>C37. A row draft takes effect at most once: once one has been committed, no draft prepared against the same revision
  number is accepted, itself included.\<close>

theorem row_mutation_once:
  fixes settle settle' :: "revision_candidate \<Rightarrow> 'a option"
  assumes "routing_reachable sha collate db" and "applyRowMutation sha collate d ctx settle db = Some (Inr r, db')"
    and "length (rb_revisions db) < 2 ^ 53" and "xr_revisionNumber (dr_expectedRevision d') = xr_revisionNumber (dr_expectedRevision d)"
  shows "applyRowMutation sha collate d' ctx' settle' db' \<noteq> Some (Inr r', db'')"
proof
  assume again: "applyRowMutation sha collate d' ctx' settle' db' = Some (Inr r', db'')"
  note ok = routing_reachable_ok [OF assms(1)]
  have "exec_row sha collate db (d, ctx, settle) = Some db'" using ok assms(2) by (auto simp: exec_row_Some)
  moreover have "store_version db < version_limit" using assms(3) by (simp add: store_version_count [OF ok] version_limit_def)
  ultimately have "exec_row sha collate db' (d', ctx', settle') = None"
    by (rule rows.competitor_refused) (simp add: assms(4))
  moreover have "routing_ok sha db'" by (rule row_keeps [OF ok assms(2)])
  ultimately show False using again by (auto simp: exec_row_def)
qed

section \<open>Resets\<close>

definition unavailable_routes :: "reset_request \<Rightarrow> policy_selector \<Rightarrow> route_identity list" where
  "unavailable_routes q s = filter (\<lambda>r. routeIdentityKey r \<in> routeIdentityKey ` set (rq_unavailable q)) (referencedRoutes s)"

lemma enumerate_Cons: "List.enumerate n (x # xs) = (n, x) # List.enumerate (Suc n) xs"
  by simp

lemma reset_ids_distinct:
  fixes i :: int
  assumes "0 \<le> i"
  shows "distinct (map ra_attentionId (concat (map (\<lambda>(k, s). reset_attention U c (revision_id_of i) t k s) (List.enumerate n ss))))
      \<longleftrightarrow> (\<forall>s\<in>set ss. distinct (map ri_modelId (filter (\<lambda>r. routeIdentityKey r \<in> U) (referencedRoutes s))))"
proof (induction ss arbitrary: n)
  case (Cons s ss)
  let ?rows = "\<lambda>k s. reset_attention U c (revision_id_of i) t k s"
  let ?rest = "concat (map (\<lambda>(k, s). ?rows k s) (List.enumerate (Suc n) ss))"
  have ids: "map ra_attentionId (?rows n s) = map (attention_id_of (revision_id_of i) n) (map ri_modelId (filter (\<lambda>r. routeIdentityKey r \<in> U) (referencedRoutes s)))"
    by (simp add: reset_attention_def)
  have one: "distinct (map ra_attentionId (?rows n s)) \<longleftrightarrow> distinct (map ri_modelId (filter (\<lambda>r. routeIdentityKey r \<in> U) (referencedRoutes s)))"
    unfolding ids using attention_id_inject [OF assms assms] by (simp add: distinct_map inj_on_def)
  have "\<exists>k m. n < k \<and> ra_attentionId a = attention_id_of (revision_id_of i) k m" if "a \<in> set ?rest" for a
  proof -
    from that obtain k s where ks: "(k, s) \<in> set (List.enumerate (Suc n) ss)" and a: "a \<in> set (?rows k s)" by auto
    from ks have "n < k" by (auto simp: in_set_enumerate_eq)
    moreover have "ra_attentionId a = attention_id_of (revision_id_of i) k (ra_modelId a)" using a by (auto simp: reset_attention_def)
    ultimately show ?thesis by blast
  qed
  moreover have "\<exists>m. ra_attentionId a = attention_id_of (revision_id_of i) n m" if "a \<in> set (?rows n s)" for a
    using that by (auto simp: reset_attention_def)
  ultimately have "ra_attentionId ` set (?rows n s) \<inter> ra_attentionId ` set ?rest = {}"
    using attention_id_inject [OF assms assms] by fastforce
  with one Cons.IH [of "Suc n"] show ?case by (simp add: enumerate_Cons)
qed simp

lemma reset_rows_distinct:
  "0 \<le> i \<Longrightarrow> distinct (map ra_attentionId (reset_rows q (revision_id_of i) ss)) \<longleftrightarrow> (\<forall>s\<in>set ss. distinct (map ri_modelId (unavailable_routes q s)))"
  unfolding reset_rows_def unavailable_routes_def by (rule reset_ids_distinct)

text \<open>An insertion of a policy of the right shape succeeds.\<close>

lemma insertion_succeeds:
  assumes ok: "routing_ok sha db" and shape: "policy_shape ss" and room: "int (length (rb_revisions db)) + 1 \<le> 2 ^ 53 - 1"
  obtains c db1 where "prepareRevision sha collate db m reason ss = Some c" and "insertPreparedRevision c db = Some db1"
proof -
  obtain c where c: "prepareRevision sha collate db m reason ss = Some c"
    using room by (simp add: prepareRevision_def next_sequence [OF ok] Let_def)
  note p = prepared [OF ok c]
  have new: "next_id db \<notin> revision_ids db" using new_revision_id [OF ok] by (simp add: next_id_def)
  have "rw_sequence (revision_row_of c) \<notin> set (map rw_sequence (rb_revisions db))"
    unfolding routing_okD(1) [OF ok] p(5) by auto
  then have row: "insert_revision_row (revision_row_of c) db = Some (db\<lparr>rb_revisions := rb_revisions db @ [revision_row_of c]\<rparr>)"
    using new p(6) by (simp add: insert_revision_row_def revision_ids_def)
  have shape': "policy_shape (pr_selectors (rc_revision c))" using policy_shape_mset [OF p(3)] shape by simp
  have "insert_selectors (next_id db) (pr_selectors (rc_revision c)) (db\<lparr>rb_revisions := rb_revisions db @ [revision_row_of c]\<rparr>) \<noteq> None"
  proof (rule insert_selectors_succeeds)
    have "\<forall>r\<in>set (rb_selectors db). sl_revision_id r \<noteq> next_id db" using routing_okD(4) [OF ok] new by metis
    then show "\<forall>s\<in>set (pr_selectors (rc_revision c)). (next_id db, selectorScopeKey (ps_scope s))
        \<notin> (\<lambda>r. (sl_revision_id r, sl_scope_key r)) ` set (rb_selectors (db\<lparr>rb_revisions := rb_revisions db @ [revision_row_of c]\<rparr>))"
      by auto
    have "rd_revisionId d \<noteq> next_id db" if "d \<in> set (rb_dependencies db)" for d using routing_okD(5) [OF ok that] new by auto
    then show "\<forall>s\<in>set (pr_selectors (rc_revision c)). \<forall>d\<in>set (rb_dependencies (db\<lparr>rb_revisions := rb_revisions db @ [revision_row_of c]\<rparr>)).
        \<not> (rd_revisionId d = next_id db \<and> rd_selectorScope d = ps_scope s)"
      by simp
  qed (use shape' in \<open>simp_all add: policy_shape_def\<close>)
  then obtain db2 where "insert_selectors (next_id db) (pr_selectors (rc_revision c)) (db\<lparr>rb_revisions := rb_revisions db @ [revision_row_of c]\<rparr>) = Some db2"
    by auto
  with row have "insertPreparedRevision c db = Some (db2\<lparr>rb_state := Some (pr_revisionId (rc_revision c), pr_registryVersion (rc_revision c))\<rparr>)"
    by (simp add: insertPreparedRevision_def revision_row_of_def Let_def p(2))
  with c that show thesis by blast
qed

lemma reset_step:
  assumes "reset_request_ok q" and "readBoundCurrentPolicy db = Some (Some p)" and "pr_registryVersion p = rq_registryVersion q"
  shows "resetUnavailableRoutes sha collate q db db =
     (if filter (affected_by (routeIdentityKey ` set (rq_unavailable q))) (pr_selectors p) = [] then Some (None, db)
      else do {
        (p', db1) \<leftarrow> insertRevision sha collate (reset_mutation q p) rr_catalog_reset (pm_selectors (reset_mutation q p)) db;
        db2 \<leftarrow> insert_attention (reset_rows q (pr_revisionId p') (filter (affected_by (routeIdentityKey ` set (rq_unavailable q))) (pr_selectors p))) db1;
        Some (Some (Inr p'), db2) })"
  using assms by (simp add: resetUnavailableRoutes_def getCurrentPolicy_def reset_mutation_def reset_rows_def Let_def)

lemma attention_fresh:
  assumes "routing_ok sha db" and "a \<in> set (reset_rows q (next_id db) ss)" and "b \<in> set (rb_attention db)"
  shows "ra_attentionId a \<noteq> ra_attentionId b"
proof
  assume eq: "ra_attentionId a = ra_attentionId b"
  obtain j m where a: "ra_attentionId a = attention_id_of (next_id db) j m" using reset_row_attention [OF assms(2)] by blast
  obtain k j' m' where b: "k < length (rb_revisions db)" "ra_attentionId b = attention_id_of (revision_id_of (int k + 1)) j' m'"
    using routing_okD(6) [OF assms(1,3)] by (auto simp: attention_row_ok_def)
  from eq a b(2) have "int (length (rb_revisions db)) + 1 = int k + 1"
    using attention_id_inject [of "int (length (rb_revisions db)) + 1" "int k + 1" j m j' m'] by (simp add: next_id_def)
  with b(1) show False by simp
qed

text \<open>Two routes of one selector that are both unavailable and name the same model, which must then be on two connections.\<close>

definition reset_collision :: "reset_request \<Rightarrow> policy_selector \<Rightarrow> bool" where
  "reset_collision q s \<longleftrightarrow> ps_scope s \<noteq> Scope_global
     \<and> (case (ps_selector s, ps_failurePolicy s) of
          (Select_route r, Reroute_route_once f) \<Rightarrow> ri_modelId r = ri_modelId f
             \<and> {routeIdentityKey r, routeIdentityKey f} \<subseteq> routeIdentityKey ` set (rq_unavailable q)
        | _ \<Rightarrow> False)"

lemma reset_collision_models:
  "affected_by (routeIdentityKey ` set (rq_unavailable q)) s \<Longrightarrow> \<not> distinct (map ri_modelId (unavailable_routes q s)) \<longleftrightarrow> reset_collision q s"
  by (auto simp: affected_by_def reset_collision_def unavailable_routes_def referencedRoutes_def
      split: route_selector.splits failure_policy.splits)

lemma collision_affected: "reset_collision q s \<Longrightarrow> affected_by (routeIdentityKey ` set (rq_unavailable q)) s"
  by (auto simp: reset_collision_def affected_by_def selectorReferences_def referencedRoutes_def
      split: route_selector.splits failure_policy.splits)

lemma find_filter_distinct:
  "distinct (map f xs) \<Longrightarrow> List.find (\<lambda>x. f x = k) (filter Q xs)
     = (case List.find (\<lambda>x. f x = k) xs of None \<Rightarrow> None | Some x \<Rightarrow> if Q x then Some x else None)"
proof (induction xs)
  case (Cons x xs)
  have "List.find (\<lambda>y. f y = f x) (filter Q xs) = None"
  proof -
    have "f y \<noteq> f x" if "y \<in> set xs" for y using Cons.prems imageI [OF that, of f] by (cases "f y = f x") simp_all
    then show ?thesis by (simp add: find_None_set)
  qed
  with Cons show ?case by auto
qed simp

lemma find_filter_head: "filter P xs = y # ys \<Longrightarrow> List.find P xs = Some y"
  by (induction xs) (auto split: if_splits)

lemma reset_rows_routes:
  "map (\<lambda>a. \<lparr>ri_connectionId = ra_connectionId a, ri_modelId = ra_modelId a\<rparr>) (reset_rows q i ss) = concat (map (unavailable_routes q) ss)"
proof -
  have eta: "(\<lambda>r. \<lparr>ri_connectionId = ri_connectionId r, ri_modelId = ri_modelId r\<rparr>) = (\<lambda>r. r)" by (rule ext) simp
  have "map (\<lambda>a. \<lparr>ri_connectionId = ra_connectionId a, ri_modelId = ra_modelId a\<rparr>) (concat (map (\<lambda>(k, s). reset_attention U c i t k s) (List.enumerate n ss)))
      = concat (map (\<lambda>s. filter (\<lambda>r. routeIdentityKey r \<in> U) (referencedRoutes s)) ss)" for U c t n
    by (induction ss arbitrary: n) (simp_all add: reset_attention_def comp_def eta)
  then show ?thesis by (simp add: reset_rows_def unavailable_routes_def [abs_def])
qed

lemma affected_routes:
  "concat (map (unavailable_routes q) (filter (affected_by (routeIdentityKey ` set (rq_unavailable q))) ss))
     = concat (map (unavailable_routes q) (filter (\<lambda>s. ps_scope s \<noteq> Scope_global) ss))"
proof (induction ss)
  case (Cons s ss)
  have "unavailable_routes q s = []" if "\<not> selectorReferences s (routeIdentityKey ` set (rq_unavailable q))"
    using that by (auto simp: unavailable_routes_def selectorReferences_def list_ex_iff filter_empty_conv)
  with Cons show ?case by (auto simp: affected_by_def)
qed simp

text \<open>C12. A reset that finds a selector to reset is carried out unless some selector falls back to the same model on another
  connection and both routes are unavailable: then the identifiers of its two attention rows collide, the reset throws, and the
  selectors with unavailable routes stay in force.\<close>

theorem reset_blocked_iff:
  assumes "routing_reachable sha collate db" and "reset_request_ok q" and "getCurrentPolicy db = Some (Some p)"
    and "pr_registryVersion p = rq_registryVersion q" and "length (rb_revisions db) < 2 ^ 53 - 2"
  shows "resetUnavailableRoutes sha collate q db db = None \<longleftrightarrow> (\<exists>s\<in>set (pr_selectors p). reset_collision q s)"
proof -
  let ?affected = "filter (affected_by (routeIdentityKey ` set (rq_unavailable q))) (pr_selectors p)"
  note ok = routing_reachable_ok [OF assms(1)]
  have p: "readBoundCurrentPolicy db = Some (Some p)" using assms(3) by (simp add: getCurrentPolicy_def)
  have collide: "(\<exists>s\<in>set (pr_selectors p). reset_collision q s) \<longleftrightarrow> \<not> (\<forall>s\<in>set ?affected. distinct (map ri_modelId (unavailable_routes q s)))"
    using reset_collision_models collision_affected by fastforce
  show ?thesis
  proof (cases "?affected = []")
    case True
    with collide reset_step [OF assms(2) p assms(4)] show ?thesis by simp
  next
    case False
    have room: "int (length (rb_revisions db)) + 1 \<le> 2 ^ 53 - 1" using assms(5) by simp
    obtain c db1 where c: "prepareRevision sha collate db (reset_mutation q p) rr_catalog_reset (pm_selectors (reset_mutation q p)) = Some c"
      "insertPreparedRevision c db = Some db1"
      by (rule insertion_succeeds [OF ok kept_shape [OF current_cases(4) [OF ok p]] room])
    have id: "pr_revisionId (rc_revision c) = next_id db" by (rule prepared(2) [OF ok c(1)])
    have att: "rb_attention db1 = rb_attention db" by (rule insertion(2) [OF ok c])
    have "insertRevision sha collate (reset_mutation q p) rr_catalog_reset (pm_selectors (reset_mutation q p)) db = Some (rc_revision c, db1)"
      using c by (simp add: insertRevision_Some)
    then have "resetUnavailableRoutes sha collate q db db = map_option (\<lambda>db2. (Some (Inr (rc_revision c)), db2)) (insert_attention (reset_rows q (next_id db) ?affected) db1)"
      using reset_step [OF assms(2) p assms(4)] False by (simp add: id map_conv_bind_option comp_def)
    moreover have "insert_attention (reset_rows q (next_id db) ?affected) db1 \<noteq> None \<longleftrightarrow> distinct (map ra_attentionId (reset_rows q (next_id db) ?affected))"
    proof -
      have "ra_attentionId ` set (reset_rows q (next_id db) ?affected) \<inter> ra_attentionId ` set (rb_attention db) = {}"
        using attention_fresh [OF ok] by (auto simp del: set_filter)
      then show ?thesis using insert_attention_iff [of _ db1] by (auto simp: att simp del: set_filter)
    qed
    moreover have "distinct (map ra_attentionId (reset_rows q (next_id db) ?affected)) \<longleftrightarrow> (\<forall>s\<in>set ?affected. distinct (map ri_modelId (unavailable_routes q s)))"
      unfolding next_id_def by (rule reset_rows_distinct) simp
    ultimately show ?thesis using collide by auto
  qed
qed

text \<open>C38. A reset that is carried out removes exactly the selectors that are not global and name an unavailable route, and leaves
  one open attention row for every such route of every removed selector, filed under the new revision.\<close>

theorem reset_exact:
  assumes "routing_reachable sha collate db" and "resetUnavailableRoutes sha collate q db db = Some (Some (Inr p'), db')"
  shows "\<exists>p p1 rows. getCurrentPolicy db = Some (Some p) \<and> getCurrentPolicy db' = Some (Some p1) \<and> pr_revisionId p1 = pr_revisionId p'
     \<and> (\<forall>sc. selector_for p1 sc = (case selector_for p sc of None \<Rightarrow> None
         | Some s \<Rightarrow> if affected_by (routeIdentityKey ` set (rq_unavailable q)) s then None else Some s))
     \<and> rb_attention db' = rb_attention db @ rows
     \<and> (\<forall>a\<in>set rows. ra_revisionId a = pr_revisionId p1 \<and> ra_reasonCode a = rq_reasonCode q \<and> ra_acknowledgedAt a = None)
     \<and> map (\<lambda>a. \<lparr>ri_connectionId = ra_connectionId a, ri_modelId = ra_modelId a\<rparr>) rows
         = concat (map (unavailable_routes q) (filter (\<lambda>s. ps_scope s \<noteq> Scope_global) (pr_selectors p)))"
proof -
  let ?U = "routeIdentityKey ` set (rq_unavailable q)"
  note ok = routing_reachable_ok [OF assms(1)]
  from reset_cases [OF assms(2)] have "\<exists>p. reset_request_ok q \<and> readBoundCurrentPolicy db = Some (Some p) \<and> pr_registryVersion p = rq_registryVersion q"
    using assms(2) by (auto simp: resetUnavailableRoutes_def getCurrentPolicy_def Let_def Option.bind_eq_Some_conv split: option.splits if_splits)
  then obtain p where q: "reset_request_ok q" and p: "readBoundCurrentPolicy db = Some (Some p)" "pr_registryVersion p = rq_registryVersion q"
    by (elim exE conjE)
  let ?affected = "filter (affected_by ?U) (pr_selectors p)" and ?kept = "pm_selectors (reset_mutation q p)"
  from assms(2) reset_step [OF q p] obtain c db1
    where c: "prepareRevision sha collate db (reset_mutation q p) rr_catalog_reset ?kept = Some c" "insertPreparedRevision c db = Some db1"
      and att: "insert_attention (reset_rows q (pr_revisionId (rc_revision c)) ?affected) db1 = Some db'" and p': "p' = rc_revision c"
    by (auto simp: Option.bind_eq_Some_conv insertRevision_Some split: if_splits)
  note shape = current_cases(4) [OF ok p(1)]
  obtain p1 where p1: "readBoundCurrentPolicy db1 = Some (Some p1)" "mset (pr_selectors p1) = mset ?kept" "pr_revisionId p1 = next_id db"
    by (rule insertion_current [OF ok c kept_shape [OF shape] reset_fields [OF q]])
  have id: "pr_revisionId (rc_revision c) = next_id db" by (rule prepared(2) [OF ok c(1)])
  have db': "db' = db1\<lparr>rb_attention := rb_attention db @ reset_rows q (next_id db) ?affected\<rparr>"
    using att insertion(2) [OF ok c] by (simp add: insert_attention_iff id)
  have same: "readBoundCurrentPolicy db' = readBoundCurrentPolicy db1"
  proof -
    have r: "readRevision db' = readRevision db1" by (rule ext) (simp add: db' readRevision_def find_revision_def selectorsForRevision_def)
    have st: "rb_state db' = rb_state db1" by (simp add: db')
    show ?thesis unfolding readBoundCurrentPolicy_def r st ..
  qed
  have dist: "distinct (map ps_scope ?kept)" using kept_shape [OF shape] by (simp add: policy_shape_def)
  have "selector_for p1 sc = (case selector_for p sc of None \<Rightarrow> None | Some s \<Rightarrow> if affected_by ?U s then None else Some s)" for sc
  proof -
    have "distinct (map ps_scope (pr_selectors p))" using shape by (simp add: policy_shape_def)
    from find_mset [OF p1(2) [symmetric] dist, of sc] find_filter_distinct [OF this] show ?thesis
      by (cases "List.find (\<lambda>s. ps_scope s = sc) (pr_selectors p)") (simp_all add: selector_for_def reset_mutation_def split: if_splits)
  qed
  moreover have "\<forall>a\<in>set (reset_rows q (next_id db) ?affected). ra_revisionId a = next_id db \<and> ra_reasonCode a = rq_reasonCode q \<and> ra_acknowledgedAt a = None"
    by (auto simp: reset_rows_def reset_attention_def)
  moreover have "map (\<lambda>a. \<lparr>ri_connectionId = ra_connectionId a, ri_modelId = ra_modelId a\<rparr>) (reset_rows q (next_id db) ?affected)
      = concat (map (unavailable_routes q) (filter (\<lambda>s. ps_scope s \<noteq> Scope_global) (pr_selectors p)))"
    by (simp add: reset_rows_routes affected_routes)
  ultimately show ?thesis using p(1) p1 same db' id p' by (auto simp: getCurrentPolicy_def)
qed

text \<open>A connection may be deleted exactly when the global route of the current policy is not on it.\<close>

lemma deletion_preflight_exact:
  assumes "routing_reachable sha collate db" and "bounded_text 512 c"
  shows "\<exists>cur. getCurrentPolicy db = Some cur
     \<and> deletionPreflight db c = Some (if (\<exists>p g. cur = Some p \<and> globalRoute (pr_selectors p) = Some g \<and> ri_connectionId g = c)
         then Some ROUTING_GLOBAL_DELETE_BLOCKED else None)"
proof -
  note ok = routing_reachable_ok [OF assms(1)]
  show ?thesis
  proof (cases "rb_revisions db = []")
    case True
    with current_policy(1) [OF ok True] assms(2) show ?thesis
      by (simp add: deletionPreflight_def listCurrentDependencies_def getCurrentPolicy_def)
  next
    case False
    obtain p where p: "readBoundCurrentPolicy db = Some (Some p)" using current_policy(2) [OF ok False] by simp
    obtain g where g: "filter (\<lambda>s. ps_scope s = Scope_global) (pr_selectors p)
        = [\<lparr>ps_scope = Scope_global, ps_selector = Select_route g, ps_failurePolicy = Fail_immediately\<rparr>]"
      using global_selector [OF current_cases(4) [OF ok p]] by (elim exE)
    obtain ds where ds: "listCurrentDependencies db = Some ds" "set ds = (\<Union>s\<in>set (pr_selectors p). set (dependencies_of (pr_revisionId p) s))"
      using dependencies_listed [OF ok p] by (elim exE conjE)
    have only: "s \<in> set (pr_selectors p) \<and> ps_scope s = Scope_global
        \<longleftrightarrow> s = \<lparr>ps_scope = Scope_global, ps_selector = Select_route g, ps_failurePolicy = Fail_immediately\<rparr>" for s
      using arg_cong [OF g, of set] by auto
    have "list_ex (\<lambda>d. ri_connectionId (rd_route d) = c \<and> rd_selectorScope d = Scope_global) ds \<longleftrightarrow> ri_connectionId g = c"
    proof -
      have "list_ex (\<lambda>d. ri_connectionId (rd_route d) = c \<and> rd_selectorScope d = Scope_global) ds
          \<longleftrightarrow> (\<exists>s. (s \<in> set (pr_selectors p) \<and> ps_scope s = Scope_global) \<and> (\<exists>r\<in>set (referencedRoutes s). ri_connectionId r = c))"
        by (auto simp: list_ex_iff ds(2) dependencies_of_def)
      also have "\<dots> \<longleftrightarrow> ri_connectionId g = c" unfolding only by (simp add: referencedRoutes_def)
      finally show ?thesis .
    qed
    moreover have "globalRoute (pr_selectors p) = Some g"
      using find_filter_head [OF g] by (simp add: globalRoute_def route_at_def)
    ultimately show ?thesis using p ds(1) assms(2) by (simp add: deletionPreflight_def getCurrentPolicy_def)
  qed
qed

section \<open>An example store\<close>

text \<open>One global route, and a route for implementation that falls back to the same model on another connection.\<close>

definition sample_at :: string where
  "sample_at = ''2026-01-01T00:00:00.000Z''"

definition route_on :: "string \<Rightarrow> string \<Rightarrow> route_identity" where
  "route_on c m = \<lparr>ri_connectionId = c, ri_modelId = m\<rparr>"

definition global_row :: policy_selector where
  "global_row = \<lparr>ps_scope = Scope_global, ps_selector = Select_route (route_on ''c'' ''g''), ps_failurePolicy = Fail_immediately\<rparr>"

definition implementation_row :: policy_selector where
  "implementation_row = \<lparr>ps_scope = Scope_action_type at_implementation, ps_selector = Select_route (route_on ''c'' ''m''),
     ps_failurePolicy = Reroute_route_once (route_on ''d'' ''m'')\<rparr>"

definition sample_mutation :: policy_mutation where
  "sample_mutation = \<lparr>pm_registryVersion = ''agent-registry/v1'', pm_expectedRevisionId = None, pm_reason = rr_bootstrap,
     pm_occurredAt = sample_at, pm_actor = None, pm_correlationId = None, pm_selectors = [global_row, implementation_row]\<rparr>"

definition fact_on :: "string \<Rightarrow> string \<Rightarrow> route_fact" where
  "fact_on c m = \<lparr>rf_route = route_on c m, rf_connectionActive = True, rf_available = True, rf_contextWindowTokens = Some 128000,
     rf_tools = Some True, rf_api = Some True, rf_reasoning = None\<rparr>"

definition sample_facts :: "route_fact list" where
  "sample_facts = [fact_on ''c'' ''g'', fact_on ''c'' ''m'', fact_on ''d'' ''m'']"

definition sample_context :: validation_context where
  "sample_context = \<lparr>vc_registry = [sample_entry], vc_routes = sample_facts\<rparr>"

definition sample_sha :: "string \<Rightarrow> string" where
  "sample_sha s = ''guard''"

definition sample_store :: routing_db where
  "sample_store =
     \<lparr>rb_state = Some (''routing-revision-1'', ''agent-registry/v1''),
      rb_revisions = [\<lparr>rw_sequence = 1, rw_revision_id = ''routing-revision-1'', rw_registry_version = ''agent-registry/v1'',
        rw_reason = rr_bootstrap, rw_created_at = sample_at, rw_actor = None, rw_correlation_id = None, rw_revision_guard = ''guard''\<rparr>],
      rb_selectors = map (selector_row_of ''routing-revision-1'') [implementation_row, global_row],
      rb_dependencies = dependencies_of ''routing-revision-1'' implementation_row @ dependencies_of ''routing-revision-1'' global_row,
      rb_attention = []\<rparr>"

definition sample_current :: policy_revision where
  "sample_current = \<lparr>pr_revisionId = ''routing-revision-1'', pr_registryVersion = ''agent-registry/v1'', pr_reason = rr_bootstrap,
     pr_createdAt = sample_at, pr_actor = None, pr_correlationId = None, pr_selectors = [implementation_row, global_row]\<rparr>"

lemma sample_at_iso [simp]: "canonical_iso sample_at"
  by (simp add: sample_at_def canonical_iso_def ISO_TAIL_RE_def instant_ok_def decimal_at_def month_days_def rx_eval char_eval Let_def)

lemma sample_entry_ok: "entry_ok sample_entry"
proof -
  have "rx_full ACTION_ID_RE ''phase-worker''" using canonical_ids by (simp add: canonicalDefinitions_def del: rx_full.simps)
  moreover have "re_actionId sample_entry = ''phase-worker''" by code_simp
  moreover have "bounded_text 128 (re_actionId sample_entry)" "bounded_text 256 (re_actionTypeLabel sample_entry)"
    "0 < re_actionTypeDisplayOrder sample_entry" "re_actionTypeDisplayOrder sample_entry \<le> 10000000" "bounded_text 256 (re_label sample_entry)"
    "0 < re_displayOrder sample_entry" "re_displayOrder sample_entry \<le> 10000000" "bounded_text 256 (re_promptVersion sample_entry)"
    "requirements_ok (re_capabilityRequirements sample_entry)"
    by code_simp+
  ultimately show ?thesis by (simp add: entry_ok_def del: rx_full.simps)
qed

lemma sample_context_ok: "collection_ok [sample_entry]" "facts_ok sample_facts" "context_ok sample_context"
proof -
  have "type_metadata_ok Map.empty Map.empty [sample_entry]" by code_simp
  then show r: "collection_ok [sample_entry]" using sample_entry_ok by (simp add: collection_ok_def)
  show f: "facts_ok sample_facts" by code_simp
  from r f show "context_ok sample_context" by (simp add: context_ok_def sample_context_def)
qed

lemma sample_validated: "validateMutation sample_mutation sample_context None = None"
proof -
  have "list_all stored_selector_ok (pm_selectors sample_mutation)" "bounded_text 256 (pm_registryVersion sample_mutation)" by code_simp+
  then have "mutation_ok sample_mutation" by (simp add: mutation_ok_def opt_bounded_def) (simp add: sample_mutation_def)
  moreover have "check_selectors sample_context [] (pm_selectors sample_mutation) = None" by code_simp
  moreover have "length (filter (\<lambda>s. ps_scope s = Scope_global) (pm_selectors sample_mutation)) = 1" by code_simp
  ultimately show ?thesis using sample_context_ok(3) by (simp add: validateMutation_def) (simp add: sample_mutation_def)
qed

lemma sample_reachable: "routing_reachable sample_sha str_cmp sample_store"
proof -
  have "insertRevision sample_sha str_cmp sample_mutation (pm_reason sample_mutation) (pm_selectors sample_mutation) empty_routing_db
      = Some (sample_current, sample_store)" by code_simp
  moreover have "getCurrentPolicy empty_routing_db = Some None" "readBoundCurrentPolicy empty_routing_db = Some None" by code_simp+
  ultimately have "applyMutation sample_sha str_cmp sample_mutation sample_context empty_routing_db empty_routing_db = Some (Inr sample_current, sample_store)"
    using sample_validated by (simp add: applyMutation_def) (simp add: sample_mutation_def)
  then show ?thesis by (rule routing_reachable.applied [OF routing_reachable.start routing_reachable.start])
qed

lemma sample_policy_current: "getCurrentPolicy sample_store = Some (Some sample_current)"
proof -
  have "policy_of sample_store (last (rb_revisions sample_store)) = sample_current" "rb_revisions sample_store \<noteq> []" by code_simp+
  with current_policy(2) [OF routing_reachable_ok [OF sample_reachable]] show ?thesis by (simp add: getCurrentPolicy_def)
qed

lemma sample_sha_bounded: "bounded_text 512 (sample_sha s)"
  by (simp add: sample_sha_def) code_simp

lemma policy_readable_witness:
  "getCurrentRevisionGuard sample_store = Some (Some \<lparr>pi_revisionId = ''routing-revision-1'', pi_revisionNumber = 1,
     pi_registryVersion = ''agent-registry/v1'', pi_revisionGuard = ''guard''\<rparr>)"
proof -
  have "rb_revisions sample_store \<noteq> []" "length (rb_revisions sample_store) = 1" by code_simp+
  moreover have "pr_revisionId sample_current = ''routing-revision-1''" "pr_registryVersion sample_current = ''agent-registry/v1''" by code_simp+
  moreover have "\<forall>s. bounded_text 512 (sample_sha s)" using sample_sha_bounded by blast
  ultimately show ?thesis
    using policy_readable [OF sample_reachable] sample_policy_current by (auto simp: createRevisionGuard_def sample_sha_def)
qed

lemma deletion_preflight_exact_witness:
  "deletionPreflight sample_store ''c'' = Some (Some ROUTING_GLOBAL_DELETE_BLOCKED) \<and> bounded_text 512 ''c''"
proof -
  have c: "bounded_text 512 ''c''" by code_simp
  have "globalRoute (pr_selectors sample_current) = Some (route_on ''c'' ''g'')" "ri_connectionId (route_on ''c'' ''g'') = ''c''" by code_simp+
  with deletion_preflight_exact [OF sample_reachable c] sample_policy_current c show ?thesis by auto
qed

text \<open>The two routes of the implementation row vanish together; and the first of them alone.\<close>

definition sample_reset :: "route_identity list \<Rightarrow> reset_request" where
  "sample_reset rs = \<lparr>rq_registryVersion = ''agent-registry/v1'', rq_unavailable = rs, rq_reasonCode = ''catalog_removed'',
     rq_occurredAt = sample_at, rq_actor = None, rq_correlationId = None\<rparr>"

lemma sample_reset_ok: "list_all route_ok rs \<Longrightarrow> reset_request_ok (sample_reset rs)"
proof -
  have "bounded_text 256 ''agent-registry/v1''" "bounded_text 256 ''catalog_removed''" by code_simp+
  then show "list_all route_ok rs \<Longrightarrow> reset_request_ok (sample_reset rs)" by (simp add: reset_request_ok_def sample_reset_def opt_bounded_def)
qed

lemma reset_blocked_iff_witness:
  "resetUnavailableRoutes sample_sha str_cmp (sample_reset [route_on ''c'' ''m'', route_on ''d'' ''m'']) sample_store sample_store = None"
proof -
  let ?q = "sample_reset [route_on ''c'' ''m'', route_on ''d'' ''m'']"
  have "list_all route_ok [route_on ''c'' ''m'', route_on ''d'' ''m'']" by code_simp
  then have q: "reset_request_ok ?q" by (rule sample_reset_ok)
  have v: "pr_registryVersion sample_current = rq_registryVersion ?q" "length (rb_revisions sample_store) < 2 ^ 53 - 2"
    by (simp_all add: sample_current_def sample_reset_def sample_store_def)
  have "implementation_row \<in> set (pr_selectors sample_current)" by (simp add: sample_current_def)
  moreover have "reset_collision ?q implementation_row"
    by (simp add: reset_collision_def implementation_row_def sample_reset_def route_on_def)
  ultimately show ?thesis using reset_blocked_iff [OF sample_reachable q sample_policy_current v] by blast
qed

lemma reset_exact_witness:
  "\<exists>p' db' p1. resetUnavailableRoutes sample_sha str_cmp (sample_reset [route_on ''c'' ''m'']) sample_store sample_store = Some (Some (Inr p'), db')
     \<and> getCurrentPolicy db' = Some (Some p1) \<and> selector_for p1 (Scope_action_type at_implementation) = None"
proof -
  let ?q = "sample_reset [route_on ''c'' ''m'']"
  have "list_all route_ok [route_on ''c'' ''m'']" by code_simp
  then have q: "reset_request_ok ?q" by (rule sample_reset_ok)
  have cur: "readBoundCurrentPolicy sample_store = Some (Some sample_current)" using sample_policy_current by (simp add: getCurrentPolicy_def)
  have v: "pr_registryVersion sample_current = rq_registryVersion ?q" by (simp add: sample_current_def sample_reset_def)
  have "(case resetUnavailableRoutes sample_sha str_cmp ?q sample_store sample_store of Some (Some (Inr _), _) \<Rightarrow> True | _ \<Rightarrow> False)"
    unfolding reset_step [OF q cur v] by code_simp
  then obtain p' db' where run: "resetUnavailableRoutes sample_sha str_cmp ?q sample_store sample_store = Some (Some (Inr p'), db')"
    by (auto split: option.splits prod.splits sum.splits)
  obtain p p1 where p: "getCurrentPolicy sample_store = Some (Some p)" "getCurrentPolicy db' = Some (Some p1)"
    and sel: "\<forall>sc. selector_for p1 sc = (case selector_for p sc of None \<Rightarrow> None
         | Some s \<Rightarrow> if affected_by (routeIdentityKey ` set (rq_unavailable ?q)) s then None else Some s)"
    using reset_exact [OF sample_reachable run] by (elim exE conjE)
  have "p = sample_current" using p(1) sample_policy_current by simp
  moreover have "selector_for sample_current (Scope_action_type at_implementation) = Some implementation_row"
    "affected_by (routeIdentityKey ` set (rq_unavailable ?q)) implementation_row" by code_simp+
  ultimately show ?thesis using run p(2) sel by auto
qed

text \<open>A draft that moves implementation to the other connection, with the global route as its fallback.\<close>

definition sample_draft :: row_draft where
  "sample_draft = \<lparr>dr_scope = Scope_action_type at_implementation, dr_selection = Row_route (route_on ''d'' ''m'') Reroute_global_once,
     dr_expectedRevision = \<lparr>xr_revisionId = ''routing-revision-1'', xr_revisionNumber = 1\<rparr>, dr_revisionGuard = ''guard''\<rparr>"

definition sample_matrix :: mutation_context where
  "sample_matrix = \<lparr>mx_registryVersion = ''agent-registry/v1'', mx_registry = [sample_entry], mx_routes = sample_facts,
     mx_occurredAt = sample_at, mx_actor = None, mx_correlationId = None\<rparr>"

definition sample_identity :: policy_identity where
  "sample_identity = \<lparr>pi_revisionId = ''routing-revision-1'', pi_revisionNumber = 1, pi_registryVersion = ''agent-registry/v1'', pi_revisionGuard = ''guard''\<rparr>"

lemma sample_row_checked: "row_checked sample_draft sample_matrix sample_current (Some sample_identity)"
proof -
  let ?m = "row_mutation sample_draft sample_matrix sample_current"
  let ?ctx = "\<lparr>vc_registry = mx_registry sample_matrix, vc_routes = mx_routes sample_matrix\<rparr>"
  have "list_all stored_selector_ok (pm_selectors ?m)" "bounded_text 256 (pm_registryVersion ?m)" "opt_bounded 256 (pm_expectedRevisionId ?m)"
    by code_simp+
  then have "mutation_ok ?m" by (simp add: mutation_ok_def opt_bounded_def) (simp add: row_mutation_def sample_matrix_def)
  moreover have "context_ok ?ctx" using sample_context_ok(3) by (simp add: sample_matrix_def sample_context_def)
  moreover have "check_selectors ?ctx [] (pm_selectors ?m) = None" by code_simp
  moreover have "length (filter (\<lambda>s. ps_scope s = Scope_global) (pm_selectors ?m)) = 1" by code_simp
  moreover have "pr_registryVersion sample_current = pm_registryVersion ?m" "pm_expectedRevisionId ?m = Some (pr_revisionId sample_current)" by code_simp+
  ultimately have "validateMutation ?m ?ctx (Some sample_current) = None" by (simp add: validateMutation_def)
  moreover have "validateRowMutationDraft sample_draft sample_matrix (Some sample_current) (Some sample_identity) = None" by code_simp
  moreover have "\<not> hasFallbackCycle (row_selectors sample_draft sample_current)" by code_simp
  ultimately show ?thesis by (simp add: row_checked_def)
qed

lemma sample_row_applied:
  "\<exists>p db'. applyRowMutation sample_sha str_cmp sample_draft sample_matrix (\<lambda>c. Some ()) sample_store = Some (Inr (p, ()), db')"
proof -
  have d: "draft_ok sample_draft" by code_simp
  have "bounded_text 256 ''agent-registry/v1''" by code_simp
  then have m: "mutation_context_ok sample_matrix"
    using sample_context_ok(1,2) by (simp add: mutation_context_ok_def sample_matrix_def opt_bounded_def)
  have cur: "readBoundCurrentPolicy sample_store = Some (Some sample_current)" using sample_policy_current by (simp add: getCurrentPolicy_def)
  have i: "getCurrentRevisionGuard sample_store = Some (Some sample_identity)" by code_simp
  have prep: "prepareRowMutation sample_draft sample_matrix (Some sample_current) (Some sample_identity) = Inr (row_selectors sample_draft sample_current)"
    using sample_row_checked by (auto simp: prepareRow_Inr)
  let ?c = "prepareRevision sample_sha str_cmp sample_store (row_mutation sample_draft sample_matrix sample_current) rr_operator_mutation
      (row_selectors sample_draft sample_current)"
  have "?c \<noteq> None" "insertPreparedRevision (the ?c) sample_store \<noteq> None" by code_simp+
  then obtain c db' where "?c = Some c" "insertPreparedRevision c sample_store = Some db'" by auto
  then have "applyRowMutation sample_sha str_cmp sample_draft sample_matrix (\<lambda>c. Some ()) sample_store = Some (Inr (rc_revision c, ()), db')"
    using d m by (simp add: applyRowMutation_def cur i prep)
  then show ?thesis by blast
qed

lemma row_mutation_exact_witness:
  "\<exists>q db' p. applyRowMutation sample_sha str_cmp sample_draft sample_matrix (\<lambda>c. Some ()) sample_store = Some (Inr (p, ()), db')
     \<and> getCurrentPolicy db' = Some (Some q) \<and> route_at (selector_for q (Scope_action_type at_implementation)) = Some (route_on ''d'' ''m'')
     \<and> acyclic (fallback_rel (pr_selectors q))"
proof -
  obtain p db' where run: "applyRowMutation sample_sha str_cmp sample_draft sample_matrix (\<lambda>c. Some ()) sample_store = Some (Inr (p, ()), db')"
    using sample_row_applied by (elim exE)
  from row_mutation_exact [OF sample_reachable run] obtain cur q where q: "getCurrentPolicy db' = Some (Some q)" "acyclic (fallback_rel (pr_selectors q))"
      and sel: "\<forall>sc. selector_for q sc = (if sc = dr_scope sample_draft then (case dr_selection sample_draft of Row_inherit \<Rightarrow> None
              | Row_route r f \<Rightarrow> Some \<lparr>ps_scope = sc, ps_selector = Select_route r, ps_failurePolicy = f\<rparr>)
            else selector_for cur sc)"
    unfolding sum.case prod.case by (elim exE conjE)
  have "route_at (selector_for q (Scope_action_type at_implementation)) = Some (route_on ''d'' ''m'')"
    using sel by (simp add: sample_draft_def route_at_def)
  with run q show ?thesis by blast
qed

lemma row_mutation_once_witness:
  "\<exists>r db'. applyRowMutation sample_sha str_cmp sample_draft sample_matrix (\<lambda>c. Some ()) sample_store = Some (Inr r, db')
     \<and> (\<forall>r' db''. applyRowMutation sample_sha str_cmp sample_draft sample_matrix (\<lambda>c. Some ()) db' \<noteq> Some (Inr r', db''))"
proof -
  obtain p db' where run: "applyRowMutation sample_sha str_cmp sample_draft sample_matrix (\<lambda>c. Some ()) sample_store = Some (Inr (p, ()), db')"
    using sample_row_applied by (elim exE)
  have "length (rb_revisions sample_store) < 2 ^ 53" by (simp add: sample_store_def)
  from row_mutation_once [OF sample_reachable run this refl] run show ?thesis by blast
qed

end
