(* ===== verification/RoutingResolution.thy ===== *)
theory RoutingResolution
  imports RoutingProperties
begin

text \<open>
  The store and the resolver together: a policy that a row draft has put in force resolves every action of the registry it was
  validated with, over the catalog it was validated with. A policy that came in as a whole need not.
\<close>

section \<open>What the resolver needs\<close>

definition scope_covers :: "selector_scope \<Rightarrow> registry_entry \<Rightarrow> bool" where
  "scope_covers sc e \<longleftrightarrow> sc \<in> {Scope_global, Scope_action_type (re_actionType e), Scope_action (re_actionId e)}"

definition policy_serves :: "policy_revision \<Rightarrow> registry_entry \<Rightarrow> route_fact list \<Rightarrow> bool" where
  "policy_serves pol e fs \<longleftrightarrow>
     (\<exists>g. selector_for pol Scope_global = Some \<lparr>ps_scope = Scope_global, ps_selector = Select_route g, ps_failurePolicy = Fail_immediately\<rparr>)
     \<and> (\<forall>s\<in>set (pr_selectors pol). scope_covers (ps_scope s) e \<longrightarrow>
          (\<forall>r\<in>set (referencedRoutes s). \<forall>b. validateRoute r e fs b = None)
          \<and> (\<forall>r q. ps_selector s = Select_route r \<longrightarrow> ps_scope s \<noteq> Scope_global
               \<longrightarrow> fallback_of (globalRoute (pr_selectors pol)) s = Some q \<longrightarrow> routeIdentityKey r \<noteq> routeIdentityKey q))"

lemma serving_validates:
  assumes "route_serves \<lparr>vc_registry = es, vc_routes = fs\<rparr> sc r" and "e \<in> set (entriesForScope sc es)"
    and "distinct (map (\<lambda>f. routeIdentityKey (rf_route f)) fs)"
  shows "validateRoute r e fs b = None"
proof -
  from assms(1) obtain f where f: "f \<in> set fs" "routeIdentityKey (rf_route f) = routeIdentityKey r" "rf_connectionActive f" "rf_available f"
    and "\<forall>e\<in>set (entriesForScope sc es). meetsRequirements f (re_capabilityRequirements e)"
    by (auto simp: route_serves_def)
  with assms(2) have "meets_requirements (re_capabilityRequirements e) f" by (auto simp: meetsRequirements_def meets_requirements_def)
  moreover have "List.find (\<lambda>f. routeIdentityKey (rf_route f) = routeIdentityKey r) fs = Some f"
    using f(1,2) assms(3) by (intro find_unique) (auto simp: distinct_map inj_on_def)
  ultimately show ?thesis using f(3,4) by (simp add: validateRoute_def Let_def)
qed

lemma covered_entry: "scope_covers sc e \<Longrightarrow> e \<in> set es \<Longrightarrow> e \<in> set (entriesForScope sc es)"
  by (auto simp: scope_covers_def entriesForScope_def)

lemma selected_cases:
  assumes "selected_policy pol e global g = (s, r, src)" and "selector_for pol Scope_global = Some global" and "ps_selector global = Select_route g"
  shows "s \<in> set (pr_selectors pol) \<and> scope_covers (ps_scope s) e \<and> ps_selector s = Select_route r \<and> (src \<noteq> From_global \<longrightarrow> ps_scope s \<noteq> Scope_global)"
proof -
  have at: "\<exists>p. selector_for pol sc = Some p \<and> ps_selector p = Select_route q \<and> ps_scope p = sc \<and> p \<in> set (pr_selectors pol)"
    if "route_at (selector_for pol sc) = Some q" for sc q
    using that selector_for_set by (auto simp: route_at_def selector_for_def dest: find_Some_set split: option.splits route_selector.splits)
  have glob: "ps_scope global = Scope_global" "global \<in> set (pr_selectors pol)"
    using assms(2) by (auto simp: selector_for_def dest: find_Some_set)
  show ?thesis
  proof (cases "route_at (selector_for pol (Scope_action (re_actionId e)))")
    case (Some q)
    from at [OF Some] obtain p where "selector_for pol (Scope_action (re_actionId e)) = Some p" "ps_selector p = Select_route q"
      "ps_scope p = Scope_action (re_actionId e)" "p \<in> set (pr_selectors pol)" by (elim exE conjE)
    with assms(1) Some show ?thesis by (auto simp: selected_policy_def scope_covers_def Let_def)
  next
    case None
    show ?thesis
    proof (cases "route_at (selector_for pol (Scope_action_type (re_actionType e)))")
      case (Some q)
      from at [OF Some] obtain p where "selector_for pol (Scope_action_type (re_actionType e)) = Some p" "ps_selector p = Select_route q"
        "ps_scope p = Scope_action_type (re_actionType e)" "p \<in> set (pr_selectors pol)" by (elim exE conjE)
      with assms(1) None Some show ?thesis by (auto simp: selected_policy_def scope_covers_def Let_def)
    qed (use assms None glob in \<open>auto simp: selected_policy_def scope_covers_def Let_def\<close>)
  qed
qed

lemma served_resolves:
  assumes "policy_serves pol e fs"
  shows "\<exists>plan. resolvePolicy pol e fs = Inr plan"
proof -
  let ?global = "\<lambda>g. \<lparr>ps_scope = Scope_global, ps_selector = Select_route g, ps_failurePolicy = Fail_immediately\<rparr>"
  from assms obtain g where glob: "selector_for pol Scope_global = Some (?global g)" by (auto simp: policy_serves_def)
  then have gset: "?global g \<in> set (pr_selectors pol)" by (rule selector_for_set)
  have groute: "globalRoute (pr_selectors pol) = Some g" using glob by (simp add: globalRoute_def selector_for_def route_at_def)
  obtain s r src where sel: "selected_policy pol e (?global g) g = (s, r, src)" by (cases "selected_policy pol e (?global g) g")
  have s: "s \<in> set (pr_selectors pol)" "scope_covers (ps_scope s) e" "ps_selector s = Select_route r" "src \<noteq> From_global \<longrightarrow> ps_scope s \<noteq> Scope_global"
    using selected_cases [OF sel glob] by simp_all
  have valid: "validateRoute q e fs b = None" if "t \<in> set (pr_selectors pol)" "scope_covers (ps_scope t) e" "q \<in> set (referencedRoutes t)" for t q b
    using assms that unfolding policy_serves_def by blast
  have differ: "routeIdentityKey r \<noteq> routeIdentityKey q" if "src \<noteq> From_global" "fallback_of (Some g) s = Some q" for q
    using assms s that groute unfolding policy_serves_def by metis
  have prim: "validateRoute r e fs b = None" for b using valid [OF s(1,2)] s(3) by (simp add: referencedRoutes_def)
  have gvalid: "validateRoute g e fs True = None" using valid [OF gset] by (simp add: referencedRoutes_def scope_covers_def)
  have "\<exists>steps. recovery_step s r src g e fs = Inr steps"
  proof (cases "src = From_global")
    case False
    then show ?thesis
      using differ [OF False] gvalid valid [OF s(1,2)] s(3)
      by (cases "ps_failurePolicy s") (auto simp: recovery_step_def fallback_of_def referencedRoutes_def)
  qed (simp add: recovery_step_def)
  then show ?thesis using prim by (auto simp: resolvePolicy_def glob sel)
qed

lemma row_policy_serves:
  assumes ok: "routing_ok sha db" and run: "applyRowMutation sha collate d ctx settle db = Some (Inr r, db')"
    and e: "e \<in> set (mx_registry ctx)" and facts: "distinct (map (\<lambda>f. routeIdentityKey (rf_route f)) (mx_routes ctx))"
  shows "\<exists>q. readBoundCurrentPolicy db' = Some (Some q) \<and> policy_serves q e (mx_routes ctx) \<and> pr_registryVersion q = mx_registryVersion ctx"
proof -
  from row_cases [OF run] obtain cur i cand where a: "row_checked d ctx cur i"
    and prep: "prepareRevision sha collate db (row_mutation d ctx cur) rr_operator_mutation (row_selectors d cur) = Some cand"
    and ins: "insertPreparedRevision cand db = Some db'"
    by auto
  from a have v: "validateMutation (row_mutation d ctx cur) \<lparr>vc_registry = mx_registry ctx, vc_routes = mx_routes ctx\<rparr> (Some cur) = None"
    by (simp add: row_checked_def)
  have shape: "policy_shape (row_selectors d cur)" using validated(3) [OF v] by (simp add: row_mutation_def)
  obtain q where q: "readBoundCurrentPolicy db' = Some (Some q)" "mset (pr_selectors q) = mset (row_selectors d cur)"
      "pr_registryVersion q = pm_registryVersion (row_mutation d ctx cur)"
    by (rule insertion_current [OF ok prep ins shape validated(2) [OF v]])
  have shape': "policy_shape (pr_selectors q)" using policy_shape_mset [OF q(2)] shape by simp
  have dist: "distinct (map ps_scope (pr_selectors q))" using shape' by (simp add: policy_shape_def)
  obtain g where g: "filter (\<lambda>s. ps_scope s = Scope_global) (pr_selectors q)
      = [\<lparr>ps_scope = Scope_global, ps_selector = Select_route g, ps_failurePolicy = Fail_immediately\<rparr>]"
    using global_selector [OF shape'] by (elim exE)
  have routes: "validateRoute t e (mx_routes ctx) b = None"
    if s: "s \<in> set (pr_selectors q)" "scope_covers (ps_scope s) e" "t \<in> set (referencedRoutes s)" for s t b
  proof (rule serving_validates [OF _ covered_entry [OF s(2) e] facts])
    have "check_routes \<lparr>vc_registry = mx_registry ctx, vc_routes = mx_routes ctx\<rparr> s = None"
      using validated(5) [OF v] s(1) mset_eq_setD [OF q(2)] by (simp add: row_mutation_def)
    moreover have "check_shape s" using shape' s(1) by (simp add: policy_shape_def)
    ultimately show "route_serves \<lparr>vc_registry = mx_registry ctx, vc_routes = mx_routes ctx\<rparr> (ps_scope s) t"
      using s(3) by (rule check_routes_serves)
  qed
  have acyc: "acyclic (fallback_rel (pr_selectors q))" using a by (simp add: fallback_rel_mset [OF q(2) dist] row_checked_def fallback_cycle_found)
  have differ: "routeIdentityKey r \<noteq> routeIdentityKey t"
    if "s \<in> set (pr_selectors q)" "ps_selector s = Select_route r" "ps_scope s \<noteq> Scope_global"
      "fallback_of (globalRoute (pr_selectors q)) s = Some t" for s r t
  proof
    assume eq: "routeIdentityKey r = routeIdentityKey t"
    have "(routeIdentityKey r, routeIdentityKey t) \<in> fallback_rel (pr_selectors q)"
      using that by (auto simp: fallback_rel_def selector_edge_def)
    with eq acyc show False by (auto simp: acyclic_def dest: r_into_trancl)
  qed
  with routes find_filter_head [OF g] have "policy_serves q e (mx_routes ctx)" by (auto simp: policy_serves_def selector_for_def)
  with q show ?thesis by (auto simp: row_mutation_def)
qed

section \<open>The store and the resolver\<close>

text \<open>C7. Once a row draft has been accepted, every registered action resolves to a plan against the store, over the catalog and
  the registry the draft was validated with: no route is missing, none fails the requirements and no plan falls back to its own
  route.\<close>

theorem accepted_row_resolves:
  assumes "routing_reachable sha collate db" and "applyRowMutation sha collate d ctx settle db = Some (Inr r, db')"
    and "new_registry entries version = Some reg" and "mx_registryVersion ctx = ar_version reg" and "mx_registry ctx = registry_list reg"
    and "catalog_of facts = Some (mx_routes ctx)"
    and "so_current st = (case getCurrentPolicy db' of None \<Rightarrow> Read_throws | Some cur \<Rightarrow> Read_policy cur)"
    and "isResolutionInput v = Some (i, boot)" and "registry_get reg i \<noteq> None"
  shows "\<exists>plan. resolve_route reg st facts v = Inr plan"
proof -
  note ok = routing_reachable_ok [OF assms(1)]
  obtain e where e: "registry_get reg i = Some e" using assms(9) by auto
  then have "e \<in> set (ar_entries reg)" by (auto simp: registry_get_def dest!: js_map_Some)
  then have mem: "e \<in> set (mx_registry ctx)" by (simp add: assms(5) registry_list_def)
  have "distinct (map (\<lambda>f. routeIdentityKey (rf_route f)) (mx_routes ctx))"
    using assms(6) by (auto simp: catalog_of_def Option.bind_eq_Some_conv split: if_splits)
  from row_policy_serves [OF ok assms(2) mem this] obtain q where q: "readBoundCurrentPolicy db' = Some (Some q)"
    "policy_serves q e (mx_routes ctx)" "pr_registryVersion q = mx_registryVersion ctx"
    by (elim exE conjE)
  have "so_current st = Read_policy (Some q)" using assms(7) q(1) by (simp add: getCurrentPolicy_def)
  then have "resolve_route reg st facts v = resolvePolicy q e (mx_routes ctx)"
    using q(3) by (simp add: resolve_route_def assms(4,6,8) e policy_or_bootstrap_def)
  with served_resolves [OF q(2)] show ?thesis by simp
qed

text \<open>The sample draft, in a registry with the one action.\<close>

definition put_fact_on :: "string \<Rightarrow> string \<Rightarrow> jsv" where
  "put_fact_on c m = JObj [(''schemaVersion'', JStr ''agent-routing/v1''), (''route'', put_route (route_on c m)),
     (''connectionActive'', JBool True), (''available'', JBool True), (''contextWindowTokens'', JNum (JInt 128000)),
     (''tools'', JBool True), (''api'', JBool True), (''reasoning'', JNull)]"

definition sample_catalog :: jsv where
  "sample_catalog = JArr [put_fact_on ''c'' ''g'', put_fact_on ''c'' ''m'', put_fact_on ''d'' ''m'']"

definition sample_registry :: agent_registry where
  "sample_registry = \<lparr>ar_version = ''agent-registry/v1'', ar_entries = [sample_entry]\<rparr>"

lemma sample_new_registry: "new_registry (JArr (map put_entry [sample_entry])) ''agent-registry/v1'' = Some sample_registry"
proof -
  have "type_metadata_ok Map.empty Map.empty [sample_entry]" by code_simp
  then have "isAgentRegistryCollectionV1 (JArr (map put_entry [sample_entry])) = Some [sample_entry]"
    using sample_entry_ok by (intro collection_put) simp_all
  with canonical_version show ?thesis by (simp add: new_registry_def sample_registry_def del: rx_full.simps)
qed

lemma sample_input: "isResolutionInput (resolution_input ''phase-worker'' None) = Some (''phase-worker'', None)"
proof -
  have "rx_full ACTION_ID_RE ''phase-worker''" using canonical_ids by (simp add: canonicalDefinitions_def del: rx_full.simps)
  then show ?thesis
    by (simp add: isResolutionInput_def resolution_input_def bootstrap_of_def hasOnlyKeys_def string_where_def del: rx_full.simps)
qed

definition store_answering :: "routing_db \<Rightarrow> policy_store" where
  "store_answering db = \<lparr>so_current = (case getCurrentPolicy db of None \<Rightarrow> Read_throws | Some cur \<Rightarrow> Read_policy cur),
     so_apply = (\<lambda>m v. Inl ROUTING_POLICY_CONFLICT), so_again = Read_throws\<rparr>"

lemma accepted_row_resolves_witness:
  "\<exists>db' r plan. applyRowMutation sample_sha str_cmp sample_draft sample_matrix (\<lambda>c. Some ()) sample_store = Some (Inr r, db')
     \<and> resolve_route sample_registry (store_answering db') sample_catalog (resolution_input ''phase-worker'' None) = Inr plan"
proof -
  obtain p db' where run: "applyRowMutation sample_sha str_cmp sample_draft sample_matrix (\<lambda>c. Some ()) sample_store = Some (Inr (p, ()), db')"
    using sample_row_applied by (elim exE)
  have ctx: "mx_registryVersion sample_matrix = ar_version sample_registry" "mx_registry sample_matrix = registry_list sample_registry"
    by code_simp+
  have facts: "catalog_of sample_catalog = Some (mx_routes sample_matrix)" by code_simp
  have get: "registry_get sample_registry ''phase-worker'' \<noteq> None" by code_simp
  have "so_current (store_answering db') = (case getCurrentPolicy db' of None \<Rightarrow> Read_throws | Some cur \<Rightarrow> Read_policy cur)"
    by (simp add: store_answering_def)
  from accepted_row_resolves [OF sample_reachable run sample_new_registry ctx facts this sample_input get] run show ?thesis by blast
qed

definition circular_row :: policy_selector where
  "circular_row = \<lparr>ps_scope = Scope_action_type at_implementation, ps_selector = Select_route (route_on ''c'' ''g''),
     ps_failurePolicy = Reroute_global_once\<rparr>"


end
