(* ===== verification/Catalog.thy ===== *)
theory Catalog
  imports JsValue JsDate
begin

text \<open>
  The contracts of the model catalog: the reconciliation ledger of provider connections
  (\<open>catalog-reconciliation.ts\<close>) and the catalog of discovered models with its diagnostics and its normaliser
  (\<open>model-catalog.ts\<close>). A guard on plain data narrows the types of the fields and then asks the condition
  \<open>..._ok\<close> of the narrowed record; code that guards a value it already has at that type asks the condition alone.
\<close>

section \<open>The ledger\<close>

datatype scan_state = never_scanned | scanning | sa_available | sa_empty | sa_failed

definition scanStates :: "(string \<times> scan_state) list" where
  "scanStates = [(''never_scanned'', never_scanned), (''scanning'', scanning), (''available'', sa_available), (''empty'', sa_empty),
     (''failed'', sa_failed)]"

datatype scan_trigger =
    startup_reconciliation | connection_created | material_connection_change | connection_reactivated | credential_changed
  | individual_retry | scan_active

definition triggers :: "(string \<times> scan_trigger) list" where
  "triggers = [(''startup_reconciliation'', startup_reconciliation), (''connection_created'', connection_created),
     (''material_connection_change'', material_connection_change), (''connection_reactivated'', connection_reactivated),
     (''credential_changed'', credential_changed), (''individual_retry'', individual_retry), (''scan_active'', scan_active)]"

datatype settled_outcome = so_available | so_empty | so_failed

definition settledOutcomes :: "(string \<times> settled_outcome) list" where
  "settledOutcomes = [(''available'', so_available), (''empty'', so_empty), (''failed'', so_failed)]"

fun state_of :: "settled_outcome \<Rightarrow> scan_state" where
  "state_of so_available = sa_available"
| "state_of so_empty = sa_empty"
| "state_of so_failed = sa_failed"

datatype scan_outcome =
    sc_success | sc_unavailable | sc_authentication_failed | sc_timeout | sc_redirect_rejected | sc_malformed_response
  | sc_normalization_failed | sc_vault_unavailable | sc_not_scannable | sc_process_failed

definition catalogOutcomeCodes :: "(string \<times> scan_outcome) list" where
  "catalogOutcomeCodes = [(''success'', sc_success), (''unavailable'', sc_unavailable),
     (''authentication_failed'', sc_authentication_failed), (''timeout'', sc_timeout), (''redirect_rejected'', sc_redirect_rejected),
     (''malformed_response'', sc_malformed_response), (''normalization_failed'', sc_normalization_failed),
     (''vault_unavailable'', sc_vault_unavailable), (''not_scannable'', sc_not_scannable), (''process_failed'', sc_process_failed)]"

datatype outcome_code = Scan_code scan_outcome | interrupted_scan | coordinator_failure | legacy_evidence_adopted

definition additionalOutcomeCodes :: "(string \<times> outcome_code) list" where
  "additionalOutcomeCodes = [(''interrupted_scan'', interrupted_scan), (''coordinator_failure'', coordinator_failure),
     (''legacy_evidence_adopted'', legacy_evidence_adopted)]"

datatype claim_mode = eligible_only | force_settled

definition claimModes :: "(string \<times> claim_mode) list" where
  "claimModes = [(''eligible_only'', eligible_only), (''force_settled'', force_settled)]"

datatype provider_kind = pk_custom | pk_known | pk_pi_session

definition providerKinds :: "(string \<times> provider_kind) list" where
  "providerKinds = [(''custom'', pk_custom), (''known'', pk_known), (''pi_session'', pk_pi_session)]"

datatype guidance_code = scan_not_started | scan_in_progress | models_available | no_models_returned | scan_failed

definition guidanceCodes :: "(string \<times> guidance_code) list" where
  "guidanceCodes = [(''scan_not_started'', scan_not_started), (''scan_in_progress'', scan_in_progress),
     (''models_available'', models_available), (''no_models_returned'', no_models_returned), (''scan_failed'', scan_failed)]"

fun guidanceByState :: "scan_state \<Rightarrow> guidance_code" where
  "guidanceByState never_scanned = scan_not_started"
| "guidanceByState scanning = scan_in_progress"
| "guidanceByState sa_available = models_available"
| "guidanceByState sa_empty = no_models_returned"
| "guidanceByState sa_failed = scan_failed"

definition TARGET_VERSION :: int where
  "TARGET_VERSION = 2"

definition MAX_TEXT :: nat where
  "MAX_TEXT = 10000"

record ledger_record =
  lr_connectionId :: string
  lr_reconciliationVersion :: int
  lr_scanState :: scan_state
  lr_trigger :: "scan_trigger option"
  lr_attemptId :: "string option"
  lr_claimedAt :: "string option"
  lr_settledAt :: "string option"
  lr_settledOutcome :: "settled_outcome option"
  lr_modelCount :: "int option"
  lr_outcomeCode :: "outcome_code option"
  lr_safeOutcomeMessage :: "string option"
  lr_diagnosticId :: "string option"

record connection_state =
  as_connectionId :: string
  as_label :: string
  as_providerKind :: provider_kind
  as_scanState :: scan_state
  as_trigger :: "scan_trigger option"
  as_attemptId :: "string option"
  as_modelCount :: "int option"
  as_claimedAt :: "string option"
  as_settledAt :: "string option"
  as_outcomeCode :: "outcome_code option"
  as_safeMessage :: "string option"
  as_diagnosticId :: "string option"
  as_diagnosticOccurredAt :: "string option"
  as_guidanceCode :: guidance_code

record initialize_input =
  ii_connectionId :: string
  ii_reconciliationVersion :: int

record adopt_input =
  ad_connectionId :: string
  ad_reconciliationVersion :: int
  ad_attemptId :: string
  ad_claimedAt :: string
  ad_settledAt :: string
  ad_settledOutcome :: settled_outcome
  ad_modelCount :: int
  ad_safeOutcomeMessage :: string
  ad_diagnosticId :: "string option"

record claim_input =
  ci_connectionId :: string
  ci_reconciliationVersion :: int
  ci_trigger :: scan_trigger
  ci_attemptId :: string
  ci_claimedAt :: string
  ci_mode :: claim_mode

record settle_input =
  si_connectionId :: string
  si_reconciliationVersion :: int
  si_attemptId :: string
  si_settledAt :: string
  si_settledOutcome :: settled_outcome
  si_modelCount :: int
  si_outcomeCode :: outcome_code
  si_safeOutcomeMessage :: string
  si_diagnosticId :: string

section \<open>Fields\<close>

definition hasExactKeys :: "jsv \<Rightarrow> string list \<Rightarrow> bool" where
  "hasExactKeys v expected \<longleftrightarrow>
     isRecord v \<and> length (jkeys v) = length expected \<and> list_all (\<lambda>k. k \<in> set (jkeys v)) expected"

text \<open>A non-empty string of at most \<open>n\<close> code units.\<close>

definition bounded :: "nat \<Rightarrow> string \<Rightarrow> bool" where
  "bounded n s \<longleftrightarrow> 0 < length s \<and> length s \<le> n"

definition isBoundedString :: "string \<Rightarrow> bool" where
  "isBoundedString s \<longleftrightarrow> bounded MAX_TEXT s"

definition isSafeInteger :: "int \<Rightarrow> bool" where
  "isSafeInteger n \<longleftrightarrow> \<bar>n\<bar> \<le> 2 ^ 53 - 1"

definition isPositiveInteger :: "int \<Rightarrow> bool" where
  "isPositiveInteger n \<longleftrightarrow> isSafeInteger n \<and> 0 < n"

definition isNonNegativeInteger :: "int \<Rightarrow> bool" where
  "isNonNegativeInteger n \<longleftrightarrow> isSafeInteger n \<and> 0 \<le> n"

definition or_null :: "(jsv \<Rightarrow> 'a option) \<Rightarrow> jsv \<Rightarrow> 'a option option" where
  "or_null f v = (if v = JNull then Some None else map_option Some (f v))"

text \<open>A condition on a value that may be null.\<close>

definition null_or :: "('a \<Rightarrow> bool) \<Rightarrow> 'a option \<Rightarrow> bool" where
  "null_or P x \<longleftrightarrow> (case x of None \<Rightarrow> True | Some a \<Rightarrow> P a)"

definition isOutcomeCode :: "jsv \<Rightarrow> outcome_code option" where
  "isOutcomeCode v =
     (case enum_of catalogOutcomeCodes v of Some c \<Rightarrow> Some (Scan_code c) | None \<Rightarrow> enum_of additionalOutcomeCodes v)"

definition schema_is :: "string \<Rightarrow> jsv \<Rightarrow> bool" where
  "schema_is s v \<longleftrightarrow> jget v ''schemaVersion'' = JStr s"

section \<open>Guards of the ledger\<close>

definition outcomeMatchesState :: "settled_outcome \<Rightarrow> int \<Rightarrow> outcome_code \<Rightarrow> bool" where
  "outcomeMatchesState st n code \<longleftrightarrow>
     (if st = so_available then 0 < n \<and> (code = Scan_code sc_success \<or> code = legacy_evidence_adopted)
      else if st = so_empty then n = 0 \<and> (code = Scan_code sc_success \<or> code = legacy_evidence_adopted)
      else n = 0 \<and> code \<noteq> Scan_code sc_success)"

text \<open>The condition on a settled row, whose claim is recorded and whose outcome is \<open>out\<close>.\<close>

definition settled_ok :: "ledger_record \<Rightarrow> scan_trigger \<Rightarrow> string \<Rightarrow> settled_outcome \<Rightarrow> bool" where
  "settled_ok r trig claimed out \<longleftrightarrow>
     (case (lr_settledAt r, lr_modelCount r, lr_outcomeCode r) of
        (Some t, Some n, Some code) \<Rightarrow>
          lr_settledOutcome r = Some out \<and> lr_safeOutcomeMessage r \<noteq> None
          \<and> \<not> date_parse t < date_parse claimed
          \<and> \<not> (code = legacy_evidence_adopted \<and> (trig \<noteq> startup_reconciliation \<or> claimed \<noteq> t))
          \<and> outcomeMatchesState out n code
          \<and> (lr_diagnosticId r \<noteq> None \<or> (out = so_available \<and> code = legacy_evidence_adopted))
      | _ \<Rightarrow> False)"

definition state_ok :: "ledger_record \<Rightarrow> bool" where
  "state_ok r \<longleftrightarrow>
     (if lr_scanState r = never_scanned then
        lr_trigger r = None \<and> lr_attemptId r = None \<and> lr_claimedAt r = None \<and> lr_settledAt r = None \<and> lr_settledOutcome r = None
        \<and> lr_modelCount r = None \<and> lr_outcomeCode r = None \<and> lr_safeOutcomeMessage r = None \<and> lr_diagnosticId r = None
      else (case (lr_trigger r, lr_attemptId r, lr_claimedAt r) of
          (Some trig, Some _, Some claimed) \<Rightarrow>
            (case lr_scanState r of
               scanning \<Rightarrow> lr_settledAt r = None \<and> lr_settledOutcome r = None \<and> lr_modelCount r = None \<and> lr_outcomeCode r = None
                 \<and> lr_safeOutcomeMessage r = None \<and> lr_diagnosticId r = None
             | sa_available \<Rightarrow> settled_ok r trig claimed so_available
             | sa_empty \<Rightarrow> settled_ok r trig claimed so_empty
             | sa_failed \<Rightarrow> settled_ok r trig claimed so_failed
             | never_scanned \<Rightarrow> False)
        | _ \<Rightarrow> False))"

definition record_ok :: "ledger_record \<Rightarrow> bool" where
  "record_ok r \<longleftrightarrow>
     isBoundedString (lr_connectionId r) \<and> isPositiveInteger (lr_reconciliationVersion r)
     \<and> null_or isBoundedString (lr_attemptId r) \<and> null_or canonical_iso (lr_claimedAt r) \<and> null_or canonical_iso (lr_settledAt r)
     \<and> null_or isNonNegativeInteger (lr_modelCount r) \<and> null_or isBoundedString (lr_safeOutcomeMessage r)
     \<and> null_or isBoundedString (lr_diagnosticId r) \<and> state_ok r"

definition recordKeys :: "string list" where
  "recordKeys = [''schemaVersion'', ''connectionId'', ''reconciliationVersion'', ''scanState'', ''trigger'', ''attemptId'',
     ''claimedAt'', ''settledAt'', ''settledOutcome'', ''modelCount'', ''outcomeCode'', ''safeOutcomeMessage'', ''diagnosticId'']"

definition isCatalogReconciliationRecord :: "jsv \<Rightarrow> ledger_record option" where
  "isCatalogReconciliationRecord v = do {
     chk (hasExactKeys v recordKeys \<and> schema_is ''catalog-reconciliation/v1'' v);
     c \<leftarrow> as_string (jget v ''connectionId'');
     n \<leftarrow> as_int (jget v ''reconciliationVersion'');
     st \<leftarrow> enum_of scanStates (jget v ''scanState'');
     tr \<leftarrow> or_null (enum_of triggers) (jget v ''trigger'');
     a \<leftarrow> or_null as_string (jget v ''attemptId'');
     ct \<leftarrow> or_null as_string (jget v ''claimedAt'');
     se \<leftarrow> or_null as_string (jget v ''settledAt'');
     so \<leftarrow> or_null (enum_of settledOutcomes) (jget v ''settledOutcome'');
     mc \<leftarrow> or_null as_int (jget v ''modelCount'');
     oc \<leftarrow> or_null isOutcomeCode (jget v ''outcomeCode'');
     m \<leftarrow> or_null as_string (jget v ''safeOutcomeMessage'');
     d \<leftarrow> or_null as_string (jget v ''diagnosticId'');
     let r = \<lparr>lr_connectionId = c, lr_reconciliationVersion = n, lr_scanState = st, lr_trigger = tr, lr_attemptId = a,
       lr_claimedAt = ct, lr_settledAt = se, lr_settledOutcome = so, lr_modelCount = mc, lr_outcomeCode = oc,
       lr_safeOutcomeMessage = m, lr_diagnosticId = d\<rparr>;
     chk (record_ok r);
     Some r }"

text \<open>The public state stands for a row of the target version.\<close>

definition settled_of :: "scan_state \<Rightarrow> settled_outcome option" where
  "settled_of st = (case st of sa_available \<Rightarrow> Some so_available | sa_empty \<Rightarrow> Some so_empty | sa_failed \<Rightarrow> Some so_failed | _ \<Rightarrow> None)"

definition state_record :: "connection_state \<Rightarrow> ledger_record" where
  "state_record s =
     \<lparr>lr_connectionId = as_connectionId s, lr_reconciliationVersion = TARGET_VERSION, lr_scanState = as_scanState s,
      lr_trigger = as_trigger s, lr_attemptId = as_attemptId s, lr_claimedAt = as_claimedAt s, lr_settledAt = as_settledAt s,
      lr_settledOutcome = settled_of (as_scanState s), lr_modelCount = as_modelCount s, lr_outcomeCode = as_outcomeCode s,
      lr_safeOutcomeMessage = as_safeMessage s, lr_diagnosticId = as_diagnosticId s\<rparr>"

definition connection_state_ok :: "connection_state \<Rightarrow> bool" where
  "connection_state_ok s \<longleftrightarrow>
     isBoundedString (as_connectionId s) \<and> isBoundedString (as_label s) \<and> as_guidanceCode s = guidanceByState (as_scanState s)
     \<and> null_or isBoundedString (as_attemptId s) \<and> null_or isNonNegativeInteger (as_modelCount s)
     \<and> null_or canonical_iso (as_claimedAt s) \<and> null_or canonical_iso (as_settledAt s) \<and> null_or isBoundedString (as_safeMessage s)
     \<and> null_or isBoundedString (as_diagnosticId s) \<and> null_or canonical_iso (as_diagnosticOccurredAt s)
     \<and> record_ok (state_record s) \<and> (as_diagnosticId s = None) = (as_diagnosticOccurredAt s = None)"

definition stateKeys :: "string list" where
  "stateKeys = [''schemaVersion'', ''connectionId'', ''label'', ''providerKind'', ''lifecycleActive'', ''scanState'', ''trigger'',
     ''attemptId'', ''modelCount'', ''claimedAt'', ''settledAt'', ''outcomeCode'', ''safeMessage'', ''diagnosticId'',
     ''diagnosticOccurredAt'', ''guidanceCode'']"

definition isActiveCatalogConnectionState :: "jsv \<Rightarrow> connection_state option" where
  "isActiveCatalogConnectionState v = do {
     chk (hasExactKeys v stateKeys \<and> schema_is ''catalog-reconciliation/v1'' v \<and> jget v ''lifecycleActive'' = JBool True);
     c \<leftarrow> as_string (jget v ''connectionId'');
     l \<leftarrow> as_string (jget v ''label'');
     k \<leftarrow> enum_of providerKinds (jget v ''providerKind'');
     st \<leftarrow> enum_of scanStates (jget v ''scanState'');
     g \<leftarrow> enum_of guidanceCodes (jget v ''guidanceCode'');
     tr \<leftarrow> or_null (enum_of triggers) (jget v ''trigger'');
     a \<leftarrow> or_null as_string (jget v ''attemptId'');
     mc \<leftarrow> or_null as_int (jget v ''modelCount'');
     ct \<leftarrow> or_null as_string (jget v ''claimedAt'');
     se \<leftarrow> or_null as_string (jget v ''settledAt'');
     oc \<leftarrow> or_null isOutcomeCode (jget v ''outcomeCode'');
     m \<leftarrow> or_null as_string (jget v ''safeMessage'');
     d \<leftarrow> or_null as_string (jget v ''diagnosticId'');
     dt \<leftarrow> or_null as_string (jget v ''diagnosticOccurredAt'');
     let s = \<lparr>as_connectionId = c, as_label = l, as_providerKind = k, as_scanState = st, as_trigger = tr, as_attemptId = a,
       as_modelCount = mc, as_claimedAt = ct, as_settledAt = se, as_outcomeCode = oc, as_safeMessage = m, as_diagnosticId = d,
       as_diagnosticOccurredAt = dt, as_guidanceCode = g\<rparr>;
     chk (connection_state_ok s);
     Some s }"

text \<open>The public collection: every entry a state, identities unique and ascending.\<close>

fun ascending :: "string list \<Rightarrow> bool" where
  "ascending [] = True"
| "ascending [s] = True"
| "ascending (s # t # us) = (str_less s t \<and> ascending (t # us))"

definition isCatalogConnectionStatesResponse :: "jsv \<Rightarrow> connection_state list option" where
  "isCatalogConnectionStatesResponse v = do {
     chk (hasExactKeys v [''schemaVersion'', ''connections''] \<and> schema_is ''catalog-reconciliation/v1'' v);
     ss \<leftarrow> array_of isActiveCatalogConnectionState (jget v ''connections'');
     chk (hasUniqueValues (map as_connectionId ss) \<and> ascending (map as_connectionId ss));
     Some ss }"

definition isCatalogConnectionStateResponse :: "jsv \<Rightarrow> connection_state option" where
  "isCatalogConnectionStateResponse v = do {
     chk (hasExactKeys v [''schemaVersion'', ''connection''] \<and> schema_is ''catalog-reconciliation/v1'' v);
     isActiveCatalogConnectionState (jget v ''connection'') }"

section \<open>Guards of the operations\<close>

definition initialize_ok :: "initialize_input \<Rightarrow> bool" where
  "initialize_ok i \<longleftrightarrow> isBoundedString (ii_connectionId i) \<and> ii_reconciliationVersion i = TARGET_VERSION"

definition isInitializeCatalogReconciliationInput :: "jsv \<Rightarrow> initialize_input option" where
  "isInitializeCatalogReconciliationInput v = do {
     chk (hasExactKeys v [''connectionId'', ''reconciliationVersion'']);
     c \<leftarrow> as_string (jget v ''connectionId'');
     n \<leftarrow> as_int (jget v ''reconciliationVersion'');
     let i = \<lparr>ii_connectionId = c, ii_reconciliationVersion = n\<rparr>;
     chk (initialize_ok i);
     Some i }"

definition legacyAdoptionRecord :: "adopt_input \<Rightarrow> ledger_record" where
  "legacyAdoptionRecord i =
     \<lparr>lr_connectionId = ad_connectionId i, lr_reconciliationVersion = ad_reconciliationVersion i,
      lr_scanState = state_of (ad_settledOutcome i), lr_trigger = Some startup_reconciliation, lr_attemptId = Some (ad_attemptId i),
      lr_claimedAt = Some (ad_claimedAt i), lr_settledAt = Some (ad_settledAt i), lr_settledOutcome = Some (ad_settledOutcome i),
      lr_modelCount = Some (ad_modelCount i), lr_outcomeCode = Some legacy_evidence_adopted,
      lr_safeOutcomeMessage = Some (ad_safeOutcomeMessage i), lr_diagnosticId = ad_diagnosticId i\<rparr>"

definition adopt_ok :: "adopt_input \<Rightarrow> bool" where
  "adopt_ok i \<longleftrightarrow>
     isBoundedString (ad_connectionId i) \<and> ad_reconciliationVersion i = TARGET_VERSION \<and> isBoundedString (ad_attemptId i)
     \<and> canonical_iso (ad_claimedAt i) \<and> canonical_iso (ad_settledAt i) \<and> ad_claimedAt i = ad_settledAt i
     \<and> isNonNegativeInteger (ad_modelCount i) \<and> isBoundedString (ad_safeOutcomeMessage i) \<and> null_or isBoundedString (ad_diagnosticId i)
     \<and> record_ok (legacyAdoptionRecord i)"

definition isAdoptCatalogLegacyEvidenceInput :: "jsv \<Rightarrow> adopt_input option" where
  "isAdoptCatalogLegacyEvidenceInput v = do {
     chk (hasExactKeys v [''connectionId'', ''reconciliationVersion'', ''attemptId'', ''claimedAt'', ''settledAt'', ''settledOutcome'',
       ''modelCount'', ''safeOutcomeMessage'', ''diagnosticId'']);
     c \<leftarrow> as_string (jget v ''connectionId'');
     n \<leftarrow> as_int (jget v ''reconciliationVersion'');
     a \<leftarrow> as_string (jget v ''attemptId'');
     ct \<leftarrow> as_string (jget v ''claimedAt'');
     se \<leftarrow> as_string (jget v ''settledAt'');
     so \<leftarrow> enum_of settledOutcomes (jget v ''settledOutcome'');
     mc \<leftarrow> as_int (jget v ''modelCount'');
     m \<leftarrow> as_string (jget v ''safeOutcomeMessage'');
     d \<leftarrow> or_null as_string (jget v ''diagnosticId'');
     let i = \<lparr>ad_connectionId = c, ad_reconciliationVersion = n, ad_attemptId = a, ad_claimedAt = ct, ad_settledAt = se,
       ad_settledOutcome = so, ad_modelCount = mc, ad_safeOutcomeMessage = m, ad_diagnosticId = d\<rparr>;
     chk (adopt_ok i);
     Some i }"

definition claim_ok :: "claim_input \<Rightarrow> bool" where
  "claim_ok i \<longleftrightarrow> isBoundedString (ci_connectionId i) \<and> isPositiveInteger (ci_reconciliationVersion i)
     \<and> isBoundedString (ci_attemptId i) \<and> canonical_iso (ci_claimedAt i)"

definition isClaimCatalogScanAttemptInput :: "jsv \<Rightarrow> claim_input option" where
  "isClaimCatalogScanAttemptInput v = do {
     chk (hasExactKeys v [''connectionId'', ''reconciliationVersion'', ''trigger'', ''attemptId'', ''claimedAt'', ''mode'']);
     c \<leftarrow> as_string (jget v ''connectionId'');
     n \<leftarrow> as_int (jget v ''reconciliationVersion'');
     tr \<leftarrow> enum_of triggers (jget v ''trigger'');
     a \<leftarrow> as_string (jget v ''attemptId'');
     ct \<leftarrow> as_string (jget v ''claimedAt'');
     m \<leftarrow> enum_of claimModes (jget v ''mode'');
     let i = \<lparr>ci_connectionId = c, ci_reconciliationVersion = n, ci_trigger = tr, ci_attemptId = a, ci_claimedAt = ct, ci_mode = m\<rparr>;
     chk (claim_ok i);
     Some i }"

definition settle_ok :: "settle_input \<Rightarrow> bool" where
  "settle_ok i \<longleftrightarrow>
     isBoundedString (si_connectionId i) \<and> isPositiveInteger (si_reconciliationVersion i) \<and> isBoundedString (si_attemptId i)
     \<and> canonical_iso (si_settledAt i) \<and> isNonNegativeInteger (si_modelCount i) \<and> si_outcomeCode i \<noteq> legacy_evidence_adopted
     \<and> isBoundedString (si_safeOutcomeMessage i) \<and> isBoundedString (si_diagnosticId i)
     \<and> outcomeMatchesState (si_settledOutcome i) (si_modelCount i) (si_outcomeCode i)"

definition isSettleCatalogScanAttemptInput :: "jsv \<Rightarrow> settle_input option" where
  "isSettleCatalogScanAttemptInput v = do {
     chk (hasExactKeys v [''connectionId'', ''reconciliationVersion'', ''attemptId'', ''settledAt'', ''settledOutcome'', ''modelCount'',
       ''outcomeCode'', ''safeOutcomeMessage'', ''diagnosticId'']);
     c \<leftarrow> as_string (jget v ''connectionId'');
     n \<leftarrow> as_int (jget v ''reconciliationVersion'');
     a \<leftarrow> as_string (jget v ''attemptId'');
     se \<leftarrow> as_string (jget v ''settledAt'');
     so \<leftarrow> enum_of settledOutcomes (jget v ''settledOutcome'');
     mc \<leftarrow> as_int (jget v ''modelCount'');
     oc \<leftarrow> isOutcomeCode (jget v ''outcomeCode'');
     m \<leftarrow> as_string (jget v ''safeOutcomeMessage'');
     d \<leftarrow> as_string (jget v ''diagnosticId'');
     let i = \<lparr>si_connectionId = c, si_reconciliationVersion = n, si_attemptId = a, si_settledAt = se, si_settledOutcome = so,
       si_modelCount = mc, si_outcomeCode = oc, si_safeOutcomeMessage = m, si_diagnosticId = d\<rparr>;
     chk (settle_ok i);
     Some i }"

end
