(* ===== verification/CatalogModels.thy ===== *)
theory CatalogModels
  imports Catalog
begin

text \<open>
  Discovered models and scan diagnostics: their contracts and the normaliser of a scanner's payload
  (\<open>model-catalog.ts\<close>), and the store that replaces the snapshot of one connection together with a diagnostic
  (\<open>model-catalog-store.ts\<close>). Comparison by locale is the parameter \<open>collate\<close>. A row of a table is a record of its
  columns; the modalities column, whose text is a JSON array of plain words, is the list itself. A throw is \<open>None\<close> and
  leaves the tables as they were, as the rollback does.
\<close>

section \<open>Contracts\<close>

definition MAX_MODEL_ID :: nat where
  "MAX_MODEL_ID = 512"

definition MAX_TOKEN_LIMIT :: int where
  "MAX_TOKEN_LIMIT = 10000000"

definition MAX_PRICE :: int where
  "MAX_PRICE = 1000000"

definition RETENTION_LIMIT :: nat where
  "RETENTION_LIMIT = 20"

datatype modality = mo_audio | mo_file | mo_image | mo_text | mo_video

definition modalities :: "(string \<times> modality) list" where
  "modalities = [(''audio'', mo_audio), (''file'', mo_file), (''image'', mo_image), (''text'', mo_text), (''video'', mo_video)]"

fun modality_name :: "modality \<Rightarrow> string" where
  "modality_name mo_audio = ''audio''"
| "modality_name mo_file = ''file''"
| "modality_name mo_image = ''image''"
| "modality_name mo_text = ''text''"
| "modality_name mo_video = ''video''"

datatype currency = USD

record pricing =
  pc_inputPerMillionUsd :: "jnum option"
  pc_outputPerMillionUsd :: "jnum option"
  pc_currency :: "currency option"

record capabilities =
  ca_reasoning :: "bool option"
  ca_tools :: "bool option"
  ca_api :: "bool option"

record catalog_model =
  cm_connectionId :: string
  cm_modelId :: string
  cm_providerKind :: provider_kind
  cm_providerLabel :: string
  cm_displayName :: "string option"
  cm_description :: "string option"
  cm_contextWindowTokens :: "jnum option"
  cm_maxOutputTokens :: "jnum option"
  cm_inputModalities :: "modality list"
  cm_capabilities :: capabilities
  cm_pricing :: "pricing option"
  cm_lastSuccessfulScanAt :: string

record diagnostic =
  dg_diagnosticId :: string
  dg_connectionId :: string
  dg_scanCorrelationId :: string
  dg_outcome :: scan_outcome
  dg_safeMessage :: string
  dg_httpStatusCode :: "int option"
  dg_occurredAt :: string

record scan_result =
  sr_connectionId :: string
  sr_scanCorrelationId :: string
  sr_outcome :: scan_outcome
  sr_modelCount :: int
  sr_diagnostic :: diagnostic

record store_outcome =
  os_connectionId :: string
  os_models :: "catalog_model list"
  os_diagnostic :: diagnostic

record safe_connection =
  sn_connectionId :: string
  sn_kind :: provider_kind
  sn_label :: string

datatype rejection = invalid_connection | invalid_scan_timestamp | invalid_payload | invalid_candidate | duplicate_identity

section \<open>Guards\<close>

fun as_num :: "jsv \<Rightarrow> jnum option" where
  "as_num (JNum n) = Some n"
| "as_num _ = None"

text \<open>A fraction is its mantissa over a power of two.\<close>

fun isFiniteNonNegative :: "int \<Rightarrow> jnum \<Rightarrow> bool" where
  "isFiniteNonNegative mx (JInt n) \<longleftrightarrow> 0 \<le> n \<and> n \<le> mx"
| "isFiniteNonNegative mx (JFrac m e) \<longleftrightarrow> 0 \<le> m \<and> m \<le> mx * 2 ^ e"
| "isFiniteNonNegative mx _ \<longleftrightarrow> False"

definition isNullableLimit :: "jnum option \<Rightarrow> bool" where
  "isNullableLimit x \<longleftrightarrow> null_or (isFiniteNonNegative MAX_TOKEN_LIMIT) x"

definition isNullableHttpStatusCode :: "int option \<Rightarrow> bool" where
  "isNullableHttpStatusCode x \<longleftrightarrow> null_or (\<lambda>n. 100 \<le> n \<and> n \<le> 599) x"

definition pricing_ok :: "pricing option \<Rightarrow> bool" where
  "pricing_ok x \<longleftrightarrow>
     null_or (\<lambda>p. null_or (isFiniteNonNegative MAX_PRICE) (pc_inputPerMillionUsd p)
       \<and> null_or (isFiniteNonNegative MAX_PRICE) (pc_outputPerMillionUsd p)) x"

definition model_ok :: "catalog_model \<Rightarrow> bool" where
  "model_ok m \<longleftrightarrow>
     bounded MAX_TEXT (cm_connectionId m) \<and> bounded MAX_MODEL_ID (cm_modelId m) \<and> bounded MAX_TEXT (cm_providerLabel m)
     \<and> null_or (bounded MAX_TEXT) (cm_displayName m) \<and> null_or (bounded MAX_TEXT) (cm_description m)
     \<and> isNullableLimit (cm_contextWindowTokens m) \<and> isNullableLimit (cm_maxOutputTokens m)
     \<and> hasUniqueValues (cm_inputModalities m) \<and> pricing_ok (cm_pricing m) \<and> canonical_iso (cm_lastSuccessfulScanAt m)"

definition isCapabilities :: "jsv \<Rightarrow> capabilities option" where
  "isCapabilities v = do {
     chk (isRecord v);
     r \<leftarrow> or_null as_bool (jget v ''reasoning'');
     t \<leftarrow> or_null as_bool (jget v ''tools'');
     a \<leftarrow> or_null as_bool (jget v ''api'');
     Some \<lparr>ca_reasoning = r, ca_tools = t, ca_api = a\<rparr> }"

definition isPricing :: "jsv \<Rightarrow> pricing option" where
  "isPricing v = do {
     chk (isRecord v);
     i \<leftarrow> or_null as_num (jget v ''inputPerMillionUsd'');
     out \<leftarrow> or_null as_num (jget v ''outputPerMillionUsd'');
     c \<leftarrow> or_null (enum_of [(''USD'', USD)]) (jget v ''currency'');
     Some \<lparr>pc_inputPerMillionUsd = i, pc_outputPerMillionUsd = out, pc_currency = c\<rparr> }"

definition isCatalogModelRecord :: "jsv \<Rightarrow> catalog_model option" where
  "isCatalogModelRecord v = do {
     chk (isRecord v \<and> schema_is ''model-catalog/v1'' v \<and> jget v ''availability'' = JStr ''available'');
     chk (isRecord (jget v ''identity''));
     c \<leftarrow> as_string (jget (jget v ''identity'') ''connectionId'');
     i \<leftarrow> as_string (jget (jget v ''identity'') ''modelId'');
     k \<leftarrow> enum_of providerKinds (jget v ''providerKind'');
     l \<leftarrow> as_string (jget v ''providerLabel'');
     dn \<leftarrow> or_null as_string (jget v ''displayName'');
     de \<leftarrow> or_null as_string (jget v ''description'');
     cw \<leftarrow> or_null as_num (jget v ''contextWindowTokens'');
     mx \<leftarrow> or_null as_num (jget v ''maxOutputTokens'');
     ms \<leftarrow> array_of (enum_of modalities) (jget v ''inputModalities'');
     ca \<leftarrow> isCapabilities (jget v ''capabilities'');
     p \<leftarrow> or_null isPricing (jget v ''pricing'');
     t \<leftarrow> as_string (jget v ''lastSuccessfulScanAt'');
     let m = \<lparr>cm_connectionId = c, cm_modelId = i, cm_providerKind = k, cm_providerLabel = l, cm_displayName = dn,
       cm_description = de, cm_contextWindowTokens = cw, cm_maxOutputTokens = mx, cm_inputModalities = ms, cm_capabilities = ca,
       cm_pricing = p, cm_lastSuccessfulScanAt = t\<rparr>;
     chk (model_ok m);
     Some m }"

definition diagnostic_ok :: "diagnostic \<Rightarrow> bool" where
  "diagnostic_ok d \<longleftrightarrow>
     bounded MAX_TEXT (dg_diagnosticId d) \<and> bounded MAX_TEXT (dg_connectionId d) \<and> bounded MAX_TEXT (dg_scanCorrelationId d)
     \<and> bounded MAX_TEXT (dg_safeMessage d) \<and> isNullableHttpStatusCode (dg_httpStatusCode d) \<and> canonical_iso (dg_occurredAt d)"

definition isCatalogScanDiagnostic :: "jsv \<Rightarrow> diagnostic option" where
  "isCatalogScanDiagnostic v = do {
     chk (isRecord v \<and> schema_is ''model-catalog/v1'' v);
     i \<leftarrow> as_string (jget v ''diagnosticId'');
     c \<leftarrow> as_string (jget v ''connectionId'');
     s \<leftarrow> as_string (jget v ''scanCorrelationId'');
     oc \<leftarrow> enum_of catalogOutcomeCodes (jget v ''outcome'');
     m \<leftarrow> as_string (jget v ''safeMessage'');
     h \<leftarrow> or_null as_int (jget v ''httpStatusCode'');
     t \<leftarrow> as_string (jget v ''occurredAt'');
     let d = \<lparr>dg_diagnosticId = i, dg_connectionId = c, dg_scanCorrelationId = s, dg_outcome = oc, dg_safeMessage = m,
       dg_httpStatusCode = h, dg_occurredAt = t\<rparr>;
     chk (diagnostic_ok d);
     Some d }"

definition compareCatalogModels :: "(string \<Rightarrow> string \<Rightarrow> int) \<Rightarrow> catalog_model \<Rightarrow> catalog_model \<Rightarrow> int" where
  "compareCatalogModels collate l r =
     (if collate (cm_connectionId l) (cm_connectionId r) \<noteq> 0 then collate (cm_connectionId l) (cm_connectionId r)
      else collate (cm_modelId l) (cm_modelId r))"

text \<open>Strictly ascending neighbours.\<close>

fun models_ascending :: "(string \<Rightarrow> string \<Rightarrow> int) \<Rightarrow> catalog_model list \<Rightarrow> bool" where
  "models_ascending collate [] = True"
| "models_ascending collate [m] = True"
| "models_ascending collate (m # n # ms) = (compareCatalogModels collate m n < 0 \<and> models_ascending collate (n # ms))"

definition outcome_ok :: "(string \<Rightarrow> string \<Rightarrow> int) \<Rightarrow> store_outcome \<Rightarrow> bool" where
  "outcome_ok collate sto \<longleftrightarrow>
     bounded MAX_TEXT (os_connectionId sto) \<and> diagnostic_ok (os_diagnostic sto)
     \<and> dg_connectionId (os_diagnostic sto) = os_connectionId sto
     \<and> list_all model_ok (os_models sto) \<and> list_all (\<lambda>m. cm_connectionId m = os_connectionId sto) (os_models sto)
     \<and> models_ascending collate (os_models sto)
     \<and> (dg_outcome (os_diagnostic sto) = sc_success \<or> os_models sto = [])"

definition isCatalogStoreScanOutcome :: "(string \<Rightarrow> string \<Rightarrow> int) \<Rightarrow> jsv \<Rightarrow> store_outcome option" where
  "isCatalogStoreScanOutcome collate v = do {
     chk (isRecord v);
     c \<leftarrow> as_string (jget v ''connectionId'');
     d \<leftarrow> isCatalogScanDiagnostic (jget v ''diagnostic'');
     ms \<leftarrow> array_of isCatalogModelRecord (jget v ''models'');
     let sto = \<lparr>os_connectionId = c, os_models = ms, os_diagnostic = d\<rparr>;
     chk (outcome_ok collate sto);
     Some sto }"

section \<open>The normaliser\<close>

text \<open>An optional field: \<open>Some None\<close> when it is absent or null, \<open>None\<close> when it rejects the candidate.\<close>

definition absent :: "jsv \<Rightarrow> bool" where
  "absent v \<longleftrightarrow> v = JUndef \<or> v = JNull"

definition normalizeRequiredString :: "nat \<Rightarrow> jsv \<Rightarrow> string option" where
  "normalizeRequiredString n v = do { s \<leftarrow> as_string v; chk (bounded n (trim s)); Some (trim s) }"

definition normalizeConnection :: "jsv \<Rightarrow> safe_connection option" where
  "normalizeConnection v = do {
     chk (isRecord v);
     c \<leftarrow> as_string (jget v ''connectionId'');
     chk (bounded MAX_TEXT c);
     k \<leftarrow> enum_of providerKinds (jget v ''kind'');
     l \<leftarrow> normalizeRequiredString MAX_TEXT (jget v ''label'');
     Some \<lparr>sn_connectionId = c, sn_kind = k, sn_label = l\<rparr> }"

definition normalizeOptionalString :: "jsv \<Rightarrow> string option option" where
  "normalizeOptionalString v = (if absent v then Some None else map_option Some (normalizeRequiredString MAX_TEXT v))"

definition normalizeOptionalLimit :: "jsv \<Rightarrow> jnum option option" where
  "normalizeOptionalLimit v =
     (if absent v then Some None else do { n \<leftarrow> as_num v; chk (isFiniteNonNegative MAX_TOKEN_LIMIT n); Some (Some n) })"

definition normalizeModalities :: "(string \<Rightarrow> string \<Rightarrow> int) \<Rightarrow> jsv \<Rightarrow> modality list option" where
  "normalizeModalities collate v =
     (if absent v then Some []
      else do {
        ms \<leftarrow> array_of (enum_of modalities) v;
        Some (sort_by (\<lambda>l r. collate (modality_name l) (modality_name r)) (js_set ms)) })"

definition normalizeCapability :: "jsv \<Rightarrow> bool option option" where
  "normalizeCapability v = (if absent v then Some None else map_option Some (as_bool v))"

definition normalizeCapabilities :: "jsv \<Rightarrow> capabilities option" where
  "normalizeCapabilities v =
     (if absent v then Some \<lparr>ca_reasoning = None, ca_tools = None, ca_api = None\<rparr>
      else do {
        chk (isRecord v);
        r \<leftarrow> normalizeCapability (jget v ''reasoning'');
        t \<leftarrow> normalizeCapability (jget v ''tools'');
        a \<leftarrow> normalizeCapability (jget v ''api'');
        Some \<lparr>ca_reasoning = r, ca_tools = t, ca_api = a\<rparr> })"

definition normalizePrice :: "jsv \<Rightarrow> jnum option option" where
  "normalizePrice v = (if v = JNull then Some None else do { n \<leftarrow> as_num v; chk (isFiniteNonNegative MAX_PRICE n); Some (Some n) })"

definition normalizePricing :: "jsv \<Rightarrow> pricing option option" where
  "normalizePricing v =
     (if absent v then Some None
      else do {
        chk (isRecord v);
        i \<leftarrow> normalizePrice (jget v ''inputPerMillionUsd'');
        out \<leftarrow> normalizePrice (jget v ''outputPerMillionUsd'');
        c \<leftarrow> or_null (enum_of [(''USD'', USD)]) (jget v ''currency'');
        Some (Some \<lparr>pc_inputPerMillionUsd = i, pc_outputPerMillionUsd = out, pc_currency = c\<rparr>) })"

definition normalizeCandidate :: "(string \<Rightarrow> string \<Rightarrow> int) \<Rightarrow> safe_connection \<Rightarrow> string \<Rightarrow> jsv \<Rightarrow> catalog_model option" where
  "normalizeCandidate collate conn scanAt v = do {
     chk (isRecord v);
     i \<leftarrow> normalizeRequiredString MAX_MODEL_ID (jget v ''modelId'');
     chk (jget v ''availability'' = JUndef \<or> jget v ''availability'' = JStr ''available'');
     dn \<leftarrow> normalizeOptionalString (jget v ''displayName'');
     de \<leftarrow> normalizeOptionalString (jget v ''description'');
     cw \<leftarrow> normalizeOptionalLimit (jget v ''contextWindowTokens'');
     mx \<leftarrow> normalizeOptionalLimit (jget v ''maxOutputTokens'');
     ms \<leftarrow> normalizeModalities collate (jget v ''inputModalities'');
     ca \<leftarrow> normalizeCapabilities (jget v ''capabilities'');
     p \<leftarrow> normalizePricing (jget v ''pricing'');
     Some \<lparr>cm_connectionId = sn_connectionId conn, cm_modelId = i, cm_providerKind = sn_kind conn, cm_providerLabel = sn_label conn,
       cm_displayName = dn, cm_description = de, cm_contextWindowTokens = cw, cm_maxOutputTokens = mx, cm_inputModalities = ms,
       cm_capabilities = ca, cm_pricing = p, cm_lastSuccessfulScanAt = scanAt\<rparr> }"

definition identityKey :: "string \<Rightarrow> string \<Rightarrow> string" where
  "identityKey c i = c @ [CHR 0x00] @ i"

text \<open>The loop over the candidates, with the identities it has seen.\<close>

fun normalize_candidates :: "(string \<Rightarrow> string \<Rightarrow> int) \<Rightarrow> safe_connection \<Rightarrow> string \<Rightarrow> string set \<Rightarrow> jsv list
    \<Rightarrow> rejection + catalog_model list" where
  "normalize_candidates collate conn scanAt seen [] = Inr []"
| "normalize_candidates collate conn scanAt seen (v # vs) =
     (case normalizeCandidate collate conn scanAt v of
        None \<Rightarrow> Inl invalid_candidate
      | Some m \<Rightarrow>
          (let k = identityKey (sn_connectionId conn) (cm_modelId m) in
           if k \<in> seen then Inl duplicate_identity
           else (case normalize_candidates collate conn scanAt (insert k seen) vs of
               Inl e \<Rightarrow> Inl e
             | Inr ms \<Rightarrow> Inr (m # ms))))"

definition normalizeDiscoveredCatalog :: "(string \<Rightarrow> string \<Rightarrow> int) \<Rightarrow> jsv \<Rightarrow> jsv \<Rightarrow> string \<Rightarrow> rejection + catalog_model list" where
  "normalizeDiscoveredCatalog collate connection payload scanAt =
     (case normalizeConnection connection of
        None \<Rightarrow> Inl invalid_connection
      | Some conn \<Rightarrow>
          if \<not> canonical_iso scanAt then Inl invalid_scan_timestamp
          else (case (isRecord payload, as_array (jget payload ''models'')) of
              (True, Some vs) \<Rightarrow>
                (case normalize_candidates collate conn scanAt {} vs of
                   Inl e \<Rightarrow> Inl e
                 | Inr ms \<Rightarrow> Inr (sort_by (compareCatalogModels collate) ms))
            | _ \<Rightarrow> Inl invalid_payload))"

end
