(* ===== verification/CatalogStores.thy ===== *)
theory CatalogStores
  imports CatalogModels
begin

text \<open>
  The stores of the catalog. \<open>catalog-reconciliation-store.ts\<close>: one row per connection, changed only by
  initialisation, adoption of legacy evidence, claims and settlements, each in one immediate transaction.
  \<open>model-catalog-store.ts\<close>: the models of a connection and the last diagnostics of its scans. A method that
  throws is \<open>None\<close>; its transaction is rolled back, so the caller keeps the tables it had.
\<close>

section \<open>The reconciliation ledger\<close>

type_synonym ledger = "ledger_record list"

text \<open>A row is read back through the guard.\<close>

definition rowToRecord :: "ledger_record \<Rightarrow> ledger_record option" where
  "rowToRecord r = do { chk (record_ok r); Some r }"

definition readWithinTransaction :: "ledger \<Rightarrow> string \<Rightarrow> ledger_record option option" where
  "readWithinTransaction L c =
     (case List.find (\<lambda>r. lr_connectionId r = c) L of None \<Rightarrow> Some None | Some r \<Rightarrow> map_option Some (rowToRecord r))"

definition read_ledger :: "ledger \<Rightarrow> string \<Rightarrow> ledger_record option option" where
  "read_ledger L c = do { chk (isBoundedString c); readWithinTransaction L c }"

definition requireRecord :: "ledger \<Rightarrow> string \<Rightarrow> ledger_record option" where
  "requireRecord L c = do { x \<leftarrow> readWithinTransaction L c; x }"

definition compareByConnectionId :: "ledger_record \<Rightarrow> ledger_record \<Rightarrow> int" where
  "compareByConnectionId l r = str_cmp (lr_connectionId l) (lr_connectionId r)"

definition list_ledger :: "ledger \<Rightarrow> ledger_record list option" where
  "list_ledger L = do { rs \<leftarrow> parse_all rowToRecord L; Some (sort_by compareByConnectionId rs) }"

definition listInterruptedClaims :: "ledger \<Rightarrow> ledger_record list option" where
  "listInterruptedClaims L = do { rs \<leftarrow> list_ledger L; Some (filter (\<lambda>r. lr_scanState r = scanning) rs) }"

text \<open>\<open>insert ... on conflict(connection_id) do update\<close>.\<close>

fun upsert :: "ledger_record \<Rightarrow> ledger \<Rightarrow> ledger" where
  "upsert r [] = [r]"
| "upsert r (q # L) = (if lr_connectionId q = lr_connectionId r then r # L else q # upsert r L)"

definition replace_row :: "ledger_record \<Rightarrow> ledger \<Rightarrow> ledger option" where
  "replace_row r L = do { chk (record_ok r); Some (upsert r L) }"

definition never_scanned_row :: "string \<Rightarrow> int \<Rightarrow> ledger_record" where
  "never_scanned_row c n =
     \<lparr>lr_connectionId = c, lr_reconciliationVersion = n, lr_scanState = never_scanned, lr_trigger = None, lr_attemptId = None,
      lr_claimedAt = None, lr_settledAt = None, lr_settledOutcome = None, lr_modelCount = None, lr_outcomeCode = None,
      lr_safeOutcomeMessage = None, lr_diagnosticId = None\<rparr>"

definition initializeNeverScanned :: "initialize_input \<Rightarrow> ledger \<Rightarrow> (ledger_record \<times> ledger) option" where
  "initializeNeverScanned i L = do {
     chk (initialize_ok i);
     existing \<leftarrow> readWithinTransaction L (ii_connectionId i);
     (case existing of
        Some r \<Rightarrow> Some (r, L)
      | None \<Rightarrow> do {
          let L' = L @ [never_scanned_row (ii_connectionId i) (ii_reconciliationVersion i)];
          r \<leftarrow> requireRecord L' (ii_connectionId i);
          Some (r, L') }) }"

definition adoptLegacyEvidence :: "adopt_input \<Rightarrow> ledger \<Rightarrow> (ledger_record \<times> ledger) option" where
  "adoptLegacyEvidence i L = do {
     chk (adopt_ok i);
     existing \<leftarrow> readWithinTransaction L (ad_connectionId i);
     chk (\<not> (case existing of
         None \<Rightarrow> False
       | Some r \<Rightarrow> lr_reconciliationVersion r \<noteq> ad_reconciliationVersion i \<or> lr_scanState r \<noteq> never_scanned));
     L' \<leftarrow> replace_row (legacyAdoptionRecord i) L;
     r \<leftarrow> requireRecord L' (ad_connectionId i);
     Some (r, L') }"

definition isSettled :: "ledger_record \<Rightarrow> bool" where
  "isSettled r \<longleftrightarrow> lr_scanState r = sa_available \<or> lr_scanState r = sa_empty \<or> lr_scanState r = sa_failed"

datatype claim_result = Claimed ledger_record | Already_scanning ledger_record | Settled_for_version ledger_record

definition claimed_record :: "claim_input \<Rightarrow> ledger_record" where
  "claimed_record i =
     \<lparr>lr_connectionId = ci_connectionId i, lr_reconciliationVersion = ci_reconciliationVersion i, lr_scanState = scanning,
      lr_trigger = Some (ci_trigger i), lr_attemptId = Some (ci_attemptId i), lr_claimedAt = Some (ci_claimedAt i),
      lr_settledAt = None, lr_settledOutcome = None, lr_modelCount = None, lr_outcomeCode = None,
      lr_safeOutcomeMessage = None, lr_diagnosticId = None\<rparr>"

definition claimAttempt :: "claim_input \<Rightarrow> ledger \<Rightarrow> (claim_result \<times> ledger) option" where
  "claimAttempt i L = do {
     chk (claim_ok i);
     existing \<leftarrow> readWithinTransaction L (ci_connectionId i);
     let fresh = do {
       L' \<leftarrow> replace_row (claimed_record i) L;
       r \<leftarrow> requireRecord L' (ci_connectionId i);
       Some (Claimed r, L') };
     (case existing of
        None \<Rightarrow> fresh
      | Some e \<Rightarrow>
          if lr_scanState e = scanning then Some (Already_scanning e, L)
          else if ci_reconciliationVersion i < lr_reconciliationVersion e then None
          else if ci_mode i = eligible_only \<and> lr_reconciliationVersion e = ci_reconciliationVersion i \<and> isSettled e
            then Some (Settled_for_version e, L)
          else fresh) }"

definition settled_record :: "ledger_record \<Rightarrow> settle_input \<Rightarrow> ledger_record" where
  "settled_record e i =
     e\<lparr>lr_scanState := state_of (si_settledOutcome i), lr_settledAt := Some (si_settledAt i),
       lr_settledOutcome := Some (si_settledOutcome i), lr_modelCount := Some (si_modelCount i),
       lr_outcomeCode := Some (si_outcomeCode i), lr_safeOutcomeMessage := Some (si_safeOutcomeMessage i),
       lr_diagnosticId := Some (si_diagnosticId i)\<rparr>"

definition settleAttempt :: "settle_input \<Rightarrow> ledger \<Rightarrow> (ledger_record \<times> ledger) option" where
  "settleAttempt i L = do {
     chk (settle_ok i);
     existing \<leftarrow> readWithinTransaction L (si_connectionId i);
     e \<leftarrow> existing;
     chk (lr_scanState e = scanning \<and> lr_reconciliationVersion e = si_reconciliationVersion i
       \<and> lr_attemptId e = Some (si_attemptId i));
     claimed \<leftarrow> lr_claimedAt e;
     chk (\<not> date_parse (si_settledAt i) < date_parse claimed);
     L' \<leftarrow> replace_row (settled_record e i) L;
     r \<leftarrow> requireRecord L' (si_connectionId i);
     Some (r, L') }"

section \<open>The catalog of models\<close>

record model_row =
  mr_connection_id :: string
  mr_model_id :: string
  mr_provider_kind :: string
  mr_provider_label :: string
  mr_display_name :: "string option"
  mr_description :: "string option"
  mr_context_window_tokens :: "jnum option"
  mr_max_output_tokens :: "jnum option"
  mr_input_modalities :: "modality list"
  mr_reasoning :: "int option"
  mr_tools :: "int option"
  mr_api :: "int option"
  mr_pricing_present :: int
  mr_input_per_million_usd :: "jnum option"
  mr_output_per_million_usd :: "jnum option"
  mr_pricing_currency :: "string option"
  mr_last_successful_scan_at :: string

record catalog_store =
  ks_models :: "model_row list"
  ks_diagnostics :: "diagnostic list"

definition booleanToSql :: "bool option \<Rightarrow> int option" where
  "booleanToSql x = map_option (\<lambda>b. if b then 1 else 0) x"

fun kind_name :: "provider_kind \<Rightarrow> string" where
  "kind_name pk_custom = ''custom''"
| "kind_name pk_known = ''known''"
| "kind_name pk_pi_session = ''pi_session''"

text \<open>The columns \<open>insertModel\<close> writes.\<close>

definition model_columns :: "catalog_model \<Rightarrow> model_row" where
  "model_columns m =
     \<lparr>mr_connection_id = cm_connectionId m, mr_model_id = cm_modelId m, mr_provider_kind = kind_name (cm_providerKind m),
      mr_provider_label = cm_providerLabel m, mr_display_name = cm_displayName m, mr_description = cm_description m,
      mr_context_window_tokens = cm_contextWindowTokens m, mr_max_output_tokens = cm_maxOutputTokens m,
      mr_input_modalities = cm_inputModalities m, mr_reasoning = booleanToSql (ca_reasoning (cm_capabilities m)),
      mr_tools = booleanToSql (ca_tools (cm_capabilities m)), mr_api = booleanToSql (ca_api (cm_capabilities m)),
      mr_pricing_present = (case cm_pricing m of None \<Rightarrow> 0 | Some _ \<Rightarrow> 1),
      mr_input_per_million_usd = (case cm_pricing m of None \<Rightarrow> None | Some p \<Rightarrow> pc_inputPerMillionUsd p),
      mr_output_per_million_usd = (case cm_pricing m of None \<Rightarrow> None | Some p \<Rightarrow> pc_outputPerMillionUsd p),
      mr_pricing_currency = (case cm_pricing m of None \<Rightarrow> None | Some p \<Rightarrow> map_option (\<lambda>_. ''USD'') (pc_currency p)),
      mr_last_successful_scan_at = cm_lastSuccessfulScanAt m\<rparr>"

text \<open>A nullable column: \<open>None\<close> when the stored value breaks the contract.\<close>

definition nullable_column :: "('a \<Rightarrow> 'b option) \<Rightarrow> 'a option \<Rightarrow> 'b option option" where
  "nullable_column f x = (case x of None \<Rightarrow> Some None | Some a \<Rightarrow> map_option Some (f a))"

definition nullableBoolean :: "int option \<Rightarrow> bool option option" where
  "nullableBoolean x = nullable_column (\<lambda>n. if n = 0 then Some False else if n = 1 then Some True else None) x"

definition requiredString :: "nat \<Rightarrow> string \<Rightarrow> string option" where
  "requiredString n s = do { chk (bounded n s); Some s }"

definition finiteNonNegative :: "int \<Rightarrow> jnum \<Rightarrow> jnum option" where
  "finiteNonNegative mx n = do { chk (isFiniteNonNegative mx n); Some n }"

definition pricingFromRow :: "model_row \<Rightarrow> pricing option option" where
  "pricingFromRow r =
     (if mr_pricing_present r = 0 then do {
        chk (mr_input_per_million_usd r = None \<and> mr_output_per_million_usd r = None \<and> mr_pricing_currency r = None);
        Some None }
      else do {
        chk (mr_pricing_present r = 1);
        i \<leftarrow> nullable_column (finiteNonNegative MAX_PRICE) (mr_input_per_million_usd r);
        out \<leftarrow> nullable_column (finiteNonNegative MAX_PRICE) (mr_output_per_million_usd r);
        c \<leftarrow> nullable_column (\<lambda>s. if s = ''USD'' then Some USD else None) (mr_pricing_currency r);
        Some (Some \<lparr>pc_inputPerMillionUsd = i, pc_outputPerMillionUsd = out, pc_currency = c\<rparr>) })"

definition rowToCatalogModel :: "model_row \<Rightarrow> catalog_model option" where
  "rowToCatalogModel r = do {
     c \<leftarrow> requiredString MAX_TEXT (mr_connection_id r);
     i \<leftarrow> requiredString MAX_MODEL_ID (mr_model_id r);
     k \<leftarrow> map_of providerKinds (mr_provider_kind r);
     l \<leftarrow> requiredString MAX_TEXT (mr_provider_label r);
     dn \<leftarrow> nullable_column (requiredString MAX_TEXT) (mr_display_name r);
     de \<leftarrow> nullable_column (requiredString MAX_TEXT) (mr_description r);
     cw \<leftarrow> nullable_column (finiteNonNegative MAX_TOKEN_LIMIT) (mr_context_window_tokens r);
     mx \<leftarrow> nullable_column (finiteNonNegative MAX_TOKEN_LIMIT) (mr_max_output_tokens r);
     re \<leftarrow> nullableBoolean (mr_reasoning r);
     t \<leftarrow> nullableBoolean (mr_tools r);
     a \<leftarrow> nullableBoolean (mr_api r);
     p \<leftarrow> pricingFromRow r;
     chk (canonical_iso (mr_last_successful_scan_at r));
     let m = \<lparr>cm_connectionId = c, cm_modelId = i, cm_providerKind = k, cm_providerLabel = l, cm_displayName = dn,
       cm_description = de, cm_contextWindowTokens = cw, cm_maxOutputTokens = mx, cm_inputModalities = mr_input_modalities r,
       cm_capabilities = \<lparr>ca_reasoning = re, ca_tools = t, ca_api = a\<rparr>, cm_pricing = p,
       cm_lastSuccessfulScanAt = mr_last_successful_scan_at r\<rparr>;
     chk (model_ok m);
     Some m }"

definition rowToCatalogDiagnostic :: "diagnostic \<Rightarrow> diagnostic option" where
  "rowToCatalogDiagnostic d = do { chk (diagnostic_ok d); Some d }"

text \<open>The primary keys: one row per connection and model, one diagnostic per identifier.\<close>

definition insertModel :: "catalog_model \<Rightarrow> model_row list \<Rightarrow> model_row list option" where
  "insertModel m rs = do {
     chk (\<not> list_ex (\<lambda>r. mr_connection_id r = cm_connectionId m \<and> mr_model_id r = cm_modelId m) rs);
     Some (rs @ [model_columns m]) }"

fun insertModels :: "catalog_model list \<Rightarrow> model_row list \<Rightarrow> model_row list option" where
  "insertModels [] rs = Some rs"
| "insertModels (m # ms) rs = do { rs' \<leftarrow> insertModel m rs; insertModels ms rs' }"

definition insertDiagnostic :: "diagnostic \<Rightarrow> diagnostic list \<Rightarrow> diagnostic list option" where
  "insertDiagnostic d ds = do { chk (\<not> list_ex (\<lambda>e. dg_diagnosticId e = dg_diagnosticId d) ds); Some (ds @ [d]) }"

text \<open>\<open>order by occurred_at desc, diagnostic_id desc\<close>.\<close>

definition newest_first :: "diagnostic \<Rightarrow> diagnostic \<Rightarrow> int" where
  "newest_first d e =
     (if str_cmp (dg_occurredAt e) (dg_occurredAt d) \<noteq> 0 then str_cmp (dg_occurredAt e) (dg_occurredAt d)
      else str_cmp (dg_diagnosticId e) (dg_diagnosticId d))"

definition diagnostics_of :: "diagnostic list \<Rightarrow> string \<Rightarrow> diagnostic list" where
  "diagnostics_of ds c = sort_by newest_first (filter (\<lambda>d. dg_connectionId d = c) ds)"

definition deleteOldDiagnostics :: "string \<Rightarrow> diagnostic list \<Rightarrow> diagnostic list" where
  "deleteOldDiagnostics c ds =
     filter (\<lambda>d. dg_diagnosticId d \<notin> dg_diagnosticId ` set (drop RETENTION_LIMIT (diagnostics_of ds c))) ds"

definition deleteModelsForConnection :: "string \<Rightarrow> model_row list \<Rightarrow> model_row list" where
  "deleteModelsForConnection c rs = filter (\<lambda>r. mr_connection_id r \<noteq> c) rs"

definition applyScanOutcome :: "(string \<Rightarrow> string \<Rightarrow> int) \<Rightarrow> store_outcome \<Rightarrow> catalog_store \<Rightarrow> catalog_store option" where
  "applyScanOutcome collate sto S = do {
     chk (outcome_ok collate sto);
     ms \<leftarrow> insertModels (os_models sto) (deleteModelsForConnection (os_connectionId sto) (ks_models S));
     ds \<leftarrow> insertDiagnostic (os_diagnostic sto) (ks_diagnostics S);
     Some \<lparr>ks_models = ms, ks_diagnostics = deleteOldDiagnostics (os_connectionId sto) ds\<rparr> }"

definition applyIdempotentFailureOutcome ::
  "(string \<Rightarrow> string \<Rightarrow> int) \<Rightarrow> store_outcome \<Rightarrow> catalog_store \<Rightarrow> catalog_store option" where
  "applyIdempotentFailureOutcome collate sto S = do {
     chk (outcome_ok collate sto \<and> os_models sto = [] \<and> dg_outcome (os_diagnostic sto) \<noteq> sc_success);
     ds \<leftarrow> (case List.find (\<lambda>d. dg_diagnosticId d = dg_diagnosticId (os_diagnostic sto)) (ks_diagnostics S) of
         Some row \<Rightarrow> do {
           existing \<leftarrow> rowToCatalogDiagnostic row;
           chk (existing = os_diagnostic sto);
           Some (ks_diagnostics S) }
       | None \<Rightarrow> insertDiagnostic (os_diagnostic sto) (ks_diagnostics S));
     Some \<lparr>ks_models = deleteModelsForConnection (os_connectionId sto) (ks_models S),
           ks_diagnostics = deleteOldDiagnostics (os_connectionId sto) ds\<rparr> }"

definition by_identity :: "model_row \<Rightarrow> model_row \<Rightarrow> int" where
  "by_identity l r =
     (if str_cmp (mr_connection_id l) (mr_connection_id r) \<noteq> 0 then str_cmp (mr_connection_id l) (mr_connection_id r)
      else str_cmp (mr_model_id l) (mr_model_id r))"

definition listModels :: "catalog_store \<Rightarrow> catalog_model list option" where
  "listModels S = parse_all rowToCatalogModel (sort_by by_identity (ks_models S))"

definition listModelsForConnection :: "catalog_store \<Rightarrow> string \<Rightarrow> catalog_model list option" where
  "listModelsForConnection S c =
     parse_all rowToCatalogModel (sort_by by_identity (filter (\<lambda>r. mr_connection_id r = c) (ks_models S)))"

definition listDiagnostics :: "catalog_store \<Rightarrow> string \<Rightarrow> int \<Rightarrow> diagnostic list option" where
  "listDiagnostics S c limit = do {
     chk (1 \<le> limit \<and> limit \<le> int RETENTION_LIMIT);
     parse_all rowToCatalogDiagnostic (take (nat limit) (diagnostics_of (ks_diagnostics S) c)) }"

end
