(* ===== verification/CatalogScans.thy ===== *)
theory CatalogScans
  imports CatalogStores
begin

text \<open>
  Scans of provider connections: one discovery (\<open>catalog-discovery-service.ts\<close>), the fail-closed outcome
  (\<open>catalog-fail-closed-outcome-writer.ts\<close>), the coordinator that claims, discovers and settles
  (\<open>catalog-scan-coordinator.ts\<close>), the reconciliation at startup (\<open>catalog-startup-reconciler.ts\<close>) and the
  projection of the public states (\<open>catalog-connection-state-projector.ts\<close>,
  \<open>catalog-connection-state-service.ts\<close>). What the rest of the program and the world answer is an argument: the
  connection a lookup finds, the readings of the clock, the fresh identifiers, the answer of the provider's scanner and whether
  the callback on removed routes returns. SHA-256 is the parameter \<open>sha\<close>. A computation that may throw after it changed
  a table returns the tables beside its optional result.
\<close>

section \<open>Discovery\<close>

datatype lifecycle = lc_active | lc_revoked | lc_deleted

record provider_connection =
  pv_connectionId :: string
  pv_kind :: provider_kind
  pv_label :: string
  pv_lifecycleState :: lifecycle

definition lifecycleStates :: "(string \<times> lifecycle) list" where
  "lifecycleStates = [(''active'', lc_active), (''revoked'', lc_revoked), (''deleted'', lc_deleted)]"

fun safeMessages :: "scan_outcome \<Rightarrow> string" where
  "safeMessages sc_success = ''Model catalog scan completed.''"
| "safeMessages sc_unavailable = ''Provider catalog is unavailable.''"
| "safeMessages sc_authentication_failed = ''Provider authentication was rejected.''"
| "safeMessages sc_timeout = ''Provider catalog scan timed out.''"
| "safeMessages sc_redirect_rejected = ''Provider catalog redirect was rejected.''"
| "safeMessages sc_malformed_response = ''Provider catalog returned an invalid response.''"
| "safeMessages sc_normalization_failed = ''Provider catalog response could not be normalized.''"
| "safeMessages sc_vault_unavailable = ''Catalog credential vault is unavailable.''"
| "safeMessages sc_not_scannable = ''Connection is not eligible for catalog scanning.''"
| "safeMessages sc_process_failed = ''Pi catalog process did not complete successfully.''"

definition createCatalogScanDiagnostic ::
  "string \<Rightarrow> string \<Rightarrow> string \<Rightarrow> scan_outcome \<Rightarrow> int option \<Rightarrow> string \<Rightarrow> diagnostic" where
  "createCatalogScanDiagnostic uuid c corr outcome http t =
     \<lparr>dg_diagnosticId = uuid, dg_connectionId = c, dg_scanCorrelationId = corr, dg_outcome = outcome,
      dg_safeMessage = safeMessages outcome, dg_httpStatusCode = http, dg_occurredAt = t\<rparr>"

datatype scanner_answer = Scan_payload jsv | Scan_failure scan_outcome "int option"

record discovery_env =
  de_connection :: "provider_connection option"
  de_scanAt :: string
  de_answer :: scanner_answer
  de_uuid :: string
  de_notified :: bool

definition safeConnectionForNormalizer :: "provider_connection \<Rightarrow> jsv" where
  "safeConnectionForNormalizer p =
     JObj [(''connectionId'', JStr (pv_connectionId p)), (''kind'', JStr (kind_name (pv_kind p))), (''label'', JStr (pv_label p))]"

text \<open>The scan outcome is stored first; the routes that disappeared are announced after that.\<close>

definition persistResult :: "(string \<Rightarrow> string \<Rightarrow> int) \<Rightarrow> discovery_env \<Rightarrow> string \<Rightarrow> string \<Rightarrow> scan_outcome \<Rightarrow> int option \<Rightarrow>
    catalog_model list \<Rightarrow> catalog_store \<Rightarrow> scan_result option \<times> catalog_store" where
  "persistResult collate en c corr outcome http models S =
     (case (if outcome = sc_success then Some [] else listModelsForConnection S c) of
        None \<Rightarrow> (None, S)
      | Some removed \<Rightarrow>
          (let d = createCatalogScanDiagnostic (de_uuid en) c corr outcome http (de_scanAt en) in
           case applyScanOutcome collate \<lparr>os_connectionId = c, os_models = models, os_diagnostic = d\<rparr> S of
             None \<Rightarrow> (None, S)
           | Some S' \<Rightarrow>
               if removed \<noteq> [] \<and> \<not> de_notified en then (None, S')
               else (Some \<lparr>sr_connectionId = c, sr_scanCorrelationId = corr, sr_outcome = outcome,
                       sr_modelCount = int (length models), sr_diagnostic = d\<rparr>, S')))"

text \<open>A connection that is not active is refused: a result without a stored diagnostic.\<close>

definition refusedScan :: "discovery_env \<Rightarrow> string \<Rightarrow> string \<Rightarrow> scan_result" where
  "refusedScan en c corr =
     \<lparr>sr_connectionId = c, sr_scanCorrelationId = corr, sr_outcome = sc_not_scannable, sr_modelCount = 0,
      sr_diagnostic = createCatalogScanDiagnostic (de_uuid en) c corr sc_not_scannable None (de_scanAt en)\<rparr>"

definition discover :: "(string \<Rightarrow> string \<Rightarrow> int) \<Rightarrow> discovery_env \<Rightarrow> string \<Rightarrow> string \<Rightarrow> catalog_store \<Rightarrow>
    scan_result option \<times> catalog_store" where
  "discover collate en c corr S =
     (if \<not> (isBoundedString c \<and> isBoundedString corr) then (None, S)
      else (case de_connection en of
          None \<Rightarrow> (Some (refusedScan en c corr), S)
        | Some p \<Rightarrow>
            if pv_lifecycleState p \<noteq> lc_active then (Some (refusedScan en c corr), S)
            else (case de_answer en of
                Scan_payload payload \<Rightarrow>
                  (case normalizeDiscoveredCatalog collate (safeConnectionForNormalizer p) payload (de_scanAt en) of
                     Inr ms \<Rightarrow> persistResult collate en (pv_connectionId p) corr sc_success None ms S
                   | Inl _ \<Rightarrow> persistResult collate en (pv_connectionId p) corr sc_normalization_failed None [] S)
              | Scan_failure outcome http \<Rightarrow> persistResult collate en (pv_connectionId p) corr outcome http [] S)))"

section \<open>The fail-closed outcome\<close>

definition failure_diagnostic :: "string \<Rightarrow> string \<Rightarrow> string \<Rightarrow> string \<Rightarrow> string \<Rightarrow> diagnostic" where
  "failure_diagnostic c attempt i t m =
     \<lparr>dg_diagnosticId = i, dg_connectionId = c, dg_scanCorrelationId = attempt, dg_outcome = sc_process_failed,
      dg_safeMessage = m, dg_httpStatusCode = None, dg_occurredAt = t\<rparr>"

definition failure_apply :: "(string \<Rightarrow> string \<Rightarrow> int) \<Rightarrow> bool \<Rightarrow> string \<Rightarrow> string \<Rightarrow> string \<Rightarrow> string \<Rightarrow> string \<Rightarrow> catalog_store \<Rightarrow>
    diagnostic option \<times> catalog_store" where
  "failure_apply collate notified c attempt i t m S =
     (case listModelsForConnection S c of
        None \<Rightarrow> (None, S)
      | Some removed \<Rightarrow>
          (let d = failure_diagnostic c attempt i t m in
           case applyIdempotentFailureOutcome collate \<lparr>os_connectionId = c, os_models = [], os_diagnostic = d\<rparr> S of
             None \<Rightarrow> (None, S)
           | Some S' \<Rightarrow> if removed \<noteq> [] \<and> \<not> notified then (None, S') else (Some d, S')))"

section \<open>The coordinator\<close>

definition COORDINATOR_FAILURE_MESSAGE :: string where
  "COORDINATOR_FAILURE_MESSAGE = ''Catalog scan coordinator failed safely. Retry to scan again.''"

definition isCatalogScanCoordinatorRequest :: "jsv \<Rightarrow> (string \<times> scan_trigger \<times> claim_mode) option" where
  "isCatalogScanCoordinatorRequest v = do {
     chk (isRecord v \<and> length (jkeys v) = 3 \<and> ''connectionId'' \<in> set (jkeys v) \<and> ''trigger'' \<in> set (jkeys v) \<and> ''mode'' \<in> set (jkeys v));
     c \<leftarrow> string_where isBoundedString (jget v ''connectionId'');
     tr \<leftarrow> enum_of triggers (jget v ''trigger'');
     m \<leftarrow> enum_of claimModes (jget v ''mode'');
     chk (m = (if tr = startup_reconciliation then eligible_only else force_settled));
     Some (c, tr, m) }"

definition isScannable :: "provider_connection option \<Rightarrow> bool" where
  "isScannable x \<longleftrightarrow> (case x of None \<Rightarrow> False | Some p \<Rightarrow> pv_lifecycleState p = lc_active)"

definition canonicalTimestamp :: "string \<Rightarrow> string option" where
  "canonicalTimestamp s = do { chk (canonical_iso s); Some s }"

definition latestTimestamp :: "string list \<Rightarrow> string option" where
  "latestTimestamp ts = do { us \<leftarrow> parse_all canonicalTimestamp ts; Some (last (sort_by str_cmp us)) }"

text \<open>The function of the same name in the startup reconciler does not check its arguments.\<close>

definition latest_unchecked :: "string list \<Rightarrow> string option" where
  "latest_unchecked ts = Some (last (sort_by str_cmp ts))"

datatype id_purpose = for_coordinator | for_interrupted | for_legacy_contradiction

fun purpose_name :: "id_purpose \<Rightarrow> string" where
  "purpose_name for_coordinator = ''coordinator''"
| "purpose_name for_interrupted = ''interrupted''"
| "purpose_name for_legacy_contradiction = ''legacy-contradiction''"

definition deterministicDiagnosticId :: "(string \<Rightarrow> string) \<Rightarrow> id_purpose \<Rightarrow> string \<Rightarrow> string \<Rightarrow> string" where
  "deterministicDiagnosticId sha p c attempt =
     ''catalog-'' @ purpose_name p @ ''-'' @ sha (c @ [CHR 0x00] @ attempt)"

definition settleDiscoveryResult :: "ledger_record \<Rightarrow> scan_result \<Rightarrow> string \<Rightarrow> ledger \<Rightarrow> (ledger_record \<times> ledger) option" where
  "settleDiscoveryResult claim res now L = do {
     attempt \<leftarrow> lr_attemptId claim;
     chk (sr_connectionId res = lr_connectionId claim \<and> sr_scanCorrelationId res = attempt
       \<and> dg_connectionId (sr_diagnostic res) = lr_connectionId claim \<and> dg_scanCorrelationId (sr_diagnostic res) = attempt
       \<and> \<not> sr_modelCount res < 0 \<and> isSafeInteger (sr_modelCount res));
     claimed \<leftarrow> lr_claimedAt claim;
     settledAt \<leftarrow> latestTimestamp [claimed, dg_occurredAt (sr_diagnostic res), now];
     settleAttempt
       \<lparr>si_connectionId = lr_connectionId claim, si_reconciliationVersion = lr_reconciliationVersion claim, si_attemptId = attempt,
        si_settledAt = settledAt,
        si_settledOutcome = (if sr_outcome res = sc_success then if 0 < sr_modelCount res then so_available else so_empty else so_failed),
        si_modelCount = sr_modelCount res, si_outcomeCode = Scan_code (sr_outcome res),
        si_safeOutcomeMessage = dg_safeMessage (sr_diagnostic res), si_diagnosticId = dg_diagnosticId (sr_diagnostic res)\<rparr> L }"

record catalog_db =
  db_ledger :: ledger
  db_store :: catalog_store

text \<open>The failure path of an attempt: the snapshot is cleared, then the claim is settled as failed.\<close>

definition settle_failed :: "(string list \<Rightarrow> string option) \<Rightarrow> string \<Rightarrow> int \<Rightarrow> string \<Rightarrow> string \<Rightarrow> outcome_code \<Rightarrow> diagnostic \<Rightarrow> string \<Rightarrow> ledger \<Rightarrow>
    (ledger_record \<times> ledger) option" where
  "settle_failed latest c version attempt claimedAt code d now L = do {
     settledAt \<leftarrow> latest [claimedAt, dg_occurredAt d, now];
     settleAttempt
       \<lparr>si_connectionId = c, si_reconciliationVersion = version, si_attemptId = attempt, si_settledAt = settledAt,
        si_settledOutcome = so_failed, si_modelCount = 0, si_outcomeCode = code, si_safeOutcomeMessage = dg_safeMessage d,
        si_diagnosticId = dg_diagnosticId d\<rparr> L }"

definition fail_closed :: "(string list \<Rightarrow> string option) \<Rightarrow> (string \<Rightarrow> string \<Rightarrow> int) \<Rightarrow> bool \<Rightarrow> string \<Rightarrow> int \<Rightarrow> string \<Rightarrow> string \<Rightarrow> outcome_code \<Rightarrow> string \<Rightarrow> string \<Rightarrow>
    string \<Rightarrow> catalog_db \<Rightarrow> ledger_record option \<times> catalog_db" where
  "fail_closed latest collate notified c version attempt claimedAt code diagnosticId m now db =
     (case failure_apply collate notified c attempt diagnosticId claimedAt m (db_store db) of
        (None, S) \<Rightarrow> (None, db\<lparr>db_store := S\<rparr>)
      | (Some d, S) \<Rightarrow>
          (case settle_failed latest c version attempt claimedAt code d now (db_ledger db) of
             None \<Rightarrow> (None, db\<lparr>db_store := S\<rparr>)
           | Some (r, L) \<Rightarrow> (Some r, \<lparr>db_ledger = L, db_store = S\<rparr>)))"

record scan_env =
  se_connection :: "provider_connection option"
  se_attemptId :: string
  se_claimedAt :: string
  se_discovery :: discovery_env
  se_settledNow :: string
  se_failureNotified :: bool
  se_failedNow :: string

definition claim_scan :: "scan_env \<Rightarrow> string \<Rightarrow> scan_trigger \<Rightarrow> claim_mode \<Rightarrow> ledger \<Rightarrow> (claim_result \<times> ledger) option" where
  "claim_scan en c tr mode L = do {
     chk (isScannable (se_connection en));
     claimedAt \<leftarrow> canonicalTimestamp (se_claimedAt en);
     claimAttempt \<lparr>ci_connectionId = c, ci_reconciliationVersion = TARGET_VERSION, ci_trigger = tr, ci_attemptId = se_attemptId en,
       ci_claimedAt = claimedAt, ci_mode = mode\<rparr> L }"

definition coordinator_fail :: "(string \<Rightarrow> string \<Rightarrow> int) \<Rightarrow> (string \<Rightarrow> string) \<Rightarrow> scan_env \<Rightarrow> string \<Rightarrow> catalog_db \<Rightarrow>
    ledger_record option \<times> catalog_db" where
  "coordinator_fail collate sha en c db =
     fail_closed latestTimestamp collate (se_failureNotified en) c TARGET_VERSION (se_attemptId en) (se_claimedAt en) coordinator_failure
       (deterministicDiagnosticId sha for_coordinator c (se_attemptId en)) COORDINATOR_FAILURE_MESSAGE (se_failedNow en) db"

definition execute :: "(string \<Rightarrow> string \<Rightarrow> int) \<Rightarrow> (string \<Rightarrow> string) \<Rightarrow> scan_env \<Rightarrow> string \<Rightarrow> scan_trigger \<Rightarrow> claim_mode \<Rightarrow> catalog_db \<Rightarrow>
    ledger_record option \<times> catalog_db" where
  "execute collate sha en c tr mode db =
     (case claim_scan en c tr mode (db_ledger db) of
        None \<Rightarrow> (None, db)
      | Some (Already_scanning r, L) \<Rightarrow> (Some r, db)
      | Some (Settled_for_version r, L) \<Rightarrow> (Some r, db)
      | Some (Claimed r, L) \<Rightarrow>
          (case discover collate (se_discovery en) c (se_attemptId en) (db_store db) of
             (None, S) \<Rightarrow> coordinator_fail collate sha en c \<lparr>db_ledger = L, db_store = S\<rparr>
           | (Some res, S) \<Rightarrow>
               (case settleDiscoveryResult r res (se_settledNow en) L of
                  None \<Rightarrow> coordinator_fail collate sha en c \<lparr>db_ledger = L, db_store = S\<rparr>
                | Some (q, L') \<Rightarrow> (Some q, \<lparr>db_ledger = L', db_store = S\<rparr>))))"

section \<open>Startup\<close>

definition INTERRUPTED_SCAN_MESSAGE :: string where
  "INTERRUPTED_SCAN_MESSAGE = ''Previous catalog scan was interrupted and was settled safely. Retry to scan again.''"

definition LEGACY_ROWS_ADOPTED_MESSAGE :: string where
  "LEGACY_ROWS_ADOPTED_MESSAGE = ''Existing model catalog evidence was adopted.''"

definition LEGACY_CONTRADICTION_MESSAGE :: string where
  "LEGACY_CONTRADICTION_MESSAGE = ''Contradictory legacy catalog evidence was settled safely. Retry to scan again.''"

text \<open>What the world answers during startup, by connection.\<close>

record startup_env =
  ue_now :: "string \<Rightarrow> string"
  ue_notified :: "string \<Rightarrow> bool"
  ue_scan :: "string \<Rightarrow> scan_env"

definition settleInterrupted :: "(string \<Rightarrow> string \<Rightarrow> int) \<Rightarrow> (string \<Rightarrow> string) \<Rightarrow> bool \<Rightarrow> string \<Rightarrow> ledger_record \<Rightarrow> catalog_db \<Rightarrow>
    unit option \<times> catalog_db" where
  "settleInterrupted collate sha notified now r db =
     (case (lr_scanState r, lr_attemptId r, lr_claimedAt r) of
        (scanning, Some attempt, Some claimed) \<Rightarrow>
          (case fail_closed latest_unchecked collate notified (lr_connectionId r) (lr_reconciliationVersion r) attempt claimed interrupted_scan
              (deterministicDiagnosticId sha for_interrupted (lr_connectionId r) attempt) INTERRUPTED_SCAN_MESSAGE now db of
             (None, db') \<Rightarrow> (None, db')
           | (Some _, db') \<Rightarrow> (Some (), db'))
      | _ \<Rightarrow> (Some (), db))"

fun settle_all_interrupted :: "(string \<Rightarrow> string \<Rightarrow> int) \<Rightarrow> (string \<Rightarrow> string) \<Rightarrow> startup_env \<Rightarrow> ledger_record list \<Rightarrow> catalog_db \<Rightarrow>
    unit option \<times> catalog_db" where
  "settle_all_interrupted collate sha u [] db = (Some (), db)"
| "settle_all_interrupted collate sha u (r # rs) db =
     (case settleInterrupted collate sha (ue_notified u (lr_connectionId r)) (ue_now u (lr_connectionId r)) r db of
        (None, db') \<Rightarrow> (None, db')
      | (Some _, db') \<Rightarrow> settle_all_interrupted collate sha u rs db')"

definition legacyAttemptId :: "(string \<Rightarrow> string) \<Rightarrow> string \<Rightarrow> diagnostic \<Rightarrow> string" where
  "legacyAttemptId sha c d =
     ''legacy-contradiction-'' @ sha (c @ [CHR 0x00] @ dg_diagnosticId d @ [CHR 0x00] @ dg_occurredAt d)"

definition rowOnlyLegacyAttemptId :: "(string \<Rightarrow> string) \<Rightarrow> string \<Rightarrow> string \<Rightarrow> string" where
  "rowOnlyLegacyAttemptId sha c t = ''legacy-catalog-adoption-'' @ sha (c @ [CHR 0x00] @ t)"

definition adopt_diagnostic :: "string \<Rightarrow> settled_outcome \<Rightarrow> int \<Rightarrow> string \<Rightarrow> diagnostic \<Rightarrow> ledger \<Rightarrow> (ledger_record \<times> ledger) option" where
  "adopt_diagnostic c out n m d L =
     adoptLegacyEvidence \<lparr>ad_connectionId = c, ad_reconciliationVersion = TARGET_VERSION, ad_attemptId = dg_scanCorrelationId d,
       ad_claimedAt = dg_occurredAt d, ad_settledAt = dg_occurredAt d, ad_settledOutcome = out, ad_modelCount = n,
       ad_safeOutcomeMessage = m, ad_diagnosticId = Some (dg_diagnosticId d)\<rparr> L"

definition with_ledger :: "catalog_db \<Rightarrow> (ledger_record \<times> ledger) option \<Rightarrow> ledger_record option \<times> catalog_db" where
  "with_ledger db x = (case x of None \<Rightarrow> (None, db) | Some (r, L) \<Rightarrow> (Some r, db\<lparr>db_ledger := L\<rparr>))"

definition adopt_legacy :: "(string \<Rightarrow> string \<Rightarrow> int) \<Rightarrow> (string \<Rightarrow> string) \<Rightarrow> bool \<Rightarrow> string \<Rightarrow> ledger_record \<Rightarrow> catalog_db \<Rightarrow>
    ledger_record option \<times> catalog_db" where
  "adopt_legacy collate sha notified c initialized db =
     (case (listModelsForConnection (db_store db) c, listDiagnostics (db_store db) c 1) of
        (Some models, Some ds) \<Rightarrow>
          (case ds of
             [] \<Rightarrow>
               if models = [] then (Some initialized, db)
               else (let t = last (sort_by str_cmp (map cm_lastSuccessfulScanAt models)) in
                 with_ledger db (adoptLegacyEvidence
                   \<lparr>ad_connectionId = c, ad_reconciliationVersion = TARGET_VERSION, ad_attemptId = rowOnlyLegacyAttemptId sha c t,
                    ad_claimedAt = t, ad_settledAt = t, ad_settledOutcome = so_available, ad_modelCount = int (length models),
                    ad_safeOutcomeMessage = LEGACY_ROWS_ADOPTED_MESSAGE, ad_diagnosticId = None\<rparr> (db_ledger db)))
           | d # _ \<Rightarrow>
               if models \<noteq> [] \<and> dg_outcome d \<noteq> sc_success then
                 (let attempt = legacyAttemptId sha c d in
                  case failure_apply collate notified c attempt (deterministicDiagnosticId sha for_legacy_contradiction c attempt)
                      (dg_occurredAt d) LEGACY_CONTRADICTION_MESSAGE (db_store db) of
                    (None, S) \<Rightarrow> (None, db\<lparr>db_store := S\<rparr>)
                  | (Some f, S) \<Rightarrow>
                      with_ledger (db\<lparr>db_store := S\<rparr>) (adopt_diagnostic c so_failed 0 (dg_safeMessage f) f (db_ledger db)))
               else (let out = (if dg_outcome d = sc_success then if models \<noteq> [] then so_available else so_empty else so_failed) in
                 with_ledger db (adopt_diagnostic c out (if out = so_available then int (length models) else 0) (dg_safeMessage d) d
                   (db_ledger db))))
      | _ \<Rightarrow> (None, db))"

definition isStartupEligible :: "ledger_record \<Rightarrow> bool" where
  "isStartupEligible r \<longleftrightarrow>
     (if TARGET_VERSION < lr_reconciliationVersion r then False
      else if lr_reconciliationVersion r < TARGET_VERSION then lr_scanState r \<noteq> scanning
      else lr_scanState r = never_scanned)"

text \<open>One connection: read or initialise, adopt what the catalog already shows, scan once when eligible. A failed scan is swallowed.\<close>

definition reconcile_connection :: "(string \<Rightarrow> string \<Rightarrow> int) \<Rightarrow> (string \<Rightarrow> string) \<Rightarrow> startup_env \<Rightarrow> provider_connection \<Rightarrow> catalog_db \<Rightarrow>
    unit option \<times> catalog_db" where
  "reconcile_connection collate sha u p db =
     (let c = pv_connectionId p in
      case read_ledger (db_ledger db) c of
        None \<Rightarrow> (None, db)
      | Some found \<Rightarrow>
          (case (case found of
                Some r \<Rightarrow> (Some r, db)
              | None \<Rightarrow> with_ledger db (initializeNeverScanned \<lparr>ii_connectionId = c, ii_reconciliationVersion = TARGET_VERSION\<rparr>
                  (db_ledger db))) of
             (None, db1) \<Rightarrow> (None, db1)
           | (Some r1, db1) \<Rightarrow>
               (case (if lr_reconciliationVersion r1 = TARGET_VERSION \<and> lr_scanState r1 = never_scanned
                   then adopt_legacy collate sha (ue_notified u c) c r1 db1 else (Some r1, db1)) of
                  (None, db2) \<Rightarrow> (None, db2)
                | (Some r2, db2) \<Rightarrow>
                    if isStartupEligible r2 \<and> isScannable (Some p)
                    then (Some (), snd (execute collate sha (ue_scan u c) c startup_reconciliation eligible_only db2))
                    else (Some (), db2))))"

fun reconcile_connections :: "(string \<Rightarrow> string \<Rightarrow> int) \<Rightarrow> (string \<Rightarrow> string) \<Rightarrow> startup_env \<Rightarrow> provider_connection list \<Rightarrow> catalog_db \<Rightarrow>
    unit option \<times> catalog_db" where
  "reconcile_connections collate sha u [] db = (Some (), db)"
| "reconcile_connections collate sha u (p # ps) db =
     (case reconcile_connection collate sha u p db of
        (None, db') \<Rightarrow> (None, db')
      | (Some _, db') \<Rightarrow> reconcile_connections collate sha u ps db')"

definition compareConnections :: "provider_connection \<Rightarrow> provider_connection \<Rightarrow> int" where
  "compareConnections l r = str_cmp (pv_connectionId l) (pv_connectionId r)"

definition reconcileAtStartup :: "(string \<Rightarrow> string \<Rightarrow> int) \<Rightarrow> (string \<Rightarrow> string) \<Rightarrow> startup_env \<Rightarrow> provider_connection list \<Rightarrow> catalog_db \<Rightarrow>
    ledger_record list option \<times> catalog_db" where
  "reconcileAtStartup collate sha u ps db =
     (case listInterruptedClaims (db_ledger db) of
        None \<Rightarrow> (None, db)
      | Some rs \<Rightarrow>
          (case settle_all_interrupted collate sha u rs db of
             (None, db1) \<Rightarrow> (None, db1)
           | (Some _, db1) \<Rightarrow>
               (case reconcile_connections collate sha u (sort_by compareConnections ps) db1 of
                  (None, db2) \<Rightarrow> (None, db2)
                | (Some _, db2) \<Rightarrow> (list_ledger (db_ledger db2), db2))))"

section \<open>The public states\<close>

record model_count =
  mk_connectionId :: string
  mk_modelCount :: int

record projection_input =
  pj_connections :: "provider_connection list"
  pj_reconciliationRecords :: "ledger_record list"
  pj_modelCounts :: "model_count list"
  pj_settledDiagnostics :: "diagnostic list"

definition isProjectionInput :: "projection_input \<Rightarrow> bool" where
  "isProjectionInput i \<longleftrightarrow>
     list_all (\<lambda>p. isBoundedString (pv_connectionId p) \<and> isBoundedString (pv_label p)) (pj_connections i)
     \<and> list_all record_ok (pj_reconciliationRecords i)
     \<and> list_all (\<lambda>k. isBoundedString (mk_connectionId k) \<and> isSafeInteger (mk_modelCount k) \<and> 0 \<le> mk_modelCount k) (pj_modelCounts i)
     \<and> list_all diagnostic_ok (pj_settledDiagnostics i)"

text \<open>The maps the projector builds: unique keys, of known connections, a count for each connection, and diagnostics the ledger names.\<close>

definition facts_linked :: "projection_input \<Rightarrow> bool" where
  "facts_linked i \<longleftrightarrow>
     (let ids = map pv_connectionId (pj_connections i); records = map (\<lambda>r. (lr_connectionId r, r)) (pj_reconciliationRecords i);
          counts = map mk_connectionId (pj_modelCounts i); ds = pj_settledDiagnostics i in
      distinct ids
      \<and> distinct (map fst records) \<and> list_all (\<lambda>r. fst r \<in> set ids) records
      \<and> distinct counts \<and> list_all (\<lambda>c. c \<in> set ids) counts
      \<and> distinct (map dg_diagnosticId ds) \<and> distinct (map dg_connectionId ds) \<and> list_all (\<lambda>d. dg_connectionId d \<in> set ids) ds
      \<and> length counts = length ids \<and> list_all (\<lambda>c. c \<in> set counts) ids
      \<and> list_all (\<lambda>d. case map_of records (dg_connectionId d) of
           None \<Rightarrow> False | Some r \<Rightarrow> lr_diagnosticId r = Some (dg_diagnosticId d)) ds)"

definition diagnosticOutcomeMatches :: "ledger_record \<Rightarrow> outcome_code \<Rightarrow> diagnostic \<Rightarrow> bool" where
  "diagnosticOutcomeMatches r code d \<longleftrightarrow>
     (case code of
        legacy_evidence_adopted \<Rightarrow> if lr_scanState r = sa_failed then dg_outcome d \<noteq> sc_success else dg_outcome d = sc_success
      | interrupted_scan \<Rightarrow> lr_scanState r = sa_failed \<and> dg_outcome d = sc_process_failed
      | coordinator_failure \<Rightarrow> lr_scanState r = sa_failed \<and> dg_outcome d = sc_process_failed
      | Scan_code s \<Rightarrow> dg_outcome d = s)"

definition diagnostic_consistent :: "ledger_record \<Rightarrow> diagnostic \<Rightarrow> bool" where
  "diagnostic_consistent r d \<longleftrightarrow>
     (case (lr_attemptId r, lr_claimedAt r, lr_settledAt r, lr_outcomeCode r) of
        (Some attempt, Some claimed, Some settled, Some code) \<Rightarrow>
          dg_connectionId d = lr_connectionId r \<and> dg_scanCorrelationId d = attempt
          \<and> Some (dg_safeMessage d) = lr_safeOutcomeMessage r
          \<and> (if code = legacy_evidence_adopted then dg_occurredAt d = claimed \<and> dg_occurredAt d = settled
             else \<not> date_parse (dg_occurredAt d) < date_parse claimed \<and> \<not> date_parse settled < date_parse (dg_occurredAt d))
          \<and> diagnosticOutcomeMatches r code d
      | _ \<Rightarrow> False)"

definition validateConsistentFacts :: "ledger_record \<Rightarrow> int \<Rightarrow> diagnostic option \<Rightarrow> bool" where
  "validateConsistentFacts r n d \<longleftrightarrow>
     (case lr_scanState r of
        never_scanned \<Rightarrow> n = 0 \<and> d = None
      | scanning \<Rightarrow> d = None
      | st \<Rightarrow>
          (if st = sa_available then lr_modelCount r = Some n \<and> 0 < n else n = 0 \<and> lr_modelCount r = Some 0)
          \<and> (case d of
               None \<Rightarrow> st = sa_available \<and> lr_outcomeCode r = Some legacy_evidence_adopted
             | Some x \<Rightarrow> diagnostic_consistent r x))"

definition projectConnection ::
  "provider_connection \<Rightarrow> ledger_record option \<Rightarrow> int \<Rightarrow> (string \<rightharpoonup> diagnostic) \<Rightarrow> connection_state option" where
  "projectConnection p found n byId = do {
     let r = (case found of None \<Rightarrow> never_scanned_row (pv_connectionId p) TARGET_VERSION | Some r \<Rightarrow> r);
     d \<leftarrow> (case lr_diagnosticId r of None \<Rightarrow> Some None | Some i \<Rightarrow> map_option Some (byId i));
     chk (validateConsistentFacts r n d);
     let s = \<lparr>as_connectionId = pv_connectionId p, as_label = pv_label p, as_providerKind = pv_kind p, as_scanState = lr_scanState r,
       as_trigger = lr_trigger r, as_attemptId = lr_attemptId r, as_modelCount = lr_modelCount r, as_claimedAt = lr_claimedAt r,
       as_settledAt = lr_settledAt r, as_outcomeCode = lr_outcomeCode r, as_safeMessage = lr_safeOutcomeMessage r,
       as_diagnosticId = lr_diagnosticId r, as_diagnosticOccurredAt = map_option dg_occurredAt d,
       as_guidanceCode = guidanceByState (lr_scanState r)\<rparr>;
     chk (connection_state_ok s);
     Some s }"

definition project :: "projection_input \<Rightarrow> connection_state list option" where
  "project i = do {
     chk (isProjectionInput i \<and> facts_linked i);
     parse_all
       (\<lambda>p. do {
          n \<leftarrow> map_of (map (\<lambda>k. (mk_connectionId k, mk_modelCount k)) (pj_modelCounts i)) (pv_connectionId p);
          projectConnection p (map_of (map (\<lambda>r. (lr_connectionId r, r)) (pj_reconciliationRecords i)) (pv_connectionId p)) n
            (map_of (map (\<lambda>d. (dg_diagnosticId d, d)) (pj_settledDiagnostics i))) })
       (filter (\<lambda>p. pv_lifecycleState p = lc_active) (sort_by compareConnections (pj_connections i))) }"

definition model_counts :: "provider_connection list \<Rightarrow> catalog_model list \<Rightarrow> model_count list" where
  "model_counts ps ms =
     map (\<lambda>p. \<lparr>mk_connectionId = pv_connectionId p,
        mk_modelCount = int (length (filter (\<lambda>m. cm_connectionId m = pv_connectionId p) ms))\<rparr>) ps"

text \<open>The diagnostic each settled row names, among the last ones of its connection.\<close>

fun settled_diagnostics :: "catalog_store \<Rightarrow> ledger_record list \<Rightarrow> diagnostic list option" where
  "settled_diagnostics S [] = Some []"
| "settled_diagnostics S (r # rs) =
     (case lr_diagnosticId r of
        None \<Rightarrow> settled_diagnostics S rs
      | Some i \<Rightarrow> do {
          ds \<leftarrow> listDiagnostics S (lr_connectionId r) (int RETENTION_LIMIT);
          d \<leftarrow> List.find (\<lambda>d. dg_diagnosticId d = i) ds;
          rest \<leftarrow> settled_diagnostics S rs;
          Some (d # rest) })"

definition listActiveConnectionStates :: "provider_connection list \<Rightarrow> catalog_db \<Rightarrow> connection_state list option" where
  "listActiveConnectionStates ps db = do {
     ms \<leftarrow> listModels (db_store db);
     stored \<leftarrow> list_ledger (db_ledger db);
     let records = filter (\<lambda>r. lr_connectionId r \<in> pv_connectionId ` set ps) stored;
     ds \<leftarrow> settled_diagnostics (db_store db) records;
     project \<lparr>pj_connections = ps, pj_reconciliationRecords = records, pj_modelCounts = model_counts ps ms,
       pj_settledDiagnostics = ds\<rparr> }"

end
