(* ===== verification/RoutingMatrix.thy ===== *)
theory RoutingMatrix
  imports RoutingStore CatalogScans
begin

text \<open>
  The routing matrix: the read model of the editor with its guards (\<open>agent-routing-matrix.ts\<close>), the facts of the catalog it is
  joined with (\<open>routing-catalog-facts.ts\<close>, \<open>routing-matrix-catalog-facts.ts\<close>), the projector
  (\<open>routing-matrix-projector.ts\<close>) and the service that reads, previews and saves rows (\<open>routing-policy-service.ts\<close>). Comparison by
  locale is the parameter \<open>collate\<close>, SHA-256 the parameter \<open>sha\<close>. A throw is \<open>None\<close>; a guard on data that is built here is a
  condition on the record, since its keys and types hold by construction.
\<close>

section \<open>Contract\<close>

datatype reason_code =
    connection_inactive | route_unavailable | context_window_unknown | context_window_too_small | tools_unknown | tools_required
  | api_unknown | api_required | reasoning_unknown | reasoning_required | same_as_primary | fallback_cycle

fun reasonMessages :: "reason_code \<Rightarrow> string" where
  "reasonMessages connection_inactive = ''The provider connection is inactive.''"
| "reasonMessages route_unavailable = ''The connection/model route is unavailable.''"
| "reasonMessages context_window_unknown = ''The model context window is unknown.''"
| "reasonMessages context_window_too_small = ''The model context window is too small.''"
| "reasonMessages tools_unknown = ''Tool support is unknown.''"
| "reasonMessages tools_required = ''Tool support is required.''"
| "reasonMessages api_unknown = ''API support is unknown.''"
| "reasonMessages api_required = ''API support is required.''"
| "reasonMessages reasoning_unknown = ''Reasoning support is unknown.''"
| "reasonMessages reasoning_required = ''Reasoning support is required.''"
| "reasonMessages same_as_primary = ''The fallback route must differ from the primary route.''"
| "reasonMessages fallback_cycle = ''The fallback route would create a cycle.''"

definition reasonOrder :: "reason_code list" where
  "reasonOrder = [connection_inactive, route_unavailable, context_window_unknown, context_window_too_small, tools_unknown, tools_required,
     api_unknown, api_required, reasoning_unknown, reasoning_required, same_as_primary, fallback_cycle]"

record matrix_reason =
  xn_code :: reason_code
  xn_message :: string

datatype availability = Available | Unavailable

record matrix_route =
  mt_route :: route_identity
  mt_connectionLabel :: string
  mt_modelDisplayLabel :: "string option"
  mt_availability :: availability
  mt_eligible :: bool
  mt_reasons :: "matrix_reason list"

datatype configured = Configured_inherit | Configured_route route_identity

record matrix_eligibility =
  el_eligible :: bool
  el_reasons :: "matrix_reason list"

text \<open>The three kinds of row differ in what a row of an action has besides.\<close>

datatype row_kind = Row_of_global | Row_of_type | Row_of_action role_id string

record matrix_row =
  mw_kind :: row_kind
  mw_scope :: selector_scope
  mw_scopeKey :: string
  mw_label :: string
  mw_displayOrder :: int
  mw_configured :: configured
  mw_configuredFailurePolicy :: "failure_policy option"
  mw_effectiveRoute :: matrix_route
  mw_effectiveFailurePolicy :: failure_policy
  mw_policySource :: policy_source
  mw_requirements :: capability_requirements
  mw_eligibility :: matrix_eligibility
  mw_routeChoices :: "matrix_route list"

record matrix_group =
  mg_actionType :: action_type
  mg_label :: string
  mg_displayOrder :: int
  mg_typeDefault :: matrix_row
  mg_actions :: "matrix_row list"

record matrix_connection =
  mc_connectionId :: string
  mc_label :: string
  mc_providerKind :: provider_kind
  mc_scanState :: scan_state
  mc_guidanceCode :: guidance_code
  mc_claimedAt :: "string option"
  mc_settledAt :: "string option"
  mc_diagnosticOccurredAt :: "string option"
  mc_safeMessage :: "string option"

record matrix_attention =
  mn_attentionId :: string
  mn_attentionRevisionId :: string
  mn_affectedRoute :: route_identity
  mn_reasonCode :: string
  mn_occurredAt :: string
  mn_acknowledgedAt :: "string option"

datatype matrix_state = Ready | Empty_choices | Global_unavailable

record matrix_snapshot =
  ms_policy :: policy_identity
  ms_state :: matrix_state
  ms_global :: matrix_row
  ms_groups :: "matrix_group list"
  ms_connectionStates :: "matrix_connection list"
  ms_attention :: "matrix_attention list"

record matrix_preview =
  mp_expectedRevision :: expected_revision
  mp_revisionGuard :: string
  mp_scope :: selector_scope
  mp_scopeKey :: string
  mp_projectedRow :: matrix_row
  mp_allowedFallbackRoutes :: "matrix_route list"

section \<open>Guards of the contract\<close>

definition routingMatrixReason :: "reason_code \<Rightarrow> matrix_reason" where
  "routingMatrixReason c = \<lparr>xn_code = c, xn_message = reasonMessages c\<rparr>"

definition isRoutingMatrixReasonV1 :: "matrix_reason \<Rightarrow> bool" where
  "isRoutingMatrixReasonV1 r \<longleftrightarrow> xn_message r = reasonMessages (xn_code r)"

fun strictlyIncreasing :: "int list \<Rightarrow> bool" where
  "strictlyIncreasing (m # n # ns) \<longleftrightarrow> m < n \<and> strictlyIncreasing (n # ns)"
| "strictlyIncreasing _ \<longleftrightarrow> True"

definition reason_index :: "reason_code \<Rightarrow> int" where
  "reason_index c = int (length (takeWhile (\<lambda>d. d \<noteq> c) reasonOrder))"

definition reasonList :: "matrix_reason list \<Rightarrow> bool" where
  "reasonList rs \<longleftrightarrow> list_all isRoutingMatrixReasonV1 rs \<and> distinct (map xn_code rs)
     \<and> strictlyIncreasing (map (\<lambda>r. reason_index (xn_code r)) rs)"

definition isAvailabilityRefusal :: "reason_code \<Rightarrow> bool" where
  "isAvailabilityRefusal c \<longleftrightarrow> c = connection_inactive \<or> c = route_unavailable"

definition isRoutingMatrixRouteV1 :: "matrix_route \<Rightarrow> bool" where
  "isRoutingMatrixRouteV1 t \<longleftrightarrow>
     route_ok (mt_route t) \<and> bounded_text 10000 (mt_connectionLabel t) \<and> opt_bounded 10000 (mt_modelDisplayLabel t) \<and> reasonList (mt_reasons t)
     \<and> (let refused = list_ex (\<lambda>r. isAvailabilityRefusal (xn_code r)) (mt_reasons t) in
        if mt_availability t = Unavailable then \<not> mt_eligible t \<and> mt_reasons t \<noteq> [] \<and> refused
        else if mt_eligible t then mt_reasons t = []
        else mt_reasons t \<noteq> [] \<and> \<not> refused)"

definition isRoutingMatrixEligibilityV1 :: "matrix_eligibility \<Rightarrow> bool" where
  "isRoutingMatrixEligibilityV1 x \<longleftrightarrow> reasonList (el_reasons x) \<and> el_eligible x = (el_reasons x = [])"

definition failure_ok :: "failure_policy \<Rightarrow> bool" where
  "failure_ok f \<longleftrightarrow> (case f of Reroute_route_once q \<Rightarrow> route_ok q | _ \<Rightarrow> True)"

definition configured_ok :: "configured \<Rightarrow> bool" where
  "configured_ok c \<longleftrightarrow> (case c of Configured_inherit \<Rightarrow> True | Configured_route r \<Rightarrow> route_ok r)"

definition kind_of_scope :: "row_kind \<Rightarrow> selector_scope \<Rightarrow> bool" where
  "kind_of_scope k sc \<longleftrightarrow>
     (case k of
        Row_of_global \<Rightarrow> sc = Scope_global
      | Row_of_type \<Rightarrow> (case sc of Scope_action_type t \<Rightarrow> True | _ \<Rightarrow> False)
      | Row_of_action r p \<Rightarrow> (case sc of Scope_action i \<Rightarrow> True | _ \<Rightarrow> False))"

definition isRowBase :: "matrix_row \<Rightarrow> bool" where
  "isRowBase w \<longleftrightarrow>
     scope_ok (mw_scope w) \<and> kind_of_scope (mw_kind w) (mw_scope w) \<and> mw_scopeKey w = selectorScopeKey (mw_scope w)
     \<and> bounded_text 256 (mw_label w) \<and> 0 \<le> mw_displayOrder w \<and> mw_displayOrder w \<le> 2 ^ 53 - 1 \<and> configured_ok (mw_configured w)
     \<and> null_or failure_ok (mw_configuredFailurePolicy w) \<and> isRoutingMatrixRouteV1 (mw_effectiveRoute w)
     \<and> failure_ok (mw_effectiveFailurePolicy w) \<and> requirements_ok (mw_requirements w) \<and> isRoutingMatrixEligibilityV1 (mw_eligibility w)
     \<and> list_all isRoutingMatrixRouteV1 (mw_routeChoices w) \<and> distinct (map (\<lambda>t. routeIdentityKey (mt_route t)) (mw_routeChoices w))
     \<and> (mw_configured w = Configured_inherit) = (mw_configuredFailurePolicy w = None)
     \<and> el_eligible (mw_eligibility w) = mt_eligible (mw_effectiveRoute w) \<and> el_reasons (mw_eligibility w) = mt_reasons (mw_effectiveRoute w)"

text \<open>The configured route and failure policy, where there are any, are the effective ones.\<close>

definition explicitRowMatchesConfigured :: "matrix_row \<Rightarrow> bool" where
  "explicitRowMatchesConfigured w \<longleftrightarrow>
     mw_configured w = Configured_route (mt_route (mw_effectiveRoute w))
     \<and> mw_configuredFailurePolicy w = Some (mw_effectiveFailurePolicy w)"

definition isRoutingMatrixGlobalRowV1 :: "matrix_row \<Rightarrow> bool" where
  "isRoutingMatrixGlobalRowV1 w \<longleftrightarrow>
     isRowBase w \<and> mw_kind w = Row_of_global \<and> mw_scopeKey w = ''global'' \<and> mw_label w = ''Global Default'' \<and> mw_displayOrder w = 0
     \<and> mw_configured w \<noteq> Configured_inherit \<and> mw_configuredFailurePolicy w = Some Fail_immediately
     \<and> mw_effectiveFailurePolicy w = Fail_immediately \<and> mw_policySource w = From_global \<and> explicitRowMatchesConfigured w"

definition isRoutingMatrixActionTypeRowV1 :: "matrix_row \<Rightarrow> bool" where
  "isRoutingMatrixActionTypeRowV1 w \<longleftrightarrow>
     isRowBase w \<and> mw_kind w = Row_of_type \<and> 0 < mw_displayOrder w
     \<and> (if mw_configured w \<noteq> Configured_inherit then mw_policySource w = From_action_type \<and> explicitRowMatchesConfigured w
        else mw_policySource w = From_global \<and> mw_effectiveFailurePolicy w = Fail_immediately)"

definition isRoutingMatrixActionRowV1 :: "matrix_row \<Rightarrow> bool" where
  "isRoutingMatrixActionRowV1 w \<longleftrightarrow>
     isRowBase w \<and> 0 < mw_displayOrder w
     \<and> (case mw_kind w of Row_of_action r p \<Rightarrow> bounded_text 256 p | _ \<Rightarrow> False)
     \<and> (if mw_configured w \<noteq> Configured_inherit then mw_policySource w = From_action \<and> explicitRowMatchesConfigured w
        else mw_policySource w = From_action_type
          \<or> mw_policySource w = From_global \<and> mw_effectiveFailurePolicy w = Fail_immediately)"

definition isRoutingMatrixRowV1 :: "matrix_row \<Rightarrow> bool" where
  "isRoutingMatrixRowV1 w \<longleftrightarrow> isRoutingMatrixGlobalRowV1 w \<or> isRoutingMatrixActionTypeRowV1 w \<or> isRoutingMatrixActionRowV1 w"

definition isRoutingMatrixActionTypeGroupV1 :: "matrix_group \<Rightarrow> bool" where
  "isRoutingMatrixActionTypeGroupV1 g \<longleftrightarrow>
     bounded_text 256 (mg_label g) \<and> 0 < mg_displayOrder g \<and> mg_displayOrder g \<le> 2 ^ 53 - 1
     \<and> isRoutingMatrixActionTypeRowV1 (mg_typeDefault g) \<and> mw_scope (mg_typeDefault g) = Scope_action_type (mg_actionType g)
     \<and> mw_label (mg_typeDefault g) = mg_label g \<and> mw_displayOrder (mg_typeDefault g) = mg_displayOrder g
     \<and> mg_actions g \<noteq> [] \<and> list_all isRoutingMatrixActionRowV1 (mg_actions g)
     \<and> strictlyIncreasing (map mw_displayOrder (mg_actions g)) \<and> distinct (map mw_scopeKey (mg_actions g))"

definition isRoutingMatrixPolicyIdentityV1 :: "policy_identity \<Rightarrow> bool" where
  "isRoutingMatrixPolicyIdentityV1 i \<longleftrightarrow>
     bounded_text 256 (pi_revisionId i) \<and> 0 < pi_revisionNumber i \<and> pi_revisionNumber i \<le> 2 ^ 53 - 1
     \<and> bounded_text 256 (pi_registryVersion i) \<and> bounded_text 512 (pi_revisionGuard i)"

fun scanGuidance :: "scan_state \<Rightarrow> guidance_code" where
  "scanGuidance never_scanned = scan_not_started"
| "scanGuidance scanning = scan_in_progress"
| "scanGuidance sa_available = models_available"
| "scanGuidance sa_empty = no_models_returned"
| "scanGuidance sa_failed = scan_failed"

definition isRoutingMatrixConnectionStateV1 :: "matrix_connection \<Rightarrow> bool" where
  "isRoutingMatrixConnectionStateV1 c \<longleftrightarrow>
     bounded_text 10000 (mc_connectionId c) \<and> bounded_text 10000 (mc_label c) \<and> mc_guidanceCode c = scanGuidance (mc_scanState c)
     \<and> null_or canonical_iso (mc_claimedAt c) \<and> null_or canonical_iso (mc_settledAt c) \<and> null_or canonical_iso (mc_diagnosticOccurredAt c)
     \<and> opt_bounded 10000 (mc_safeMessage c)
     \<and> (if mc_scanState c = never_scanned then
          mc_claimedAt c = None \<and> mc_settledAt c = None \<and> mc_diagnosticOccurredAt c = None \<and> mc_safeMessage c = None
        else (case mc_claimedAt c of
            None \<Rightarrow> False
          | Some claimed \<Rightarrow>
              if mc_scanState c = scanning then mc_settledAt c = None \<and> mc_safeMessage c = None
              else (case mc_settledAt c of
                  None \<Rightarrow> False
                | Some settled \<Rightarrow> mc_safeMessage c \<noteq> None \<and> date_parse claimed \<le> date_parse settled)))"

definition isRoutingMatrixAttentionV1 :: "matrix_attention \<Rightarrow> bool" where
  "isRoutingMatrixAttentionV1 a \<longleftrightarrow>
     bounded_text 512 (mn_attentionId a) \<and> bounded_text 256 (mn_attentionRevisionId a) \<and> route_ok (mn_affectedRoute a)
     \<and> bounded_text 256 (mn_reasonCode a) \<and> canonical_iso (mn_occurredAt a)
     \<and> (case mn_acknowledgedAt a of
          None \<Rightarrow> True
        | Some t \<Rightarrow> canonical_iso t \<and> date_parse (mn_occurredAt a) \<le> date_parse t)"

definition matrix_rows :: "matrix_row \<Rightarrow> matrix_group list \<Rightarrow> matrix_row list" where
  "matrix_rows global groups = global # concat (map (\<lambda>g. mg_typeDefault g # mg_actions g) groups)"

definition expectedState :: "matrix_row \<Rightarrow> matrix_group list \<Rightarrow> matrix_state" where
  "expectedState global groups =
     (if mt_availability (mw_effectiveRoute global) = Unavailable then Global_unavailable
      else if list_all (\<lambda>w. list_all (\<lambda>t. \<not> mt_eligible t) (mw_routeChoices w)) (matrix_rows global groups) then Empty_choices
      else Ready)"

definition isRoutingMatrixSnapshotV1 :: "matrix_snapshot \<Rightarrow> bool" where
  "isRoutingMatrixSnapshotV1 s \<longleftrightarrow>
     isRoutingMatrixPolicyIdentityV1 (ms_policy s) \<and> isRoutingMatrixGlobalRowV1 (ms_global s)
     \<and> ms_groups s \<noteq> [] \<and> list_all isRoutingMatrixActionTypeGroupV1 (ms_groups s)
     \<and> list_all isRoutingMatrixConnectionStateV1 (ms_connectionStates s) \<and> list_all isRoutingMatrixAttentionV1 (ms_attention s)
     \<and> strictlyIncreasing (map mg_displayOrder (ms_groups s)) \<and> distinct (map mg_actionType (ms_groups s))
     \<and> distinct (concat (map (\<lambda>g. map mw_scopeKey (mg_actions g)) (ms_groups s)))
     \<and> distinct (map mc_connectionId (ms_connectionStates s)) \<and> distinct (map mn_attentionId (ms_attention s))
     \<and> ms_state s = expectedState (ms_global s) (ms_groups s)"

definition isRoutingMatrixPreviewV1 :: "matrix_preview \<Rightarrow> bool" where
  "isRoutingMatrixPreviewV1 p \<longleftrightarrow>
     expected_ok (mp_expectedRevision p) \<and> bounded_text 512 (mp_revisionGuard p) \<and> scope_ok (mp_scope p)
     \<and> mp_scopeKey p = selectorScopeKey (mp_scope p) \<and> isRoutingMatrixRowV1 (mp_projectedRow p)
     \<and> mw_scopeKey (mp_projectedRow p) = mp_scopeKey p \<and> list_all isRoutingMatrixRouteV1 (mp_allowedFallbackRoutes p)
     \<and> distinct (map (\<lambda>t. routeIdentityKey (mt_route t)) (mp_allowedFallbackRoutes p))
     \<and> list_all
          (\<lambda>t. let same = list_ex (\<lambda>r. xn_code r = same_as_primary) (mt_reasons t) in
             (case mw_configured (mp_projectedRow p) of
                Configured_inherit \<Rightarrow> \<not> same
              | Configured_route r \<Rightarrow> if r = mt_route t then \<not> mt_eligible t \<and> same else \<not> same))
          (mp_allowedFallbackRoutes p)"

section \<open>The facts of the catalog\<close>

text \<open>The whole record of a connection; the catalog reads the first four of its fields.\<close>

datatype known_provider = Openai | Deepseek | Openai_codex

datatype provider_identifier = Known_provider known_provider | Custom_provider string | Pi_session_provider

record connection_record = provider_connection +
  pv_provider :: provider_identifier
  pv_endpointUrl :: string
  pv_endpointLocal :: bool
  pv_secretRef :: "string option"
  pv_secretVersion :: "int option"
  pv_createdAt :: string
  pv_updatedAt :: string

fun identifier_kind :: "provider_identifier \<Rightarrow> provider_kind" where
  "identifier_kind (Known_provider k) = pk_known"
| "identifier_kind (Custom_provider l) = pk_custom"
| "identifier_kind Pi_session_provider = pk_pi_session"

definition providerIdentifier :: "provider_identifier \<Rightarrow> bool" where
  "providerIdentifier i \<longleftrightarrow> (case i of Custom_provider l \<Rightarrow> bounded_text 10000 l | _ \<Rightarrow> True)"

definition isProviderConnectionRecord :: "connection_record \<Rightarrow> bool" where
  "isProviderConnectionRecord p \<longleftrightarrow>
     bounded_text 10000 (pv_connectionId p) \<and> bounded_text 10000 (pv_label p) \<and> providerIdentifier (pv_provider p)
     \<and> bounded_text 10000 (pv_endpointUrl p) \<and> opt_bounded 10000 (pv_secretRef p)
     \<and> null_or (\<lambda>n. 0 < n \<and> n \<le> 2 ^ 53 - 1) (pv_secretVersion p) \<and> canonical_iso (pv_createdAt p) \<and> canonical_iso (pv_updatedAt p)
     \<and> pv_kind p = identifier_kind (pv_provider p)
     \<and> (if pv_kind p = pk_pi_session then pv_secretRef p = None \<and> pv_secretVersion p = None
        else (pv_secretRef p = None) = (pv_secretVersion p = None))"

definition isProviderConnectionCollection :: "connection_record list \<Rightarrow> bool" where
  "isProviderConnectionCollection ps \<longleftrightarrow> list_all isProviderConnectionRecord ps \<and> distinct (map pv_connectionId ps)"

definition model_identity :: "catalog_model \<Rightarrow> route_identity" where
  "model_identity m = \<lparr>ri_connectionId = cm_connectionId m, ri_modelId = cm_modelId m\<rparr>"

definition put_nullable :: "('a \<Rightarrow> jsv) \<Rightarrow> 'a option \<Rightarrow> jsv" where
  "put_nullable f x = (case x of None \<Rightarrow> JNull | Some a \<Rightarrow> f a)"

text \<open>The fact of one model; every stored model is available. Sorting by its identity commutes with building it.\<close>

definition routing_catalog_fact :: "string set \<Rightarrow> catalog_model \<Rightarrow> jsv" where
  "routing_catalog_fact active m = JObj [(''schemaVersion'', JStr ''agent-routing/v1''),
     (''route'', JObj [(''connectionId'', JStr (cm_connectionId m)), (''modelId'', JStr (cm_modelId m))]),
     (''connectionActive'', JBool (cm_connectionId m \<in> active)), (''available'', JBool True),
     (''contextWindowTokens'', put_nullable JNum (cm_contextWindowTokens m)),
     (''tools'', put_nullable JBool (ca_tools (cm_capabilities m))), (''api'', put_nullable JBool (ca_api (cm_capabilities m))),
     (''reasoning'', put_nullable JBool (ca_reasoning (cm_capabilities m)))]"

definition active_ids :: "connection_record list \<Rightarrow> string set" where
  "active_ids ps = pv_connectionId ` set (filter (\<lambda>p. pv_lifecycleState p = lc_active) ps)"

definition readRoutingCatalogFacts ::
  "(string \<Rightarrow> string \<Rightarrow> int) \<Rightarrow> catalog_model list \<Rightarrow> connection_record list \<Rightarrow> jsv" where
  "readRoutingCatalogFacts collate ms ps =
     JArr (map (routing_catalog_fact (active_ids ps))
       (sort_by (\<lambda>l r. collate (routeIdentityKey (model_identity l)) (routeIdentityKey (model_identity r))) ms))"

record identity_fact =
  fi_route :: route_identity
  fi_connectionLabel :: string
  fi_modelDisplayLabel :: "string option"

record matrix_catalog =
  xc_routes :: "route_fact list"
  xc_identities :: "identity_fact list"
  xc_connectionStates :: "matrix_connection list"

fun strictlyOrdered :: "string list \<Rightarrow> bool" where
  "strictlyOrdered (s # t # us) \<longleftrightarrow> str_less s t \<and> strictlyOrdered (t # us)"
| "strictlyOrdered _ \<longleftrightarrow> True"

definition isIdentityFact :: "identity_fact \<Rightarrow> bool" where
  "isIdentityFact i \<longleftrightarrow> bounded_text 512 (ri_connectionId (fi_route i)) \<and> bounded_text 512 (ri_modelId (fi_route i))
     \<and> bounded_text 10000 (fi_connectionLabel i) \<and> opt_bounded 10000 (fi_modelDisplayLabel i)"

definition identity_key :: "identity_fact \<Rightarrow> string" where
  "identity_key i = routeIdentityKey (fi_route i)"

definition fact_key :: "route_fact \<Rightarrow> string" where
  "fact_key f = routeIdentityKey (rf_route f)"

definition isRoutingMatrixCatalogFacts :: "matrix_catalog \<Rightarrow> bool" where
  "isRoutingMatrixCatalogFacts c \<longleftrightarrow>
     facts_ok (xc_routes c) \<and> list_all isIdentityFact (xc_identities c) \<and> list_all isRoutingMatrixConnectionStateV1 (xc_connectionStates c)
     \<and> distinct (map identity_key (xc_identities c)) \<and> strictlyOrdered (map identity_key (xc_identities c))
     \<and> list_all (\<lambda>i. identity_key i \<in> fact_key ` set (xc_routes c)) (xc_identities c)
     \<and> distinct (map mc_connectionId (xc_connectionStates c)) \<and> strictlyOrdered (map mc_connectionId (xc_connectionStates c))"

definition isCatalogModelCollection :: "catalog_model list \<Rightarrow> bool" where
  "isCatalogModelCollection ms \<longleftrightarrow> list_all model_ok ms \<and> distinct (map (\<lambda>m. routeIdentityKey (model_identity m)) ms)"

definition isActiveStateCollection :: "connection_state list \<Rightarrow> bool" where
  "isActiveStateCollection ss \<longleftrightarrow> list_all connection_state_ok ss \<and> distinct (map as_connectionId ss)"

definition isRouteFactCollection :: "jsv \<Rightarrow> route_fact list option" where
  "isRouteFactCollection v = do {
     fs \<leftarrow> array_of isRoutingCatalogRouteFactV1 v;
     chk (distinct (map fact_key fs));
     Some fs }"

definition validateRouteBindings :: "catalog_model list \<Rightarrow> connection_record list \<Rightarrow> route_fact list \<Rightarrow> bool" where
  "validateRouteBindings ms ps fs \<longleftrightarrow>
     length ms = length fs
     \<and> list_all
          (\<lambda>m. case List.find (\<lambda>f. fact_key f = routeIdentityKey (model_identity m)) fs of
             None \<Rightarrow> False
           | Some f \<Rightarrow> rf_connectionActive f = (cm_connectionId m \<in> active_ids ps) \<and> rf_available f
               \<and> map_option JInt (rf_contextWindowTokens f) = cm_contextWindowTokens m
               \<and> rf_tools f = ca_tools (cm_capabilities m) \<and> rf_api f = ca_api (cm_capabilities m)
               \<and> rf_reasoning f = ca_reasoning (cm_capabilities m))
          ms"

text \<open>The active states stand for the active connections, one for one, under the same label and kind.\<close>

definition states_match :: "connection_record list \<Rightarrow> connection_state list \<Rightarrow> bool" where
  "states_match ps ss \<longleftrightarrow>
     length (js_set (map as_connectionId ss)) = length (js_set (map pv_connectionId (filter (\<lambda>p. pv_lifecycleState p = lc_active) ps)))
     \<and> list_all
          (\<lambda>s. case js_map (map (\<lambda>p. (pv_connectionId p, p)) (filter (\<lambda>p. pv_lifecycleState p = lc_active) ps)) (as_connectionId s) of
             None \<Rightarrow> False
           | Some p \<Rightarrow> pv_label p = as_label s \<and> pv_kind p = as_providerKind s)
          ss"

definition identity_facts :: "connection_record list \<Rightarrow> catalog_model list \<Rightarrow> identity_fact list" where
  "identity_facts ps ms =
     concat (map
       (\<lambda>m. case js_map (map (\<lambda>p. (pv_connectionId p, p)) ps) (cm_connectionId m) of
          None \<Rightarrow> []
        | Some p \<Rightarrow>
            if pv_lifecycleState p = lc_deleted then []
            else [\<lparr>fi_route = model_identity m, fi_connectionLabel = pv_label p, fi_modelDisplayLabel = cm_displayName m\<rparr>])
       ms)"

definition compareIdentity :: "(string \<Rightarrow> string \<Rightarrow> int) \<Rightarrow> identity_fact \<Rightarrow> identity_fact \<Rightarrow> int" where
  "compareIdentity collate l r = collate (identity_key l) (identity_key r)"

definition matrix_connection_of :: "connection_state \<Rightarrow> matrix_connection" where
  "matrix_connection_of s =
     \<lparr>mc_connectionId = as_connectionId s, mc_label = as_label s, mc_providerKind = as_providerKind s, mc_scanState = as_scanState s,
      mc_guidanceCode = as_guidanceCode s, mc_claimedAt = as_claimedAt s, mc_settledAt = as_settledAt s,
      mc_diagnosticOccurredAt = as_diagnosticOccurredAt s, mc_safeMessage = as_safeMessage s\<rparr>"

text \<open>What the three authorities answer is an argument.\<close>

definition readRoutingMatrixCatalogFacts ::
  "(string \<Rightarrow> string \<Rightarrow> int) \<Rightarrow> catalog_model list \<Rightarrow> connection_record list \<Rightarrow> connection_state list \<Rightarrow> matrix_catalog option" where
  "readRoutingMatrixCatalogFacts collate ms ps ss = do {
     chk (isCatalogModelCollection ms \<and> isProviderConnectionCollection ps \<and> isActiveStateCollection ss);
     fs \<leftarrow> isRouteFactCollection (readRoutingCatalogFacts collate ms ps);
     chk (validateRouteBindings ms ps fs);
     chk (states_match ps ss);
     let c = \<lparr>xc_routes = fs, xc_identities = sort_by (compareIdentity collate) (identity_facts ps ms),
       xc_connectionStates = map matrix_connection_of ss\<rparr>;
     chk (isRoutingMatrixCatalogFacts c);
     Some c }"

section \<open>The projector\<close>

record projection_authorities =
  mi_registryVersion :: string
  mi_registry :: "registry_entry list"
  mi_policy :: policy_revision
  mi_policyIdentity :: policy_identity
  mi_catalog :: matrix_catalog
  mi_attention :: "routing_attention list"

definition isMatrixProjectionInput :: "projection_authorities \<Rightarrow> bool" where
  "isMatrixProjectionInput i \<longleftrightarrow>
     bounded_text 256 (mi_registryVersion i) \<and> collection_ok (mi_registry i) \<and> revision_ok (mi_policy i)
     \<and> isRoutingMatrixPolicyIdentityV1 (mi_policyIdentity i) \<and> isRoutingMatrixCatalogFacts (mi_catalog i)
     \<and> list_all attention_ok (mi_attention i) \<and> distinct (map ra_attentionId (mi_attention i))"

text \<open>The loop over the selectors, with the keys it has seen.\<close>

fun bound_selectors :: "registry_entry list \<Rightarrow> string set \<Rightarrow> policy_selector list \<Rightarrow> bool" where
  "bound_selectors es scopes [] = True"
| "bound_selectors es scopes (s # ss) =
     (if selectorScopeKey (ps_scope s) \<in> scopes \<or> ps_selector s = Inherit \<and> ps_failurePolicy s \<noteq> Fail_immediately then False
      else if (case ps_scope s of Scope_action i \<Rightarrow> i \<notin> re_actionId ` set es | _ \<Rightarrow> False) then False
      else if (case ps_scope s of Scope_action_type t \<Rightarrow> t \<notin> re_actionType ` set es | _ \<Rightarrow> False) then False
      else bound_selectors es (insert (selectorScopeKey (ps_scope s)) scopes) ss)"

definition validateAuthorityBindings :: "projection_authorities \<Rightarrow> bool" where
  "validateAuthorityBindings i \<longleftrightarrow>
     pr_registryVersion (mi_policy i) = mi_registryVersion i \<and> pi_registryVersion (mi_policyIdentity i) = mi_registryVersion i
     \<and> pr_revisionId (mi_policy i) = pi_revisionId (mi_policyIdentity i)
     \<and> bound_selectors (mi_registry i) {} (pr_selectors (mi_policy i))
     \<and> \<not> list_ex (\<lambda>a. ra_revisionId a \<noteq> pr_revisionId (mi_policy i)) (mi_attention i)"

fun aggregateRequirements :: "registry_entry list \<Rightarrow> capability_requirements option" where
  "aggregateRequirements [] = None"
| "aggregateRequirements (e # es) =
     (let qs = map re_capabilityRequirements (e # es) in
      Some \<lparr>cq_minimumContextWindowTokens = foldr max (map cq_minimumContextWindowTokens (tl qs)) (cq_minimumContextWindowTokens (hd qs)),
        cq_requiresTools = list_ex cq_requiresTools qs, cq_requiresApi = list_ex cq_requiresApi qs,
        cq_requiresReasoning = list_ex cq_requiresReasoning qs\<rparr>)"

definition explicitSelector :: "policy_selector option \<Rightarrow> (policy_selector \<times> route_identity) option" where
  "explicitSelector s =
     (case s of None \<Rightarrow> None
      | Some p \<Rightarrow> (case ps_selector p of Select_route r \<Rightarrow> Some (p, r) | Inherit \<Rightarrow> None))"

definition configured_of :: "policy_selector option \<Rightarrow> configured" where
  "configured_of s = (case explicitSelector s of Some (p, r) \<Rightarrow> Configured_route r | None \<Rightarrow> Configured_inherit)"

definition configuredFailure :: "policy_selector option \<Rightarrow> failure_policy option" where
  "configuredFailure s = map_option (\<lambda>(p, r). ps_failurePolicy p) (explicitSelector s)"

text \<open>A capability that is required: unknown when the catalog has no answer for the route, else missing unless it is there.\<close>

definition capability_reasons :: "bool \<Rightarrow> bool option option \<Rightarrow> reason_code \<Rightarrow> reason_code \<Rightarrow> reason_code list" where
  "capability_reasons req v unknown required =
     (if req \<and> v = Some None then [unknown] else if req \<and> v \<noteq> Some (Some True) then [required] else [])"

definition routeReasons :: "route_fact option \<Rightarrow> capability_requirements \<Rightarrow> reason_code list" where
  "routeReasons f q =
     (if (case f of None \<Rightarrow> True | Some x \<Rightarrow> \<not> rf_connectionActive x) then [connection_inactive] else [])
     @ (if (case f of None \<Rightarrow> True | Some x \<Rightarrow> \<not> rf_available x) then [route_unavailable] else [])
     @ (case Option.bind f rf_contextWindowTokens of
          None \<Rightarrow> [context_window_unknown]
        | Some n \<Rightarrow> if n < cq_minimumContextWindowTokens q then [context_window_too_small] else [])
     @ capability_reasons (cq_requiresTools q) (map_option rf_tools f) tools_unknown tools_required
     @ capability_reasons (cq_requiresApi q) (map_option rf_api f) api_unknown api_required
     @ capability_reasons (cq_requiresReasoning q) (map_option rf_reasoning f) reasoning_unknown reasoning_required"

definition matrixRoute :: "route_identity \<Rightarrow> capability_requirements \<Rightarrow> matrix_catalog \<Rightarrow> matrix_route" where
  "matrixRoute r q c =
     (let k = routeIdentityKey r;
          identity = List.find (\<lambda>i. identity_key i = k) (xc_identities c);
          fact = List.find (\<lambda>f. fact_key f = k) (xc_routes c);
          state = List.find (\<lambda>s. mc_connectionId s = ri_connectionId r) (xc_connectionStates c);
          reasons = routeReasons fact q in
      \<lparr>mt_route = r,
       mt_connectionLabel = (case identity of Some i \<Rightarrow> fi_connectionLabel i
          | None \<Rightarrow> (case state of Some s \<Rightarrow> mc_label s | None \<Rightarrow> ''Unavailable connection'')),
       mt_modelDisplayLabel = Option.bind identity fi_modelDisplayLabel,
       mt_availability = (case fact of None \<Rightarrow> Unavailable
          | Some f \<Rightarrow> if rf_connectionActive f \<and> rf_available f then Available else Unavailable),
       mt_eligible = (reasons = []),
       mt_reasons = map routingMatrixReason reasons\<rparr>)"

definition routeChoices :: "capability_requirements \<Rightarrow> matrix_catalog \<Rightarrow> matrix_route list" where
  "routeChoices q c = map (\<lambda>i. matrixRoute (fi_route i) q c) (xc_identities c)"

definition eligibility :: "matrix_route \<Rightarrow> matrix_eligibility" where
  "eligibility t = \<lparr>el_eligible = mt_eligible t, el_reasons = mt_reasons t\<rparr>"

text \<open>The global selector comes with its route, which the projector has checked to be there.\<close>

definition globalRow :: "policy_selector \<times> route_identity \<Rightarrow> capability_requirements \<Rightarrow> matrix_catalog \<Rightarrow> matrix_row" where
  "globalRow global q c =
     (let t = matrixRoute (snd global) q c in
      \<lparr>mw_kind = Row_of_global, mw_scope = Scope_global, mw_scopeKey = ''global'', mw_label = ''Global Default'', mw_displayOrder = 0,
       mw_configured = Configured_route (snd global), mw_configuredFailurePolicy = Some Fail_immediately, mw_effectiveRoute = t,
       mw_effectiveFailurePolicy = Fail_immediately, mw_policySource = From_global, mw_requirements = q,
       mw_eligibility = eligibility t, mw_routeChoices = routeChoices q c\<rparr>)"

definition actionTypeRow ::
  "registry_entry \<Rightarrow> registry_entry list \<Rightarrow> policy_selector option \<Rightarrow> policy_selector \<times> route_identity \<Rightarrow> matrix_catalog
     \<Rightarrow> matrix_row option" where
  "actionTypeRow metadata es selector global c = do {
     q \<leftarrow> aggregateRequirements es;
     let sc = Scope_action_type (re_actionType metadata);
     let effective = (case explicitSelector selector of Some x \<Rightarrow> x | None \<Rightarrow> global);
     let t = matrixRoute (snd effective) q c;
     Some \<lparr>mw_kind = Row_of_type, mw_scope = sc, mw_scopeKey = selectorScopeKey sc, mw_label = re_actionTypeLabel metadata,
       mw_displayOrder = re_actionTypeDisplayOrder metadata, mw_configured = configured_of selector,
       mw_configuredFailurePolicy = configuredFailure selector, mw_effectiveRoute = t,
       mw_effectiveFailurePolicy = ps_failurePolicy (fst effective),
       mw_policySource = (if explicitSelector selector \<noteq> None then From_action_type else From_global), mw_requirements = q,
       mw_eligibility = eligibility t, mw_routeChoices = routeChoices q c\<rparr> }"

definition actionRow ::
  "registry_entry \<Rightarrow> policy_selector option \<Rightarrow> policy_selector option \<Rightarrow> policy_selector \<times> route_identity \<Rightarrow> matrix_catalog \<Rightarrow> matrix_row" where
  "actionRow e selector typeSelector global c =
     (let sc = Scope_action (re_actionId e);
          selected = (case explicitSelector selector of Some x \<Rightarrow> x
            | None \<Rightarrow> (case explicitSelector typeSelector of Some x \<Rightarrow> x | None \<Rightarrow> global));
          t = matrixRoute (snd selected) (re_capabilityRequirements e) c in
      \<lparr>mw_kind = Row_of_action (re_roleId e) (re_promptVersion e), mw_scope = sc, mw_scopeKey = selectorScopeKey sc, mw_label = re_label e,
       mw_displayOrder = re_displayOrder e, mw_configured = configured_of selector,
       mw_configuredFailurePolicy = configuredFailure selector, mw_effectiveRoute = t,
       mw_effectiveFailurePolicy = ps_failurePolicy (fst selected),
       mw_policySource = (if explicitSelector selector \<noteq> None then From_action
          else if explicitSelector typeSelector \<noteq> None then From_action_type else From_global),
       mw_requirements = re_capabilityRequirements e, mw_eligibility = eligibility t,
       mw_routeChoices = routeChoices (re_capabilityRequirements e) c\<rparr>)"

text \<open>The map from a type to its entries, in insertion order.\<close>

fun add_entry :: "registry_entry \<Rightarrow> (action_type \<times> registry_entry list) list \<Rightarrow> (action_type \<times> registry_entry list) list" where
  "add_entry e [] = [(re_actionType e, [e])]"
| "add_entry e ((t, es) # gs) = (if t = re_actionType e then (t, es @ [e]) # gs else (t, es) # add_entry e gs)"

definition registryByType :: "registry_entry list \<Rightarrow> (action_type \<times> registry_entry list) list" where
  "registryByType es = foldl (\<lambda>gs e. add_entry e gs) [] es"

definition project_group ::
  "(string \<rightharpoonup> policy_selector) \<Rightarrow> policy_selector \<times> route_identity \<Rightarrow> matrix_catalog \<Rightarrow> registry_entry list \<Rightarrow> matrix_group option" where
  "project_group sels global c es = do {
     first \<leftarrow> (case es of [] \<Rightarrow> None | e # _ \<Rightarrow> Some e);
     let ordered = sort_by (\<lambda>l r. re_displayOrder l - re_displayOrder r) es;
     let typeSelector = sels (selectorScopeKey (Scope_action_type (re_actionType first)));
     typeDefault \<leftarrow> actionTypeRow first ordered typeSelector global c;
     Some \<lparr>mg_actionType = re_actionType first, mg_label = re_actionTypeLabel first, mg_displayOrder = re_actionTypeDisplayOrder first,
       mg_typeDefault = typeDefault,
       mg_actions = map (\<lambda>e. actionRow e (sels (selectorScopeKey (Scope_action (re_actionId e)))) typeSelector global c) ordered\<rparr> }"

definition compareAttention :: "(string \<Rightarrow> string \<Rightarrow> int) \<Rightarrow> routing_attention \<Rightarrow> routing_attention \<Rightarrow> int" where
  "compareAttention collate l r =
     (if collate (ra_occurredAt l) (ra_occurredAt r) \<noteq> 0 then collate (ra_occurredAt l) (ra_occurredAt r)
      else collate (ra_attentionId l) (ra_attentionId r))"

definition matrix_attention_of :: "routing_attention \<Rightarrow> matrix_attention" where
  "matrix_attention_of a =
     \<lparr>mn_attentionId = ra_attentionId a, mn_attentionRevisionId = ra_revisionId a,
      mn_affectedRoute = \<lparr>ri_connectionId = ra_connectionId a, ri_modelId = ra_modelId a\<rparr>, mn_reasonCode = ra_reasonCode a,
      mn_occurredAt = ra_occurredAt a, mn_acknowledgedAt = ra_acknowledgedAt a\<rparr>"

definition selector_map :: "policy_revision \<Rightarrow> string \<rightharpoonup> policy_selector" where
  "selector_map pol = js_map (map (\<lambda>s. (selectorScopeKey (ps_scope s), s)) (pr_selectors pol))"

definition project_matrix :: "(string \<Rightarrow> string \<Rightarrow> int) \<Rightarrow> projection_authorities \<Rightarrow> matrix_snapshot option" where
  "project_matrix collate i = do {
     chk (isMatrixProjectionInput i);
     chk (validateAuthorityBindings i);
     let sels = selector_map (mi_policy i);
     selector \<leftarrow> sels ''global'';
     chk (ps_scope selector = Scope_global \<and> ps_failurePolicy selector = Fail_immediately);
     global \<leftarrow> explicitSelector (Some selector);
     q \<leftarrow> aggregateRequirements (mi_registry i);
     let row = globalRow global q (mi_catalog i);
     groups \<leftarrow> parse_all (\<lambda>g. project_group sels global (mi_catalog i) (snd g)) (registryByType (mi_registry i));
     let ordered = sort_by (\<lambda>l r. mg_displayOrder l - mg_displayOrder r) groups;
     let s = \<lparr>ms_policy = mi_policyIdentity i, ms_state = expectedState row ordered, ms_global = row, ms_groups = ordered,
       ms_connectionStates = xc_connectionStates (mi_catalog i),
       ms_attention = map matrix_attention_of (sort_by (compareAttention collate) (mi_attention i))\<rparr>;
     chk (isRoutingMatrixSnapshotV1 s);
     Some s }"

section \<open>The service\<close>

datatype matrix_code = Refused routing_code | ROUTING_ATTENTION_CONFLICT | ROUTING_MATRIX_READ_FAILED

record authorities =
  au_policy :: policy_revision
  au_registry :: "registry_entry list"
  au_catalog :: matrix_catalog
  au_attention :: "routing_attention list"
  au_snapshot :: matrix_snapshot

text \<open>The facts of the catalog are \<open>None\<close> when reading them throws. Every throw while the authorities are read is one refusal.\<close>

definition projection_of ::
  "agent_registry \<Rightarrow> matrix_catalog \<Rightarrow> policy_revision \<Rightarrow> policy_identity \<Rightarrow> routing_attention list \<Rightarrow> projection_authorities" where
  "projection_of reg c p i as =
     \<lparr>mi_registryVersion = pi_registryVersion i, mi_registry = registry_list reg, mi_policy = p, mi_policyIdentity = i, mi_catalog = c,
      mi_attention = as\<rparr>"

definition projected ::
  "(string \<Rightarrow> string \<Rightarrow> int) \<Rightarrow> agent_registry \<Rightarrow> matrix_catalog \<Rightarrow> policy_revision \<Rightarrow> policy_identity \<Rightarrow> routing_attention list
     \<Rightarrow> matrix_snapshot option" where
  "projected collate reg c p i as = do {
     s \<leftarrow> project_matrix collate (projection_of reg c p i as);
     chk (isRoutingMatrixSnapshotV1 s);
     Some s }"

definition readMatrixAuthorities ::
  "(string \<Rightarrow> string \<Rightarrow> int) \<Rightarrow> agent_registry \<Rightarrow> matrix_catalog option \<Rightarrow> matrix_code \<Rightarrow> routing_db \<Rightarrow> matrix_code + authorities" where
  "readMatrixAuthorities collate reg facts mismatch db =
     (case do { p \<leftarrow> getCurrentPolicy db; i \<leftarrow> getCurrentRevisionGuard db; Some (p, i) } of
        None \<Rightarrow> Inl ROUTING_MATRIX_READ_FAILED
      | Some (Some p, Some i) \<Rightarrow>
          if pr_registryVersion p \<noteq> ar_version reg \<or> pi_registryVersion i \<noteq> ar_version reg then Inl mismatch
          else (case do {
              c \<leftarrow> facts;
              as \<leftarrow> listCurrentAttention db;
              s \<leftarrow> projected collate reg c p i as;
              Some \<lparr>au_policy = p, au_registry = registry_list reg, au_catalog = c, au_attention = as, au_snapshot = s\<rparr> } of
            None \<Rightarrow> Inl ROUTING_MATRIX_READ_FAILED
          | Some x \<Rightarrow> Inr x)
      | Some _ \<Rightarrow> Inl (Refused ROUTING_BOOTSTRAP_REQUIRED))"

definition getRoutingMatrix ::
  "(string \<Rightarrow> string \<Rightarrow> int) \<Rightarrow> agent_registry \<Rightarrow> matrix_catalog option \<Rightarrow> routing_db \<Rightarrow> matrix_code + matrix_snapshot" where
  "getRoutingMatrix collate reg facts db =
     (case readMatrixAuthorities collate reg facts ROUTING_MATRIX_READ_FAILED db of
        Inl c \<Rightarrow> Inl c
      | Inr x \<Rightarrow> Inr (au_snapshot x))"

definition matrix_mutation_context :: "agent_registry \<Rightarrow> authorities \<Rightarrow> string \<Rightarrow> mutation_context" where
  "matrix_mutation_context reg x now =
     \<lparr>mx_registryVersion = ar_version reg, mx_registry = au_registry x, mx_routes = xc_routes (au_catalog x), mx_occurredAt = now,
      mx_actor = Some ''routing-matrix-operator'', mx_correlationId = None\<rparr>"

definition applyDraftToPolicy :: "(string \<Rightarrow> string \<Rightarrow> int) \<Rightarrow> policy_revision \<Rightarrow> row_draft \<Rightarrow> policy_revision" where
  "applyDraftToPolicy collate p d =
     p\<lparr>pr_selectors := sort_by (\<lambda>l r. collate (selectorScopeKey (ps_scope l)) (selectorScopeKey (ps_scope r)))
       (filter (\<lambda>s. selectorScopeKey (ps_scope s) \<noteq> selectorScopeKey (dr_scope d)) (pr_selectors p)
        @ (case dr_selection d of
             Row_inherit \<Rightarrow> []
           | Row_route r f \<Rightarrow> [\<lparr>ps_scope = dr_scope d, ps_selector = Select_route r, ps_failurePolicy = f\<rparr>]))\<rparr>"

definition findRow :: "matrix_snapshot \<Rightarrow> selector_scope \<Rightarrow> matrix_row option" where
  "findRow s sc = List.find (\<lambda>w. mw_scopeKey w = selectorScopeKey sc) (matrix_rows (ms_global s) (ms_groups s))"

definition appendReason :: "matrix_route \<Rightarrow> matrix_reason \<Rightarrow> matrix_route" where
  "appendReason t x = t\<lparr>mt_eligible := False, mt_reasons := mt_reasons t @ [x]\<rparr>"

definition classify_fallback :: "row_draft \<Rightarrow> route_identity \<Rightarrow> mutation_context \<Rightarrow> routing_db \<Rightarrow> matrix_route \<Rightarrow> matrix_route option" where
  "classify_fallback d r ctx db t =
     (if routeIdentityKey (mt_route t) = routeIdentityKey r then Some (appendReason t (routingMatrixReason same_as_primary))
      else if \<not> mt_eligible t then Some t
      else do {
        refusal \<leftarrow> validateRowMutation (d\<lparr>dr_selection := Row_route r (Reroute_route_once (mt_route t))\<rparr>) ctx db;
        Some (if refusal = Some ROUTING_INVALID_HANDOFF_CHAIN then appendReason t (routingMatrixReason fallback_cycle) else t) })"

definition classifyFallbackRoutes ::
  "matrix_route list \<Rightarrow> row_draft \<Rightarrow> route_identity \<Rightarrow> mutation_context \<Rightarrow> routing_db \<Rightarrow> matrix_route list option" where
  "classifyFallbackRoutes ts d r ctx db = parse_all (classify_fallback d r ctx db) ts"

text \<open>The reading of the clock is an argument of the operations that build a context.\<close>

definition previewRoutingMatrixRow ::
  "(string \<Rightarrow> string \<Rightarrow> int) \<Rightarrow> agent_registry \<Rightarrow> matrix_catalog option \<Rightarrow> string \<Rightarrow> routing_db \<Rightarrow> jsv
     \<Rightarrow> (matrix_code + matrix_preview) option" where
  "previewRoutingMatrixRow collate reg facts now db v =
     (case isRoutingMatrixRowDraftV1 v of
        None \<Rightarrow> Some (Inl (Refused ROUTING_INVALID_REQUEST))
      | Some d \<Rightarrow>
          (case readMatrixAuthorities collate reg facts (Refused ROUTING_POLICY_CONFLICT) db of
             Inl c \<Rightarrow> Some (Inl c)
           | Inr x \<Rightarrow>
               if ms_state (au_snapshot x) = Global_unavailable \<and> dr_scope d \<noteq> Scope_global
                 then Some (Inl (Refused ROUTING_GLOBAL_UNAVAILABLE))
               else do {
                 refusal \<leftarrow> validateRowMutation d (matrix_mutation_context reg x now) db;
                 case refusal of
                   Some c \<Rightarrow> Some (Inl (Refused c))
                 | None \<Rightarrow>
                     (case projected collate reg (au_catalog x) (applyDraftToPolicy collate (au_policy x) d)
                         (ms_policy (au_snapshot x)) (au_attention x) of
                        None \<Rightarrow> Some (Inl ROUTING_MATRIX_READ_FAILED)
                      | Some s \<Rightarrow>
                          (case findRow s (dr_scope d) of
                             None \<Rightarrow> Some (Inl (Refused ROUTING_UNKNOWN_SCOPE))
                           | Some w \<Rightarrow> do {
                               allowed \<leftarrow> (case dr_selection d of
                                   Row_inherit \<Rightarrow> Some []
                                 | Row_route r f \<Rightarrow>
                                     if dr_scope d = Scope_global then Some []
                                     else classifyFallbackRoutes (mw_routeChoices w) d r (matrix_mutation_context reg x now) db);
                               let p = \<lparr>mp_expectedRevision = dr_expectedRevision d, mp_revisionGuard = dr_revisionGuard d, mp_scope = dr_scope d,
                                 mp_scopeKey = selectorScopeKey (dr_scope d), mp_projectedRow = w, mp_allowedFallbackRoutes = allowed\<rparr>;
                               Some (if isRoutingMatrixPreviewV1 p then Inr p else Inl ROUTING_MATRIX_READ_FAILED) })) }))"

definition saveRoutingMatrixRow ::
  "(string \<Rightarrow> string) \<Rightarrow> (string \<Rightarrow> string \<Rightarrow> int) \<Rightarrow> agent_registry \<Rightarrow> matrix_catalog option \<Rightarrow> string \<Rightarrow> routing_db \<Rightarrow> jsv
     \<Rightarrow> ((matrix_code + matrix_snapshot) \<times> routing_db) option" where
  "saveRoutingMatrixRow sha collate reg facts now db v =
     (case isRoutingMatrixRowDraftV1 v of
        None \<Rightarrow> Some (Inl (Refused ROUTING_INVALID_REQUEST), db)
      | Some d \<Rightarrow>
          (case readMatrixAuthorities collate reg facts (Refused ROUTING_POLICY_CONFLICT) db of
             Inl c \<Rightarrow> Some (Inl c, db)
           | Inr x \<Rightarrow>
               if ms_state (au_snapshot x) = Global_unavailable \<and> dr_scope d \<noteq> Scope_global
                 then Some (Inl (Refused ROUTING_GLOBAL_UNAVAILABLE), db)
               else do {
                 (result, db') \<leftarrow> applyRowMutation sha collate d (matrix_mutation_context reg x now)
                   (\<lambda>cand. projected collate reg (au_catalog x) (rc_revision cand) (rc_identity cand) []) db;
                 Some (case result of
                     Inl (Row_rejected c) \<Rightarrow> (Inl (Refused c), db')
                   | Inl Row_read_failed \<Rightarrow> (Inl ROUTING_MATRIX_READ_FAILED, db')
                   | Inr (p, s) \<Rightarrow> (Inr s, db')) }))"

fun matrix_code_of :: "ack_code \<Rightarrow> matrix_code" where
  "matrix_code_of ACK_INVALID_REQUEST = Refused ROUTING_INVALID_REQUEST"
| "matrix_code_of ACK_POLICY_CONFLICT = Refused ROUTING_POLICY_CONFLICT"
| "matrix_code_of ACK_ATTENTION_CONFLICT = ROUTING_ATTENTION_CONFLICT"

definition acknowledgeRoutingMatrixAttention ::
  "(string \<Rightarrow> string \<Rightarrow> int) \<Rightarrow> agent_registry \<Rightarrow> matrix_catalog option \<Rightarrow> routing_db \<Rightarrow> jsv
     \<Rightarrow> ((matrix_code + matrix_snapshot) \<times> routing_db) option" where
  "acknowledgeRoutingMatrixAttention collate reg facts db v =
     (case isRoutingMatrixAttentionAcknowledgeV1 v of
        None \<Rightarrow> Some (Inl (Refused ROUTING_INVALID_REQUEST), db)
      | Some k \<Rightarrow> do {
          (refusal, db') \<leftarrow> acknowledgeMatrixAttention k db;
          Some (case refusal of
              Some c \<Rightarrow> (Inl (matrix_code_of c), db')
            | None \<Rightarrow> (getRoutingMatrix collate reg facts db', db')) })"

text \<open>The older operations of the facade, without the matrix.\<close>

definition mutate_policy ::
  "(string \<Rightarrow> string) \<Rightarrow> (string \<Rightarrow> string \<Rightarrow> int) \<Rightarrow> agent_registry \<Rightarrow> route_fact list \<Rightarrow> policy_mutation \<Rightarrow> routing_db \<Rightarrow> routing_db
     \<Rightarrow> ((routing_code + policy_revision) \<times> routing_db) option" where
  "mutate_policy sha collate reg routes m seen db =
     applyMutation sha collate m \<lparr>vc_registry = registry_list reg, vc_routes = routes\<rparr> seen db"

definition reset_routes ::
  "(string \<Rightarrow> string) \<Rightarrow> (string \<Rightarrow> string \<Rightarrow> int) \<Rightarrow> agent_registry \<Rightarrow> route_identity list \<Rightarrow> string \<Rightarrow> string \<Rightarrow> string option
     \<Rightarrow> routing_db \<Rightarrow> routing_db \<Rightarrow> ((routing_code + policy_revision) option \<times> routing_db) option" where
  "reset_routes sha collate reg routes reason t corr seen db =
     resetUnavailableRoutes sha collate
       \<lparr>rq_registryVersion = ar_version reg, rq_unavailable = routes, rq_reasonCode = reason, rq_occurredAt = t,
        rq_actor = Some ''catalog-scan'', rq_correlationId = corr\<rparr> seen db"


end
