(* ===== verification/ExclusiveClaims.thy ===== *)
theory ExclusiveClaims
  imports Prelude
begin

text \<open>
  Exclusive claims, the contract of a ledger that several processes share: a claim of a key succeeds only while nobody
  holds it, and only the holder's settlement releases it. The client lemma: along every sequence of operations the events
  of a key alternate between a claim and the settlement of that very claim.
\<close>

datatype ('k, 'a) claim_event = Ev_claim 'k 'a | Ev_settle 'k 'a

fun event_key :: "('k, 'a) claim_event \<Rightarrow> 'k" where
  "event_key (Ev_claim k a) = k"
| "event_key (Ev_settle k a) = k"

text \<open>The word of the events of one key, given who holds it at the start.\<close>

fun alternating :: "'a option \<Rightarrow> ('k, 'a) claim_event list \<Rightarrow> bool" where
  "alternating h [] = True"
| "alternating None (Ev_claim k a # es) = alternating (Some a) es"
| "alternating (Some a) (Ev_settle k b # es) = (a = b \<and> alternating None es)"
| "alternating _ _ = False"

text \<open>Running operations in order; each returns the event it caused, if any.\<close>

fun run_events :: "('o \<Rightarrow> 's \<Rightarrow> 'e option \<times> 's) \<Rightarrow> 's \<Rightarrow> 'o list \<Rightarrow> 'e list \<times> 's" where
  "run_events ex s [] = ([], s)"
| "run_events ex s (x # xs) =
     (case ex x s of (ev, t) \<Rightarrow>
        (case run_events ex t xs of (es, u) \<Rightarrow> ((case ev of None \<Rightarrow> es | Some e \<Rightarrow> e # es), u)))"

locale exclusive_claims =
  fixes exec :: "'o \<Rightarrow> 's \<Rightarrow> ('k, 'a) claim_event option \<times> 's"
    and holder :: "'s \<Rightarrow> 'k \<Rightarrow> 'a option"
    and sound :: "'s \<Rightarrow> bool"
  assumes exec_sound: "sound s \<Longrightarrow> exec x s = (ev, t) \<Longrightarrow> sound t"
    and exec_claim: "sound s \<Longrightarrow> exec x s = (Some (Ev_claim k a), t) \<Longrightarrow> holder s k = None \<and> holder t = (holder s)(k := Some a)"
    and exec_settle: "sound s \<Longrightarrow> exec x s = (Some (Ev_settle k a), t) \<Longrightarrow> holder s k = Some a \<and> holder t = (holder s)(k := None)"
    and exec_silent: "sound s \<Longrightarrow> exec x s = (None, t) \<Longrightarrow> holder t = holder s"
begin

lemma run_sound: "sound s \<Longrightarrow> run_events exec s xs = (es, t) \<Longrightarrow> sound t"
  by (induction xs arbitrary: s es) (auto split: prod.splits dest: exec_sound)

lemma run_alternates:
  "sound s \<Longrightarrow> run_events exec s xs = (es, t) \<Longrightarrow> alternating (holder s k) (filter (\<lambda>e. event_key e = k) es)"
proof (induction xs arbitrary: s es)
  case (Cons x xs)
  obtain ev u where step: "exec x s = (ev, u)" by (cases "exec x s")
  obtain fs where run: "run_events exec u xs = (fs, t)" and es: "es = (case ev of None \<Rightarrow> fs | Some e \<Rightarrow> e # fs)"
    using Cons.prems(2) by (auto simp: step split: prod.splits)
  have ih: "alternating (holder u k) (filter (\<lambda>e. event_key e = k) fs)"
    using Cons.IH [OF exec_sound [OF Cons.prems(1) step] run] .
  show ?case
  proof (cases ev)
    case None
    with exec_silent [OF Cons.prems(1)] step ih es show ?thesis by simp
  next
    case (Some e)
    then show ?thesis
    proof (cases e)
      case (Ev_claim j a)
      with exec_claim [OF Cons.prems(1)] step Some ih es show ?thesis by (cases "j = k") auto
    next
      case (Ev_settle j a)
      with exec_settle [OF Cons.prems(1)] step Some ih es show ?thesis by (cases "j = k") auto
    qed
  qed
qed simp

lemma held_excludes: "sound s \<Longrightarrow> holder s k = Some a \<Longrightarrow> exec x s = (ev, t) \<Longrightarrow> ev \<noteq> Some (Ev_claim k b)"
  using exec_claim by force

end

end
