(* ===== verification/CatalogFacts.thy ===== *)
theory CatalogFacts
  imports CatalogStores ExclusiveClaims
begin

text \<open>
  Facts of the ledger and of the store of models: rows stay valid and unique, claims are exclusive, a stored model is read
  back, and what the normaliser accepts can be stored.
\<close>

section \<open>The ledger\<close>

definition row :: "ledger \<Rightarrow> string \<Rightarrow> ledger_record option" where
  "row L c = List.find (\<lambda>r. lr_connectionId r = c) L"

definition ledger_ok :: "ledger \<Rightarrow> bool" where
  "ledger_ok L \<longleftrightarrow> distinct (map lr_connectionId L) \<and> (\<forall>r\<in>set L. record_ok r)"

lemma row_Nil [simp]: "row [] c = None"
  by (simp add: row_def)

lemma row_append: "row (L @ M) c = (case row L c of None \<Rightarrow> row M c | Some r \<Rightarrow> Some r)"
  by (induction L) (auto simp: row_def)

lemma row_single [simp]: "row [r] c = (if lr_connectionId r = c then Some r else None)"
  by (simp add: row_def)

lemma row_Some: "row L c = Some r \<Longrightarrow> r \<in> set L \<and> lr_connectionId r = c"
  unfolding row_def by (rule find_Some_set)

lemma row_None: "row L c = None \<longleftrightarrow> c \<notin> lr_connectionId ` set L"
  unfolding row_def by (auto simp: find_None_set)

lemma row_member: "distinct (map lr_connectionId L) \<Longrightarrow> r \<in> set L \<Longrightarrow> row L (lr_connectionId r) = Some r"
  by (induction L) (auto simp: row_def)

lemma row_upsert [simp]: "row (upsert r L) c = (if lr_connectionId r = c then Some r else row L c)"
  by (induction L) (auto simp: row_def)

lemma set_upsert: "set (upsert r L) \<subseteq> insert r (set L)"
  by (induction L) auto

lemma ids_upsert:
  "map lr_connectionId (upsert r L) =
     (if lr_connectionId r \<in> lr_connectionId ` set L then map lr_connectionId L else map lr_connectionId L @ [lr_connectionId r])"
  by (induction L) auto

lemma ledger_ok_upsert: "ledger_ok L \<Longrightarrow> record_ok r \<Longrightarrow> ledger_ok (upsert r L)"
  using set_upsert [of r L] by (auto simp: ledger_ok_def ids_upsert image_iff)

lemma readWithinTransaction_ok: "ledger_ok L \<Longrightarrow> readWithinTransaction L c = Some (row L c)"
  unfolding readWithinTransaction_def row_def [symmetric]
  by (auto simp: rowToRecord_def ledger_ok_def split: option.split dest: row_Some)

lemma requireRecord_ok: "ledger_ok L \<Longrightarrow> requireRecord L c = row L c"
  by (cases "row L c") (simp_all add: requireRecord_def readWithinTransaction_ok)

lemma replace_row_Some: "replace_row r L = Some M \<longleftrightarrow> record_ok r \<and> M = upsert r L"
  by (auto simp: replace_row_def)

lemma never_scanned_row_ok: "isBoundedString c \<Longrightarrow> record_ok (never_scanned_row c TARGET_VERSION)"
  by (simp add: record_ok_def never_scanned_row_def state_ok_def null_or_def isPositiveInteger_def isSafeInteger_def TARGET_VERSION_def)

lemma initialize_Some:
  assumes "ledger_ok L"
  shows "initializeNeverScanned i L = Some (r, M) \<longleftrightarrow> initialize_ok i
     \<and> (case row L (ii_connectionId i) of
          Some q \<Rightarrow> r = q \<and> M = L
        | None \<Rightarrow> r = never_scanned_row (ii_connectionId i) TARGET_VERSION \<and> M = L @ [r])"
proof (cases "initialize_ok i \<and> row L (ii_connectionId i) = None")
  case True
  let ?r = "never_scanned_row (ii_connectionId i) TARGET_VERSION"
  have ok: "record_ok ?r" using True by (intro never_scanned_row_ok) (simp add: initialize_ok_def)
  have "lr_connectionId ?r = ii_connectionId i" by (simp add: never_scanned_row_def)
  with True have "row (L @ [?r]) (ii_connectionId i) = Some ?r" by (simp add: row_append)
  moreover have "ledger_ok (L @ [?r])"
    using True assms ok \<open>lr_connectionId ?r = _\<close> by (auto simp: ledger_ok_def row_None)
  ultimately show ?thesis
    using True assms by (auto simp: initializeNeverScanned_def readWithinTransaction_ok requireRecord_ok initialize_ok_def Let_def)
qed (use assms in \<open>auto simp: initializeNeverScanned_def readWithinTransaction_ok split: option.splits\<close>)

lemma adopt_Some:
  assumes "ledger_ok L"
  shows "adoptLegacyEvidence i L = Some (r, M) \<longleftrightarrow> adopt_ok i
     \<and> (case row L (ad_connectionId i) of None \<Rightarrow> True
        | Some q \<Rightarrow> lr_reconciliationVersion q = TARGET_VERSION \<and> lr_scanState q = never_scanned)
     \<and> r = legacyAdoptionRecord i \<and> M = upsert r L"
proof -
  have id: "lr_connectionId (legacyAdoptionRecord i) = ad_connectionId i" by (simp add: legacyAdoptionRecord_def)
  have "adopt_ok i \<Longrightarrow> requireRecord (upsert (legacyAdoptionRecord i) L) (ad_connectionId i) = Some (legacyAdoptionRecord i)"
    using assms by (simp add: requireRecord_ok ledger_ok_upsert adopt_ok_def id)
  then show ?thesis
    using assms by (auto simp: adoptLegacyEvidence_def readWithinTransaction_ok adopt_ok_def replace_row_def split: option.splits)
qed

lemma claimed_record_ok: "claim_ok i \<Longrightarrow> record_ok (claimed_record i)"
  by (simp add: claim_ok_def record_ok_def claimed_record_def state_ok_def null_or_def)

lemma claim_Some:
  assumes "ledger_ok L"
  shows "claimAttempt i L = Some (x, M) \<longleftrightarrow> claim_ok i \<and>
     (case row L (ci_connectionId i) of
        None \<Rightarrow> x = Claimed (claimed_record i) \<and> M = upsert (claimed_record i) L
      | Some e \<Rightarrow>
          if lr_scanState e = scanning then x = Already_scanning e \<and> M = L
          else lr_reconciliationVersion e \<le> ci_reconciliationVersion i
            \<and> (if ci_mode i = eligible_only \<and> lr_reconciliationVersion e = ci_reconciliationVersion i \<and> isSettled e
               then x = Settled_for_version e \<and> M = L
               else x = Claimed (claimed_record i) \<and> M = upsert (claimed_record i) L))"
proof -
  have id: "lr_connectionId (claimed_record i) = ci_connectionId i" by (simp add: claimed_record_def)
  have "claim_ok i \<Longrightarrow> requireRecord (upsert (claimed_record i) L) (ci_connectionId i) = Some (claimed_record i)"
    using assms by (simp add: requireRecord_ok ledger_ok_upsert claimed_record_ok id)
  then show ?thesis
    using assms by (auto simp: claimAttempt_def readWithinTransaction_ok claimed_record_ok replace_row_def Let_def not_less split: option.splits)
qed

lemma settle_Some:
  assumes "ledger_ok L"
  shows "settleAttempt i L = Some (r, M) \<longleftrightarrow> settle_ok i \<and>
     (\<exists>e claimed. row L (si_connectionId i) = Some e \<and> lr_scanState e = scanning \<and> lr_reconciliationVersion e = si_reconciliationVersion i
        \<and> lr_attemptId e = Some (si_attemptId i) \<and> lr_claimedAt e = Some claimed \<and> date_parse claimed \<le> date_parse (si_settledAt i)
        \<and> record_ok (settled_record e i) \<and> r = settled_record e i \<and> M = upsert r L)"
proof -
  have "requireRecord (upsert (settled_record e i) L) (si_connectionId i) = Some (settled_record e i)"
    if "row L (si_connectionId i) = Some e" "record_ok (settled_record e i)" for e
    using that assms row_Some [OF that(1)] by (simp add: requireRecord_ok ledger_ok_upsert settled_record_def)
  then show ?thesis
    using assms unfolding settleAttempt_def
    by (auto simp: readWithinTransaction_ok replace_row_def Option.bind_eq_Some_conv not_less split: if_splits)
qed

text \<open>The operations of the store as one step: the event it causes, and the rows after it; a throw changes nothing.\<close>

datatype ledger_op = Op_initialize initialize_input | Op_adopt adopt_input | Op_claim claim_input | Op_settle settle_input

fun ledger_exec :: "ledger_op \<Rightarrow> ledger \<Rightarrow> (string, int \<times> string) claim_event option \<times> ledger" where
  "ledger_exec (Op_initialize i) L = (case initializeNeverScanned i L of None \<Rightarrow> (None, L) | Some (r, M) \<Rightarrow> (None, M))"
| "ledger_exec (Op_adopt i) L = (case adoptLegacyEvidence i L of None \<Rightarrow> (None, L) | Some (r, M) \<Rightarrow> (None, M))"
| "ledger_exec (Op_claim i) L =
     (case claimAttempt i L of
        Some (Claimed r, M) \<Rightarrow> (Some (Ev_claim (ci_connectionId i) (ci_reconciliationVersion i, ci_attemptId i)), M)
      | Some (x, M) \<Rightarrow> (None, M)
      | None \<Rightarrow> (None, L))"
| "ledger_exec (Op_settle i) L =
     (case settleAttempt i L of
        None \<Rightarrow> (None, L)
      | Some (r, M) \<Rightarrow> (Some (Ev_settle (si_connectionId i) (si_reconciliationVersion i, si_attemptId i)), M))"

text \<open>Who holds a connection: version and attempt of a row in state \<open>scanning\<close>.\<close>

definition holder :: "ledger \<Rightarrow> string \<Rightarrow> (int \<times> string) option" where
  "holder L c =
     (case row L c of
        Some r \<Rightarrow> if lr_scanState r = scanning then Some (lr_reconciliationVersion r, the (lr_attemptId r)) else None
      | None \<Rightarrow> None)"

lemma holder_upsert:
  "holder (upsert r L) = (holder L)(lr_connectionId r :=
     (if lr_scanState r = scanning then Some (lr_reconciliationVersion r, the (lr_attemptId r)) else None))"
  by (auto simp: holder_def fun_eq_iff)

lemma state_of_not_scanning [simp]: "state_of out \<noteq> scanning" "state_of out \<noteq> never_scanned"
  by (cases out; simp)+

lemma holder_append_never: "row L c = None \<Longrightarrow> holder (L @ [never_scanned_row c n]) = holder L"
  by (auto simp: holder_def fun_eq_iff row_append never_scanned_row_def split: option.split)

lemma ledger_ok_append: "ledger_ok L \<Longrightarrow> record_ok r \<Longrightarrow> row L (lr_connectionId r) = None \<Longrightarrow> ledger_ok (L @ [r])"
  by (auto simp: ledger_ok_def row_None)

lemma initialize_step:
  assumes "ledger_ok L" and "initializeNeverScanned i L = Some (r, M)"
  shows "ledger_ok M" and "holder M = holder L"
proof -
  have id: "lr_connectionId (never_scanned_row c n) = c" for c n by (simp add: never_scanned_row_def)
  have ok: "initialize_ok i \<Longrightarrow> record_ok (never_scanned_row (ii_connectionId i) TARGET_VERSION)"
    by (intro never_scanned_row_ok) (simp add: initialize_ok_def)
  show "ledger_ok M" "holder M = holder L"
    using assms(2) ok ledger_ok_append [OF assms(1), of "never_scanned_row (ii_connectionId i) TARGET_VERSION"]
    by (auto simp: initialize_Some [OF assms(1)] id assms(1) holder_append_never split: option.splits)
qed

lemma adopt_step:
  assumes "ledger_ok L" and "adoptLegacyEvidence i L = Some (r, M)"
  shows "ledger_ok M" and "holder M = holder L"
proof -
  from assms have r: "r = legacyAdoptionRecord i" "M = upsert r L" "record_ok r"
      "case row L (ad_connectionId i) of None \<Rightarrow> True | Some q \<Rightarrow> lr_scanState q = never_scanned"
    by (auto simp: adopt_Some [OF assms(1)] adopt_ok_def split: option.splits)
  show "ledger_ok M" using r ledger_ok_upsert [OF assms(1)] by simp
  have "holder L (ad_connectionId i) = None" using r(4) by (auto simp: holder_def split: option.splits)
  then show "holder M = holder L" unfolding r(2) holder_upsert by (auto simp: r(1) legacyAdoptionRecord_def fun_eq_iff)
qed

lemma claim_step:
  assumes "ledger_ok L" and "claimAttempt i L = Some (x, M)"
  shows "ledger_ok M"
    and "x = Claimed r \<Longrightarrow> holder L (ci_connectionId i) = None
       \<and> holder M = (holder L)(ci_connectionId i := Some (ci_reconciliationVersion i, ci_attemptId i))"
    and "(\<And>r. x \<noteq> Claimed r) \<Longrightarrow> M = L"
proof -
  have new: "record_ok (claimed_record i)" using assms claimed_record_ok by (auto simp: claim_Some [OF assms(1)])
  show "ledger_ok M"
    using assms ledger_ok_upsert [OF assms(1) new] by (auto simp: claim_Some [OF assms(1)] split: option.splits if_splits)
  show "x = Claimed r \<Longrightarrow> holder L (ci_connectionId i) = None
      \<and> holder M = (holder L)(ci_connectionId i := Some (ci_reconciliationVersion i, ci_attemptId i))"
    using assms(2)
    by (auto simp: claim_Some [OF assms(1)] holder_upsert claimed_record_def holder_def [of L] split: option.splits if_splits)
  show "(\<And>r. x \<noteq> Claimed r) \<Longrightarrow> M = L"
    using assms(2) by (auto simp: claim_Some [OF assms(1)] split: option.splits if_splits)
qed

lemma settle_step:
  assumes "ledger_ok L" and "settleAttempt i L = Some (r, M)"
  shows "ledger_ok M" and "holder L (si_connectionId i) = Some (si_reconciliationVersion i, si_attemptId i)"
    and "holder M = (holder L)(si_connectionId i := None)"
proof -
  from assms obtain e where e: "row L (si_connectionId i) = Some e" "lr_scanState e = scanning"
      "lr_reconciliationVersion e = si_reconciliationVersion i" "lr_attemptId e = Some (si_attemptId i)"
      "record_ok (settled_record e i)" "M = upsert (settled_record e i) L"
    by (auto simp: settle_Some [OF assms(1)])
  show "ledger_ok M" using e ledger_ok_upsert [OF assms(1)] by simp
  show "holder L (si_connectionId i) = Some (si_reconciliationVersion i, si_attemptId i)" using e by (simp add: holder_def)
  have "lr_connectionId (settled_record e i) = si_connectionId i" using row_Some [OF e(1)] by (simp add: settled_record_def)
  then show "holder M = (holder L)(si_connectionId i := None)" unfolding e(6) holder_upsert by (simp add: settled_record_def)
qed

interpretation claims: exclusive_claims ledger_exec holder ledger_ok
proof
  fix L x ev M
  assume ok: "ledger_ok L" and step: "ledger_exec x L = (ev, M)"
  show "ledger_ok M"
  proof (cases x)
    case (Op_initialize i)
    with step ok initialize_step(1) [OF ok, of i] show ?thesis by (cases "initializeNeverScanned i L") auto
  next
    case (Op_adopt i)
    with step ok adopt_step(1) [OF ok, of i] show ?thesis by (cases "adoptLegacyEvidence i L") auto
  next
    case (Op_claim i)
    with step ok claim_step(1) [OF ok, of i] show ?thesis by (cases "claimAttempt i L") (auto split: claim_result.splits)
  next
    case (Op_settle i)
    with step ok settle_step(1) [OF ok, of i] show ?thesis by (cases "settleAttempt i L") auto
  qed
next
  fix L x k a M
  assume ok: "ledger_ok L" and step: "ledger_exec x L = (Some (Ev_claim k a), M)"
  then obtain i r where "x = Op_claim i" "claimAttempt i L = Some (Claimed r, M)" "k = ci_connectionId i"
      "a = (ci_reconciliationVersion i, ci_attemptId i)"
    by (cases x) (auto split: option.splits claim_result.splits)
  with claim_step(2) [OF ok, of i "Claimed r" M r] show "holder L k = None \<and> holder M = (holder L)(k := Some a)" by simp
next
  fix L x k a M
  assume ok: "ledger_ok L" and step: "ledger_exec x L = (Some (Ev_settle k a), M)"
  then obtain i r where "x = Op_settle i" "settleAttempt i L = Some (r, M)" "k = si_connectionId i"
      "a = (si_reconciliationVersion i, si_attemptId i)"
    by (cases x) (auto split: option.splits claim_result.splits)
  with settle_step(2,3) [OF ok, of i r M] show "holder L k = Some a \<and> holder M = (holder L)(k := None)" by simp
next
  fix L x M
  assume ok: "ledger_ok L" and step: "ledger_exec x L = (None, M)"
  then show "holder M = holder L"
  proof (cases x)
    case (Op_claim i)
    with step claim_step(3) [OF ok, of i] show ?thesis by (cases "claimAttempt i L") (auto split: claim_result.splits)
  next
    case (Op_initialize i)
    with step initialize_step(2) [OF ok, of i] show ?thesis by (cases "initializeNeverScanned i L") auto
  next
    case (Op_adopt i)
    with step adopt_step(2) [OF ok, of i] show ?thesis by (cases "adoptLegacyEvidence i L") auto
  next
    case (Op_settle i)
    with step show ?thesis by (cases "settleAttempt i L") auto
  qed
qed

text \<open>Versions of a row never go back.\<close>

lemma exec_version:
  assumes "ledger_ok L" and "ledger_exec x L = (ev, M)" and "row L c = Some r"
  shows "\<exists>q. row M c = Some q \<and> lr_reconciliationVersion r \<le> lr_reconciliationVersion q"
proof (cases x)
  case (Op_initialize i)
  with assms show ?thesis by (auto simp: initialize_Some [OF assms(1)] row_append split: option.splits)
next
  case (Op_adopt i)
  with assms show ?thesis
    by (auto simp: adopt_Some [OF assms(1)] legacyAdoptionRecord_def adopt_ok_def split: option.splits)
next
  case (Op_claim i)
  with assms show ?thesis
    by (auto simp: claim_Some [OF assms(1)] claimed_record_def split: option.splits claim_result.splits if_splits)
next
  case (Op_settle i)
  show ?thesis
  proof (cases "settleAttempt i L")
    case (Some p)
    with Op_settle assms(2) obtain q where "settleAttempt i L = Some (q, M)" by (cases p) auto
    then obtain e where e: "row L (si_connectionId i) = Some e" "M = upsert (settled_record e i) L"
      by (auto simp: settle_Some [OF assms(1)])
    have "lr_connectionId (settled_record e i) = si_connectionId i" using row_Some [OF e(1)] by (simp add: settled_record_def)
    with e assms(3) show ?thesis by (auto simp: settled_record_def)
  qed (use Op_settle assms in auto)
qed

lemma run_version:
  "ledger_ok L \<Longrightarrow> run_events ledger_exec L xs = (es, M) \<Longrightarrow> row L c = Some r \<Longrightarrow>
     \<exists>q. row M c = Some q \<and> lr_reconciliationVersion r \<le> lr_reconciliationVersion q"
proof (induction xs arbitrary: L es r)
  case (Cons x xs)
  obtain ev N where step: "ledger_exec x L = (ev, N)" by (cases "ledger_exec x L")
  obtain fs where run: "run_events ledger_exec N xs = (fs, M)" using Cons.prems(2) by (auto simp: step split: prod.splits)
  obtain q where "row N c = Some q" "lr_reconciliationVersion r \<le> lr_reconciliationVersion q"
    using exec_version [OF Cons.prems(1) step Cons.prems(3)] by blast
  with Cons.IH [OF claims.exec_sound [OF Cons.prems(1) step] run] show ?case by force
qed auto

section \<open>Stored models\<close>

lemma null_or_simps [simp]: "null_or P None" "null_or P (Some x) \<longleftrightarrow> P x"
  by (simp_all add: null_or_def)

lemma nullable_column_Some:
  "null_or P x \<Longrightarrow> (\<And>a. P a \<Longrightarrow> f a = Some a) \<Longrightarrow> nullable_column f x = Some x"
  by (cases x) (auto simp: nullable_column_def)

lemma nullableBoolean_column [simp]: "nullableBoolean (booleanToSql x) = Some x"
  by (cases x) (auto simp: nullableBoolean_def booleanToSql_def nullable_column_def)

lemma pricing_column:
  assumes "pricing_ok (cm_pricing m)"
  shows "pricingFromRow (model_columns m) = Some (cm_pricing m)"
proof (cases "cm_pricing m")
  case (Some p)
  have "nullable_column (\<lambda>s. if s = ''USD'' then Some USD else None) (map_option (\<lambda>_. ''USD'') c) = Some c" for c
  proof (cases c)
    case (Some x)
    then show ?thesis by (cases x) (simp add: nullable_column_def)
  qed (simp add: nullable_column_def)
  moreover have "nullable_column (finiteNonNegative MAX_PRICE) x = Some x" if "null_or (isFiniteNonNegative MAX_PRICE) x" for x
    using that by (rule nullable_column_Some) (simp add: finiteNonNegative_def)
  ultimately show ?thesis using assms Some by (simp add: pricingFromRow_def model_columns_def pricing_ok_def)
qed (simp add: pricingFromRow_def model_columns_def)

lemma kind_column [simp]: "map_of providerKinds (kind_name k) = Some k"
  by (cases k) (simp_all add: providerKinds_def)

lemma row_of_model: "model_ok m \<Longrightarrow> rowToCatalogModel (model_columns m) = Some m"
proof -
  assume ok: "model_ok m"
  have limits: "nullable_column (finiteNonNegative MAX_TOKEN_LIMIT) x = Some x" if "isNullableLimit x" for x
    using that unfolding isNullableLimit_def by (rule nullable_column_Some) (simp add: finiteNonNegative_def)
  have texts: "nullable_column (requiredString MAX_TEXT) x = Some x" if "null_or (bounded MAX_TEXT) x" for x
    using that by (rule nullable_column_Some) (simp add: requiredString_def)
  have "pricingFromRow (model_columns m) = Some (cm_pricing m)" using ok by (intro pricing_column) (simp add: model_ok_def)
  then have p: "pricingFromRow (model_columns m) = Some (cm_pricing m)" .
  have "rowToCatalogModel (model_columns m) = (do { chk (model_ok m); Some m })"
    using ok p unfolding rowToCatalogModel_def
    by (simp add: model_ok_def limits texts requiredString_def model_columns_def)
  with ok show ?thesis by simp
qed

section \<open>What the normaliser accepts\<close>

lemma normalizeRequiredString_Some: "normalizeRequiredString n v = Some s \<Longrightarrow> bounded n s"
  by (auto simp: normalizeRequiredString_def Option.bind_eq_Some_conv split: if_splits)

lemma normalizeOptionalString_Some: "normalizeOptionalString v = Some x \<Longrightarrow> null_or (bounded MAX_TEXT) x"
  by (auto simp: normalizeOptionalString_def dest: normalizeRequiredString_Some split: if_splits)

lemma normalizeOptionalLimit_Some: "normalizeOptionalLimit v = Some x \<Longrightarrow> isNullableLimit x"
  by (auto simp: normalizeOptionalLimit_def isNullableLimit_def Option.bind_eq_Some_conv split: if_splits)

lemma distinct_sort_by [simp]: "distinct (sort_by f xs) \<longleftrightarrow> distinct xs"
  using mset_sort_by [of f xs] mset_eq_imp_distinct_iff by blast

lemma normalizeModalities_Some: "normalizeModalities collate v = Some ms \<Longrightarrow> distinct ms"
  by (auto simp: normalizeModalities_def Option.bind_eq_Some_conv split: if_splits)

lemma normalizePrice_Some: "normalizePrice v = Some x \<Longrightarrow> null_or (isFiniteNonNegative MAX_PRICE) x"
  by (auto simp: normalizePrice_def Option.bind_eq_Some_conv split: if_splits)

lemma normalizePricing_Some: "normalizePricing v = Some p \<Longrightarrow> pricing_ok p"
  by (auto simp: normalizePricing_def pricing_ok_def Option.bind_eq_Some_conv dest: normalizePrice_Some split: if_splits)

lemma normalizeConnection_Some:
  "normalizeConnection v = Some conn \<Longrightarrow> bounded MAX_TEXT (sn_connectionId conn) \<and> bounded MAX_TEXT (sn_label conn)"
  by (auto simp: normalizeConnection_def Option.bind_eq_Some_conv dest: normalizeRequiredString_Some split: if_splits)

lemma normalizeCandidate_Some:
  assumes "normalizeCandidate collate conn t v = Some m" and "canonical_iso t"
    and "bounded MAX_TEXT (sn_connectionId conn) \<and> bounded MAX_TEXT (sn_label conn)"
  shows "model_ok m" and "cm_connectionId m = sn_connectionId conn" and "bounded MAX_MODEL_ID (cm_modelId m)"
proof -
  from assms(1) have "normalizeRequiredString MAX_MODEL_ID (jget v ''modelId'') = Some (cm_modelId m)"
      "normalizeOptionalString (jget v ''displayName'') = Some (cm_displayName m)"
      "normalizeOptionalString (jget v ''description'') = Some (cm_description m)"
      "normalizeOptionalLimit (jget v ''contextWindowTokens'') = Some (cm_contextWindowTokens m)"
      "normalizeOptionalLimit (jget v ''maxOutputTokens'') = Some (cm_maxOutputTokens m)"
      "normalizeModalities collate (jget v ''inputModalities'') = Some (cm_inputModalities m)"
      "normalizePricing (jget v ''pricing'') = Some (cm_pricing m)"
      "cm_connectionId m = sn_connectionId conn" "cm_providerLabel m = sn_label conn" "cm_lastSuccessfulScanAt m = t"
    by (auto simp: normalizeCandidate_def Option.bind_eq_Some_conv split: if_splits)
  note p = this
  show "model_ok m"
    using p assms(2,3) normalizeRequiredString_Some [OF p(1)] normalizeOptionalString_Some [OF p(2)] normalizeOptionalString_Some [OF p(3)]
      normalizeOptionalLimit_Some [OF p(4)] normalizeOptionalLimit_Some [OF p(5)] normalizeModalities_Some [OF p(6)]
      normalizePricing_Some [OF p(7)]
    by (simp add: model_ok_def)
  show "cm_connectionId m = sn_connectionId conn" "bounded MAX_MODEL_ID (cm_modelId m)"
    using p(8) normalizeRequiredString_Some [OF p(1)] by simp_all
qed

lemma identityKey_inject [simp]: "identityKey c i = identityKey c j \<longleftrightarrow> i = j"
  by (simp add: identityKey_def)

lemma normalize_candidates_Inr:
  assumes "normalize_candidates collate conn t seen vs = Inr ms" and "canonical_iso t"
    and "bounded MAX_TEXT (sn_connectionId conn) \<and> bounded MAX_TEXT (sn_label conn)"
  shows "list_all model_ok ms \<and> list_all (\<lambda>m. cm_connectionId m = sn_connectionId conn) ms \<and> distinct (map cm_modelId ms)
     \<and> identityKey (sn_connectionId conn) ` set (map cm_modelId ms) \<inter> seen = {} \<and> length ms = length vs"
  using assms(1)
proof (induction vs arbitrary: seen ms)
  case (Cons v vs)
  from Cons.prems obtain m rest where m: "normalizeCandidate collate conn t v = Some m" "identityKey (sn_connectionId conn) (cm_modelId m) \<notin> seen"
      "normalize_candidates collate conn t (insert (identityKey (sn_connectionId conn) (cm_modelId m)) seen) vs = Inr rest" "ms = m # rest"
    by (auto simp: Let_def split: option.splits if_splits sum.splits)
  with Cons.IH [OF m(3)] normalizeCandidate_Some [OF m(1) assms(2,3)] show ?case by auto
qed simp

lemma models_ascending_sorted: "sorted_wrt (\<lambda>a b. compareCatalogModels collate a b < 0) ms \<Longrightarrow> models_ascending collate ms"
  by (induction ms rule: models_ascending.induct) auto

text \<open>An order of the names that tells the identifiers of a snapshot apart.\<close>

lemma normalized_ascending:
  assumes "normalizeDiscoveredCatalog collate connection payload t = Inr ms" and "strict_cmp collate (cm_modelId ` set ms)"
    and "\<And>c. collate c c = 0"
  shows "list_all model_ok ms" and "\<exists>conn. normalizeConnection connection = Some conn \<and> list_all (\<lambda>m. cm_connectionId m = sn_connectionId conn) ms"
    and "models_ascending collate ms" and "distinct (map cm_modelId ms)" and "canonical_iso t"
proof -
  from assms(1) obtain conn vs ms' where p: "normalizeConnection connection = Some conn" "canonical_iso t"
      "normalize_candidates collate conn t {} vs = Inr ms'" "ms = sort_by (compareCatalogModels collate) ms'"
    by (auto simp: normalizeDiscoveredCatalog_def split: option.splits if_splits bool.splits sum.splits)
  note all = normalize_candidates_Inr [OF p(3,2) normalizeConnection_Some [OF p(1)]]
  show "list_all model_ok ms" using all by (simp add: p(4) list_all_iff)
  show "\<exists>conn. normalizeConnection connection = Some conn \<and> list_all (\<lambda>m. cm_connectionId m = sn_connectionId conn) ms"
    using all p(1) by (auto simp: p(4) list_all_iff)
  have inj: "inj_on cm_modelId (set ms')" and d: "distinct ms'" using all by (simp_all add: distinct_map)
  have "strict_cmp (\<lambda>a b. collate (cm_modelId a) (cm_modelId b)) (set ms')"
    using strict_cmp_key [OF _ inj] assms(2) by (simp add: p(4))
  moreover have "compareCatalogModels collate a b = collate (cm_modelId a) (cm_modelId b)" if "a \<in> set ms'" "b \<in> set ms'" for a b
    using that all assms(3) by (simp add: compareCatalogModels_def list_all_iff)
  ultimately have "strict_cmp (compareCatalogModels collate) (set ms')" by (rule strict_cmp_cong)
  with d show "models_ascending collate ms" unfolding p(4) by (intro models_ascending_sorted sort_by_strict)
  show "canonical_iso t" by (rule p(2))
  have "mset (map cm_modelId ms) = mset (map cm_modelId ms')" by (simp add: p(4))
  then show "distinct (map cm_modelId ms)" using all mset_eq_imp_distinct_iff by blast
qed

section \<open>The tables of the catalog\<close>

definition store_ok :: "catalog_store \<Rightarrow> bool" where
  "store_ok S \<longleftrightarrow>
     (\<forall>r\<in>set (ks_models S). rowToCatalogModel r \<noteq> None) \<and> (\<forall>d\<in>set (ks_diagnostics S). diagnostic_ok d)
     \<and> distinct (map dg_diagnosticId (ks_diagnostics S))"

definition model_count_of :: "catalog_store \<Rightarrow> string \<Rightarrow> nat" where
  "model_count_of S c = length (filter (\<lambda>r. mr_connection_id r = c) (ks_models S))"

definition diagnostic_set :: "catalog_store \<Rightarrow> string \<Rightarrow> diagnostic set" where
  "diagnostic_set S c = {d \<in> set (ks_diagnostics S). dg_connectionId d = c}"

definition retained :: "catalog_store \<Rightarrow> bool" where
  "retained S \<longleftrightarrow> (\<forall>c. card (diagnostic_set S c) \<le> RETENTION_LIMIT)"

lemma rowToCatalogModel_connection: "rowToCatalogModel r = Some m \<Longrightarrow> cm_connectionId m = mr_connection_id r"
  by (auto simp: rowToCatalogModel_def requiredString_def Option.bind_eq_Some_conv Let_def split: if_splits)

lemma parse_all_total: "(\<forall>x\<in>set xs. f x \<noteq> None) \<Longrightarrow> \<exists>ys. parse_all f xs = Some ys"
  by (induction xs) (auto split: option.splits)

lemma parse_all_keys:
  "parse_all f xs = Some ys \<Longrightarrow> (\<And>x y. f x = Some y \<Longrightarrow> g y = h x) \<Longrightarrow> map g ys = map h xs"
  by (induction xs arbitrary: ys) (auto split: option.splits)

lemma length_filter_map: "length (filter (\<lambda>x. g x = c) xs) = length (filter (\<lambda>y. y = c) (map g xs))"
  by (induction xs) auto

lemma length_filter_mset: "mset xs = mset ys \<Longrightarrow> length (filter P xs) = length (filter P ys)"
  by (metis mset_filter size_mset)

lemma listModels_total:
  assumes "store_ok S"
  obtains ms where "listModels S = Some ms" and "\<And>c. length (filter (\<lambda>m. cm_connectionId m = c) ms) = model_count_of S c"
proof -
  have "\<forall>r\<in>set (sort_by by_identity (ks_models S)). rowToCatalogModel r \<noteq> None" using assms by (simp add: store_ok_def)
  then obtain ms where ms: "parse_all rowToCatalogModel (sort_by by_identity (ks_models S)) = Some ms"
    using parse_all_total by blast
  have "map cm_connectionId ms = map mr_connection_id (sort_by by_identity (ks_models S))"
    using ms by (rule parse_all_keys) (rule rowToCatalogModel_connection)
  then have "mset (map cm_connectionId ms) = mset (map mr_connection_id (ks_models S))" by simp
  then have "length (filter (\<lambda>m. cm_connectionId m = c) ms) = model_count_of S c" for c
    unfolding model_count_of_def length_filter_map [of cm_connectionId] length_filter_map [of mr_connection_id]
    by (rule length_filter_mset)
  with ms that show thesis by (auto simp: listModels_def)
qed

lemma listModelsForConnection_total:
  assumes "store_ok S"
  obtains ms where "listModelsForConnection S c = Some ms" and "length ms = model_count_of S c"
proof -
  have "\<forall>r\<in>set (sort_by by_identity (filter (\<lambda>r. mr_connection_id r = c) (ks_models S))). rowToCatalogModel r \<noteq> None"
    using assms by (simp add: store_ok_def)
  then obtain ms where ms: "parse_all rowToCatalogModel (sort_by by_identity (filter (\<lambda>r. mr_connection_id r = c) (ks_models S))) = Some ms"
    using parse_all_total by blast
  with parse_all_length [OF ms] that show thesis by (auto simp: listModelsForConnection_def model_count_of_def)
qed

text \<open>Among the last diagnostics of a connection the order of the rows does not matter.\<close>

lemma strict_newest_first: "inj_on dg_diagnosticId A \<Longrightarrow> strict_cmp newest_first A"
proof (rule strict_cmpI)
  show "newest_first x y \<noteq> 0" if "inj_on dg_diagnosticId A" "x \<in> A" "y \<in> A" "x \<noteq> y" for x y
    using that by (auto simp: newest_first_def inj_on_eq_iff)
  show "newest_first x y < 0 \<longleftrightarrow> 0 < newest_first y x" for x y by (auto simp: newest_first_def)
  show "newest_first x z < 0" if "newest_first x y < 0" "newest_first y z < 0" for x y z
    using that unfolding newest_first_def by (auto split: if_splits dest: str_less_trans str_less_asym)
qed

lemma newest_first_occurred: "newest_first e d < 0 \<Longrightarrow> \<not> str_less (dg_occurredAt e) (dg_occurredAt d)"
  using str_less_trans [of "dg_occurredAt e" "dg_occurredAt d" "dg_occurredAt e"] by (auto simp: newest_first_def split: if_splits)

lemma set_diagnostics_of [simp]: "set (diagnostics_of ds c) = {d \<in> set ds. dg_connectionId d = c}"
  by (auto simp: diagnostics_of_def)

lemma distinct_diagnostics_of: "distinct (map dg_diagnosticId ds) \<Longrightarrow> distinct (diagnostics_of ds c)"
  by (simp add: diagnostics_of_def distinct_map)

lemma late_in_sorted:
  assumes "sorted_wrt P xs" and "distinct xs" and "x \<in> set (drop n xs)"
  shows "n \<le> card {y \<in> set xs. P y x}"
proof -
  have "n < length xs" using assms(3) by (cases "n < length xs") auto
  then have "card (set (take n xs)) = n" using assms(2) by (simp add: distinct_card)
  moreover have "set (take n xs) \<subseteq> {y \<in> set xs. P y x}"
    using assms(1,3) sorted_wrt_append [of P "take n xs" "drop n xs"] by (auto dest: in_set_takeD)
  then have "card (set (take n xs)) \<le> card {y \<in> set xs. P y x}" by (intro card_mono) auto
  ultimately show ?thesis by simp
qed

lemma prune_subset: "set (deleteOldDiagnostics c ds) \<subseteq> set ds"
  by (auto simp: deleteOldDiagnostics_def)

lemma prune_distinct: "distinct (map dg_diagnosticId ds) \<Longrightarrow> distinct (map dg_diagnosticId (deleteOldDiagnostics c ds))"
  by (simp add: deleteOldDiagnostics_def distinct_map_filter)

lemma prune_member:
  assumes "distinct (map dg_diagnosticId ds)"
  shows "d \<in> set (deleteOldDiagnostics c ds) \<longleftrightarrow> d \<in> set ds \<and> d \<notin> set (drop RETENTION_LIMIT (diagnostics_of ds c))"
proof -
  have "inj_on dg_diagnosticId (set ds)" using assms by (simp add: distinct_map)
  then have "dg_diagnosticId d \<in> dg_diagnosticId ` set (drop RETENTION_LIMIT (diagnostics_of ds c))
      \<longleftrightarrow> d \<in> set (drop RETENTION_LIMIT (diagnostics_of ds c))" if "d \<in> set ds"
    using that set_drop_subset [of RETENTION_LIMIT "diagnostics_of ds c"] by (auto simp: inj_on_eq_iff)
  then show ?thesis by (auto simp: deleteOldDiagnostics_def)
qed

lemma prune_other:
  assumes "distinct (map dg_diagnosticId ds)" and "b \<noteq> c"
  shows "{d \<in> set (deleteOldDiagnostics c ds). dg_connectionId d = b} = {d \<in> set ds. dg_connectionId d = b}"
  using assms(2) set_drop_subset [of RETENTION_LIMIT "diagnostics_of ds c"] by (auto simp: prune_member [OF assms(1)])

lemma prune_bound:
  assumes "distinct (map dg_diagnosticId ds)"
  shows "card {d \<in> set (deleteOldDiagnostics c ds). dg_connectionId d = c} \<le> RETENTION_LIMIT"
proof -
  have "{d \<in> set (deleteOldDiagnostics c ds). dg_connectionId d = c} \<subseteq> set (take RETENTION_LIMIT (diagnostics_of ds c))"
  proof
    fix d assume "d \<in> {d \<in> set (deleteOldDiagnostics c ds). dg_connectionId d = c}"
    then have "d \<in> set (diagnostics_of ds c)" "d \<notin> set (drop RETENTION_LIMIT (diagnostics_of ds c))"
      by (auto simp: prune_member [OF assms])
    then show "d \<in> set (take RETENTION_LIMIT (diagnostics_of ds c))"
      by (metis Un_iff append_take_drop_id set_append)
  qed
  then have "card {d \<in> set (deleteOldDiagnostics c ds). dg_connectionId d = c} \<le> card (set (take RETENTION_LIMIT (diagnostics_of ds c)))"
    by (intro card_mono) auto
  also have "\<dots> \<le> length (take RETENTION_LIMIT (diagnostics_of ds c))" by (rule card_length)
  finally show ?thesis by simp
qed

lemma prune_keeps:
  assumes "distinct (map dg_diagnosticId ds)" and "d \<in> set ds" and "dg_connectionId d = c"
    and "card {e \<in> set ds. dg_connectionId e = c \<and> \<not> str_less (dg_occurredAt e) (dg_occurredAt d)} \<le> RETENTION_LIMIT"
  shows "d \<in> set (deleteOldDiagnostics c ds)"
proof (rule ccontr)
  assume "d \<notin> set (deleteOldDiagnostics c ds)"
  then have late: "d \<in> set (drop RETENTION_LIMIT (diagnostics_of ds c))" using assms(2) by (simp add: prune_member [OF assms(1)])
  have inj: "inj_on dg_diagnosticId (set (filter (\<lambda>d. dg_connectionId d = c) ds))"
    using assms(1) by (auto simp: distinct_map intro: inj_on_subset)
  have sorted: "sorted_wrt (\<lambda>a b. newest_first a b < 0) (diagnostics_of ds c)"
    unfolding diagnostics_of_def using assms(1) by (intro sort_by_strict strict_newest_first inj) (simp add: distinct_map)
  let ?later = "{e \<in> set ds. dg_connectionId e = c \<and> \<not> str_less (dg_occurredAt e) (dg_occurredAt d)}"
  have "{e \<in> set (diagnostics_of ds c). newest_first e d < 0} \<subseteq> ?later - {d}"
  proof
    fix e assume e: "e \<in> {e \<in> set (diagnostics_of ds c). newest_first e d < 0}"
    then have "e \<noteq> d" by (auto simp: newest_first_def)
    with e newest_first_occurred [of e d] show "e \<in> ?later - {d}" by simp
  qed
  then have "card {e \<in> set (diagnostics_of ds c). newest_first e d < 0} \<le> card (?later - {d})" by (rule card_mono [rotated]) simp
  also have "\<dots> < card ?later" using assms(2,3) by (intro card_Diff1_less) simp_all
  finally have "card {e \<in> set (diagnostics_of ds c). newest_first e d < 0} < card ?later" .
  with late_in_sorted [OF sorted distinct_diagnostics_of [OF assms(1)] late] assms(4) show False by linarith
qed

end
