(* ===== verification/CatalogWorld.thy ===== *)
theory CatalogWorld
  imports CatalogFacts CatalogScans
begin

text \<open>
  The catalog as a system: connections are claimed, scanned and settled in any interleaving, with crashes and the
  settlement of interrupted claims, and after every step the dashboard can show every active connection.
\<close>

section \<open>Storing an outcome\<close>

text \<open>What storing an outcome of connection \<open>c\<close> with diagnostic \<open>d\<close> and \<open>n\<close> models does to the tables.\<close>

definition stored_outcome :: "string \<Rightarrow> diagnostic \<Rightarrow> nat \<Rightarrow> catalog_store \<Rightarrow> catalog_store \<Rightarrow> bool" where
  "stored_outcome c d n S S' \<longleftrightarrow>
     store_ok S' \<and> model_count_of S' c = n \<and> diagnostic_set S' c \<subseteq> insert d (diagnostic_set S c)
     \<and> card (diagnostic_set S' c) \<le> RETENTION_LIMIT
     \<and> (\<forall>b. b \<noteq> c \<longrightarrow> model_count_of S' b = model_count_of S b \<and> diagnostic_set S' b = diagnostic_set S b)
     \<and> (card {e \<in> insert d (diagnostic_set S c). \<not> str_less (dg_occurredAt e) (dg_occurredAt d)} \<le> RETENTION_LIMIT
        \<longrightarrow> d \<in> diagnostic_set S' c)"

lemma stored_outcomeI:
  assumes "distinct (map dg_diagnosticId ds)" and "\<forall>e\<in>set ds. diagnostic_ok e" and "set ds = insert d (set (ks_diagnostics S))"
    and "dg_connectionId d = c" and "\<forall>r\<in>set ms. rowToCatalogModel r \<noteq> None"
    and "length (filter (\<lambda>r. mr_connection_id r = c) ms) = n"
    and "\<And>b. b \<noteq> c \<Longrightarrow> filter (\<lambda>r. mr_connection_id r = b) ms = filter (\<lambda>r. mr_connection_id r = b) (ks_models S)"
  shows "stored_outcome c d n S \<lparr>ks_models = ms, ks_diagnostics = deleteOldDiagnostics c ds\<rparr>"
proof -
  have set: "insert d (diagnostic_set S c) = {e \<in> set ds. dg_connectionId e = c}"
    using assms(3,4) by (auto simp: diagnostic_set_def)
  have "diagnostic_set \<lparr>ks_models = ms, ks_diagnostics = deleteOldDiagnostics c ds\<rparr> b = diagnostic_set S b" if "b \<noteq> c" for b
    using prune_other [OF assms(1) that] assms(3,4) that by (auto simp: diagnostic_set_def)
  moreover have "d \<in> set (deleteOldDiagnostics c ds)"
    if "card {e \<in> insert d (diagnostic_set S c). \<not> str_less (dg_occurredAt e) (dg_occurredAt d)} \<le> RETENTION_LIMIT"
    using that assms(3,4) unfolding set by (intro prune_keeps [OF assms(1)]) (auto simp: conj_assoc)
  ultimately show ?thesis
    using assms prune_bound [OF assms(1), of c] prune_subset [of c ds] prune_distinct [OF assms(1)]
    unfolding stored_outcome_def set
    by (auto simp: store_ok_def model_count_of_def diagnostic_set_def)
qed

lemma insertModels_Some: "insertModels ms rs = Some rs' \<Longrightarrow> rs' = rs @ map model_columns ms"
proof (induction ms arbitrary: rs)
  case (Cons m ms)
  then have "insertModels ms (rs @ [model_columns m]) = Some rs'" by (simp add: insertModel_def split: if_splits)
  with Cons.IH [of "rs @ [model_columns m]"] show ?case by simp
qed simp

lemma insertDiagnostic_Some:
  "insertDiagnostic d ds = Some es \<longleftrightarrow> (\<forall>e\<in>set ds. dg_diagnosticId e \<noteq> dg_diagnosticId d) \<and> es = ds @ [d]"
  by (auto simp: insertDiagnostic_def list_ex_iff)

lemma filter_deleted:
  "filter (\<lambda>r. mr_connection_id r = b) (deleteModelsForConnection c rs) = (if b = c then [] else filter (\<lambda>r. mr_connection_id r = b) rs)"
  by (induction rs) (auto simp: deleteModelsForConnection_def)

lemma model_columns_connection [simp]: "mr_connection_id (model_columns m) = cm_connectionId m"
  by (simp add: model_columns_def)

lemma applyScanOutcome_stored:
  assumes "store_ok S" and "applyScanOutcome collate sto S = Some S'"
  shows "stored_outcome (os_connectionId sto) (os_diagnostic sto) (length (os_models sto)) S S'"
    and "outcome_ok collate sto"
proof -
  from assms(2) obtain ds where p: "outcome_ok collate sto"
      "S' = \<lparr>ks_models = deleteModelsForConnection (os_connectionId sto) (ks_models S) @ map model_columns (os_models sto),
         ks_diagnostics = deleteOldDiagnostics (os_connectionId sto) ds\<rparr>"
      "insertDiagnostic (os_diagnostic sto) (ks_diagnostics S) = Some ds"
    by (auto simp: applyScanOutcome_def Option.bind_eq_Some_conv dest: insertModels_Some split: if_splits)
  let ?c = "os_connectionId sto"
  have conn: "\<forall>m\<in>set (os_models sto). cm_connectionId m = ?c \<and> model_ok m" "dg_connectionId (os_diagnostic sto) = ?c"
      "diagnostic_ok (os_diagnostic sto)"
    using p(1) by (auto simp: outcome_ok_def list_all_iff)
  have ds: "distinct (map dg_diagnosticId ds)" "\<forall>e\<in>set ds. diagnostic_ok e" "set ds = insert (os_diagnostic sto) (set (ks_diagnostics S))"
    using p(3) assms(1) conn(3) by (auto simp: insertDiagnostic_Some store_ok_def)
  have all: "filter (\<lambda>r. mr_connection_id r = b) (map model_columns (os_models sto))
      = (if b = ?c then map model_columns (os_models sto) else [])" for b
    using conn(1) by (auto simp: filter_id_conv filter_empty_conv)
  have rows: "\<forall>r\<in>set (deleteModelsForConnection ?c (ks_models S) @ map model_columns (os_models sto)). rowToCatalogModel r \<noteq> None"
    using assms(1) conn(1) by (auto simp: deleteModelsForConnection_def store_ok_def row_of_model)
  show "stored_outcome ?c (os_diagnostic sto) (length (os_models sto)) S S'"
    unfolding p(2) by (rule stored_outcomeI [OF ds conn(2) rows]) (simp_all add: filter_deleted all)
  show "outcome_ok collate sto" by (rule p(1))
qed

lemma applyIdempotent_stored:
  assumes "store_ok S" and "applyIdempotentFailureOutcome collate sto S = Some S'"
  shows "stored_outcome (os_connectionId sto) (os_diagnostic sto) 0 S S'" and "outcome_ok collate sto"
proof -
  from assms(2) have ok: "outcome_ok collate sto" by (simp add: applyIdempotentFailureOutcome_def split: if_splits)
  let ?c = "os_connectionId sto"
  have conn: "dg_connectionId (os_diagnostic sto) = ?c" "diagnostic_ok (os_diagnostic sto)" using ok by (auto simp: outcome_ok_def)
  have "\<exists>ds. distinct (map dg_diagnosticId ds) \<and> (\<forall>e\<in>set ds. diagnostic_ok e) \<and> set ds = insert (os_diagnostic sto) (set (ks_diagnostics S))
      \<and> S' = \<lparr>ks_models = deleteModelsForConnection ?c (ks_models S), ks_diagnostics = deleteOldDiagnostics ?c ds\<rparr>"
  proof (cases "List.find (\<lambda>d. dg_diagnosticId d = dg_diagnosticId (os_diagnostic sto)) (ks_diagnostics S)")
    case None
    with assms(2) obtain ds where "insertDiagnostic (os_diagnostic sto) (ks_diagnostics S) = Some ds"
        "S' = \<lparr>ks_models = deleteModelsForConnection ?c (ks_models S), ks_diagnostics = deleteOldDiagnostics ?c ds\<rparr>"
      by (auto simp: applyIdempotentFailureOutcome_def Option.bind_eq_Some_conv split: if_splits)
    with assms(1) conn(2) show ?thesis by (intro exI [of _ ds]) (auto simp: insertDiagnostic_Some store_ok_def)
  next
    case (Some e)
    with assms(2) have "e = os_diagnostic sto"
        "S' = \<lparr>ks_models = deleteModelsForConnection ?c (ks_models S), ks_diagnostics = deleteOldDiagnostics ?c (ks_diagnostics S)\<rparr>"
      by (auto simp: applyIdempotentFailureOutcome_def rowToCatalogDiagnostic_def Option.bind_eq_Some_conv split: if_splits)
    with assms(1) find_Some_set [OF Some] show ?thesis by (intro exI [of _ "ks_diagnostics S"]) (auto simp: store_ok_def)
  qed
  then obtain ds where ds: "distinct (map dg_diagnosticId ds)" "\<forall>e\<in>set ds. diagnostic_ok e"
      "set ds = insert (os_diagnostic sto) (set (ks_diagnostics S))"
      "S' = \<lparr>ks_models = deleteModelsForConnection ?c (ks_models S), ks_diagnostics = deleteOldDiagnostics ?c ds\<rparr>" by blast
  have rows: "\<forall>r\<in>set (deleteModelsForConnection ?c (ks_models S)). rowToCatalogModel r \<noteq> None"
    using assms(1) by (auto simp: deleteModelsForConnection_def store_ok_def)
  show "stored_outcome ?c (os_diagnostic sto) 0 S S'"
    unfolding ds(4) by (rule stored_outcomeI [OF ds(1-3) conn(1) rows]) (simp_all add: filter_deleted)
  show "outcome_ok collate sto" by (rule ok)
qed

section \<open>The running system\<close>

text \<open>
  A scan in flight with what the world answers it (\<open>scan_env\<close>): claimed, discovered, or on the failure path. A crash
  forgets the scans in flight and keeps the tables. The clock never goes back, shows years of four digits, and a connection is
  claimed at a later millisecond than its last diagnostic.
\<close>

datatype task = T_claimed ledger_record | T_discovered ledger_record scan_result | T_failing

record world =
  wd_db :: catalog_db
  wd_tasks :: "string \<rightharpoonup> scan_env \<times> task"
  wd_clock :: int

definition tick :: "world \<Rightarrow> string \<Rightarrow> bool" where
  "tick w t \<longleftrightarrow> common_era t \<and> wd_clock w \<le> date_parse t"

definition still_active :: "scan_env \<Rightarrow> string \<Rightarrow> bool" where
  "still_active en c \<longleftrightarrow>
     (case de_connection (se_discovery en) of None \<Rightarrow> False | Some p \<Rightarrow> pv_connectionId p = c \<and> pv_lifecycleState p = lc_active)"

definition advance :: "world \<Rightarrow> catalog_db \<Rightarrow> string \<Rightarrow> (scan_env \<times> task) option \<Rightarrow> string \<Rightarrow> world" where
  "advance w db c t now = \<lparr>wd_db = db, wd_tasks = (wd_tasks w)(c := t), wd_clock = date_parse now\<rparr>"

inductive catalog_step :: "(string \<Rightarrow> string \<Rightarrow> int) \<Rightarrow> (string \<Rightarrow> string) \<Rightarrow> world \<Rightarrow> world \<Rightarrow> bool" for collate sha where
  initialize: "initializeNeverScanned i (db_ledger (wd_db w)) = Some (r, L) \<Longrightarrow>
    catalog_step collate sha w (w\<lparr>wd_db := (wd_db w)\<lparr>db_ledger := L\<rparr>\<rparr>)"
| claim: "wd_tasks w c = None \<Longrightarrow> claim_scan en c tr mode (db_ledger (wd_db w)) = Some (Claimed r, L) \<Longrightarrow> tick w (se_claimedAt en) \<Longrightarrow>
    (\<And>d. d \<in> diagnostic_set (db_store (wd_db w)) c \<Longrightarrow> date_parse (dg_occurredAt d) < date_parse (se_claimedAt en)) \<Longrightarrow>
    catalog_step collate sha w (advance w ((wd_db w)\<lparr>db_ledger := L\<rparr>) c (Some (en, T_claimed r)) (se_claimedAt en))"
| discover: "wd_tasks w c = Some (en, T_claimed r) \<Longrightarrow> still_active en c \<Longrightarrow> tick w (de_scanAt (se_discovery en)) \<Longrightarrow>
    discover collate (se_discovery en) c (se_attemptId en) (db_store (wd_db w)) = (res, S) \<Longrightarrow>
    catalog_step collate sha w (advance w ((wd_db w)\<lparr>db_store := S\<rparr>) c
      (Some (en, case res of Some x \<Rightarrow> T_discovered r x | None \<Rightarrow> T_failing)) (de_scanAt (se_discovery en)))"
| settle: "wd_tasks w c = Some (en, T_discovered r res) \<Longrightarrow> tick w (se_settledNow en) \<Longrightarrow>
    settleDiscoveryResult r res (se_settledNow en) (db_ledger (wd_db w)) = Some (q, L) \<Longrightarrow>
    catalog_step collate sha w (advance w ((wd_db w)\<lparr>db_ledger := L\<rparr>) c None (se_settledNow en))"
| settle_throws: "wd_tasks w c = Some (en, T_discovered r res) \<Longrightarrow> tick w (se_settledNow en) \<Longrightarrow>
    settleDiscoveryResult r res (se_settledNow en) (db_ledger (wd_db w)) = None \<Longrightarrow>
    catalog_step collate sha w (advance w (wd_db w) c (Some (en, T_failing)) (se_settledNow en))"
| fail: "wd_tasks w c = Some (en, T_failing) \<Longrightarrow> tick w (se_failedNow en) \<Longrightarrow>
    coordinator_fail collate sha en c (wd_db w) = (x, db) \<Longrightarrow>
    catalog_step collate sha w (advance w db c None (se_failedNow en))"
| crash: "catalog_step collate sha w (w\<lparr>wd_tasks := Map.empty\<rparr>)"
| interrupted: "wd_tasks w (lr_connectionId r) = None \<Longrightarrow> row (db_ledger (wd_db w)) (lr_connectionId r) = Some r \<Longrightarrow> tick w now \<Longrightarrow>
    settleInterrupted collate sha notified now r (wd_db w) = (x, db) \<Longrightarrow>
    catalog_step collate sha w (advance w db (lr_connectionId r) None now)"

inductive reachable :: "(string \<Rightarrow> string \<Rightarrow> int) \<Rightarrow> (string \<Rightarrow> string) \<Rightarrow> world \<Rightarrow> bool" for collate sha where
  start: "reachable collate sha \<lparr>wd_db = \<lparr>db_ledger = [], db_store = \<lparr>ks_models = [], ks_diagnostics = []\<rparr>\<rparr>, wd_tasks = Map.empty, wd_clock = t\<rparr>"
| step: "reachable collate sha w \<Longrightarrow> catalog_step collate sha w w' \<Longrightarrow> reachable collate sha w'"

section \<open>The invariant\<close>

text \<open>The diagnostics of the failure paths of an attempt have identifiers of their own; discovery leaves at most one more.\<close>

definition failure_ids :: "(string \<Rightarrow> string) \<Rightarrow> string \<Rightarrow> string \<Rightarrow> string set" where
  "failure_ids sha c attempt =
     {deterministicDiagnosticId sha for_coordinator c attempt, deterministicDiagnosticId sha for_interrupted c attempt}"

definition fresh_diagnostics :: "string \<Rightarrow> diagnostic set \<Rightarrow> diagnostic set" where
  "fresh_diagnostics claimed D = {d \<in> D. date_parse claimed \<le> date_parse (dg_occurredAt d)}"

text \<open>The tables show the result of a discovery that is not settled yet.\<close>

definition result_shown :: "ledger_record \<Rightarrow> scan_result \<Rightarrow> nat \<Rightarrow> diagnostic set \<Rightarrow> bool" where
  "result_shown r res n D \<longleftrightarrow>
     (let d = sr_diagnostic res in
      d \<in> D \<and> dg_outcome d = sr_outcome res \<and> lr_attemptId r = Some (dg_scanCorrelationId d)
      \<and> (case lr_claimedAt r of None \<Rightarrow> False | Some claimed \<Rightarrow> date_parse claimed \<le> date_parse (dg_occurredAt d))
      \<and> sr_modelCount res = int n \<and> (sr_outcome res = sc_success \<or> n = 0))"

definition scanning_ok ::
  "(string \<Rightarrow> string) \<Rightarrow> int \<Rightarrow> string \<Rightarrow> ledger_record \<Rightarrow> (scan_env \<times> task) option \<Rightarrow> nat \<Rightarrow> diagnostic set \<Rightarrow> bool" where
  "scanning_ok sha k c r t n D \<longleftrightarrow>
     (\<exists>attempt claimed. lr_attemptId r = Some attempt \<and> lr_claimedAt r = Some claimed \<and> common_era claimed \<and> date_parse claimed \<le> k
        \<and> (let extra = {d \<in> fresh_diagnostics claimed D. dg_diagnosticId d \<notin> failure_ids sha c attempt} in
           card extra \<le> 1
           \<and> (case t of
                None \<Rightarrow> True
              | Some (en, u) \<Rightarrow>
                  se_attemptId en = attempt \<and> se_claimedAt en = claimed \<and> lr_reconciliationVersion r = TARGET_VERSION
                  \<and> (case u of
                       T_claimed q \<Rightarrow> q = r \<and> fresh_diagnostics claimed D = {}
                     | T_discovered q res \<Rightarrow> q = r \<and> result_shown r res n D
                     | T_failing \<Rightarrow> True))))"

definition connection_ok ::
  "(string \<Rightarrow> string) \<Rightarrow> int \<Rightarrow> string \<Rightarrow> ledger_record option \<Rightarrow> (scan_env \<times> task) option \<Rightarrow> nat \<Rightarrow> diagnostic set \<Rightarrow> bool" where
  "connection_ok sha k c found t n D \<longleftrightarrow>
     (case found of
        None \<Rightarrow> n = 0 \<and> t = None
      | Some r \<Rightarrow>
          if lr_scanState r = never_scanned then n = 0 \<and> t = None
          else if lr_scanState r = scanning then scanning_ok sha k c r t n D
          else t = None \<and> (\<exists>d\<in>D. lr_diagnosticId r = Some (dg_diagnosticId d) \<and> validateConsistentFacts r (int n) (Some d)))"

definition world_ok :: "(string \<Rightarrow> string) \<Rightarrow> world \<Rightarrow> bool" where
  "world_ok sha w \<longleftrightarrow>
     ledger_ok (db_ledger (wd_db w)) \<and> store_ok (db_store (wd_db w))
     \<and> (\<forall>c. (\<forall>d\<in>diagnostic_set (db_store (wd_db w)) c. common_era (dg_occurredAt d) \<and> date_parse (dg_occurredAt d) \<le> wd_clock w)
            \<and> card (diagnostic_set (db_store (wd_db w)) c) \<le> RETENTION_LIMIT
            \<and> connection_ok sha (wd_clock w) c (row (db_ledger (wd_db w)) c) (wd_tasks w c)
                (model_count_of (db_store (wd_db w)) c) (diagnostic_set (db_store (wd_db w)) c))"

section \<open>Preservation\<close>

lemma scanning_mono: "scanning_ok sha k c r t n D \<Longrightarrow> k \<le> k' \<Longrightarrow> scanning_ok sha k' c r t n D"
  unfolding scanning_ok_def by (elim exE conjE) (intro exI conjI, assumption+, simp, assumption)

lemma connection_mono: "connection_ok sha k c found t n D \<Longrightarrow> k \<le> k' \<Longrightarrow> connection_ok sha k' c found t n D"
  by (auto simp: connection_ok_def intro: scanning_mono split: option.splits)

lemma advance_ok:
  assumes "world_ok sha w" and "tick w now" and "ledger_ok (db_ledger db)" and "store_ok (db_store db)"
    and "\<And>b. b \<noteq> c \<Longrightarrow> row (db_ledger db) b = row (db_ledger (wd_db w)) b"
    and "\<And>b. b \<noteq> c \<Longrightarrow> model_count_of (db_store db) b = model_count_of (db_store (wd_db w)) b"
    and "\<And>b. b \<noteq> c \<Longrightarrow> diagnostic_set (db_store db) b = diagnostic_set (db_store (wd_db w)) b"
    and "\<forall>d\<in>diagnostic_set (db_store db) c. common_era (dg_occurredAt d) \<and> date_parse (dg_occurredAt d) \<le> date_parse now"
    and "card (diagnostic_set (db_store db) c) \<le> RETENTION_LIMIT"
    and "connection_ok sha (date_parse now) c (row (db_ledger db) c) t (model_count_of (db_store db) c) (diagnostic_set (db_store db) c)"
  shows "world_ok sha (advance w db c t now)"
proof -
  have le: "wd_clock w \<le> date_parse now" using assms(2) by (simp add: tick_def)
  have "(\<forall>d\<in>diagnostic_set (db_store db) b. common_era (dg_occurredAt d) \<and> date_parse (dg_occurredAt d) \<le> date_parse now)
      \<and> card (diagnostic_set (db_store db) b) \<le> RETENTION_LIMIT
      \<and> connection_ok sha (date_parse now) b (row (db_ledger db) b) (((wd_tasks w)(c := t)) b)
          (model_count_of (db_store db) b) (diagnostic_set (db_store db) b)" for b
  proof (cases "b = c")
    case True
    with assms(8-10) show ?thesis by simp
  next
    case False
    have "\<forall>d\<in>diagnostic_set (db_store (wd_db w)) b. common_era (dg_occurredAt d) \<and> date_parse (dg_occurredAt d) \<le> wd_clock w"
        "card (diagnostic_set (db_store (wd_db w)) b) \<le> RETENTION_LIMIT"
        "connection_ok sha (wd_clock w) b (row (db_ledger (wd_db w)) b) (wd_tasks w b)
          (model_count_of (db_store (wd_db w)) b) (diagnostic_set (db_store (wd_db w)) b)"
      using assms(1) unfolding world_ok_def by blast+
    with connection_mono [OF _ le] le False show ?thesis by (force simp: assms(5-7) [OF False])
  qed
  then show ?thesis using assms(3,4) by (simp add: world_ok_def advance_def)
qed

lemma world_okD:
  assumes "world_ok sha w"
  shows "ledger_ok (db_ledger (wd_db w))" and "store_ok (db_store (wd_db w))"
    and "d \<in> diagnostic_set (db_store (wd_db w)) c \<Longrightarrow> common_era (dg_occurredAt d) \<and> date_parse (dg_occurredAt d) \<le> wd_clock w"
    and "card (diagnostic_set (db_store (wd_db w)) c) \<le> RETENTION_LIMIT"
    and "connection_ok sha (wd_clock w) c (row (db_ledger (wd_db w)) c) (wd_tasks w c)
          (model_count_of (db_store (wd_db w)) c) (diagnostic_set (db_store (wd_db w)) c)"
  using assms unfolding world_ok_def by blast+

lemma task_scanning:
  assumes "connection_ok sha k c found (Some (en, u)) n D"
  obtains r attempt claimed where "found = Some r" and "lr_scanState r = scanning" and "scanning_ok sha k c r (Some (en, u)) n D"
    and "lr_attemptId r = Some attempt" and "lr_claimedAt r = Some claimed" and "common_era claimed" and "date_parse claimed \<le> k"
    and "se_attemptId en = attempt" and "se_claimedAt en = claimed" and "lr_reconciliationVersion r = TARGET_VERSION"
    and "card {d \<in> fresh_diagnostics claimed D. dg_diagnosticId d \<notin> failure_ids sha c attempt} \<le> 1"
    and "case u of T_claimed q \<Rightarrow> q = r \<and> fresh_diagnostics claimed D = {} | T_discovered q res \<Rightarrow> q = r \<and> result_shown r res n D
           | T_failing \<Rightarrow> True"
  using assms by (auto simp: connection_ok_def scanning_ok_def Let_def split: option.splits if_splits)

text \<open>The latest of several readings of the clock.\<close>

lemma last_sorted_str:
  "xs \<noteq> [] \<Longrightarrow> last (sort_by str_cmp xs) \<in> set xs \<and> (\<forall>u\<in>set xs. \<not> str_less (last (sort_by str_cmp xs)) u)"
proof -
  have ins: "sorted_wrt (\<lambda>a b. \<not> str_less b a) (insert_by str_cmp x ys)" if "sorted_wrt (\<lambda>a b. \<not> str_less b a) ys" for x ys
    using that
  proof (induction ys)
    case (Cons y ys)
    have "\<not> str_less z x" if "\<not> str_less y x" "\<not> str_less z y" for z
      using that str_less_trans str_less_linear by metis
    with Cons show ?case
      by (auto simp: not_less [symmetric] intro: str_less_asym dest: str_less_asym)
  qed simp
  then have sorted: "sorted_wrt (\<lambda>a b. \<not> str_less b a) (sort_by str_cmp xs)" for xs
    by (induction xs) (simp_all add: sort_by_def)
  assume "xs \<noteq> []"
  then have ne: "sort_by str_cmp xs \<noteq> []" using length_sort_by [of str_cmp xs] by (metis length_0_conv)
  then have split: "sort_by str_cmp xs = butlast (sort_by str_cmp xs) @ [last (sort_by str_cmp xs)]" by simp
  have "last (sort_by str_cmp xs) \<in> set xs" using last_in_set [OF ne] by simp
  moreover have "\<not> str_less (last (sort_by str_cmp xs)) u" if "u \<in> set xs" for u
  proof (cases "u = last (sort_by str_cmp xs)")
    case False
    have "u \<in> set (sort_by str_cmp xs)" using that by simp
    then have "u \<in> set (butlast (sort_by str_cmp xs))" using False split by (metis Un_iff empty_iff insert_iff list.set set_append)
    with sorted [of xs] split show ?thesis by (metis list.set_intros(1) sorted_wrt_append)
  qed simp
  ultimately show ?thesis by blast
qed

lemma latestTimestamp_Some:
  assumes "latestTimestamp ts = Some t" and "\<forall>u\<in>set ts. common_era u" and "ts \<noteq> []"
  shows "t \<in> set ts" and "\<forall>u\<in>set ts. date_parse u \<le> date_parse t"
proof -
  have "map id us = map id ts" if "parse_all canonicalTimestamp ts = Some us" for us
    using that by (rule parse_all_keys) (simp add: canonicalTimestamp_def split: if_splits)
  with assms(1) have t: "t = last (sort_by str_cmp ts)" by (auto simp: latestTimestamp_def Option.bind_eq_Some_conv)
  note max = last_sorted_str [OF assms(3), folded t]
  show "t \<in> set ts" using max by simp
  show "\<forall>u\<in>set ts. date_parse u \<le> date_parse t"
    using max assms(2) iso_order [of t] by (force simp: not_less)
qed

text \<open>The last diagnostics of an attempt are few, so none of them is pruned.\<close>

lemma card_failure_ids: "card (failure_ids sha c attempt) \<le> 2"
  by (simp add: failure_ids_def card_insert_if)

lemma fresh_bound:
  assumes "finite D" and "inj_on dg_diagnosticId D"
    and "card {d \<in> fresh_diagnostics claimed D. dg_diagnosticId d \<notin> failure_ids sha c attempt} \<le> 1"
  shows "card (fresh_diagnostics claimed D) \<le> 3"
proof -
  let ?A = "{d \<in> fresh_diagnostics claimed D. dg_diagnosticId d \<notin> failure_ids sha c attempt}"
  let ?B = "{d \<in> fresh_diagnostics claimed D. dg_diagnosticId d \<in> failure_ids sha c attempt}"
  have "inj_on dg_diagnosticId ?B" using assms(2) by (rule inj_on_subset) (auto simp: fresh_diagnostics_def)
  then have "card ?B \<le> card (failure_ids sha c attempt)"
    by (rule card_inj_on_le) (auto simp: failure_ids_def)
  with card_failure_ids [of sha c attempt] have "card ?B \<le> 2" by linarith
  moreover have "?A \<union> ?B = fresh_diagnostics claimed D" by auto
  then have "card (fresh_diagnostics claimed D) \<le> card ?A + card ?B" using card_Un_le [of ?A ?B] by simp
  ultimately show ?thesis using assms(3) by linarith
qed

lemma diagnostic_set_finite [simp]: "finite (diagnostic_set S c)"
  by (simp add: diagnostic_set_def)

lemma diagnostic_set_inj: "store_ok S \<Longrightarrow> inj_on dg_diagnosticId (diagnostic_set S c)"
  by (auto simp: store_ok_def distinct_map diagnostic_set_def intro: inj_on_subset)

lemma stored_kept:
  assumes "stored_outcome c d n S S'" and "\<forall>e\<in>diagnostic_set S c. common_era (dg_occurredAt e)" and "common_era (dg_occurredAt d)"
    and "date_parse claimed \<le> date_parse (dg_occurredAt d)" and "card (fresh_diagnostics claimed (diagnostic_set S c)) \<le> 3"
  shows "d \<in> diagnostic_set S' c"
proof -
  let ?later = "{e \<in> insert d (diagnostic_set S c). \<not> str_less (dg_occurredAt e) (dg_occurredAt d)}"
  have "?later \<subseteq> insert d (fresh_diagnostics claimed (diagnostic_set S c))"
    using assms(2-4) iso_order [of _ "dg_occurredAt d"] by (auto simp: fresh_diagnostics_def)
  then have "card ?later \<le> card (insert d (fresh_diagnostics claimed (diagnostic_set S c)))"
    by (rule card_mono [rotated]) (simp add: fresh_diagnostics_def)
  also have "\<dots> \<le> Suc (card (fresh_diagnostics claimed (diagnostic_set S c)))" by (rule card_insert_le_m1) simp_all
  finally have "card ?later \<le> RETENTION_LIMIT" using assms(5) by (simp add: RETENTION_LIMIT_def)
  with assms(1) show ?thesis by (simp add: stored_outcome_def)
qed

section \<open>Claiming\<close>

lemma claim_preserves:
  assumes "world_ok sha w" and "wd_tasks w c = None" and "claim_scan en c tr mode (db_ledger (wd_db w)) = Some (Claimed r, L)"
    and "tick w (se_claimedAt en)"
    and "\<And>d. d \<in> diagnostic_set (db_store (wd_db w)) c \<Longrightarrow> date_parse (dg_occurredAt d) < date_parse (se_claimedAt en)"
  shows "world_ok sha (advance w ((wd_db w)\<lparr>db_ledger := L\<rparr>) c (Some (en, T_claimed r)) (se_claimedAt en))"
proof -
  let ?i = "\<lparr>ci_connectionId = c, ci_reconciliationVersion = TARGET_VERSION, ci_trigger = tr, ci_attemptId = se_attemptId en,
       ci_claimedAt = se_claimedAt en, ci_mode = mode\<rparr>"
  note ok = world_okD [OF assms(1)]
  have claim: "claimAttempt ?i (db_ledger (wd_db w)) = Some (Claimed r, L)"
    using assms(3) by (auto simp: claim_scan_def canonicalTimestamp_def split: if_splits)
  then have r: "r = claimed_record ?i" "L = upsert r (db_ledger (wd_db w))"
    by (auto simp: claim_Some [OF ok(1)] split: option.splits if_splits)
  have "lr_connectionId r = c" by (simp add: r(1) claimed_record_def)
  moreover have none: "fresh_diagnostics (se_claimedAt en) (diagnostic_set (db_store (wd_db w)) c) = {}"
    using assms(5) by (auto simp: fresh_diagnostics_def not_le [symmetric])
  moreover have "scanning_ok sha (date_parse (se_claimedAt en)) c r (Some (en, T_claimed r)) n (diagnostic_set (db_store (wd_db w)) c)" for n
    using assms(4) none by (simp add: scanning_ok_def r(1) claimed_record_def tick_def)
  then have "connection_ok sha (date_parse (se_claimedAt en)) c (Some r) (Some (en, T_claimed r)) n (diagnostic_set (db_store (wd_db w)) c)" for n
    by (simp add: connection_ok_def r(1) claimed_record_def)
  ultimately show ?thesis
    using ok(2-4) claim_step(1) [OF ok(1) claim] assms(4)
    by (intro advance_ok [OF assms(1,4)]) (force simp: r(2) tick_def)+
qed

section \<open>Discovery\<close>

lemma persistResult_cases:
  assumes "persistResult collate en c corr outcome http models S = (res, S')"
  shows "(res = None \<and> S' = S) \<or> (\<exists>sto. applyScanOutcome collate sto S = Some S' \<and> os_connectionId sto = c
     \<and> os_diagnostic sto = createCatalogScanDiagnostic (de_uuid en) c corr outcome http (de_scanAt en)
     \<and> (\<forall>x. res = Some x \<longrightarrow> sr_diagnostic x = os_diagnostic sto \<and> sr_outcome x = outcome \<and> sr_modelCount x = int (length (os_models sto))))"
  using assms unfolding persistResult_def Let_def by (fastforce split: option.splits if_splits)

lemma discover_cases:
  assumes "discover collate (se_discovery en) c corr S = (res, S')" and "still_active en c"
  shows "(res = None \<and> S' = S) \<or> (\<exists>sto. applyScanOutcome collate sto S = Some S' \<and> os_connectionId sto = c
     \<and> dg_scanCorrelationId (os_diagnostic sto) = corr \<and> dg_occurredAt (os_diagnostic sto) = de_scanAt (se_discovery en)
     \<and> (\<forall>x. res = Some x \<longrightarrow> sr_diagnostic x = os_diagnostic sto \<and> sr_outcome x = dg_outcome (os_diagnostic sto)
           \<and> sr_modelCount x = int (length (os_models sto))))"
proof -
  from assms(2) obtain p where p: "de_connection (se_discovery en) = Some p" "pv_connectionId p = c" "pv_lifecycleState p = lc_active"
    by (auto simp: still_active_def split: option.splits)
  show ?thesis
  proof (cases "isBoundedString c \<and> isBoundedString corr")
    case False
    with assms(1) show ?thesis by (auto simp: discover_def)
  next
    case True
    obtain outcome http models where "persistResult collate (se_discovery en) c corr outcome http models S = (res, S')"
      using assms(1) True p unfolding discover_def by (auto split: scanner_answer.splits sum.splits)
    from persistResult_cases [OF this] show ?thesis by (auto simp: createCatalogScanDiagnostic_def)
  qed
qed

text \<open>A step that leaves the tables of the catalog alone.\<close>

lemma stored_frame:
  assumes "world_ok sha w" and "tick w now" and "stored_outcome c d n (db_store (wd_db w)) S" and "L = db_ledger (wd_db w) \<or> ledger_ok L"
    and "\<And>b. b \<noteq> c \<Longrightarrow> row L b = row (db_ledger (wd_db w)) b"
    and "common_era (dg_occurredAt d)" and "date_parse (dg_occurredAt d) \<le> date_parse now"
    and "connection_ok sha (date_parse now) c (row L c) t n (diagnostic_set S c)"
  shows "world_ok sha (advance w \<lparr>db_ledger = L, db_store = S\<rparr> c t now)"
proof -
  note ok = world_okD [OF assms(1)]
  have st: "store_ok S" "model_count_of S c = n" "diagnostic_set S c \<subseteq> insert d (diagnostic_set (db_store (wd_db w)) c)"
      "card (diagnostic_set S c) \<le> RETENTION_LIMIT"
      "\<And>b. b \<noteq> c \<Longrightarrow> model_count_of S b = model_count_of (db_store (wd_db w)) b"
      "\<And>b. b \<noteq> c \<Longrightarrow> diagnostic_set S b = diagnostic_set (db_store (wd_db w)) b"
    using assms(3) by (auto simp: stored_outcome_def)
  have "wd_clock w \<le> date_parse now" using assms(2) by (simp add: tick_def)
  then have "\<forall>e\<in>diagnostic_set S c. common_era (dg_occurredAt e) \<and> date_parse (dg_occurredAt e) \<le> date_parse now"
    using st(3) ok(3) [of _ c] assms(6,7) by force
  then show ?thesis
    using ok(1) assms(4,5,8) st by (intro advance_ok [OF assms(1,2)]) auto
qed

lemma discover_preserves:
  assumes "world_ok sha w" and "wd_tasks w c = Some (en, T_claimed r)" and "still_active en c" and "tick w (de_scanAt (se_discovery en))"
    and "discover collate (se_discovery en) c (se_attemptId en) (db_store (wd_db w)) = (res, S)"
  shows "world_ok sha (advance w ((wd_db w)\<lparr>db_store := S\<rparr>) c
      (Some (en, case res of Some x \<Rightarrow> T_discovered r x | None \<Rightarrow> T_failing)) (de_scanAt (se_discovery en)))"
proof -
  let ?S = "db_store (wd_db w)" and ?t = "de_scanAt (se_discovery en)"
  note ok = world_okD [OF assms(1)]
  obtain attempt claimed where r: "row (db_ledger (wd_db w)) c = Some r" "lr_scanState r = scanning" "lr_attemptId r = Some attempt"
      "lr_claimedAt r = Some claimed" "common_era claimed" "date_parse claimed \<le> wd_clock w" "se_attemptId en = attempt"
      "se_claimedAt en = claimed" "lr_reconciliationVersion r = TARGET_VERSION"
      "fresh_diagnostics claimed (diagnostic_set ?S c) = {}"
    using ok(5) [of c] unfolding assms(2) by (elim task_scanning) auto
  have t: "common_era ?t" "wd_clock w \<le> date_parse ?t" using assms(4) by (simp_all add: tick_def)
  have db: "(wd_db w)\<lparr>db_store := S\<rparr> = \<lparr>db_ledger = db_ledger (wd_db w), db_store = S\<rparr>" by simp
  from discover_cases [OF assms(5,3)] consider
      (throws) "res = None" "S = ?S"
    | (stores) sto where "applyScanOutcome collate sto ?S = Some S" "os_connectionId sto = c"
        "dg_scanCorrelationId (os_diagnostic sto) = attempt" "dg_occurredAt (os_diagnostic sto) = ?t"
        "\<forall>x. res = Some x \<longrightarrow> sr_diagnostic x = os_diagnostic sto \<and> sr_outcome x = dg_outcome (os_diagnostic sto)
           \<and> sr_modelCount x = int (length (os_models sto))"
    unfolding r(7) by blast
  then show ?thesis
  proof cases
    case throws
    have "connection_ok sha (date_parse ?t) c (Some r) (Some (en, T_failing)) n (diagnostic_set ?S c)" for n
      using r t by (simp add: connection_ok_def scanning_ok_def Let_def)
    with throws show ?thesis
      using ok t by (intro advance_ok [OF assms(1,4)]) (force simp: r(1))+
  next
    case stores
    let ?d = "os_diagnostic sto" and ?n = "length (os_models sto)"
    have st: "stored_outcome c ?d ?n ?S S" and out: "outcome_ok collate sto"
      using applyScanOutcome_stored [OF ok(2) stores(1)] by (simp_all add: stores(2))
    have kept: "?d \<in> diagnostic_set S c"
      using ok(3) [of _ c] r(6,10) t by (intro stored_kept [OF st, of claimed]) (auto simp: stores(4))
    have sub: "fresh_diagnostics claimed (diagnostic_set S c) \<subseteq> {?d}"
      using st r(10) by (auto simp: stored_outcome_def fresh_diagnostics_def)
    have "card {d \<in> fresh_diagnostics claimed (diagnostic_set S c). dg_diagnosticId d \<notin> failure_ids sha c attempt} \<le> card {?d}"
      using sub by (intro card_mono) auto
    moreover have "result_shown r x ?n (diagnostic_set S c)" if "res = Some x" for x
      using that stores(3-5) kept r t out by (auto simp: result_shown_def Let_def outcome_ok_def)
    ultimately have "connection_ok sha (date_parse ?t) c (Some r)
        (Some (en, case res of Some x \<Rightarrow> T_discovered r x | None \<Rightarrow> T_failing)) ?n (diagnostic_set S c)"
      using r t by (auto simp: connection_ok_def scanning_ok_def Let_def split: option.splits)
    then show ?thesis
      unfolding db using t by (intro stored_frame [OF assms(1,4) st]) (simp_all add: r(1) stores(4))
  qed
qed

section \<open>Settling\<close>

lemma settled_valid:
  assumes "row L c = Some r" and "ledger_ok L" and "settleAttempt i L = Some (q, M)" and "si_connectionId i = c"
    and "dg_diagnosticId d = si_diagnosticId i" and "dg_safeMessage d = si_safeOutcomeMessage i" and "dg_connectionId d = c"
    and "lr_attemptId r = Some (dg_scanCorrelationId d)" and "lr_claimedAt r = Some claimed"
    and "date_parse claimed \<le> date_parse (dg_occurredAt d)" and "date_parse (dg_occurredAt d) \<le> date_parse (si_settledAt i)"
    and "si_modelCount i = int n"
    and "(si_outcomeCode i = Scan_code (dg_outcome d) \<and> (dg_outcome d = sc_success \<longleftrightarrow> si_settledOutcome i \<noteq> so_failed))
       \<or> ((si_outcomeCode i = interrupted_scan \<or> si_outcomeCode i = coordinator_failure) \<and> dg_outcome d = sc_process_failed
          \<and> si_settledOutcome i = so_failed)"
  shows "lr_diagnosticId q = Some (dg_diagnosticId d)" and "validateConsistentFacts q (int n) (Some d)"
    and "lr_scanState q \<noteq> never_scanned" and "lr_scanState q \<noteq> scanning" and "row M c = Some q" and "ledger_ok M"
    and "b \<noteq> c \<Longrightarrow> row M b = row L b"
proof -
  from assms(1,3,4) have q: "q = settled_record r i" "M = upsert q L" "record_ok q" "settle_ok i"
    by (auto simp: settle_Some [OF assms(2)])
  have match: "outcomeMatchesState (si_settledOutcome i) (si_modelCount i) (si_outcomeCode i)" "si_outcomeCode i \<noteq> legacy_evidence_adopted"
    using q(4) by (simp_all add: settle_ok_def)
  have id: "lr_connectionId q = c" "lr_connectionId r = c" using row_Some [OF assms(1)] by (simp_all add: q(1) settled_record_def)
  show "lr_diagnosticId q = Some (dg_diagnosticId d)" by (simp add: q(1) settled_record_def assms(5))
  show "lr_scanState q \<noteq> never_scanned" "lr_scanState q \<noteq> scanning" by (simp_all add: q(1) settled_record_def)
  show "row M c = Some q" "b \<noteq> c \<Longrightarrow> row M b = row L b" by (auto simp: q(2) id)
  show "ledger_ok M" unfolding q(2) using assms(2) q(3) by (rule ledger_ok_upsert)
  have "diagnosticOutcomeMatches q (si_outcomeCode i) d"
    using assms(13) by (auto simp: diagnosticOutcomeMatches_def q(1) settled_record_def)
  then have "diagnostic_consistent q d"
    using assms(6-11) match(2) id by (simp add: diagnostic_consistent_def q(1) settled_record_def)
  moreover have "if lr_scanState q = sa_available then lr_modelCount q = Some (int n) \<and> 0 < int n else int n = 0 \<and> lr_modelCount q = Some 0"
    using match(1) assms(12) by (cases "si_settledOutcome i") (simp_all add: outcomeMatchesState_def q(1) settled_record_def)
  ultimately show "validateConsistentFacts q (int n) (Some d)"
    by (cases "si_settledOutcome i") (simp_all add: validateConsistentFacts_def q(1) settled_record_def)
qed

lemma settle_preserves:
  assumes "world_ok sha w" and "wd_tasks w c = Some (en, T_discovered r res)" and "tick w (se_settledNow en)"
    and "settleDiscoveryResult r res (se_settledNow en) (db_ledger (wd_db w)) = Some (q, L)"
  shows "world_ok sha (advance w ((wd_db w)\<lparr>db_ledger := L\<rparr>) c None (se_settledNow en))"
proof -
  let ?S = "db_store (wd_db w)" and ?d = "sr_diagnostic res"
  note ok = world_okD [OF assms(1)]
  obtain attempt claimed where r: "row (db_ledger (wd_db w)) c = Some r" "lr_attemptId r = Some attempt" "lr_claimedAt r = Some claimed"
      "common_era claimed" "result_shown r res (model_count_of ?S c) (diagnostic_set ?S c)"
    using ok(5) [of c] unfolding assms(2) by (elim task_scanning) auto
  have shown: "?d \<in> diagnostic_set ?S c" "dg_outcome ?d = sr_outcome res" "lr_attemptId r = Some (dg_scanCorrelationId ?d)"
      "date_parse claimed \<le> date_parse (dg_occurredAt ?d)" "sr_modelCount res = int (model_count_of ?S c)"
    using r(3,5) by (auto simp: result_shown_def Let_def)
  have c: "lr_connectionId r = c" "dg_connectionId ?d = c" using row_Some [OF r(1)] shown(1) by (auto simp: diagnostic_set_def)
  obtain settled where settled: "latestTimestamp [claimed, dg_occurredAt ?d, se_settledNow en] = Some settled"
      "settleAttempt \<lparr>si_connectionId = c, si_reconciliationVersion = lr_reconciliationVersion r, si_attemptId = attempt,
        si_settledAt = settled,
        si_settledOutcome = (if sr_outcome res = sc_success then if 0 < sr_modelCount res then so_available else so_empty else so_failed),
        si_modelCount = sr_modelCount res, si_outcomeCode = Scan_code (sr_outcome res),
        si_safeOutcomeMessage = dg_safeMessage ?d, si_diagnosticId = dg_diagnosticId ?d\<rparr> (db_ledger (wd_db w)) = Some (q, L)"
    using assms(4) r(2,3) c(1) by (auto simp: settleDiscoveryResult_def Option.bind_eq_Some_conv split: if_splits)
  have "date_parse (dg_occurredAt ?d) \<le> date_parse settled"
    using latestTimestamp_Some(2) [OF settled(1)] r(4) ok(3) [OF shown(1)] assms(3) by (simp add: tick_def)
  note q = settled_valid [OF r(1) ok(1) settled(2), of ?d claimed "model_count_of ?S c", unfolded settle_input.simps,
      OF refl refl refl c(2) shown(3) r(3) shown(4) this shown(5)]
  have "connection_ok sha (date_parse (se_settledNow en)) c (Some q) None (model_count_of ?S c) (diagnostic_set ?S c)"
    using q shown(1,2) by (auto simp: connection_ok_def intro!: bexI [of _ ?d])
  then show ?thesis
    using ok(2-4) q(5,6,7) shown(2) assms(3)
    by (intro advance_ok [OF assms(1,3)]) (force simp: tick_def)+
qed

section \<open>Failing closed\<close>

lemma failure_apply_cases:
  assumes "store_ok S" and "failure_apply collate notified c attempt i t m S = (x, S')"
  shows "(x = None \<and> S' = S) \<or>
     (stored_outcome c (failure_diagnostic c attempt i t m) 0 S S' \<and> (x = None \<or> x = Some (failure_diagnostic c attempt i t m)))"
  using assms(2) applyIdempotent_stored(1) [OF assms(1)] unfolding failure_apply_def Let_def
  by (fastforce split: option.splits if_splits)

text \<open>The failure path of a claim that is open, of a running scan or of an interrupted one.\<close>

lemma fail_closed_preserves:
  assumes "world_ok sha w" and "row (db_ledger (wd_db w)) c = Some r" and "lr_scanState r = scanning"
    and "scanning_ok sha (wd_clock w) c r t (model_count_of (db_store (wd_db w)) c) (diagnostic_set (db_store (wd_db w)) c)"
    and "lr_attemptId r = Some attempt" and "lr_claimedAt r = Some claimed" and "lr_reconciliationVersion r = version"
    and "i \<in> failure_ids sha c attempt" and "code = interrupted_scan \<or> code = coordinator_failure" and "tick w now"
    and "fail_closed latest collate notified c version attempt claimed code i m now (wd_db w) = (x, db)"
    and "latest [claimed, claimed, now] = latestTimestamp [claimed, claimed, now]"
  shows "world_ok sha (advance w db c None now)"
proof -
  let ?S = "db_store (wd_db w)" and ?L = "db_ledger (wd_db w)" and ?d = "failure_diagnostic c attempt i claimed m"
  let ?extra = "\<lambda>D. {d \<in> fresh_diagnostics claimed D. dg_diagnosticId d \<notin> failure_ids sha c attempt}"
  note ok = world_okD [OF assms(1)]
  have s: "common_era claimed" "date_parse claimed \<le> wd_clock w" "card (?extra (diagnostic_set ?S c)) \<le> 1"
    using assms(4-6) by (auto simp: scanning_ok_def Let_def)
  have now: "common_era now" "wd_clock w \<le> date_parse now" using assms(10) by (simp_all add: tick_def)
  have open_ok: "connection_ok sha (date_parse now) c (Some r) None n D" if "card (?extra D) \<le> 1" for n D
    using that assms(3,5,6) s now by (simp add: connection_ok_def scanning_ok_def Let_def)
  obtain y S where fa: "failure_apply collate notified c attempt i claimed m ?S = (y, S)"
    by (cases "failure_apply collate notified c attempt i claimed m ?S")
  have dbq: "db = \<lparr>db_ledger = ?L, db_store = S\<rparr> \<or> (\<exists>q L. y = Some ?d \<and> settle_failed latest c version attempt claimed code ?d now ?L = Some (q, L)
      \<and> db = \<lparr>db_ledger = L, db_store = S\<rparr>)"
    using assms(11) fa failure_apply_cases [OF ok(2) fa] unfolding fail_closed_def by (auto split: option.splits)
  from failure_apply_cases [OF ok(2) fa] consider (none) "y = None" "S = ?S" | (stored) "stored_outcome c ?d 0 ?S S" by blast
  then show ?thesis
  proof cases
    case none
    with dbq have "db = wd_db w" by simp
    with open_ok [OF s(3)] show ?thesis
      using ok now by (intro advance_ok [OF assms(1,10)]) (force simp: assms(2))+
  next
    case stored
    have occ: "dg_occurredAt ?d = claimed" "dg_diagnosticId ?d = i" "dg_scanCorrelationId ?d = attempt" "dg_connectionId ?d = c"
        "dg_safeMessage ?d = m" "dg_outcome ?d = sc_process_failed"
      by (simp_all add: failure_diagnostic_def)
    have kept: "?d \<in> diagnostic_set S c"
      using ok(3) [of _ c] s(1) fresh_bound [OF diagnostic_set_finite diagnostic_set_inj [OF ok(2)] s(3)]
      by (intro stored_kept [OF stored, of claimed]) (auto simp: occ(1))
    have "?extra (diagnostic_set S c) \<subseteq> ?extra (diagnostic_set ?S c)"
      using stored assms(8) occ(2) by (auto simp: stored_outcome_def fresh_diagnostics_def)
    then have extra: "card (?extra (diagnostic_set S c)) \<le> 1"
      using s(3) card_mono [of "?extra (diagnostic_set ?S c)" "?extra (diagnostic_set S c)"] by (simp add: fresh_diagnostics_def)
    from dbq show ?thesis
    proof
      assume db: "db = \<lparr>db_ledger = ?L, db_store = S\<rparr>"
      show ?thesis unfolding db
        using open_ok [OF extra] s now by (intro stored_frame [OF assms(1,10) stored]) (simp_all add: assms(2) occ)
    next
      assume "\<exists>q L. y = Some ?d \<and> settle_failed latest c version attempt claimed code ?d now ?L = Some (q, L) \<and> db = \<lparr>db_ledger = L, db_store = S\<rparr>"
      then obtain q L settled where q: "latestTimestamp [claimed, claimed, now] = Some settled"
          "settleAttempt \<lparr>si_connectionId = c, si_reconciliationVersion = version, si_attemptId = attempt, si_settledAt = settled,
             si_settledOutcome = so_failed, si_modelCount = 0, si_outcomeCode = code, si_safeOutcomeMessage = m, si_diagnosticId = i\<rparr> ?L
           = Some (q, L)" "db = \<lparr>db_ledger = L, db_store = S\<rparr>"
        by (auto simp: settle_failed_def occ assms(12) Option.bind_eq_Some_conv)
      have "date_parse claimed \<le> date_parse settled" using latestTimestamp_Some(2) [OF q(1)] s(1) now(1) by simp
      note v = settled_valid [OF assms(2) ok(1) q(2), of ?d claimed 0, unfolded settle_input.simps occ, OF refl refl refl refl assms(5,6) order_refl this]
      have "connection_ok sha (date_parse now) c (Some q) None 0 (diagnostic_set S c)"
        using v kept assms(9) occ by (auto simp: connection_ok_def intro!: bexI [of _ ?d])
      then show ?thesis unfolding q(3)
        using v(5-7) assms(9) s now by (intro stored_frame [OF assms(1,10) stored]) (auto simp: occ)
    qed
  qed
qed

section \<open>Every reachable world\<close>

lemma step_preserves:
  assumes "catalog_step collate sha w w'" and "world_ok sha w"
  shows "world_ok sha w'"
  using assms
proof (cases rule: catalog_step.cases)
  case (initialize i r L)
  note ok = world_okD [OF assms(2)]
  have L: "ledger_ok L" using initialize_step(1) [OF ok(1) initialize(2)] .
  have same: "connection_ok sha k c (row L c) t n D" if "connection_ok sha k c (row (db_ledger (wd_db w)) c) t n D" for k c t n D
    using that initialize(2) by (auto simp: initialize_Some [OF ok(1)] row_append connection_ok_def never_scanned_row_def split: option.splits if_splits)
  show ?thesis using assms(2) L same unfolding initialize(1) world_ok_def by simp
next
  case (claim c en tr mode r L)
  with claim_preserves [OF assms(2)] show ?thesis by blast
next
  case (discover c en r res S)
  with discover_preserves [OF assms(2)] show ?thesis by blast
next
  case (settle c en r res q L)
  with settle_preserves [OF assms(2)] show ?thesis by blast
next
  case (settle_throws c en r res)
  note ok = world_okD [OF assms(2)]
  have "connection_ok sha (wd_clock w) c (row (db_ledger (wd_db w)) c) (Some (en, T_failing)) (model_count_of (db_store (wd_db w)) c)
      (diagnostic_set (db_store (wd_db w)) c)"
    using ok(5) [of c] unfolding settle_throws(2) by (auto simp: connection_ok_def scanning_ok_def Let_def split: option.splits if_splits)
  then have "connection_ok sha (date_parse (se_settledNow en)) c (row (db_ledger (wd_db w)) c) (Some (en, T_failing))
      (model_count_of (db_store (wd_db w)) c) (diagnostic_set (db_store (wd_db w)) c)"
    using settle_throws(3) by (auto simp: tick_def intro: connection_mono)
  then show ?thesis
    using ok settle_throws(3) unfolding settle_throws(1)
    by (intro advance_ok [OF assms(2) settle_throws(3)]) (force simp: tick_def)+
next
  case (fail c en x db)
  note ok = world_okD [OF assms(2)]
  obtain r where r: "row (db_ledger (wd_db w)) c = Some r" "lr_scanState r = scanning"
      "scanning_ok sha (wd_clock w) c r (Some (en, T_failing)) (model_count_of (db_store (wd_db w)) c) (diagnostic_set (db_store (wd_db w)) c)"
      "lr_attemptId r = Some (se_attemptId en)" "lr_claimedAt r = Some (se_claimedAt en)" "lr_reconciliationVersion r = TARGET_VERSION"
    using ok(5) [of c] unfolding fail(2) by (elim task_scanning) auto
  show ?thesis unfolding fail(1)
    using fail(3,4) by (intro fail_closed_preserves [OF assms(2) r, of _ coordinator_failure]) (simp_all add: failure_ids_def coordinator_fail_def)
next
  case crash
  have "connection_ok sha k c found None n D" if "connection_ok sha k c found t n D" for k c found t n D
    using that by (auto simp: connection_ok_def scanning_ok_def Let_def split: option.splits if_splits)
  with assms(2) show ?thesis unfolding crash(1) world_ok_def by (simp, blast)
next
  case (interrupted r now notified x db)
  let ?c = "lr_connectionId r"
  note ok = world_okD [OF assms(2)]
  show ?thesis
  proof (cases "lr_scanState r = scanning")
    case True
    then have s: "scanning_ok sha (wd_clock w) ?c r None (model_count_of (db_store (wd_db w)) ?c) (diagnostic_set (db_store (wd_db w)) ?c)"
      using ok(5) [of ?c] interrupted(2,3) by (simp add: connection_ok_def)
    then obtain attempt claimed where a: "lr_attemptId r = Some attempt" "lr_claimedAt r = Some claimed" by (auto simp: scanning_ok_def)
    then obtain y where fc: "fail_closed latest_unchecked collate notified ?c (lr_reconciliationVersion r) attempt claimed interrupted_scan
        (deterministicDiagnosticId sha for_interrupted ?c attempt) INTERRUPTED_SCAN_MESSAGE now (wd_db w) = (y, db)"
      using interrupted(5) True by (auto simp: settleInterrupted_def split: prod.splits option.splits)
    have same: "latest_unchecked [claimed, claimed, now] = latestTimestamp [claimed, claimed, now]"
      using s a(2) interrupted(4)
      by (auto simp: latest_unchecked_def latestTimestamp_def canonicalTimestamp_def scanning_ok_def tick_def common_era_def)
    show ?thesis unfolding interrupted(1)
      by (rule fail_closed_preserves [OF assms(2) interrupted(3) True s a refl _ _ interrupted(4) fc same]) (simp_all add: failure_ids_def)
  next
    case False
    then have "db = wd_db w" using interrupted(5) by (auto simp: settleInterrupted_def split: scan_state.splits option.splits)
    then show ?thesis unfolding interrupted(1)
      using ok interrupted(2,4) connection_mono [OF ok(5) [of ?c]]
      by (intro advance_ok [OF assms(2) interrupted(4)]) (force simp: tick_def)+
  qed
qed

lemma reachable_ok: "reachable collate sha w \<Longrightarrow> world_ok sha w"
proof (induction rule: reachable.induct)
  case (start t)
  show ?case by (simp add: world_ok_def ledger_ok_def store_ok_def diagnostic_set_def model_count_of_def connection_ok_def)
next
  case (step w w')
  then show ?case by (blast intro: step_preserves)
qed

end
