(* ===== verification/CatalogListing.thy ===== *)
theory CatalogListing
  imports CatalogWorld
begin

text \<open>
  The dashboard reads the ledger and the catalog together and refuses everything when they contradict each other. In every
  reachable world they agree, so every active connection is shown.
\<close>

section \<open>What the dashboard shows\<close>

definition connections_ok :: "provider_connection list \<Rightarrow> bool" where
  "connections_ok ps \<longleftrightarrow> distinct (map pv_connectionId ps) \<and> (\<forall>p\<in>set ps. isBoundedString (pv_connectionId p) \<and> isBoundedString (pv_label p))"

text \<open>The row that counts for a connection: a connection without a row was never scanned.\<close>

definition effective_row :: "ledger \<Rightarrow> string \<Rightarrow> ledger_record" where
  "effective_row L c = (case row L c of None \<Rightarrow> never_scanned_row c TARGET_VERSION | Some r \<Rightarrow> r)"

lemma list_ledger_ok: "ledger_ok L \<Longrightarrow> list_ledger L = Some (sort_by compareByConnectionId L)"
proof -
  assume "ledger_ok L"
  then have "parse_all rowToRecord L = Some L"
    using parse_all_map [of L rowToRecord id] by (auto simp: ledger_ok_def rowToRecord_def)
  then show ?thesis by (simp add: list_ledger_def)
qed

lemma listDiagnostics_ok:
  assumes "store_ok S" and "card (diagnostic_set S c) \<le> RETENTION_LIMIT"
  shows "listDiagnostics S c (int RETENTION_LIMIT) = Some (diagnostics_of (ks_diagnostics S) c)"
proof -
  have d: "distinct (diagnostics_of (ks_diagnostics S) c)" using assms(1) by (intro distinct_diagnostics_of) (simp add: store_ok_def)
  have "length (diagnostics_of (ks_diagnostics S) c) = card (diagnostic_set S c)"
    using distinct_card [OF d] by (simp add: diagnostic_set_def)
  with assms(2) have "take RETENTION_LIMIT (diagnostics_of (ks_diagnostics S) c) = diagnostics_of (ks_diagnostics S) c" by simp
  moreover have "parse_all rowToCatalogDiagnostic (diagnostics_of (ks_diagnostics S) c) = Some (diagnostics_of (ks_diagnostics S) c)"
    using assms(1) parse_all_map [of "diagnostics_of (ks_diagnostics S) c" rowToCatalogDiagnostic id]
    by (auto simp: store_ok_def rowToCatalogDiagnostic_def)
  ultimately show ?thesis by (simp add: listDiagnostics_def RETENTION_LIMIT_def)
qed

text \<open>The diagnostic a settled row names.\<close>

definition named_diagnostic :: "catalog_store \<Rightarrow> ledger_record \<Rightarrow> diagnostic option" where
  "named_diagnostic S r = (case lr_diagnosticId r of None \<Rightarrow> None | Some i \<Rightarrow>
     List.find (\<lambda>d. dg_diagnosticId d = i) (diagnostics_of (ks_diagnostics S) (lr_connectionId r)))"

lemma named_diagnostic_eq:
  assumes "store_ok S" and "d \<in> diagnostic_set S (lr_connectionId r)" and "lr_diagnosticId r = Some (dg_diagnosticId d)"
  shows "named_diagnostic S r = Some d"
proof -
  have "List.find (\<lambda>e. dg_diagnosticId e = dg_diagnosticId d) (diagnostics_of (ks_diagnostics S) (lr_connectionId r)) = Some d"
    using assms(2) diagnostic_set_inj [OF assms(1), of "lr_connectionId r"]
    by (intro find_unique) (auto simp: diagnostic_set_def inj_on_def)
  then show ?thesis by (simp add: named_diagnostic_def assms(3))
qed

lemma settled_diagnostics_ok:
  assumes "store_ok S" and "\<And>c. card (diagnostic_set S c) \<le> RETENTION_LIMIT"
    and "\<And>r. r \<in> set rs \<Longrightarrow> lr_diagnosticId r \<noteq> None \<Longrightarrow> named_diagnostic S r \<noteq> None"
  shows "settled_diagnostics S rs = Some (List.map_filter (named_diagnostic S) rs)"
  using assms(3)
proof (induction rs)
  case (Cons r rs)
  have rest: "settled_diagnostics S rs = Some (List.map_filter (named_diagnostic S) rs)" using Cons by simp
  show ?case
  proof (cases "lr_diagnosticId r")
    case None
    then have "named_diagnostic S r = None" by (simp add: named_diagnostic_def)
    then show ?thesis using None rest by (simp add: List.map_filter_simps)
  next
    case (Some i)
    then obtain d where d: "named_diagnostic S r = Some d" using Cons.prems [of r] by auto
    then have "List.find (\<lambda>d. dg_diagnosticId d = i) (diagnostics_of (ks_diagnostics S) (lr_connectionId r)) = Some d"
      using Some by (simp add: named_diagnostic_def)
    with d Some rest show ?thesis by (simp add: List.map_filter_simps listDiagnostics_ok [OF assms(1,2)])
  qed
qed (simp add: List.map_filter_simps)

lemma set_map_filter: "set (List.map_filter f xs) = {y. \<exists>x\<in>set xs. f x = Some y}"
  by (induction xs) (auto simp: List.map_filter_simps split: option.splits)

lemma distinct_map_filter:
  "distinct xs \<Longrightarrow> (\<And>x y a b. x \<in> set xs \<Longrightarrow> y \<in> set xs \<Longrightarrow> x \<noteq> y \<Longrightarrow> f x = Some a \<Longrightarrow> f y = Some b \<Longrightarrow> g a \<noteq> g b) \<Longrightarrow>
     distinct (map g (List.map_filter f xs))"
proof (induction xs)
  case (Cons x xs)
  have rest: "distinct (map g (List.map_filter f xs))"
  proof (rule Cons.IH)
    show "distinct xs" using Cons.prems(1) by simp
    show "g a \<noteq> g b" if "u \<in> set xs" "v \<in> set xs" "u \<noteq> v" "f u = Some a" "f v = Some b" for u v a b
      by (rule Cons.prems(2) [OF _ _ that(3,4,5)]) (simp_all add: that)
  qed
  show ?case
  proof (cases "f x")
    case None
    with rest show ?thesis by (simp add: List.map_filter_simps)
  next
    case (Some a)
    have "g a \<noteq> g b" if "y \<in> set xs" "f y = Some b" for y b
      by (rule Cons.prems(2) [OF _ _ _ Some that(2)]) (use that Cons.prems(1) in auto)
    then have "g a \<notin> g ` set (List.map_filter f xs)" by (auto simp: set_map_filter)
    with rest Some show ?thesis by (simp add: List.map_filter_simps)
  qed
qed (simp add: List.map_filter_simps)

text \<open>The state of a connection whose row and diagnostic are consistent.\<close>

lemma shown_state:
  assumes "record_ok r" and "lr_connectionId r = pv_connectionId p" and "isBoundedString (pv_label p)"
    and "validateConsistentFacts r n d" and "(lr_diagnosticId r = None) = (d = None)" and "\<And>x. d = Some x \<Longrightarrow> diagnostic_ok x"
  shows "connection_state_ok \<lparr>as_connectionId = pv_connectionId p, as_label = pv_label p, as_providerKind = pv_kind p,
       as_scanState = lr_scanState r, as_trigger = lr_trigger r, as_attemptId = lr_attemptId r, as_modelCount = lr_modelCount r,
       as_claimedAt = lr_claimedAt r, as_settledAt = lr_settledAt r, as_outcomeCode = lr_outcomeCode r,
       as_safeMessage = lr_safeOutcomeMessage r, as_diagnosticId = lr_diagnosticId r,
       as_diagnosticOccurredAt = map_option dg_occurredAt d, as_guidanceCode = guidanceByState (lr_scanState r)\<rparr>"
proof -
  let ?s = "\<lparr>as_connectionId = pv_connectionId p, as_label = pv_label p, as_providerKind = pv_kind p,
       as_scanState = lr_scanState r, as_trigger = lr_trigger r, as_attemptId = lr_attemptId r, as_modelCount = lr_modelCount r,
       as_claimedAt = lr_claimedAt r, as_settledAt = lr_settledAt r, as_outcomeCode = lr_outcomeCode r,
       as_safeMessage = lr_safeOutcomeMessage r, as_diagnosticId = lr_diagnosticId r,
       as_diagnosticOccurredAt = map_option dg_occurredAt d, as_guidanceCode = guidanceByState (lr_scanState r)\<rparr>"
  have target: "isPositiveInteger TARGET_VERSION" by (simp add: isPositiveInteger_def isSafeInteger_def TARGET_VERSION_def)
  have "lr_settledOutcome r = settled_of (lr_scanState r)"
    using assms(1)
    by (cases "lr_scanState r") (auto simp: record_ok_def state_ok_def settled_ok_def settled_of_def split: option.splits)
  then have eq: "state_record ?s = r\<lparr>lr_reconciliationVersion := TARGET_VERSION\<rparr>"
    using assms(2) by (cases r) (simp add: state_record_def)
  have "state_ok (r\<lparr>lr_reconciliationVersion := TARGET_VERSION\<rparr>) = state_ok r"
    by (simp add: state_ok_def settled_ok_def split: option.splits scan_state.splits)
  then have "record_ok (state_record ?s)" using assms(1) target unfolding eq record_ok_def by simp
  moreover have "null_or canonical_iso (map_option dg_occurredAt d)" using assms(6) by (cases d) (auto simp: diagnostic_ok_def)
  moreover have "isBoundedString (pv_connectionId p)" using assms(1,2) by (simp add: record_ok_def)
  moreover have "(lr_diagnosticId r = None) = (map_option dg_occurredAt d = None)" using assms(5) by simp
  ultimately show ?thesis
    using assms(1,3) unfolding connection_state_ok_def by (simp add: record_ok_def)
qed

text \<open>What the dashboard shows of a connection.\<close>

definition shown_connection :: "catalog_db \<Rightarrow> provider_connection \<Rightarrow> connection_state" where
  "shown_connection db p =
     (let r = effective_row (db_ledger db) (pv_connectionId p) in
      \<lparr>as_connectionId = pv_connectionId p, as_label = pv_label p, as_providerKind = pv_kind p,
       as_scanState = lr_scanState r, as_trigger = lr_trigger r, as_attemptId = lr_attemptId r, as_modelCount = lr_modelCount r,
       as_claimedAt = lr_claimedAt r, as_settledAt = lr_settledAt r, as_outcomeCode = lr_outcomeCode r,
       as_safeMessage = lr_safeOutcomeMessage r, as_diagnosticId = lr_diagnosticId r,
       as_diagnosticOccurredAt = map_option dg_occurredAt (named_diagnostic (db_store db) r),
       as_guidanceCode = guidanceByState (lr_scanState r)\<rparr>)"

lemma distinct_map_filterI: "distinct (map f xs) \<Longrightarrow> distinct (map f (filter P xs))"
  by (simp add: distinct_map inj_on_def)

definition consistent_row :: "catalog_store \<Rightarrow> ledger_record \<Rightarrow> bool" where
  "consistent_row S r \<longleftrightarrow>
     validateConsistentFacts r (int (model_count_of S (lr_connectionId r))) (named_diagnostic S r)
     \<and> (lr_diagnosticId r = None) = (named_diagnostic S r = None)"

lemma named_diagnostic_Some:
  "named_diagnostic S r = Some d \<Longrightarrow> d \<in> diagnostic_set S (lr_connectionId r) \<and> lr_diagnosticId r = Some (dg_diagnosticId d)"
  by (auto simp: named_diagnostic_def diagnostic_set_def split: option.splits dest!: find_Some_set)

lemma map_of_distinct:
  "distinct (map f xs) \<Longrightarrow> x \<in> set xs \<Longrightarrow> map_of (map (\<lambda>x. (f x, g x)) xs) (f x) = Some (g x)"
proof (induction xs)
  case (Cons y xs)
  show ?case
  proof (cases "x = y")
    case False
    then have "f x \<noteq> f y" using Cons.prems by (auto simp: image_iff)
    with Cons False show ?thesis by simp
  qed simp
qed simp

lemma ledger_ids:
  assumes "ledger_ok L"
  shows "distinct (map lr_connectionId (filter P (sort_by compareByConnectionId L)))"
proof (rule distinct_map_filterI)
  have "mset (map lr_connectionId (sort_by compareByConnectionId L)) = mset (map lr_connectionId L)" by simp
  then show "distinct (map lr_connectionId (sort_by compareByConnectionId L))"
    using assms mset_eq_imp_distinct_iff unfolding ledger_ok_def by blast
qed

lemma ledger_map:
  assumes "ledger_ok L" and "c \<in> A"
  shows "map_of (map (\<lambda>r. (lr_connectionId r, r)) (filter (\<lambda>r. lr_connectionId r \<in> A) (sort_by compareByConnectionId L))) c = row L c"
proof -
  let ?rs = "filter (\<lambda>r. lr_connectionId r \<in> A) (sort_by compareByConnectionId L)"
  have d: "distinct (map lr_connectionId ?rs)" using assms(1) by (rule ledger_ids)
  show ?thesis
  proof (cases "row L c")
    case None
    then have "map_of (map (\<lambda>r. (lr_connectionId r, r)) ?rs) c = None" by (auto simp: row_None map_of_eq_None_iff)
    with None show ?thesis by simp
  next
    case (Some r)
    then have r: "r \<in> set ?rs" "lr_connectionId r = c" using row_Some [OF Some] assms(2) by simp_all
    from map_of_distinct [OF d r(1), of "\<lambda>r. r"] show ?thesis unfolding r(2) Some by simp
  qed
qed

lemma named_diagnostics_distinct:
  assumes "store_ok S" and "distinct (map lr_connectionId rs)"
  shows "distinct (map dg_connectionId (List.map_filter (named_diagnostic S) rs))"
    and "distinct (map dg_diagnosticId (List.map_filter (named_diagnostic S) rs))"
proof -
  let ?ds = "List.map_filter (named_diagnostic S) rs"
  have ds: "d \<in> set (ks_diagnostics S)" "dg_connectionId d = lr_connectionId r" if "named_diagnostic S r = Some d" for r d
    using named_diagnostic_Some [OF that] by (auto simp: diagnostic_set_def)
  show conns: "distinct (map dg_connectionId ?ds)"
  proof (rule distinct_map_filter)
    show "distinct rs" using assms(2) by (simp add: distinct_map)
    show "dg_connectionId a \<noteq> dg_connectionId b"
      if "x \<in> set rs" "y \<in> set rs" "x \<noteq> y" "named_diagnostic S x = Some a" "named_diagnostic S y = Some b" for x y a b
      using that(1-3) assms(2) unfolding ds(2) [OF that(4)] ds(2) [OF that(5)] by (auto simp: distinct_map inj_on_def)
  qed
  have "inj_on dg_diagnosticId (set ?ds)"
  proof (rule inj_on_subset)
    show "inj_on dg_diagnosticId (set (ks_diagnostics S))" using assms(1) by (simp add: store_ok_def distinct_map)
    show "set ?ds \<subseteq> set (ks_diagnostics S)" using ds(1) unfolding set_map_filter by blast
  qed
  then show "distinct (map dg_diagnosticId ?ds)" using conns by (simp add: distinct_map)
qed

lemma parse_all_to: "(\<And>x. x \<in> set xs \<Longrightarrow> f x = Some (g x)) \<Longrightarrow> parse_all f xs = Some (map g xs)"
  by (induction xs) simp_all

lemma projection_total:
  assumes "connections_ok ps" and "ledger_ok (db_ledger db)" and "store_ok (db_store db)"
    and "\<And>c. card (diagnostic_set (db_store db) c) \<le> RETENTION_LIMIT"
    and "\<And>r. r \<in> set (db_ledger db) \<Longrightarrow> consistent_row (db_store db) r"
    and "\<And>c. row (db_ledger db) c = None \<Longrightarrow> model_count_of (db_store db) c = 0"
    and "int (length (ks_models (db_store db))) \<le> 2 ^ 53 - 1"
  shows "listActiveConnectionStates ps db = Some (map (shown_connection db)
      (filter (\<lambda>p. pv_lifecycleState p = lc_active) (sort_by compareConnections ps)))"
proof -
  let ?S = "db_store db" and ?L = "db_ledger db" and ?ids = "pv_connectionId ` set ps"
  let ?rs = "filter (\<lambda>r. lr_connectionId r \<in> ?ids) (sort_by compareByConnectionId ?L)"
  let ?ds = "List.map_filter (named_diagnostic ?S) ?rs"
  have rs: "r \<in> set ?L" "lr_connectionId r \<in> ?ids" "row ?L (lr_connectionId r) = Some r" "record_ok r" if "r \<in> set ?rs" for r
    using that assms(2) row_member [of ?L r] by (auto simp: ledger_ok_def)
  have ids: "distinct (map lr_connectionId ?rs)" using assms(2) by (rule ledger_ids)
  note distinct = named_diagnostics_distinct [OF assms(3) ids]
  obtain ms where ms: "listModels ?S = Some ms" "\<And>c. length (filter (\<lambda>m. cm_connectionId m = c) ms) = model_count_of ?S c"
    using listModels_total [OF assms(3)] by blast
  have named: "named_diagnostic ?S r \<noteq> None" if "r \<in> set ?rs" "lr_diagnosticId r \<noteq> None" for r
    using assms(5) [OF rs(1) [OF that(1)]] that(2) by (simp add: consistent_row_def)
  have settled: "settled_diagnostics ?S ?rs = Some ?ds"
    by (rule settled_diagnostics_ok [OF assms(3,4) named])
  have d_in: "\<exists>r\<in>set ?rs. named_diagnostic ?S r = Some d" if "d \<in> set ?ds" for d
    using that by (simp add: set_map_filter)
  have ds: "d \<in> set (ks_diagnostics ?S)" "dg_connectionId d = lr_connectionId r" "lr_diagnosticId r = Some (dg_diagnosticId d)"
    if "named_diagnostic ?S r = Some d" for r d
    using named_diagnostic_Some [OF that] by (auto simp: diagnostic_set_def)
  let ?i = "\<lparr>pj_connections = ps, pj_reconciliationRecords = ?rs, pj_modelCounts = model_counts ps ms, pj_settledDiagnostics = ?ds\<rparr>"
  have "model_count_of ?S c \<le> length (ks_models ?S)" for c by (simp add: model_count_of_def)
  then have "isSafeInteger (int (model_count_of ?S c))" for c
    using assms(7) by (simp add: isSafeInteger_def) (meson of_nat_mono order_trans)
  then have "list_all (\<lambda>k. isBoundedString (mk_connectionId k) \<and> isSafeInteger (mk_modelCount k) \<and> 0 \<le> mk_modelCount k) (model_counts ps ms)"
    using assms(1) by (simp add: list_all_iff model_counts_def ms(2) connections_ok_def)
  moreover have "diagnostic_ok d" if "d \<in> set ?ds" for d
    using d_in [OF that] ds(1) assms(3) unfolding store_ok_def by blast
  ultimately have input: "isProjectionInput ?i"
    using assms(1) rs(4) unfolding isProjectionInput_def by (auto simp: list_all_iff connections_ok_def)
  have linked: "facts_linked ?i"
  proof -
    have "dg_connectionId d \<in> ?ids \<and> map_of (map (\<lambda>r. (lr_connectionId r, r)) ?rs) (dg_connectionId d) = row ?L (dg_connectionId d)
        \<and> (\<exists>r. row ?L (dg_connectionId d) = Some r \<and> lr_diagnosticId r = Some (dg_diagnosticId d))" if d: "d \<in> set ?ds" for d
    proof -
      obtain r where r: "r \<in> set ?rs" "named_diagnostic ?S r = Some d" using d_in [OF d] by blast
      show ?thesis unfolding ds(2) [OF r(2)] using rs(2,3) [OF r(1)] ds(3) [OF r(2)] ledger_map [OF assms(2) rs(2) [OF r(1)]] by simp
    qed
    then show ?thesis
      using assms(1) distinct ids unfolding facts_linked_def Let_def
      by (simp add: list_all_iff connections_ok_def model_counts_def comp_def ball_conj_distrib) fastforce
  qed
  have each: "(do {
          n \<leftarrow> map_of (map (\<lambda>k. (mk_connectionId k, mk_modelCount k)) (model_counts ps ms)) (pv_connectionId p);
          projectConnection p (map_of (map (\<lambda>r. (lr_connectionId r, r)) ?rs) (pv_connectionId p)) n
            (map_of (map (\<lambda>d. (dg_diagnosticId d, d)) ?ds)) }) = Some (shown_connection db p)" if p: "p \<in> set ps" for p
  proof -
    let ?c = "pv_connectionId p"
    let ?r = "effective_row ?L ?c"
    have count: "map_of (map (\<lambda>k. (mk_connectionId k, mk_modelCount k)) (model_counts ps ms)) ?c = Some (int (model_count_of ?S ?c))"
      using map_of_distinct [of pv_connectionId ps p "\<lambda>p. int (model_count_of ?S (pv_connectionId p))"] assms(1) p
      by (simp add: model_counts_def connections_ok_def comp_def ms(2))
    have row: "map_of (map (\<lambda>r. (lr_connectionId r, r)) ?rs) ?c = row ?L ?c" using p by (intro ledger_map [OF assms(2)]) simp
    have r: "lr_connectionId ?r = ?c \<and> record_ok ?r \<and> consistent_row ?S ?r \<and> (lr_diagnosticId ?r = None \<or> ?r \<in> set ?rs)"
    proof (cases "row ?L ?c")
      case None
      have "isBoundedString ?c" using assms(1) p by (simp add: connections_ok_def)
      then show ?thesis
        using None assms(6) [OF None] never_scanned_row_ok
        by (simp add: effective_row_def consistent_row_def named_diagnostic_def never_scanned_row_def validateConsistentFacts_def)
    next
      case (Some r)
      note in_L = row_Some [OF Some]
      then have "record_ok r" using assms(2) by (simp add: ledger_ok_def)
      with in_L assms(5) [of r] p show ?thesis by (simp add: effective_row_def Some)
    qed
    have d: "(case lr_diagnosticId ?r of None \<Rightarrow> Some None | Some i \<Rightarrow> map_option Some (map_of (map (\<lambda>d. (dg_diagnosticId d, d)) ?ds) i))
        = Some (named_diagnostic ?S ?r)"
    proof (cases "named_diagnostic ?S ?r")
      case None
      with r show ?thesis by (simp add: consistent_row_def)
    next
      case (Some d)
      note id = ds(3) [OF Some]
      with r p have "?r \<in> set ?rs" by simp
      with Some have "d \<in> set ?ds" by (auto simp: set_map_filter)
      from map_of_distinct [OF distinct(2) this, of "\<lambda>d. d"] show ?thesis by (simp add: id Some)
    qed
    have "connection_state_ok (shown_connection db p)"
      unfolding shown_connection_def Let_def
      using r assms(1,3) p ds(1) by (intro shown_state) (auto simp: consistent_row_def connections_ok_def store_ok_def)
    moreover have "(case row ?L ?c of None \<Rightarrow> never_scanned_row ?c TARGET_VERSION | Some r \<Rightarrow> r) = ?r" by (simp add: effective_row_def)
    moreover have "validateConsistentFacts ?r (int (model_count_of ?S ?c)) (named_diagnostic ?S ?r)"
      using r unfolding consistent_row_def by (elim conjE) simp
    ultimately show ?thesis
      unfolding projectConnection_def shown_connection_def Let_def count row d by (simp add: d)
  qed
  have "parse_all (\<lambda>p. do {
          n \<leftarrow> map_of (map (\<lambda>k. (mk_connectionId k, mk_modelCount k)) (model_counts ps ms)) (pv_connectionId p);
          projectConnection p (map_of (map (\<lambda>r. (lr_connectionId r, r)) ?rs) (pv_connectionId p)) n
            (map_of (map (\<lambda>d. (dg_diagnosticId d, d)) ?ds)) })
      (filter (\<lambda>p. pv_lifecycleState p = lc_active) (sort_by compareConnections ps))
    = Some (map (shown_connection db) (filter (\<lambda>p. pv_lifecycleState p = lc_active) (sort_by compareConnections ps)))"
    by (rule parse_all_to, rule each) simp
  then have "project ?i = Some (map (shown_connection db) (filter (\<lambda>p. pv_lifecycleState p = lc_active) (sort_by compareConnections ps)))"
    using input linked by (simp add: project_def)
  then show ?thesis
    unfolding listActiveConnectionStates_def ms(1) list_ledger_ok [OF assms(2)] Let_def by (simp add: settled)
qed

section \<open>Every reachable world can be shown\<close>

lemma world_consistent:
  assumes "world_ok sha w" and "r \<in> set (db_ledger (wd_db w))"
  shows "consistent_row (db_store (wd_db w)) r"
proof -
  let ?S = "db_store (wd_db w)" and ?c = "lr_connectionId r"
  note ok = world_okD [OF assms(1)]
  have r: "row (db_ledger (wd_db w)) ?c = Some r" "record_ok r"
    using ok(1) assms(2) row_member by (auto simp: ledger_ok_def)
  note c = ok(5) [of ?c, unfolded r(1) connection_ok_def option.case]
  show ?thesis
  proof (cases "lr_scanState r = never_scanned \<or> lr_scanState r = scanning")
    case True
    then have "lr_diagnosticId r = None" using r(2) by (auto simp: record_ok_def state_ok_def split: option.splits)
    with True c show ?thesis
      by (auto simp: consistent_row_def named_diagnostic_def validateConsistentFacts_def)
  next
    case False
    with c obtain d where d: "d \<in> diagnostic_set ?S ?c" "lr_diagnosticId r = Some (dg_diagnosticId d)"
        "validateConsistentFacts r (int (model_count_of ?S ?c)) (Some d)" by auto
    with named_diagnostic_eq [OF ok(2) d(1,2)] show ?thesis by (simp add: consistent_row_def)
  qed
qed

lemma world_listing:
  assumes "world_ok sha w" and "connections_ok ps" and "int (length (ks_models (db_store (wd_db w)))) \<le> 2 ^ 53 - 1"
  shows "listActiveConnectionStates ps (wd_db w) = Some (map (shown_connection (wd_db w))
      (filter (\<lambda>p. pv_lifecycleState p = lc_active) (sort_by compareConnections ps)))"
proof (rule projection_total [OF assms(2) _ _ _ _ _ assms(3)])
  note ok = world_okD [OF assms(1)]
  show "ledger_ok (db_ledger (wd_db w))" "store_ok (db_store (wd_db w))" by (rule ok)+
  show "card (diagnostic_set (db_store (wd_db w)) c) \<le> RETENTION_LIMIT" for c by (rule ok)
  show "consistent_row (db_store (wd_db w)) r" if "r \<in> set (db_ledger (wd_db w))" for r
    using assms(1) that by (rule world_consistent)
  show "model_count_of (db_store (wd_db w)) c = 0" if "row (db_ledger (wd_db w)) c = None" for c
    using ok(5) [of c] that by (simp add: connection_ok_def)
qed

text \<open>The states come in ascending order of their connections.\<close>

lemma sorted_ascending: "sorted_wrt (\<lambda>a b. str_less a b) xs \<Longrightarrow> ascending xs"
  by (induction xs rule: ascending.induct) auto

lemma listing_ascending:
  assumes "connections_ok ps"
  shows "ascending (map as_connectionId (map (shown_connection db)
      (filter (\<lambda>p. pv_lifecycleState p = lc_active) (sort_by compareConnections ps))))"
proof -
  have "strict_cmp compareConnections (set ps)"
    unfolding compareConnections_def using assms
    by (intro strict_cmp_key [OF strict_str_cmp]) (simp add: connections_ok_def distinct_map)
  then have "sorted_wrt (\<lambda>p q. compareConnections p q < 0) (sort_by compareConnections ps)"
    using assms by (intro sort_by_strict) (simp_all add: connections_ok_def distinct_map)
  then have "sorted_wrt (\<lambda>p q. str_less (pv_connectionId p) (pv_connectionId q)) (sort_by compareConnections ps)"
    by (simp add: compareConnections_def)
  then have "sorted_wrt (\<lambda>p q. str_less (pv_connectionId p) (pv_connectionId q))
      (filter (\<lambda>p. pv_lifecycleState p = lc_active) (sort_by compareConnections ps))"
    by (rule sorted_wrt_filter)
  then show ?thesis by (intro sorted_ascending) (simp add: sorted_wrt_map shown_connection_def Let_def)
qed

end
