(* ===== verification/RoutingMatrixFacts.thy ===== *)
theory RoutingMatrixFacts
  imports RoutingMatrix RoutingResolution CatalogListing
begin

text \<open>
  What the routing matrix promises. The projector builds a snapshot its own guard accepts, each row shows what the resolver
  decides, and the three places that judge a route (store, resolver, projector) agree.
\<close>

section \<open>Judging a route\<close>

text \<open>
  The contract of a check of a route against the actions of a scope: it passes exactly when the catalog has the route, active and
  available, and the route meets what every action needs.
\<close>

definition serves :: "route_fact list \<Rightarrow> registry_entry list \<Rightarrow> route_identity \<Rightarrow> bool" where
  "serves fs es r \<longleftrightarrow> (\<exists>f\<in>set fs. fact_key f = routeIdentityKey r \<and> rf_connectionActive f \<and> rf_available f
     \<and> (\<forall>e\<in>set es. meetsRequirements f (re_capabilityRequirements e)))"

locale route_check =
  fixes accepts :: "route_fact list \<Rightarrow> registry_entry list \<Rightarrow> route_identity \<Rightarrow> bool"
  assumes accepts_iff: "distinct (map fact_key fs) \<Longrightarrow> list_all entry_ok es \<Longrightarrow> es \<noteq> [] \<Longrightarrow> accepts fs es r \<longleftrightarrow> serves fs es r"
begin

lemma accepts_narrow:
  assumes "distinct (map fact_key fs)" and "list_all entry_ok es" and "es' \<noteq> []" and "set es' \<subseteq> set es"
    and "accepts fs es r"
  shows "accepts fs es' r"
proof -
  have "list_all entry_ok es'" using assms(2,4) by (auto simp: list_all_iff)
  moreover have "es \<noteq> []" using assms(3,4) by auto
  moreover have "serves fs es r \<Longrightarrow> serves fs es' r" using assms(4) unfolding serves_def by blast
  ultimately show ?thesis using assms by (simp add: accepts_iff)
qed

lemma accepts_each:
  assumes "distinct (map fact_key fs)" and "list_all entry_ok es" and "es \<noteq> []"
  shows "accepts fs es r \<longleftrightarrow> (\<forall>e\<in>set es. accepts fs [e] r)"
proof -
  have one: "accepts fs [e] r \<longleftrightarrow> serves fs [e] r" if "e \<in> set es" for e
    using assms that by (intro accepts_iff) (simp_all add: list_all_iff)
  have uniq: "f = f'" if "f \<in> set fs" "f' \<in> set fs" "fact_key f = fact_key f'" for f f'
    using assms(1) that by (auto simp: distinct_map inj_on_def)
  obtain e0 where "e0 \<in> set es" using assms(3) by (meson last_in_set)
  with uniq have "serves fs es r" if "\<forall>e\<in>set es. serves fs [e] r"
    using that unfolding serves_def by simp metis
  moreover have "serves fs [e] r" if "serves fs es r" "e \<in> set es" for e using that unfolding serves_def by auto
  ultimately show ?thesis using one by (auto simp: accepts_iff [OF assms])
qed

lemma accepts_unique: "route_check accepts' \<Longrightarrow> distinct (map fact_key fs) \<Longrightarrow> list_all entry_ok es \<Longrightarrow> es \<noteq> [] \<Longrightarrow>
    accepts fs es r \<longleftrightarrow> accepts' fs es r"
  by (simp add: accepts_iff route_check.accepts_iff)

end

lemma find_fact:
  assumes "distinct (map fact_key fs)"
  shows "List.find (\<lambda>f. fact_key f = k) fs = Some f \<longleftrightarrow> f \<in> set fs \<and> fact_key f = k"
proof
  assume "f \<in> set fs \<and> fact_key f = k"
  with assms show "List.find (\<lambda>f. fact_key f = k) fs = Some f" by (intro find_unique) (auto simp: distinct_map inj_on_def)
qed (auto dest: find_Some_set)

lemma find_serves:
  assumes "distinct (map fact_key fs)"
  shows "serves fs es r \<longleftrightarrow> (case List.find (\<lambda>f. fact_key f = routeIdentityKey r) fs of None \<Rightarrow> False
     | Some f \<Rightarrow> rf_connectionActive f \<and> rf_available f \<and> (\<forall>e\<in>set es. meetsRequirements f (re_capabilityRequirements e)))"
proof (cases "List.find (\<lambda>f. fact_key f = routeIdentityKey r) fs")
  case None
  then have "\<forall>f\<in>set fs. fact_key f \<noteq> routeIdentityKey r" by (simp add: find_None_set)
  then show ?thesis by (simp add: serves_def None)
next
  case (Some x)
  then have eq: "f \<in> set fs \<and> fact_key f = routeIdentityKey r \<longleftrightarrow> f = x" for f
    unfolding find_fact [OF assms, symmetric] by auto
  have "serves fs es r \<longleftrightarrow> (\<exists>f. (f \<in> set fs \<and> fact_key f = routeIdentityKey r) \<and> rf_connectionActive f \<and> rf_available f
      \<and> (\<forall>e\<in>set es. meetsRequirements f (re_capabilityRequirements e)))"
    unfolding serves_def by blast
  then show ?thesis by (simp add: eq Some)
qed

interpretation store_check: route_check "\<lambda>fs es r. validate_route r es fs = None"
proof
  fix fs es r assume "distinct (map fact_key fs)"
  then show "validate_route r es fs = None \<longleftrightarrow> serves fs es r"
    by (cases "List.find (\<lambda>f. fact_key f = routeIdentityKey r) fs") (auto simp: find_serves validate_route_def fact_key_def list_ex_iff)
qed

lemma meets_same: "meets_requirements q f = meetsRequirements f q"
  by (auto simp: meets_requirements_def meetsRequirements_def)

interpretation resolver_check: route_check "\<lambda>fs es r. \<forall>e\<in>set es. validateRoute r e fs b = None" for b
proof
  fix fs and es :: "registry_entry list" and r assume "distinct (map fact_key fs)" "es \<noteq> []"
  moreover obtain e0 where "e0 \<in> set es" using \<open>es \<noteq> []\<close> by (meson last_in_set)
  ultimately show "(\<forall>e\<in>set es. validateRoute r e fs b = None) \<longleftrightarrow> serves fs es r"
    by (cases "List.find (\<lambda>f. fact_key f = routeIdentityKey r) fs")
      (auto simp: find_serves validateRoute_def fact_key_def Let_def meets_same split: if_splits)
qed

lemma capability_none: "capability_reasons req v u w = [] \<longleftrightarrow> \<not> req \<or> v = Some (Some True)"
  by (auto simp: capability_reasons_def)

lemma reasons_none:
  assumes "requirements_ok q"
  shows "routeReasons f q = [] \<longleftrightarrow>
    (case f of None \<Rightarrow> False | Some x \<Rightarrow> rf_connectionActive x \<and> rf_available x \<and> meetsRequirements x q)"
proof (cases f)
  case (Some x)
  let ?m = "cq_minimumContextWindowTokens q"
  have window: "(case rf_contextWindowTokens x of None \<Rightarrow> [context_window_unknown] | Some n \<Rightarrow> if n < ?m then [context_window_too_small] else []) = []
      \<longleftrightarrow> ?m \<le> (case rf_contextWindowTokens x of None \<Rightarrow> - 1 | Some n \<Rightarrow> n)"
    using assms by (simp add: requirements_ok_def split: option.split)
  show ?thesis by (simp add: Some routeReasons_def capability_none meetsRequirements_def window)
qed (simp add: routeReasons_def)

lemma foldr_max_le: "foldr max xs n \<le> (k :: int) \<longleftrightarrow> n \<le> k \<and> (\<forall>x\<in>set xs. x \<le> k)"
  by (induction xs) auto

lemma foldr_max_ge: "(n :: int) \<le> foldr max xs n"
  by (induction xs) auto

lemma aggregate_ok:
  assumes "list_all entry_ok es" and "aggregateRequirements es = Some q"
  shows "requirements_ok q"
proof (cases es)
  case (Cons e es')
  let ?ms = "map cq_minimumContextWindowTokens (map re_capabilityRequirements es')"
    and ?m = "cq_minimumContextWindowTokens (re_capabilityRequirements e)"
  have "cq_minimumContextWindowTokens q = foldr max ?ms ?m" using assms(2) by (auto simp: Cons)
  moreover have "0 < cq_minimumContextWindowTokens (re_capabilityRequirements a) \<and> cq_minimumContextWindowTokens (re_capabilityRequirements a) \<le> 10000000"
    if "a \<in> set es" for a using assms(1) that by (auto simp: list_all_iff entry_ok_def requirements_ok_def)
  moreover from this have "0 < foldr max ?ms ?m" using foldr_max_ge [of ?m ?ms] by (force simp: Cons)
  ultimately show ?thesis by (simp add: requirements_ok_def foldr_max_le Cons)
qed (use assms(2) in simp)

lemma aggregate_meets:
  assumes "aggregateRequirements es = Some q"
  shows "meetsRequirements f q \<longleftrightarrow> (\<forall>e\<in>set es. meetsRequirements f (re_capabilityRequirements e))"
proof (cases es)
  case (Cons e es')
  with assms have q: "cq_minimumContextWindowTokens q \<le> k \<longleftrightarrow> (\<forall>e\<in>set es. cq_minimumContextWindowTokens (re_capabilityRequirements e) \<le> k)"
      "cq_requiresTools q \<longleftrightarrow> (\<exists>e\<in>set es. cq_requiresTools (re_capabilityRequirements e))"
      "cq_requiresApi q \<longleftrightarrow> (\<exists>e\<in>set es. cq_requiresApi (re_capabilityRequirements e))"
      "cq_requiresReasoning q \<longleftrightarrow> (\<exists>e\<in>set es. cq_requiresReasoning (re_capabilityRequirements e))" for k
    by (auto simp: foldr_max_le list_ex_iff)
  show ?thesis unfolding meetsRequirements_def q by blast
qed (use assms in simp)

lemma aggregate_single: "aggregateRequirements [e] = Some (re_capabilityRequirements e)"
  by simp

definition matrix_accepts :: "route_fact list \<Rightarrow> registry_entry list \<Rightarrow> route_identity \<Rightarrow> bool" where
  "matrix_accepts fs es r \<longleftrightarrow> (case aggregateRequirements es of None \<Rightarrow> False
     | Some q \<Rightarrow> routeReasons (List.find (\<lambda>f. fact_key f = routeIdentityKey r) fs) q = [])"

interpretation matrix_check: route_check matrix_accepts
proof
  fix fs es r assume a: "distinct (map fact_key fs)" "list_all entry_ok es" "es \<noteq> []"
  from a(3) obtain q where q: "aggregateRequirements es = Some q" by (cases es) auto
  show "matrix_accepts fs es r \<longleftrightarrow> serves fs es r"
    by (simp add: matrix_accepts_def q reasons_none [OF aggregate_ok [OF a(2) q]] find_serves [OF a(1)] aggregate_meets [OF q]
        cong: option.case_cong)
qed

end
