(* ===== verification/CatalogProperties.thy ===== *)
theory CatalogProperties
  imports CatalogListing
begin

text \<open>What the catalog promises: exclusive claims, a faithful snapshot, bounded diagnostics and a dashboard that shows every connection.\<close>

section \<open>Helpers\<close>

lemma strict_sorted_unique:
  "strict_cmp f (set xs) \<Longrightarrow> sorted_wrt (\<lambda>a b. f a b < 0) xs \<Longrightarrow> sorted_wrt (\<lambda>a b. f a b < 0) ys \<Longrightarrow> set xs = set ys \<Longrightarrow> xs = ys"
proof (induction xs arbitrary: ys)
  case (Cons x xs)
  from Cons.prems(4) obtain y zs where ys: "ys = y # zs" by (cases ys) auto
  have irrefl: "\<not> f u u < 0" if "u \<in> set (x # xs)" for u
    using strict_cmp_anti [OF Cons.prems(1) that that] by linarith
  have "x = y"
  proof (rule ccontr)
    assume ne: "x \<noteq> y"
    have "f y x < 0" using Cons.prems(3,4) ne by (auto simp: ys)
    moreover have "f x y < 0" using Cons.prems(2,4) ne by (auto simp: ys)
    moreover have "f x y < 0 \<longleftrightarrow> 0 < f y x" using Cons.prems(4) by (intro strict_cmp_anti [OF Cons.prems(1)]) (auto simp: ys)
    ultimately show False by linarith
  qed
  have "x \<notin> set xs" using Cons.prems(2) irrefl [of x] by auto
  moreover have "x \<notin> set zs" using Cons.prems(3) irrefl [of x] by (auto simp: ys \<open>x = y\<close>)
  ultimately have "set xs = set zs" using Cons.prems(4) by (auto simp: ys \<open>x = y\<close>)
  moreover have "strict_cmp f (set xs)" by (rule strict_cmp_subset [OF Cons.prems(1)]) auto
  ultimately show ?case using Cons.IH [of zs] Cons.prems(2,3) by (simp add: ys \<open>x = y\<close>)
qed simp

lemma diagnostics_sorted:
  "distinct (map dg_diagnosticId ds) \<Longrightarrow> sorted_wrt (\<lambda>a b. newest_first a b < 0) (diagnostics_of ds c)"
  "distinct (map dg_diagnosticId ds) \<Longrightarrow> strict_cmp newest_first {d \<in> set ds. dg_connectionId d = c}"
proof -
  assume d: "distinct (map dg_diagnosticId ds)"
  then have inj: "inj_on dg_diagnosticId (set (filter (\<lambda>d. dg_connectionId d = c) ds))"
    by (auto simp: distinct_map intro: inj_on_subset)
  with d show "sorted_wrt (\<lambda>a b. newest_first a b < 0) (diagnostics_of ds c)"
    unfolding diagnostics_of_def by (intro sort_by_strict strict_newest_first) (simp_all add: distinct_map)
  from strict_newest_first [OF inj] show "strict_cmp newest_first {d \<in> set ds. dg_connectionId d = c}" by simp
qed

lemma diagnostics_of_set:
  assumes "distinct (map dg_diagnosticId ds)" and "sorted_wrt (\<lambda>a b. newest_first a b < 0) xs"
    and "set xs = {d \<in> set ds. dg_connectionId d = c}"
  shows "diagnostics_of ds c = xs"
  using diagnostics_sorted [OF assms(1), of c] assms(2,3) by (intro strict_sorted_unique) simp_all

lemma deleteOld_newest:
  assumes "distinct (map dg_diagnosticId ds)"
  shows "diagnostics_of (deleteOldDiagnostics c ds) c = take RETENTION_LIMIT (diagnostics_of ds c)"
proof (rule diagnostics_of_set [OF prune_distinct [OF assms]])
  show "sorted_wrt (\<lambda>a b. newest_first a b < 0) (take RETENTION_LIMIT (diagnostics_of ds c))"
    using diagnostics_sorted(1) [OF assms] by (rule sorted_wrt_take)
  have "set (take RETENTION_LIMIT (diagnostics_of ds c)) \<inter> set (drop RETENTION_LIMIT (diagnostics_of ds c)) = {}"
    using distinct_diagnostics_of [OF assms] by (rule set_take_disj_set_drop_if_distinct) simp
  moreover have "set (diagnostics_of ds c) = set (take RETENTION_LIMIT (diagnostics_of ds c)) \<union> set (drop RETENTION_LIMIT (diagnostics_of ds c))"
    by (metis append_take_drop_id set_append)
  ultimately have "set (take RETENTION_LIMIT (diagnostics_of ds c)) = set (diagnostics_of ds c) - set (drop RETENTION_LIMIT (diagnostics_of ds c))"
    by blast
  then show "set (take RETENTION_LIMIT (diagnostics_of ds c)) = {d \<in> set (deleteOldDiagnostics c ds). dg_connectionId d = c}"
    by (simp add: prune_member [OF assms]) blast
qed

lemma deleteOld_other:
  assumes "distinct (map dg_diagnosticId ds)" and "b \<noteq> c"
  shows "diagnostics_of (deleteOldDiagnostics c ds) b = diagnostics_of ds b"
proof (rule diagnostics_of_set [OF prune_distinct [OF assms(1)]])
  show "sorted_wrt (\<lambda>x y. newest_first x y < 0) (diagnostics_of ds b)" by (rule diagnostics_sorted(1) [OF assms(1)])
  show "set (diagnostics_of ds b) = {d \<in> set (deleteOldDiagnostics c ds). dg_connectionId d = b}"
    using prune_other [OF assms] by simp
qed

section \<open>The ledger\<close>

text \<open>C14. The ledger gives every connection to at most one scan at a time: whatever operations the processes run and in whatever
  order, the successful claims and settlements of a connection alternate, a settlement names exactly the version and attempt of the
  claim before it, every row stays valid, and the version of a row never goes back.\<close>

theorem ledger_claims_alternate:
  assumes "ledger_ok L" and "run_events ledger_exec L ops = (events, M)"
  shows "ledger_ok M \<and> alternating (holder L c) (filter (\<lambda>e. event_key e = c) events)
     \<and> (\<forall>r. row L c = Some r \<longrightarrow> (\<exists>q. row M c = Some q \<and> lr_reconciliationVersion r \<le> lr_reconciliationVersion q))"
  using claims.run_sound [OF assms] claims.run_alternates [OF assms] run_version [OF assms] by blast

section \<open>The snapshot of a scan\<close>

lemma sort_by_cong: "(\<And>x y. x \<in> set xs \<Longrightarrow> y \<in> set xs \<Longrightarrow> f x y = g x y) \<Longrightarrow> sort_by f xs = sort_by g xs"
proof (induction xs)
  case (Cons x xs)
  have ins: "insert_by f x ys = insert_by g x ys" if "set ys \<subseteq> set (x # xs)" for ys
    using that by (induction ys) (simp_all add: Cons.prems)
  have "sort_by f xs = sort_by g xs" using Cons by simp
  moreover have "insert_by f x (sort_by g xs) = insert_by g x (sort_by g xs)" by (rule ins) auto
  ultimately show ?case by (simp add: sort_by_def)
qed (simp add: sort_by_def)

lemma sort_by_map: "sort_by f (map g xs) = map g (sort_by (\<lambda>x y. f (g x) (g y)) xs)"
proof (induction xs)
  case (Cons x xs)
  have "insert_by f (g x) (map g ys) = map g (insert_by (\<lambda>x y. f (g x) (g y)) x ys)" for ys by (induction ys) simp_all
  with Cons show ?case by (simp add: sort_by_def)
qed (simp add: sort_by_def)

lemma insertModels_total:
  assumes "distinct (map cm_modelId ms)" and "\<forall>m\<in>set ms. cm_connectionId m = c" and "\<forall>r\<in>set rs. mr_connection_id r \<noteq> c \<or> mr_model_id r \<notin> cm_modelId ` set ms"
  shows "insertModels ms rs = Some (rs @ map model_columns ms)"
  using assms
proof (induction ms arbitrary: rs)
  case (Cons m ms)
  have "insertModels ms (rs @ [model_columns m]) = Some ((rs @ [model_columns m]) @ map model_columns ms)"
    using Cons.prems by (intro Cons.IH) (auto simp: model_columns_def)
  moreover have "insertModel m rs = Some (rs @ [model_columns m])"
    using Cons.prems by (auto simp: insertModel_def list_ex_iff)
  ultimately show ?case by simp
qed simp

text \<open>Reading the models of a connection whose rows were just written.\<close>

lemma written_models:
  assumes "filter (\<lambda>r. mr_connection_id r = c) (ks_models S) = map model_columns ms" and "\<forall>m\<in>set ms. model_ok m \<and> cm_connectionId m = c"
  shows "listModelsForConnection S c = Some (sort_by (\<lambda>a b. str_cmp (cm_modelId a) (cm_modelId b)) ms)"
proof -
  have "sort_by (\<lambda>a b. by_identity (model_columns a) (model_columns b)) ms = sort_by (\<lambda>a b. str_cmp (cm_modelId a) (cm_modelId b)) ms"
    using assms(2) by (intro sort_by_cong) (simp add: by_identity_def model_columns_def)
  moreover have "parse_all rowToCatalogModel (map model_columns (sort_by f ms)) = Some (sort_by f ms)" for f
    using assms(2) by (intro parse_all_map) (simp add: row_of_model)
  ultimately show ?thesis by (simp add: listModelsForConnection_def assms(1) sort_by_map)
qed

lemma applyScanOutcome_success:
  assumes "outcome_ok collate sto" and "distinct (map cm_modelId (os_models sto))"
    and "dg_diagnosticId (os_diagnostic sto) \<notin> dg_diagnosticId ` set (ks_diagnostics S)"
  shows "applyScanOutcome collate sto S = Some
     \<lparr>ks_models = deleteModelsForConnection (os_connectionId sto) (ks_models S) @ map model_columns (os_models sto),
      ks_diagnostics = deleteOldDiagnostics (os_connectionId sto) (ks_diagnostics S @ [os_diagnostic sto])\<rparr>"
proof -
  have "insertModels (os_models sto) (deleteModelsForConnection (os_connectionId sto) (ks_models S))
      = Some (deleteModelsForConnection (os_connectionId sto) (ks_models S) @ map model_columns (os_models sto))"
    using assms(1,2) by (intro insertModels_total) (auto simp: outcome_ok_def list_all_iff deleteModelsForConnection_def)
  moreover have "insertDiagnostic (os_diagnostic sto) (ks_diagnostics S) = Some (ks_diagnostics S @ [os_diagnostic sto])"
    using assms(3) by (auto simp: insertDiagnostic_Some image_iff)
  ultimately show ?thesis using assms(1) by (simp add: applyScanOutcome_def)
qed

lemma safe_message_bounded: "bounded MAX_TEXT (safeMessages x)"
  by (cases x) (simp_all add: bounded_def MAX_TEXT_def)

lemma safeConnection_id: "normalizeConnection (safeConnectionForNormalizer p) = Some conn \<Longrightarrow> sn_connectionId conn = pv_connectionId p"
  by (auto simp: normalizeConnection_def safeConnectionForNormalizer_def Option.bind_eq_Some_conv split: if_splits)

text \<open>C21. A scan of an active connection whose answer the normaliser accepts publishes exactly that catalog: the scan succeeds with
  the number of models the normaliser returned, the models of the connection are then those models and no others, in the order of
  their identifiers, whatever the catalog held before, the models of every other connection stay as they were, and the diagnostic of
  the scan is added to the connection's last ones. The collation has to tell the identifiers of the snapshot apart.\<close>

theorem snapshot_published:
  assumes "isBoundedString c" and "isBoundedString corr" and "isBoundedString (de_uuid en)"
    and "de_connection en = Some p" and "pv_connectionId p = c" and "pv_lifecycleState p = lc_active" and "de_answer en = Scan_payload payload"
    and "normalizeDiscoveredCatalog collate (safeConnectionForNormalizer p) payload (de_scanAt en) = Inr ms"
    and "strict_cmp collate (cm_modelId ` set ms)" and "\<And>i. collate i i = 0"
    and "de_uuid en \<notin> dg_diagnosticId ` set (ks_diagnostics S)"
  shows "\<exists>res S'. discover collate en c corr S = (Some res, S') \<and> sr_outcome res = sc_success \<and> sr_modelCount res = int (length ms)
     \<and> listModelsForConnection S' c = Some (sort_by (\<lambda>a b. str_cmp (cm_modelId a) (cm_modelId b)) ms)
     \<and> (\<forall>b. b \<noteq> c \<longrightarrow> listModelsForConnection S' b = listModelsForConnection S b)
     \<and> ks_diagnostics S' = deleteOldDiagnostics c (ks_diagnostics S @ [sr_diagnostic res])"
proof -
  let ?d = "createCatalogScanDiagnostic (de_uuid en) c corr sc_success None (de_scanAt en)"
  let ?sto = "\<lparr>os_connectionId = c, os_models = ms, os_diagnostic = ?d\<rparr>"
  note norm = normalized_ascending [OF assms(8-10)]
  have models: "list_all (\<lambda>m. cm_connectionId m = c) ms" using norm(2) safeConnection_id [of p] assms(5) by auto
  have d: "dg_diagnosticId ?d = de_uuid en" "dg_connectionId ?d = c" "dg_outcome ?d = sc_success" "diagnostic_ok ?d"
    using assms(1-3) norm(5) safe_message_bounded [of sc_success]
    by (simp_all add: createCatalogScanDiagnostic_def diagnostic_ok_def isBoundedString_def isNullableHttpStatusCode_def null_or_def)
  have "outcome_ok collate ?sto" using assms(1) norm(1,3) models d by (simp add: outcome_ok_def isBoundedString_def)
  from applyScanOutcome_success [OF this, of S] norm(4) assms(11)
  have stored: "applyScanOutcome collate ?sto S = Some \<lparr>ks_models = deleteModelsForConnection c (ks_models S) @ map model_columns ms,
      ks_diagnostics = deleteOldDiagnostics c (ks_diagnostics S @ [?d])\<rparr>" (is "_ = Some ?S") by (simp add: d)
  have rows: "filter (\<lambda>r. mr_connection_id r = b) (map model_columns ms) = (if b = c then map model_columns ms else [])" for b
    using models by (auto simp: list_all_iff filter_id_conv filter_empty_conv)
  have "discover collate en c corr S = (Some \<lparr>sr_connectionId = c, sr_scanCorrelationId = corr, sr_outcome = sc_success,
      sr_modelCount = int (length ms), sr_diagnostic = ?d\<rparr>, ?S)"
    using assms(1,2,4-8) stored by (simp add: discover_def persistResult_def Let_def)
  moreover have "listModelsForConnection ?S c = Some (sort_by (\<lambda>a b. str_cmp (cm_modelId a) (cm_modelId b)) ms)"
    using norm(1) models by (intro written_models) (simp_all add: filter_deleted rows list_all_iff)
  moreover have "listModelsForConnection ?S b = listModelsForConnection S b" if "b \<noteq> c" for b
    using that by (simp add: listModelsForConnection_def filter_deleted rows)
  ultimately show ?thesis by (intro exI conjI) (assumption | simp)+
qed

section \<open>Retention\<close>

text \<open>C20. At most twenty diagnostics of a connection are kept, and they are the newest: after an outcome is stored, the diagnostics of
  its connection are the first twenty, newest first, of those kept before and the new one (once, when a failure is stored again),
  nothing of any other connection is touched and the rows stay valid.\<close>

theorem retention_newest:
  assumes "store_ok S" and "applyScanOutcome collate sto S = Some S' \<or> applyIdempotentFailureOutcome collate sto S = Some S'"
  shows "diagnostics_of (ks_diagnostics S') (os_connectionId sto) = take 20 (diagnostics_of
       (if os_diagnostic sto \<in> set (ks_diagnostics S) then ks_diagnostics S else ks_diagnostics S @ [os_diagnostic sto]) (os_connectionId sto))
     \<and> length (diagnostics_of (ks_diagnostics S') (os_connectionId sto)) \<le> 20
     \<and> (\<forall>b. b \<noteq> os_connectionId sto \<longrightarrow> diagnostics_of (ks_diagnostics S') b = diagnostics_of (ks_diagnostics S) b)
     \<and> store_ok S'"
proof -
  let ?d = "os_diagnostic sto" and ?c = "os_connectionId sto"
  let ?ds = "if ?d \<in> set (ks_diagnostics S) then ks_diagnostics S else ks_diagnostics S @ [?d]"
  have ok: "outcome_ok collate sto" "store_ok S'"
    using assms(2) applyScanOutcome_stored [OF assms(1)] applyIdempotent_stored [OF assms(1)] by (auto simp: stored_outcome_def)
  have "ks_diagnostics S' = deleteOldDiagnostics ?c ?ds \<and> distinct (map dg_diagnosticId ?ds)"
    using assms unfolding applyScanOutcome_def applyIdempotentFailureOutcome_def
    by (auto simp: store_ok_def insertDiagnostic_Some rowToCatalogDiagnostic_def Option.bind_eq_Some_conv split: if_splits option.splits
        dest!: find_Some_set)
  then have ds: "ks_diagnostics S' = deleteOldDiagnostics ?c ?ds" "distinct (map dg_diagnosticId ?ds)" by blast+
  have "diagnostics_of ?ds b = diagnostics_of (ks_diagnostics S) b" if "b \<noteq> ?c" for b
    using that ok(1) by (auto simp: diagnostics_of_def outcome_ok_def)
  with ok(2) show ?thesis
    by (simp add: ds(1) deleteOld_newest [OF ds(2)] deleteOld_other [OF ds(2)] RETENTION_LIMIT_def del: if_split cong: if_cong)
qed

section \<open>The dashboard\<close>

text \<open>C3. Every active connection can be shown at every moment: in every world the scans, crashes and restarts can reach, for every set
  of connections whose identifiers are distinct and whose strings are bounded, the listing succeeds; it has exactly the active
  connections, in ascending order of their identifiers, and each state is valid, has the scan state of the connection's row (never
  scanned when there is none) and, once a scan is settled, the number of models the catalog holds for it.\<close>

theorem listing_total:
  assumes "reachable collate sha w" and "connections_ok ps" and "int (length (ks_models (db_store (wd_db w)))) \<le> 2 ^ 53 - 1"
  shows "\<exists>states. listActiveConnectionStates ps (wd_db w) = Some states
     \<and> ascending (map as_connectionId states)
     \<and> set (map as_connectionId states) = {pv_connectionId p | p. p \<in> set ps \<and> pv_lifecycleState p = lc_active}
     \<and> (\<forall>s\<in>set states. as_scanState s = lr_scanState (effective_row (db_ledger (wd_db w)) (as_connectionId s))
          \<and> (as_scanState s \<in> {sa_available, sa_empty, sa_failed} \<longrightarrow>
               as_modelCount s = Some (int (model_count_of (db_store (wd_db w)) (as_connectionId s)))))"
proof -
  let ?db = "wd_db w"
  let ?active = "filter (\<lambda>p. pv_lifecycleState p = lc_active) (sort_by compareConnections ps)"
  note ok = reachable_ok [OF assms(1)]
  have "as_modelCount s = Some (int (model_count_of (db_store ?db) (as_connectionId s)))"
    if s: "s = shown_connection ?db p" and settled: "as_scanState s \<in> {sa_available, sa_empty, sa_failed}" for s p
  proof -
    let ?r = "effective_row (db_ledger ?db) (pv_connectionId p)"
    have st: "lr_scanState ?r \<in> {sa_available, sa_empty, sa_failed}" using settled by (simp add: s shown_connection_def Let_def)
    then obtain r where "row (db_ledger ?db) (pv_connectionId p) = Some r" "?r = r"
      by (cases "row (db_ledger ?db) (pv_connectionId p)") (auto simp: effective_row_def never_scanned_row_def)
    with row_Some [OF this(1)] world_consistent [OF ok, of r] st have "lr_modelCount ?r = Some (int (model_count_of (db_store ?db) (pv_connectionId p)))"
      by (auto simp: consistent_row_def validateConsistentFacts_def)
    then show ?thesis by (simp add: s shown_connection_def Let_def)
  qed
  then show ?thesis
    using world_listing [OF ok assms(2,3)] listing_ascending [OF assms(2), of ?db]
    by (intro exI [of _ "map (shown_connection ?db) ?active"]) (auto simp: shown_connection_def Let_def)
qed

section \<open>A connection revoked during its scan\<close>

lemma latestTimestamp_total: "\<forall>t\<in>set ts. canonical_iso t \<Longrightarrow> \<exists>t. latestTimestamp ts = Some t"
  using parse_all_map [of ts canonicalTimestamp id] by (simp add: latestTimestamp_def canonicalTimestamp_def)

lemma settled_record_ok:
  assumes "record_ok e" and "lr_scanState e = scanning" and "settle_ok i" and "lr_claimedAt e = Some claimed"
    and "date_parse claimed \<le> date_parse (si_settledAt i)"
  shows "record_ok (settled_record e i)"
proof -
  obtain tr a where "lr_trigger e = Some tr" "lr_attemptId e = Some a"
    using assms(1,2) by (auto simp: record_ok_def state_ok_def split: option.splits)
  then show ?thesis
    using assms by (cases "si_settledOutcome i") (auto simp: record_ok_def state_ok_def settled_ok_def settled_record_def settle_ok_def)
qed

lemma settle_total:
  assumes "ledger_ok L" and "settle_ok i" and "row L (si_connectionId i) = Some e" and "lr_scanState e = scanning"
    and "lr_reconciliationVersion e = si_reconciliationVersion i" and "lr_attemptId e = Some (si_attemptId i)"
    and "lr_claimedAt e = Some claimed" and "date_parse claimed \<le> date_parse (si_settledAt i)"
  shows "settleAttempt i L = Some (settled_record e i, upsert (settled_record e i) L)"
proof -
  have "record_ok e" using assms(1) row_Some [OF assms(3)] by (simp add: ledger_ok_def)
  from settled_record_ok [OF this assms(4,2,7,8)] show ?thesis using assms by (simp add: settle_Some [OF assms(1)])
qed

lemma settled_diagnostics_missing:
  "r \<in> set rs \<Longrightarrow> lr_diagnosticId r = Some i \<Longrightarrow> i \<notin> dg_diagnosticId ` set (ks_diagnostics S) \<Longrightarrow> settled_diagnostics S rs = None"
proof (induction rs)
  case (Cons q rs)
  show ?case
  proof (cases "q = r")
    case True
    have "List.find (\<lambda>d. dg_diagnosticId d = i) ds = None" if "listDiagnostics S (lr_connectionId q) (int RETENTION_LIMIT) = Some ds" for ds
    proof -
      have "set ds \<subseteq> set (ks_diagnostics S)"
        using that in_set_takeD by (fastforce simp: listDiagnostics_def rowToCatalogDiagnostic_def Option.bind_eq_Some_conv
            dest: parse_all_image split: if_splits)
      with Cons.prems(3) show ?thesis by (auto simp: find_None_iff)
    qed
    then show ?thesis using True Cons.prems(2) by (auto simp: Option.bind_eq_None_conv)
  next
    case False
    with Cons show ?thesis by (auto split: option.split)
  qed
qed simp

lemma listing_missing:
  assumes "ledger_ok (db_ledger db)" and "row (db_ledger db) c = Some r" and "c \<in> pv_connectionId ` set ps"
    and "lr_diagnosticId r = Some i" and "i \<notin> dg_diagnosticId ` set (ks_diagnostics (db_store db))"
  shows "listActiveConnectionStates ps db = None"
proof -
  let ?rs = "filter (\<lambda>r. lr_connectionId r \<in> pv_connectionId ` set ps) (sort_by compareByConnectionId (db_ledger db))"
  have "r \<in> set ?rs" using row_Some [OF assms(2)] assms(3) by simp
  from settled_diagnostics_missing [OF this assms(4,5)] show ?thesis
    unfolding listActiveConnectionStates_def list_ledger_ok [OF assms(1)] Let_def by (simp add: Option.bind_eq_None_conv)
qed

text \<open>C40. A connection that is revoked, deleted or gone between its claim and its discovery makes the dashboard fail for every
  connection: the scan is refused and settled as a failure whose diagnostic was never stored, so as long as the connection is listed
  the states cannot be listed at all, neither those of this connection nor those of any other.\<close>

theorem revoked_scan_blocks_listing:
  assumes "ledger_ok (db_ledger db)" and "claim_scan en c tr mode (db_ledger db) = Some (Claimed r, L)"
    and "\<not> isScannable (de_connection (se_discovery en))"
    and "common_era (se_claimedAt en)" and "common_era (de_scanAt (se_discovery en))" and "common_era (se_settledNow en)"
    and "isBoundedString (de_uuid (se_discovery en))" and "de_uuid (se_discovery en) \<notin> dg_diagnosticId ` set (ks_diagnostics (db_store db))"
    and "c \<in> pv_connectionId ` set ps"
  shows "\<exists>q db'. execute collate sha en c tr mode db = (Some q, db') \<and> lr_scanState q = sa_failed
     \<and> lr_outcomeCode q = Some (Scan_code sc_not_scannable) \<and> db_store db' = db_store db
     \<and> listActiveConnectionStates ps db' = None"
proof -
  let ?a = "se_attemptId en" and ?t = "se_claimedAt en" and ?now = "se_settledNow en" and ?res = "refusedScan (se_discovery en) c (se_attemptId en)"
  let ?i = "\<lparr>ci_connectionId = c, ci_reconciliationVersion = TARGET_VERSION, ci_trigger = tr, ci_attemptId = ?a, ci_claimedAt = ?t, ci_mode = mode\<rparr>"
  have "claimAttempt ?i (db_ledger db) = Some (Claimed r, L)"
    using assms(2) by (auto simp: claim_scan_def canonicalTimestamp_def Option.bind_eq_Some_conv split: if_splits)
  then have claim: "claim_ok ?i" "r = claimed_record ?i" "L = upsert r (db_ledger db)"
    by (auto simp: claim_Some [OF assms(1)] split: option.splits if_splits)
  then have c: "isBoundedString c" "isBoundedString ?a" "lr_connectionId r = c" "row L c = Some r" "lr_scanState r = scanning"
      "lr_reconciliationVersion r = TARGET_VERSION" "lr_attemptId r = Some ?a" "lr_claimedAt r = Some ?t"
    by (simp_all add: claim_ok_def claimed_record_def)
  have L: "ledger_ok L" unfolding claim(3) using assms(1) claimed_record_ok [OF claim(1)] claim(2) by (simp add: ledger_ok_upsert)
  have disc: "discover collate (se_discovery en) c ?a (db_store db) = (Some ?res, db_store db)"
    using c(1,2) assms(3) by (auto simp: discover_def isScannable_def split: option.splits)
  have d: "sr_diagnostic ?res = createCatalogScanDiagnostic (de_uuid (se_discovery en)) c ?a sc_not_scannable None (de_scanAt (se_discovery en))"
      "dg_occurredAt (sr_diagnostic ?res) = de_scanAt (se_discovery en)" "dg_safeMessage (sr_diagnostic ?res) = safeMessages sc_not_scannable"
      "dg_diagnosticId (sr_diagnostic ?res) = de_uuid (se_discovery en)" "dg_connectionId (sr_diagnostic ?res) = c"
      "dg_scanCorrelationId (sr_diagnostic ?res) = ?a" "sr_outcome ?res = sc_not_scannable" "sr_modelCount ?res = 0"
      "sr_connectionId ?res = c" "sr_scanCorrelationId ?res = ?a"
    by (simp_all add: refusedScan_def createCatalogScanDiagnostic_def)
  let ?ts = "[?t, de_scanAt (se_discovery en), ?now]"
  obtain settled where settled: "latestTimestamp ?ts = Some settled"
    using latestTimestamp_total [of ?ts] assms(4-6) by (auto simp: common_era_def)
  have late: "canonical_iso settled" "date_parse ?t \<le> date_parse settled"
    using latestTimestamp_Some [OF settled] assms(4-6) by (auto simp: common_era_def)
  let ?s = "\<lparr>si_connectionId = c, si_reconciliationVersion = TARGET_VERSION, si_attemptId = ?a, si_settledAt = settled,
      si_settledOutcome = so_failed, si_modelCount = 0, si_outcomeCode = Scan_code sc_not_scannable,
      si_safeOutcomeMessage = safeMessages sc_not_scannable, si_diagnosticId = de_uuid (se_discovery en)\<rparr>"
  have "settle_ok ?s"
    using c(1,2) late(1) assms(7) safe_message_bounded [of sc_not_scannable]
    by (simp add: settle_ok_def isPositiveInteger_def isNonNegativeInteger_def isSafeInteger_def TARGET_VERSION_def outcomeMatchesState_def
        isBoundedString_def del: safeMessages.simps)
  from settle_total [OF L this, of r ?t] c late(2)
  have settle: "settleAttempt ?s L = Some (settled_record r ?s, upsert (settled_record r ?s) L)" (is "_ = Some (?q, ?M)") by simp
  have "settleDiscoveryResult r ?res ?now L = Some (?q, ?M)"
    using settled settle c(3,6-8) by (simp add: settleDiscoveryResult_def d(2-10) isSafeInteger_def del: safeMessages.simps)
  then have run: "execute collate sha en c tr mode db = (Some ?q, \<lparr>db_ledger = ?M, db_store = db_store db\<rparr>)"
    by (simp add: execute_def assms(2) disc)
  have q: "lr_connectionId ?q = c" "lr_diagnosticId ?q = Some (de_uuid (se_discovery en))" using c(3) by (simp_all add: settled_record_def)
  have "ledger_ok ?M" using settle_step(1) [OF L settle] .
  from listing_missing [of "\<lparr>db_ledger = ?M, db_store = db_store db\<rparr>" c ?q ps, OF _ _ assms(9) q(2)] this q(1) assms(8)
  have "listActiveConnectionStates ps \<lparr>db_ledger = ?M, db_store = db_store db\<rparr> = None" by simp
  with run show ?thesis by (intro exI [of _ ?q] exI [of _ "\<lparr>db_ledger = ?M, db_store = db_store db\<rparr>"]) (simp add: settled_record_def)
qed

section \<open>Concrete runs\<close>

definition t0 :: string where "t0 = ''2026-01-01T00:00:00.000Z''"
definition t1 :: string where "t1 = ''2026-01-01T00:00:01.000Z''"

lemma sample_times [simp]: "canonical_iso t0" "canonical_iso t1" "common_era t0" "common_era t1"
proof -
  show c: "canonical_iso t0" "canonical_iso t1"
    by (simp_all add: t0_def t1_def canonical_iso_def ISO_TAIL_RE_def instant_ok_def decimal_at_def month_days_def rx_eval char_eval Let_def)
  show "common_era t0" "common_era t1" using c by (simp_all add: common_era_def) (simp_all add: t0_def t1_def)
qed

lemma sample_parse [simp]: "date_parse t0 = 1767225600000" "date_parse t1 = 1767225601000"
  by code_simp+

definition sample_connection :: "string \<Rightarrow> provider_connection" where
  "sample_connection c = \<lparr>pv_connectionId = c, pv_kind = pk_custom, pv_label = ''L'', pv_lifecycleState = lc_active\<rparr>"

definition sample_scan :: "provider_connection option \<Rightarrow> scanner_answer \<Rightarrow> scan_env" where
  "sample_scan p ans =
     \<lparr>se_connection = Some (sample_connection ''c''), se_attemptId = ''a'', se_claimedAt = t0,
      se_discovery = \<lparr>de_connection = p, de_scanAt = t0, de_answer = ans, de_uuid = ''d'', de_notified = True\<rparr>,
      se_settledNow = t1, se_failureNotified = True, se_failedNow = t1\<rparr>"

definition sample_claim :: ledger_record where
  "sample_claim = claimed_record \<lparr>ci_connectionId = ''c'', ci_reconciliationVersion = TARGET_VERSION, ci_trigger = individual_retry,
     ci_attemptId = ''a'', ci_claimedAt = t0, ci_mode = force_settled\<rparr>"

lemma sample_claimed: "claim_scan (sample_scan p ans) ''c'' individual_retry force_settled [] = Some (Claimed sample_claim, [sample_claim])"
proof -
  have "ledger_ok []" by (simp add: ledger_ok_def)
  then show ?thesis
    by (simp add: claim_scan_def sample_scan_def isScannable_def sample_connection_def canonicalTimestamp_def claim_Some claim_ok_def
        isBoundedString_def bounded_def MAX_TEXT_def isPositiveInteger_def isSafeInteger_def TARGET_VERSION_def sample_claim_def)
qed

definition sample_db :: catalog_db where
  "sample_db = \<lparr>db_ledger = [], db_store = \<lparr>ks_models = [], ks_diagnostics = []\<rparr>\<rparr>"

definition sample_claim_input :: "string \<Rightarrow> claim_input" where
  "sample_claim_input a = \<lparr>ci_connectionId = ''c'', ci_reconciliationVersion = TARGET_VERSION, ci_trigger = individual_retry,
     ci_attemptId = a, ci_claimedAt = t0, ci_mode = force_settled\<rparr>"

definition sample_settle_input :: "scan_outcome \<Rightarrow> string \<Rightarrow> settle_input" where
  "sample_settle_input x t = \<lparr>si_connectionId = ''c'', si_reconciliationVersion = TARGET_VERSION, si_attemptId = ''a'', si_settledAt = t,
     si_settledOutcome = so_failed, si_modelCount = 0, si_outcomeCode = Scan_code x, si_safeOutcomeMessage = safeMessages x,
     si_diagnosticId = ''d''\<rparr>"

lemma sample_claim_eq: "sample_claim = claimed_record (sample_claim_input ''a'')"
  by (simp add: sample_claim_def sample_claim_input_def)

lemma sample_ledger: "ledger_ok []" "ledger_ok [sample_claim]" "row [sample_claim] ''c'' = Some sample_claim"
proof -
  show e: "ledger_ok []" by (simp add: ledger_ok_def)
  have "claimAttempt (sample_claim_input ''a'') [] = Some (Claimed sample_claim, [sample_claim])"
    by (simp add: claim_Some [OF e] claim_ok_def sample_claim_eq sample_claim_input_def isBoundedString_def bounded_def MAX_TEXT_def
        isPositiveInteger_def isSafeInteger_def TARGET_VERSION_def)
  from claim_step(1) [OF e this] show "ledger_ok [sample_claim]" .
  show "row [sample_claim] ''c'' = Some sample_claim" by (simp add: sample_claim_def claimed_record_def)
qed

lemma sample_ops:
  "claimAttempt (sample_claim_input ''a'') [] = Some (Claimed sample_claim, [sample_claim])"
  "claimAttempt (sample_claim_input ''b'') [sample_claim] = Some (Already_scanning sample_claim, [sample_claim])"
  "x \<noteq> sc_success \<Longrightarrow> t = t0 \<or> t = t1 \<Longrightarrow> settleAttempt (sample_settle_input x t) [sample_claim]
     = Some (settled_record sample_claim (sample_settle_input x t), [settled_record sample_claim (sample_settle_input x t)])"
proof -
  note simps = claim_ok_def sample_claim_input_def isBoundedString_def bounded_def MAX_TEXT_def isPositiveInteger_def isSafeInteger_def
    TARGET_VERSION_def
  show "claimAttempt (sample_claim_input ''a'') [] = Some (Claimed sample_claim, [sample_claim])"
    by (simp add: claim_Some [OF sample_ledger(1)] sample_claim_eq simps)
  have "lr_scanState sample_claim = scanning" by (simp add: sample_claim_def claimed_record_def)
  then show "claimAttempt (sample_claim_input ''b'') [sample_claim] = Some (Already_scanning sample_claim, [sample_claim])"
    using sample_ledger(3) by (simp add: claim_Some [OF sample_ledger(2)] simps del: row_single)
  assume x: "x \<noteq> sc_success" and t: "t = t0 \<or> t = t1"
  have "settle_ok (sample_settle_input x t)"
    using x t safe_message_bounded [of x]
    by (auto simp: settle_ok_def sample_settle_input_def simps isNonNegativeInteger_def outcomeMatchesState_def simp del: safeMessages.simps)
  from settle_total [OF sample_ledger(2) this, of sample_claim t0] t sample_ledger(3)
  show "settleAttempt (sample_settle_input x t) [sample_claim]
      = Some (settled_record sample_claim (sample_settle_input x t), [settled_record sample_claim (sample_settle_input x t)])"
    by (auto simp: sample_settle_input_def sample_claim_def claimed_record_def settled_record_def)
qed

lemma ledger_claims_alternate_witness:
  "run_events ledger_exec [] [Op_claim (sample_claim_input ''a''), Op_claim (sample_claim_input ''b''), Op_settle (sample_settle_input sc_timeout t1)]
     = ([Ev_claim ''c'' (2, ''a''), Ev_settle ''c'' (2, ''a'')], [settled_record sample_claim (sample_settle_input sc_timeout t1)])
   \<and> alternating (holder [] ''c'') (filter (\<lambda>e. event_key e = ''c'') [Ev_claim ''c'' (2, ''a''), Ev_settle ''c'' (2 :: int, ''a'')])"
proof -
  have "run_events ledger_exec [] [Op_claim (sample_claim_input ''a''), Op_claim (sample_claim_input ''b''), Op_settle (sample_settle_input sc_timeout t1)]
     = ([Ev_claim ''c'' (2, ''a''), Ev_settle ''c'' (2, ''a'')], [settled_record sample_claim (sample_settle_input sc_timeout t1)])"
    by (simp add: sample_ops) (simp add: sample_claim_input_def sample_settle_input_def TARGET_VERSION_def)
  with ledger_claims_alternate [OF sample_ledger(1) this] show ?thesis by blast
qed

lemma revoked_scan_blocks_listing_witness:
  "\<exists>q db'. execute str_cmp (\<lambda>x. x) (sample_scan None (Scan_failure sc_timeout None)) ''c'' individual_retry force_settled sample_db = (Some q, db')
     \<and> lr_scanState q = sa_failed \<and> listActiveConnectionStates [sample_connection ''c'', sample_connection ''other''] db' = None"
proof -
  let ?en = "sample_scan None (Scan_failure sc_timeout None)"
  have "ledger_ok (db_ledger sample_db)" by (simp add: sample_db_def sample_ledger(1))
  moreover have "claim_scan ?en ''c'' individual_retry force_settled (db_ledger sample_db) = Some (Claimed sample_claim, [sample_claim])"
    by (simp add: sample_db_def sample_claimed)
  ultimately have "\<exists>q db'. execute str_cmp (\<lambda>x. x) ?en ''c'' individual_retry force_settled sample_db = (Some q, db') \<and> lr_scanState q = sa_failed
     \<and> lr_outcomeCode q = Some (Scan_code sc_not_scannable) \<and> db_store db' = db_store sample_db
     \<and> listActiveConnectionStates [sample_connection ''c'', sample_connection ''other''] db' = None"
    by (rule revoked_scan_blocks_listing)
      (simp_all add: sample_scan_def isScannable_def isBoundedString_def bounded_def MAX_TEXT_def sample_db_def sample_connection_def)
  then show ?thesis by blast
qed

definition sample_diagnostic :: "string \<Rightarrow> scan_outcome \<Rightarrow> diagnostic" where
  "sample_diagnostic i x = createCatalogScanDiagnostic i ''c'' ''a'' x None t0"

lemma sample_outcome_ok: "outcome_ok str_cmp \<lparr>os_connectionId = ''c'', os_models = [], os_diagnostic = sample_diagnostic ''d'' x\<rparr>"
  using safe_message_bounded [of x]
  by (simp add: outcome_ok_def sample_diagnostic_def createCatalogScanDiagnostic_def diagnostic_ok_def bounded_def MAX_TEXT_def
      isNullableHttpStatusCode_def null_or_def)

lemma retention_newest_witness:
  "\<exists>S'. applyScanOutcome str_cmp \<lparr>os_connectionId = ''c'', os_models = [], os_diagnostic = sample_diagnostic ''d'' sc_timeout\<rparr> (db_store sample_db) = Some S'
     \<and> diagnostics_of (ks_diagnostics S') ''c'' = [sample_diagnostic ''d'' sc_timeout]"
proof -
  let ?sto = "\<lparr>os_connectionId = ''c'', os_models = [], os_diagnostic = sample_diagnostic ''d'' sc_timeout\<rparr>"
  have ok: "store_ok (db_store sample_db)" by (simp add: store_ok_def sample_db_def)
  obtain S' where S': "applyScanOutcome str_cmp ?sto (db_store sample_db) = Some S'"
    using applyScanOutcome_success [OF sample_outcome_ok [of sc_timeout], of "db_store sample_db"] by (simp add: sample_db_def)
  with retention_newest [OF ok disjI1 [OF S']] show ?thesis
    by (simp add: sample_db_def diagnostics_of_def sort_by_def sample_diagnostic_def createCatalogScanDiagnostic_def)
qed

definition sample_payload :: jsv where
  "sample_payload = JObj [(''models'', JArr [JObj [(''modelId'', JStr ''z'')], JObj [(''modelId'', JStr ''m'')]])]"

definition sample_safe :: safe_connection where
  "sample_safe = \<lparr>sn_connectionId = ''c'', sn_kind = pk_custom, sn_label = ''L''\<rparr>"

definition sample_model :: "string \<Rightarrow> catalog_model" where
  "sample_model i =
     \<lparr>cm_connectionId = ''c'', cm_modelId = i, cm_providerKind = pk_custom, cm_providerLabel = ''L'', cm_displayName = None,
      cm_description = None, cm_contextWindowTokens = None, cm_maxOutputTokens = None, cm_inputModalities = [],
      cm_capabilities = \<lparr>ca_reasoning = None, ca_tools = None, ca_api = None\<rparr>, cm_pricing = None, cm_lastSuccessfulScanAt = t0\<rparr>"

lemma sample_normalized:
  "normalizeDiscoveredCatalog str_cmp (safeConnectionForNormalizer (sample_connection ''c'')) sample_payload t0 = Inr [sample_model ''m'', sample_model ''z'']"
proof -
  have "normalizeConnection (safeConnectionForNormalizer (sample_connection ''c'')) = Some sample_safe" by code_simp
  moreover have "isRecord sample_payload \<and> as_array (jget sample_payload ''models'') = Some [JObj [(''modelId'', JStr ''z'')], JObj [(''modelId'', JStr ''m'')]]"
    by code_simp
  moreover have "normalize_candidates str_cmp sample_safe t0 {} [JObj [(''modelId'', JStr ''z'')], JObj [(''modelId'', JStr ''m'')]]
      = Inr [sample_model ''z'', sample_model ''m'']" by code_simp
  moreover have "sort_by (compareCatalogModels str_cmp) [sample_model ''z'', sample_model ''m''] = [sample_model ''m'', sample_model ''z'']" by code_simp
  ultimately show ?thesis by (simp add: normalizeDiscoveredCatalog_def)
qed

lemma snapshot_published_witness:
  "\<exists>res S'. discover str_cmp (se_discovery (sample_scan (Some (sample_connection ''c'')) (Scan_payload sample_payload))) ''c'' ''a'' (db_store sample_db) = (Some res, S')
     \<and> sr_modelCount res = 2 \<and> listModelsForConnection S' ''c'' = Some [sample_model ''m'', sample_model ''z'']"
proof -
  let ?en = "se_discovery (sample_scan (Some (sample_connection ''c'')) (Scan_payload sample_payload))"
  have "\<exists>res S'. discover str_cmp ?en ''c'' ''a'' (db_store sample_db) = (Some res, S')
     \<and> sr_outcome res = sc_success \<and> sr_modelCount res = int (length [sample_model ''m'', sample_model ''z''])
     \<and> listModelsForConnection S' ''c'' = Some (sort_by (\<lambda>a b. str_cmp (cm_modelId a) (cm_modelId b)) [sample_model ''m'', sample_model ''z''])
     \<and> (\<forall>b. b \<noteq> ''c'' \<longrightarrow> listModelsForConnection S' b = listModelsForConnection (db_store sample_db) b)
     \<and> ks_diagnostics S' = deleteOldDiagnostics ''c'' (ks_diagnostics (db_store sample_db) @ [sr_diagnostic res])"
    by (rule snapshot_published [of _ _ _ "sample_connection ''c''" sample_payload])
      (simp_all add: sample_scan_def sample_connection_def isBoundedString_def bounded_def MAX_TEXT_def sample_normalized [unfolded sample_connection_def]
        strict_str_cmp sample_db_def)
  moreover have "sort_by (\<lambda>a b. str_cmp (cm_modelId a) (cm_modelId b)) [sample_model ''m'', sample_model ''z''] = [sample_model ''m'', sample_model ''z'']"
    by code_simp
  ultimately show ?thesis by auto
qed

text \<open>A scan that times out, step by step.\<close>

definition sample_timeout :: scan_env where
  "sample_timeout = sample_scan (Some (sample_connection ''c'')) (Scan_failure sc_timeout None)"

definition sample_world :: "int \<Rightarrow> world" where
  "sample_world t = \<lparr>wd_db = sample_db, wd_tasks = Map.empty, wd_clock = t\<rparr>"

lemma sample_run:
  "\<exists>w. reachable str_cmp (\<lambda>x. x) w \<and> db_ledger (wd_db w) = [settled_record sample_claim (sample_settle_input sc_timeout t1)] \<and> ks_models (db_store (wd_db w)) = []"
proof -
  let ?en = sample_timeout and ?step = "catalog_step str_cmp (\<lambda>x. x)" and ?w0 = "sample_world 0"
  let ?d = "sample_diagnostic ''d'' sc_timeout"
  let ?res = "\<lparr>sr_connectionId = ''c'', sr_scanCorrelationId = ''a'', sr_outcome = sc_timeout, sr_modelCount = 0, sr_diagnostic = ?d\<rparr>"
  let ?S = "\<lparr>ks_models = [], ks_diagnostics = deleteOldDiagnostics ''c'' [?d]\<rparr>"
  let ?q = "settled_record sample_claim (sample_settle_input sc_timeout t1)"
  let ?w1 = "advance ?w0 (sample_db\<lparr>db_ledger := [sample_claim]\<rparr>) ''c'' (Some (?en, T_claimed sample_claim)) t0"
  let ?w2 = "advance ?w1 ((wd_db ?w1)\<lparr>db_store := ?S\<rparr>) ''c'' (Some (?en, T_discovered sample_claim ?res)) t0"
  let ?w3 = "advance ?w2 ((wd_db ?w2)\<lparr>db_ledger := [?q]\<rparr>) ''c'' None t1"
  have en: "se_claimedAt ?en = t0" "se_settledNow ?en = t1" "se_attemptId ?en = ''a''" "de_scanAt (se_discovery ?en) = t0"
    by (simp_all add: sample_timeout_def sample_scan_def)
  have claimed: "claim_scan ?en ''c'' individual_retry force_settled [] = Some (Claimed sample_claim, [sample_claim])"
      and active: "still_active ?en ''c''"
    by (simp_all add: sample_timeout_def sample_claimed still_active_def) (simp add: sample_scan_def sample_connection_def)
  have start: "reachable str_cmp (\<lambda>x. x) ?w0" unfolding sample_world_def sample_db_def by (rule reachable.start)
  have one: "?step ?w0 ?w1"
    using catalog_step.claim [of ?w0 "''c''" ?en individual_retry force_settled sample_claim "[sample_claim]" str_cmp "\<lambda>x. x"]
    by (simp add: en claimed sample_world_def sample_db_def tick_def diagnostic_set_def)
  have "discover str_cmp (se_discovery ?en) ''c'' ''a'' (db_store sample_db) = (Some ?res, ?S)"
    using applyScanOutcome_success [OF sample_outcome_ok [of sc_timeout], of "db_store sample_db"]
    by (simp add: discover_def sample_timeout_def sample_scan_def sample_connection_def isBoundedString_def bounded_def MAX_TEXT_def persistResult_def
        listModelsForConnection_def sample_db_def sort_by_def sample_diagnostic_def deleteModelsForConnection_def createCatalogScanDiagnostic_def Let_def)
  then have two: "?step ?w1 ?w2"
    using catalog_step.discover [of ?w1 "''c''" ?en sample_claim str_cmp "Some ?res" ?S "\<lambda>x. x"]
    by (simp add: en active advance_def tick_def sample_db_def)
  have "latestTimestamp [t0, t0, t1] = Some t1" by (simp add: latestTimestamp_def canonicalTimestamp_def) code_simp
  then have "settleDiscoveryResult sample_claim ?res t1 [sample_claim] = Some (?q, [?q])"
    using sample_ops(3) [of sc_timeout t1]
    by (simp add: settleDiscoveryResult_def sample_claim_def claimed_record_def sample_diagnostic_def createCatalogScanDiagnostic_def
        isSafeInteger_def sample_settle_input_def)
  then have three: "?step ?w2 ?w3"
    using catalog_step.settle [of ?w2 "''c''" ?en sample_claim ?res ?q "[?q]" str_cmp "\<lambda>x. x"]
    by (simp add: en advance_def tick_def)
  have "reachable str_cmp (\<lambda>x. x) ?w3" by (rule reachable.step [OF reachable.step [OF reachable.step [OF start one] two] three])
  moreover have "db_ledger (wd_db ?w3) = [?q]" "ks_models (db_store (wd_db ?w3)) = []" by (simp_all add: advance_def)
  ultimately show ?thesis by blast
qed

lemma listing_total_witness:
  "\<exists>(w :: world) states. listActiveConnectionStates [sample_connection ''c'', (sample_connection ''b'')\<lparr>pv_lifecycleState := lc_revoked\<rparr>] (wd_db w) = Some states
     \<and> map as_connectionId states = [''c''] \<and> map as_scanState states = [sa_failed]"
proof -
  obtain w where w: "reachable str_cmp (\<lambda>x. x) w" "db_ledger (wd_db w) = [settled_record sample_claim (sample_settle_input sc_timeout t1)]"
      "ks_models (db_store (wd_db w)) = []" using sample_run by blast
  let ?ps = "[sample_connection ''c'', (sample_connection ''b'')\<lparr>pv_lifecycleState := lc_revoked\<rparr>]"
  have conn: "connections_ok ?ps" by (simp add: connections_ok_def sample_connection_def isBoundedString_def bounded_def MAX_TEXT_def)
  have "{pv_connectionId p | p. p \<in> set ?ps \<and> pv_lifecycleState p = lc_active}
      = pv_connectionId ` set (filter (\<lambda>p. pv_lifecycleState p = lc_active) ?ps)" by auto
  then have ids: "{pv_connectionId p | p. p \<in> set ?ps \<and> pv_lifecycleState p = lc_active} = {''c''}"
    by (simp add: sample_connection_def)
  have "int (length (ks_models (db_store (wd_db w)))) \<le> 2 ^ 53 - 1" by (simp add: w(3))
  from listing_total [OF w(1) conn this, unfolded ids] obtain states where s: "listActiveConnectionStates ?ps (wd_db w) = Some states"
      "ascending (map as_connectionId states)" "set (map as_connectionId states) = {''c''}"
      "\<forall>s\<in>set states. as_scanState s = lr_scanState (effective_row (db_ledger (wd_db w)) (as_connectionId s))
        \<and> (as_scanState s \<in> {sa_available, sa_empty, sa_failed} \<longrightarrow>
             as_modelCount s = Some (int (model_count_of (db_store (wd_db w)) (as_connectionId s))))"
    by blast
  from s(2,3) obtain x where x: "states = [x]" "as_connectionId x = ''c''"
  proof (cases states)
    case (Cons y ys)
    with s(2,3) show ?thesis using that by (cases ys) auto
  qed simp
  have "as_scanState x = sa_failed"
    using s(4) x by (simp add: w(2) effective_row_def settled_record_def sample_claim_def claimed_record_def sample_settle_input_def)
  with s(1) x have "listActiveConnectionStates ?ps (wd_db w) = Some states \<and> map as_connectionId states = [''c'']
      \<and> map as_scanState states = [sa_failed]" by simp
  then have "\<exists>states. listActiveConnectionStates ?ps (wd_db w) = Some states \<and> map as_connectionId states = [''c'']
      \<and> map as_scanState states = [sa_failed]" by (rule exI)
  then show ?thesis by (rule exI [of _ w])
qed

end
