(* ===== verification/Spec2Isabelle.thy ===== *)
theory Spec2Isabelle
  imports ReviewGateFacts ReplanStoreFacts DebtTouchFacts PhaseFacts DependencyFacts WorkItemFacts VerificationFacts RoutingResolution RoutingMatrixFacts CatalogProperties
begin

text \<open>
  \<^bold>\<open>Hepha: the decisions of an agentic development process.\<close>

  The orchestrator (\<open>apps/orchestrator\<close>) drives language-model agents through the phases of a feature: it selects
  the next task, dispatches a worker to a model route, reads its report, has the result reviewed and verified, and records
  what it decided in SQLite (\<open>packages/db\<close>) and in Markdown documents. \<open>packages/shared\<close> holds the contracts both
  sides exchange and \<open>apps/web\<close> shows them. Most of the code moves text between agents, files and the browser. The
  part on which the process depends is smaller: the policies that decide, and the ledgers that must not be corrupted. This
  development models that part.

  \<^bold>\<open>Parts and theories.\<close> A component has a theory with its data, guards and operations in the order of the code and
  one or more theories with its facts.

  \<^item> Review gate: \<open>ReviewGate\<close>, \<open>ReviewGateFacts\<close> (\<open>review-phase-gate-policy.ts\<close>). The gate takes the scope, the
    manifest, its lineage and the evidence and proposes one decision. \<open>gate_approves\<close> is the specification of approval;
    the facts give the refinement, the independence of the order of the evidence, the exactness of the input guard and the
    existence of evidence that lets a gate be passed.
  \<^item> Review contract: \<open>ReviewContract\<close> (\<open>review-contract-types.ts\<close>). Identifiers, paths and canonical text; a path that
    is accepted never leaves the directory it is resolved against.
  \<^item> Replan governance: \<open>ReplanGovernance\<close>, \<open>ReplanFacts\<close> (\<open>replan-governance-policy.ts\<close>), \<open>ReplanStore\<close>,
    \<open>ReplanStoreFacts\<close> (\<open>replan-operation-policy.ts\<close>, \<open>replan-event-repository.ts\<close>, \<open>replan-query-repository.ts\<close>).
    A state machine with an append-only log: the policy decides what may be recorded, the store records it under a version.
    The facts say that the log is a history of the machine, that a demanded replan is left only by an approval, that author
    and approver differ, and that an operation is recorded once.
  \<^item> Architecture debt: \<open>ArchDebt\<close>, \<open>ArchDebtFacts\<close>, \<open>DebtTouchFacts\<close> (\<open>architecture-debt-policy.ts\<close>). Triage of a
    debt record and the gate for plans that touch open debt.
  \<^item> Phases: \<open>PhasePolicies\<close>, \<open>PhaseFacts\<close> (\<open>phase-state-reconciliation-policy.ts\<close>, \<open>ordered-phase-task-policy.ts\<close>,
    \<open>phase-worker-result-policy.ts\<close>, \<open>generic-worker-result-policy.ts\<close>). Promotion and recovery of phases, the ordered
    queue, and the reading of a worker's report.
  \<^item> Order of candidates: \<open>DependencyOrder\<close>, \<open>DependencyFacts\<close> (\<open>batch-preview/dependency-order.ts\<close>).
  \<^item> Work items: \<open>WorkItems\<close>, \<open>WorkItemFacts\<close> (\<open>epic-state/lifecycle-state.ts\<close>, \<open>epic-board.ts\<close>,
    \<open>feature-board.ts\<close>, \<open>work-item-lifecycle.ts\<close>, \<open>workflow-state-machine.ts\<close>).
  \<^item> Final verification: \<open>FinalVerification\<close>, \<open>VerificationFacts\<close> (the loader of a profile, the policy and the serial
    loop of the adapter).
  \<^item> Routing: \<open>Routing\<close>, \<open>RoutingFacts\<close> (\<open>agent-routing.ts\<close>, \<open>agent-registry.ts\<close>, \<open>routing-resolver.ts\<close>,
    \<open>routing-action-resolver.ts\<close>). From an action to a plan of model routes. \<open>RoutingStore\<close>, \<open>RoutingStoreFacts\<close>,
    \<open>RoutingProperties\<close> (\<open>agent-routing-store.ts\<close> with the inputs of \<open>agent-routing-matrix.ts\<close>): the policy as immutable
    revisions in tables, changed one row at a time against the revision it was read from, reset when routes vanish, and searched
    for fallback cycles. \<open>routing_reachable\<close> is the store under any sequence of its operations. \<open>RoutingResolution\<close> puts the
    store under the resolver: a policy accepted row by row resolves every action. \<open>RoutingMatrix\<close>, \<open>RoutingMatrixFacts\<close>
    (the rest of \<open>agent-routing-matrix.ts\<close>, \<open>routing-catalog-facts.ts\<close>, \<open>routing-matrix-catalog-facts.ts\<close>,
    \<open>routing-matrix-projector.ts\<close>, \<open>routing-policy-service.ts\<close>): the read model of the editor, joined from registry, policy
    and catalog, and the service that reads, previews and saves its rows. Store, resolver and projector judge a route each in
    their own code; the locale \<open>route_check\<close> is what they have in common.
  \<^item> Catalog: \<open>Catalog\<close>, \<open>CatalogModels\<close>, \<open>CatalogStores\<close>, \<open>CatalogScans\<close>, \<open>CatalogFacts\<close>, \<open>CatalogWorld\<close>,
    \<open>CatalogListing\<close>, \<open>CatalogProperties\<close> (\<open>catalog-reconciliation.ts\<close>, \<open>model-catalog.ts\<close>, their stores and the
    scans under \<open>model-catalog/\<close>). Connections are claimed, scanned and settled; \<open>catalog_step\<close> composes the operations
    of stores, coordinator and startup into one transition system with crashes, over which the listing is total.
  \<^item> Shared: \<open>Prelude\<close> (guards as options, lists, insertion-ordered sets and maps), \<open>JsText\<close>, \<open>JsRegex\<close>, \<open>JsValue\<close>
    and \<open>JsDate\<close> (the language and its library), \<open>Versioned\<close> and \<open>ExclusiveClaims\<close> (two interfaces of the ledgers,
    locales that are interpreted on triage, on the replan store, on the rows of the routing policy and on the reconciliation ledger).

  \<^bold>\<open>How code becomes definitions.\<close> A type guard \<open>(v: unknown) => v is T\<close> is a function \<open>jsv \<Rightarrow> T option\<close> that
  returns the narrowed value exactly when the guard is true; a caller that holds a typed value asks the predicate
  \<open>..._ok\<close> of the record. A rejection is \<open>Inl\<close> of its code, a throw is \<open>None\<close> and rolls a transaction back, so that
  the caller keeps its tables; where something was written outside a transaction before a throw, the tables are returned
  beside the optional result. A table is the list of its rows in the order of insertion and a unique key is a check on
  insertion. SQLite compares text by code units, as \<open>str_cmp\<close> does. Sets and maps of the language keep insertion order.
  Strings are lists of code units below 256. Numbers that count are \<open>int\<close>; where the code asks for a safe integer the
  bound \<open>2 ^ 53 - 1\<close> is written out. Every regular expression of the modelled sources is used through \<open>test\<close> and has no
  captures, so it is an expression of \<open>JsRegex\<close> whose executable matcher is proved to be its meaning.

  \<^bold>\<open>Parameters.\<close> What is not under \<open>src\<close> or cannot be computed in the logic is an argument: SHA-256 (\<open>sha\<close>), the text
  of a number (\<open>num\<close>) or of a value (\<open>txt\<close>), locale collation (\<open>collate\<close>), the YAML parser's answer, the readings of the
  clock, fresh identifiers, the answers of processes, scanners and credential lookups.

  \<^bold>\<open>Termination.\<close> The loop over the queue of candidates is a \<open>partial_function\<close> and its termination the theorem
  \<open>ordering_returns\<close>. The search for fallback cycles is a mutual recursion that ends because the routes being visited grow within
  the keys of the map. Every other loop is structural or has a measure; no definition carries fuel.

  \<^bold>\<open>Clock of the catalog.\<close> The reachable worlds of \<open>catalog_step\<close> assume what the code relies on: the years have four
  digits, the clock of a step is not before that of the steps before it, and a claim is later than the connection's newest
  diagnostic. A discovery reads its clock at the step and touches only rows of its connection; the adoption of legacy
  evidence happens once before the first step. In one process the claim and the lookup that follows it happen in one turn;
  \<open>revoked_scan_blocks_listing\<close> shows what happens when another process intervenes.

  \<^bold>\<open>Not modelled.\<close> Asynchronous orchestration of agents and child processes, HTTP, server-sent events and the React
  dashboard: effects around the policies modelled here. Parsers and renderers of Markdown that use captures and
  look-around. Review ingestion and the repositories of artifacts, evidence and gates, whose rows the replan store takes as
  context. Provider credentials. Presentation text: redacted summaries and labels that no
  decision reads.
\<close>

end
